(* ===== verification/Prelude.thy ===== *)
theory Prelude
  imports Main "HOL-Library.AList" "HOL-Library.Sublist" "HOL-Library.Char_ord"
begin

text \<open>
  What every component uses of the JavaScript language: strings and the methods the
  sources call on them, decimal printing and \<open>parseInt\<close>, and objects used as
  dictionaries.

  A string is a list of characters; the sources handle header names, configuration
  values, URLs and identifiers, so a character is a code unit below 256 and case mapping
  is the ASCII one. An object of type \<open>Record<string,string>\<close> is an association list:
  an assignment to a present key keeps its place and a new key goes to the end, which is
  the iteration order of a JavaScript object (its prototype chain and the reordering of
  integer-like keys are not modelled). Reading a missing key gives \<open>undefined\<close>, here
  \<open>None\<close>.
\<close>

named_theorems js_simps \<open>evaluation of the string and dictionary operations\<close>
named_theorems frame_simps \<open>fields that an operation leaves unchanged\<close>

section \<open>Dictionaries\<close>

type_synonym dict = "(string \<times> string) list"

definition rget :: "('k \<times> 'v) list \<Rightarrow> 'k \<Rightarrow> 'v option" where
  "rget d k = map_of d k"

definition rset :: "'k \<Rightarrow> 'v \<Rightarrow> ('k \<times> 'v) list \<Rightarrow> ('k \<times> 'v) list" where
  "rset k v d = AList.update k v d"

definition rdel :: "'k \<Rightarrow> ('k \<times> 'v) list \<Rightarrow> ('k \<times> 'v) list" where
  "rdel k d = AList.delete k d"

text \<open>The operator \<open>a ?? b\<close>.\<close>

definition orelse :: "'a option \<Rightarrow> 'a \<Rightarrow> 'a" where
  "orelse a b = (case a of None \<Rightarrow> b | Some x \<Rightarrow> x)"

text \<open>The same operator where the right operand may be undefined too.\<close>

definition orelse_opt :: "'a option \<Rightarrow> 'a option \<Rightarrow> 'a option" where
  "orelse_opt a b = (case a of None \<Rightarrow> b | Some x \<Rightarrow> Some x)"

lemma orelse_simps [simp]: "orelse None b = b" "orelse (Some x) b = x"
  by (simp_all add: orelse_def)

lemma orelse_opt_simps [simp]: "orelse_opt None b = b" "orelse_opt (Some x) b = Some x"
  by (simp_all add: orelse_opt_def)

lemma rget_nil [simp]: "rget [] k = None"
  by (simp add: rget_def)

lemma rget_cons [simp]: "rget ((k', v) # d) k = (if k = k' then Some v else rget d k)"
  by (simp add: rget_def)

lemma rget_append: "rget (d @ d') k = orelse_opt (rget d k) (rget d' k)"
  by (simp add: rget_def orelse_opt_def map_add_def split: option.splits)

lemma rget_rset [simp]: "rget (rset k v d) k' = (if k' = k then Some v else rget d k')"
  by (simp add: rget_def rset_def update_conv')

lemma rget_rdel [simp]: "rget (rdel k d) k' = (if k' = k then None else rget d k')"
  by (simp add: rget_def rdel_def delete_conv')

lemma rget_SomeD: "rget d k = Some v \<Longrightarrow> (k, v) \<in> set d"
  by (simp add: rget_def map_of_SomeD)

lemma rget_None_iff: "rget d k = None \<longleftrightarrow> k \<notin> fst ` set d"
  by (simp add: rget_def map_of_eq_None_iff)

lemma rget_eq_Some_iff: "distinct (map fst d) \<Longrightarrow> rget d k = Some v \<longleftrightarrow> (k, v) \<in> set d"
  by (simp add: rget_def)

lemma rset_code [js_simps]:
  "rset k v [] = [(k, v)]"
  "rset k v ((k', v') # d) = (if k' = k then (k, v) # d else (k', v') # rset k v d)"
  by (simp_all add: rset_def)

lemma rdel_code [js_simps]:
  "rdel k [] = []"
  "rdel k ((k', v') # d) = (if k' = k then rdel k d else (k', v') # rdel k d)"
  by (simp_all add: rdel_def)

lemma distinct_rset [simp]: "distinct (map fst d) \<Longrightarrow> distinct (map fst (rset k v d))"
  by (simp add: rset_def distinct_update)

lemma distinct_rdel [simp]: "distinct (map fst d) \<Longrightarrow> distinct (map fst (rdel k d))"
  by (simp add: rdel_def distinct_delete)

lemma set_rset_same [simp]: "(k, v) \<in> set (rset k v d)"
  by (induction d) (auto simp: js_simps)

lemma set_rset_other: "k' \<noteq> k \<Longrightarrow> (k', v') \<in> set (rset k v d) \<longleftrightarrow> (k', v') \<in> set d"
  by (induction d) (auto simp: js_simps split: if_splits)

lemma keys_rset [simp]: "fst ` set (rset k v d) = insert k (fst ` set d)"
proof (induction d)
  case (Cons p d)
  then show ?case by (cases p) (simp add: js_simps insert_commute)
qed (simp add: js_simps)

lemma length_rset_new: "k \<notin> fst ` set d \<Longrightarrow> rset k v d = d @ [(k, v)]"
  by (induction d) (auto simp: js_simps)

section \<open>String methods\<close>

text \<open>The characters \<open>trim\<close> and \<open>\s\<close> take for white space (those below 256).\<close>

definition is_ws :: "char \<Rightarrow> bool" where
  "is_ws c = (of_char c \<in> {9::nat, 10, 11, 12, 13, 32, 160})"

definition js_trim_start :: "string \<Rightarrow> string" where
  "js_trim_start s = dropWhile is_ws s"

definition js_trim :: "string \<Rightarrow> string" where
  "js_trim s = rev (dropWhile is_ws (rev (dropWhile is_ws s)))"

definition lower_char :: "char \<Rightarrow> char" where
  "lower_char c = (if (65::nat) \<le> of_char c \<and> of_char c \<le> (90::nat)
     then char_of ((of_char c :: nat) + 32) else c)"

definition upper_char :: "char \<Rightarrow> char" where
  "upper_char c = (if (97::nat) \<le> of_char c \<and> of_char c \<le> (122::nat)
     then char_of ((of_char c :: nat) - 32) else c)"

definition js_lower :: "string \<Rightarrow> string" where
  "js_lower s = map lower_char s"

definition js_upper :: "string \<Rightarrow> string" where
  "js_upper s = map upper_char s"

definition starts_with :: "string \<Rightarrow> string \<Rightarrow> bool" where
  "starts_with s p = (take (length p) s = p)"

definition ends_with :: "string \<Rightarrow> string \<Rightarrow> bool" where
  "ends_with s p = (length p \<le> length s \<and> drop (length s - length p) s = p)"

fun str_includes :: "string \<Rightarrow> string \<Rightarrow> bool" where
  "str_includes [] p = (p = [])"
| "str_includes (c # s) p = (starts_with (c # s) p \<or> str_includes s p)"

text \<open>\<open>s.indexOf(c)\<close> for a one-character needle, with \<open>None\<close> for \<open>-1\<close>.\<close>

fun index_of :: "char \<Rightarrow> string \<Rightarrow> nat option" where
  "index_of c [] = None"
| "index_of c (x # s) = (if x = c then Some 0 else map_option Suc (index_of c s))"

text \<open>\<open>s.split(c)\<close> for a one-character separator.\<close>

fun split_on :: "char \<Rightarrow> string \<Rightarrow> string list" where
  "split_on c [] = [[]]"
| "split_on c (x # s) =
     (if x = c then [] # split_on c s
      else (case split_on c s of [] \<Rightarrow> [[x]] | p # ps \<Rightarrow> (x # p) # ps))"

fun join_with :: "string \<Rightarrow> string list \<Rightarrow> string" where
  "join_with sep [] = []"
| "join_with sep [s] = s"
| "join_with sep (s # t # ss) = s @ sep @ join_with sep (t # ss)"

text \<open>\<open>xs.filter(Boolean)\<close> on strings: the empty string is falsy.\<close>

definition nonempty :: "string list \<Rightarrow> string list" where
  "nonempty ss = filter (\<lambda>s. s \<noteq> []) ss"

text \<open>\<open>s.split(c).map((x) => x.trim()).filter(Boolean)\<close>, which many components call.\<close>

definition split_trim :: "char \<Rightarrow> string \<Rightarrow> string list" where
  "split_trim c s = nonempty (map js_trim (split_on c s))"

text \<open>\<open>s.split(/\s+/)\<close>: maximal runs of white space separate the parts.\<close>

function split_ws :: "string \<Rightarrow> string list" where
  "split_ws [] = [[]]"
| "split_ws (x # s) =
     (if is_ws x then [] # split_ws (dropWhile is_ws s)
      else (case split_ws s of [] \<Rightarrow> [[x]] | p # ps \<Rightarrow> (x # p) # ps))"
  by pat_completeness auto
termination
  by (relation "measure length") (auto simp: less_Suc_eq_le length_dropWhile_le)

text \<open>\<open>typeof v === 'string' && v\<close>: truthiness of an optional string.\<close>

definition truthy :: "string option \<Rightarrow> bool" where
  "truthy v = (case v of None \<Rightarrow> False | Some s \<Rightarrow> s \<noteq> [])"

definition str_of :: "string option \<Rightarrow> string" where
  "str_of v = orelse v []"

text \<open>A text between single quotes, as error messages print it.\<close>

definition quoted :: "string \<Rightarrow> string" where
  "quoted s = CHR 0x27 # s @ [CHR 0x27]"

lemma truthy_simps [simp]: "truthy None = False" "truthy (Some s) = (s \<noteq> [])"
  by (simp_all add: truthy_def)

lemma truthyE: "truthy v \<Longrightarrow> (\<And>s. v = Some s \<Longrightarrow> s \<noteq> [] \<Longrightarrow> P) \<Longrightarrow> P"
  by (cases v) auto

lemma str_of_simps [simp]: "str_of None = []" "str_of (Some s) = s"
  by (simp_all add: str_of_def)

lemma starts_with_prefix: "starts_with s p \<longleftrightarrow> prefix p s"
  unfolding starts_with_def by (metis append_eq_conv_conj prefix_def)

lemma starts_with_refl [simp]: "starts_with s s"
  by (simp add: starts_with_def)

lemma starts_with_append [simp]: "starts_with (p @ s) p"
  by (simp add: starts_with_def)

lemma starts_with_Nil [simp]: "starts_with s []"
  by (simp add: starts_with_def)

lemma starts_with_drop: "starts_with s p \<Longrightarrow> s = p @ drop (length p) s"
  unfolding starts_with_def by (metis append_take_drop_id)

lemma ends_with_suffix: "ends_with s p \<longleftrightarrow> suffix p s"
proof
  assume "ends_with s p"
  then have "s = take (length s - length p) s @ p"
    unfolding ends_with_def by (metis append_take_drop_id)
  then show "suffix p s" by (metis suffix_def)
next
  assume "suffix p s"
  then show "ends_with s p" by (auto simp: suffix_def ends_with_def)
qed

lemma split_on_nonempty [simp]: "split_on c s \<noteq> []"
  by (induction s) (auto split: list.splits)

lemma split_on_no_sep: "p \<in> set (split_on c s) \<Longrightarrow> c \<notin> set p"
  by (induction s arbitrary: p) (auto split: if_splits list.splits)

lemma join_split_on: "join_with [c] (split_on c s) = s"
proof (induction s)
  case (Cons x s)
  then show ?case
    by (cases "split_on c s"; cases "tl (split_on c s)") auto
qed simp

lemma split_on_absent: "c \<notin> set s \<Longrightarrow> split_on c s = [s]"
  by (induction s) auto

lemma split_on_append_sep: "c \<notin> set p \<Longrightarrow> split_on c (p @ c # s) = p # split_on c s"
  by (induction p) auto

lemma split_join_with:
  "ss \<noteq> [] \<Longrightarrow> (\<And>p. p \<in> set ss \<Longrightarrow> c \<notin> set p) \<Longrightarrow> split_on c (join_with [c] ss) = ss"
  by (induction ss rule: induct_list012) (auto simp: split_on_absent split_on_append_sep)

lemma index_of_None: "index_of c s = None \<longleftrightarrow> c \<notin> set s"
  by (induction s) auto

lemma index_of_Some:
  "index_of c s = Some n \<Longrightarrow> s = take n s @ c # drop (Suc n) s \<and> c \<notin> set (take n s)"
  by (induction s arbitrary: n) (auto split: if_splits)

lemma nonempty_set [simp]: "set (nonempty ss) = {s \<in> set ss. s \<noteq> []}"
  by (simp add: nonempty_def)

section \<open>Case mapping and trimming\<close>

lemma of_char_shift: "k < 256 \<Longrightarrow> of_char (char_of k :: char) = (k :: nat)"
  by simp

lemma lower_char_idem [simp]: "lower_char (lower_char c) = lower_char c"
  by (cases "(65::nat) \<le> of_char c \<and> of_char c \<le> (90::nat)") (auto simp: lower_char_def)

lemma upper_char_idem [simp]: "upper_char (upper_char c) = upper_char c"
  by (cases "(97::nat) \<le> of_char c \<and> of_char c \<le> (122::nat)") (auto simp: upper_char_def)

lemma js_lower_idem [simp]: "js_lower (js_lower s) = js_lower s"
  by (simp add: js_lower_def)

lemma js_upper_idem [simp]: "js_upper (js_upper s) = js_upper s"
  by (simp add: js_upper_def)

lemma js_lower_Nil [simp]: "js_lower [] = []" "js_lower s = [] \<longleftrightarrow> s = []"
  by (simp_all add: js_lower_def)

lemma js_upper_Nil [simp]: "js_upper [] = []" "js_upper s = [] \<longleftrightarrow> s = []"
  by (simp_all add: js_upper_def)

lemma js_trim_no_ws: "(\<And>c. c \<in> set s \<Longrightarrow> \<not> is_ws c) \<Longrightarrow> js_trim s = s"
proof -
  assume a: "\<And>c. c \<in> set s \<Longrightarrow> \<not> is_ws c"
  have d: "dropWhile is_ws t = t" if "set t \<subseteq> set s" for t
    using that a by (cases t) auto
  show "js_trim s = s" by (simp add: js_trim_def d)
qed

lemma js_trim_Nil [simp]: "js_trim [] = []"
  by (simp add: js_trim_def)

lemma js_trim_idem [simp]: "js_trim (js_trim s) = js_trim s"
proof -
  have h: "dropWhile P (rev (dropWhile P (rev t))) = rev (dropWhile P (rev t))"
    if "dropWhile P t = t" for P and t :: string
  proof (cases "rev (dropWhile P (rev t))")
    case (Cons c u)
    obtain v where "rev t = v @ dropWhile P (rev t)"
      by (metis takeWhile_dropWhile_id)
    then have "t = rev (dropWhile P (rev t)) @ rev v" by (metis rev_append rev_rev_ident)
    with Cons have "t = c # (u @ rev v)" by simp
    with that have "\<not> P c" by (metis dropWhile_eq_Cons_conv list.inject)
    then show ?thesis by (simp add: Cons)
  next
    case Nil
    then show ?thesis by (simp only: Nil dropWhile.simps)
  qed
  have "js_trim s = rev (dropWhile is_ws (rev (dropWhile is_ws s)))" by (simp add: js_trim_def)
  then show ?thesis
    using h [of is_ws "dropWhile is_ws s"] by (simp add: js_trim_def dropWhile_idem)
qed

section \<open>Sorting with a comparator\<close>

text \<open>
  \<open>xs.sort(cmp)\<close> is stable, so for a comparator that is a total preorder its result is
  that of insertion from the right. A comparator induced by a key sorts by that key.
\<close>

fun insert_by :: "('a \<Rightarrow> 'a \<Rightarrow> int) \<Rightarrow> 'a \<Rightarrow> 'a list \<Rightarrow> 'a list" where
  "insert_by cmp x [] = [x]"
| "insert_by cmp x (y # ys) = (if cmp x y \<le> 0 then x # y # ys else y # insert_by cmp x ys)"

definition js_sort :: "('a \<Rightarrow> 'a \<Rightarrow> int) \<Rightarrow> 'a list \<Rightarrow> 'a list" where
  "js_sort cmp xs = foldr (insert_by cmp) xs []"

lemma js_sort_sort_key:
  assumes "\<And>a b. cmp a b \<le> 0 \<longleftrightarrow> f a \<le> f b"
  shows "js_sort cmp = sort_key f"
proof -
  have "insert_by cmp x ys = insort_key f x ys" for x ys
    by (induction ys) (simp_all add: assms)
  then have "insert_by cmp = insort_key f" by (intro ext)
  then show ?thesis by (intro ext) (simp only: js_sort_def sort_key_def)
qed

lemma sort_key_hd_Cons:
  "hd (sort_key f (x # xs)) =
    (if sort_key f xs = [] \<or> f x \<le> f (hd (sort_key f xs)) then x else hd (sort_key f xs))"
proof -
  have "sort_key f (x # xs) = insort_key f x (sort_key f xs)" by (simp add: sort_key_def)
  then show ?thesis by (cases "sort_key f xs") simp_all
qed

lemma sort_key_Nil_iff: "sort_key f xs = [] \<longleftrightarrow> xs = []"
  by (metis set_empty set_sort)

text \<open>The head of a stable sort is the first of the elements with the least key.\<close>

lemma sort_key_hd_first:
  assumes "xs \<noteq> []"
  shows "\<exists>us vs. xs = us @ hd (sort_key f xs) # vs \<and>
    (\<forall>u \<in> set us. f (hd (sort_key f xs)) < f u) \<and> (\<forall>v \<in> set vs. f (hd (sort_key f xs)) \<le> f v)"
  using assms
proof (induction xs)
  case (Cons x xs)
  show ?case
  proof (cases "xs = [] \<or> f x \<le> f (hd (sort_key f xs))")
    case True
    have "f x \<le> f y" if "y \<in> set xs" for y
    proof -
      have ys: "y \<in> set (sort_key f xs)" using that by simp
      then obtain z zs where s: "sort_key f xs = z # zs" by (cases "sort_key f xs") auto
      have "sorted (map f (z # zs))" unfolding s [symmetric] by simp
      moreover have "y \<in> set (z # zs)" using ys unfolding s .
      ultimately have "f z \<le> f y" by auto
      moreover have "f x \<le> f z" using True that unfolding s by auto
      ultimately show ?thesis by (rule order.trans [rotated])
    qed
    then have le: "\<forall>v \<in> set xs. f x \<le> f v" by blast
    have h: "hd (sort_key f (x # xs)) = x"
      using True unfolding sort_key_hd_Cons sort_key_Nil_iff by (simp only: if_True)
    show ?thesis unfolding h
      by (intro exI [of _ "[]"] exI [of _ xs]) (simp add: le)
  next
    case False
    then have h: "hd (sort_key f (x # xs)) = hd (sort_key f xs)"
      unfolding sort_key_hd_Cons sort_key_Nil_iff by (simp only: if_False)
    from Cons.IH False obtain us vs where "xs = us @ hd (sort_key f xs) # vs"
      "\<forall>u \<in> set us. f (hd (sort_key f xs)) < f u" "\<forall>v \<in> set vs. f (hd (sort_key f xs)) \<le> f v"
      by blast
    with False show ?thesis unfolding h
      by (intro exI [of _ "x # us"] exI [of _ vs]) auto
  qed
qed simp

lemma filter_eq_appendE:
  assumes "filter P xs = us @ x # vs"
  obtains as bs where "xs = as @ x # bs" "filter P as = us" "filter P bs = vs" "P x"
proof -
  have "\<exists>as bs. xs = as @ x # bs \<and> filter P as = us \<and> filter P bs = vs \<and> P x"
    using assms
  proof (induction xs arbitrary: us)
    case (Cons y ys)
    show ?case
    proof (cases "P y")
      case False
      with Cons.prems have "filter P ys = us @ x # vs" by simp
      from Cons.IH [OF this] obtain as bs
        where "ys = as @ x # bs" "filter P as = us" "filter P bs = vs" "P x" by blast
      with False show ?thesis by (intro exI [of _ "y # as"] exI [of _ bs]) simp
    next
      case True
      show ?thesis
      proof (cases us)
        case Nil
        with Cons.prems True show ?thesis by (intro exI [of _ "[]"] exI [of _ ys]) simp
      next
        case (Cons u us')
        with Cons.prems True have "y = u" "filter P ys = us' @ x # vs" by simp_all
        from Cons.IH [OF this(2)] obtain as bs
          where "ys = as @ x # bs" "filter P as = us'" "filter P bs = vs" "P x" by blast
        with True Cons \<open>y = u\<close> show ?thesis by (intro exI [of _ "y # as"] exI [of _ bs]) simp
      qed
    qed
  qed simp
  with that show thesis by blast
qed

end
