(* ===== verification/JsNumber.thy ===== *)
theory JsNumber
  imports Prelude Complex_Main "HOL-Library.Word"
begin

unbundle bit_operations_syntax

text \<open>
  JavaScript numbers as far as the sources compute with them: decimal printing,
  \<open>parseInt(s, 10)\<close>, \<open>parseFloat\<close>, the conversion \<open>Number(s)\<close> and the conversion to
  32-bit integers of the bitwise operators. A finite number is a rational: a result
  that a double would round is kept exact, and the two zeros are one.
\<close>

datatype jsnum = NaN | Inf bool | Fin rat

section \<open>Decimal printing and \<open>parseInt\<close>\<close>

definition digit_char :: "nat \<Rightarrow> char" where
  "digit_char n = char_of (48 + n)"

definition is_digit :: "char \<Rightarrow> bool" where
  "is_digit c = ((48::nat) \<le> of_char c \<and> of_char c \<le> (57::nat))"

definition digit_val :: "char \<Rightarrow> nat" where
  "digit_val c = of_char c - 48"

definition digits_val :: "string \<Rightarrow> nat" where
  "digits_val s = foldl (\<lambda>a c. 10 * a + digit_val c) 0 s"

fun show_nat :: "nat \<Rightarrow> string" where
  "show_nat n = (if n < 10 then [digit_char n] else show_nat (n div 10) @ [digit_char (n mod 10)])"

declare show_nat.simps [simp del]

definition show_int :: "int \<Rightarrow> string" where
  "show_int i = (if i < 0 then CHR ''-'' # show_nat (nat (- i)) else show_nat (nat i))"

text \<open>An optional sign: the flag says that it is a minus.\<close>

fun parse_sign :: "string \<Rightarrow> bool \<times> string" where
  "parse_sign [] = (False, [])"
| "parse_sign (c # s) =
     (if c = CHR ''-'' then (True, s) else if c = CHR ''+'' then (False, s) else (False, c # s))"

definition signed :: "bool \<Rightarrow> int \<Rightarrow> int" where
  "signed neg i = (if neg then - i else i)"

text \<open>\<open>parseInt(s, 10)\<close>; \<open>None\<close> is \<open>NaN\<close>.\<close>

definition parse_int :: "string \<Rightarrow> int option" where
  "parse_int s =
     (let (neg, u) = parse_sign (js_trim_start s); ds = takeWhile is_digit u
      in if ds = [] then None else Some (signed neg (int (digits_val ds))))"

lemma is_digit_digit_char [simp]: "n < 10 \<Longrightarrow> is_digit (digit_char n)"
  by (simp add: is_digit_def digit_char_def)

lemma digit_val_digit_char [simp]: "n < 10 \<Longrightarrow> digit_val (digit_char n) = n"
  by (simp add: digit_val_def digit_char_def)

lemma digits_val_snoc: "digits_val (s @ [c]) = 10 * digits_val s + digit_val c"
  by (simp add: digits_val_def)

lemma show_nat_digits: "c \<in> set (show_nat n) \<Longrightarrow> is_digit c"
proof (induction n rule: show_nat.induct)
  case (1 n)
  then show ?case
    by (cases "n < 10") (auto simp: show_nat.simps [of n])
qed

lemma show_nat_nonempty [simp]: "show_nat n \<noteq> []"
  by (simp add: show_nat.simps [of n])

lemma digits_val_show_nat [simp]: "digits_val (show_nat n) = n"
proof (induction n rule: show_nat.induct)
  case (1 n)
  show ?case
  proof (cases "n < 10")
    case True
    then show ?thesis by (simp add: show_nat.simps [of n] digits_val_def)
  next
    case False
    with 1 show ?thesis
      by (simp add: show_nat.simps [of n] digits_val_snoc)
  qed
qed

lemma takeWhile_show_nat [simp]: "takeWhile is_digit (show_nat n) = show_nat n"
  by (simp add: takeWhile_eq_all_conv show_nat_digits)

lemma digit_not_ws: "is_digit c \<Longrightarrow> \<not> is_ws c"
  by (auto simp: is_digit_def is_ws_def)

lemma digit_not_sign: "is_digit c \<Longrightarrow> c \<noteq> CHR ''-'' \<and> c \<noteq> CHR ''+''"
  by (auto simp: is_digit_def)

lemma digit_not_dot: "is_digit c \<Longrightarrow> c \<noteq> CHR ''.''"
  by (auto simp: is_digit_def)

lemma show_nat_Cons: "\<exists>c s. show_nat n = c # s \<and> is_digit c"
  using show_nat_digits [of _ n] show_nat_nonempty [of n] by (cases "show_nat n") auto

lemma parse_int_show_nat [simp]: "parse_int (show_nat n) = Some (int n)"
proof -
  obtain c s where c: "show_nat n = c # s" "is_digit c"
    using show_nat_Cons by blast
  then have "js_trim_start (show_nat n) = show_nat n" "parse_sign (show_nat n) = (False, show_nat n)"
    by (simp_all add: js_trim_start_def digit_not_ws digit_not_sign)
  then show ?thesis by (simp add: parse_int_def signed_def)
qed

lemma parse_int_show_int [simp]: "parse_int (show_int i) = Some i"
proof (cases "i < 0")
  case True
  then show ?thesis
    by (simp add: show_int_def parse_int_def js_trim_start_def is_ws_def signed_def)
next
  case False
  then show ?thesis by (simp add: show_int_def)
qed

lemma show_int_inj: "show_int i = show_int j \<longleftrightarrow> i = j"
  by (metis parse_int_show_int option.inject)

section \<open>\<open>Number(s)\<close> and \<open>parseFloat\<close>\<close>

text \<open>
  The decimal literal at the front of a string: its value and the rest. \<open>10\<^sup>e\<close> with a
  negative \<open>e\<close> is a division.
\<close>

definition pow10 :: "int \<Rightarrow> rat" where
  "pow10 e = (if 0 \<le> e then 10 ^ nat e else 1 / 10 ^ nat (- e))"

definition parse_exponent :: "string \<Rightarrow> int \<times> string" where
  "parse_exponent s =
     (case s of [] \<Rightarrow> (0, s)
      | c # r \<Rightarrow>
          if c = CHR ''e'' \<or> c = CHR ''E''
          then (let (neg, u) = parse_sign r; ds = takeWhile is_digit u
                in if ds = [] then (0, s)
                   else (signed neg (int (digits_val ds)), dropWhile is_digit u))
          else (0, s))"

definition parse_fraction :: "string \<Rightarrow> string \<times> string" where
  "parse_fraction s =
     (case s of [] \<Rightarrow> ([], s)
      | c # r \<Rightarrow> if c = CHR ''.'' then (takeWhile is_digit r, dropWhile is_digit r) else ([], s))"

definition parse_decimal :: "string \<Rightarrow> (jsnum \<times> string) option" where
  "parse_decimal s =
     (let (neg, u) = parse_sign s
      in if starts_with u ''Infinity'' then Some (Inf neg, drop 8 u)
         else (let ip = takeWhile is_digit u; (fp, r) = parse_fraction (dropWhile is_digit u)
               in if ip = [] \<and> fp = [] then None
                  else (let (e, r') = parse_exponent r;
                            m = of_int (signed neg (int (digits_val (ip @ fp))))
                        in Some (Fin (m * pow10 (e - int (length fp))), r'))))"

definition hex_val :: "char \<Rightarrow> nat option" where
  "hex_val c =
     (let n = (of_char c :: nat)
      in if 48 \<le> n \<and> n \<le> 57 then Some (n - 48)
         else if 97 \<le> n \<and> n \<le> 102 then Some (n - 87)
         else if 65 \<le> n \<and> n \<le> 70 then Some (n - 55) else None)"

text \<open>All the digits of a literal in the given base, \<open>None\<close> if there is another character.\<close>

fun radix_val :: "nat \<Rightarrow> nat \<Rightarrow> string \<Rightarrow> nat option" where
  "radix_val b a [] = Some a"
| "radix_val b a (c # s) =
     (case hex_val c of None \<Rightarrow> None | Some d \<Rightarrow> if d < b then radix_val b (b * a + d) s else None)"

definition radix_literal :: "nat \<Rightarrow> string \<Rightarrow> jsnum" where
  "radix_literal b s =
     (if s = [] then NaN
      else case radix_val b 0 s of None \<Rightarrow> NaN | Some n \<Rightarrow> Fin (of_nat n))"

definition js_Number :: "string \<Rightarrow> jsnum" where
  "js_Number s =
     (let t = js_trim s; p = js_lower (take 2 t)
      in if t = [] then Fin 0
         else if p = ''0x'' then radix_literal 16 (drop 2 t)
         else if p = ''0o'' then radix_literal 8 (drop 2 t)
         else if p = ''0b'' then radix_literal 2 (drop 2 t)
         else case parse_decimal t of Some (v, []) \<Rightarrow> v | _ \<Rightarrow> NaN)"

definition parse_float :: "string \<Rightarrow> jsnum" where
  "parse_float s =
     (case parse_decimal (js_trim_start s) of None \<Rightarrow> NaN | Some (v, _) \<Rightarrow> v)"

lemma dropWhile_show_nat [simp]: "dropWhile is_digit (show_nat n) = []"
  by (simp add: dropWhile_eq_Nil_conv show_nat_digits)

lemma js_trim_id:
  assumes "\<And>c. c \<in> set s \<Longrightarrow> \<not> is_ws c" shows "js_trim s = s"
proof -
  have *: "dropWhile is_ws t = t" if "\<And>c. c \<in> set t \<Longrightarrow> \<not> is_ws c" for t
    using that by (cases t) auto
  have "dropWhile is_ws s = s" "dropWhile is_ws (rev s) = rev s"
    using assms by (auto intro!: *)
  then show ?thesis by (simp add: js_trim_def)
qed

lemma show_nat_hd_only_digits: "js_lower (take 2 (show_nat n)) \<notin> {''0x'', ''0o'', ''0b''}"
proof
  assume "js_lower (take 2 (show_nat n)) \<in> {''0x'', ''0o'', ''0b''}"
  then obtain c d s where s: "show_nat n = c # d # s"
      "lower_char d \<in> {CHR ''x'', CHR ''o'', CHR ''b''}"
    by (cases "show_nat n"; cases "tl (show_nat n)") (auto simp: js_lower_def)
  then have "is_digit d" using show_nat_digits [of d n] by simp
  then have "lower_char d = d" by (simp add: is_digit_def lower_char_def)
  with s(2) \<open>is_digit d\<close> show False by (auto simp: is_digit_def)
qed

lemma js_Number_show_nat [simp]: "js_Number (show_nat n) = Fin (of_nat n)"
proof -
  obtain c s where c: "show_nat n = c # s" "is_digit c"
    using show_nat_Cons by blast
  have "js_trim (show_nat n) = show_nat n"
    by (rule js_trim_id) (simp add: show_nat_digits digit_not_ws)
  moreover have "parse_sign (show_nat n) = (False, show_nat n)"
    using c by (simp add: digit_not_sign)
  moreover have "\<not> starts_with (show_nat n) ''Infinity''"
    using c by (auto simp: starts_with_def is_digit_def)
  ultimately show ?thesis
    using show_nat_hd_only_digits [of n]
    by (simp add: js_Number_def parse_decimal_def parse_fraction_def parse_exponent_def
        signed_def pow10_def)
qed

section \<open>32-bit integers\<close>

text \<open>\<open>ToInt32\<close> and \<open>ToUint32\<close> give the same 32 bits; the reading is signed or unsigned.\<close>

definition trunc :: "rat \<Rightarrow> int" where
  "trunc r = (if 0 \<le> r then \<lfloor>r\<rfloor> else - \<lfloor>- r\<rfloor>)"

definition to_bits :: "jsnum \<Rightarrow> 32 word" where
  "to_bits v = (case v of Fin r \<Rightarrow> word_of_int (trunc r) | _ \<Rightarrow> 0)"

text \<open>\<open>a << b\<close> takes the shift count modulo 32.\<close>

definition js_shl :: "32 word \<Rightarrow> 32 word \<Rightarrow> 32 word" where
  "js_shl a b = push_bit (unat b mod 32) a"

lemma trunc_of_int [simp]: "trunc (of_int i) = i"
  by (simp add: trunc_def)

lemma trunc_of_nat [simp]: "trunc (of_nat n) = int n"
  by (metis of_int_of_nat_eq trunc_of_int)

lemma to_bits_of_nat [simp]: "to_bits (Fin (of_nat n)) = of_nat n"
  by (simp add: to_bits_def)

end
