(* ===== verification/Host.thy ===== *)
theory Host
  imports JsNumber
begin

text \<open>
  What the gateway calls and this repository does not hold, as parameters of the model.

  \<^item> \<open>ext\<close> bundles the pure functions of the platform (hashes, JSON, base64, URL parsing).
  \<^item> \<open>'d redis\<close> bundles the commands of the Redis server over an unknown type \<open>'d\<close> of
    datasets; the locale \<open>redis_server\<close> states the documented effect of each command on
    what a reader can observe, and is interpreted here by an in-memory dataset.
  \<^item> \<open>'d io\<close> is the outside world of one run: the dataset, what other clients do to it
    between two commands, and tapes with the answers of the clock, the network, the token
    verifier, the resolver and the random generator. A property proved for all tapes
    holds for every behaviour of those services.
\<close>

section \<open>Values of the platform\<close>

text \<open>\<open>JsError name message\<close> is an instance of \<open>Error\<close>; \<open>NonError\<close> any other thrown value.\<close>

datatype exn = JsError string string | NonError

datatype json = JNull | JBool bool | JNum rat | JStr string
  | JArr "json list" | JObj "(string \<times> json) list"

type_synonym jobj = "(string \<times> json) list"

record http_req =
  rq_url :: string
  rq_method :: string
  rq_headers :: dict
  rq_body :: "string option"

record http_resp =
  rs_status :: int
  rs_headers :: dict
  rs_body :: string

definition resp_ok :: "http_resp \<Rightarrow> bool" where
  "resp_ok r = (200 \<le> rs_status r \<and> rs_status r \<le> 299)"

record url =
  u_protocol :: string
  u_hostname :: string
  u_port :: string

record jwt_call =
  jc_token :: string
  jc_secret :: "string option"
  jc_jwks_url :: "string option"
  jc_algorithm :: string
  jc_issuer :: "string option"
  jc_audience :: "string option"

record ext =
  x_sha256 :: "string \<Rightarrow> string"
  x_hmac256 :: "string \<Rightarrow> string \<Rightarrow> string"
  x_b64_enc :: "string \<Rightarrow> string"
  x_b64_dec :: "string \<Rightarrow> string"
  x_json_parse :: "string \<Rightarrow> json option"
  x_json_str :: "json \<Rightarrow> string"
  x_num_str :: "rat \<Rightarrow> string"
  x_url :: "string \<Rightarrow> url option"
  x_url_with :: "string \<Rightarrow> string \<Rightarrow> string \<Rightarrow> string"
  x_is_ip :: "string \<Rightarrow> nat"
  x_decode_uri :: "string \<Rightarrow> string option"
  x_encode_uri :: "string \<Rightarrow> string"
  x_form_encode :: "string \<Rightarrow> string"
  x_double :: "rat \<Rightarrow> rat"
  x_lua_str :: "rat \<Rightarrow> string"
  x_lua_num :: "string \<Rightarrow> rat option"

text \<open>\<open>String(v)\<close> of a JSON value; the digits of a fraction are the platform's.\<close>

definition num_to_string :: "ext \<Rightarrow> rat \<Rightarrow> string" where
  "num_to_string X r =
     (if of_int \<lfloor>r\<rfloor> = r \<and> \<bar>r\<bar> < 10 ^ 21 then show_int \<lfloor>r\<rfloor> else x_num_str X r)"

fun js_String :: "ext \<Rightarrow> json \<Rightarrow> string" where
  "js_String X JNull = ''null''"
| "js_String X (JBool b) = (if b then ''true'' else ''false'')"
| "js_String X (JNum r) = num_to_string X r"
| "js_String X (JStr s) = s"
| "js_String X (JArr vs) =
     join_with '','' (map (\<lambda>v. case v of JNull \<Rightarrow> [] | _ \<Rightarrow> js_String X v) vs)"
| "js_String X (JObj _) = ''[object Object]''"

text \<open>The conversion of a value to a boolean.\<close>

fun js_truthy :: "json \<Rightarrow> bool" where
  "js_truthy JNull = False"
| "js_truthy (JBool b) = b"
| "js_truthy (JNum r) = (r \<noteq> 0)"
| "js_truthy (JStr s) = (s \<noteq> [])"
| "js_truthy _ = True"

text \<open>\<open>v ?? d\<close> on a property of a parsed object: \<open>null\<close> and a missing key count as absent.\<close>

definition jget :: "jobj \<Rightarrow> string \<Rightarrow> json option" where
  "jget obj k = (case rget obj k of None \<Rightarrow> None | Some JNull \<Rightarrow> None | Some v \<Rightarrow> Some v)"

text \<open>\<open>String(obj[k] ?? d)\<close>.\<close>

definition jstring :: "ext \<Rightarrow> jobj \<Rightarrow> string \<Rightarrow> string \<Rightarrow> string" where
  "jstring X obj k d = (case jget obj k of None \<Rightarrow> d | Some v \<Rightarrow> js_String X v)"

section \<open>The Redis commands\<close>

record 'd redis =
  r_get :: "int \<Rightarrow> 'd \<Rightarrow> string \<Rightarrow> string option"
  r_set :: "int \<Rightarrow> string \<Rightarrow> string \<Rightarrow> 'd \<Rightarrow> 'd"
  r_setex :: "int \<Rightarrow> string \<Rightarrow> string \<Rightarrow> int \<Rightarrow> 'd \<Rightarrow> 'd"
  r_del :: "int \<Rightarrow> string \<Rightarrow> 'd \<Rightarrow> 'd"
  r_incr :: "int \<Rightarrow> string \<Rightarrow> 'd \<Rightarrow> int \<times> 'd"
  r_pexpire :: "int \<Rightarrow> string \<Rightarrow> int \<Rightarrow> 'd \<Rightarrow> 'd"
  r_ttl :: "int \<Rightarrow> 'd \<Rightarrow> string \<Rightarrow> int"
  r_hgetall :: "int \<Rightarrow> 'd \<Rightarrow> string \<Rightarrow> dict"
  r_hmset :: "int \<Rightarrow> string \<Rightarrow> dict \<Rightarrow> 'd \<Rightarrow> 'd"
  r_zremrangebyscore :: "int \<Rightarrow> string \<Rightarrow> int \<Rightarrow> 'd \<Rightarrow> 'd"
  r_zcard :: "int \<Rightarrow> 'd \<Rightarrow> string \<Rightarrow> int"
  r_zadd :: "int \<Rightarrow> string \<Rightarrow> int \<Rightarrow> string \<Rightarrow> 'd \<Rightarrow> 'd"
  r_zfirst :: "int \<Rightarrow> 'd \<Rightarrow> string \<Rightarrow> (string \<times> int) option"

text \<open>
  What a key holds. A sorted set is its members with their scores; Redis deletes an
  aggregate that becomes empty, so a missing key reads as the empty one.
\<close>

datatype robj = RStr string | RHash dict | RZset "(string \<times> int) list"

fun zset_of :: "robj option \<Rightarrow> (string \<times> int) list option" where
  "zset_of None = Some []"
| "zset_of (Some (RZset z)) = Some z"
| "zset_of _ = None"

fun hash_of :: "robj option \<Rightarrow> dict option" where
  "hash_of None = Some []"
| "hash_of (Some (RHash h)) = Some h"
| "hash_of _ = None"

definition rsets :: "dict \<Rightarrow> dict \<Rightarrow> dict" where
  "rsets kvs h = fold (\<lambda>(k, v). rset k v) kvs h"

text \<open>
  \<open>obj t d k\<close> is what a reader finds under \<open>k\<close> at time \<open>t\<close> (milliseconds) if nobody
  writes in between; a command at \<open>t\<close> fixes what is found at every later time \<open>t'\<close>.
\<close>

locale redis_server =
  fixes R :: "'d redis" and obj :: "int \<Rightarrow> 'd \<Rightarrow> string \<Rightarrow> robj option"
  assumes fades: "t \<le> t' \<Longrightarrow> obj t' d k = obj t d k \<or> obj t' d k = None"
    and get: "obj t d k = map_option RStr ov \<Longrightarrow> r_get R t d k = ov"
    and set: "t \<le> t' \<Longrightarrow> obj t' (r_set R t k v d) k' = (if k' = k then Some (RStr v) else obj t' d k')"
    and setex: "t \<le> t' \<Longrightarrow> 0 < s \<Longrightarrow> obj t' (r_setex R t k v s d) k' =
      (if k' = k then (if t' < t + 1000 * s then Some (RStr v) else None) else obj t' d k')"
    and del: "t \<le> t' \<Longrightarrow> obj t' (r_del R t k d) k' = (if k' = k then None else obj t' d k')"
    and incr_new: "obj t d k = None \<Longrightarrow> fst (r_incr R t k d) = 1"
    and incr_new_obj: "obj t d k = None \<Longrightarrow> t \<le> t' \<Longrightarrow> obj t' (snd (r_incr R t k d)) k' =
      (if k' = k then Some (RStr (show_int 1)) else obj t' d k')"
    and incr_old: "obj t d k = Some (RStr (show_int n)) \<Longrightarrow> fst (r_incr R t k d) = n + 1"
    and incr_old_obj: "obj t d k = Some (RStr (show_int n)) \<Longrightarrow> t \<le> t' \<Longrightarrow>
      obj t' (snd (r_incr R t k d)) k' =
      (if k' = k then (if obj t' d k = None then None else Some (RStr (show_int (n + 1))))
       else obj t' d k')"
    and pexpire: "t \<le> t' \<Longrightarrow> 0 < ms \<Longrightarrow> obj t' (r_pexpire R t k ms d) k' =
      (if k' = k then (if t' < t + ms then obj t d k else None) else obj t' d k')"
    and hgetall: "hash_of (obj t d k) = Some h \<Longrightarrow> r_hgetall R t d k = h"
    and hmset: "hash_of (obj t d k) = Some h \<Longrightarrow> t \<le> t' \<Longrightarrow> kvs \<noteq> [] \<Longrightarrow>
      obj t' (r_hmset R t k kvs d) k' =
      (if k' = k then (if obj t d k \<noteq> None \<and> obj t' d k = None then None
                       else Some (RHash (rsets kvs h)))
       else obj t' d k')"
    and zrem: "zset_of (obj t d k) = Some z \<Longrightarrow> t \<le> t' \<Longrightarrow>
      zset_of (obj t' (r_zremrangebyscore R t k b d) k') =
      (if k' = k then (if obj t' d k = None then Some [] else Some (filter (\<lambda>m. b < snd m) z))
       else zset_of (obj t' d k'))"
    and zrem_other: "k' \<noteq> k \<Longrightarrow> t \<le> t' \<Longrightarrow>
      obj t' (r_zremrangebyscore R t k b d) k' = obj t' d k'"
    and zcard: "zset_of (obj t d k) = Some z \<Longrightarrow> r_zcard R t d k = int (length z)"
    and zadd: "zset_of (obj t d k) = Some z \<Longrightarrow> t \<le> t' \<Longrightarrow>
      obj t' (r_zadd R t k sc m d) k' =
      (if k' = k then (if obj t d k \<noteq> None \<and> obj t' d k = None then None
                       else Some (RZset (rset m sc z)))
       else obj t' d k')"
    and zfirst: "zset_of (obj t d k) = Some z \<Longrightarrow>
      (case r_zfirst R t d k of None \<Rightarrow> z = []
       | Some p \<Rightarrow> p \<in> set z \<and> (\<forall>q \<in> set z. snd p \<le> snd q))"
begin

lemma fades_None: "obj t d k = None \<Longrightarrow> t \<le> t' \<Longrightarrow> obj t' d k = None"
  using fades [of t t' d k] by auto

lemma get_None: "obj t d k = None \<Longrightarrow> r_get R t d k = None"
  by (rule get) simp

lemma get_Some: "obj t d k = Some (RStr s) \<Longrightarrow> r_get R t d k = Some s"
  by (rule get) simp

lemma get_set: "t \<le> t' \<Longrightarrow> r_get R t' (r_set R t k v d) k = Some v"
  by (simp add: get_Some set)

lemma get_setex: "t \<le> t' \<Longrightarrow> t' < t + 1000 * s \<Longrightarrow> 0 < s \<Longrightarrow> r_get R t' (r_setex R t k v s d) k = Some v"
  by (simp add: get_Some setex)

lemma get_setex_expired: "t + 1000 * s \<le> t' \<Longrightarrow> 0 < s \<Longrightarrow> r_get R t' (r_setex R t k v s d) k = None"
  by (rule get_None) (simp add: setex)

lemma get_del: "t \<le> t' \<Longrightarrow> r_get R t' (r_del R t k d) k = None"
  by (simp add: get_None del)

end

subsection \<open>An in-memory dataset\<close>

text \<open>A key holds a value and, if it was given one, the time at which it expires.\<close>

type_synonym mem = "string \<Rightarrow> (robj \<times> int option) option"

definition live :: "int \<Rightarrow> int option \<Rightarrow> bool" where
  "live t dl = (case dl of None \<Rightarrow> True | Some e \<Rightarrow> t < e)"

definition mem_obj :: "int \<Rightarrow> mem \<Rightarrow> string \<Rightarrow> robj option" where
  "mem_obj t d k =
     (case d k of None \<Rightarrow> None | Some (v, dl) \<Rightarrow> if live t dl then Some v else None)"

definition mem_deadline :: "int \<Rightarrow> mem \<Rightarrow> string \<Rightarrow> int option" where
  "mem_deadline t d k =
     (case d k of None \<Rightarrow> None | Some (v, dl) \<Rightarrow> if live t dl then dl else None)"

definition mem_str :: "robj option \<Rightarrow> string option" where
  "mem_str v = (case v of Some (RStr s) \<Rightarrow> Some s | _ \<Rightarrow> None)"

definition mem_incr :: "int \<Rightarrow> string \<Rightarrow> mem \<Rightarrow> int \<times> mem" where
  "mem_incr t k d =
     (let n = orelse (parse_int (orelse (mem_str (mem_obj t d k)) ''0'')) 0 + 1
      in (n, d(k := Some (RStr (show_int n), mem_deadline t d k))))"

definition mem_pexpire :: "int \<Rightarrow> string \<Rightarrow> int \<Rightarrow> mem \<Rightarrow> mem" where
  "mem_pexpire t k ms d = d(k := map_option (\<lambda>v. (v, Some (t + ms))) (mem_obj t d k))"

definition mem_ttl :: "int \<Rightarrow> mem \<Rightarrow> string \<Rightarrow> int" where
  "mem_ttl t d k =
     (if mem_obj t d k = None then - 2
      else case mem_deadline t d k of None \<Rightarrow> - 1 | Some e \<Rightarrow> (e - t) div 1000)"

definition mem_hash :: "int \<Rightarrow> mem \<Rightarrow> string \<Rightarrow> dict" where
  "mem_hash t d k = orelse (hash_of (mem_obj t d k)) []"

definition mem_zset :: "int \<Rightarrow> mem \<Rightarrow> string \<Rightarrow> (string \<times> int) list" where
  "mem_zset t d k = orelse (zset_of (mem_obj t d k)) []"

fun min_member :: "(string \<times> int) list \<Rightarrow> (string \<times> int) option" where
  "min_member [] = None"
| "min_member (p # z) =
     (case min_member z of None \<Rightarrow> Some p | Some q \<Rightarrow> Some (if snd p \<le> snd q then p else q))"

definition mem_redis :: "mem redis" where
  "mem_redis = \<lparr>
     r_get = (\<lambda>t d k. mem_str (mem_obj t d k)),
     r_set = (\<lambda>t k v d. d(k := Some (RStr v, None))),
     r_setex = (\<lambda>t k v s d. d(k := Some (RStr v, Some (t + 1000 * s)))),
     r_del = (\<lambda>t k d. d(k := None)),
     r_incr = mem_incr,
     r_pexpire = mem_pexpire,
     r_ttl = mem_ttl,
     r_hgetall = mem_hash,
     r_hmset = (\<lambda>t k kvs d. d(k := Some (RHash (rsets kvs (mem_hash t d k)), mem_deadline t d k))),
     r_zremrangebyscore = (\<lambda>t k b d.
       d(k := Some (RZset (filter (\<lambda>m. b < snd m) (mem_zset t d k)), mem_deadline t d k))),
     r_zcard = (\<lambda>t d k. int (length (mem_zset t d k))),
     r_zadd = (\<lambda>t k sc m d. d(k := Some (RZset (rset m sc (mem_zset t d k)), mem_deadline t d k))),
     r_zfirst = (\<lambda>t d k. min_member (mem_zset t d k)) \<rparr>"

lemma min_member_spec:
  "case min_member z of None \<Rightarrow> z = [] | Some p \<Rightarrow> p \<in> set z \<and> (\<forall>q \<in> set z. snd p \<le> snd q)"
  by (induction z) (auto split: option.splits)

lemma live_mono: "t \<le> t' \<Longrightarrow> live t' dl \<Longrightarrow> live t dl"
  by (auto simp: live_def split: option.splits)

lemma mem_obj_fades: "t \<le> t' \<Longrightarrow> mem_obj t' d k = mem_obj t d k \<or> mem_obj t' d k = None"
  by (auto simp: mem_obj_def live_mono split: option.splits)

lemma mem_obj_upd:
  "mem_obj t (d(k := v)) k' =
    (if k' = k then (case v of None \<Rightarrow> None | Some (x, dl) \<Rightarrow> if live t dl then Some x else None)
     else mem_obj t d k')"
  by (simp add: mem_obj_def)

lemma live_deadline:
  "t \<le> t' \<Longrightarrow> live t' (mem_deadline t d k) \<longleftrightarrow> \<not> (mem_obj t d k \<noteq> None \<and> mem_obj t' d k = None)"
  by (auto simp: mem_deadline_def mem_obj_def live_def split: option.splits if_splits)

lemma live_Some [simp]: "live t (Some e) \<longleftrightarrow> t < e" "live t None"
  by (simp_all add: live_def)

interpretation mem: redis_server mem_redis mem_obj
proof (standard, goal_cases)
  case (1 t t' d k) then show ?case by (rule mem_obj_fades)
next
  case (2 t d k v) then show ?case by (cases v) (simp_all add: mem_redis_def mem_str_def)
next
  case 3 show ?case by (simp add: mem_redis_def mem_obj_upd)
next
  case 4 then show ?case by (simp add: mem_redis_def mem_obj_upd)
next
  case 5 show ?case by (simp add: mem_redis_def mem_obj_upd)
next
  case 6 then show ?case
    using parse_int_show_int [of 0]
    by (simp add: mem_redis_def mem_incr_def mem_str_def Let_def parse_int_def js_trim_start_def
        is_ws_def is_digit_def digits_val_def digit_val_def signed_def)
next
  case (7 t d k t' k')
  have "parse_int ''0'' = Some 0" by code_simp
  with 7 show ?case
    by (simp add: mem_redis_def mem_incr_def mem_str_def Let_def mem_obj_upd live_deadline)
next
  case 8 then show ?case by (simp add: mem_redis_def mem_incr_def mem_str_def Let_def)
next
  case (9 t d k n t' k') then show ?case
    by (simp add: mem_redis_def mem_incr_def mem_str_def Let_def mem_obj_upd live_deadline)
next
  case (10 t t' ms k d k') then show ?case
    by (cases "mem_obj t d k") (simp_all add: mem_redis_def mem_pexpire_def mem_obj_upd)
next
  case 11 then show ?case by (simp add: mem_redis_def mem_hash_def)
next
  case (12 t d k h t' kvs k') then show ?case
    by (simp add: mem_redis_def mem_hash_def mem_obj_upd live_deadline)
next
  case (13 t d k z t' b k') 
  then show ?case
    using mem_obj_fades [of t t' d k]
    by (auto simp: mem_redis_def mem_zset_def mem_obj_upd live_deadline split: if_splits)
next
  case 14 then show ?case by (simp add: mem_redis_def mem_obj_upd)
next
  case 15 then show ?case by (simp add: mem_redis_def mem_zset_def)
next
  case (16 t d k z t' sc m k') then show ?case
    by (simp add: mem_redis_def mem_zset_def mem_obj_upd live_deadline)
next
  case (17 t d k z) then show ?case
    using min_member_spec [of z] by (simp add: mem_redis_def mem_zset_def)
qed

section \<open>The outside world of a run\<close>

text \<open>
  The limits of a subscription plan (\<open>PlanLimits\<close> of \<open>plan-resolver.ts\<close>), which the process
  keeps in its own memory; \<open>None\<close> is the \<open>NaN\<close> that an unreadable number gives.
\<close>

record plan_limits =
  pn_rpm :: "int option"
  pn_rph :: "int option"
  pn_rpd :: "int option"
  pn_burst :: "int option"
  pn_plan :: string

record 'd io =
  io_plans :: "(string \<times> (plan_limits \<times> int)) list"
  io_data :: 'd
  io_others :: "nat \<Rightarrow> 'd \<Rightarrow> 'd"
  io_fault :: "nat \<Rightarrow> exn option"
  io_rtime :: "nat \<Rightarrow> int"
  io_clock :: "nat \<Rightarrow> int"
  io_net :: "nat \<Rightarrow> http_req \<Rightarrow> exn + http_resp"
  io_jwt :: "nat \<Rightarrow> jwt_call \<Rightarrow> exn + jobj"
  io_dns :: "nat \<Rightarrow> string \<Rightarrow> exn + string list"
  io_rand :: "nat \<Rightarrow> string"
  io_sent :: "http_req list"

definition shift :: "(nat \<Rightarrow> 'a) \<Rightarrow> nat \<Rightarrow> 'a" where
  "shift f = (\<lambda>n. f (Suc n))"

text \<open>
  One command (or script) sent to Redis: other clients act first; then the call is either
  rejected or executed atomically at the server's time. A rejected call that the server
  executed all the same is the next action of the others.
\<close>

definition redis_call :: "(int \<Rightarrow> 'd \<Rightarrow> 'a \<times> 'd) \<Rightarrow> 'd io \<Rightarrow> (exn + 'a) \<times> 'd io" where
  "redis_call f w =
     (let d = io_others w 0 (io_data w);
          w' = w\<lparr>io_others := shift (io_others w), io_fault := shift (io_fault w),
                 io_rtime := shift (io_rtime w)\<rparr>
      in case io_fault w 0 of
           Some e \<Rightarrow> (Inl e, w'\<lparr>io_data := d\<rparr>)
         | None \<Rightarrow> (let (a, d') = f (io_rtime w 0) d in (Inr a, w'\<lparr>io_data := d'\<rparr>)))"

definition redis_read :: "(int \<Rightarrow> 'd \<Rightarrow> 'a) \<Rightarrow> 'd io \<Rightarrow> (exn + 'a) \<times> 'd io" where
  "redis_read f = redis_call (\<lambda>t d. (f t d, d))"

definition redis_write :: "(int \<Rightarrow> 'd \<Rightarrow> 'd) \<Rightarrow> 'd io \<Rightarrow> (exn + unit) \<times> 'd io" where
  "redis_write f = redis_call (\<lambda>t d. ((), f t d))"

definition date_now :: "'d io \<Rightarrow> int \<times> 'd io" where
  "date_now w = (io_clock w 0, w\<lparr>io_clock := shift (io_clock w)\<rparr>)"

definition http_fetch :: "http_req \<Rightarrow> 'd io \<Rightarrow> (exn + http_resp) \<times> 'd io" where
  "http_fetch q w =
     (io_net w 0 q, w\<lparr>io_net := shift (io_net w), io_sent := io_sent w @ [q]\<rparr>)"

definition jwt_verify :: "jwt_call \<Rightarrow> 'd io \<Rightarrow> (exn + jobj) \<times> 'd io" where
  "jwt_verify c w = (io_jwt w 0 c, w\<lparr>io_jwt := shift (io_jwt w)\<rparr>)"

definition dns_lookup :: "string \<Rightarrow> 'd io \<Rightarrow> (exn + string list) \<times> 'd io" where
  "dns_lookup h w = (io_dns w 0 h, w\<lparr>io_dns := shift (io_dns w)\<rparr>)"

definition fresh_random :: "'d io \<Rightarrow> string \<times> 'd io" where
  "fresh_random w = (io_rand w 0, w\<lparr>io_rand := shift (io_rand w)\<rparr>)"

text \<open>A run on its own: nobody else touches the dataset and no command is rejected.\<close>

definition quiet :: "'d io \<Rightarrow> bool" where
  "quiet w = (io_others w = (\<lambda>_ d. d) \<and> io_fault w = (\<lambda>_. None))"

lemma shift_apply [simp]: "shift f n = f (Suc n)"
  by (simp add: shift_def)

lemma shift_const [simp]: "shift (\<lambda>_. c) = (\<lambda>_. c)"
  by (simp add: shift_def)

lemma redis_call_quiet:
  "quiet w \<Longrightarrow> redis_call f w =
     (Inr (fst (f (io_rtime w 0) (io_data w))),
      w\<lparr>io_rtime := shift (io_rtime w), io_data := snd (f (io_rtime w 0) (io_data w))\<rparr>)"
  by (cases w) (simp add: quiet_def redis_call_def split_beta)

lemma quiet_frame [simp]:
  "quiet (w\<lparr>io_data := d\<rparr>) = quiet w" "quiet (w\<lparr>io_rtime := f\<rparr>) = quiet w"
  "quiet (w\<lparr>io_clock := g\<rparr>) = quiet w" "quiet (w\<lparr>io_net := h\<rparr>) = quiet w"
  "quiet (w\<lparr>io_rand := r\<rparr>) = quiet w" "quiet (w\<lparr>io_sent := s\<rparr>) = quiet w"
  "quiet (w\<lparr>io_plans := p\<rparr>) = quiet w" "quiet (w\<lparr>io_jwt := j\<rparr>) = quiet w" "quiet (w\<lparr>io_dns := n\<rparr>) = quiet w"
  by (simp_all add: quiet_def)

subsection \<open>Values for examples\<close>

text \<open>
  A platform and a world on which the theorems are applied to concrete inputs: an empty
  dataset that nobody else uses, clocks that advance by ten milliseconds, a network that
  never answers.
\<close>

definition sample_ext :: ext where
  "sample_ext = \<lparr>
     x_sha256 = (\<lambda>s. ''sha256:'' @ s), x_hmac256 = (\<lambda>k m. k @ ''/'' @ m),
     x_b64_enc = (\<lambda>s. s), x_b64_dec = (\<lambda>s. s),
     x_json_parse = (\<lambda>_. None), x_json_str = (\<lambda>_. []), x_num_str = (\<lambda>_. []),
     x_url = (\<lambda>_. None), x_url_with = (\<lambda>u _ _. u), x_is_ip = (\<lambda>_. 0),
     x_decode_uri = (\<lambda>s. Some s), x_encode_uri = (\<lambda>s. s), x_form_encode = (\<lambda>s. s),
     x_double = (\<lambda>r. r), x_lua_str = (\<lambda>r. show_int \<lfloor>r\<rfloor>), x_lua_num = (\<lambda>s. map_option rat_of_int (parse_int s)) \<rparr>"

definition sample_io :: "mem io" where
  "sample_io = \<lparr>
     io_plans = [], io_data = (\<lambda>_. None), io_others = (\<lambda>_ d. d), io_fault = (\<lambda>_. None),
     io_rtime = (\<lambda>n. 10 * int n), io_clock = (\<lambda>n. 10 * int n),
     io_net = (\<lambda>_ _. Inl (JsError ''TypeError'' ''fetch failed'')),
     io_jwt = (\<lambda>_ _. Inl NonError), io_dns = (\<lambda>_ _. Inl NonError),
     io_rand = show_nat, io_sent = [] \<rparr>"

end
