(* ===== verification/Memo.thy ===== *)
theory Memo
  imports Host
begin

text \<open>
  The in-process caches of the gateway (\<open>chainCache\<close>, the plan cache, the cache of the SSRF
  guard) follow one pattern: an entry is served while it is younger than its time to live,
  and otherwise a computed value may be stored with the time of storing. The locale states
  the pattern once; each component interprets it with its own step and its own map.
\<close>

definition fresh_entry :: "int \<Rightarrow> int \<Rightarrow> ('v \<times> int) option \<Rightarrow> bool" where
  "fresh_entry ttl now e = (case e of None \<Rightarrow> False | Some (_, stp) \<Rightarrow> now - stp < ttl)"

lemma fresh_entry_simps [simp]:
  "fresh_entry ttl now None = False" "fresh_entry ttl now (Some (v, stp)) = (now - stp < ttl)"
  by (simp_all add: fresh_entry_def)

text \<open>
  \<open>ask k s\<close> answers a question in state \<open>s\<close>; \<open>entry s k\<close> is the stored answer and \<open>clk s\<close>
  the clock that the step compares it with.
\<close>

locale ttl_memo =
  fixes ask :: "'k \<Rightarrow> 's \<Rightarrow> 'v \<times> 's"
    and entry :: "'s \<Rightarrow> 'k \<Rightarrow> ('v \<times> int) option"
    and clk :: "'s \<Rightarrow> int"
    and ttl :: int
  assumes hit: "entry s k = Some (v, stp) \<Longrightarrow> clk s - stp < ttl \<Longrightarrow> fst (ask k s) = v"
    and hit_keeps: "fresh_entry ttl (clk s) (entry s k) \<Longrightarrow> entry (snd (ask k s)) = entry s"
    and miss: "\<not> fresh_entry ttl (clk s) (entry s k) \<Longrightarrow>
      entry (snd (ask k s)) = entry s \<or>
      (\<exists>stp. entry (snd (ask k s)) = (entry s)(k := Some (fst (ask k s), stp)))"
begin

text \<open>
  A run: before each question the world may move (\<open>f\<close>), as long as it leaves the entries
  alone. The trace lists for each question the key, the state it was asked in, the answer
  and the state after it.
\<close>

fun trace :: "('k \<times> ('s \<Rightarrow> 's)) list \<Rightarrow> 's \<Rightarrow> ('k \<times> 's \<times> 'v \<times> 's) list" where
  "trace [] s = []"
| "trace ((k, f) # qs) s =
     (let s1 = f s; (v, s2) = ask k s1 in (k, s1, v, s2) # trace qs s2)"

definition keeps_entries :: "('k \<times> ('s \<Rightarrow> 's)) list \<Rightarrow> bool" where
  "keeps_entries qs = (\<forall>(k, f) \<in> set qs. \<forall>s. entry (f s) = entry s)"

text \<open>A question is computed when no fresh entry answers it.\<close>

definition computed :: "'k \<times> 's \<times> 'v \<times> 's \<Rightarrow> bool" where
  "computed q = (case q of (k, s, v, s') \<Rightarrow> \<not> fresh_entry ttl (clk s) (entry s k))"

definition stored :: "('k \<times> 's \<times> 'v \<times> 's) list \<Rightarrow> 's \<Rightarrow> bool" where
  "stored past s = (\<forall>k v stp. entry s k = Some (v, stp) \<longrightarrow>
     (\<exists>(k', s1, v', s2) \<in> set past. k' = k \<and> v' = v \<and> computed (k', s1, v', s2) \<and>
        entry s2 k = Some (v, stp)))"

lemma ask_stored:
  assumes "stored past s"
  shows "stored (past @ [(k, s, fst (ask k s), snd (ask k s))]) (snd (ask k s))"
proof (cases "fresh_entry ttl (clk s) (entry s k)")
  case True
  with assms hit_keeps [OF True] show ?thesis by (fastforce simp: stored_def)
next
  case False
  then have c: "computed (k, s, fst (ask k s), snd (ask k s))" by (simp add: computed_def)
  from miss [OF False] show ?thesis
  proof
    assume "entry (snd (ask k s)) = entry s"
    with assms show ?thesis by (fastforce simp: stored_def)
  next
    assume "\<exists>stp. entry (snd (ask k s)) = (entry s)(k := Some (fst (ask k s), stp))"
    with assms c show ?thesis by (fastforce simp: stored_def)
  qed
qed

text \<open>
  Every answer of a run that starts with an empty cache is computed when it is asked, or is
  the answer that an earlier question for the same key computed and stored at a time that is
  less than the time to live ago.
\<close>

definition provenance :: "('k \<times> 's \<times> 'v \<times> 's) list \<Rightarrow> 'k \<times> 's \<times> 'v \<times> 's \<Rightarrow> bool" where
  "provenance past q = (case q of (k, s, v, s') \<Rightarrow>
     computed q \<or>
     (\<exists>(k1, s1, v1, s2) \<in> set past. k1 = k \<and> v1 = v \<and> computed (k1, s1, v1, s2) \<and>
        (\<exists>stp. entry s2 k = Some (v, stp) \<and> clk s - stp < ttl)))"

lemma trace_provenance_gen:
  assumes "stored past s" "keeps_entries qs" "i < length (trace qs s)"
  shows "provenance (past @ take i (trace qs s)) (trace qs s ! i)"
  using assms
proof (induction qs arbitrary: past s i)
  case (Cons q qs)
  obtain k f where q: "q = (k, f)" by (cases q)
  let ?s1 = "f s"
  let ?a = "(k, ?s1, fst (ask k ?s1), snd (ask k ?s1))"
  have st: "stored past ?s1"
    using Cons.prems(1,2) by (simp add: q keeps_entries_def stored_def)
  have tr: "trace (q # qs) s = ?a # trace qs (snd (ask k ?s1))"
    by (simp add: q split_beta Let_def)
  show ?case
  proof (cases i)
    case 0
    have "provenance past ?a"
    proof (cases "fresh_entry ttl (clk ?s1) (entry ?s1 k)")
      case True
      then obtain v stp where e: "entry ?s1 k = Some (v, stp)" "clk ?s1 - stp < ttl"
        by (cases "entry ?s1 k") auto
      with st hit [OF e] show ?thesis
        by (fastforce simp: provenance_def stored_def)
    qed (simp add: provenance_def computed_def)
    with 0 show ?thesis by (simp add: tr)
  next
    case (Suc j)
    have "provenance ((past @ [?a]) @ take j (trace qs (snd (ask k ?s1))))
        (trace qs (snd (ask k ?s1)) ! j)"
    proof (rule Cons.IH)
      show "stored (past @ [?a]) (snd (ask k ?s1))" using st by (rule ask_stored)
      show "keeps_entries qs" using Cons.prems(2) by (simp add: keeps_entries_def)
      show "j < length (trace qs (snd (ask k ?s1)))" using Cons.prems(3) by (simp add: tr Suc)
    qed
    with Suc show ?thesis by (simp add: tr)
  qed
qed simp

lemma trace_provenance:
  assumes "entry s = (\<lambda>_. None)" "keeps_entries qs" "i < length (trace qs s)"
  shows "provenance (take i (trace qs s)) (trace qs s ! i)"
  using trace_provenance_gen [of "[]" s qs i] assms by (simp add: stored_def)

lemma trace_answer: "(k, s, v, s') \<in> set (trace qs s0) \<Longrightarrow> ask k s = (v, s')"
proof (induction qs arbitrary: s0)
  case (Cons q qs)
  obtain k0 f where q: "q = (k0, f)" by (cases q)
  obtain v0 s2 where a: "ask k0 (f s0) = (v0, s2)" by (cases "ask k0 (f s0)")
  from Cons show ?case by (auto simp: q a Let_def)
qed simp

text \<open>The same with positions in the run, for the components.\<close>

lemma trace_recent:
  assumes "entry s0 = (\<lambda>_. None)" "keeps_entries qs" "i < length (trace qs s0)"
    and at_i: "trace qs s0 ! i = (k, s, v, s')"
  shows "ask k s = (v, s') \<and>
    (\<not> fresh_entry ttl (clk s) (entry s k) \<or>
     (\<exists>j < i. \<exists>s1 s2 stp. trace qs s0 ! j = (k, s1, v, s2) \<and> ask k s1 = (v, s2) \<and>
        \<not> fresh_entry ttl (clk s1) (entry s1 k) \<and>
        entry s2 k = Some (v, stp) \<and> clk s - stp < ttl))"
proof (intro conjI)
  show "ask k s = (v, s')"
    using assms(3) at_i by (metis nth_mem trace_answer)
  have p: "provenance (take i (trace qs s0)) (k, s, v, s')"
    using trace_provenance [OF assms(1-3)] at_i by simp
  show "\<not> fresh_entry ttl (clk s) (entry s k) \<or>
     (\<exists>j < i. \<exists>s1 s2 stp. trace qs s0 ! j = (k, s1, v, s2) \<and> ask k s1 = (v, s2) \<and>
        \<not> fresh_entry ttl (clk s1) (entry s1 k) \<and>
        entry s2 k = Some (v, stp) \<and> clk s - stp < ttl)"
  proof (cases "computed (k, s, v, s')")
    case False
    with p obtain s1 s2 stp where q: "(k, s1, v, s2) \<in> set (take i (trace qs s0))"
        "computed (k, s1, v, s2)" "entry s2 k = Some (v, stp)" "clk s - stp < ttl"
      by (auto simp: provenance_def)
    then obtain j where "j < i" "trace qs s0 ! j = (k, s1, v, s2)"
      by (auto simp: in_set_conv_nth)
    moreover have "ask k s1 = (v, s2)"
      using q(1) by (meson in_set_takeD trace_answer)
    ultimately show ?thesis using q by (fastforce simp: computed_def)
  qed (simp add: computed_def)
qed

end

end
