(* ===== verification/ExecTypes.thy ===== *)
theory ExecTypes
  imports Host
begin

text \<open>
  \<open>gateway/src/pipeline/types.ts\<close>: the policy chain, the execution context that every
  plugin reads and writes, and the abort helper; with them the configuration of
  \<open>gateway/src/config/index.ts\<close> and the shape of a plugin.
\<close>

section \<open>Policies\<close>

record policy =
  p_id :: string
  p_type :: string
  p_phase :: string
  p_order :: int
  p_enabled :: bool
  p_config :: dict
  p_condition :: "string option"

record chain =
  ch_chainId :: string
  ch_apiId :: string
  ch_version :: int
  ch_etag :: string
  ch_policies :: "policy list"

definition PHASE_ORDER :: "(string \<times> nat) list" where
  "PHASE_ORDER = [(''pre_request'', 0), (''post_request'', 1), (''pre_response'', 2), (''post_response'', 3)]"

section \<open>The execution context\<close>

record ctx =
  c_traceId :: string
  c_apiId :: string
  c_clientId :: string
  c_userId :: string
  c_plan :: string
  c_subscriptionId :: string
  c_orgId :: string
  c_scopes :: "string list"
  c_phase :: string
  c_method :: string
  c_path :: string
  c_host :: string
  c_remoteIp :: string
  c_clientIp :: string
  c_requestHeaders :: dict
  c_requestBody :: "string option"
  c_queryParams :: dict
  c_statusCode :: int
  c_responseHeaders :: dict
  c_responseBody :: "string option"
  c_cacheHit :: bool
  c_aborted :: bool
  c_abortCode :: int
  c_abortMessage :: string
  c_abortHeaders :: dict
  c_claims :: jobj
  c_startedAt :: int

definition parseClientIp :: "dict \<Rightarrow> string \<Rightarrow> string" where
  "parseClientIp headers remoteIp =
     (let xff = rget headers ''x-forwarded-for''
      in if truthy xff then js_trim (hd (split_on (CHR '','') (str_of xff)))
         else orelse (rget headers ''x-real-ip'') remoteIp)"

definition createExecContext ::
  "string \<Rightarrow> string \<Rightarrow> string \<Rightarrow> string \<Rightarrow> string \<Rightarrow> string \<Rightarrow> dict \<Rightarrow> dict \<Rightarrow> string option \<Rightarrow> int \<Rightarrow> ctx" where
  "createExecContext apiId traceId mth pth hst remoteIp requestHeaders queryParams body now = \<lparr>
     c_traceId = traceId, c_apiId = apiId,
     c_clientId = [], c_userId = [], c_plan = [], c_subscriptionId = [], c_orgId = [], c_scopes = [],
     c_phase = [],
     c_method = mth, c_path = pth, c_host = hst, c_remoteIp = remoteIp,
     c_clientIp = parseClientIp requestHeaders remoteIp,
     c_requestHeaders = requestHeaders, c_requestBody = body, c_queryParams = queryParams,
     c_statusCode = 0, c_responseHeaders = [], c_responseBody = None,
     c_cacheHit = False,
     c_aborted = False, c_abortCode = 0, c_abortMessage = [], c_abortHeaders = [],
     c_claims = [],
     c_startedAt = now \<rparr>"

text \<open>\<open>ctx.abort(code, message, headers?)\<close>: without headers the old ones stay.\<close>

definition abort_with :: "int \<Rightarrow> string \<Rightarrow> dict option \<Rightarrow> ctx \<Rightarrow> ctx" where
  "abort_with code message headers c =
     (let c1 = c\<lparr>c_aborted := True, c_abortCode := code, c_abortMessage := message\<rparr>
      in case headers of None \<Rightarrow> c1 | Some h \<Rightarrow> c1\<lparr>c_abortHeaders := h\<rparr>)"

definition abort :: "ctx \<Rightarrow> int \<Rightarrow> string \<Rightarrow> ctx" where
  "abort c code message = abort_with code message None c"

definition set_request_header :: "string \<Rightarrow> string \<Rightarrow> ctx \<Rightarrow> ctx" where
  "set_request_header k v c = c\<lparr>c_requestHeaders := rset k v (c_requestHeaders c)\<rparr>"

definition set_response_header :: "string \<Rightarrow> string \<Rightarrow> ctx \<Rightarrow> ctx" where
  "set_response_header k v c = c\<lparr>c_responseHeaders := rset k v (c_responseHeaders c)\<rparr>"

lemma abort_fields [simp]:
  "c_aborted (abort c code msg)" "c_abortCode (abort c code msg) = code"
  "c_abortMessage (abort c code msg) = msg"
  "c_abortHeaders (abort c code msg) = c_abortHeaders c"
  "c_requestHeaders (abort c code msg) = c_requestHeaders c"
  "c_responseHeaders (abort c code msg) = c_responseHeaders c"
  "c_responseBody (abort c code msg) = c_responseBody c"
  "c_statusCode (abort c code msg) = c_statusCode c"
  "c_cacheHit (abort c code msg) = c_cacheHit c"
  "c_apiId (abort c code msg) = c_apiId c"
  "c_method (abort c code msg) = c_method c"
  "c_clientId (abort c code msg) = c_clientId c"
  by (simp_all add: abort_def abort_with_def)

lemma abort_with_fields [simp]:
  "c_aborted (abort_with code msg h c)" "c_abortCode (abort_with code msg h c) = code"
  "c_abortMessage (abort_with code msg h c) = msg"
  "c_responseHeaders (abort_with code msg h c) = c_responseHeaders c"
  "c_cacheHit (abort_with code msg h c) = c_cacheHit c"
  "c_abortHeaders (abort_with code msg h c) = orelse h (c_abortHeaders c)"
  by (auto simp: abort_with_def Let_def split: option.splits)

lemma set_request_header_fields [simp]:
  "c_requestHeaders (set_request_header k v c) = rset k v (c_requestHeaders c)"
  "c_aborted (set_request_header k v c) = c_aborted c"
  "c_cacheHit (set_request_header k v c) = c_cacheHit c"
  "c_statusCode (set_request_header k v c) = c_statusCode c"
  "c_responseHeaders (set_request_header k v c) = c_responseHeaders c"
  "c_apiId (set_request_header k v c) = c_apiId c"
  by (simp_all add: set_request_header_def)

lemma set_response_header_fields [simp]:
  "c_responseHeaders (set_response_header k v c) = rset k v (c_responseHeaders c)"
  "c_requestHeaders (set_response_header k v c) = c_requestHeaders c"
  "c_aborted (set_response_header k v c) = c_aborted c"
  "c_cacheHit (set_response_header k v c) = c_cacheHit c"
  "c_statusCode (set_response_header k v c) = c_statusCode c"
  "c_responseBody (set_response_header k v c) = c_responseBody c"
  "c_abortCode (set_response_header k v c) = c_abortCode c"
  by (simp_all add: set_response_header_def)

section \<open>Configuration\<close>

record config =
  cfg_NODE_ENV :: string
  cfg_AUTH_SERVICE_URL :: string
  cfg_REGISTRY_SERVICE_URL :: string
  cfg_SUBSCRIPTION_SERVICE_URL :: string
  cfg_POLICY_ENGINE_URL :: string
  cfg_JWKS_URL :: string
  cfg_ROUTE_CACHE_TTL_S :: int
  cfg_UPSTREAM_BLOCK_PRIVATE_IPS :: string
  cfg_UPSTREAM_ALLOWED_HOSTS :: string
  cfg_INTERNAL_SERVICE_SECRET :: string
  cfg_MTLS_ENABLED :: bool
  cfg_MTLS_PORT :: string
  cfg_env :: dict

section \<open>Plugins\<close>

text \<open>
  A plugin gets the platform, the Redis commands, the application configuration, its own
  policy's configuration, the context and the outside world; it returns the exception it
  threw, if any, with the context as it left it.
\<close>

type_synonym 'd plugin =
  "ext \<Rightarrow> 'd redis \<Rightarrow> config \<Rightarrow> dict \<Rightarrow> ctx \<Rightarrow> 'd io \<Rightarrow> exn option \<times> ctx \<times> 'd io"

abbreviation done_with :: "ctx \<Rightarrow> 'd io \<Rightarrow> exn option \<times> ctx \<times> 'd io" where
  "done_with c w \<equiv> (None, c, w)"

text \<open>
  \<open>getInternalToken\<close> and \<open>internalHeaders\<close> of \<open>plugins/internal-token.ts\<close>. The secret is
  constant, so the memoised token is the hash itself; the long dash of the message is
  written as a hyphen.
\<close>

definition getInternalToken :: "ext \<Rightarrow> config \<Rightarrow> exn + string" where
  "getInternalToken X A =
     (if cfg_INTERNAL_SERVICE_SECRET A = []
      then Inl (JsError ''Error'' ''INTERNAL_SERVICE_SECRET is not set - cannot call internal services'')
      else Inr (x_sha256 X (cfg_INTERNAL_SERVICE_SECRET A)))"

definition internalHeaders :: "ext \<Rightarrow> config \<Rightarrow> exn + dict" where
  "internalHeaders X A = map_sum id (\<lambda>t. [(''x-internal-token'', t)]) (getInternalToken X A)"

text \<open>A configuration for examples: development mode and no allow-list.\<close>

definition sample_config :: config where
  "sample_config = \<lparr>
     cfg_NODE_ENV = ''development'',
     cfg_AUTH_SERVICE_URL = ''http://auth'', cfg_REGISTRY_SERVICE_URL = ''http://registry'',
     cfg_SUBSCRIPTION_SERVICE_URL = ''http://subscription'', cfg_POLICY_ENGINE_URL = ''http://policy'',
     cfg_JWKS_URL = ''http://auth/jwks'', cfg_ROUTE_CACHE_TTL_S = 60,
     cfg_UPSTREAM_BLOCK_PRIVATE_IPS = [], cfg_UPSTREAM_ALLOWED_HOSTS = [],
     cfg_INTERNAL_SERVICE_SECRET = ''secret'', cfg_MTLS_ENABLED = False, cfg_MTLS_PORT = ''8443'',
     cfg_env = [] \<rparr>"

end
