(* ===== verification/Fetch.thy ===== *)
theory Fetch
  imports ExecTypes
begin

text \<open>
  \<open>gateway/src/mtls.ts\<close> and \<open>gateway/src/plugins/internal-token.ts\<close> as the other
  components use them: a call to a service of the platform, sent to its mutual-TLS port when
  that is switched on. The client certificate and the timeouts belong to the network; a
  timeout is one of its rejections.
\<close>

definition INTERNAL_HOSTS :: "string list" where
  "INTERNAL_HOSTS = [''auth-service'', ''registry-service'', ''subscription-service'', ''policy-engine'',
     ''gateway'', ''bff'']"

definition isInternal :: "ext \<Rightarrow> string \<Rightarrow> bool" where
  "isInternal X u =
     (case x_url X u of None \<Rightarrow> False | Some p \<Rightarrow> u_hostname p \<in> set INTERNAL_HOSTS)"

definition internalUrl :: "ext \<Rightarrow> config \<Rightarrow> string \<Rightarrow> string" where
  "internalUrl X A u =
     (if \<not> cfg_MTLS_ENABLED A \<or> \<not> isInternal X u then u
      else x_url_with X u ''https:'' (cfg_MTLS_PORT A))"

definition internalFetch ::
  "ext \<Rightarrow> config \<Rightarrow> http_req \<Rightarrow> 'd io \<Rightarrow> (exn + http_resp) \<times> 'd io" where
  "internalFetch X A q w =
     (if cfg_MTLS_ENABLED A \<and> isInternal X (rq_url q)
      then http_fetch (q\<lparr>rq_url := internalUrl X A (rq_url q)\<rparr>) w
      else http_fetch q w)"

text \<open>A \<open>fetch(url, {headers})\<close> without a method is a GET; \<open>resp.json()\<close> may throw.\<close>

definition get_request :: "string \<Rightarrow> dict \<Rightarrow> http_req" where
  "get_request u h = \<lparr>rq_url = u, rq_method = ''GET'', rq_headers = h, rq_body = None\<rparr>"

definition resp_json :: "ext \<Rightarrow> http_resp \<Rightarrow> exn + json" where
  "resp_json X r =
     (case x_json_parse X (rs_body r) of
        None \<Rightarrow> Inl (JsError ''SyntaxError'' []) | Some j \<Rightarrow> Inr j)"

lemma internalFetch_frame [frame_simps]:
  "io_clock (snd (internalFetch X A q w)) = io_clock w"
  "io_data (snd (internalFetch X A q w)) = io_data w"
  "io_rtime (snd (internalFetch X A q w)) = io_rtime w"
  "io_others (snd (internalFetch X A q w)) = io_others w"
  "io_fault (snd (internalFetch X A q w)) = io_fault w"
  by (simp_all add: internalFetch_def http_fetch_def)

lemma date_now_frame [frame_simps]:
  "io_data (snd (date_now w)) = io_data w" "io_rtime (snd (date_now w)) = io_rtime w"
  "io_others (snd (date_now w)) = io_others w" "io_fault (snd (date_now w)) = io_fault w"
  "io_net (snd (date_now w)) = io_net w" "fst (date_now w) = io_clock w 0"
  by (simp_all add: date_now_def)

text \<open>Fields of an object that the code reads as strings, booleans or lists of strings.\<close>

definition json_string :: "json \<Rightarrow> string option" where
  "json_string v = (case v of JStr s \<Rightarrow> Some s | _ \<Rightarrow> None)"

definition json_bool :: "json \<Rightarrow> bool option" where
  "json_bool v = (case v of JBool b \<Rightarrow> Some b | _ \<Rightarrow> None)"

definition json_strings :: "json \<Rightarrow> string list option" where
  "json_strings v = (case v of JArr vs \<Rightarrow> Some (List.map_filter json_string vs) | _ \<Rightarrow> None)"

definition json_obj :: "json \<Rightarrow> jobj" where
  "json_obj v = (case v of JObj obj \<Rightarrow> obj | _ \<Rightarrow> [])"

definition sfield :: "jobj \<Rightarrow> string \<Rightarrow> string option" where
  "sfield obj k = Option.bind (rget obj k) json_string"

definition bfield :: "jobj \<Rightarrow> string \<Rightarrow> bool option" where
  "bfield obj k = Option.bind (rget obj k) json_bool"

definition lfield :: "jobj \<Rightarrow> string \<Rightarrow> string list option" where
  "lfield obj k = Option.bind (rget obj k) json_strings"

lemma json_views [simp]:
  "json_string (JStr s) = Some s" "json_bool (JBool b) = Some b"
  "json_strings (JArr (map JStr ss)) = Some ss" "json_obj (JObj obj) = obj"
  by (simp_all add: json_string_def json_bool_def json_strings_def json_obj_def
      List.map_filter_def comp_def)

end
