(* ===== verification/AuthClaims.thy ===== *)
theory AuthClaims
  imports Fetch
begin

text \<open>
  \<open>gateway/src/pipeline/plugins/auth/claims.ts\<close>: how a verified identity is written to the
  context and to the headers for the upstream. Claims are JSON values under string keys.
\<close>

section \<open>The code\<close>

record auth_identity =
  ai_clientId :: string
  ai_userId :: string
  ai_plan :: string
  ai_subscriptionId :: string
  ai_orgId :: string
  ai_scopes :: "string list"
  ai_claims :: jobj

definition setIfTruthy :: "string \<Rightarrow> string \<Rightarrow> dict \<Rightarrow> dict" where
  "setIfTruthy key val m = (if val \<noteq> [] then rset key val m else m)"

definition keep_or :: "string \<Rightarrow> string \<Rightarrow> string" where
  "keep_or new old = (if new \<noteq> [] then new else old)"

definition identity_headers :: "auth_identity \<Rightarrow> dict \<Rightarrow> dict" where
  "identity_headers i h =
     (let h1 = setIfTruthy ''x-client-id'' (ai_clientId i) h;
          h2 = setIfTruthy ''x-user-id'' (ai_userId i) h1;
          h3 = setIfTruthy ''x-plan'' (ai_plan i) h2;
          h4 = setIfTruthy ''x-subscription-id'' (ai_subscriptionId i) h3;
          h5 = setIfTruthy ''x-org-id'' (ai_orgId i) h4
      in if ai_scopes i \<noteq> [] then rset ''x-scopes'' (join_with '' '' (ai_scopes i)) h5 else h5)"

definition applyIdentity :: "auth_identity \<Rightarrow> ctx \<Rightarrow> ctx" where
  "applyIdentity i c = c\<lparr>
     c_clientId := keep_or (ai_clientId i) (c_clientId c),
     c_userId := keep_or (ai_userId i) (c_userId c),
     c_plan := keep_or (ai_plan i) (c_plan c),
     c_subscriptionId := keep_or (ai_subscriptionId i) (c_subscriptionId c),
     c_orgId := keep_or (ai_orgId i) (c_orgId c),
     c_scopes := (if ai_scopes i \<noteq> [] then ai_scopes i else c_scopes c),
     c_claims := fold (\<lambda>(k, v). rset k v) (ai_claims i) (c_claims c),
     c_requestHeaders := identity_headers i (c_requestHeaders c)\<rparr>"

definition forwardClaims :: "ext \<Rightarrow> jobj \<Rightarrow> string \<Rightarrow> ctx \<Rightarrow> ctx" where
  "forwardClaims X claims cfgKeys c =
     (let keys = (if cfgKeys = ''*'' then map fst claims else split_trim (CHR '','') cfgKeys)
      in fold (\<lambda>k c. case jget claims k of
                        None \<Rightarrow> c
                      | Some v \<Rightarrow> set_request_header (''x-claim-'' @ js_lower k) (js_String X v) c) keys c)"

definition extractScopes :: "jobj \<Rightarrow> string list" where
  "extractScopes payload =
     (case orelse_opt (jget payload ''scopes'') (jget payload ''scope'') of
        Some (JArr vs) \<Rightarrow> List.map_filter json_string vs
      | Some (JStr s) \<Rightarrow> nonempty (split_ws s)
      | _ \<Rightarrow> [])"

text \<open>The loop that both token methods run over \<open>required_scopes\<close>: the first missing scope.\<close>

definition missing_scope :: "string option \<Rightarrow> string list \<Rightarrow> string option" where
  "missing_scope required scopes =
     (if truthy required then find (\<lambda>s. s \<notin> set scopes) (nonempty (split_ws (str_of required))) else None)"

section \<open>Frame\<close>

lemma applyIdentity_fields [simp]:
  "c_apiId (applyIdentity i c) = c_apiId c" "c_aborted (applyIdentity i c) = c_aborted c"
  "c_cacheHit (applyIdentity i c) = c_cacheHit c" "c_statusCode (applyIdentity i c) = c_statusCode c"
  "c_responseHeaders (applyIdentity i c) = c_responseHeaders c"
  "c_queryParams (applyIdentity i c) = c_queryParams c"
  "c_requestHeaders (applyIdentity i c) = identity_headers i (c_requestHeaders c)"
  by (simp_all add: applyIdentity_def)

lemma rget_setIfTruthy:
  "rget (setIfTruthy k v h) k' = (if k' = k \<and> v \<noteq> [] then Some v else rget h k')"
  by (simp add: setIfTruthy_def)

lemma forwardClaims_fields [simp]:
  "c_aborted (forwardClaims X cl ks c) = c_aborted c" "c_cacheHit (forwardClaims X cl ks c) = c_cacheHit c"
  "c_apiId (forwardClaims X cl ks c) = c_apiId c" "c_statusCode (forwardClaims X cl ks c) = c_statusCode c"
proof -
  have "c_aborted (fold (\<lambda>k c. case jget cl k of None \<Rightarrow> c
          | Some v \<Rightarrow> set_request_header (''x-claim-'' @ js_lower k) (js_String X v) c) ks c) = c_aborted c \<and>
        c_cacheHit (fold (\<lambda>k c. case jget cl k of None \<Rightarrow> c
          | Some v \<Rightarrow> set_request_header (''x-claim-'' @ js_lower k) (js_String X v) c) ks c) = c_cacheHit c \<and>
        c_apiId (fold (\<lambda>k c. case jget cl k of None \<Rightarrow> c
          | Some v \<Rightarrow> set_request_header (''x-claim-'' @ js_lower k) (js_String X v) c) ks c) = c_apiId c \<and>
        c_statusCode (fold (\<lambda>k c. case jget cl k of None \<Rightarrow> c
          | Some v \<Rightarrow> set_request_header (''x-claim-'' @ js_lower k) (js_String X v) c) ks c) = c_statusCode c"
    for ks and c :: ctx
    by (induction ks arbitrary: c) (simp_all split: option.splits)
  then show "c_aborted (forwardClaims X cl ks c) = c_aborted c" "c_cacheHit (forwardClaims X cl ks c) = c_cacheHit c"
    "c_apiId (forwardClaims X cl ks c) = c_apiId c" "c_statusCode (forwardClaims X cl ks c) = c_statusCode c"
    by (simp_all add: forwardClaims_def Let_def)
qed

lemma missing_scope_None:
  "missing_scope (Some req) scopes = None \<longleftrightarrow> (\<forall>s \<in> set (nonempty (split_ws req)). s \<in> set scopes)"
  by (cases "req = []") (auto simp: missing_scope_def find_None_iff is_ws_def)

end
