(* ===== verification/AuthMethods.thy ===== *)
theory AuthMethods
  imports AuthClaims
begin

text \<open>
  The five authentication methods of \<open>gateway/src/pipeline/plugins/auth\<close>: \<open>jwt.ts\<close>,
  \<open>api-key.ts\<close>, \<open>basic.ts\<close>, \<open>introspect.ts\<close> and \<open>hmac.ts\<close>. A method answers ok or a reason,
  or throws. The verification of a token's signature, the hashes and the services it asks are
  parameters; the key set behind a JWKS URL belongs to the verifier, so its cache is not
  modelled.
\<close>

datatype auth_result = AuthOk | AuthFail string

type_synonym 'd auth_fn =
  "ext \<Rightarrow> 'd redis \<Rightarrow> config \<Rightarrow> dict \<Rightarrow> ctx \<Rightarrow> 'd io \<Rightarrow> (exn + auth_result) \<times> ctx \<times> 'd io"

abbreviation auth_ok :: "ctx \<Rightarrow> 'd io \<Rightarrow> (exn + auth_result) \<times> ctx \<times> 'd io" where
  "auth_ok c w \<equiv> (Inr AuthOk, c, w)"

abbreviation auth_fail :: "string \<Rightarrow> ctx \<Rightarrow> 'd io \<Rightarrow> (exn + auth_result) \<times> ctx \<times> 'd io" where
  "auth_fail reason c w \<equiv> (Inr (AuthFail reason), c, w)"

definition header_or :: "ctx \<Rightarrow> string \<Rightarrow> string" where
  "header_or c k = orelse (rget (c_requestHeaders c) k) []"

text \<open>What every method does when its service is out of reach.\<close>

definition service_down :: "dict \<Rightarrow> string \<Rightarrow> ctx \<Rightarrow> 'd io \<Rightarrow> (exn + auth_result) \<times> ctx \<times> 'd io" where
  "service_down cfg reason c w =
     (if rget cfg ''fail_open'' = Some ''true'' then auth_ok c w else auth_fail reason c w)"

definition post_json :: "ext \<Rightarrow> string \<Rightarrow> dict \<Rightarrow> jobj \<Rightarrow> http_req" where
  "post_json X u headers body =
     \<lparr>rq_url = u, rq_method = ''POST'', rq_headers = (''content-type'', ''application/json'') # headers,
      rq_body = Some (x_json_str X (JObj body))\<rparr>"

section \<open>JWT\<close>

text \<open>
  The regular expression takes the first cookie of that name: after the start or a semicolon,
  white space, the name, an equals sign and a value that is not empty.
\<close>

fun cookie_value :: "string \<Rightarrow> string list \<Rightarrow> string option" where
  "cookie_value name [] = None"
| "cookie_value name (part # parts) =
     (let t = js_trim_start part
      in if starts_with t (name @ ''='') \<and> drop (length name + 1) t \<noteq> []
         then Some (drop (length name + 1) t) else cookie_value name parts)"

definition bearer_token :: "ctx \<Rightarrow> string option" where
  "bearer_token c =
     (let auth = header_or c ''authorization''
      in if starts_with (js_lower auth) ''bearer '' then Some (js_trim (drop 7 auth)) else None)"

definition extractToken :: "ext \<Rightarrow> ctx \<Rightarrow> string \<Rightarrow> string option \<Rightarrow> exn + string option" where
  "extractToken X c source cookieName =
     (if starts_with source ''cookie:'' \<or> source = ''cookie''
      then (let name = (if starts_with source ''cookie:'' then drop 7 source
                        else orelse cookieName ''access_token'')
            in case cookie_value name (split_on (CHR '';'') (header_or c ''cookie'')) of
                 None \<Rightarrow> Inr None
               | Some v \<Rightarrow> (case x_decode_uri X v of
                              None \<Rightarrow> Inl (JsError ''URIError'' ''URI malformed'') | Some s \<Rightarrow> Inr (Some s)))
      else Inr (bearer_token c))"

definition nonempty_opt :: "string option \<Rightarrow> string option" where
  "nonempty_opt v = (if truthy v then v else None)"

text \<open>The key of the verification, or the reason why there is none.\<close>

definition jwt_key :: "ext \<Rightarrow> config \<Rightarrow> dict \<Rightarrow> string \<Rightarrow> string + (string option \<times> string option)" where
  "jwt_key X A cfg algorithm =
     (if algorithm = ''HS256''
      then (if truthy (rget cfg ''secret'') then Inr (rget cfg ''secret'', None)
            else Inl ''HS256 secret not configured'')
      else (let jwksUrl = orelse (rget cfg ''jwks_url'') (cfg_JWKS_URL A)
            in case x_url X jwksUrl of
                 None \<Rightarrow> Inl ''JWT verification failed: Invalid URL''
               | Some u \<Rightarrow> Inr (None, Some jwksUrl)))"

definition jwt_request :: "dict \<Rightarrow> string \<Rightarrow> string \<Rightarrow> string option \<times> string option \<Rightarrow> jwt_call" where
  "jwt_request cfg token algorithm key =
     \<lparr>jc_token = token, jc_secret = fst key, jc_jwks_url = snd key, jc_algorithm = algorithm,
      jc_issuer = nonempty_opt (rget cfg ''issuer''), jc_audience = nonempty_opt (rget cfg ''audience'')\<rparr>"

definition jwt_identity :: "ext \<Rightarrow> jobj \<Rightarrow> auth_identity" where
  "jwt_identity X claims =
     \<lparr>ai_clientId = jstring X claims ''client_id'' [], ai_userId = jstring X claims ''sub'' [],
      ai_plan = jstring X claims ''plan'' [], ai_subscriptionId = jstring X claims ''subscription_id'' [],
      ai_orgId = jstring X claims ''org_id'' [], ai_scopes = extractScopes claims, ai_claims = claims\<rparr>"

definition forward_configured :: "ext \<Rightarrow> dict \<Rightarrow> jobj \<Rightarrow> ctx \<Rightarrow> ctx" where
  "forward_configured X cfg claims c =
     (if truthy (rget cfg ''forward_claims'')
      then forwardClaims X claims (str_of (rget cfg ''forward_claims'')) c else c)"

definition jwtAuth :: "'d auth_fn" where
  "jwtAuth X R A cfg c w =
     (let algorithm = orelse (rget cfg ''algorithm'') ''RS256'';
          tokenSource = orelse (rget cfg ''token_source'') ''header''
      in case extractToken X c tokenSource (rget cfg ''cookie_name'') of
           Inl e \<Rightarrow> (Inl e, c, w)
         | Inr token \<Rightarrow>
             (if \<not> truthy token then auth_fail ''missing Bearer token'' c w
              else case jwt_key X A cfg algorithm of
                     Inl reason \<Rightarrow> auth_fail reason c w
                   | Inr key \<Rightarrow>
                       (case jwt_verify (jwt_request cfg (str_of token) algorithm key) w of
                          (Inl (JsError _ msg), w1) \<Rightarrow> auth_fail (''JWT verification failed: '' @ msg) c w1
                        | (Inl NonError, w1) \<Rightarrow> auth_fail ''JWT verification failed: invalid token'' c w1
                        | (Inr claims, w1) \<Rightarrow>
                            (case missing_scope (rget cfg ''required_scopes'') (extractScopes claims) of
                               Some s \<Rightarrow> auth_fail (''insufficient scope: '' @ s) c w1
                             | None \<Rightarrow>
                                 auth_ok (forward_configured X cfg claims (applyIdentity (jwt_identity X claims) c)) w1))))"

section \<open>API keys\<close>

definition KEY_PREFIX :: string where
  "KEY_PREFIX = ''xca_''"

definition header_key :: "ctx \<Rightarrow> string \<Rightarrow> string" where
  "header_key c headerName =
     (let rawKey = orelse (rget (c_requestHeaders c) headerName) (header_or c ''x-api-key'')
      in if rawKey = []
         then (let auth = header_or c ''authorization''
               in if starts_with (js_lower auth) ''apikey '' then js_trim (drop 7 auth) else [])
         else rawKey)"

text \<open>The loop over the places where a key may be; a key found in the query is removed there.\<close>

fun find_key :: "string list \<Rightarrow> string \<Rightarrow> string \<Rightarrow> ctx \<Rightarrow> string \<times> ctx" where
  "find_key [] headerName queryParam c = ([], c)"
| "find_key (loc # locs) headerName queryParam c =
     (if loc = ''header''
      then (let k = header_key c headerName
            in if k \<noteq> [] then (k, c) else find_key locs headerName queryParam c)
      else if loc = ''query''
      then (let k = orelse (rget (c_queryParams c) queryParam) []
            in if k \<noteq> [] then (k, c\<lparr>c_queryParams := rdel queryParam (c_queryParams c)\<rparr>)
               else find_key locs headerName queryParam c)
      else find_key locs headerName queryParam c)"

definition key_location :: "dict \<Rightarrow> ctx \<Rightarrow> string \<times> ctx" where
  "key_location cfg c =
     find_key (map js_trim (split_on (CHR '','') (orelse (rget cfg ''key_location'') ''header,query'')))
       (js_lower (orelse (rget cfg ''header_name'') ''x-api-key''))
       (orelse (rget cfg ''query_param'') ''api_key'') c"

definition injectFromCache :: "dict \<Rightarrow> ctx \<Rightarrow> ctx" where
  "injectFromCache info c =
     (let c1 = applyIdentity \<lparr>ai_clientId = orelse (rget info ''key_id'') [], ai_userId = [],
                 ai_plan = orelse (rget info ''plan_name'') [], ai_subscriptionId = orelse (rget info ''sub_id'') [],
                 ai_orgId = orelse (rget info ''org_id'') [], ai_scopes = [], ai_claims = []\<rparr> c
      in if truthy (rget info ''api_id'') then c1\<lparr>c_apiId := str_of (rget info ''api_id'')\<rparr> else c1)"

definition key_identity :: "ext \<Rightarrow> jobj \<Rightarrow> ctx \<Rightarrow> ctx" where
  "key_identity X body c =
     (let c1 = applyIdentity \<lparr>ai_clientId = jstring X body ''key_id'' [], ai_userId = [],
                 ai_plan = jstring X body ''plan'' [], ai_subscriptionId = jstring X body ''subscription_id'' [],
                 ai_orgId = jstring X body ''organization_id'' [], ai_scopes = [], ai_claims = []\<rparr> c
      in c1\<lparr>c_apiId := jstring X body ''api_id'' (c_apiId c1)\<rparr>)"

definition verify_url :: "config \<Rightarrow> string" where
  "verify_url A = cfg_SUBSCRIPTION_SERVICE_URL A @ ''/internal/keys/verify''"

definition apikey_verify :: "string \<Rightarrow> 'd auth_fn" where
  "apikey_verify rawKey X R A cfg c w =
     (case internalHeaders X A of
        Inl e \<Rightarrow> service_down cfg ''auth service unavailable'' c w
      | Inr h \<Rightarrow>
          (case internalFetch X A (post_json X (verify_url A) h [(''key'', JStr rawKey)]) w of
             (Inl e, w1) \<Rightarrow> service_down cfg ''auth service unavailable'' c w1
           | (Inr resp, w1) \<Rightarrow>
               (if rs_status resp = 401 then auth_fail ''invalid or revoked API key'' c w1
                else if rs_status resp = 403 then auth_fail ''subscription is not active'' c w1
                else if \<not> resp_ok resp then service_down cfg ''auth service unavailable'' c w1
                else case resp_json X resp of
                       Inl e \<Rightarrow> service_down cfg ''auth service unavailable'' c w1
                     | Inr JNull \<Rightarrow> service_down cfg ''auth service unavailable'' c w1
                     | Inr body \<Rightarrow> auth_ok (key_identity X (json_obj body) c) w1)))"

definition apikey_cache_key :: "ext \<Rightarrow> string \<Rightarrow> string" where
  "apikey_cache_key X rawKey = ''apikey:info:'' @ x_sha256 X rawKey"

definition apiKeyAuth :: "'d auth_fn" where
  "apiKeyAuth X R A cfg c0 w =
     (let (rawKey, c) = key_location cfg c0
      in if rawKey = [] then auth_fail ''missing API key'' c w
         else if \<not> starts_with rawKey KEY_PREFIX then auth_fail ''invalid API key format'' c w
         else case redis_read (\<lambda>t d. r_hgetall R t d (apikey_cache_key X rawKey)) w of
                (Inl e, w1) \<Rightarrow> apikey_verify rawKey X R A cfg c w1
              | (Inr info, w1) \<Rightarrow>
                  (if info \<noteq> []
                   then (if rget info ''status'' \<noteq> Some ''active'' then auth_fail ''api key is not active'' c w1
                         else auth_ok (injectFromCache info c) w1)
                   else apikey_verify rawKey X R A cfg c w1))"

section \<open>Basic\<close>

definition basic_identity :: "ext \<Rightarrow> string \<Rightarrow> jobj \<Rightarrow> auth_identity" where
  "basic_identity X username body =
     \<lparr>ai_clientId = jstring X body ''client_id'' [], ai_userId = jstring X body ''user_id'' username,
      ai_plan = jstring X body ''plan'' [], ai_subscriptionId = [], ai_orgId = jstring X body ''org_id'' [],
      ai_scopes = [], ai_claims = (case jget body ''claims'' of None \<Rightarrow> [] | Some v \<Rightarrow> json_obj v)\<rparr>"

definition basic_verify :: "string \<Rightarrow> string \<Rightarrow> 'd auth_fn" where
  "basic_verify username password X R A cfg c w =
     (let endpoint = orelse (rget cfg ''auth_endpoint'') (cfg_AUTH_SERVICE_URL A @ ''/internal/basic/verify'')
      in case internalFetch X A
           (post_json X endpoint [] [(''username'', JStr username), (''password'', JStr password)]) w of
           (Inl e, w1) \<Rightarrow> service_down cfg ''auth service unavailable'' c w1
         | (Inr resp, w1) \<Rightarrow>
             (if rs_status resp = 401 then auth_fail ''invalid username or password'' c w1
              else if rs_status resp = 403 then auth_fail ''account disabled'' c w1
              else if \<not> resp_ok resp then service_down cfg ''auth service unavailable'' c w1
              else case resp_json X resp of
                     Inl e \<Rightarrow> service_down cfg ''auth service unavailable'' c w1
                   | Inr JNull \<Rightarrow> service_down cfg ''auth service unavailable'' c w1
                   | Inr body \<Rightarrow> auth_ok (applyIdentity (basic_identity X username (json_obj body)) c) w1))"

definition basicAuth :: "'d auth_fn" where
  "basicAuth X R A cfg c w =
     (let auth = header_or c ''authorization''
      in if \<not> starts_with (js_lower auth) ''basic '' then auth_fail ''missing Basic credentials'' c w
         else (let decoded = x_b64_dec X (js_trim (drop 6 auth))
               in case index_of (CHR '':'') decoded of
                    None \<Rightarrow> auth_fail ''invalid Basic credentials format'' c w
                  | Some colonIdx \<Rightarrow>
                      (let username = take colonIdx decoded; password = drop (colonIdx + 1) decoded
                       in if username = [] \<or> password = [] then auth_fail ''missing username or password'' c w
                          else basic_verify username password X R A cfg c w)))"

section \<open>Introspection\<close>

definition is_active :: "jobj \<Rightarrow> bool" where
  "is_active info = (case rget info ''active'' of None \<Rightarrow> False | Some v \<Rightarrow> js_truthy v)"

definition introspect_identity :: "jobj \<Rightarrow> auth_identity" where
  "introspect_identity info =
     \<lparr>ai_clientId = orelse (sfield info ''client_id'') [],
      ai_userId = orelse (sfield info ''sub'') (orelse (sfield info ''username'') []),
      ai_plan = orelse (sfield info ''plan'') [], ai_subscriptionId = [],
      ai_orgId = orelse (sfield info ''org_id'') [], ai_scopes = extractScopes info, ai_claims = info\<rparr>"

definition applyIntrospectResult :: "ext \<Rightarrow> dict \<Rightarrow> jobj \<Rightarrow> ctx \<Rightarrow> auth_result \<times> ctx" where
  "applyIntrospectResult X cfg info c =
     (case missing_scope (rget cfg ''required_scopes'') (extractScopes info) of
        Some s \<Rightarrow> (AuthFail (''insufficient scope: '' @ s), c)
      | None \<Rightarrow> (AuthOk, forward_configured X cfg info (applyIdentity (introspect_identity info) c)))"

definition token_cache_key :: "ext \<Rightarrow> string \<Rightarrow> string" where
  "token_cache_key X token = ''introspect:'' @ take 32 (x_sha256 X token)"

text \<open>A write whose failure is ignored; Redis rejects an expiry that is not positive.\<close>

definition set_quietly :: "'d redis \<Rightarrow> string \<Rightarrow> string \<Rightarrow> int \<Rightarrow> 'd io \<Rightarrow> 'd io" where
  "set_quietly R k v ttl w = (if 0 < ttl then snd (redis_write (\<lambda>t. r_setex R t k v ttl) w) else w)"

definition introspect_request :: "ext \<Rightarrow> config \<Rightarrow> dict \<Rightarrow> string \<Rightarrow> http_req" where
  "introspect_request X A cfg token =
     (let clientId = orelse (rget cfg ''client_id'') [];
          clientSecret = orelse (rget cfg ''client_secret'') []
      in \<lparr>rq_url = orelse (rget cfg ''introspect_url'') (cfg_AUTH_SERVICE_URL A @ ''/oauth2/introspect''),
          rq_method = ''POST'',
          rq_headers = (''content-type'', ''application/x-www-form-urlencoded'') #
            (if clientId \<noteq> [] then [(''authorization'', ''Basic '' @ x_b64_enc X (clientId @ '':'' @ clientSecret))] else []),
          rq_body = Some (''token='' @ x_form_encode X token)\<rparr>)"

definition cache_seconds :: "dict \<Rightarrow> int" where
  "cache_seconds cfg =
     (case parse_int (orelse (rget cfg ''cache_ttl_s'') ''60'') of None \<Rightarrow> 60 | Some n \<Rightarrow> if n = 0 then 60 else n)"

definition introspect_remote :: "string \<Rightarrow> 'd auth_fn" where
  "introspect_remote token X R A cfg c w =
     (case internalFetch X A (introspect_request X A cfg token) w of
        (Inl e, w1) \<Rightarrow> service_down cfg ''introspect service unavailable'' c w1
      | (Inr resp, w1) \<Rightarrow>
          (if \<not> resp_ok resp
           then service_down cfg (''introspect endpoint error: '' @ show_int (rs_status resp)) c w1
           else case resp_json X resp of
                  Inl e \<Rightarrow> service_down cfg ''introspect service unavailable'' c w1
                | Inr JNull \<Rightarrow> service_down cfg ''introspect service unavailable'' c w1
                | Inr info \<Rightarrow>
                    (if \<not> is_active (json_obj info)
                     then auth_fail ''token is not active'' c
                            (set_quietly R (token_cache_key X token) (x_json_str X info) 10 w1)
                     else (let (r, c1) = applyIntrospectResult X cfg (json_obj info) c
                           in (Inr r, c1, set_quietly R (token_cache_key X token) (x_json_str X info) (cache_seconds cfg) w1)))))"

definition tokenIntrospect :: "'d auth_fn" where
  "tokenIntrospect X R A cfg c w =
     (case bearer_token c of
        None \<Rightarrow> auth_fail ''missing Bearer token'' c w
      | Some token \<Rightarrow>
          (case redis_read (\<lambda>t d. r_get R t d (token_cache_key X token)) w of
             (Inl e, w1) \<Rightarrow> introspect_remote token X R A cfg c w1
           | (Inr cached, w1) \<Rightarrow>
               (if truthy cached
                then (case x_json_parse X (str_of cached) of
                        None \<Rightarrow> introspect_remote token X R A cfg c w1
                      | Some JNull \<Rightarrow> introspect_remote token X R A cfg c w1
                      | Some info \<Rightarrow>
                          (if \<not> is_active (json_obj info) then auth_fail ''token is not active'' c w1
                           else (let (r, c1) = applyIntrospectResult X cfg (json_obj info) c in (Inr r, c1, w1))))
                else introspect_remote token X R A cfg c w1)))"

section \<open>HMAC\<close>

text \<open>\<open>Buffer.from(s, 'hex')\<close>: pairs of digits up to the first that is none.\<close>

fun hex_bytes :: "string \<Rightarrow> nat list" where
  "hex_bytes (a # b # s) =
     (case (hex_val a, hex_val b) of (Some x, Some y) \<Rightarrow> (16 * x + y) # hex_bytes s | _ \<Rightarrow> [])"
| "hex_bytes _ = []"

definition signature_header :: "dict \<Rightarrow> string" where
  "signature_header cfg = js_lower (orelse (rget cfg ''header_name'') ''x-signature-256'')"

text \<open>The check of the time stamp, in seconds; \<open>ts\<close> zero or unreadable is missing.\<close>

definition timestamp_bad :: "dict \<Rightarrow> string \<Rightarrow> ctx \<Rightarrow> int \<Rightarrow> bool" where
  "timestamp_bad cfg tsHeader c now =
     (case parse_int (orelse (rget (c_requestHeaders c) (js_lower tsHeader)) ''0'') of
        None \<Rightarrow> True
      | Some ts \<Rightarrow>
          ts = 0 \<or>
          (case parse_int (orelse (rget cfg ''timestamp_tolerance_s'') ''300'') of
             None \<Rightarrow> False
           | Some tolerance \<Rightarrow> (of_int tolerance :: rat) < \<bar>of_int now / 1000 - of_int ts\<bar>))"

definition hmac_check :: "ext \<Rightarrow> dict \<Rightarrow> string \<Rightarrow> ctx \<Rightarrow> auth_result \<times> ctx" where
  "hmac_check X cfg sigHeader c =
     (let pre = orelse (rget cfg ''prefix'') ''sha256='';
          maxBytes = parse_int (orelse (rget cfg ''max_body_bytes'') ''65536'');
          body = orelse (c_requestBody c) [];
          rawSig = (if starts_with sigHeader pre then drop (length pre) sigHeader else sigHeader);
          expected = x_hmac256 X (str_of (rget cfg ''secret'')) body
      in if (case maxBytes of None \<Rightarrow> False | Some m \<Rightarrow> m < int (length body))
         then (AuthFail (''body exceeds max signature verification size ('' @
                 (case maxBytes of None \<Rightarrow> ''NaN'' | Some m \<Rightarrow> show_int m) @ '' bytes)''), c)
         else if hex_bytes expected \<noteq> hex_bytes rawSig then (AuthFail ''HMAC signature mismatch'', c)
         else (let serviceId = orelse (rget (c_requestHeaders c) ''x-service-id'') (header_or c ''x-client-id'')
               in if serviceId \<noteq> []
                  then (AuthOk, set_request_header ''x-client-id'' serviceId (c\<lparr>c_clientId := serviceId\<rparr>))
                  else (AuthOk, c)))"

definition hmacAuth :: "'d auth_fn" where
  "hmacAuth X R A cfg c w =
     (if \<not> truthy (rget cfg ''secret'') then auth_fail ''HMAC secret not configured'' c w
      else (let headerName = signature_header cfg;
                sigHeader = orelse (rget (c_requestHeaders c) headerName) (header_or c ''x-hub-signature-256'')
            in if sigHeader = [] then auth_fail (''missing '' @ headerName @ '' header'') c w
               else if truthy (rget cfg ''timestamp_header'')
               then (let ts = parse_int (orelse (rget (c_requestHeaders c) (js_lower (str_of (rget cfg ''timestamp_header'')))) ''0'');
                         (now, w1) = (if ts = None \<or> ts = Some 0 then (0, w) else date_now w)
                     in if timestamp_bad cfg (str_of (rget cfg ''timestamp_header'')) c now
                        then auth_fail ''request timestamp expired or missing'' c w1
                        else (let (r, c1) = hmac_check X cfg sigHeader c in (Inr r, c1, w1)))
               else (let (r, c1) = hmac_check X cfg sigHeader c in (Inr r, c1, w))))"

end
