(* ===== verification/Auth.thy ===== *)
theory Auth
  imports AuthMethods
begin

text \<open>
  \<open>gateway/src/pipeline/plugins/auth/index.ts\<close>: the plugin that tries the configured methods
  in order and stops the request with 401 when none accepts it.
\<close>

section \<open>The code\<close>

definition auth_method :: "string \<Rightarrow> 'd auth_fn option" where
  "auth_method m =
     (if m = ''jwt'' then Some jwtAuth else if m = ''api_key'' then Some apiKeyAuth
      else if m = ''basic'' then Some basicAuth else if m = ''introspect'' then Some tokenIntrospect
      else if m = ''hmac'' then Some hmacAuth else None)"

definition WWW_AUTHENTICATE_SCHEMES :: dict where
  "WWW_AUTHENTICATE_SCHEMES = [(''jwt'', ''Bearer''), (''api_key'', ''ApiKey''), (''basic'', ''Basic''),
     (''introspect'', ''Bearer''), (''hmac'', ''HMAC'')]"

fun sub_entries :: "string \<Rightarrow> dict \<Rightarrow> dict \<Rightarrow> dict" where
  "sub_entries pre [] sub = sub"
| "sub_entries pre ((k, v) # cfg) sub =
     sub_entries pre cfg
       (if starts_with k pre then rset (drop (length pre) k) v sub
        else if CHR ''.'' \<notin> set k then (if rget sub k = None then rset k v sub else sub)
        else sub)"

definition buildSubConfig :: "dict \<Rightarrow> string \<Rightarrow> dict" where
  "buildSubConfig cfg method = sub_entries (method @ ''.'') cfg []"

definition error_message :: "exn \<Rightarrow> string" where
  "error_message e = (case e of JsError _ msg \<Rightarrow> msg | NonError \<Rightarrow> ''unknown error'')"

text \<open>The loop: \<open>None\<close> when a method accepted the request, otherwise the failures.\<close>

fun try_methods ::
  "ext \<Rightarrow> 'd redis \<Rightarrow> config \<Rightarrow> dict \<Rightarrow> string list \<Rightarrow> (string \<times> string) list \<Rightarrow> ctx \<Rightarrow> 'd io \<Rightarrow>
   (string \<times> string) list option \<times> ctx \<times> 'd io" where
  "try_methods X R A cfg [] failures c w = (Some failures, c, w)"
| "try_methods X R A cfg (m # ms) failures c w =
     (case auth_method m of
        None \<Rightarrow> try_methods X R A cfg ms failures c w
      | Some fn \<Rightarrow>
          (case fn X R A (buildSubConfig cfg m) c w of
             (Inr AuthOk, c', w') \<Rightarrow> (None, c', w')
           | (Inr (AuthFail reason), c', w') \<Rightarrow> try_methods X R A cfg ms (failures @ [(m, reason)]) c' w'
           | (Inl e, c', w') \<Rightarrow> try_methods X R A cfg ms (failures @ [(m, error_message e)]) c' w'))"

definition auth_methods :: "dict \<Rightarrow> string list" where
  "auth_methods cfg = split_trim (CHR '','') (orelse (rget cfg ''methods'') ''jwt'')"

definition challenge :: "dict \<Rightarrow> string" where
  "challenge cfg =
     join_with '', '' (map (\<lambda>m. orelse (rget WWW_AUTHENTICATE_SCHEMES m) ''Bearer'' @ '' realm='' @ [CHR 0x22]
         @ orelse (rget cfg ''realm'') ''xCloudAPIM'' @ [CHR 0x22])
       (filter (\<lambda>m. m \<in> {''jwt'', ''api_key'', ''basic'', ''introspect'', ''hmac''}) (auth_methods cfg)))"

definition authPlugin :: "'d plugin" where
  "authPlugin X R A cfg c w =
     (case try_methods X R A cfg (auth_methods cfg) [] c w of
        (None, c', w') \<Rightarrow> done_with c' w'
      | (Some failures, c', w') \<Rightarrow>
          (if rget cfg ''allow_anonymous'' = Some ''true'' then done_with c' w'
           else (let firstReason = (case failures of [] \<Rightarrow> ''authentication required'' | (m, r) # _ \<Rightarrow> r)
                 in done_with (abort_with 401 (''Unauthorized: '' @ firstReason)
                      (Some [(''www-authenticate'', challenge cfg),
                             (''x-auth-failure'', join_with ''; '' (map (\<lambda>(m, r). m @ '':'' @ r) failures))]) c') w')))"

section \<open>Who gets past the plugin\<close>

text \<open>
  A run of methods that all turned the request down: from context \<open>c\<close> and world \<open>w\<close> each of
  them was unknown, rejected or threw, in this order, and left \<open>c1\<close> and \<open>w1\<close> to the next.
\<close>

inductive refused ::
  "ext \<Rightarrow> 'd redis \<Rightarrow> config \<Rightarrow> dict \<Rightarrow> string list \<Rightarrow> ctx \<Rightarrow> 'd io \<Rightarrow> ctx \<Rightarrow> 'd io \<Rightarrow> bool"
  for X R A cfg where
  none: "refused X R A cfg [] c w c w"
| unknown: "auth_method m = (None :: 'd auth_fn option) \<Longrightarrow> refused X R A cfg ms c w c1 w1 \<Longrightarrow>
    refused X R A cfg (m # ms) c w c1 w1"
| rejects: "auth_method m = Some fn \<Longrightarrow> fn X R A (buildSubConfig cfg m) c w = (Inr (AuthFail reason), c1, w1) \<Longrightarrow>
    refused X R A cfg ms c1 w1 c2 w2 \<Longrightarrow> refused X R A cfg (m # ms) c w c2 w2"
| throws: "auth_method m = Some fn \<Longrightarrow> fn X R A (buildSubConfig cfg m) c w = (Inl e, c1, w1) \<Longrightarrow>
    refused X R A cfg ms c1 w1 c2 w2 \<Longrightarrow> refused X R A cfg (m # ms) c w c2 w2"

text \<open>
  The run that lets a request through: after a refused beginning of the configured methods,
  the next one accepted the context that this beginning left, and \<open>c'\<close> and \<open>w'\<close> are what the
  accepting method returned.
\<close>

definition auth_accepted ::
  "ext \<Rightarrow> 'd redis \<Rightarrow> config \<Rightarrow> dict \<Rightarrow> ctx \<Rightarrow> 'd io \<Rightarrow> ctx \<Rightarrow> 'd io \<Rightarrow> bool" where
  "auth_accepted X R A cfg c w c' w' =
     (\<exists>tried m rest fn c1 w1. auth_methods cfg = tried @ m # rest \<and> refused X R A cfg tried c w c1 w1 \<and>
        auth_method m = Some fn \<and> fn X R A (buildSubConfig cfg m) c1 w1 = (Inr AuthOk, c', w'))"

lemma try_methods_runs:
  fixes R :: "'d redis"
  assumes "try_methods X R A cfg ms failures c w = (r, c', w')"
  shows "case r of
      None \<Rightarrow> \<exists>tried m rest fn c1 w1. ms = tried @ m # rest \<and> refused X R A cfg tried c w c1 w1 \<and>
        auth_method m = Some fn \<and> fn X R A (buildSubConfig cfg m) c1 w1 = (Inr AuthOk, c', w')
    | Some fs \<Rightarrow> refused X R A cfg ms c w c' w'"
  using assms
proof (induction ms arbitrary: failures c w)
  case Nil
  then show ?case by (auto intro: refused.none)
next
  case (Cons m ms)
  let ?goal = "\<lambda>c1 w1. case r of
      None \<Rightarrow> \<exists>tried m rest fn c2 w2. ms = tried @ m # rest \<and> refused X R A cfg tried c1 w1 c2 w2 \<and>
        auth_method m = Some fn \<and> fn X R A (buildSubConfig cfg m) c2 w2 = (Inr AuthOk, c', w')
    | Some fs \<Rightarrow> refused X R A cfg ms c1 w1 c' w'"
  have extend: ?case if g: "?goal c1 w1" and step: "\<And>ts c2 w2. refused X R A cfg ts c1 w1 c2 w2 \<Longrightarrow>
      refused X R A cfg (m # ts) c w c2 w2" for c1 w1
  proof (cases r)
    case None
    from g [unfolded None option.case] obtain tried m' rest fn c2 w2 where h: "ms = tried @ m' # rest"
      "refused X R A cfg tried c1 w1 c2 w2" "auth_method m' = Some fn"
      "fn X R A (buildSubConfig cfg m') c2 w2 = (Inr AuthOk, c', w')" by blast
    with step [OF h(2)] show ?thesis unfolding None option.case
      by (intro exI [of _ "m # tried"] exI [of _ m'] exI [of _ rest] exI [of _ fn] exI [of _ c2] exI [of _ w2]) simp
  qed (use g step in simp)
  show ?case
  proof (cases "auth_method m :: 'd auth_fn option")
    case None
    with Cons.prems have "try_methods X R A cfg ms failures c w = (r, c', w')" by simp
    from Cons.IH [OF this] show ?thesis by (rule extend) (rule refused.unknown [OF None])
  next
    case (Some fn)
    obtain q c1 w1 where f: "fn X R A (buildSubConfig cfg m) c w = (q, c1, w1)"
      by (cases "fn X R A (buildSubConfig cfg m) c w") auto
    show ?thesis
    proof (cases q)
      case (Inl e)
      with Cons.prems Some f have "try_methods X R A cfg ms (failures @ [(m, error_message e)]) c1 w1 = (r, c', w')"
        by simp
      from Cons.IH [OF this] show ?thesis by (rule extend) (rule refused.throws [OF Some f [unfolded Inl]])
    next
      case (Inr a)
      show ?thesis
      proof (cases a)
        case AuthOk
        with Cons.prems Some f Inr have r: "r = None" "c1 = c'" "w1 = w'" by simp_all
        with Some f Inr AuthOk show ?thesis unfolding r(1) option.case
          by (intro exI [of _ "[]"] exI [of _ m] exI [of _ ms] exI [of _ fn] exI [of _ c] exI [of _ w])
            (simp add: refused.none)
      next
        case (AuthFail reason)
        with Cons.prems Some f Inr have "try_methods X R A cfg ms (failures @ [(m, reason)]) c1 w1 = (r, c', w')"
          by simp
        from Cons.IH [OF this] show ?thesis
          by (rule extend) (rule refused.rejects [OF Some f [unfolded Inr AuthFail]])
      qed
    qed
  qed
qed

lemma authPlugin_cases:
  assumes "authPlugin X R A cfg c w = (e, c', w')" and "rget cfg ''allow_anonymous'' \<noteq> Some ''true''"
  shows "e = None \<and>
    (auth_accepted X R A cfg c w c' w' \<or>
     (\<exists>c1 msg hs. refused X R A cfg (auth_methods cfg) c w c1 w' \<and> c' = abort_with 401 msg (Some hs) c1 \<and>
        rget hs ''www-authenticate'' = Some (challenge cfg)))"
proof -
  obtain r c1 w1 where t: "try_methods X R A cfg (auth_methods cfg) [] c w = (r, c1, w1)"
    by (cases "try_methods X R A cfg (auth_methods cfg) [] c w") auto
  show ?thesis
  proof (cases r)
    case None
    with assms t have "e = None" "c1 = c'" "w1 = w'" by (simp_all add: authPlugin_def)
    with try_methods_runs [OF t] None show ?thesis by (simp add: auth_accepted_def)
  next
    case (Some failures)
    with try_methods_runs [OF t] have "refused X R A cfg (auth_methods cfg) c w c1 w1" by simp
    moreover have "\<exists>msg hs. e = None \<and> w1 = w' \<and> c' = abort_with 401 msg (Some hs) c1 \<and>
        rget hs ''www-authenticate'' = Some (challenge cfg)"
      using assms t Some by (intro exI) (auto simp: authPlugin_def Let_def)
    ultimately show ?thesis by blast
  qed
qed

text \<open>
  C4. The plugin fails closed: unless anonymous access is configured, either one of the
  configured methods accepted this very request - the methods before it all turned it down in
  turn, and the context and world after the plugin are those the accepting method returned -
  or every configured method was unknown, rejected it or threw, and the request is stopped
  with 401 and a challenge.
\<close>

theorem auth_fails_closed:
  assumes "authPlugin X R A cfg c w = (e, c', w')" and "rget cfg ''allow_anonymous'' \<noteq> Some ''true''"
  shows "e = None \<and>
    ((\<exists>tried m rest fn c1 w1. auth_methods cfg = tried @ m # rest \<and> refused X R A cfg tried c w c1 w1 \<and>
        auth_method m = Some fn \<and> fn X R A (buildSubConfig cfg m) c1 w1 = (Inr AuthOk, c', w')) \<or>
     (\<exists>c1 msg hs. refused X R A cfg (auth_methods cfg) c w c1 w' \<and> c' = abort_with 401 msg (Some hs) c1 \<and>
        rget hs ''www-authenticate'' = Some (challenge cfg)))"
  using assms unfolding auth_accepted_def [symmetric] by (rule authPlugin_cases)

definition anonymous_ctx :: ctx where
  "anonymous_ctx = createExecContext ''orders'' ''t1'' ''GET'' ''/orders'' ''shop.example'' ''203.0.113.9''
     [(''authorization'', ''Bearer abc'')] [] None 0"

theorem auth_fails_closed_witness:
  "\<exists>c1 c' w'. authPlugin sample_ext mem_redis sample_config [] anonymous_ctx sample_io = (None, c', w') \<and>
     refused sample_ext mem_redis sample_config [] [''jwt''] anonymous_ctx sample_io c1 w' \<and>
     c_abortCode c' = 401 \<and> c_aborted c'"
proof -
  obtain e c' w' where run: "authPlugin sample_ext mem_redis sample_config [] anonymous_ctx sample_io = (e, c', w')"
    by (cases "authPlugin sample_ext mem_redis sample_config [] anonymous_ctx sample_io")
  have m: "auth_methods [] = [''jwt'']" by code_simp
  have "fst (jwtAuth sample_ext mem_redis sample_config (buildSubConfig [] ''jwt'') anonymous_ctx sample_io) =
      Inr (AuthFail ''JWT verification failed: Invalid URL'')"
    by code_simp
  then have no: "fn sample_ext mem_redis sample_config (buildSubConfig [] ''jwt'') anonymous_ctx sample_io \<noteq> (Inr AuthOk, c', w')"
    if "auth_method ''jwt'' = Some fn" for fn :: "mem auth_fn"
    using that by (auto simp: auth_method_def)
  have "\<not> (\<exists>tried m rest fn c1 w1. [''jwt''] = tried @ m # rest \<and>
      refused sample_ext mem_redis sample_config [] tried anonymous_ctx sample_io c1 w1 \<and>
      auth_method m = Some fn \<and> fn sample_ext mem_redis sample_config (buildSubConfig [] m) c1 w1 = (Inr AuthOk, c', w'))"
    using no by (auto simp: Cons_eq_append_conv elim: refused.cases)
  then have out: "\<exists>c1 msg hs. refused sample_ext mem_redis sample_config [] [''jwt''] anonymous_ctx sample_io c1 w' \<and>
      c' = abort_with 401 msg (Some hs) c1" and e: "e = None"
    using auth_fails_closed [OF run] unfolding m by (simp, blast) (use auth_fails_closed [OF run] in simp)
  from out obtain c1 msg hs where "refused sample_ext mem_redis sample_config [] [''jwt''] anonymous_ctx sample_io c1 w'"
    "c' = abort_with 401 msg (Some hs) c1" by blast
  with run e show ?thesis by auto
qed

text \<open>
  What a method that accepted has checked. A token counts as verified when the verifier
  accepted it with the configured key, algorithm, issuer and audience, at this point of the
  run; the claims it returned are those that reach the context.
\<close>

section \<open>JWT\<close>

definition jwt_checked :: "ext \<Rightarrow> config \<Rightarrow> dict \<Rightarrow> ctx \<Rightarrow> 'd io \<Rightarrow> jobj \<Rightarrow> bool" where
  "jwt_checked X A cfg c w claims =
     (let algorithm = orelse (rget cfg ''algorithm'') ''RS256''
      in case extractToken X c (orelse (rget cfg ''token_source'') ''header'') (rget cfg ''cookie_name'') of
           Inr (Some token) \<Rightarrow> token \<noteq> [] \<and>
             (case jwt_key X A cfg algorithm of
                Inl _ \<Rightarrow> False
              | Inr key \<Rightarrow> io_jwt w 0 (jwt_request cfg token algorithm key) = Inr claims)
         | _ \<Rightarrow> False)"

text \<open>
  C5. \<open>jwtAuth\<close> accepts a request only with a token that the verifier accepted under the
  configured key, algorithm, issuer and audience, and whose scopes contain every required
  scope; the context then carries exactly the identity of the verified claims.
\<close>

theorem jwtAuth_sound:
  assumes "jwtAuth X R A cfg c w = (Inr AuthOk, c', w')"
  shows "\<exists>claims. jwt_checked X A cfg c w claims \<and>
    (\<forall>s \<in> set (nonempty (split_ws (str_of (rget cfg ''required_scopes'')))). s \<in> set (extractScopes claims)) \<and>
    c' = forward_configured X cfg claims (applyIdentity (jwt_identity X claims) c)"
proof -
  obtain token where t: "extractToken X c (orelse (rget cfg ''token_source'') ''header'') (rget cfg ''cookie_name'') = Inr (Some token)"
      "token \<noteq> []"
    using assms by (auto simp: jwtAuth_def Let_def truthy_def split: sum.splits if_splits option.splits)
  obtain key where k: "jwt_key X A cfg (orelse (rget cfg ''algorithm'') ''RS256'') = Inr key"
    using assms t by (auto simp: jwtAuth_def Let_def split: sum.splits)
  from assms obtain claims where v:
      "io_jwt w 0 (jwt_request cfg token (orelse (rget cfg ''algorithm'') ''RS256'') key) = Inr claims"
      "missing_scope (rget cfg ''required_scopes'') (extractScopes claims) = None"
      "c' = forward_configured X cfg claims (applyIdentity (jwt_identity X claims) c)"
    by (auto simp: jwtAuth_def Let_def t k jwt_verify_def split: sum.splits exn.splits option.splits)
  have "\<forall>s \<in> set (nonempty (split_ws (str_of (rget cfg ''required_scopes'')))). s \<in> set (extractScopes claims)"
    using v(2) missing_scope_None [of "str_of (rget cfg ''required_scopes'')"]
    by (cases "rget cfg ''required_scopes''") auto
  with t k v show ?thesis by (auto simp: jwt_checked_def Let_def intro!: exI [of _ claims])
qed

end
