(* ===== verification/RateScripts.thy ===== *)
theory RateScripts
  imports ExecTypes
begin

text \<open>
  \<open>gateway/src/pipeline/plugins/rate-limit/lua-scripts.ts\<close>: the three scripts that Redis
  runs atomically, and what they guarantee however many gateways share a counter. A run is
  the series of executions in the order of the server; before each one the other clients may
  change any other key. Lua numbers are taken as exact: counters and times are integers, the
  tokens of a bucket rationals (the server's doubles round).
\<close>

section \<open>The scripts\<close>

definition SLIDING_WINDOW ::
  "'d redis \<Rightarrow> int \<Rightarrow> string \<Rightarrow> int \<Rightarrow> int \<Rightarrow> int \<Rightarrow> string \<Rightarrow> 'd \<Rightarrow> (int \<times> int \<times> int \<times> int \<times> int) \<times> 'd" where
  "SLIDING_WINDOW R t key window_ms limit now_ms request_id d =
     (let window_start = now_ms - window_ms;
          d1 = r_zremrangebyscore R t key window_start d;
          current = r_zcard R t d1 key
      in if current < limit
         then (let d2 = r_zadd R t key now_ms request_id d1;
                   d3 = r_pexpire R t key (window_ms * 2) d2
               in ((current + 1, limit, window_ms, 1, 0), d3))
         else (let oldest = (case r_zfirst R t d1 key of None \<Rightarrow> 0 | Some (m, score) \<Rightarrow> score)
               in ((current, limit, window_ms, 0, oldest), d1)))"

definition FIXED_WINDOW ::
  "'d redis \<Rightarrow> int \<Rightarrow> string \<Rightarrow> int \<Rightarrow> int \<Rightarrow> 'd \<Rightarrow> (int \<times> int \<times> int \<times> int) \<times> 'd" where
  "FIXED_WINDOW R t key limit ttl_s d =
     (let (current, d1) = r_incr R t key d;
          d2 = (if current = 1 then r_pexpire R t key (1000 * ttl_s) d1 else d1);
          ttl_remaining = r_ttl R t d2 key
      in if current \<le> limit then ((current, limit, 1, ttl_remaining), d2)
         else ((current, limit, 0, ttl_remaining), d2))"

text \<open>\<open>tonumber(data[i]) or default\<close> on a field that may be missing or no number.\<close>

definition lua_number :: "ext \<Rightarrow> string option \<Rightarrow> rat \<Rightarrow> rat" where
  "lua_number X v dflt = orelse (Option.bind v (x_lua_num X)) dflt"

text \<open>
  The numbers of Lua are doubles: the result of every operation is the double nearest to it
  (\<open>x_double\<close>). Sums and products of whole numbers are written without rounding; they are far
  below \<open>2 ^ 53\<close>. Redis prints an argument of a command with 17 digits (\<open>x_lua_str\<close>).
\<close>

definition TOKEN_BUCKET ::
  "ext \<Rightarrow> 'd redis \<Rightarrow> int \<Rightarrow> string \<Rightarrow> int \<Rightarrow> rat \<Rightarrow> int \<Rightarrow> int \<Rightarrow> 'd \<Rightarrow> (int \<times> int \<times> int \<times> int) \<times> 'd" where
  "TOKEN_BUCKET X R t key capacity refill_rate requested now_ms d =
     (let fl = x_double X;
          data = r_hgetall R t d key;
          tokens = lua_number X (rget data ''tokens'') (of_int capacity);
          last_ms = lua_number X (rget data ''last_ms'') (of_int now_ms);
          elapsed_s = fl (fl (of_int now_ms - last_ms) / 1000);
          refilled = fl (elapsed_s * refill_rate);
          tokens = min (of_int capacity) (fl (tokens + refilled));
          store = (\<lambda>tokens d.
            r_pexpire R t key (\<lceil>fl (of_int capacity / refill_rate)\<rceil> * 2000)
              (r_hmset R t key [(''tokens'', x_lua_str X tokens), (''last_ms'', x_lua_str X (of_int now_ms))] d))
      in if of_int requested \<le> tokens
         then (let tokens = fl (tokens - of_int requested)
               in ((\<lfloor>tokens\<rfloor>, capacity, 1, 0), store tokens d))
         else (let wait_ms = \<lceil>fl (fl (fl (of_int requested - tokens) / refill_rate) * 1000)\<rceil>
               in ((\<lfloor>tokens\<rfloor>, capacity, 0, wait_ms), store tokens d)))"

section \<open>The sliding window\<close>

text \<open>One execution: what others did before it, the server's time, the caller's clock, the id.\<close>

type_synonym 'd sw_call = "('d \<Rightarrow> 'd) \<times> int \<times> int \<times> string"

fun sw_run :: "'d redis \<Rightarrow> string \<Rightarrow> int \<Rightarrow> int \<Rightarrow> 'd sw_call list \<Rightarrow> 'd \<Rightarrow> (int \<times> bool) list" where
  "sw_run R key window_ms limit [] d = []"
| "sw_run R key window_ms limit ((others, t, now_ms, request_id) # calls) d =
     (let ((current, lm, win, allowed, oldest), d') =
            SLIDING_WINDOW R t key window_ms limit now_ms request_id (others d)
      in (now_ms, allowed = 1) # sw_run R key window_ms limit calls d')"

text \<open>The requests admitted with a clock in the half-open window that ends at a point.\<close>

definition admitted_in :: "int \<Rightarrow> int \<Rightarrow> (int \<times> bool) list \<Rightarrow> nat" where
  "admitted_in window_ms \<tau> run =
     length (filter (\<lambda>(now_ms, ok). ok \<and> \<tau> - window_ms < now_ms \<and> now_ms \<le> \<tau>) run)"

text \<open>
  The assumptions on the callers: both clocks only go forward, they differ by at most half
  a window, and no two requests carry the same id.
\<close>

fun sw_calls_ok :: "int \<Rightarrow> int \<Rightarrow> int \<Rightarrow> 'd sw_call list \<Rightarrow> bool" where
  "sw_calls_ok window_ms t0 now0 [] = True"
| "sw_calls_ok window_ms t0 now0 ((others, t, now_ms, request_id) # calls) =
     (t0 \<le> t \<and> now0 \<le> now_ms \<and> 2 * \<bar>now_ms - t\<bar> \<le> window_ms \<and>
      request_id \<notin> (\<lambda>(_, _, _, i). i) ` set calls \<and> sw_calls_ok window_ms t now_ms calls)"

definition leaves_alone :: "(int \<Rightarrow> 'd \<Rightarrow> string \<Rightarrow> robj option) \<Rightarrow> string \<Rightarrow> ('d \<Rightarrow> 'd) \<Rightarrow> bool" where
  "leaves_alone obj key f = (\<forall>t d. obj t (f d) key = obj t d key)"

text \<open>
  The set holds every request admitted in the current window; once it has expired, every
  admitted request is older than a window and a half.
\<close>

definition sw_holds :: "robj option \<Rightarrow> (string \<times> int) list \<Rightarrow> (string \<times> int) list \<Rightarrow> int \<Rightarrow> int \<Rightarrow> bool" where
  "sw_holds ob z A win t =
     (zset_of ob = Some z \<or> zset_of ob = Some [] \<and> (\<forall>(i, s) \<in> set A. 2 * s \<le> 2 * t - 3 * win))"

definition sw_covers :: "(string \<times> int) list \<Rightarrow> (string \<times> int) list \<Rightarrow> int \<Rightarrow> bool" where
  "sw_covers z A since =
     (distinct (map fst z) \<and> set z \<subseteq> set A \<and> (\<forall>(i, s) \<in> set A. since < s \<longrightarrow> (i, s) \<in> set z))"

lemma sw_covers_length:
  assumes "sw_covers z A since" "distinct (map fst A)" "\<forall>m \<in> set z. since < snd m"
  shows "length (filter (\<lambda>m. since < snd m) A) = length z"
proof -
  let ?F = "filter (\<lambda>m. since < snd m) A"
  have "distinct ?F" "distinct z"
    using assms(1,2) by (simp_all add: distinct_map sw_covers_def)
  moreover have "set ?F = set z"
    using assms(1,3) by (fastforce simp: sw_covers_def)
  ultimately show ?thesis by (metis distinct_card)
qed

lemma sw_covers_filter:
  assumes "sw_covers z A since" "since \<le> since'"
  shows "sw_covers (filter (\<lambda>m. since' < snd m) z) A since'"
proof -
  have "distinct (map fst z)" "set z \<subseteq> set A"
    and k: "\<And>i s. (i, s) \<in> set A \<Longrightarrow> since < s \<Longrightarrow> (i, s) \<in> set z"
    using assms(1) unfolding sw_covers_def by blast+
  then have "distinct (map fst (filter (\<lambda>m. since' < snd m) z))"
    "set (filter (\<lambda>m. since' < snd m) z) \<subseteq> set A"
    by (simp_all add: distinct_map_filter) blast
  moreover have "(i, s) \<in> set (filter (\<lambda>m. since' < snd m) z)"
    if "(i, s) \<in> set A" "since' < s" for i s
    using k [OF that(1)] assms(2) that(2) by simp
  ultimately show ?thesis unfolding sw_covers_def by blast
qed

lemma sw_covers_add:
  assumes "sw_covers z A since" "i \<notin> fst ` set A"
  shows "sw_covers (rset i s z) (A @ [(i, s)]) since"
proof -
  have d: "distinct (map fst z)" "set z \<subseteq> set A"
    and k: "\<And>i s. (i, s) \<in> set A \<Longrightarrow> since < s \<Longrightarrow> (i, s) \<in> set z"
    using assms(1) unfolding sw_covers_def by blast+
  have new: "i \<notin> fst ` set z" using d(2) assms(2) by blast
  have "(j, u) \<in> set (rset i s z)" if "(j, u) \<in> set (A @ [(i, s)])" "since < u" for j u
  proof (cases "j = i")
    case True
    with that assms(2) have "u = s" by force
    with True show ?thesis by simp
  next
    case False
    with that k show ?thesis by (simp add: set_rset_other)
  qed
  with d new show ?thesis unfolding sw_covers_def length_rset_new [OF new] by auto
qed

context redis_server
begin

definition sw_inv :: "string \<Rightarrow> int \<Rightarrow> (string \<times> int) list \<Rightarrow> 'd \<Rightarrow> int \<Rightarrow> int \<Rightarrow> bool" where
  "sw_inv key win A d t0 now0 =
     ((\<forall>(i, s) \<in> set A. s \<le> now0) \<and> distinct (map fst A) \<and>
      (\<exists>z. sw_covers z A (now0 - win) \<and> (\<forall>t \<ge> t0. sw_holds (obj t d key) z A win t)))"

text \<open>After the expired members are gone, whatever the set was.\<close>

lemma sw_trimmed:
  assumes "sw_inv key win A d t0 now0" "t0 \<le> t" "now0 \<le> now" "2 * \<bar>now - t\<bar> \<le> win"
  shows "\<exists>z. sw_covers z A (now - win) \<and> (\<forall>m \<in> set z. now - win < snd m) \<and>
    zset_of (obj t (r_zremrangebyscore R t key (now - win) d) key) = Some z \<and>
    (\<forall>t' \<ge> t. sw_holds (obj t' (r_zremrangebyscore R t key (now - win) d) key) z A win t')"
proof -
  let ?d1 = "r_zremrangebyscore R t key (now - win) d"
  from assms(1) obtain z where z: "sw_covers z A (now0 - win)"
      "\<And>t. t0 \<le> t \<Longrightarrow> sw_holds (obj t d key) z A win t"
    unfolding sw_inv_def by blast
  have now: "2 * t - win \<le> 2 * now" using assms(4) by presburger
  from z(2) [OF assms(2)] consider (same) "zset_of (obj t d key) = Some z"
    | (dead) "zset_of (obj t d key) = Some []" "\<forall>(i, s) \<in> set A. 2 * s \<le> 2 * t - 3 * win"
    unfolding sw_holds_def by blast
  then show ?thesis
  proof cases
    case same
    let ?z1 = "filter (\<lambda>m. now - win < snd m) z"
    have r: "zset_of (obj t' ?d1 key) = (if obj t' d key = None then Some [] else Some ?z1)"
      if "t \<le> t'" for t'
      using zrem [OF same that, of "now - win" key] by simp
    have "sw_holds (obj t' ?d1 key) ?z1 A win t'" if "t \<le> t'" for t'
    proof (cases "obj t' d key = None")
      case True
      with z(2) [of t'] assms(2) that have "z = [] \<or> (\<forall>(i, s) \<in> set A. 2 * s \<le> 2 * t' - 3 * win)"
        by (auto simp: sw_holds_def)
      with r [OF that] True show ?thesis by (auto simp: sw_holds_def)
    next
      case False
      with r [OF that] show ?thesis by (simp only: sw_holds_def if_False simp_thms)
    qed
    moreover have "\<forall>m \<in> set ?z1. now - win < snd m" by simp
    moreover have "zset_of (obj t ?d1 key) = Some ?z1"
      using r [of t] same by auto
    moreover have "sw_covers ?z1 A (now - win)"
      by (rule sw_covers_filter [OF z(1)]) (use assms(3) in linarith)
    ultimately show ?thesis by blast
  next
    case dead
    have "zset_of (obj t' ?d1 key) = Some []" if "t \<le> t'" for t'
      using zrem [OF dead(1) that, of "now - win" key] by simp
    moreover have "sw_covers [] A (now - win)"
      using dead(2) now by (fastforce simp: sw_covers_def)
    ultimately show ?thesis by (intro exI [of _ "[]"]) (simp add: sw_holds_def)
  qed
qed


text \<open>One execution of the script keeps the invariant, and admits only below the limit.\<close>

lemma sw_step:
  assumes inv: "sw_inv key win A d t0 now0" and t: "t0 \<le> t" "now0 \<le> now" "2 * \<bar>now - t\<bar> \<le> win"
    and w: "0 < win" and i: "i \<notin> fst ` set A"
    and run: "SLIDING_WINDOW R t key win limit now i d = ((cur, lm, wn, ok, old), d')"
  shows "if int (length (filter (\<lambda>m. now - win < snd m) A)) < limit
     then ok = 1 \<and> sw_inv key win (A @ [(i, now)]) d' t now
     else ok \<noteq> 1 \<and> sw_inv key win A d' t now"
proof -
  define d1 where "d1 = r_zremrangebyscore R t key (now - win) d"
  from sw_trimmed [OF inv t, folded d1_def] obtain z where z: "sw_covers z A (now - win)"
    and recent: "\<forall>m \<in> set z. now - win < snd m"
    and z': "zset_of (obj t d1 key) = Some z" "\<And>t'. t \<le> t' \<Longrightarrow> sw_holds (obj t' d1 key) z A win t'"
    by blast
  have A: "\<forall>(i, s) \<in> set A. s \<le> now" "distinct (map fst A)"
    using inv t(2) by (fastforce simp: sw_inv_def)+
  have c: "r_zcard R t d1 key = int (length z)" by (rule zcard [OF z'(1)])
  have n: "length (filter (\<lambda>m. now - win < snd m) A) = length z"
    by (rule sw_covers_length [OF z A(2) recent])
  show ?thesis
  proof (cases "int (length z) < limit")
    case True
    define d2 where "d2 = r_zadd R t key now i d1"
    have d': "d' = r_pexpire R t key (win * 2) d2" "ok = 1"
      using run True by (auto simp: SLIDING_WINDOW_def Let_def c d1_def [symmetric] d2_def)
    have "obj t d2 key = Some (RZset (rset i now z))"
      using zadd [OF z'(1) order.refl, of now i key] by (cases "obj t d1 key") (simp_all add: d2_def)
    then have o: "obj t' d' key = (if t' < t + win * 2 then Some (RZset (rset i now z)) else None)"
      if "t \<le> t'" for t'
      using pexpire [OF that, of "win * 2" key d2 key] w by (simp add: d')
    have "sw_holds (obj t' d' key) (rset i now z) (A @ [(i, now)]) win t'" if "t \<le> t'" for t'
    proof (cases "t' < t + win * 2")
      case False
      have "2 * now \<le> 2 * t + win" using t(3) by presburger
      with False have "2 * now \<le> 2 * t' - 3 * win" by linarith
      with A(1) have "\<forall>(i, s) \<in> set (A @ [(i, now)]). 2 * s \<le> 2 * t' - 3 * win" by fastforce
      with False o [OF that] show ?thesis by (simp add: sw_holds_def)
    qed (use o [OF that] in \<open>simp add: sw_holds_def\<close>)
    then have "sw_inv key win (A @ [(i, now)]) d' t now"
      unfolding sw_inv_def using A i sw_covers_add [OF z i, of now] by auto
    with True show ?thesis by (simp add: n d'(2))
  next
    case False
    then have "d' = d1" "ok \<noteq> 1"
      using run by (auto simp: SLIDING_WINDOW_def Let_def c d1_def [symmetric])
    moreover have "sw_inv key win A d1 t now" unfolding sw_inv_def using A z z'(2) by blast
    ultimately show ?thesis using False by (simp add: n)
  qed
qed

lemma sw_inv_leaves_alone:
  "leaves_alone obj key f \<Longrightarrow> sw_inv key win A d t0 now0 \<Longrightarrow> sw_inv key win A (f d) t0 now0"
  by (simp add: sw_inv_def leaves_alone_def)

end

text \<open>
  The reference: a request is admitted exactly if fewer than the limit of those admitted
  before it lie in the window that ends with it.
\<close>

fun sw_reference :: "int \<Rightarrow> int \<Rightarrow> int list \<Rightarrow> int list \<Rightarrow> (int \<times> bool) list" where
  "sw_reference window_ms limit S [] = []"
| "sw_reference window_ms limit S (now_ms # nows) =
     (if int (length (filter (\<lambda>s. now_ms - window_ms < s) S)) < limit
      then (now_ms, True) # sw_reference window_ms limit (S @ [now_ms]) nows
      else (now_ms, False) # sw_reference window_ms limit S nows)"

definition call_clock :: "'d sw_call \<Rightarrow> int" where
  "call_clock c = (case c of (others, t, now_ms, request_id) \<Rightarrow> now_ms)"

context redis_server
begin

lemma sw_run_reference:
  assumes "sw_inv key win A d t0 now0" "0 < win" and "sw_calls_ok win t0 now0 calls"
    and "\<forall>(f, t, now, i) \<in> set calls. leaves_alone obj key f \<and> i \<notin> fst ` set A"
  shows "sw_run R key win limit calls d = sw_reference win limit (map snd A) (map call_clock calls)"
  using assms
proof (induction calls arbitrary: A d t0 now0)
  case (Cons c calls)
  obtain f t now i where c: "c = (f, t, now, i)" by (cases c)
  obtain cur lm wn ok old d' where r: "SLIDING_WINDOW R t key win limit now i (f d) = ((cur, lm, wn, ok, old), d')"
    by (metis prod.exhaust)
  from Cons.prems have p: "t0 \<le> t" "now0 \<le> now" "2 * \<bar>now - t\<bar> \<le> win" "leaves_alone obj key f"
    "i \<notin> fst ` set A" "sw_calls_ok win t now calls" and i: "i \<notin> (\<lambda>(_, _, _, i). i) ` set calls"
    and rest: "\<forall>(f, t, now, i) \<in> set calls. leaves_alone obj key f \<and> i \<notin> fst ` set A"
    by (auto simp: c)
  note step = sw_step [OF sw_inv_leaves_alone [OF p(4) Cons.prems(1)] p(1-3) Cons.prems(2) p(5) r]
  have n: "length (filter (\<lambda>s. now - win < s) (map snd A)) = length (filter (\<lambda>m. now - win < snd m) A)"
    by (simp add: filter_map comp_def)
  show ?case
  proof (cases "int (length (filter (\<lambda>m. now - win < snd m) A)) < limit")
    case True
    with step have s: "ok = 1" "sw_inv key win (A @ [(i, now)]) d' t now" by simp_all
    have "j \<notin> fst ` set (A @ [(i, now)])" if "(f, t, now', j) \<in> set calls" for f t now' j
      using rest i that by force
    then have "\<forall>(f, t, now', j) \<in> set calls. leaves_alone obj key f \<and> j \<notin> fst ` set (A @ [(i, now)])"
      using rest by blast
    from Cons.IH [OF s(2) Cons.prems(2) p(6) this]
    show ?thesis using True unfolding n [symmetric] by (simp add: c r s(1) call_clock_def)
  next
    case False
    with step have s: "ok \<noteq> 1" "sw_inv key win A d' t now" by simp_all
    from Cons.IH [OF s(2) Cons.prems(2) p(6) rest]
    show ?thesis using False unfolding n [symmetric] by (simp add: c r s(1) call_clock_def)
  qed
qed simp

lemma sw_inv_start: "\<forall>t \<ge> t0. obj t d key = None \<Longrightarrow> sw_inv key win [] d t0 now0"
  by (auto simp: sw_inv_def sw_covers_def sw_holds_def intro: exI [of _ "[]"])

end

text \<open>
  Counting: if every admission finds fewer than the limit in the window that ends with it,
  then no window at all holds more than the limit.
\<close>

definition sw_bound :: "int \<Rightarrow> int \<Rightarrow> int list \<Rightarrow> bool" where
  "sw_bound win limit S =
     (\<forall>\<tau>. int (length (filter (\<lambda>s. \<tau> - win < s \<and> s \<le> \<tau>) S)) \<le> limit)"

lemma length_filter_mono:
  "(\<And>x. x \<in> set xs \<Longrightarrow> P x \<Longrightarrow> Q x) \<Longrightarrow> length (filter P xs) \<le> length (filter Q xs)"
  by (induction xs) auto

lemma sw_bound_add:
  assumes "sw_bound win limit S" "int (length (filter (\<lambda>s. now - win < s) S)) < limit"
  shows "sw_bound win limit (S @ [now])"
  unfolding sw_bound_def
proof
  fix \<tau>
  show "int (length (filter (\<lambda>s. \<tau> - win < s \<and> s \<le> \<tau>) (S @ [now]))) \<le> limit"
  proof (cases "now \<le> \<tau>")
    case True
    have "length (filter (\<lambda>s. \<tau> - win < s \<and> s \<le> \<tau>) S) \<le> length (filter (\<lambda>s. now - win < s) S)"
      using True by (intro length_filter_mono) auto
    with assms(2) show ?thesis by simp
  next
    case False
    with assms(1) show ?thesis by (simp add: sw_bound_def)
  qed
qed

definition admitted :: "(int \<times> bool) list \<Rightarrow> int list" where
  "admitted run = map fst (filter snd run)"

lemma admitted_in_bound:
  "int (admitted_in win \<tau> run) = int (length (filter (\<lambda>s. \<tau> - win < s \<and> s \<le> \<tau>) (admitted run)))"
  by (induction run) (auto simp: admitted_in_def admitted_def)

lemma sw_reference_bound:
  assumes "sw_bound win limit S"
  shows "sw_bound win limit (S @ admitted (sw_reference win limit S nows))"
  using assms
proof (induction nows arbitrary: S)
  case (Cons now nows)
  show ?case
  proof (cases "int (length (filter (\<lambda>s. now - win < s) S)) < limit")
    case True
    from Cons.IH [OF sw_bound_add [OF Cons.prems True]] True show ?thesis by (simp add: admitted_def)
  next
    case False
    with Cons.IH [OF Cons.prems] show ?thesis by (simp add: admitted_def)
  qed
qed (simp add: admitted_def)

text \<open>
  C9. Gateways share the counter, and other clients may do anything to other keys. If the
  clocks of the gateways, in the order in which their calls reach Redis, never go back and
  differ from the clock of Redis by at most half a window, if no two requests carry the same
  id and the key is missing at first, then the sorted set with its expiry decides every
  request as the reference does: admitted exactly if fewer than the limit of the requests
  admitted before lie in the last window.
\<close>

theorem sliding_window_reference:
  assumes "redis_server R obj" and "0 < window_ms" and "sw_calls_ok window_ms t0 now0 calls"
    and "\<forall>(others, t, now_ms, request_id) \<in> set calls. leaves_alone obj key others"
    and "\<forall>t \<ge> t0. obj t d key = None"
  shows "sw_run R key window_ms limit calls d = sw_reference window_ms limit [] (map call_clock calls)"
  using redis_server.sw_run_reference [OF assms(1) redis_server.sw_inv_start [OF assms(1,5)] assms(2,3)]
    assms(4) by fastforce

text \<open>
  So no window of the configured length, wherever it ends, contains more admitted
  requests than the limit.
\<close>

theorem sliding_window_bound:
  assumes "redis_server R obj" and "0 < window_ms" and "0 \<le> limit"
    and "sw_calls_ok window_ms t0 now0 calls"
    and "\<forall>(others, t, now_ms, request_id) \<in> set calls. leaves_alone obj key others"
    and "\<forall>t \<ge> t0. obj t d key = None"
  shows "int (admitted_in window_ms \<tau> (sw_run R key window_ms limit calls d)) \<le> limit"
proof -
  have "sw_run R key window_ms limit calls d = sw_reference window_ms limit [] (map call_clock calls)"
    using redis_server.sw_run_reference [OF assms(1) redis_server.sw_inv_start [OF assms(1,6)] assms(2,4)]
      assms(5) by fastforce
  moreover have "sw_bound window_ms limit []" using assms(3) by (simp add: sw_bound_def)
  ultimately show ?thesis
    using sw_reference_bound [of window_ms limit "[]" "map call_clock calls"]
    by (simp add: admitted_in_bound sw_bound_def)
qed

text \<open>
  The clocks matter: a gateway whose clock is more than a window ahead removes the entries of
  the others, and a request is admitted that the reference refuses.
\<close>

theorem sliding_window_skewed:
  "sw_run mem_redis ''k'' 60000 2 [(\<lambda>d. d, 0, 0, ''a''), (\<lambda>d. d, 1, 70000, ''b''), (\<lambda>d. d, 2, 1, ''c'')] (\<lambda>_. None) =
     [(0, True), (70000, True), (1, True)]"
  "sw_reference 60000 2 [] [0, 70000, 1] = [(0, True), (70000, True), (1, False)]"
  by code_simp+

definition sample_calls :: "mem sw_call list" where
  "sample_calls = [(\<lambda>d. d, 1000, 1000, ''a''), (\<lambda>d. d, 1500, 1500, ''b''), (\<lambda>d. d, 2000, 1990, ''c''),
     (\<lambda>d. d, 61005, 61000, ''d'')]"

lemma sample_calls_ok:
  "sw_calls_ok 60000 0 0 sample_calls"
  "\<forall>(others, t, now_ms, request_id) \<in> set sample_calls. leaves_alone mem_obj ''k'' others"
  "\<forall>t \<ge> 0. mem_obj t (\<lambda>_. None) ''k'' = None"
  by (simp_all add: sample_calls_def leaves_alone_def mem_obj_def)

theorem sliding_window_reference_witness:
  "sw_run mem_redis ''k'' 60000 2 sample_calls (\<lambda>_. None) =
     [(1000, True), (1500, True), (1990, False), (61000, True)]"
proof -
  have "sw_run mem_redis ''k'' 60000 2 sample_calls (\<lambda>_. None) =
      sw_reference 60000 2 [] (map call_clock sample_calls)"
    by (rule sliding_window_reference [where obj = mem_obj and ?t0.0 = 0 and ?now0.0 = 0])
      (use mem.redis_server_axioms sample_calls_ok in simp_all)
  then show ?thesis by (simp add: sample_calls_def call_clock_def)
qed

theorem sliding_window_bound_witness:
  "int (admitted_in 60000 2000 (sw_run mem_redis ''k'' 60000 2 sample_calls (\<lambda>_. None))) \<le> 2"
  by (rule sliding_window_bound [where obj = mem_obj and ?t0.0 = 0 and ?now0.0 = 0])
    (use mem.redis_server_axioms sample_calls_ok in simp_all)

section \<open>The fixed window\<close>

fun fw_run :: "'d redis \<Rightarrow> string \<Rightarrow> int \<Rightarrow> int \<Rightarrow> (('d \<Rightarrow> 'd) \<times> int) list \<Rightarrow> 'd \<Rightarrow> (int \<times> bool) list" where
  "fw_run R key limit ttl_s [] d = []"
| "fw_run R key limit ttl_s ((others, t) # calls) d =
     (let ((current, lm, allowed, ttl), d') = FIXED_WINDOW R t key limit ttl_s (others d)
      in (current, allowed = 1) # fw_run R key limit ttl_s calls d')"

context redis_server
begin

definition fw_inv :: "string \<Rightarrow> int \<Rightarrow> int \<Rightarrow> 'd \<Rightarrow> int \<Rightarrow> bool" where
  "fw_inv key n e d t0 =
     (\<forall>t \<ge> t0. t < e \<longrightarrow> obj t d key = (if n = 0 then None else Some (RStr (show_int n))))"

lemma fw_step:
  assumes "fw_inv key n e d t0" "t0 \<le> t" "t < e" "0 \<le> n" "0 < ttl_s"
    and "n = 0 \<Longrightarrow> e = t + 1000 * ttl_s"
    and run: "FIXED_WINDOW R t key limit ttl_s d = ((cur, lm, ok, ttl), d')"
  shows "cur = n + 1" "ok = 1 \<longleftrightarrow> n < limit" "fw_inv key (n + 1) e d' t"
proof -
  define d1 where "d1 = snd (r_incr R t key d)"
  have o: "obj t d key = (if n = 0 then None else Some (RStr (show_int n)))"
    using assms(1-3) by (simp add: fw_inv_def)
  have c: "fst (r_incr R t key d) = n + 1"
    using o incr_new [of t d key] incr_old [of t d key n] by (simp split: if_splits)
  have r: "cur = n + 1" "ok = (if n + 1 \<le> limit then 1 else 0)"
    "d' = (if n = 0 then r_pexpire R t key (1000 * ttl_s) d1 else d1)"
    using run c by (auto simp: FIXED_WINDOW_def Let_def split_beta d1_def split: if_splits)
  then show "cur = n + 1" "ok = 1 \<longleftrightarrow> n < limit" by auto
  show "fw_inv key (n + 1) e d' t"
    unfolding fw_inv_def
  proof (intro allI impI)
    fix t' assume t': "t \<le> t'" "t' < e"
    show "obj t' d' key = (if n + 1 = 0 then None else Some (RStr (show_int (n + 1))))"
    proof (cases "n = 0")
      case True
      have "obj t d1 key = Some (RStr (show_int 1))"
        using incr_new_obj [of t d key t key] o True by (simp add: d1_def)
      then show ?thesis
        using pexpire [OF t'(1), of "1000 * ttl_s" key d1 key] assms(5,6) t' r(3) True by simp
    next
      case False
      have "obj t' d key \<noteq> None"
        using assms(1,2) t' False by (simp add: fw_inv_def)
      then show ?thesis
        using incr_old_obj [of t d key n t' key] o t' False assms(4) by (simp add: r(3) d1_def)
    qed
  qed
qed

lemma fw_run_exact:
  assumes "fw_inv key n e d t0" "sorted (map snd calls)" "0 \<le> n" "0 < ttl_s"
    and "\<forall>(f, t) \<in> set calls. leaves_alone obj key f \<and> t0 \<le> t \<and> t < e"
    and "n = 0 \<Longrightarrow> calls \<noteq> [] \<Longrightarrow> e = snd (hd calls) + 1000 * ttl_s"
  shows "fw_run R key limit ttl_s calls d =
    map (\<lambda>i. (n + int i + 1, n + int i < limit)) [0..<length calls]"
  using assms
proof (induction calls arbitrary: n d t0)
  case (Cons c calls)
  obtain f t where c: "c = (f, t)" by (cases c)
  obtain cur lm ok ttl d' where r: "FIXED_WINDOW R t key limit ttl_s (f d) = ((cur, lm, ok, ttl), d')"
    by (metis prod.exhaust)
  have i: "fw_inv key n e (f d) t0"
    using Cons.prems(1,5) by (auto simp: c fw_inv_def leaves_alone_def)
  have t: "t0 \<le> t" "t < e" "n = 0 \<Longrightarrow> e = t + 1000 * ttl_s"
    using Cons.prems(5,6) by (auto simp: c)
  note step = fw_step [OF i t(1,2) Cons.prems(3,4) t(3) r]
  have "fw_run R key limit ttl_s calls d' =
      map (\<lambda>i. (n + 1 + int i + 1, n + 1 + int i < limit)) [0..<length calls]"
  proof (rule Cons.IH [OF step(3)])
    show "sorted (map snd calls)" using Cons.prems(2) by (simp add: c)
    show "\<forall>(f, t') \<in> set calls. leaves_alone obj key f \<and> t \<le> t' \<and> t' < e"
      using Cons.prems(2,5) by (auto simp: c)
  qed (use Cons.prems(3,4) in simp_all)
  moreover have "map (\<lambda>i. (n + int i + 1, n + int i < limit)) [0..<length (c # calls)] =
      (n + 1, n < limit) # map (\<lambda>i. (n + 1 + int i + 1, n + 1 + int i < limit)) [0..<length calls]"
    by (simp add: upt_conv_Cons map_Suc_upt [symmetric] del: upt_Suc) (simp add: comp_def algebra_simps)
  ultimately show ?case by (simp add: c r step(1,2))
qed simp

end

lemma same_window_less:
  assumes "a div w = b div (w :: int)" "0 < w"
  shows "b < a + w"
proof -
  have "b = w * (a div w) + b mod w" using assms(1) by (metis mult_div_mod_eq)
  moreover have "a = w * (a div w) + a mod w" by simp
  moreover have "b mod w < w" "0 \<le> a mod w" using assms(2) by simp_all
  ultimately show ?thesis by linarith
qed

text \<open>
  While the clocks agree, the calls of one window of the clock are counted exactly: the
  counter says how many there were, the first ones up to the limit are admitted and all later
  ones refused, because the expiry set by the first cannot fire before the window has ended.
\<close>

theorem fixed_window_exact:
  assumes "redis_server R obj" and "0 < window_s" and "sorted (map snd calls)"
    and "\<forall>(others, t) \<in> set calls. leaves_alone obj key others \<and> t0 \<le> t \<and> t div (1000 * window_s) = window_id"
    and "\<forall>t \<ge> t0. obj t d key = None"
  shows "fw_run R key limit window_s calls d =
    map (\<lambda>i. (int i + 1, int i < limit)) [0..<length calls]"
proof (cases calls)
  case (Cons c cs)
  let ?e = "snd c + 1000 * window_s"
  have "redis_server.fw_inv obj key 0 ?e d t0"
    using assms(5) by (simp add: redis_server.fw_inv_def [OF assms(1)])
  moreover have "\<forall>(f, t) \<in> set calls. leaves_alone obj key f \<and> t0 \<le> t \<and> t < ?e"
  proof (clarify, intro conjI)
    fix f t assume m: "(f, t) \<in> set calls"
    with assms(4) show "leaves_alone obj key f" "t0 \<le> t" by auto
    have "c \<in> set calls" by (simp add: Cons)
    then have "snd c div (1000 * window_s) = window_id" using assms(4) by (cases c) auto
    moreover have "t div (1000 * window_s) = window_id" using m assms(4) by auto
    ultimately have "snd c div (1000 * window_s) = t div (1000 * window_s)" by simp
    with assms(2) show "t < ?e" by (intro same_window_less) simp_all
  qed
  ultimately have "fw_run R key limit window_s calls d =
      map (\<lambda>i. (0 + int i + 1, 0 + int i < limit)) [0..<length calls]"
    using assms(2,3) by (intro redis_server.fw_run_exact [OF assms(1)]) (simp_all add: Cons)
  then show ?thesis by simp
qed simp

theorem fixed_window_exact_witness:
  "fw_run mem_redis ''k'' 2 60 [(\<lambda>d. d, 60000), (\<lambda>d. d, 60500), (\<lambda>d. d, 119999)] (\<lambda>_. None) =
     [(1, True), (2, True), (3, False)]"
proof -
  let ?calls = "[(\<lambda>d. d, 60000), (\<lambda>d. d, 60500), (\<lambda>d. d, 119999)] :: ((mem \<Rightarrow> mem) \<times> int) list"
  have o: "\<forall>(others, t) \<in> set ?calls. leaves_alone mem_obj ''k'' others \<and> 0 \<le> t \<and> t div (1000 * 60) = 1"
    by (simp add: leaves_alone_def)
  have e: "\<forall>t \<ge> 0. mem_obj t (\<lambda>_. None) ''k'' = None" by (simp add: mem_obj_def)
  have "fw_run mem_redis ''k'' 2 60 ?calls (\<lambda>_. None) =
      map (\<lambda>i. (int i + 1, int i < 2)) [0..<length ?calls]"
    using mem.redis_server_axioms o e
    by (intro fixed_window_exact [where obj = mem_obj and ?t0.0 = 0 and window_id = 1]) simp_all
  then show ?thesis by (simp add: upt_conv_Cons)
qed

section \<open>The token bucket\<close>

text \<open>
  What is relied on of doubles and of the way Redis and Lua print and read them: rounding is
  monotone, leaves doubles and whole numbers up to \<open>2 ^ 53\<close> alone and is off by at most the
  last bit (or by the smallest double), and a double that is printed with 17 digits is read
  back as it was.
\<close>

definition lua_doubles :: "ext \<Rightarrow> bool" where
  "lua_doubles X \<longleftrightarrow>
     (\<forall>r s. r \<le> s \<longrightarrow> x_double X r \<le> x_double X s) \<and>
     (\<forall>r. x_double X (x_double X r) = x_double X r) \<and>
     (\<forall>i. \<bar>i\<bar> \<le> 2 ^ 53 \<longrightarrow> x_double X (of_int i) = of_int i) \<and>
     (\<forall>r. \<bar>r\<bar> \<le> 2 ^ 200 \<longrightarrow> \<bar>x_double X r - r\<bar> \<le> \<bar>r\<bar> / 2 ^ 52 + 1 / 2 ^ 1074) \<and>
     (\<forall>r. x_double X r = r \<longrightarrow> x_lua_num X (x_lua_str X r) = Some r)"

text \<open>The rates and capacities that are considered.\<close>

definition bucket_ok :: "int \<Rightarrow> rat \<Rightarrow> bool" where
  "bucket_ok capacity refill_rate \<longleftrightarrow>
     0 < capacity \<and> capacity \<le> 2 ^ 53 \<and> 1 / 2 ^ 60 \<le> refill_rate \<and> refill_rate \<le> 2 ^ 60"

type_synonym 'd tb_call = "('d \<Rightarrow> 'd) \<times> int \<times> int"

fun tb_run :: "ext \<Rightarrow> 'd redis \<Rightarrow> string \<Rightarrow> int \<Rightarrow> rat \<Rightarrow> 'd tb_call list \<Rightarrow> 'd \<Rightarrow> (int \<times> bool) list" where
  "tb_run X R key capacity refill_rate [] d = []"
| "tb_run X R key capacity refill_rate ((others, t, now_ms) # calls) d =
     (let ((tokens, cap, allowed, wait), d') = TOKEN_BUCKET X R t key capacity refill_rate 1 now_ms (others d)
      in (now_ms, allowed = 1) # tb_run X R key capacity refill_rate calls d')"

text \<open>
  A bucket kept in memory, without keys and expiry: a level that rises at the refill rate up to
  the capacity and is never forgotten, computed in doubles.
\<close>

definition refill :: "ext \<Rightarrow> int \<Rightarrow> rat \<Rightarrow> rat \<Rightarrow> int \<Rightarrow> int \<Rightarrow> rat" where
  "refill X capacity refill_rate level since now_ms =
     min (of_int capacity)
       (x_double X (level + x_double X (x_double X (of_int (now_ms - since) / 1000) * refill_rate)))"

fun tb_reference :: "ext \<Rightarrow> int \<Rightarrow> rat \<Rightarrow> rat \<Rightarrow> int \<Rightarrow> int list \<Rightarrow> (int \<times> bool) list" where
  "tb_reference X capacity refill_rate level since [] = []"
| "tb_reference X capacity refill_rate level since (now_ms # nows) =
     (let level' = refill X capacity refill_rate level since now_ms
      in if 1 \<le> level' then (now_ms, True) # tb_reference X capacity refill_rate (x_double X (level' - 1)) now_ms nows
         else (now_ms, False) # tb_reference X capacity refill_rate level' now_ms nows)"

text \<open>
  The assumptions on the callers: both clocks only go forward, start at zero or later and stay
  below \<open>2 ^ 53\<close>, and twice their difference is at most the drift.
\<close>

fun tb_calls_ok :: "int \<Rightarrow> int \<Rightarrow> int \<Rightarrow> 'd tb_call list \<Rightarrow> bool" where
  "tb_calls_ok drift t0 now0 [] = True"
| "tb_calls_ok drift t0 now0 ((others, t, now_ms) # calls) =
     (t0 \<le> t \<and> 0 \<le> now0 \<and> now0 \<le> now_ms \<and> now_ms \<le> 2 ^ 53 \<and> 2 * \<bar>now_ms - t\<bar> \<le> drift \<and>
      tb_calls_ok drift t now_ms calls)"

text \<open>Half of the expiry of a bucket, in seconds: the time it takes to fill, rounded up.\<close>

definition fill_time :: "ext \<Rightarrow> int \<Rightarrow> rat \<Rightarrow> int" where
  "fill_time X capacity refill_rate = \<lceil>x_double X (of_int capacity / refill_rate)\<rceil>"

definition tb_hash :: "ext \<Rightarrow> rat \<Rightarrow> int \<Rightarrow> dict \<Rightarrow> bool" where
  "tb_hash X level since h =
     (rget h ''tokens'' = Some (x_lua_str X level) \<and> rget h ''last_ms'' = Some (x_lua_str X (of_int since)))"

subsection \<open>Rounding\<close>

lemma lua_doublesD:
  assumes "lua_doubles X"
  shows "r \<le> s \<Longrightarrow> x_double X r \<le> x_double X s" "x_double X (x_double X r) = x_double X r"
    "\<bar>i\<bar> \<le> 2 ^ 53 \<Longrightarrow> x_double X (of_int i) = of_int i"
    "\<bar>r\<bar> \<le> 2 ^ 200 \<Longrightarrow> \<bar>x_double X r - r\<bar> \<le> \<bar>r\<bar> / 2 ^ 52 + 1 / 2 ^ 1074"
    "x_double X r = r \<Longrightarrow> x_lua_num X (x_lua_str X r) = Some r"
  using assms unfolding lua_doubles_def by blast+

lemma double_nonneg:
  assumes "lua_doubles X" and "0 \<le> r"
  shows "0 \<le> x_double X r"
  using lua_doublesD(1) [OF assms] lua_doublesD(3) [OF assms(1), of 0] by simp

lemma tiny_less: "1 / 2 ^ 1074 \<le> (1 / 2 ^ 60) / (2 ^ 52 :: rat)"
proof -
  have "(2 :: rat) ^ 60 * 2 ^ 52 \<le> 2 ^ 1074" unfolding power_add [symmetric] by (rule power_increasing) simp_all
  then show ?thesis by (simp add: divide_simps del: power_numeral)
qed

text \<open>A double is not far below what it rounds, and not far above.\<close>

lemma double_lower:
  assumes X: "lua_doubles X" and r: "1 / 2 ^ 60 \<le> r" "r \<le> 2 ^ 200"
  shows "7 / 8 * r \<le> x_double X r"
proof -
  have pos: "0 \<le> r" using r(1) by (rule order.trans [rotated]) simp
  have "(1 / 2 ^ 60) / (2 ^ 52 :: rat) \<le> r / 2 ^ 52" using r(1) by (rule divide_right_mono) simp
  then have t: "1 / 2 ^ 1074 \<le> r / 2 ^ 52" using tiny_less by (rule order.trans [rotated])
  have "\<bar>x_double X r - r\<bar> \<le> r / 2 ^ 52 + 1 / 2 ^ 1074"
    using lua_doublesD(4) [OF X, of r] r(2) pos by simp
  moreover have "r / 2 ^ 52 \<le> r / 16" using pos by (intro divide_left_mono) simp_all
  ultimately show ?thesis using t by linarith
qed


lemma bucket_okD:
  assumes "bucket_ok cap rate"
  shows "0 < rate" "0 < cap" "rat_of_int cap \<le> 2 ^ 53" "1 \<le> rat_of_int cap" "1 / 2 ^ 60 \<le> rate" "rate \<le> 2 ^ 60"
proof -
  show r: "1 / 2 ^ 60 \<le> rate" "rate \<le> 2 ^ 60" and c: "0 < cap" using assms by (simp_all add: bucket_ok_def)
  have "(0 :: rat) < 1 / 2 ^ 60" by simp
  with r(1) show "0 < rate" by (rule order.strict_trans2 [rotated])
  have "rat_of_int cap \<le> of_int (2 ^ 53)" using assms unfolding bucket_ok_def of_int_le_iff by blast
  then show "rat_of_int cap \<le> 2 ^ 53" by simp
  show "1 \<le> rat_of_int cap" using c by simp
qed

lemma cap_exact: "lua_doubles X \<Longrightarrow> bucket_ok cap rate \<Longrightarrow> x_double X (of_int cap) = of_int cap"
  using lua_doublesD(3) [of X cap] by (simp add: bucket_ok_def)

subsection \<open>The bucket in Redis\<close>

lemma fill_time_lower:
  assumes X: "lua_doubles X" and ok: "bucket_ok cap rate"
  shows "7 / 8 * (of_int cap / rate) \<le> of_int (fill_time X cap rate)" and "0 < fill_time X cap rate"
proof -
  note b = bucket_okD [OF ok]
  have "(1 / 2 ^ 60) * rate \<le> (1 / 2 ^ 60) * 2 ^ 60" using b(6) by (rule mult_left_mono) simp
  then have "1 / 2 ^ 60 * rate \<le> of_int cap" using b(4) by simp
  then have lo: "1 / 2 ^ 60 \<le> of_int cap / rate" using b(1) by (simp only: pos_le_divide_eq)
  have "rat_of_int cap \<le> 2 ^ 200 * (1 / 2 ^ 60)" using b(3) by simp
  also have "\<dots> \<le> 2 ^ 200 * rate" using b(5) by (rule mult_left_mono) simp
  finally have hi: "of_int cap / rate \<le> 2 ^ 200" using b(1) by (simp only: pos_divide_le_eq)
  have "7 / 8 * (of_int cap / rate) \<le> x_double X (of_int cap / rate)" by (rule double_lower [OF X lo hi])
  also have "\<dots> \<le> of_int (fill_time X cap rate)" by (simp add: fill_time_def)
  finally show f: "7 / 8 * (of_int cap / rate) \<le> of_int (fill_time X cap rate)" .
  have "0 < 7 / 8 * (of_int cap / rate)" using b(1,4) by simp
  with f have "0 < rat_of_int (fill_time X cap rate)" by linarith
  then show "0 < fill_time X cap rate" by simp
qed

lemma enough_time: "1500 * (f :: rat) \<le> m \<Longrightarrow> 7 / 8 * q \<le> f \<Longrightarrow> 0 \<le> q \<Longrightarrow> q \<le> 7 / 8 * (m / 1000)"
proof -
  assume "1500 * f \<le> m" "7 / 8 * q \<le> f" "0 \<le> q"
  then have "1500 * (7 / 8 * q) \<le> m" by linarith
  then have "1312 * q \<le> m" using \<open>0 \<le> q\<close> by linarith
  then show ?thesis using \<open>0 \<le> q\<close> by linarith
qed

lemma fill_time_full:
  assumes X: "lua_doubles X" and ok: "bucket_ok cap rate"
    and m: "1500 * fill_time X cap rate \<le> now - since" "now - since \<le> 2 ^ 53" and lv: "0 \<le> level"
  shows "refill X cap rate level since now = of_int cap"
proof -
  note b = bucket_okD [OF ok] and f = fill_time_lower [OF X ok]
  let ?m = "rat_of_int (now - since)"
  have "rat_of_int (1500 * fill_time X cap rate) \<le> ?m" using m(1) by (simp only: of_int_le_iff)
  then have m1: "1500 * rat_of_int (fill_time X cap rate) \<le> ?m" by simp
  have "?m \<le> of_int (2 ^ 53)" using m(2) by (simp only: of_int_le_iff)
  then have m2: "?m / 1000 \<le> 2 ^ 200" by simp
  have "1500 \<le> 1500 * rat_of_int (fill_time X cap rate)" using f(2) by simp
  with m1 have "1 / 2 ^ 60 \<le> ?m / 1000" by simp
  from double_lower [OF X this m2] have e: "7 / 8 * (?m / 1000) \<le> x_double X (?m / 1000)" .
  have "0 \<le> of_int cap / rate" using b(1,4) by simp
  with m1 f(1) have "of_int cap / rate \<le> 7 / 8 * (?m / 1000)" by (rule enough_time)
  with e have "of_int cap / rate \<le> x_double X (?m / 1000)" by (rule order.trans [rotated])
  then have "of_int cap \<le> x_double X (?m / 1000) * rate" using b(1) by (simp only: pos_divide_le_eq)
  from lua_doublesD(1) [OF X this] have "of_int cap \<le> x_double X (x_double X (?m / 1000) * rate)"
    by (simp add: cap_exact [OF X ok])
  then have "of_int cap \<le> level + x_double X (x_double X (?m / 1000) * rate)" using lv by linarith
  from lua_doublesD(1) [OF X this]
  have "of_int cap \<le> x_double X (level + x_double X (x_double X (?m / 1000) * rate))" by (simp add: cap_exact [OF X ok])
  then show ?thesis unfolding refill_def by (rule min.absorb1)
qed

lemma refill_nonneg:
  assumes X: "lua_doubles X" and ok: "bucket_ok cap rate" and "0 \<le> level" and "since \<le> now"
  shows "0 \<le> refill X cap rate level since now"
proof -
  have "0 \<le> rat_of_int (now - since) / 1000" using assms(4) by simp
  then have "0 \<le> x_double X (x_double X (of_int (now - since) / 1000) * rate)"
    using bucket_okD(1) [OF ok] by (intro double_nonneg [OF X] mult_nonneg_nonneg) simp_all
  then have "0 \<le> level + x_double X (x_double X (of_int (now - since) / 1000) * rate)" using assms(3) by linarith
  from double_nonneg [OF X this] show ?thesis
    unfolding refill_def using bucket_okD(4) [OF ok] by (intro min.boundedI) linarith+
qed

lemma refill_le_cap: "refill X cap rate level since now \<le> of_int cap"
  unfolding refill_def by (rule min.cobounded1)

lemma refill_double:
  assumes "lua_doubles X" and "bucket_ok cap rate"
  shows "x_double X (refill X cap rate level since now) = refill X cap rate level since now"
  using lua_doublesD(2) [OF assms(1)] cap_exact [OF assms] by (simp add: refill_def min_def)

context redis_server
begin

text \<open>
  Either the bucket is stored, or it is gone, and then it would be full anyway at every
  clock that a caller may still have.
\<close>

definition tb_inv :: "ext \<Rightarrow> string \<Rightarrow> int \<Rightarrow> rat \<Rightarrow> rat \<Rightarrow> int \<Rightarrow> 'd \<Rightarrow> int \<Rightarrow> bool" where
  "tb_inv X key cap rate level since d t0 =
     (0 \<le> level \<and> level \<le> of_int cap \<and> x_double X level = level \<and>
      (\<forall>t \<ge> t0. (\<exists>h. obj t d key = Some (RHash h) \<and> tb_hash X level since h) \<or>
         obj t d key = None \<and> (level = of_int cap \<or> since + 1750 * fill_time X cap rate \<le> t)))"

lemma drift_bounds:
  "2 * \<bar>now - t\<bar> \<le> 500 * (w :: int) \<Longrightarrow> t - 250 * w \<le> now \<and> now \<le> t + 250 * w"
  by (cases "t \<le> now") simp_all

lemma tb_level:
  assumes X: "lua_doubles X" and ok: "bucket_ok cap rate"
    and inv: "tb_inv X key cap rate level since d t0" and t: "t0 \<le> t" "0 \<le> since" "since \<le> now" "now \<le> 2 ^ 53"
    and near: "2 * \<bar>now - t\<bar> \<le> 500 * fill_time X cap rate"
  shows "\<exists>h. hash_of (obj t d key) = Some h \<and> r_hgetall R t d key = h \<and>
    min (of_int cap) (x_double X (lua_number X (rget h ''tokens'') (of_int cap) +
      x_double X (x_double X (x_double X (of_int now - lua_number X (rget h ''last_ms'') (of_int now)) / 1000) * rate))) =
    refill X cap rate level since now"
proof -
  have pos: "0 \<le> level" "level \<le> of_int cap" "x_double X level = level" using inv by (simp_all add: tb_inv_def)
  have ints: "x_double X (of_int since) = of_int since" "x_double X (of_int now - of_int since) = of_int now - of_int since"
    using lua_doublesD(3) [OF X, of since] lua_doublesD(3) [OF X, of "now - since"] t(2-4) by simp_all
  have zero: "x_double X 0 = 0" using lua_doublesD(3) [OF X, of 0] by simp
  have "(\<exists>h. obj t d key = Some (RHash h) \<and> tb_hash X level since h) \<or>
      obj t d key = None \<and> (level = of_int cap \<or> since + 1750 * fill_time X cap rate \<le> t)"
    using inv t(1) by (simp add: tb_inv_def)
  then consider (stored) h where "obj t d key = Some (RHash h)" "tb_hash X level since h"
    | (gone) "obj t d key = None" "level = of_int cap \<or> since + 1750 * fill_time X cap rate \<le> t"
    by (elim disjE exE conjE) simp_all
  then show ?thesis
  proof cases
    case stored
    then show ?thesis
      using hgetall [of t d key h] lua_doublesD(5) [OF X pos(3)] lua_doublesD(5) [OF X ints(1)]
      by (simp add: tb_hash_def lua_number_def ints refill_def)
  next
    case gone
    have "refill X cap rate level since now = of_int cap"
      using gone(2)
    proof
      assume full: "level = of_int cap"
      have "0 \<le> rat_of_int (now - since) / 1000" using t(3) by simp
      then have "0 \<le> x_double X (x_double X (of_int (now - since) / 1000) * rate)"
        using bucket_okD(1) [OF ok] by (intro double_nonneg [OF X] mult_nonneg_nonneg) simp_all
      then have "of_int cap \<le> level + x_double X (x_double X (of_int (now - since) / 1000) * rate)" using full by linarith
      from lua_doublesD(1) [OF X this] show ?thesis
        unfolding refill_def by (intro min.absorb1) (simp add: cap_exact [OF X ok])
    next
      assume "since + 1750 * fill_time X cap rate \<le> t"
      with drift_bounds [OF near] have "1500 * fill_time X cap rate \<le> now - since" by linarith
      then show ?thesis by (rule fill_time_full [OF X ok _ _ pos(1)]) (use t in linarith)
    qed
    then show ?thesis
      using gone(1) hgetall [of t d key "[]"] by (simp add: lua_number_def zero cap_exact [OF X ok])
  qed
qed

text \<open>One execution is one step of the bucket in memory.\<close>

lemma tb_step:
  assumes X: "lua_doubles X" and ok': "bucket_ok cap rate"
    and inv: "tb_inv X key cap rate level since d t0" and t: "t0 \<le> t" "0 \<le> since" "since \<le> now" "now \<le> 2 ^ 53"
    and near: "2 * \<bar>now - t\<bar> \<le> 500 * fill_time X cap rate"
    and run: "TOKEN_BUCKET X R t key cap rate 1 now d = ((tk, cp, ok, wait), d')"
    and level': "level' = refill X cap rate level since now"
  shows "if 1 \<le> level' then ok = 1 \<and> tb_inv X key cap rate (x_double X (level' - 1)) now d' t
    else ok \<noteq> 1 \<and> tb_inv X key cap rate level' now d' t"
proof -
  obtain h where h: "hash_of (obj t d key) = Some h" "r_hgetall R t d key = h"
    "min (of_int cap) (x_double X (lua_number X (rget h ''tokens'') (of_int cap) +
      x_double X (x_double X (x_double X (of_int now - lua_number X (rget h ''last_ms'') (of_int now)) / 1000) * rate))) = level'"
    using tb_level [OF X ok' inv t near] level' by metis
  let ?F = "\<lceil>x_double X (of_int cap / rate)\<rceil>"
  let ?store = "\<lambda>l. r_pexpire R t key (?F * 2000)
      (r_hmset R t key [(''tokens'', x_lua_str X l), (''last_ms'', x_lua_str X (of_int now))] d)"
  have lv: "0 \<le> level'" "level' \<le> of_int cap" "x_double X level' = level'"
    using refill_nonneg [OF X ok' _ t(3)] refill_le_cap refill_double [OF X ok'] inv
    unfolding level' by (auto simp: tb_inv_def)
  have fp: "0 < ?F" using fill_time_lower(2) [OF X ok'] by (simp add: fill_time_def)
  have st: "tb_inv X key cap rate l now (?store l) t" if l: "0 \<le> l" "l \<le> of_int cap" "x_double X l = l" for l
  proof -
    let ?d2 = "r_hmset R t key [(''tokens'', x_lua_str X l), (''last_ms'', x_lua_str X (of_int now))] d"
    let ?h = "rsets [(''tokens'', x_lua_str X l), (''last_ms'', x_lua_str X (of_int now))] h"
    have "obj t ?d2 key = Some (RHash ?h)"
      using hmset [OF h(1) order.refl, of "[(''tokens'', x_lua_str X l), (''last_ms'', x_lua_str X (of_int now))]" key]
      by (cases "obj t d key") simp_all
    then have o: "obj t' (?store l) key = (if t' < t + ?F * 2000 then Some (RHash ?h) else None)"
      if "t \<le> t'" for t'
      using pexpire [OF that, of "?F * 2000" key ?d2 key] fp by simp
    have "tb_hash X l now ?h" by (simp add: tb_hash_def rsets_def)
    moreover have "now + 1750 * fill_time X cap rate \<le> t'" if "t + ?F * 2000 \<le> t'" for t'
      using that drift_bounds [OF near] unfolding fill_time_def by linarith
    ultimately have "(\<exists>h. obj t' (?store l) key = Some (RHash h) \<and> tb_hash X l now h) \<or>
        obj t' (?store l) key = None \<and> (l = of_int cap \<or> now + 1750 * fill_time X cap rate \<le> t')"
      if "t \<le> t'" for t'
      using o [OF that] by (cases "t' < t + ?F * 2000") simp_all
    with l show ?thesis unfolding tb_inv_def by blast
  qed
  show ?thesis
  proof (cases "1 \<le> level'")
    case True
    then have r: "ok = 1" "d' = ?store (x_double X (level' - 1))"
      using run unfolding TOKEN_BUCKET_def Let_def h(2) h(3) by auto
    have "x_double X (level' - 1) \<le> x_double X (of_int cap)" by (rule lua_doublesD(1) [OF X]) (use lv in linarith)
    then have "x_double X (level' - 1) \<le> of_int cap" by (simp add: cap_exact [OF X ok'])
    with True r st [of "x_double X (level' - 1)"] double_nonneg [OF X, of "level' - 1"] lua_doublesD(2) [OF X]
    show ?thesis by simp
  next
    case False
    then have "ok = 0" "d' = ?store level'"
      using run unfolding TOKEN_BUCKET_def Let_def h(2) h(3) by auto
    with False lv st [of level'] show ?thesis by simp
  qed
qed

lemma tb_run_reference:
  assumes X: "lua_doubles X" and ok: "bucket_ok cap rate"
    and "tb_inv X key cap rate level since d t0"
    and "tb_calls_ok (500 * fill_time X cap rate) t0 since calls"
    and "\<forall>(f, t, now) \<in> set calls. leaves_alone obj key f"
  shows "tb_run X R key cap rate calls d = tb_reference X cap rate level since (map (\<lambda>(f, t, now). now) calls)"
  using assms(3-)
proof (induction calls arbitrary: level since d t0)
  case (Cons c calls)
  obtain f t now where c: "c = (f, t, now)" by (cases c)
  obtain tk cp ok' wait d' where r: "TOKEN_BUCKET X R t key cap rate 1 now (f d) = ((tk, cp, ok', wait), d')"
    by (metis prod.exhaust)
  have p: "t0 \<le> t" "0 \<le> since" "since \<le> now" "now \<le> 2 ^ 53" "2 * \<bar>now - t\<bar> \<le> 500 * fill_time X cap rate"
    "leaves_alone obj key f" "tb_calls_ok (500 * fill_time X cap rate) t now calls"
    and rest: "\<forall>(f, t, now) \<in> set calls. leaves_alone obj key f"
    using Cons.prems(2,3) by (auto simp: c)
  have i: "tb_inv X key cap rate level since (f d) t0"
    using Cons.prems(1) p(6) by (simp add: tb_inv_def leaves_alone_def)
  define level' where "level' = refill X cap rate level since now"
  note step = tb_step [OF X ok i p(1-5) r level'_def]
  show ?case
  proof (cases "1 \<le> level'")
    case True
    with step have s: "ok' = 1" "tb_inv X key cap rate (x_double X (level' - 1)) now d' t" by simp_all
    from Cons.IH [OF s(2) p(7) rest] True
    show ?thesis by (simp add: c r s(1) level'_def [symmetric] Let_def)
  next
    case False
    with step have s: "ok' \<noteq> 1" "tb_inv X key cap rate level' now d' t" by simp_all
    from Cons.IH [OF s(2) p(7) rest] False
    show ?thesis by (simp add: c r s(1) level'_def [symmetric] Let_def)
  qed
qed simp

lemma tb_inv_start:
  "\<forall>t \<ge> t0. obj t d key = None \<Longrightarrow> 0 < cap \<Longrightarrow> x_double X (of_int cap) = of_int cap \<Longrightarrow>
     tb_inv X key cap rate (of_int cap) now0 d t0"
  by (simp add: tb_inv_def)

end

text \<open>
  C10. The bucket that Redis stores, with its expiry and its start from a missing key, admits
  exactly what a bucket in memory admits that computes in the same doubles and never forgets:
  printing and reading the level loses nothing, and a bucket that has expired would be full by
  then in spite of all rounding. The clocks of the gateways never go back in the order of
  their calls and differ from the clock of Redis by at most a quarter of the time the bucket
  takes to fill.
\<close>

theorem token_bucket_reference:
  assumes "redis_server R obj" and "lua_doubles X" and "bucket_ok capacity refill_rate"
    and "tb_calls_ok (500 * fill_time X capacity refill_rate) t0 now0 calls"
    and "\<forall>(others, t, now_ms) \<in> set calls. leaves_alone obj key others"
    and "\<forall>t \<ge> t0. obj t d key = None"
  shows "tb_run X R key capacity refill_rate calls d =
    tb_reference X capacity refill_rate (of_int capacity) now0 (map (\<lambda>(others, t, now_ms). now_ms) calls)"
  by (rule redis_server.tb_run_reference [OF assms(1-3)
        redis_server.tb_inv_start [OF assms(1,6) bucket_okD(2) [OF assms(3)] cap_exact [OF assms(2,3)]] assms(4,5)])

subsection \<open>How much a bucket can give between two points in time\<close>












text \<open>A number format without loss, for the examples: numerator, slash, denominator.\<close>

definition fraction_str :: "rat \<Rightarrow> string" where
  "fraction_str r = (case quotient_of r of (n, d) \<Rightarrow> show_int n @ CHR ''/'' # show_int d)"

definition fraction_num :: "string \<Rightarrow> rat option" where
  "fraction_num s =
     (case map parse_int (split_on (CHR ''/'') s) of [Some n, Some d] \<Rightarrow> Some (of_int n / of_int d) | _ \<Rightarrow> None)"

lemma show_int_no_slash: "CHR ''/'' \<notin> set (show_int i)"
  using show_nat_digits [of "CHR ''/''"] by (auto simp: show_int_def is_digit_def)

lemma fraction_num_str: "fraction_num (fraction_str r) = Some r"
proof -
  obtain n d where q: "quotient_of r = (n, d)" by (cases "quotient_of r")
  then have r: "of_int n / of_int d = r" by (rule quotient_of_div [symmetric])
  show ?thesis
    by (simp add: fraction_str_def fraction_num_def q r split_on_append_sep show_int_no_slash split_on_absent)
qed

definition sample_lua_ext :: ext where
  "sample_lua_ext = sample_ext\<lparr>x_lua_str := fraction_str, x_lua_num := fraction_num\<rparr>"

definition sample_tb_calls :: "mem tb_call list" where
  "sample_tb_calls = [(\<lambda>d. d, 100, 100), (\<lambda>d. d, 110, 100), (\<lambda>d. d, 120, 120), (\<lambda>d. d, 700, 700)]"

lemma sample_tb_ok:
  "lua_doubles sample_lua_ext" "bucket_ok 2 2"
  "tb_calls_ok (500 * fill_time sample_lua_ext 2 2) 0 0 sample_tb_calls"
  "\<forall>(others, t, now_ms) \<in> set sample_tb_calls. leaves_alone mem_obj ''k'' others"
  "\<forall>t \<ge> 0. mem_obj t (\<lambda>_. None) ''k'' = None"
proof -
  have id: "x_double sample_lua_ext = (\<lambda>r. r)" by (simp add: sample_lua_ext_def sample_ext_def)
  show "lua_doubles sample_lua_ext"
    unfolding lua_doubles_def id by (simp add: sample_lua_ext_def fraction_num_str)
  have "(1 :: rat) / 2 ^ 60 \<le> 1 / 1" by (rule divide_left_mono) simp_all
  then show "bucket_ok 2 2" by (simp add: bucket_ok_def)
  show "tb_calls_ok (500 * fill_time sample_lua_ext 2 2) 0 0 sample_tb_calls"
    by (simp add: sample_tb_calls_def fill_time_def id)
qed (simp_all add: sample_tb_calls_def leaves_alone_def mem_obj_def)

theorem token_bucket_reference_witness:
  "tb_run sample_lua_ext mem_redis ''k'' 2 2 sample_tb_calls (\<lambda>_. None) =
     [(100, True), (100, True), (120, False), (700, True)]"
proof -
  have "tb_run sample_lua_ext mem_redis ''k'' 2 2 sample_tb_calls (\<lambda>_. None) =
      tb_reference sample_lua_ext 2 2 (of_int 2) 0 (map (\<lambda>(others, t, now_ms). now_ms) sample_tb_calls)"
    by (rule token_bucket_reference [where obj = mem_obj and ?t0.0 = 0])
      (use mem.redis_server_axioms sample_tb_ok in simp_all)
  also have "\<dots> = [(100, True), (100, True), (120, False), (700, True)]"
    by code_simp
  finally show ?thesis .
qed


end
