(* ===== verification/RateLimit.thy ===== *)
theory RateLimit
  imports Fetch Memo RateScripts
begin

text \<open>
  \<open>gateway/src/pipeline/plugins/rate-limit\<close>: the plugin around the scripts. The strategies
  talk to Redis, the plan resolver asks the subscription service and remembers the answer
  in the memory of the process, and the plugin turns the windows into headers and a refusal.
  Limits and times are whole numbers; a fractional number in an answer of the subscription
  service counts as absent.
\<close>

section \<open>Configuration values\<close>

definition randomReqId :: "'d io \<Rightarrow> string \<times> 'd io" where
  "randomReqId w =
     (let (now, w1) = date_now w; (hex, w2) = fresh_random w1
      in (show_int now @ ''-'' @ hex, w2))"

definition parseIntCfg :: "string option \<Rightarrow> int option" where
  "parseIntCfg val =
     (if \<not> truthy val then None
      else case parse_int (str_of val) of
             None \<Rightarrow> None | Some n \<Rightarrow> if 0 < n then Some n else None)"

definition parseFloatCfg :: "string option \<Rightarrow> rat \<Rightarrow> rat" where
  "parseFloatCfg val dflt =
     (if \<not> truthy val then dflt
      else case parse_float (str_of val) of
             Fin n \<Rightarrow> (if 0 < n then n else dflt) | _ \<Rightarrow> dflt)"

section \<open>Headers\<close>

record window_info =
  wi_limit :: int
  wi_current :: int
  wi_windowMs :: int
  wi_resetAtMs :: int
  wi_period :: string

definition remaining :: "window_info \<Rightarrow> int" where
  "remaining w = wi_limit w - wi_current w"

text \<open>\<open>Math.ceil(x / 1000)\<close>.\<close>

definition ceil_sec :: "int \<Rightarrow> int" where
  "ceil_sec ms = - ((- ms) div 1000)"

definition formatLimit :: "window_info \<Rightarrow> string" where
  "formatLimit w = show_int (wi_limit w) @ '';w='' @ show_int (ceil_sec (wi_windowMs w))"

definition periodLabel :: "string \<Rightarrow> string" where
  "periodLabel p =
     orelse (rget [(''minute'', ''minute''), (''hour'', ''hour''), (''day'', ''day'')] p) ''undefined''"

definition window_headers :: "window_info \<Rightarrow> dict \<Rightarrow> dict" where
  "window_headers w headers =
     (let rem = max 0 (remaining w); pfx = periodLabel (wi_period w)
      in rset (''x-ratelimit-remaining-'' @ pfx) (show_int rem)
           (rset (''x-ratelimit-limit-'' @ pfx) (show_int (wi_limit w)) headers))"

fun strictest :: "window_info \<Rightarrow> window_info list \<Rightarrow> window_info" where
  "strictest m [] = m"
| "strictest m (w # ws) = strictest (if remaining w < remaining m then w else m) ws"

definition applyRateLimitHeaders ::
  "dict \<Rightarrow> window_info list \<Rightarrow> window_info option \<Rightarrow> 'd io \<Rightarrow> dict \<times> 'd io" where
  "applyRateLimitHeaders headers windows denied w =
     (case windows of
        [] \<Rightarrow> (headers, w)
      | first # rest \<Rightarrow>
          (let primary = strictest first rest;
               remainingVal = max 0 (remaining primary);
               (now, w1) = date_now w;
               resetSec = max 0 (ceil_sec (wi_resetAtMs primary - now));
               h1 = rset ''ratelimit-limit'' (formatLimit primary) headers;
               h2 = rset ''ratelimit-remaining'' (show_int remainingVal) h1;
               h3 = rset ''ratelimit-reset'' (show_int resetSec) h2;
               h4 = fold window_headers windows h3
           in case denied of
                None \<Rightarrow> (h4, w1)
              | Some d \<Rightarrow>
                  (let (now2, w2) = date_now w1;
                       retryAfterSec = max 1 (ceil_sec (wi_resetAtMs d - now2))
                   in (rset ''retry-after'' (show_int retryAfterSec) h4, w2))))"

section \<open>Plans\<close>

definition PLAN_CACHE_TTL_MS :: int where
  "PLAN_CACHE_TTL_MS = 5 * 60 * 1000"

text \<open>\<open>Math.ceil(n * 1.5)\<close>.\<close>

definition burst_of :: "int \<Rightarrow> int" where
  "burst_of n = - ((- 3 * n) div 2)"

definition mapInfoToLimits :: "dict \<Rightarrow> plan_limits" where
  "mapInfoToLimits info =
     (let rpm = parse_int (orelse (rget info ''rpm_limit'') ''-1'');
          rpd = parse_int (orelse (rget info ''rpd_limit'') ''-1'')
      in \<lparr>pn_rpm = rpm, pn_rph = Some (- 1), pn_rpd = rpd,
          pn_burst = Some (case rpm of Some n \<Rightarrow> (if 0 < n then burst_of n else - 1) | None \<Rightarrow> - 1),
          pn_plan = orelse (rget info ''plan_name'') []\<rparr>)"

definition whole_field :: "jobj \<Rightarrow> string \<Rightarrow> int option" where
  "whole_field obj k =
     (case jget obj k of Some (JNum r) \<Rightarrow> if of_int \<lfloor>r\<rfloor> = r then Some \<lfloor>r\<rfloor> else None | _ \<Rightarrow> None)"

definition quota_limits :: "jobj \<Rightarrow> plan_limits" where
  "quota_limits data =
     \<lparr>pn_rpm = Some (orelse (whole_field data ''rpm_limit'') (- 1)), pn_rph = Some (- 1),
      pn_rpd = Some (orelse (whole_field data ''rpd_limit'') (- 1)),
      pn_burst = Some (burst_of (orelse (whole_field data ''rpm_limit'') 0)),
      pn_plan = orelse (sfield data ''plan'') []\<rparr>"

definition plan_key :: "string \<Rightarrow> string \<Rightarrow> string" where
  "plan_key clientId apiId = clientId @ '':'' @ apiId"

definition store_plan :: "string \<Rightarrow> plan_limits \<Rightarrow> 'd io \<Rightarrow> 'd io" where
  "store_plan k l w =
     (let (now, w1) = date_now w in w1\<lparr>io_plans := rset k (l, now) (io_plans w1)\<rparr>)"

definition quota_url :: "ext \<Rightarrow> config \<Rightarrow> string \<Rightarrow> string \<Rightarrow> string" where
  "quota_url X A clientId apiId =
     cfg_SUBSCRIPTION_SERVICE_URL A @ ''/internal/quota/check?client_id='' @ x_encode_uri X clientId
       @ ''&api_id='' @ x_encode_uri X apiId"

text \<open>The third level: the subscription service.\<close>

definition fetch_plan ::
  "ext \<Rightarrow> config \<Rightarrow> string \<Rightarrow> string \<Rightarrow> 'd io \<Rightarrow> plan_limits option \<times> 'd io" where
  "fetch_plan X A clientId apiId w =
     (case internalFetch X A (get_request (quota_url X A clientId apiId) []) w of
           (Inl e, w1) \<Rightarrow> (None, w1)
         | (Inr resp, w1) \<Rightarrow>
             (if \<not> resp_ok resp then (None, w1)
              else case resp_json X resp of
                     Inl e \<Rightarrow> (None, w1)
                   | Inr JNull \<Rightarrow> (None, w1)
                   | Inr data \<Rightarrow>
                       (let limits = quota_limits (json_obj data)
                        in (Some limits, store_plan (plan_key clientId apiId) limits w1))))"

definition info_key :: "string \<Rightarrow> string" where
  "info_key clientId = ''apikey:info:'' @ clientId"

text \<open>The second and third level, asked when the memory of the process has no fresh entry.\<close>

definition lookup_plan ::
  "ext \<Rightarrow> 'd redis \<Rightarrow> config \<Rightarrow> string \<Rightarrow> string \<Rightarrow> 'd io \<Rightarrow> plan_limits option \<times> 'd io" where
  "lookup_plan X R A clientId apiId w =
     (case redis_read (\<lambda>t d. r_hgetall R t d (info_key clientId)) w of
        (Inl e, w1) \<Rightarrow> fetch_plan X A clientId apiId w1
      | (Inr info, w1) \<Rightarrow>
          (if truthy (rget info ''rpm_limit'')
           then (let limits = mapInfoToLimits info
                 in (Some limits, store_plan (plan_key clientId apiId) limits w1))
           else fetch_plan X A clientId apiId w1))"

definition resolvePlanLimits ::
  "ext \<Rightarrow> 'd redis \<Rightarrow> config \<Rightarrow> string \<Rightarrow> string \<Rightarrow> 'd io \<Rightarrow> plan_limits option \<times> 'd io" where
  "resolvePlanLimits X R A clientId apiId w =
     (if clientId = [] \<or> apiId = [] then (None, w)
      else case rget (io_plans w) (plan_key clientId apiId) of
             Some (limits, fetchedAt) \<Rightarrow>
               (let (now, w1) = date_now w
                in if now - fetchedAt < PLAN_CACHE_TTL_MS then (Some limits, w1)
                   else lookup_plan X R A clientId apiId w1)
           | None \<Rightarrow> lookup_plan X R A clientId apiId w)"

section \<open>Strategies\<close>

record sliding_result =
  sl_allowed :: bool
  sl_current :: int
  sl_limit :: int
  sl_windowMs :: int
  sl_resetAtMs :: int

definition slidingWindow ::
  "'d redis \<Rightarrow> string \<Rightarrow> int \<Rightarrow> int \<Rightarrow> 'd io \<Rightarrow> sliding_result \<times> 'd io" where
  "slidingWindow R key windowMs limit w =
     (let (nowMs, w1) = date_now w;
          (reqId, w2) = randomReqId w1;
          redisKey = ''rl:sw:'' @ key
      in case redis_call (\<lambda>t. SLIDING_WINDOW R t redisKey windowMs limit nowMs reqId) w2 of
           (Inl e, w3) \<Rightarrow>
             (\<lparr>sl_allowed = True, sl_current = 0, sl_limit = limit, sl_windowMs = windowMs,
               sl_resetAtMs = nowMs + windowMs\<rparr>, w3)
         | (Inr (current, _, _, allowed, oldestMs), w3) \<Rightarrow>
             (\<lparr>sl_allowed = (allowed = 1), sl_current = current, sl_limit = limit, sl_windowMs = windowMs,
               sl_resetAtMs = (if 0 < oldestMs then oldestMs + windowMs else nowMs + windowMs)\<rparr>, w3))"

record fixed_result =
  fx_allowed :: bool
  fx_current :: int
  fx_limit :: int
  fx_windowSec :: int
  fx_ttlRemainingSec :: int

definition fixedWindow ::
  "'d redis \<Rightarrow> string \<Rightarrow> int \<Rightarrow> int \<Rightarrow> 'd io \<Rightarrow> fixed_result \<times> 'd io" where
  "fixedWindow R key windowSec limit w =
     (let (now, w1) = date_now w;
          windowId = now div (windowSec * 1000);
          redisKey = ''rl:fw:'' @ key @ '':'' @ show_int windowId
      in case redis_call (\<lambda>t. FIXED_WINDOW R t redisKey limit windowSec) w1 of
           (Inl e, w2) \<Rightarrow>
             (\<lparr>fx_allowed = True, fx_current = 0, fx_limit = limit, fx_windowSec = windowSec,
               fx_ttlRemainingSec = windowSec\<rparr>, w2)
         | (Inr (current, _, allowed, ttl), w2) \<Rightarrow>
             (\<lparr>fx_allowed = (allowed = 1), fx_current = current, fx_limit = limit, fx_windowSec = windowSec,
               fx_ttlRemainingSec = max 0 ttl\<rparr>, w2))"

record bucket_result =
  bk_allowed :: bool
  bk_tokensRemaining :: int
  bk_capacity :: int
  bk_waitMs :: int

definition tokenBucket ::
  "ext \<Rightarrow> 'd redis \<Rightarrow> string \<Rightarrow> int \<Rightarrow> rat \<Rightarrow> int \<Rightarrow> 'd io \<Rightarrow> bucket_result \<times> 'd io" where
  "tokenBucket X R key capacity refillRate requested w =
     (let redisKey = ''rl:tb:'' @ key;
          (now, w1) = date_now w
      in case redis_call (\<lambda>t. TOKEN_BUCKET X R t redisKey capacity refillRate requested now) w1 of
           (Inl e, w2) \<Rightarrow>
             (\<lparr>bk_allowed = True, bk_tokensRemaining = capacity, bk_capacity = capacity, bk_waitMs = 0\<rparr>, w2)
         | (Inr (tokens, cap, allowed, waitMs), w2) \<Rightarrow>
             (\<lparr>bk_allowed = (allowed = 1), bk_tokensRemaining = tokens, bk_capacity = cap,
               bk_waitMs = waitMs\<rparr>, w2))"

section \<open>The plugin\<close>

definition resolveKey :: "ext \<Rightarrow> ctx \<Rightarrow> string \<Rightarrow> string" where
  "resolveKey X c keyBy =
     (if keyBy = ''ip'' then c_remoteIp c
      else if keyBy = ''user_id'' then jstring X (c_claims c) ''sub'' (c_remoteIp c)
      else if keyBy = ''api_key''
      then (let k = orelse (rget (c_requestHeaders c) ''x-api-key'') (c_clientId c)
            in if k \<noteq> [] then k else c_remoteIp c)
      else (if c_clientId c \<noteq> [] then c_clientId c else c_remoteIp c))"

definition buildDeniedMessage :: "window_info \<Rightarrow> string" where
  "buildDeniedMessage w =
     ''rate limit exceeded: '' @ show_int (wi_limit w) @ '' requests '' @
     orelse (rget [(''minute'', ''per minute''), (''hour'', ''per hour''), (''day'', ''per day'')] (wi_period w)) ''undefined''"

text \<open>The answer carries the period that the caller adds to it.\<close>

definition checkWindow ::
  "string \<Rightarrow> 'd redis \<Rightarrow> string \<Rightarrow> string \<Rightarrow> int \<Rightarrow> int \<Rightarrow> int \<Rightarrow> string \<Rightarrow> 'd io \<Rightarrow> (window_info \<times> bool) \<times> 'd io" where
  "checkWindow strategy R key period windowMs windowSec limit label w =
     (if strategy = ''fixed_window''
      then (let (r, w1) = fixedWindow R (period @ '':'' @ key) windowSec limit w;
                (now, w2) = date_now w1
            in ((\<lparr>wi_limit = fx_limit r, wi_current = fx_current r, wi_windowMs = windowMs,
                  wi_resetAtMs = now + fx_ttlRemainingSec r * 1000, wi_period = label\<rparr>, fx_allowed r), w2))
      else (let (r, w1) = slidingWindow R (period @ '':'' @ key) windowMs limit w
            in ((\<lparr>wi_limit = sl_limit r, wi_current = sl_current r, wi_windowMs = sl_windowMs r,
                  wi_resetAtMs = sl_resetAtMs r, wi_period = label\<rparr>, sl_allowed r), w1)))"

text \<open>
  One of the three \<open>if (!deniedWindow && limit)\<close> blocks, on the windows so far and the
  denied one.
\<close>

definition window_block ::
  "string \<Rightarrow> 'd redis \<Rightarrow> string \<Rightarrow> string \<Rightarrow> int \<Rightarrow> int \<Rightarrow> int option \<Rightarrow> string \<Rightarrow>
   (window_info list \<times> window_info option) \<times> 'd io \<Rightarrow> (window_info list \<times> window_info option) \<times> 'd io" where
  "window_block strategy R key period windowMs windowSec limit label s =
     (case s of ((windows, denied), w) \<Rightarrow>
        (case limit of
           None \<Rightarrow> s
         | Some l \<Rightarrow>
             (if denied \<noteq> None then s
              else (let ((wi, allowed), w1) = checkWindow strategy R key period windowMs windowSec l label w
                    in ((windows @ [wi], if allowed then None else Some wi), w1)))))"

text \<open>The limits after the plan was asked, if it had to be.\<close>

definition plan_limit :: "int option \<Rightarrow> int option \<Rightarrow> int option" where
  "plan_limit own plan =
     (if own = None then (case plan of Some n \<Rightarrow> if 0 < n then Some n else None | None \<Rightarrow> None) else own)"

definition effective_limits ::
  "ext \<Rightarrow> 'd redis \<Rightarrow> config \<Rightarrow> dict \<Rightarrow> ctx \<Rightarrow> 'd io \<Rightarrow> (int option \<times> int option \<times> int option) \<times> 'd io" where
  "effective_limits X R A cfg c w =
     (let usePlanLimits = (rget cfg ''use_plan_limits'' = Some ''true'');
          rpm = parseIntCfg (rget cfg ''rpm'');
          rph = parseIntCfg (rget cfg ''rph'');
          rpd = parseIntCfg (rget cfg ''rpd'')
      in if usePlanLimits \<and> (rpm = None \<or> rpd = None)
         then (case resolvePlanLimits X R A (c_clientId c) (c_apiId c) w of
                 (None, w1) \<Rightarrow> ((rpm, rph, rpd), w1)
               | (Some plan, w1) \<Rightarrow>
                   ((plan_limit rpm (pn_rpm plan), plan_limit rph (pn_rph plan), plan_limit rpd (pn_rpd plan)), w1))
         else ((rpm, rph, rpd), w))"

definition rate_key :: "ext \<Rightarrow> dict \<Rightarrow> ctx \<Rightarrow> string" where
  "rate_key X cfg c = resolveKey X c (orelse (rget cfg ''key_by'') ''client_id'') @ '':'' @ c_apiId c"

text \<open>The branch of the token bucket, and the one of the windows.\<close>

definition bucket_branch ::
  "ext \<Rightarrow> 'd redis \<Rightarrow> dict \<Rightarrow> int option \<Rightarrow> ctx \<Rightarrow> 'd io \<Rightarrow> ctx \<times> 'd io" where
  "bucket_branch X R cfg rpm c w =
     (let bucketCapacity = orelse (parseIntCfg (rget cfg ''burst_size'')) (burst_of (orelse rpm 100));
          refillRate = x_double X (parseFloatCfg (rget cfg ''refill_rate'') (of_int (orelse rpm 100) / 60));
          (result, w2) = tokenBucket X R (rate_key X cfg c) bucketCapacity refillRate 1 w;
          (now, w3) = date_now w2;
          wi = \<lparr>wi_limit = bucketCapacity, wi_current = bucketCapacity - bk_tokensRemaining result,
                wi_windowMs = 60000, wi_resetAtMs = now + bk_waitMs result, wi_period = ''minute''\<rparr>
      in if \<not> bk_allowed result
         then (let (h, w4) = applyRateLimitHeaders (c_responseHeaders c) [wi] (Some wi) w3
               in (abort (c\<lparr>c_responseHeaders := h\<rparr>) 429 ''rate limit exceeded (token bucket)'', w4))
         else (let (h, w4) = applyRateLimitHeaders (c_responseHeaders c) [wi] None w3
               in (c\<lparr>c_responseHeaders := h\<rparr>, w4)))"

definition check_windows ::
  "string \<Rightarrow> 'd redis \<Rightarrow> string \<Rightarrow> int option \<times> int option \<times> int option \<Rightarrow> 'd io \<Rightarrow>
   (window_info list \<times> window_info option) \<times> 'd io" where
  "check_windows strategy R key limits w =
     (case limits of (rpm, rph, rpd) \<Rightarrow>
        window_block strategy R key ''rpd'' 86400000 86400 rpd ''day''
          (window_block strategy R key ''rph'' 3600000 3600 rph ''hour''
            (window_block strategy R key ''rpm'' 60000 60 rpm ''minute'' (([], None), w))))"

definition window_branch ::
  "string \<Rightarrow> 'd redis \<Rightarrow> string \<Rightarrow> int option \<times> int option \<times> int option \<Rightarrow> ctx \<Rightarrow> 'd io \<Rightarrow> ctx \<times> 'd io" where
  "window_branch strategy R key limits c w =
     (let ((windows, denied), w2) = check_windows strategy R key limits w;
          (h, w3) = applyRateLimitHeaders (c_responseHeaders c) windows denied w2;
          c1 = c\<lparr>c_responseHeaders := h\<rparr>
      in case denied of
           None \<Rightarrow> (c1, w3)
         | Some d \<Rightarrow> (abort c1 429 (buildDeniedMessage d), w3))"

definition rateLimit :: "'d plugin" where
  "rateLimit X R A cfg c w =
     (let strategy = orelse (rget cfg ''strategy'') ''sliding_window'';
          (limits, w1) = effective_limits X R A cfg c w
      in if limits = (None, None, None) then done_with c w1
         else if strategy = ''token_bucket''
         then (let (c', w2) = bucket_branch X R cfg (fst limits) c w1 in done_with c' w2)
         else (let (c', w2) = window_branch strategy R (rate_key X cfg c) limits c w1 in done_with c' w2))"

section \<open>The plan cache\<close>

text \<open>The memory of one client, by API; nothing is remembered under an empty name.\<close>

definition plan_entry :: "string \<Rightarrow> 'd io \<Rightarrow> string \<Rightarrow> (plan_limits option \<times> int) option" where
  "plan_entry clientId w apiId =
     (if clientId = [] \<or> apiId = [] then None
      else map_option (\<lambda>(l, fetchedAt). (Some l, fetchedAt)) (rget (io_plans w) (plan_key clientId apiId)))"

lemma plan_key_inject [simp]: "plan_key c a = plan_key c a' \<longleftrightarrow> a = a'"
  by (simp add: plan_key_def)

lemma date_now_plans [simp]: "io_plans (snd (date_now w)) = io_plans w"
  by (simp add: date_now_def)

lemma redis_read_plans [simp]: "io_plans (snd (redis_read f w)) = io_plans w"
  by (simp add: redis_read_def redis_call_def Let_def split: option.splits)

lemma internalFetch_plans [simp]: "io_plans (snd (internalFetch X A q w)) = io_plans w"
  by (simp add: internalFetch_def http_fetch_def)

lemma plan_entry_cong: "io_plans w' = io_plans w \<Longrightarrow> plan_entry c w' = plan_entry c w"
  by (simp add: plan_entry_def fun_eq_iff)

lemma store_plan_entry:
  assumes "c \<noteq> []" "a \<noteq> []"
  shows "\<exists>stp. plan_entry c (store_plan (plan_key c a) l w) = (plan_entry c w)(a := Some (Some l, stp))"
proof -
  have "plan_entry c (store_plan (plan_key c a) l w) = (plan_entry c w)(a := Some (Some l, io_clock w 0))"
    using assms by (auto simp: plan_entry_def store_plan_def date_now_def Let_def fun_eq_iff)
  then show ?thesis by blast
qed

lemma fetch_plan_entry:
  assumes "c \<noteq> []" "a \<noteq> []"
  shows "plan_entry c (snd (fetch_plan X A c a w)) = plan_entry c w \<or>
    (\<exists>stp. plan_entry c (snd (fetch_plan X A c a w)) = (plan_entry c w)(a := Some (fst (fetch_plan X A c a w), stp)))"
proof -
  let ?u = "get_request (quota_url X A c a) []"
  obtain r w1 where f: "internalFetch X A ?u w = (r, w1)" by (cases "internalFetch X A ?u w")
  have p: "plan_entry c w1 = plan_entry c w"
    using internalFetch_plans [of X A ?u w] unfolding f by (intro plan_entry_cong) simp
  show ?thesis
  proof (cases "\<exists>resp data. r = Inr resp \<and> resp_ok resp \<and> resp_json X resp = Inr data \<and> data \<noteq> JNull")
    case True
    then obtain resp data where "r = Inr resp" "resp_ok resp" "resp_json X resp = Inr data" "data \<noteq> JNull"
      by blast
    then have "fetch_plan X A c a w =
        (Some (quota_limits (json_obj data)), store_plan (plan_key c a) (quota_limits (json_obj data)) w1)"
      by (cases data) (simp_all add: fetch_plan_def f Let_def)
    with store_plan_entry [OF assms, of "quota_limits (json_obj data)" w1] p show ?thesis by auto
  next
    case False
    then have "snd (fetch_plan X A c a w) = w1"
      by (auto simp: fetch_plan_def f Let_def split: sum.splits json.splits)
    with p show ?thesis by simp
  qed
qed

lemma lookup_plan_entry:
  assumes "c \<noteq> []" "a \<noteq> []"
  shows "plan_entry c (snd (lookup_plan X R A c a w)) = plan_entry c w \<or>
    (\<exists>stp. plan_entry c (snd (lookup_plan X R A c a w)) = (plan_entry c w)(a := Some (fst (lookup_plan X R A c a w), stp)))"
proof -
  obtain r w1 where f: "redis_read (\<lambda>t d. r_hgetall R t d (info_key c)) w = (r, w1)"
    by (cases "redis_read (\<lambda>t d. r_hgetall R t d (info_key c)) w")
  have p: "plan_entry c w1 = plan_entry c w"
    using redis_read_plans [of "\<lambda>t d. r_hgetall R t d (info_key c)" w] unfolding f
    by (intro plan_entry_cong) simp
  show ?thesis
  proof (cases "\<exists>info. r = Inr info \<and> truthy (rget info ''rpm_limit'')")
    case True
    then obtain info where "lookup_plan X R A c a w =
        (Some (mapInfoToLimits info), store_plan (plan_key c a) (mapInfoToLimits info) w1)"
      by (auto simp: lookup_plan_def f Let_def)
    with store_plan_entry [OF assms, of "mapInfoToLimits info" w1] p show ?thesis by auto
  next
    case False
    then have "lookup_plan X R A c a w = fetch_plan X A c a w1"
      by (auto simp: lookup_plan_def f split: sum.splits)
    with fetch_plan_entry [OF assms, of X A w1] p show ?thesis by simp
  qed
qed

lemma resolvePlanLimits_hit:
  "plan_entry c w a = Some (v, stp) \<Longrightarrow> io_clock w 0 - stp < PLAN_CACHE_TTL_MS \<Longrightarrow>
   resolvePlanLimits X R A c a w = (v, snd (date_now w))"
  by (auto simp: resolvePlanLimits_def plan_entry_def date_now_def split: if_splits)

lemma resolvePlanLimits_miss:
  assumes "\<not> fresh_entry PLAN_CACHE_TTL_MS (io_clock w 0) (plan_entry c w a)" "c \<noteq> []" "a \<noteq> []"
  shows "\<exists>w1. io_plans w1 = io_plans w \<and> resolvePlanLimits X R A c a w = lookup_plan X R A c a w1"
proof (cases "rget (io_plans w) (plan_key c a)")
  case None
  with assms show ?thesis by (auto simp: resolvePlanLimits_def)
next
  case (Some e)
  with assms show ?thesis
    by (intro exI [of _ "snd (date_now w)"])
      (cases e, simp add: resolvePlanLimits_def plan_entry_def date_now_def Let_def)
qed

interpretation plans: ttl_memo "\<lambda>apiId. resolvePlanLimits X R A clientId apiId" "plan_entry clientId"
    "\<lambda>w. io_clock w 0" PLAN_CACHE_TTL_MS
  for X R A clientId
proof (standard, goal_cases)
  case (1 w a v stp)
  then show ?case by (simp add: resolvePlanLimits_hit)
next
  case (2 w a)
  then obtain v stp where "plan_entry clientId w a = Some (v, stp)" "io_clock w 0 - stp < PLAN_CACHE_TTL_MS"
    by (cases "plan_entry clientId w a") auto
  from resolvePlanLimits_hit [OF this, of X R A] show ?case
    by (simp only: snd_conv plan_entry_cong [OF date_now_plans])
next
  case (3 w a)
  show ?case
  proof (cases "clientId = [] \<or> a = []")
    case True
    then show ?thesis by (auto simp: resolvePlanLimits_def)
  next
    case False
    with resolvePlanLimits_miss [OF 3] obtain w1 where w1: "io_plans w1 = io_plans w"
      "resolvePlanLimits X R A clientId a w = lookup_plan X R A clientId a w1" by blast
    with lookup_plan_entry [of clientId a X R A w1] False plan_entry_cong [OF w1(1)] show ?thesis by simp
  qed
qed

text \<open>
  The plan limits applied to a request are the answer of Redis or of the subscription
  service obtained for that client and API now, or less than five minutes ago.
\<close>

theorem plan_limits_recent:
  assumes "io_plans w0 = []" and "\<forall>(a, move) \<in> set qs. \<forall>w. io_plans (move w) = io_plans w"
    and "i < length (plans.trace X R A clientId qs w0)"
    and "plans.trace X R A clientId qs w0 ! i = (apiId, w, limits, w')"
    and "clientId \<noteq> []" and "apiId \<noteq> []"
  shows "(\<exists>w1. limits = fst (lookup_plan X R A clientId apiId w1) \<and> io_plans w1 = io_plans w) \<or>
    (\<exists>j < i. \<exists>v1 v2 u fetchedAt. plans.trace X R A clientId qs w0 ! j = (apiId, v1, limits, v2) \<and>
       limits = fst (lookup_plan X R A clientId apiId u) \<and> io_plans u = io_plans v1 \<and>
       plan_entry clientId v2 apiId = Some (limits, fetchedAt) \<and> io_clock w 0 - fetchedAt < 300000)"
proof -
  have k: "plans.keeps_entries clientId qs" "plan_entry clientId w0 = (\<lambda>_. None)"
    using assms(1,2) plan_entry_cong by (fastforce simp: plans.keeps_entries_def plan_entry_def fun_eq_iff)+
  have computed: "\<exists>w1. v = fst (lookup_plan X R A clientId apiId w1) \<and> io_plans w1 = io_plans u"
    if "resolvePlanLimits X R A clientId apiId u = (v, u')"
      "\<not> fresh_entry PLAN_CACHE_TTL_MS (io_clock u 0) (plan_entry clientId u apiId)" for u u' v
    using resolvePlanLimits_miss [OF that(2) assms(5,6), of X R A] that(1) by (metis fst_conv)
  from plans.trace_recent [OF k(2,1) assms(3,4)]
  consider "resolvePlanLimits X R A clientId apiId w = (limits, w')"
      "\<not> fresh_entry PLAN_CACHE_TTL_MS (io_clock w 0) (plan_entry clientId w apiId)"
    | j v1 v2 stp where "j < i" "plans.trace X R A clientId qs w0 ! j = (apiId, v1, limits, v2)"
      "resolvePlanLimits X R A clientId apiId v1 = (limits, v2)"
      "\<not> fresh_entry PLAN_CACHE_TTL_MS (io_clock v1 0) (plan_entry clientId v1 apiId)"
      "plan_entry clientId v2 apiId = Some (limits, stp)" "io_clock w 0 - stp < PLAN_CACHE_TTL_MS"
    by blast
  then show ?thesis
  proof cases
    case 1
    from computed [OF this] show ?thesis by blast
  next
    case (2 j v1 v2 stp)
    from computed [OF 2(3,4)] 2 show ?thesis by (auto simp: PLAN_CACHE_TTL_MS_def)
  qed
qed

section \<open>What the plugin does to a request\<close>

lemma window_block_denied:
  "(snd (fst s) \<noteq> None \<longrightarrow> fst (fst s) \<noteq> []) \<Longrightarrow>
   snd (fst (window_block st R key p ms sc lmt lb s)) \<noteq> None \<longrightarrow>
   fst (fst (window_block st R key p ms sc lmt lb s)) \<noteq> []"
  by (auto simp: window_block_def split: prod.splits option.splits)

lemma applyRateLimitHeaders_denied:
  "ws \<noteq> [] \<Longrightarrow> \<exists>n \<ge> 1. rget (fst (applyRateLimitHeaders h ws (Some d) w)) ''retry-after'' = Some (show_int n)"
  by (cases ws) (auto simp: applyRateLimitHeaders_def split_beta Let_def intro!: exI [of _ "max 1 _"])

text \<open>What both branches leave behind.\<close>

definition limited :: "ctx \<Rightarrow> ctx \<Rightarrow> bool" where
  "limited c c' =
     (c_requestHeaders c' = c_requestHeaders c \<and> c_cacheHit c' = c_cacheHit c \<and>
      (c_aborted c' \<and> \<not> c_aborted c \<longrightarrow> c_abortCode c' = 429 \<and>
         (\<exists>n \<ge> 1. rget (c_responseHeaders c') ''retry-after'' = Some (show_int n))))"

lemma bucket_branch_effect: "limited c (fst (bucket_branch X R cfg rpm c w))"
  unfolding bucket_branch_def Let_def split_beta limited_def
  by (auto intro!: applyRateLimitHeaders_denied)

lemma window_branch_effect: "limited c (fst (window_branch st R key limits c w))"
proof -
  obtain ws denied w2 where s: "check_windows st R key limits w = ((ws, denied), w2)"
    by (metis prod.exhaust)
  have "snd (fst (check_windows st R key limits w)) \<noteq> None \<longrightarrow> fst (fst (check_windows st R key limits w)) \<noteq> []"
    unfolding check_windows_def by (cases limits) (simp only: prod.case, intro window_block_denied, simp)
  then have "denied \<noteq> None \<longrightarrow> ws \<noteq> []" by (simp add: s)
  then show ?thesis
    using applyRateLimitHeaders_denied [of ws "c_responseHeaders c" _ w2]
    by (cases denied) (simp_all add: window_branch_def s Let_def split_beta limited_def)
qed

lemma rateLimit_effect:
  "fst (rateLimit X R A cfg c w) = None \<and> limited c (fst (snd (rateLimit X R A cfg c w)))"
proof -
  have "limited c c" by (simp add: limited_def)
  then show ?thesis
    by (simp add: rateLimit_def Let_def split_beta bucket_branch_effect window_branch_effect)
qed

text \<open>
  Rate limiting never throws and never touches the request; when it stops one, it does so
  with 429 and tells the client to retry after at least a second.
\<close>

theorem rateLimit_refusal:
  assumes "rateLimit X R A cfg c w = (e, c', w')"
  shows "e = None \<and> c_requestHeaders c' = c_requestHeaders c \<and> c_cacheHit c' = c_cacheHit c \<and>
    (c_aborted c' \<and> \<not> c_aborted c \<longrightarrow> c_abortCode c' = 429 \<and>
       (\<exists>n \<ge> 1. rget (c_responseHeaders c') ''retry-after'' = Some (show_int n)))"
  using rateLimit_effect [of X R A cfg c w] assms by (simp add: limited_def)

definition sample_sliding_cfg :: dict where
  "sample_sliding_cfg = [(''rpm'', ''1''), (''key_by'', ''ip'')]"

definition sample_ctx :: ctx where
  "sample_ctx = createExecContext ''orders'' ''trace-1'' ''GET'' ''/orders/7'' ''api.test'' ''10.1.2.3'' [] [] None 0"

definition sample_twice :: "ctx \<times> mem io" where
  "sample_twice = snd (rateLimit sample_ext mem_redis sample_config sample_sliding_cfg sample_ctx
     (snd (snd (rateLimit sample_ext mem_redis sample_config sample_sliding_cfg sample_ctx sample_io))))"

theorem rateLimit_refusal_witness:
  "c_aborted (fst sample_twice) \<and> c_abortCode (fst sample_twice) = 429 \<and>
   c_requestHeaders (fst sample_twice) = [] \<and>
   rget (c_responseHeaders (fst sample_twice)) ''retry-after'' = Some ''60''"
proof -
  have a: "c_aborted (fst sample_twice)" by code_simp
  have r: "rget (c_responseHeaders (fst sample_twice)) ''retry-after'' = Some ''60''" by code_simp
  have n: "\<not> c_aborted sample_ctx" "c_requestHeaders sample_ctx = []"
    by (simp_all add: sample_ctx_def createExecContext_def)
  let ?w = "snd (snd (rateLimit sample_ext mem_redis sample_config sample_sliding_cfg sample_ctx sample_io))"
  have "rateLimit sample_ext mem_redis sample_config sample_sliding_cfg sample_ctx ?w =
      (fst (rateLimit sample_ext mem_redis sample_config sample_sliding_cfg sample_ctx ?w),
       fst sample_twice, snd sample_twice)"
    by (simp add: sample_twice_def)
  from rateLimit_refusal [OF this] a n r show ?thesis by simp
qed

text \<open>Redis is out of reach: every command is rejected.\<close>

definition redis_down :: "'d io \<Rightarrow> bool" where
  "redis_down w = (\<forall>n. io_fault w n \<noteq> None)"

lemma redis_call_down:
  assumes "redis_down w"
  obtains e w' where "redis_call f w = (Inl e, w')" "redis_down w'"
proof -
  from assms obtain e where "io_fault w 0 = Some e" by (auto simp: redis_down_def)
  with assms that show ?thesis by (auto simp: redis_call_def redis_down_def Let_def)
qed

lemma down_frame [simp]:
  "redis_down (snd (date_now w)) = redis_down w" "redis_down (snd (fresh_random w)) = redis_down w"
  "redis_down (snd (internalFetch X A q w)) = redis_down w"
  "redis_down (w\<lparr>io_plans := p\<rparr>) = redis_down w"
  by (simp_all add: redis_down_def date_now_def fresh_random_def internalFetch_def http_fetch_def)

lemma randomReqId_down [simp]: "redis_down (snd (randomReqId w)) = redis_down w"
  by (simp add: randomReqId_def split_beta Let_def)

lemma slidingWindow_down:
  assumes "redis_down w"
  shows "sl_allowed (fst (slidingWindow R key ms l w)) \<and> redis_down (snd (slidingWindow R key ms l w))"
proof -
  obtain now w1 i w2 where r: "date_now w = (now, w1)" "randomReqId w1 = (i, w2)"
    by (metis prod.exhaust)
  have "redis_down w2"
    using assms down_frame(1) [of w] randomReqId_down [of w1] by (simp add: r)
  then obtain e w3 where "redis_call (\<lambda>t. SLIDING_WINDOW R t (''rl:sw:'' @ key) ms l now i) w2 = (Inl e, w3)"
    "redis_down w3" by (rule redis_call_down)
  then show ?thesis by (simp add: slidingWindow_def r Let_def)
qed

lemma fixedWindow_down:
  assumes "redis_down w"
  shows "fx_allowed (fst (fixedWindow R key sc l w)) \<and> redis_down (snd (fixedWindow R key sc l w))"
proof -
  obtain now w1 where r: "date_now w = (now, w1)" by (metis prod.exhaust)
  have "redis_down w1" using assms down_frame(1) [of w] by (simp add: r)
  then obtain e w3 where
    "redis_call (\<lambda>t. FIXED_WINDOW R t (''rl:fw:'' @ key @ '':'' @ show_int (now div (sc * 1000))) l sc) w1 = (Inl e, w3)"
    "redis_down w3" by (rule redis_call_down)
  then show ?thesis by (simp add: fixedWindow_def r Let_def)
qed

lemma tokenBucket_down:
  assumes "redis_down w"
  shows "bk_allowed (fst (tokenBucket X R key cap rate n w)) \<and> redis_down (snd (tokenBucket X R key cap rate n w))"
proof -
  obtain now w1 where r: "date_now w = (now, w1)" by (metis prod.exhaust)
  have "redis_down w1" using assms down_frame(1) [of w] by (simp add: r)
  then obtain e w3 where "redis_call (\<lambda>t. TOKEN_BUCKET X R t (''rl:tb:'' @ key) cap rate n now) w1 = (Inl e, w3)"
    "redis_down w3" by (rule redis_call_down)
  then show ?thesis by (simp add: tokenBucket_def r Let_def)
qed

lemma window_block_down:
  assumes "snd (fst s) = None \<and> redis_down (snd s)"
  shows "snd (fst (window_block st R key p ms sc lmt lb s)) = None \<and>
    redis_down (snd (window_block st R key p ms sc lmt lb s))"
proof (cases lmt)
  case None
  with assms show ?thesis by (simp add: window_block_def split: prod.splits)
next
  case (Some l)
  obtain ws denied w where s: "s = ((ws, denied), w)" by (metis prod.exhaust)
  have "snd (fst (checkWindow st R key p ms sc l lb w)) \<and> redis_down (snd (checkWindow st R key p ms sc l lb w))"
    using assms slidingWindow_down [of w R "p @ '':'' @ key" ms l] fixedWindow_down [of w R "p @ '':'' @ key" sc l]
    by (simp add: checkWindow_def split_beta Let_def s)
  with assms show ?thesis by (simp add: window_block_def Some s split_beta Let_def)
qed

lemma fetch_plan_down: "redis_down w \<Longrightarrow> redis_down (snd (fetch_plan X A c a w))"
  using down_frame(3) [of X A "get_request (quota_url X A c a) []" w]
  by (auto simp: fetch_plan_def store_plan_def split_beta Let_def split: sum.splits prod.splits json.splits)

lemma lookup_plan_down:
  assumes "redis_down w"
  shows "redis_down (snd (lookup_plan X R A c a w))"
proof -
  obtain e w1 where "redis_read (\<lambda>t d. r_hgetall R t d (info_key c)) w = (Inl e, w1)" "redis_down w1"
    unfolding redis_read_def using assms by (rule redis_call_down)
  then show ?thesis by (simp add: lookup_plan_def fetch_plan_down)
qed

lemma effective_limits_down:
  assumes "redis_down w"
  shows "redis_down (snd (effective_limits X R A cfg c w))"
proof -
  have "redis_down (snd (resolvePlanLimits X R A (c_clientId c) (c_apiId c) w))"
    using assms by (auto simp: resolvePlanLimits_def lookup_plan_down split_beta Let_def split: option.splits)
  with assms show ?thesis by (auto simp: effective_limits_def Let_def split_beta split: option.splits prod.splits)
qed

text \<open>
  When Redis is out of reach every request passes the limiter: it fails open under every
  configuration.
\<close>

theorem rateLimit_fails_open:
  assumes "\<forall>n. io_fault w n \<noteq> None"
  shows "c_aborted (fst (snd (rateLimit X R A cfg c w))) = c_aborted c"
proof -
  have d: "redis_down (snd (effective_limits X R A cfg c w))"
    using assms by (intro effective_limits_down) (simp add: redis_down_def)
  have "c_aborted (fst (bucket_branch X R cfg rpm c w1)) = c_aborted c" if "redis_down w1" for rpm w1
    using tokenBucket_down [OF that] unfolding bucket_branch_def Let_def split_beta by simp
  moreover have "c_aborted (fst (window_branch st R key limits c w1)) = c_aborted c" if "redis_down w1" for st key limits w1
  proof -
    have "snd (fst (check_windows st R key limits w1)) = None \<and> redis_down (snd (check_windows st R key limits w1))"
      unfolding check_windows_def
      by (cases limits) (simp only: prod.case, intro window_block_down, simp add: that)
    then show ?thesis by (simp add: window_branch_def split_beta Let_def)
  qed
  ultimately show ?thesis using d by (simp add: rateLimit_def split_beta Let_def)
qed

theorem rateLimit_fails_open_witness:
  "c_aborted (fst (snd (rateLimit sample_ext mem_redis sample_config
     (sample_sliding_cfg @ [(''fail_open'', ''false'')]) sample_ctx (sample_io\<lparr>io_fault := \<lambda>_. Some NonError\<rparr>)))) = False"
  using rateLimit_fails_open [of "sample_io\<lparr>io_fault := \<lambda>_. Some NonError\<rparr>" sample_ext mem_redis sample_config
      "sample_sliding_cfg @ [(''fail_open'', ''false'')]" sample_ctx]
  by (simp add: sample_ctx_def createExecContext_def)

text \<open>The script execution that the per-minute limit of a request stands for.\<close>

definition minute_script ::
  "'d redis \<Rightarrow> string \<Rightarrow> int \<Rightarrow> 'd io \<Rightarrow> (int \<times> int \<times> int \<times> int \<times> int) \<times> 'd" where
  "minute_script R key limit w =
     SLIDING_WINDOW R (io_rtime w 0) (''rl:sw:'' @ (''rpm'' @ '':'' @ key)) 60000 limit (io_clock w 0)
       (show_int (io_clock w 1) @ ''-'' @ io_rand w 0) (io_others w 0 (io_data w))"

lemma slidingWindow_up:
  assumes "io_fault w 0 = None"
    and "SLIDING_WINDOW R (io_rtime w 0) (''rl:sw:'' @ key) ms l (io_clock w 0)
       (show_int (io_clock w 1) @ ''-'' @ io_rand w 0) (io_others w 0 (io_data w)) = ((cur, lm, wn, ok, old), d)"
  shows "sl_allowed (fst (slidingWindow R key ms l w)) = (ok = 1) \<and> io_data (snd (slidingWindow R key ms l w)) = d"
  using assms
  by (simp add: slidingWindow_def randomReqId_def date_now_def fresh_random_def redis_call_def Let_def)

lemma applyRateLimitHeaders_data [simp]: "io_data (snd (applyRateLimitHeaders h ws d w)) = io_data w"
  by (auto simp: applyRateLimitHeaders_def split_beta Let_def date_now_def split: list.splits option.splits)

text \<open>
  With a per-minute limit and the default strategy, a request is refused exactly if one
  atomic execution of the sliding-window script on its key refuses it, and the dataset is
  then what that execution left: the plugin adds no other decision and no other write.
\<close>

theorem rateLimit_sliding_decision:
  assumes "parseIntCfg (rget cfg ''rpm'') = Some n" and "parseIntCfg (rget cfg ''rph'') = None"
    and "parseIntCfg (rget cfg ''rpd'') = None" and "rget cfg ''use_plan_limits'' \<noteq> Some ''true''"
    and "orelse (rget cfg ''strategy'') ''sliding_window'' \<notin> {''fixed_window'', ''token_bucket''}"
    and "io_fault w 0 = None" and "\<not> c_aborted c"
    and "minute_script R (rate_key X cfg c) n w = ((current, lm, win, allowed, oldest), d)"
    and "rateLimit X R A cfg c w = (e, c', w')"
  shows "(c_aborted c' \<longleftrightarrow> allowed \<noteq> 1) \<and> io_data w' = d"
proof -
  define st where "st = orelse (rget cfg ''strategy'') ''sliding_window''"
  have l: "effective_limits X R A cfg c w = ((Some n, None, None), w)"
    using assms(1-4) by (simp add: effective_limits_def Let_def)
  define key where "key = rate_key X cfg c"
  have sl: "sl_allowed (fst (slidingWindow R (''rpm'' @ '':'' @ key) 60000 n w)) = (allowed = 1)"
    "io_data (snd (slidingWindow R (''rpm'' @ '':'' @ key) 60000 n w)) = d"
    using slidingWindow_up [OF assms(6) assms(8) [unfolded minute_script_def, folded key_def]] by blast+
  obtain wi ok w2 where k: "checkWindow st R key ''rpm'' 60000 60 n ''minute'' w = ((wi, ok), w2)"
    by (metis prod.exhaust)
  have v: "ok = (allowed = 1)" "io_data w2 = d"
    using k assms(5) sl by (auto simp: checkWindow_def st_def [symmetric] split_beta Let_def)
  have cw: "check_windows st R key (Some n, None, None) w = (([wi], if ok then None else Some wi), w2)"
    by (simp add: check_windows_def window_block_def k)
  obtain h w3 where h: "applyRateLimitHeaders (c_responseHeaders c) [wi] (if ok then None else Some wi) w2 = (h, w3)"
    by (metis prod.exhaust)
  then have "io_data w3 = d" using applyRateLimitHeaders_data v(2) by (metis snd_conv)
  moreover have "rateLimit X R A cfg c w =
      done_with (if ok then c\<lparr>c_responseHeaders := h\<rparr>
         else abort (c\<lparr>c_responseHeaders := h\<rparr>) 429 (buildDeniedMessage wi)) w3"
    using assms(5) h
    by (cases ok)
      (simp_all add: rateLimit_def l Let_def split_beta window_branch_def st_def [symmetric] key_def [symmetric] cw)
  ultimately show ?thesis using assms(7,9) v(1) by (cases ok) auto
qed

theorem rateLimit_sliding_decision_witness:
  "c_aborted (fst (snd (rateLimit sample_ext mem_redis sample_config sample_sliding_cfg sample_ctx sample_io))) = False"
proof -
  let ?r = "rateLimit sample_ext mem_redis sample_config sample_sliding_cfg sample_ctx sample_io"
  let ?m = "minute_script mem_redis (rate_key sample_ext sample_sliding_cfg sample_ctx) 1 sample_io"
  have p: "parseIntCfg (rget sample_sliding_cfg ''rpm'') = Some 1" by code_simp
  have q: "rget sample_sliding_cfg ''rph'' = None" "rget sample_sliding_cfg ''rpd'' = None"
      "rget sample_sliding_cfg ''use_plan_limits'' = None" "rget sample_sliding_cfg ''strategy'' = None"
      "parseIntCfg None = None"
    by (simp_all add: sample_sliding_cfg_def parseIntCfg_def)
  have s: "io_fault sample_io 0 = None" "\<not> c_aborted sample_ctx"
    by (simp_all add: sample_io_def sample_ctx_def createExecContext_def)
  have m: "fst (snd (snd (snd (fst ?m)))) = 1" by code_simp
  have "(c_aborted (fst (snd ?r)) \<longleftrightarrow> fst (snd (snd (snd (fst ?m)))) \<noteq> 1) \<and> io_data (snd (snd ?r)) = snd ?m"
    by (rule rateLimit_sliding_decision [where e = "fst ?r" and current = "fst (fst ?m)" and lm = "fst (snd (fst ?m))"
          and win = "fst (snd (snd (fst ?m)))" and oldest = "snd (snd (snd (snd (fst ?m))))", OF p])
      (simp_all add: q s)
  with m show ?thesis by simp
qed

text \<open>One client asks twice within a minute: the second answer is the remembered one.\<close>

definition sample_quota_world :: "mem io" where
  "sample_quota_world = sample_io\<lparr>io_data := (\<lambda>k. if k = ''apikey:info:c1''
     then Some (RHash [(''rpm_limit'', ''600''), (''plan_name'', ''gold'')], None) else None)\<rparr>"

theorem plan_limits_recent_witness:
  "let q = (''orders'', \<lambda>w. w); run = plans.trace sample_ext mem_redis sample_config ''c1'' [q, q] sample_quota_world
   in length run = 2 \<and>
      (case run ! 1 of (apiId, w, limits, w') \<Rightarrow>
        (\<exists>w1. limits = fst (lookup_plan sample_ext mem_redis sample_config ''c1'' apiId w1) \<and> io_plans w1 = io_plans w) \<or>
        (\<exists>j < 1. \<exists>v1 v2 u fetchedAt. run ! j = (apiId, v1, limits, v2) \<and>
           limits = fst (lookup_plan sample_ext mem_redis sample_config ''c1'' apiId u) \<and> io_plans u = io_plans v1 \<and>
           plan_entry ''c1'' v2 apiId = Some (limits, fetchedAt) \<and> io_clock w 0 - fetchedAt < 300000))"
proof -
  define q :: "string \<times> (mem io \<Rightarrow> mem io)" where "q = (''orders'', \<lambda>w. w)"
  define run where "run = plans.trace sample_ext mem_redis sample_config ''c1'' [q, q] sample_quota_world"
  have len: "length run = 2" by (simp add: run_def q_def split_beta Let_def)
  obtain a w limits w' where r: "run ! 1 = (a, w, limits, w')" by (metis prod.exhaust)
  have a: "a = ''orders''" using r by (simp add: run_def q_def split_beta Let_def)
  have "(\<exists>w1. limits = fst (lookup_plan sample_ext mem_redis sample_config ''c1'' a w1) \<and> io_plans w1 = io_plans w) \<or>
        (\<exists>j < 1. \<exists>v1 v2 u fetchedAt. run ! j = (a, v1, limits, v2) \<and>
           limits = fst (lookup_plan sample_ext mem_redis sample_config ''c1'' a u) \<and> io_plans u = io_plans v1 \<and>
           plan_entry ''c1'' v2 a = Some (limits, fetchedAt) \<and> io_clock w 0 - fetchedAt < 300000)"
    unfolding run_def
    by (rule plan_limits_recent [of sample_quota_world "[q, q]" 1 sample_ext mem_redis sample_config "''c1''" a w limits w'])
      (use len r a in \<open>simp_all add: run_def q_def sample_quota_world_def sample_io_def\<close>)
  with len r show ?thesis unfolding q_def [symmetric] Let_def run_def [symmetric] by simp
qed

end
