(* ===== verification/Cors.thy ===== *)
theory Cors
  imports ExecTypes
begin

text \<open>
  \<open>gateway/src/pipeline/plugins/cors.ts\<close>: the origin check, the headers of a permitted
  cross-origin request and the answer to a preflight.
\<close>

definition parseCSV :: "string \<Rightarrow> string list" where
  "parseCSV s = split_trim (CHR '','') s"

fun originMatches :: "string \<Rightarrow> string list \<Rightarrow> bool" where
  "originMatches origin [] = False"
| "originMatches origin (a # allowed) =
     (if a = ''*'' \<or> js_lower a = js_lower origin then True
      else if starts_with a ''*.'' \<and> ends_with (js_lower origin) (js_lower (drop 1 a)) then True
      else originMatches origin allowed)"

definition allowed_origins :: "dict \<Rightarrow> string list" where
  "allowed_origins cfg = parseCSV (orelse (rget cfg ''allowed_origins'') ''*'')"

definition request_origin :: "ctx \<Rightarrow> string option" where
  "request_origin c = orelse_opt (rget (c_requestHeaders c) ''origin'') (rget (c_requestHeaders c) ''Origin'')"

text \<open>The headers of every permitted request, and those a preflight gets in addition.\<close>

definition cors_headers :: "dict \<Rightarrow> string \<Rightarrow> ctx \<Rightarrow> ctx" where
  "cors_headers cfg origin c =
     (let exposedHeaders = rget cfg ''exposed_headers'';
          allowCreds = (rget cfg ''allow_credentials'' = Some ''true'');
          c1 = set_response_header ''vary'' ''Origin''
                 (set_response_header ''access-control-allow-origin'' origin c);
          c2 = (if allowCreds then set_response_header ''access-control-allow-credentials'' ''true'' c1 else c1)
      in if truthy exposedHeaders
         then set_response_header ''access-control-expose-headers'' (str_of exposedHeaders) c2 else c2)"

definition preflight :: "dict \<Rightarrow> ctx \<Rightarrow> ctx" where
  "preflight cfg c =
     (let allowedMethods = parseCSV (orelse (rget cfg ''allowed_methods'') ''GET,POST,PUT,DELETE,OPTIONS'');
          allowedHeaders = parseCSV (orelse (rget cfg ''allowed_headers'') ''Content-Type,Authorization'');
          maxAge = orelse (rget cfg ''max_age'') ''3600''
      in abort (set_response_header ''access-control-max-age'' maxAge
           (set_response_header ''access-control-allow-headers'' (join_with '', '' allowedHeaders)
           (set_response_header ''access-control-allow-methods'' (join_with '', '' allowedMethods) c))) 204 [])"

definition cors_ctx :: "dict \<Rightarrow> ctx \<Rightarrow> ctx" where
  "cors_ctx cfg c =
     (if \<not> truthy (request_origin c) then c
      else (let origin = str_of (request_origin c)
            in if \<not> originMatches origin (allowed_origins cfg)
               then abort c 403 ''CORS: origin not allowed''
               else (let c1 = cors_headers cfg origin c
                     in if js_upper (c_method c1) = ''OPTIONS'' then preflight cfg c1 else c1)))"

definition cors :: "'d plugin" where
  "cors X R A cfg c w = done_with (cors_ctx cfg c) w"

section \<open>Which origins pass\<close>

text \<open>What an entry of the list admits: everything, itself up to case, or a subdomain.\<close>

definition admits :: "string \<Rightarrow> string \<Rightarrow> bool" where
  "admits a origin =
     (a = ''*'' \<or> js_lower a = js_lower origin \<or>
      (\<exists>suf. a = ''*.'' @ suf \<and> suffix (js_lower (''.'' @ suf)) (js_lower origin)))"

lemma admits_code:
  "admits a origin \<longleftrightarrow> a = ''*'' \<or> js_lower a = js_lower origin \<or>
     starts_with a ''*.'' \<and> ends_with (js_lower origin) (js_lower (drop 1 a))"
proof -
  have "(\<exists>suf. a = ''*.'' @ suf \<and> suffix (js_lower (''.'' @ suf)) (js_lower origin)) \<longleftrightarrow>
      starts_with a ''*.'' \<and> ends_with (js_lower origin) (js_lower (drop 1 a))"
    by (auto simp: starts_with_prefix ends_with_suffix prefix_def)
  then show ?thesis by (simp add: admits_def)
qed

lemma originMatches_admits: "originMatches origin allowed \<longleftrightarrow> (\<exists>a \<in> set allowed. admits a origin)"
  by (induction allowed) (auto simp: admits_code)

lemma set_response_header_more [simp]:
  "c_method (set_response_header k v c) = c_method c"
  "c_abortMessage (set_response_header k v c) = c_abortMessage c"
  by (simp_all add: set_response_header_def)

lemma cors_headers_effect [simp]:
  "c_method (cors_headers cfg origin c) = c_method c"
  "c_requestHeaders (cors_headers cfg origin c) = c_requestHeaders c"
  "c_aborted (cors_headers cfg origin c) = c_aborted c"
  "rget (c_responseHeaders (cors_headers cfg origin c)) ''access-control-allow-origin'' = Some origin"
  by (simp_all add: cors_headers_def Let_def)

lemma preflight_effect [simp]:
  "c_requestHeaders (preflight cfg c) = c_requestHeaders c"
  "c_aborted (preflight cfg c)" "c_abortCode (preflight cfg c) = 204"
  "rget (c_responseHeaders (preflight cfg c)) ''access-control-allow-origin'' =
     rget (c_responseHeaders c) ''access-control-allow-origin''"
  by (simp_all add: preflight_def Let_def)

text \<open>
  A request with an origin is refused with 403 exactly if no entry of the configured list
  admits it; otherwise the answer names that origin as the only one allowed, and it is
  stopped with 204 exactly if it is a preflight.
\<close>

theorem cors_decision:
  assumes "request_origin c = Some origin" and "origin \<noteq> []" and "\<not> c_aborted c"
    and "c' = fst (snd (cors X R A cfg c w))"
  shows "c_requestHeaders c' = c_requestHeaders c \<and>
    (if \<exists>a \<in> set (allowed_origins cfg). admits a origin
     then rget (c_responseHeaders c') ''access-control-allow-origin'' = Some origin \<and>
          (c_aborted c' \<longleftrightarrow> js_upper (c_method c) = ''OPTIONS'') \<and>
          (c_aborted c' \<longrightarrow> c_abortCode c' = 204)
     else c_aborted c' \<and> c_abortCode c' = 403 \<and> c_responseHeaders c' = c_responseHeaders c)"
  using assms by (auto simp: originMatches_admits [symmetric] cors_def cors_ctx_def Let_def)

definition sample_cors_ctx :: "string \<Rightarrow> ctx" where
  "sample_cors_ctx mth =
     createExecContext ''orders'' ''t'' mth ''/orders'' ''api.test'' ''10.1.2.3''
       [(''origin'', ''https://shop.Example.com'')] [] None 0"

theorem cors_decision_witness:
  "c_abortCode (cors_ctx [(''allowed_origins'', ''https://a.test, *.example.com'')] (sample_cors_ctx ''options'')) = 204 \<and>
   c_abortCode (cors_ctx [(''allowed_origins'', ''https://a.test'')] (sample_cors_ctx ''GET'')) = 403"
proof -
  have o: "request_origin (sample_cors_ctx m) = Some ''https://shop.Example.com''" "\<not> c_aborted (sample_cors_ctx m)"
      "c_method (sample_cors_ctx m) = m" for m
    by (simp_all add: sample_cors_ctx_def request_origin_def createExecContext_def)
  have y: "originMatches ''https://shop.Example.com'' (allowed_origins [(''allowed_origins'', ''https://a.test, *.example.com'')])"
    by code_simp
  have n: "\<not> originMatches ''https://shop.Example.com'' (allowed_origins [(''allowed_origins'', ''https://a.test'')])"
    by code_simp
  have u: "js_upper ''options'' = ''OPTIONS''" by code_simp
  have d: "fst (snd (cors sample_ext mem_redis sample_config cfg c sample_io)) = cors_ctx cfg c" for cfg c
    by (simp add: cors_def)
  have "c_abortCode (cors_ctx [(''allowed_origins'', ''https://a.test, *.example.com'')] (sample_cors_ctx ''options'')) = 204"
    using cors_decision [OF o(1) _ o(2) d [symmetric], of "[(''allowed_origins'', ''https://a.test, *.example.com'')]" "''options''"]
      y u o(3) by (simp add: originMatches_admits)
  moreover have "c_abortCode (cors_ctx [(''allowed_origins'', ''https://a.test'')] (sample_cors_ctx ''GET'')) = 403"
    using cors_decision [OF o(1) _ o(2) d [symmetric], of "[(''allowed_origins'', ''https://a.test'')]" "''GET''"]
      n by (simp add: originMatches_admits)
  ultimately show ?thesis ..
qed

end
