(* ===== verification/Ipv4.thy ===== *)
theory Ipv4
  imports JsNumber
begin

text \<open>
  IPv4 addresses as the two guards of the gateway read them: octets parsed with
  \<open>Number\<close>, dotted quads, and the reference notion of an address block, a common prefix
  of the 32-bit addresses.
\<close>

text \<open>The test both sources make on a part: a number from 0 to 255.\<close>

definition in_octet :: "jsnum \<Rightarrow> bool" where
  "in_octet v = (case v of Fin r \<Rightarrow> 0 \<le> r \<and> r \<le> 255 | _ \<Rightarrow> False)"

text \<open>The reference reading of a prefix: the first \<open>n\<close> bits agree.\<close>

definition same_prefix :: "nat \<Rightarrow> 32 word \<Rightarrow> 32 word \<Rightarrow> bool" where
  "same_prefix n a b = (drop_bit (32 - n) a = drop_bit (32 - n) b)"

lemma and_not_mask: "x AND NOT (2 ^ k - 1) = push_bit k (drop_bit k (x :: 32 word))"
proof -
  have "x AND NOT (mask k) = push_bit k (drop_bit k x)"
    by (rule bit_eqI) (auto simp: bit_simps dest: bit_imp_le_length)
  then show ?thesis by (simp add: mask_eq_exp_minus_1)
qed

lemma drop_push_drop: "drop_bit k (push_bit k (drop_bit k x)) = drop_bit k (x :: 32 word)"
  by (rule bit_eqI) (auto simp: bit_simps dest: bit_imp_le_length)

lemma masked_eq_iff:
  fixes a b :: "32 word"
  shows "a AND NOT (2 ^ k - 1) = b AND NOT (2 ^ k - 1) \<longleftrightarrow> drop_bit k a = drop_bit k b"
  unfolding and_not_mask by (metis drop_push_drop)

section \<open>Dotted quads\<close>

definition quad :: "nat \<Rightarrow> nat \<Rightarrow> nat \<Rightarrow> nat \<Rightarrow> 32 word" where
  "quad a b c d = of_nat (a * 2 ^ 24 + b * 2 ^ 16 + c * 2 ^ 8 + d)"

definition dotted :: "nat \<Rightarrow> nat \<Rightarrow> nat \<Rightarrow> nat \<Rightarrow> string" where
  "dotted a b c d = join_with ''.'' (map show_nat [a, b, c, d])"

definition is_quad :: "nat \<Rightarrow> nat \<Rightarrow> nat \<Rightarrow> nat \<Rightarrow> bool" where
  "is_quad a b c d = (a < 256 \<and> b < 256 \<and> c < 256 \<and> d < 256)"

lemma split_dotted: "split_on (CHR ''.'') (dotted a b c d) = map show_nat [a, b, c, d]"
  unfolding dotted_def by (rule split_join_with) (auto dest: show_nat_digits digit_not_dot)

lemma in_octet_of_nat [simp]: "in_octet (Fin (of_nat n)) \<longleftrightarrow> n < 256"
proof -
  have "in_octet (Fin (of_nat n)) \<longleftrightarrow> (of_nat n :: rat) \<le> of_nat 255"
    by (simp add: in_octet_def)
  then show ?thesis unfolding of_nat_le_iff by auto
qed

lemma unat_quad:
  "is_quad a b c d \<Longrightarrow> unat (quad a b c d) = a * 2 ^ 24 + b * 2 ^ 16 + c * 2 ^ 8 + d"
  unfolding quad_def unat_of_nat by (rule mod_less) (simp add: is_quad_def)

lemma same_prefix_unat:
  "same_prefix n a b \<longleftrightarrow> unat a div 2 ^ (32 - n) = unat b div 2 ^ (32 - n)"
  unfolding same_prefix_def word_unat_eq_iff unat_drop_bit_eq drop_bit_eq_div [where 'a = nat] ..

text \<open>The leading bits of a quad, when they end inside the first or second octet.\<close>

lemma div_add_small: "r < k \<Longrightarrow> (x * k + r) div k = (x :: nat)"
  by simp

lemma digits_unique: "b < k \<Longrightarrow> y < k \<Longrightarrow> a * k + b = x * k + y \<longleftrightarrow> a = x \<and> b = (y :: nat)"
  by (metis add_left_cancel div_add_small)

lemma quad_div_24:
  assumes "is_quad a b c d" shows "unat (quad a b c d) div 16777216 = a"
proof -
  have "unat (quad a b c d) = a * 16777216 + (b * 65536 + c * 256 + d)"
    using unat_quad [OF assms] by simp
  moreover have "b * 65536 + c * 256 + d < 16777216"
    using assms by (simp add: is_quad_def)
  ultimately show ?thesis by (simp only: div_add_small)
qed

lemma quad_div_16:
  assumes "is_quad a b c d" shows "unat (quad a b c d) div 65536 = a * 256 + b"
proof -
  have "unat (quad a b c d) = (a * 256 + b) * 65536 + (c * 256 + d)"
    using unat_quad [OF assms] by simp
  moreover have "c * 256 + d < 65536"
    using assms by (simp add: is_quad_def)
  ultimately show ?thesis by (simp only: div_add_small)
qed

lemma quad_div_20:
  assumes "is_quad a b c d" shows "unat (quad a b c d) div 1048576 = a * 16 + b div 16"
proof -
  have "unat (quad a b c d) div (65536 * 16) = (a * 16 * 16 + b) div 16"
    using quad_div_16 [OF assms] by (simp only: div_mult2_eq)
  then show ?thesis by simp
qed

lemma quad_div_22:
  assumes "is_quad a b c d" shows "unat (quad a b c d) div 4194304 = a * 4 + b div 64"
proof -
  have "unat (quad a b c d) div (65536 * 64) = (a * 4 * 64 + b) div 64"
    using quad_div_16 [OF assms] by (simp only: div_mult2_eq)
  then show ?thesis by simp
qed

lemma same_prefix_quad_8:
  "is_quad a b c d \<Longrightarrow> is_quad x 0 0 0 \<Longrightarrow> same_prefix 8 (quad a b c d) (quad x 0 0 0) \<longleftrightarrow> a = x"
  by (simp add: same_prefix_unat quad_div_24)

lemma same_prefix_quad_16:
  "is_quad a b c d \<Longrightarrow> is_quad x y 0 0 \<Longrightarrow>
   same_prefix 16 (quad a b c d) (quad x y 0 0) \<longleftrightarrow> a = x \<and> b = y"
  by (simp add: same_prefix_unat quad_div_16 digits_unique is_quad_def)

lemma same_prefix_quad_12:
  assumes "is_quad a b c d" "is_quad x (16 * y) 0 0"
  shows "same_prefix 12 (quad a b c d) (quad x (16 * y) 0 0)
    \<longleftrightarrow> a = x \<and> 16 * y \<le> b \<and> b \<le> 16 * y + 15"
proof -
  have "b < 256" "y < 16" using assms by (simp_all add: is_quad_def)
  then have "b div 16 < 16" "y < 16" by arith+
  then have "a * 16 + b div 16 = x * 16 + y \<longleftrightarrow> a = x \<and> b div 16 = y"
    by (rule digits_unique)
  moreover have "b div 16 = y \<longleftrightarrow> 16 * y \<le> b \<and> b \<le> 16 * y + 15" by arith
  ultimately show ?thesis
    using assms by (simp add: same_prefix_unat quad_div_20)
qed

lemma same_prefix_quad_10:
  assumes "is_quad a b c d" "is_quad x (64 * y) 0 0"
  shows "same_prefix 10 (quad a b c d) (quad x (64 * y) 0 0)
    \<longleftrightarrow> a = x \<and> 64 * y \<le> b \<and> b \<le> 64 * y + 63"
proof -
  have "b < 256" "y < 4" using assms by (simp_all add: is_quad_def)
  then have "b div 64 < 4" "y < 4" by arith+
  then have "a * 4 + b div 64 = x * 4 + y \<longleftrightarrow> a = x \<and> b div 64 = y"
    by (rule digits_unique)
  moreover have "b div 64 = y \<longleftrightarrow> 64 * y \<le> b \<and> b \<le> 64 * y + 63" by arith
  ultimately show ?thesis
    using assms by (simp add: same_prefix_unat quad_div_22)
qed

end
