(* ===== verification/IpWhitelist.thy ===== *)
theory IpWhitelist
  imports ExecTypes Ipv4
begin

text \<open>
  \<open>gateway/src/pipeline/plugins/ip-whitelist.ts\<close>: the IPv4 list plugin. The mask is
  computed with the 32-bit operators of JavaScript exactly as the source writes it, so the
  theory also shows what they do for prefix lengths outside 1 to 32.
\<close>

section \<open>The code\<close>

text \<open>The four octets are joined with shifts and ORs, so a fraction is truncated first.\<close>

definition ipToInt :: "string \<Rightarrow> 32 word option" where
  "ipToInt ip =
     (let parts = split_on (CHR ''.'') ip
      in if length parts \<noteq> 4 then None
         else (let nums = map js_Number parts
               in if \<not> list_all in_octet nums then None
                  else (case map to_bits nums of
                          [a, b, c, d] \<Rightarrow>
                            Some (js_shl a 24 OR js_shl b 16 OR js_shl c 8 OR d)
                        | _ \<Rightarrow> None)))"

text \<open>
  \<open>~((1 << (32 - bits)) - 1) >>> 0\<close>: the subtraction from 32 is done in numbers, its
  result becomes the shift count; the subtraction of 1 is exact and then taken to 32 bits.
\<close>

definition cidr_mask :: "jsnum \<Rightarrow> 32 word" where
  "cidr_mask bits =
     (let count = (case bits of Fin r \<Rightarrow> Fin (32 - r) | Inf s \<Rightarrow> Inf (\<not> s) | NaN \<Rightarrow> NaN)
      in NOT (js_shl 1 (to_bits count) - 1))"

definition parse_int_num :: "string \<Rightarrow> jsnum" where
  "parse_int_num s = (case parse_int s of None \<Rightarrow> NaN | Some i \<Rightarrow> Fin (of_int i))"

definition cidrContains :: "string \<Rightarrow> string \<Rightarrow> bool" where
  "cidrContains cidr ip =
     (case split_on (CHR ''/'') cidr of
        rng # bits # _ \<Rightarrow>
          (let mask = cidr_mask (parse_int_num bits)
           in case (ipToInt ip, ipToInt rng) of
                (Some ipInt, Some rangeInt) \<Rightarrow> ipInt AND mask = rangeInt AND mask
              | _ \<Rightarrow> False)
      | _ \<Rightarrow> False)"

definition ipMatches :: "string \<Rightarrow> string \<Rightarrow> bool" where
  "ipMatches clientIp entry =
     (if CHR ''/'' \<in> set entry then cidrContains entry clientIp else entry = clientIp)"

definition whitelist_client_ip :: "ctx \<Rightarrow> string" where
  "whitelist_client_ip c =
     (let ip = orelse (rget (c_requestHeaders c) ''x-forwarded-for'')
                 (orelse (rget (c_requestHeaders c) ''x-real-ip'') (c_remoteIp c))
      in case index_of (CHR '','') ip of None \<Rightarrow> ip | Some n \<Rightarrow> js_trim (take n ip))"

definition ipWhitelist_ctx :: "dict \<Rightarrow> ctx \<Rightarrow> ctx" where
  "ipWhitelist_ctx cfg c =
     (let mode = orelse (rget cfg ''mode'') ''whitelist'';
          ipList = split_trim (CHR '','') (orelse (rget cfg ''ips'') []);
          clientIp = whitelist_client_ip c
      in if clientIp = [] then abort c 400 ''invalid client IP address''
         else (let matched = list_ex (ipMatches clientIp) ipList
               in if mode = ''whitelist'' \<and> \<not> matched
                  then abort c 403 ''access denied: IP not in whitelist''
                  else if mode = ''blacklist'' \<and> matched
                  then abort c 403 ''access denied: IP is blacklisted''
                  else c))"

definition ipWhitelist :: "'d plugin" where
  "ipWhitelist X R A cfg c w = done_with (ipWhitelist_ctx cfg c) w"

section \<open>The mask\<close>

lemma unat_to_bits_int: "0 \<le> i \<Longrightarrow> unat (to_bits (Fin (of_int i))) = nat i mod 2 ^ 32"
  by (simp add: to_bits_def unat_eq_nat_uint uint_word_of_int nat_mod_distrib take_bit_eq_mod)

lemma cidr_mask_int:
  assumes "n \<le> 32"
  shows "cidr_mask (Fin (of_int n)) = NOT (2 ^ (nat (32 - n) mod 2 ^ 32 mod 32) - 1)"
proof -
  have "(32 :: rat) - of_int n = of_int (32 - n)" by simp
  moreover have "unat (to_bits (Fin (of_int (32 - n)))) = nat (32 - n) mod 2 ^ 32"
    using assms by (intro unat_to_bits_int) simp
  ultimately show ?thesis
    unfolding cidr_mask_def js_shl_def Let_def jsnum.case by (simp only: push_bit_of_1)
qed

lemma cidr_mask_prefix:
  assumes "1 \<le> n" "n \<le> 32"
  shows "a AND cidr_mask (Fin (of_int n)) = b AND cidr_mask (Fin (of_int n))
    \<longleftrightarrow> same_prefix (nat n) a b"
proof -
  have "nat (32 - n) mod 2 ^ 32 mod 32 = 32 - nat n"
    using assms by (simp add: nat_diff_distrib)
  with assms show ?thesis
    unfolding same_prefix_def by (simp only: cidr_mask_int masked_eq_iff)
qed

lemma cidr_mask_0: "cidr_mask (Fin 0) = - 1"
  by code_simp

section \<open>Properties\<close>

lemma no_slash_in_digits: "CHR ''/'' \<notin> set (show_nat n)"
  by (auto dest: show_nat_digits simp: is_digit_def)

lemma cidrContains_split:
  assumes "CHR ''/'' \<notin> set rng"
  shows "cidrContains (rng @ ''/'' @ show_nat n) ip =
    (case (ipToInt ip, ipToInt rng) of
       (Some a, Some r) \<Rightarrow> a AND cidr_mask (Fin (of_int (int n))) = r AND cidr_mask (Fin (of_int (int n)))
     | _ \<Rightarrow> False)"
proof -
  have "split_on (CHR ''/'') (rng @ ''/'' @ show_nat n) = [rng, show_nat n]"
    using assms by (simp add: split_on_append_sep split_on_absent no_slash_in_digits)
  then show ?thesis
    by (auto simp: cidrContains_def parse_int_num_def Let_def split: option.split)
qed

lemma shl_of_nat: "unat j < 32 \<Longrightarrow> js_shl (of_nat n) j = of_nat (push_bit (unat j) n)"
  by (simp add: js_shl_def of_nat_push_bit)

lemma or_low: "r < 2 ^ k \<Longrightarrow> push_bit k x OR r = push_bit k x + (r :: nat)"
proof -
  assume "r < 2 ^ k"
  then have r: "take_bit k r = r" by (simp add: take_bit_nat_eq_self_iff)
  have "push_bit k x AND take_bit k r = 0"
    by (rule bit_eqI) (auto simp: bit_simps)
  then show ?thesis unfolding r by (simp only: disjunctive_add_eq_or)
qed

lemma or_quad:
  assumes "is_quad a b c d"
  shows "push_bit 24 a OR push_bit 16 b OR push_bit 8 c OR d
    = a * 2 ^ 24 + b * 2 ^ 16 + c * 2 ^ 8 + (d :: nat)"
proof -
  have q: "b < 256" "c < 256" "d < 256" using assms by (simp_all add: is_quad_def)
  have "push_bit 8 c OR d = c * 2 ^ 8 + d"
    using or_low [of d 8 c] q by (simp add: push_bit_eq_mult)
  moreover have "push_bit 16 b OR (c * 2 ^ 8 + d) = b * 2 ^ 16 + (c * 2 ^ 8 + d)"
    using or_low [of "c * 2 ^ 8 + d" 16 b] q by (simp add: push_bit_eq_mult)
  moreover have "push_bit 24 a OR (b * 2 ^ 16 + (c * 2 ^ 8 + d)) = a * 2 ^ 24 + (b * 2 ^ 16 + (c * 2 ^ 8 + d))"
    using or_low [of "b * 2 ^ 16 + (c * 2 ^ 8 + d)" 24 a] q by (simp add: push_bit_eq_mult)
  ultimately show ?thesis by (simp only: add.assoc)
qed

lemma ipToInt_quad:
  assumes "is_quad a b c d"
  shows "ipToInt (dotted a b c d) = Some (quad a b c d)"
proof -
  have "ipToInt (dotted a b c d) =
      Some (of_nat (push_bit 24 a) OR of_nat (push_bit 16 b) OR of_nat (push_bit 8 c) OR of_nat d)"
    using assms by (simp add: ipToInt_def split_dotted is_quad_def shl_of_nat)
  also have "\<dots> = Some (of_nat (push_bit 24 a OR push_bit 16 b OR push_bit 8 c OR d))"
    by (simp only: of_nat_or_eq)
  also have "\<dots> = Some (quad a b c d)"
    unfolding or_quad [OF assms] quad_def ..
  finally show ?thesis .
qed

lemma no_slash_in_dotted: "CHR ''/'' \<notin> set (dotted a b c d)"
  by (simp add: dotted_def no_slash_in_digits)

text \<open>
  A CIDR entry whose base address is a dotted quad and whose prefix length is between 1 and
  32 contains exactly the dotted quads that agree with the base in that many leading bits:
  the mask built from shifts, a subtraction and a complement is the network mask.
\<close>

theorem cidrContains_prefix:
  assumes "is_quad a b c d" "is_quad p q r s" "1 \<le> n" "n \<le> 32"
  shows "cidrContains (dotted a b c d @ ''/'' @ show_nat n) (dotted p q r s)
    \<longleftrightarrow> same_prefix n (quad p q r s) (quad a b c d)"
  using assms cidr_mask_prefix [of "int n"]
  by (simp only: cidrContains_split [OF no_slash_in_dotted] ipToInt_quad option.case prod.case) simp

theorem cidrContains_prefix_witness:
  "cidrContains (dotted 10 1 0 0 @ ''/'' @ show_nat 16) (dotted 10 1 200 7)
   \<and> \<not> cidrContains (dotted 10 1 0 0 @ ''/'' @ show_nat 16) (dotted 10 2 200 7)"
  using cidrContains_prefix [of 10 1 0 0 10 1 200 7 16] cidrContains_prefix [of 10 1 0 0 10 2 200 7 16]
  by (simp add: is_quad_def same_prefix_quad_16)

text \<open>
  With the prefix length 0, which names every address, an entry contains its own base
  address only: \<open>1 << 32\<close> is \<open>1 << 0\<close> in JavaScript, so the mask is all ones.
\<close>

theorem cidrContains_zero_prefix:
  assumes "is_quad a b c d" "is_quad p q r s"
  shows "cidrContains (dotted a b c d @ ''/'' @ show_nat 0) (dotted p q r s)
    \<longleftrightarrow> quad p q r s = quad a b c d"
  using assms cidr_mask_0
  by (simp only: cidrContains_split [OF no_slash_in_dotted] ipToInt_quad option.case prod.case) simp

theorem cidrContains_zero_prefix_witness:
  "\<not> cidrContains (dotted 0 0 0 0 @ ''/'' @ show_nat 0) (dotted 8 8 8 8)"
proof -
  have "quad 8 8 8 8 \<noteq> quad 0 0 0 0" by (simp add: quad_def)
  then show ?thesis
    using cidrContains_zero_prefix [of 0 0 0 0 8 8 8 8] by (simp add: is_quad_def)
qed

end
