(* ===== verification/TransformText.thy ===== *)
theory TransformText
  imports Fetch
begin

text \<open>
  \<open>variables.ts\<close>, \<open>headers.ts\<close> and \<open>query.ts\<close> of \<open>gateway/src/pipeline/plugins/transform\<close>:
  templates with placeholders, and the operations on headers and query parameters. A
  placeholder may read the clock or draw a random identifier, so the outside world is threaded
  through; an operation that the configuration wrote with a value of the wrong type throws.
\<close>

section \<open>Templates\<close>

definition ENV_ALLOW_LIST :: "string list" where
  "ENV_ALLOW_LIST = [''ENVIRONMENT'', ''SERVICE_NAME'', ''REGION'', ''VERSION'']"

definition ctx_field :: "ctx \<Rightarrow> string \<Rightarrow> string" where
  "ctx_field c field =
     (if field = ''clientId'' then c_clientId c else if field = ''userId'' then c_userId c
      else if field = ''plan'' then c_plan c else if field = ''apiId'' then c_apiId c
      else if field = ''subscriptionId'' then c_subscriptionId c
      else if field = ''orgId'' then c_orgId c else [])"

definition resolveExpr :: "config \<Rightarrow> ctx \<Rightarrow> string \<Rightarrow> 'd io \<Rightarrow> string \<times> 'd io" where
  "resolveExpr A c expr w =
     (if expr = ''now'' then (let (t, w1) = date_now w in (show_int (t div 1000), w1))
      else if expr = ''uuid'' then fresh_random w
      else if starts_with expr ''ctx.'' then (ctx_field c (drop 4 expr), w)
      else if starts_with expr ''request.header.''
      then (orelse (rget (c_requestHeaders c) (js_lower (drop 15 expr))) [], w)
      else if starts_with expr ''request.query.''
      then (orelse (rget (c_queryParams c) (drop 14 expr)) [], w)
      else if starts_with expr ''env.''
      then (let name = js_upper (drop 4 expr)
            in (if name \<in> set ENV_ALLOW_LIST then orelse (rget (cfg_env A) name) [] else [], w))
      else ([], w))"

text \<open>A match of the regular expression at the front of the text: the expression and the rest.\<close>

definition placeholder :: "string \<Rightarrow> (string \<times> string) option" where
  "placeholder s =
     (let body = takeWhile (\<lambda>x. x \<noteq> CHR ''}'') (drop 2 s); rest = dropWhile (\<lambda>x. x \<noteq> CHR ''}'') (drop 2 s)
      in if starts_with s ''${'' \<and> body \<noteq> [] \<and> rest \<noteq> [] then Some (body, tl rest) else None)"

lemma placeholder_shorter:
  assumes "placeholder s = Some (body, rest)"
  shows "length rest < length s"
proof -
  have "length (dropWhile (\<lambda>x. x \<noteq> CHR ''}'') (drop 2 s)) \<le> length s"
    by (rule order.trans [OF length_dropWhile_le]) simp
  with assms show ?thesis
    by (cases "dropWhile (\<lambda>x. x \<noteq> CHR ''}'') (drop 2 s)") (auto simp: placeholder_def Let_def split: if_splits)
qed

function resolveTemplate :: "config \<Rightarrow> ctx \<Rightarrow> string \<Rightarrow> 'd io \<Rightarrow> string \<times> 'd io" where
  "resolveTemplate A c [] w = ([], w)"
| "resolveTemplate A c (x # s) w =
     (case placeholder (x # s) of
        None \<Rightarrow> (let (r, w1) = resolveTemplate A c s w in (x # r, w1))
      | Some (expr, rest) \<Rightarrow>
          (let (v, w1) = resolveExpr A c (js_trim expr) w; (r, w2) = resolveTemplate A c rest w1
           in (v @ r, w2)))"
  by pat_completeness auto
termination
  by (relation "measure (\<lambda>(A, c, s, w). length s)") (auto dest: placeholder_shorter)

section \<open>Header operations\<close>

definition type_error :: exn where
  "type_error = JsError ''TypeError'' []"

text \<open>The flag says which of the two header objects of the context is meant.\<close>

definition headers_of :: "bool \<Rightarrow> ctx \<Rightarrow> dict" where
  "headers_of req c = (if req then c_requestHeaders c else c_responseHeaders c)"

definition with_headers :: "bool \<Rightarrow> dict \<Rightarrow> ctx \<Rightarrow> ctx" where
  "with_headers req h c = (if req then c\<lparr>c_requestHeaders := h\<rparr> else c\<lparr>c_responseHeaders := h\<rparr>)"

fun js_falsy :: "json option \<Rightarrow> bool" where
  "js_falsy None = True"
| "js_falsy (Some JNull) = True"
| "js_falsy (Some (JBool b)) = (\<not> b)"
| "js_falsy (Some (JNum r)) = (r = 0)"
| "js_falsy (Some (JStr s)) = (s = [])"
| "js_falsy _ = False"

fun op_fields :: "json \<Rightarrow> exn + jobj" where
  "op_fields JNull = Inl type_error"
| "op_fields (JObj obj) = Inr obj"
| "op_fields _ = Inr []"

text \<open>The switch over \<open>op.op\<close> with the lower-case name and the resolved value.\<close>

definition header_op :: "jobj \<Rightarrow> string \<Rightarrow> string \<Rightarrow> dict \<Rightarrow> exn + dict" where
  "header_op obj name value h =
     (let moved = (\<lambda>after. if js_falsy (rget obj ''target'') then Inr h
            else case rget h name of
                   None \<Rightarrow> Inr h
                 | Some v \<Rightarrow> (case rget obj ''target'' of
                                Some (JStr t) \<Rightarrow> Inr (after (rset (js_lower t) v h))
                              | _ \<Rightarrow> Inl type_error))
      in case rget obj ''op'' of
           Some (JStr oper) \<Rightarrow>
             (if oper = ''set'' then Inr (rset name value h)
              else if oper = ''add''
              then Inr (rset name (if truthy (rget h name) then str_of (rget h name) @ '', '' @ value else value) h)
              else if oper = ''remove'' then Inr (rdel name h)
              else if oper = ''rename'' then moved (rdel name)
              else if oper = ''copy'' then moved id
              else Inr h)
         | _ \<Rightarrow> Inr h)"

fun applyOps :: "bool \<Rightarrow> config \<Rightarrow> json list \<Rightarrow> ctx \<Rightarrow> 'd io \<Rightarrow> exn option \<times> ctx \<times> 'd io" where
  "applyOps req A [] c w = (None, c, w)"
| "applyOps req A (oper # ops) c w =
     (case op_fields oper of
        Inl e \<Rightarrow> (Some e, c, w)
      | Inr obj \<Rightarrow>
          (case rget obj ''name'' of
             Some (JStr name) \<Rightarrow>
               (case (case jget obj ''value'' of
                        None \<Rightarrow> Inr ([], w)
                      | Some (JStr t) \<Rightarrow> Inr (resolveTemplate A c t w)
                      | Some _ \<Rightarrow> Inl type_error) of
                  Inl e \<Rightarrow> (Some e, c, w)
                | Inr (value, w1) \<Rightarrow>
                    (case header_op obj (js_lower name) value (headers_of req c) of
                       Inl e \<Rightarrow> (Some e, c, w1)
                     | Inr h \<Rightarrow> applyOps req A ops (with_headers req h c) w1))
           | _ \<Rightarrow> (Some type_error, c, w)))"

text \<open>The format \<open>set:X-Foo:bar;remove:X-Internal\<close> for a text that is not a JSON array.\<close>

definition simple_op :: "string \<Rightarrow> json list" where
  "simple_op part =
     (case split_on (CHR '':'') (js_trim part) of
        oper # name # rest \<Rightarrow>
          (if oper = [] \<or> name = [] then []
           else [JObj ([(''op'', JStr oper), (''name'', JStr name)] @
                   (if join_with '':'' rest = [] then [] else [(''value'', JStr (join_with '':'' rest))]))])
      | _ \<Rightarrow> [])"

definition parseOps :: "ext \<Rightarrow> string \<Rightarrow> json list" where
  "parseOps X raw =
     (case x_json_parse X raw of
        Some (JArr ops) \<Rightarrow> ops
      | _ \<Rightarrow> concat (map simple_op (split_on (CHR '';'') raw)))"

definition transformRequestHeaders :: "ext \<Rightarrow> config \<Rightarrow> dict \<Rightarrow> ctx \<Rightarrow> 'd io \<Rightarrow> exn option \<times> ctx \<times> 'd io" where
  "transformRequestHeaders X A cfg c w =
     (if \<not> truthy (rget cfg ''request_headers'') then (None, c, w)
      else applyOps True A (parseOps X (str_of (rget cfg ''request_headers''))) c w)"

definition transformResponseHeaders :: "ext \<Rightarrow> config \<Rightarrow> dict \<Rightarrow> ctx \<Rightarrow> 'd io \<Rightarrow> exn option \<times> ctx \<times> 'd io" where
  "transformResponseHeaders X A cfg c w =
     (if \<not> truthy (rget cfg ''response_headers'') then (None, c, w)
      else applyOps False A (parseOps X (str_of (rget cfg ''response_headers''))) c w)"

section \<open>Query parameters\<close>

definition remove_query :: "string option \<Rightarrow> dict \<Rightarrow> dict" where
  "remove_query raw q = (if truthy raw then fold rdel (split_trim (CHR '','') (str_of raw)) q else q)"

definition rename_pair :: "string \<Rightarrow> dict \<Rightarrow> dict" where
  "rename_pair pair q =
     (case index_of (CHR '':'') pair of
        None \<Rightarrow> q
      | Some i \<Rightarrow>
          (let oldKey = js_trim (take i pair); newKey = js_trim (drop (i + 1) pair)
           in case rget q oldKey of
                None \<Rightarrow> q
              | Some v \<Rightarrow> (if oldKey \<noteq> [] \<and> newKey \<noteq> [] then rdel oldKey (rset newKey v q) else q)))"

definition rename_query :: "string option \<Rightarrow> dict \<Rightarrow> dict" where
  "rename_query raw q = (if truthy raw then fold rename_pair (split_trim (CHR '';'') (str_of raw)) q else q)"

fun add_query :: "config \<Rightarrow> string list \<Rightarrow> ctx \<Rightarrow> 'd io \<Rightarrow> ctx \<times> 'd io" where
  "add_query A [] c w = (c, w)"
| "add_query A (kv # kvs) c w =
     (case index_of (CHR ''='') kv of
        None \<Rightarrow> add_query A kvs c w
      | Some i \<Rightarrow>
          (let key = js_trim (take i kv); (val, w1) = resolveTemplate A c (drop (i + 1) kv) w
           in add_query A kvs (if key \<noteq> [] then c\<lparr>c_queryParams := rset key val (c_queryParams c)\<rparr> else c) w1))"

definition transformQueryParams :: "config \<Rightarrow> dict \<Rightarrow> ctx \<Rightarrow> 'd io \<Rightarrow> ctx \<times> 'd io" where
  "transformQueryParams A cfg c w =
     (let c1 = c\<lparr>c_queryParams := rename_query (rget cfg ''rename_query'')
                   (remove_query (rget cfg ''remove_query'') (c_queryParams c))\<rparr>
      in if truthy (rget cfg ''add_query'')
         then add_query A (split_trim (CHR '';'') (str_of (rget cfg ''add_query''))) c1 w else (c1, w))"

section \<open>What templates can read\<close>

definition same_env :: "config \<Rightarrow> config \<Rightarrow> bool" where
  "same_env A B = (\<forall>k \<in> set ENV_ALLOW_LIST. rget (cfg_env A) k = rget (cfg_env B) k)"

lemma resolveExpr_env: "same_env A B \<Longrightarrow> resolveExpr A c e w = resolveExpr B c e w"
  by (auto simp: resolveExpr_def same_env_def Let_def)

lemma resolveTemplate_env: "same_env A B \<Longrightarrow> resolveTemplate A c s w = resolveTemplate B c s w"
proof (induction A c s w rule: resolveTemplate.induct)
  case (2 A c x s w)
  then show ?case by (simp add: resolveExpr_env [OF "2.prems"] split: option.splits prod.splits)
qed simp

lemma applyOps_env: "same_env A B \<Longrightarrow> applyOps req A ops c w = applyOps req B ops c w"
proof (induction ops arbitrary: c w)
  case (Cons oper ops)
  then show ?case
    by (simp add: resolveTemplate_env [OF Cons.prems] split: sum.splits option.splits json.splits prod.splits)
qed simp

lemma add_query_env: "same_env A B \<Longrightarrow> add_query A kvs c w = add_query B kvs c w"
  by (induction kvs arbitrary: c w)
    (simp_all add: resolveTemplate_env Let_def split: option.splits prod.splits)

lemma resolveTemplate_plain: "CHR ''$'' \<notin> set s \<Longrightarrow> resolveTemplate A c s w = (s, w)"
  by (induction s) (auto simp: placeholder_def starts_with_def)

end
