(* ===== verification/TransformJson.thy ===== *)
theory TransformJson
  imports TransformText
begin

text \<open>
  \<open>json-ops.ts\<close> and \<open>body.ts\<close> of \<open>gateway/src/pipeline/plugins/transform\<close>: operations on a
  parsed JSON body. \<open>copy\<close> makes two paths lead to one object, so objects and arrays live in
  a store and values refer to them; a body that an operation has made cyclic cannot be
  printed again and is left alone.

  What objects inherit from \<open>Object.prototype\<close> is not in the store. An assignment to
  \<open>__proto__\<close> reaches the setter inherited from there unless the object has a member of that
  name of its own, and so adds no member; that it may change the prototype, and with it what
  later operations read under a name that is no member, is not modelled, nor are reads of
  \<open>__proto__\<close>, \<open>constructor\<close> and the like, which find the inherited values.
\<close>

section \<open>The store\<close>

datatype hval = VUndef | VNull | VBool bool | VNum rat | VStr string | VRef nat

text \<open>An array has elements, where a hole is undefined, and possibly named properties.\<close>

datatype cell = CObj "(string \<times> hval) list" | CArr "hval list" "(string \<times> hval) list"

type_synonym heap = "cell list"

definition alloc :: "cell \<Rightarrow> heap \<Rightarrow> hval \<times> heap" where
  "alloc cl H = (VRef (length H), H @ [cl])"

text \<open>The values that \<open>JSON.parse\<close> builds.\<close>

fun load :: "json \<Rightarrow> heap \<Rightarrow> hval \<times> heap"
  and load_list :: "json list \<Rightarrow> heap \<Rightarrow> hval list \<times> heap"
  and load_fields :: "(string \<times> json) list \<Rightarrow> heap \<Rightarrow> (string \<times> hval) list \<times> heap" where
  "load JNull H = (VNull, H)"
| "load (JBool b) H = (VBool b, H)"
| "load (JNum r) H = (VNum r, H)"
| "load (JStr s) H = (VStr s, H)"
| "load (JArr vs) H = (let (xs, H1) = load_list vs H in alloc (CArr xs []) H1)"
| "load (JObj fs) H = (let (xs, H1) = load_fields fs H in alloc (CObj xs) H1)"
| "load_list [] H = ([], H)"
| "load_list (v # vs) H = (let (x, H1) = load v H; (xs, H2) = load_list vs H1 in (x # xs, H2))"
| "load_fields [] H = ([], H)"
| "load_fields ((k, v) # fs) H = (let (x, H1) = load v H; (xs, H2) = load_fields fs H1 in ((k, x) # xs, H2))"

text \<open>
  The value that \<open>JSON.stringify\<close> prints: undefined members of an object are left out, those
  of an array print as \<open>null\<close>. The fuel bounds the depth; a path longer than the store is
  large meets an object twice, which is the cycle on which \<open>stringify\<close> throws.
\<close>

fun all_some :: "'a option list \<Rightarrow> 'a list option" where
  "all_some [] = Some []"
| "all_some (None # xs) = None"
| "all_some (Some x # xs) = map_option ((#) x) (all_some xs)"

fun dump :: "nat \<Rightarrow> heap \<Rightarrow> hval \<Rightarrow> json option" where
  "dump n H VUndef = Some JNull"
| "dump n H VNull = Some JNull"
| "dump n H (VBool b) = Some (JBool b)"
| "dump n H (VNum r) = Some (JNum r)"
| "dump n H (VStr s) = Some (JStr s)"
| "dump 0 H (VRef r) = None"
| "dump (Suc n) H (VRef r) =
     (if r < length H
      then (case H ! r of
              CArr xs _ \<Rightarrow> map_option JArr (all_some (map (dump n H) xs))
            | CObj fs \<Rightarrow>
                map_option JObj (all_some (map (\<lambda>(k, x). map_option (Pair k) (dump n H x))
                  (filter (\<lambda>p. snd p \<noteq> VUndef) fs))))
      else None)"

definition stringify_value :: "heap \<Rightarrow> hval \<Rightarrow> json option" where
  "stringify_value H v = dump (length H) H v"

section \<open>Properties of objects and arrays\<close>

text \<open>A key that is the canonical text of an index; other keys of an array are names.\<close>

definition array_index :: "string \<Rightarrow> nat option" where
  "array_index k =
     (if k \<noteq> [] \<and> list_all is_digit k \<and> show_nat (digits_val k) = k \<and> digits_val k < 2 ^ 32 - 1
      then Some (digits_val k) else None)"

definition get_prop :: "heap \<Rightarrow> nat \<Rightarrow> string \<Rightarrow> hval" where
  "get_prop H r k =
     (case H ! r of
        CObj fs \<Rightarrow> orelse (rget fs k) VUndef
      | CArr xs named \<Rightarrow>
          (case array_index k of
             Some i \<Rightarrow> (if i < length xs then xs ! i else VUndef)
           | None \<Rightarrow> (if k = ''length'' then VNum (of_nat (length xs)) else orelse (rget named k) VUndef)))"

text \<open>
  Writing past the end of an array extends it with holes. A write to the length of an array
  resizes it when the value converts to such a number and throws otherwise; an array or object
  as the value counts as no number.
\<close>

definition resize :: "nat \<Rightarrow> hval list \<Rightarrow> hval list" where
  "resize n xs = take n xs @ replicate (n - length xs) VUndef"

definition to_number :: "hval \<Rightarrow> jsnum" where
  "to_number v =
     (case v of VNum q \<Rightarrow> Fin q | VStr s \<Rightarrow> js_Number s | VBool b \<Rightarrow> Fin (if b then 1 else 0) | VNull \<Rightarrow> Fin 0
      | _ \<Rightarrow> NaN)"

definition set_length :: "hval \<Rightarrow> hval list \<Rightarrow> hval list option" where
  "set_length v xs =
     (case to_number v of
        Fin q \<Rightarrow> (if 0 \<le> q \<and> q < 2 ^ 32 \<and> of_int \<lfloor>q\<rfloor> = q then Some (resize (nat \<lfloor>q\<rfloor>) xs) else None)
      | _ \<Rightarrow> None)"

text \<open>\<open>__proto__\<close> is no member unless the object has one of its own, from \<open>JSON.parse\<close>.\<close>

definition inherited_setter :: "string \<Rightarrow> (string \<times> hval) list \<Rightarrow> bool" where
  "inherited_setter k fs = (k = ''__proto__'' \<and> rget fs k = None)"

definition set_prop :: "heap \<Rightarrow> nat \<Rightarrow> string \<Rightarrow> hval \<Rightarrow> heap option" where
  "set_prop H r k v =
     (case H ! r of
        CObj fs \<Rightarrow> Some (if inherited_setter k fs then H else H[r := CObj (rset k v fs)])
      | CArr xs named \<Rightarrow>
          (case array_index k of
             Some i \<Rightarrow> Some (H[r := CArr ((resize (max (length xs) (i + 1)) xs)[i := v]) named])
           | None \<Rightarrow>
               (if k = ''length'' then map_option (\<lambda>xs'. H[r := CArr xs' named]) (set_length v xs)
                else Some (if inherited_setter k named then H else H[r := CArr xs (rset k v named)]))))"

definition del_prop :: "heap \<Rightarrow> nat \<Rightarrow> string \<Rightarrow> heap option" where
  "del_prop H r k =
     (case H ! r of
        CObj fs \<Rightarrow> Some (H[r := CObj (rdel k fs)])
      | CArr xs named \<Rightarrow>
          (case array_index k of
             Some i \<Rightarrow> Some (H[r := CArr (xs[i := VUndef]) named])
           | None \<Rightarrow> (if k = ''length'' then None else Some (H[r := CArr xs (rdel k named)]))))"

section \<open>Paths\<close>

definition path_sep :: "char \<Rightarrow> bool" where
  "path_sep x = (x = CHR ''.'' \<or> x = CHR ''['' \<or> x = CHR '']'')"

text \<open>Runs of separators split the path and empty parts are dropped.\<close>

definition split_path :: "string \<Rightarrow> string list" where
  "split_path s = nonempty (split_on (CHR ''.'') (map (\<lambda>x. if path_sep x then CHR ''.'' else x) s))"

definition parsePath :: "string \<Rightarrow> string list" where
  "parsePath path =
     (let p = (if starts_with path ''$'' then drop 1 path else path)
      in split_path (if starts_with path ''$'' \<and> starts_with p ''.'' then drop 1 p else p))"

fun getPath :: "heap \<Rightarrow> hval \<Rightarrow> string list \<Rightarrow> hval" where
  "getPath H v [] = v"
| "getPath H (VRef r) (k # ks) = getPath H (get_prop H r k) ks"
| "getPath H _ (k # ks) = VUndef"

text \<open>One step down, replacing what is not an object by an empty one.\<close>

definition enter :: "heap \<Rightarrow> nat \<Rightarrow> string \<Rightarrow> (nat \<times> heap) option" where
  "enter H r k =
     (case get_prop H r k of
        VRef r' \<Rightarrow> Some (r', H)
      | _ \<Rightarrow> (let (v, H1) = alloc (CObj []) H in map_option (Pair (length H)) (set_prop H1 r k v)))"

text \<open>
  When a step throws, what was done before it stays: the second component is the store, the
  first says whether the loop reached its end.
\<close>

fun setPath :: "heap \<Rightarrow> nat \<Rightarrow> string list \<Rightarrow> hval \<Rightarrow> bool \<times> heap" where
  "setPath H r [] v = (True, H)"
| "setPath H r [k] v = (case set_prop H r k v of None \<Rightarrow> (False, H) | Some H' \<Rightarrow> (True, H'))"
| "setPath H r (k # k' # ks) v =
     (case enter H r k of None \<Rightarrow> (False, H) | Some (r', H') \<Rightarrow> setPath H' r' (k' # ks) v)"

fun deletePath :: "heap \<Rightarrow> nat \<Rightarrow> string list \<Rightarrow> bool \<times> heap" where
  "deletePath H r [] = (True, H)"
| "deletePath H r [k] = (case del_prop H r k of None \<Rightarrow> (False, H) | Some H' \<Rightarrow> (True, H'))"
| "deletePath H r (k # k' # ks) =
     (case get_prop H r k of VRef r' \<Rightarrow> deletePath H r' (k' # ks) | _ \<Rightarrow> (True, H))"

section \<open>Operations\<close>

text \<open>
  One pass of the loop: the current object, the store and the world. Whatever an operation
  throws is caught, so a malformed one changes nothing more.
\<close>

definition path_field :: "jobj \<Rightarrow> string \<Rightarrow> string list option" where
  "path_field obj k = (case rget obj k of Some (JStr s) \<Rightarrow> (if s = [] then None else Some (parsePath s)) | _ \<Rightarrow> None)"

definition op_value :: "config \<Rightarrow> ctx \<Rightarrow> jobj \<Rightarrow> heap \<Rightarrow> 'd io \<Rightarrow> hval \<times> heap \<times> 'd io" where
  "op_value A c obj H w =
     (case rget obj ''value'' of
        None \<Rightarrow> (VUndef, H, w)
      | Some (JStr t) \<Rightarrow> (let (s, w1) = resolveTemplate A c t w in (VStr s, H, w1))
      | Some j \<Rightarrow> (let (v, H1) = load j H in (v, H1, w)))"

definition op_key :: "ext \<Rightarrow> jobj \<Rightarrow> string" where
  "op_key X obj = jstring X obj ''key'' ''data''"

definition is_object :: "heap \<Rightarrow> hval \<Rightarrow> nat option" where
  "is_object H v = (case v of VRef r \<Rightarrow> (case H ! r of CObj _ \<Rightarrow> Some r | CArr _ _ \<Rightarrow> None) | _ \<Rightarrow> None)"

definition copy_op :: "jobj \<Rightarrow> bool \<Rightarrow> nat \<Rightarrow> heap \<Rightarrow> heap" where
  "copy_op obj delete cur H =
     (case (path_field obj ''from'', path_field obj ''path'') of
        (Some from_keys, Some keys) \<Rightarrow>
          (let val = getPath H (VRef cur) from_keys
           in if val = VUndef then H
              else (let (ok, H1) = setPath H cur keys val
                    in if ok \<and> delete then snd (deletePath H1 cur from_keys) else H1))
      | _ \<Rightarrow> H)"

definition json_op :: "ext \<Rightarrow> config \<Rightarrow> ctx \<Rightarrow> jobj \<Rightarrow> nat \<times> heap \<times> 'd io \<Rightarrow> nat \<times> heap \<times> 'd io" where
  "json_op X A c obj s =
     (case s of (cur, H, w) \<Rightarrow>
       (case rget obj ''op'' of
          Some (JStr oper) \<Rightarrow>
            (if oper = ''set''
             then (if js_falsy (rget obj ''path'') then s
                   else (let (v, H1, w1) = op_value A c obj H w
                         in case path_field obj ''path'' of
                              None \<Rightarrow> (cur, H1, w1)
                            | Some keys \<Rightarrow> (cur, snd (setPath H1 cur keys v), w1)))
             else if oper = ''delete''
             then (case path_field obj ''path'' of
                     None \<Rightarrow> s | Some keys \<Rightarrow> (cur, snd (deletePath H cur keys), w))
             else if oper = ''copy'' then (cur, copy_op obj False cur H, w)
             else if oper = ''move'' then (cur, copy_op obj True cur H, w)
             else if oper = ''wrap'' then (length H, H @ [CObj [(op_key X obj, VRef cur)]], w)
             else if oper = ''unwrap''
             then (orelse (is_object H (get_prop H cur (op_key X obj))) cur, H, w)
             else s)
        | _ \<Rightarrow> s))"

definition applyJsonOps :: "ext \<Rightarrow> config \<Rightarrow> ctx \<Rightarrow> json list \<Rightarrow> nat \<times> heap \<times> 'd io \<Rightarrow> nat \<times> heap \<times> 'd io" where
  "applyJsonOps X A c ops s = fold (\<lambda>oper. json_op X A c (json_obj oper)) ops s"

definition parseJsonOps :: "ext \<Rightarrow> string \<Rightarrow> json list" where
  "parseJsonOps X raw = (case x_json_parse X raw of Some (JArr ops) \<Rightarrow> ops | _ \<Rightarrow> [])"

section \<open>Bodies\<close>

text \<open>
  What both directions share: the new body when the configuration asks for JSON operations and
  the body is a JSON object of allowed size, otherwise \<open>None\<close>. A body is the list of its
  bytes.
\<close>

definition DEFAULT_MAX_BYTES :: int where
  "DEFAULT_MAX_BYTES = 1048576"

definition within_limit :: "dict \<Rightarrow> string \<Rightarrow> bool" where
  "within_limit cfg body =
     (case (case rget cfg ''max_body_bytes'' of None \<Rightarrow> Some DEFAULT_MAX_BYTES | Some s \<Rightarrow> parse_int s) of
        None \<Rightarrow> True | Some m \<Rightarrow> int (length body) \<le> m)"

definition run_ops :: "ext \<Rightarrow> config \<Rightarrow> string \<Rightarrow> string \<Rightarrow> ctx \<Rightarrow> 'd io \<Rightarrow> string option \<times> 'd io" where
  "run_ops X A raw body c w =
     (case x_json_parse X body of
        Some (JObj fs) \<Rightarrow>
          (let (v, H) = load (JObj fs) [];
               (cur, H1, w1) = applyJsonOps X A c (parseJsonOps X raw) (length H - 1, H, w)
           in (map_option (x_json_str X) (stringify_value H1 (VRef cur)), w1))
      | _ \<Rightarrow> (None, w))"

definition body_ops ::
  "ext \<Rightarrow> config \<Rightarrow> dict \<Rightarrow> string \<Rightarrow> string \<Rightarrow> string option \<Rightarrow> string option \<Rightarrow> ctx \<Rightarrow> 'd io \<Rightarrow> string option \<times> 'd io" where
  "body_ops X A cfg ops_key type_key body contentType c w =
     (if truthy (rget cfg ops_key) \<and> orelse (rget cfg type_key) ''json'' = ''json'' \<and> truthy body
          \<and> within_limit cfg (str_of body)
          \<and> str_includes (js_lower (orelse contentType [])) ''application/json''
      then run_ops X A (str_of (rget cfg ops_key)) (str_of body) c w else (None, w))"

definition transformRequestBody :: "ext \<Rightarrow> config \<Rightarrow> dict \<Rightarrow> ctx \<Rightarrow> 'd io \<Rightarrow> ctx \<times> 'd io" where
  "transformRequestBody X A cfg c w =
     (case body_ops X A cfg ''request_body_ops'' ''request_body_type'' (c_requestBody c)
             (rget (c_requestHeaders c) ''content-type'') c w of
        (None, w1) \<Rightarrow> (c, w1)
      | (Some s, w1) \<Rightarrow>
          (set_request_header ''content-length'' (show_nat (length s)) (c\<lparr>c_requestBody := Some s\<rparr>), w1))"

definition transformResponseBody :: "ext \<Rightarrow> config \<Rightarrow> dict \<Rightarrow> ctx \<Rightarrow> 'd io \<Rightarrow> ctx \<times> 'd io" where
  "transformResponseBody X A cfg c w =
     (case body_ops X A cfg ''response_body_ops'' ''response_body_type'' (c_responseBody c)
             (rget (c_responseHeaders c) ''content-type'') c w of
        (None, w1) \<Rightarrow> (c, w1)
      | (Some s, w1) \<Rightarrow>
          (set_response_header ''content-length'' (show_nat (length s)) (c\<lparr>c_responseBody := Some s\<rparr>), w1))"

section \<open>Operations on the top level are dictionary operations\<close>

lemma all_some_Some: "all_some (map Some xs) = Some xs"
  by (induction xs) simp_all

lemma all_some_map: "(\<And>x. x \<in> set xs \<Longrightarrow> f x = Some (g x)) \<Longrightarrow> all_some (map f xs) = Some (map g xs)"
  by (induction xs) simp_all

text \<open>
  \<open>prints m H x v\<close>: the value prints as \<open>v\<close> from every store that agrees below \<open>m\<close>, with any
  fuel of at least \<open>m\<close>.
\<close>

definition prints :: "nat \<Rightarrow> heap \<Rightarrow> hval \<Rightarrow> json \<Rightarrow> bool" where
  "prints m H x v = (m \<le> length H \<and> x \<noteq> VUndef \<and>
     (\<forall>n H'. m \<le> n \<longrightarrow> m \<le> length H' \<longrightarrow> take m H' = take m H \<longrightarrow> dump n H' x = Some v))"

lemma prints_later:
  "prints m H x v \<Longrightarrow> m \<le> m' \<Longrightarrow> m' \<le> length H' \<Longrightarrow> take m H' = take m H \<Longrightarrow> prints m' H' x v"
proof -
  assume p: "prints m H x v" and le: "m \<le> m'" "m' \<le> length H'" and t: "take m H' = take m H"
  have "take m H'' = take m H" if "take m' H'' = take m' H'" for H''
    using arg_cong [OF that, of "take m"] le(1) t by (simp add: min_absorb1)
  with p le show "prints m' H' x v" by (auto simp: prints_def)
qed

definition fields_print :: "nat \<Rightarrow> heap \<Rightarrow> (string \<times> hval) list \<Rightarrow> jobj \<Rightarrow> bool" where
  "fields_print m H xs fs = list_all2 (\<lambda>(k, x) (k', v). k = k' \<and> prints m H x v) xs fs"

lemma fields_print_later:
  "fields_print m H xs fs \<Longrightarrow> m \<le> m' \<Longrightarrow> m' \<le> length H' \<Longrightarrow> take m H' = take m H \<Longrightarrow> fields_print m' H' xs fs"
  unfolding fields_print_def by (erule list_all2_mono) (auto intro: prints_later)

lemma dump_fields:
  assumes "fields_print m H xs fs" "m \<le> n" "m \<le> length H'" "take m H' = take m H"
  shows "all_some (map (\<lambda>(k, x). map_option (Pair k) (dump n H' x)) (filter (\<lambda>p. snd p \<noteq> VUndef) xs)) = Some fs"
  using assms(1) unfolding fields_print_def
proof (induction xs fs rule: list_all2_induct)
  case (Cons p xs q fs)
  then show ?case using assms(2-4) by (cases p; cases q) (auto simp: prints_def)
qed simp

lemma dump_elements:
  assumes "list_all2 (prints m H) xs vs" "m \<le> n" "m \<le> length H'" "take m H' = take m H"
  shows "all_some (map (dump n H') xs) = Some vs"
  using assms(1)
  by (induction rule: list_all2_induct) (use assms(2-4) in \<open>auto simp: prints_def\<close>)

lemma nth_agree: "m < length H \<Longrightarrow> m < length H' \<Longrightarrow> take (Suc m) H' = take (Suc m) H \<Longrightarrow> H' ! m = H ! m"
  by (metis lessI nth_take)

lemma take_Suc_agree: "take (Suc m) H' = take (Suc m) H \<Longrightarrow> take m H' = take m H"
  by (metis Suc_n_not_le_n nat_le_linear take_take min_absorb1 min_def)

lemma prints_obj:
  assumes "fields_print m H xs fs" "m \<le> r" "r < length H" "H ! r = CObj xs"
  shows "prints (Suc r) H (VRef r) (JObj fs)"
  unfolding prints_def
proof (intro conjI allI impI)
  fix n and H' :: heap
  assume n: "Suc r \<le> n" and l: "Suc r \<le> length H'" and t: "take (Suc r) H' = take (Suc r) H"
  obtain n' where n': "n = Suc n'" "m \<le> n'" using n assms(2) by (cases n) auto
  have r: "H' ! r = CObj xs" using nth_agree [OF assms(3) _ t] l assms(4) by simp
  have "take m H' = take m H"
    using arg_cong [OF t, of "take m"] assms(2) by (simp add: min_absorb1)
  with dump_fields [OF assms(1) n'(2) _ this] r l assms(2) show "dump n H' (VRef r) = Some (JObj fs)"
    by (simp add: n')
qed (use assms in auto)

lemma prints_arr:
  assumes "list_all2 (prints m H) xs vs" "m \<le> r" "r < length H" "H ! r = CArr xs named"
  shows "prints (Suc r) H (VRef r) (JArr vs)"
  unfolding prints_def
proof (intro conjI allI impI)
  fix n and H' :: heap
  assume n: "Suc r \<le> n" and l: "Suc r \<le> length H'" and t: "take (Suc r) H' = take (Suc r) H"
  obtain n' where n': "n = Suc n'" "m \<le> n'" using n assms(2) by (cases n) auto
  have r: "H' ! r = CArr xs named" using nth_agree [OF assms(3) _ t] l assms(4) by simp
  have "take m H' = take m H"
    using arg_cong [OF t, of "take m"] assms(2) by (simp add: min_absorb1)
  with dump_elements [OF assms(1) n'(2) _ this] r l assms(2) show "dump n H' (VRef r) = Some (JArr vs)"
    by (simp add: n')
qed (use assms in auto)

lemma load_prints:
  "load v H = (x, H') \<Longrightarrow> (\<exists>E. H' = H @ E) \<and> prints (length H') H' x v"
  "load_list vs H = (xs, H') \<Longrightarrow> (\<exists>E. H' = H @ E) \<and> list_all2 (prints (length H') H') xs vs"
  "load_fields fs H = (ys, H') \<Longrightarrow> (\<exists>E. H' = H @ E) \<and> fields_print (length H') H' ys fs"
proof (induction v H and vs H and fs H arbitrary: x H' and xs H' and ys H' rule: load_load_list_load_fields.induct)
  case (5 vs H)
  obtain xs H1 where l: "load_list vs H = (xs, H1)" by (cases "load_list vs H")
  with "5.prems" have x: "x = VRef (length H1)" "H' = H1 @ [CArr xs []]" by (auto simp: alloc_def)
  from "5.IH" [OF l] obtain E where E: "H1 = H @ E" "list_all2 (prints (length H1) H1) xs vs" by blast
  then have "list_all2 (prints (length H1) H') xs vs"
    unfolding x by (elim list_all2_mono) (auto intro: prints_later)
  then have "prints (Suc (length H1)) H' x (JArr vs)"
    unfolding x by (rule prints_arr) simp_all
  with E(1) show ?case by (simp add: x)
next
  case (6 fs H)
  obtain xs H1 where l: "load_fields fs H = (xs, H1)" by (cases "load_fields fs H")
  with "6.prems" have x: "x = VRef (length H1)" "H' = H1 @ [CObj xs]" by (auto simp: alloc_def)
  from "6.IH" [OF l] obtain E where E: "H1 = H @ E" "fields_print (length H1) H1 xs fs" by blast
  from E(2) have "fields_print (length H1) H' xs fs"
    unfolding x by (rule fields_print_later) simp_all
  then have "prints (Suc (length H1)) H' x (JObj fs)"
    unfolding x by (rule prints_obj) simp_all
  with E(1) show ?case by (simp add: x)
next
  case (8 v vs H)
  obtain y H1 where v: "load v H = (y, H1)" by (cases "load v H")
  obtain ys H2 where vs: "load_list vs H1 = (ys, H2)" by (cases "load_list vs H1")
  with v "8.prems" have x: "xs = y # ys" "H' = H2" by auto
  from "8.IH"(1) [OF v] obtain E1 where E1: "H1 = H @ E1" "prints (length H1) H1 y v" by blast
  from "8.IH"(2) [OF v [symmetric] refl vs] obtain E2 where E2: "H2 = H1 @ E2" "list_all2 (prints (length H2) H2) ys vs"
    by blast
  have "prints (length H2) H2 y v" using E1(2) by (rule prints_later) (simp_all add: E2(1))
  with E1(1) E2 show ?case by (simp add: x)
next
  case (10 k v fs H)
  obtain y H1 where v: "load v H = (y, H1)" by (cases "load v H")
  obtain zs H2 where vs: "load_fields fs H1 = (zs, H2)" by (cases "load_fields fs H1")
  with v "10.prems" have x: "ys = (k, y) # zs" "H' = H2" by auto
  from "10.IH"(1) [OF v] obtain E1 where E1: "H1 = H @ E1" "prints (length H1) H1 y v" by blast
  from "10.IH"(2) [OF v [symmetric] refl vs] obtain E2 where E2: "H2 = H1 @ E2" "fields_print (length H2) H2 zs fs"
    by blast
  have "prints (length H2) H2 y v" using E1(2) by (rule prints_later) (simp_all add: E2(1))
  with E1(1) E2 show ?case by (simp add: x fields_print_def)
qed (auto simp: prints_def fields_print_def)

end
