(* ===== verification/TransformFlat.thy ===== *)
theory TransformFlat
  imports TransformJson
begin

text \<open>
  Refinement of the body operations (\<open>json-ops.ts\<close>): when every operation sets a top-level
  member to a text, deletes a top-level member or wraps the body, running them on the store
  is the same as updating a dictionary. The one exception is the name \<open>__proto__\<close>: setting it
  changes nothing unless the object already has such a member.
\<close>

definition flat_op :: "json \<Rightarrow> bool" where
  "flat_op oper =
     (case rget (json_obj oper) ''op'' of
        Some (JStr s) \<Rightarrow>
          (if s = ''set''
           then (case (path_field (json_obj oper) ''path'', rget (json_obj oper) ''value'') of
                   (Some [k], Some (JStr t)) \<Rightarrow> True | _ \<Rightarrow> False)
           else if s = ''delete'' then (case path_field (json_obj oper) ''path'' of Some [k] \<Rightarrow> True | _ \<Rightarrow> False)
           else s = ''wrap'')
      | _ \<Rightarrow> False)"

definition flat_step :: "ext \<Rightarrow> config \<Rightarrow> ctx \<Rightarrow> json \<Rightarrow> jobj \<times> 'd io \<Rightarrow> jobj \<times> 'd io" where
  "flat_step X A c oper s =
     (case s of (fs, w) \<Rightarrow>
       (let obj = json_obj oper; k = hd (orelse (path_field obj ''path'') [])
        in if rget obj ''op'' = Some (JStr ''set'')
           then (let (t, w1) = resolveTemplate A c (orelse (sfield obj ''value'') []) w in (if k = ''__proto__'' \<and> rget fs k = None then fs else rset k (JStr t) fs, w1))
           else if rget obj ''op'' = Some (JStr ''delete'') then (rdel k fs, w)
           else ([(op_key X obj, JObj fs)], w)))"

definition represents :: "nat \<Rightarrow> heap \<Rightarrow> jobj \<Rightarrow> bool" where
  "represents cur H fs = (cur < length H \<and> (\<exists>xs. H ! cur = CObj xs \<and> fields_print cur H xs fs))"

lemma fields_print_rset:
  "fields_print m H xs fs \<Longrightarrow> prints m H x v \<Longrightarrow> fields_print m H (rset k x xs) (rset k v fs)"
  unfolding fields_print_def
proof (induction xs fs rule: list_all2_induct)
  case (Cons p xs q fs)
  then show ?case by (cases p; cases q) (auto simp: js_simps)
qed (simp add: js_simps)

lemma fields_print_rdel: "fields_print m H xs fs \<Longrightarrow> fields_print m H (rdel k xs) (rdel k fs)"
  unfolding fields_print_def
proof (induction xs fs rule: list_all2_induct)
  case (Cons p xs q fs)
  then show ?case by (cases p; cases q) (auto simp: js_simps)
qed (simp add: js_simps)

lemma fields_print_None: "fields_print m H xs fs \<Longrightarrow> (rget xs k = None) = (rget fs k = None)"
  unfolding fields_print_def
proof (induction xs fs rule: list_all2_induct)
  case (Cons p xs q fs)
  then show ?case by (cases p; cases q) auto
qed simp

lemma fields_print_update:
  "fields_print m H xs fs \<Longrightarrow> m \<le> length H \<Longrightarrow> fields_print m (H[m := cl]) xs fs"
  by (erule fields_print_later) simp_all

lemma represents_set:
  assumes "represents cur H fs"
  shows "\<exists>H'. setPath H cur [k] (VStr t) = (True, H') \<and> 
    represents cur H' (if k = ''__proto__'' \<and> rget fs k = None then fs else rset k (JStr t) fs)"
proof -
  from assms obtain xs where l: "cur < length H" and c: "H ! cur = CObj xs" and p: "fields_print cur H xs fs"
    by (auto simp: represents_def)
  have "prints cur H (VStr t) (JStr t)" using l by (simp add: prints_def)
  from fields_print_update [OF fields_print_rset [OF p this]] l
  have "fields_print cur (H[cur := CObj (rset k (VStr t) xs)]) (rset k (VStr t) xs) (rset k (JStr t) fs)" by simp
  with l c fields_print_None [OF p, of k] assms show ?thesis
    by (auto simp: set_prop_def inherited_setter_def represents_def)
qed

lemma represents_delete:
  assumes "represents cur H fs"
  shows "\<exists>H'. deletePath H cur [k] = (True, H') \<and> represents cur H' (rdel k fs)"
proof -
  from assms obtain xs where l: "cur < length H" and c: "H ! cur = CObj xs" and p: "fields_print cur H xs fs"
    by (auto simp: represents_def)
  from fields_print_update [OF fields_print_rdel [OF p]] l
  have "fields_print cur (H[cur := CObj (rdel k xs)]) (rdel k xs) (rdel k fs)" by simp
  with l c show ?thesis by (simp add: del_prop_def represents_def)
qed

lemma represents_wrap:
  assumes "represents cur H fs"
  shows "represents (length H) (H @ [CObj [(k, VRef cur)]]) [(k, JObj fs)]"
proof -
  from assms obtain xs where l: "cur < length H" and c: "H ! cur = CObj xs" and p: "fields_print cur H xs fs"
    by (auto simp: represents_def)
  have "prints (Suc cur) H (VRef cur) (JObj fs)" by (rule prints_obj [OF p _ l c]) simp
  then have "prints (length H) (H @ [CObj [(k, VRef cur)]]) (VRef cur) (JObj fs)"
    by (rule prints_later) (use l in simp_all)
  then show ?thesis by (simp add: represents_def fields_print_def)
qed

lemma singleton_case: "(case v of Some [k] \<Rightarrow> P | _ \<Rightarrow> False) \<Longrightarrow> \<exists>k. v = Some [k] \<and> P"
  by (simp split: option.splits list.splits)

lemma singleton_text_case:
  "(case (v, t) of (Some [k], Some (JStr u)) \<Rightarrow> True | _ \<Rightarrow> False) \<Longrightarrow> \<exists>k u. v = Some [k] \<and> t = Some (JStr u)"
  by (simp split: option.splits list.splits json.splits)

lemma flat_op_cases:
  assumes "flat_op oper"
  obtains (set) k t where "rget (json_obj oper) ''op'' = Some (JStr ''set'')"
      "path_field (json_obj oper) ''path'' = Some [k]" "rget (json_obj oper) ''value'' = Some (JStr t)"
    | (delete) k where "rget (json_obj oper) ''op'' = Some (JStr ''delete'')" "path_field (json_obj oper) ''path'' = Some [k]"
    | (wrap) "rget (json_obj oper) ''op'' = Some (JStr ''wrap'')"
proof -
  have "\<exists>s. rget (json_obj oper) ''op'' = Some (JStr s)"
  proof (cases "rget (json_obj oper) ''op''")
    case (Some j)
    with assms show ?thesis by (cases j) (simp_all add: flat_op_def)
  qed (use assms in \<open>simp add: flat_op_def\<close>)
  then obtain s where s: "rget (json_obj oper) ''op'' = Some (JStr s)" by blast
  have "\<not> (s \<noteq> ''set'' \<and> s \<noteq> ''delete'' \<and> s \<noteq> ''wrap'')"
  proof
    assume a: "s \<noteq> ''set'' \<and> s \<noteq> ''delete'' \<and> s \<noteq> ''wrap''"
    from assms show False unfolding flat_op_def s option.case json.case
      by (simp only: a if_False simp_thms)
  qed
  then consider "s = ''set''" | "s = ''delete''" | "s = ''wrap''" by blast
  then show thesis
  proof cases
    case 1
    with assms s have "case (path_field (json_obj oper) ''path'', rget (json_obj oper) ''value'') of
        (Some [k], Some (JStr t)) \<Rightarrow> True | _ \<Rightarrow> False" by (simp add: flat_op_def)
    from singleton_text_case [OF this] s 1 show thesis using set by blast
  next
    case 2
    with assms s have "case path_field (json_obj oper) ''path'' of Some [k] \<Rightarrow> True | _ \<Rightarrow> False"
      by (simp add: flat_op_def)
    from singleton_case [OF this] s 2 show thesis using delete by blast
  next
    case 3
    with s show thesis using wrap by blast
  qed
qed

lemma json_op_flat:
  assumes "represents cur H fs" and "flat_op oper"
  shows "\<exists>cur' H' fs' w'. json_op X A c (json_obj oper) (cur, H, w) = (cur', H', w') \<and>
    flat_step X A c oper (fs, w) = (fs', w') \<and> represents cur' H' fs'"
proof -
  let ?o = "json_obj oper"
  from assms(2) consider
      (set) k t where "rget ?o ''op'' = Some (JStr ''set'')" "path_field ?o ''path'' = Some [k]" "rget ?o ''value'' = Some (JStr t)"
    | (delete) k where "rget ?o ''op'' = Some (JStr ''delete'')" "path_field ?o ''path'' = Some [k]"
    | (wrap) "rget ?o ''op'' = Some (JStr ''wrap'')"
    using flat_op_cases by blast
  then show ?thesis
  proof cases
    case set
    obtain s w1 where r: "resolveTemplate A c t w = (s, w1)" by (cases "resolveTemplate A c t w")
    obtain H' where "setPath H cur [k] (VStr s) = (True, H')"
      "represents cur H' (if k = ''__proto__'' \<and> rget fs k = None then fs else rset k (JStr s) fs)"
      using represents_set [OF assms(1)] by blast
    moreover have "\<not> js_falsy (rget ?o ''path'')"
      using set(2) by (auto simp: path_field_def split: option.splits json.splits if_splits)
    ultimately show ?thesis
      using set r by (simp add: json_op_def flat_step_def op_value_def sfield_def)
  next
    case delete
    obtain H' where "deletePath H cur [k] = (True, H')" "represents cur H' (rdel k fs)"
      using represents_delete [OF assms(1)] by blast
    with delete show ?thesis by (simp add: json_op_def flat_step_def)
  next
    case wrap
    with represents_wrap [OF assms(1)] show ?thesis by (simp add: json_op_def flat_step_def)
  qed
qed

lemma applyJsonOps_flat:
  assumes "represents cur H fs" and "list_all flat_op ops"
  shows "\<exists>cur' H' fs' w'. applyJsonOps X A c ops (cur, H, w) = (cur', H', w') \<and>
    fold (flat_step X A c) ops (fs, w) = (fs', w') \<and> represents cur' H' fs'"
  using assms
proof (induction ops arbitrary: cur H fs w)
  case (Cons oper ops)
  then obtain cur1 H1 fs1 w1 where s: "json_op X A c (json_obj oper) (cur, H, w) = (cur1, H1, w1)"
      "flat_step X A c oper (fs, w) = (fs1, w1)" "represents cur1 H1 fs1"
    using json_op_flat [of cur H fs oper X A c w] by auto
  with Cons.IH [OF s(3)] Cons.prems(2) show ?case by (simp add: applyJsonOps_def)
qed (simp add: applyJsonOps_def)

lemma represents_stringify: "represents cur H fs \<Longrightarrow> stringify_value H (VRef cur) = Some (JObj fs)"
  unfolding represents_def stringify_value_def
  using prints_obj [of cur H _ fs cur] by (auto simp: prints_def)

lemma load_represents: "load (JObj fs) [] = (v, H) \<Longrightarrow> represents (length H - 1) H fs"
proof -
  assume l: "load (JObj fs) [] = (v, H)"
  obtain xs H1 where f: "load_fields fs [] = (xs, H1)" by (cases "load_fields fs []")
  with l have H: "H = H1 @ [CObj xs]" by (auto simp: alloc_def)
  from load_prints(3) [OF f] have "fields_print (length H1) H1 xs fs" by blast
  then have "fields_print (length H1) H xs fs" by (rule fields_print_later) (simp_all add: H)
  then show ?thesis by (simp add: represents_def H)
qed

text \<open>
  C11. On a JSON object, a list of operations that set a top-level member to a text, delete a
  top-level member or wrap the body gives exactly the printed dictionary that the same updates
  give on the parsed object, with every template resolved once and in order. Setting
  \<open>__proto__\<close> updates it only where it is a member already.
\<close>

theorem run_ops_refines_dict:
  assumes "x_json_parse X body = Some (JObj fs)" and "list_all flat_op (parseJsonOps X raw)"
  shows "fst (run_ops X A raw body c w) =
    Some (x_json_str X (JObj (fst (fold (flat_step X A c) (parseJsonOps X raw) (fs, w)))))"
proof -
  obtain v H where l: "load (JObj fs) [] = (v, H)" by (cases "load (JObj fs) []")
  from applyJsonOps_flat [OF load_represents [OF l] assms(2)] obtain cur' H' fs' w' where
    "applyJsonOps X A c (parseJsonOps X raw) (length H - 1, H, w) = (cur', H', w')"
    "fold (flat_step X A c) (parseJsonOps X raw) (fs, w) = (fs', w')" "represents cur' H' fs'"
    by blast
  with assms(1) l show ?thesis by (simp add: run_ops_def represents_stringify del: load.simps)
qed

definition flat_ops_json :: json where
  "flat_ops_json = JArr [
     JObj [(''op'', JStr ''set''), (''path'', JStr ''$.user''), (''value'', JStr ''u-${ctx.userId}'')],
     JObj [(''op'', JStr ''delete''), (''path'', JStr ''$.secret'')],
     JObj [(''op'', JStr ''wrap''), (''key'', JStr ''payload'')]]"

definition flat_body :: jobj where
  "flat_body = [(''secret'', JStr ''s''), (''items'', JArr [JNum 1, JObj [(''id'', JNull)]])]"

definition flat_ext :: ext where
  "flat_ext = sample_ext\<lparr>x_json_parse := (\<lambda>s. if s = ''OPS'' then Some flat_ops_json else Some (JObj flat_body)),
     x_json_str := (\<lambda>j. case jget (json_obj j) ''payload'' of Some (JObj [_, (k, JStr s)]) \<Rightarrow> k @ ''='' @ s | _ \<Rightarrow> [])\<rparr>"

definition flat_ctx :: ctx where
  "flat_ctx = (createExecContext ''orders'' ''t1'' ''POST'' ''/orders'' ''shop.example'' ''203.0.113.9'' [] []
     None 0)\<lparr>c_userId := ''7''\<rparr>"

theorem run_ops_refines_dict_witness:
  "fst (run_ops flat_ext sample_config ''OPS'' ''BODY'' flat_ctx sample_io) = Some ''user=u-7''"
proof -
  have a: "x_json_parse flat_ext ''BODY'' = Some (JObj flat_body)" by (simp add: flat_ext_def)
  have b: "list_all flat_op (parseJsonOps flat_ext ''OPS'')"
    by code_simp
  have "x_json_str flat_ext (JObj (fst (fold (flat_step flat_ext sample_config flat_ctx) (parseJsonOps flat_ext ''OPS'') (flat_body, sample_io)))) = ''user=u-7''"
    by code_simp
  with run_ops_refines_dict [OF a b, of sample_config flat_ctx sample_io] show ?thesis by (simp only:)
qed

end
