(* ===== verification/Transform.thy ===== *)
theory Transform
  imports TransformFlat
begin

text \<open>
  \<open>gateway/src/pipeline/plugins/transform/index.ts\<close>: the plugin that runs the header, query
  and body transformations of its phase and injects the standard headers.
\<close>

section \<open>The code\<close>

definition switched_on :: "dict \<Rightarrow> string \<Rightarrow> bool" where
  "switched_on cfg k = (rget cfg k \<noteq> Some ''false'')"

definition injectStandardHeaders :: "dict \<Rightarrow> ctx \<Rightarrow> 'd io \<Rightarrow> ctx \<times> 'd io" where
  "injectStandardHeaders cfg c w =
     (let (c1, w1) =
            (if switched_on cfg ''inject_request_id'' \<and> \<not> truthy (rget (c_requestHeaders c) ''x-request-id'')
             then (let (u, w1) = fresh_random w in (set_request_header ''x-request-id'' u c, w1)) else (c, w));
          c2 = (if switched_on cfg ''inject_forwarded_for'' \<and> c_clientIp c1 \<noteq> []
                then (let existing = rget (c_requestHeaders c1) ''x-forwarded-for''
                      in set_request_header ''x-forwarded-for''
                           (if truthy existing then str_of existing @ '', '' @ c_clientIp c1 else c_clientIp c1) c1)
                else c1);
          c3 = (if switched_on cfg ''inject_gateway_id'' then set_request_header ''x-gateway'' ''xCloudAPIM'' c2 else c2)
      in (c3, w1))"

definition transformPlugin :: "'d plugin" where
  "transformPlugin X R A cfg c w =
     (if c_phase c = ''pre_request''
      then (case transformRequestHeaders X A cfg c w of
              (Some e, c1, w1) \<Rightarrow> (Some e, c1, w1)
            | (None, c1, w1) \<Rightarrow>
                (let (c2, w2) = transformQueryParams A cfg c1 w1;
                     (c3, w3) = transformRequestBody X A cfg c2 w2;
                     (c4, w4) = injectStandardHeaders cfg c3 w3
                 in done_with c4 w4))
      else if c_phase c = ''post_response''
      then (case transformResponseHeaders X A cfg c w of
              (Some e, c1, w1) \<Rightarrow> (Some e, c1, w1)
            | (None, c1, w1) \<Rightarrow> (let (c2, w2) = transformResponseBody X A cfg c1 w1 in done_with c2 w2))
      else done_with c w)"

section \<open>Templates read nothing of the environment but the allowed names\<close>

lemma op_value_env: "same_env A B \<Longrightarrow> op_value A c obj H w = op_value B c obj H w"
  by (simp add: op_value_def resolveTemplate_env split: option.splits json.splits)

lemma json_op_env: "same_env A B \<Longrightarrow> json_op X A c obj s = json_op X B c obj s"
  unfolding json_op_def op_value_env by (rule refl)

lemma applyJsonOps_env: "same_env A B \<Longrightarrow> applyJsonOps X A c ops s = applyJsonOps X B c ops s"
  by (induction ops arbitrary: s) (simp_all add: applyJsonOps_def json_op_env)

lemma body_ops_env: "same_env A B \<Longrightarrow> body_ops X A cfg ok tk b ct c w = body_ops X B cfg ok tk b ct c w"
  by (simp add: body_ops_def run_ops_def applyJsonOps_env split: option.splits json.splits)

text \<open>
  C16. The process environment cannot leak through a transformation: whatever templates the
  configuration holds, the plugin computes the same under two environments that agree on the
  four allowed names, in headers, query and body, and throws the same.
\<close>

theorem transform_env_safe:
  assumes "\<And>k. k \<in> set ENV_ALLOW_LIST \<Longrightarrow> rget (cfg_env A) k = rget (cfg_env B) k"
  shows "transformPlugin X R A cfg c w = transformPlugin X R B cfg c w"
proof -
  have e: "same_env A B" using assms by (simp add: same_env_def)
  show ?thesis
    unfolding transformPlugin_def transformRequestHeaders_def transformResponseHeaders_def
        transformQueryParams_def transformRequestBody_def transformResponseBody_def
        applyOps_env [OF e] add_query_env [OF e] body_ops_env [OF e]
    by (rule refl)
qed

definition secret_config :: config where
  "secret_config = sample_config\<lparr>cfg_env := [(''REGION'', ''eu''), (''REDIS_PASSWORD'', ''hunter2'')]\<rparr>"

definition public_config :: config where
  "public_config = sample_config\<lparr>cfg_env := [(''REGION'', ''eu'')]\<rparr>"

definition leaky_cfg :: dict where
  "leaky_cfg = [(''request_headers'', ''set:X-R:${env.REGION};set:X-P:${env.REDIS_PASSWORD}'')]"

definition transform_ctx :: ctx where
  "transform_ctx = (createExecContext ''orders'' ''t1'' ''GET'' ''/orders'' ''shop.example'' ''203.0.113.9'' [] []
     None 0)\<lparr>c_phase := ''pre_request''\<rparr>"

theorem transform_env_safe_witness:
  "let h = c_requestHeaders (fst (snd (transformPlugin sample_ext mem_redis secret_config leaky_cfg transform_ctx sample_io)))
   in rget h ''x-r'' = Some ''eu'' \<and> rget h ''x-p'' = Some []"
proof -
  have "rget (cfg_env secret_config) k = rget (cfg_env public_config) k" if "k \<in> set ENV_ALLOW_LIST" for k
    using that by (auto simp: ENV_ALLOW_LIST_def secret_config_def public_config_def)
  then have e: "transformPlugin sample_ext mem_redis secret_config leaky_cfg transform_ctx sample_io =
      transformPlugin sample_ext mem_redis public_config leaky_cfg transform_ctx sample_io"
    by (rule transform_env_safe)
  have "let h = c_requestHeaders (fst (snd (transformPlugin sample_ext mem_redis public_config leaky_cfg transform_ctx sample_io)))
    in rget h ''x-r'' = Some ''eu'' \<and> rget h ''x-p'' = Some []"
    by code_simp
  then show ?thesis by (simp only: e)
qed

section \<open>What the plugin leaves alone\<close>

text \<open>Fields that no transformation touches.\<close>

definition same_outcome :: "ctx \<Rightarrow> ctx \<Rightarrow> bool" where
  "same_outcome c c' \<longleftrightarrow> c_aborted c' = c_aborted c \<and> c_cacheHit c' = c_cacheHit c \<and>
     c_statusCode c' = c_statusCode c \<and> c_apiId c' = c_apiId c \<and> c_path c' = c_path c \<and>
     c_abortCode c' = c_abortCode c"

lemma same_outcome_refl [simp]: "same_outcome c c"
  by (simp add: same_outcome_def)

lemma same_outcome_trans: "same_outcome c c1 \<Longrightarrow> same_outcome c1 c2 \<Longrightarrow> same_outcome c c2"
  by (simp add: same_outcome_def)

lemma same_outcome_updates [simp]:
  "same_outcome c (with_headers req h c') = same_outcome c c'"
  "same_outcome c (c'\<lparr>c_queryParams := q\<rparr>) = same_outcome c c'"
  "same_outcome c (c'\<lparr>c_requestBody := b\<rparr>) = same_outcome c c'"
  "same_outcome c (c'\<lparr>c_responseBody := b\<rparr>) = same_outcome c c'"
  "same_outcome c (set_request_header k v c') = same_outcome c c'"
  "same_outcome c (set_response_header k v c') = same_outcome c c'"
  by (simp_all add: same_outcome_def with_headers_def set_request_header_def set_response_header_def)

text \<open>The loops, with the context they started from kept fixed.\<close>

lemma applyOps_outcome_gen: "same_outcome c0 c \<Longrightarrow> same_outcome c0 (fst (snd (applyOps req A ops c w)))"
proof (induction ops arbitrary: c w)
  case (Cons oper ops)
  then show ?case by (simp split: sum.split option.split json.split prod.split)
qed simp

lemma applyOps_outcome: "applyOps req A ops c w = (e, c', w') \<Longrightarrow> same_outcome c c'"
  using applyOps_outcome_gen [of c c req A ops w] by simp

lemma add_query_outcome_gen: "same_outcome c0 c \<Longrightarrow> same_outcome c0 (fst (add_query A kvs c w))"
  by (induction kvs arbitrary: c w) (simp_all add: Let_def split: option.split prod.split)

lemma transformQueryParams_outcome: "same_outcome c (fst (transformQueryParams A cfg c w))"
  by (auto simp: transformQueryParams_def Let_def intro!: add_query_outcome_gen)

lemma transformBody_outcome:
  "same_outcome c (fst (transformRequestBody X A cfg c w))" "same_outcome c (fst (transformResponseBody X A cfg c w))"
  by (simp_all add: transformRequestBody_def transformResponseBody_def split: prod.split option.split)

lemma injectStandardHeaders_outcome: "same_outcome c (fst (injectStandardHeaders cfg c w))"
  by (simp add: injectStandardHeaders_def Let_def fresh_random_def)

lemma transformHeaders_outcome:
  "transformRequestHeaders X A cfg c w = (e, c', w') \<Longrightarrow> same_outcome c c'"
  "transformResponseHeaders X A cfg c w = (e, c', w') \<Longrightarrow> same_outcome c c'"
  by (auto simp: transformRequestHeaders_def transformResponseHeaders_def intro: applyOps_outcome split: if_splits)

lemma transform_request_outcome:
  "same_outcome c (fst (injectStandardHeaders cfg (fst (transformRequestBody X A cfg
     (fst (transformQueryParams A cfg c w)) w1)) w2))"
  by (rule same_outcome_trans [OF transformQueryParams_outcome
        same_outcome_trans [OF transformBody_outcome(1) injectStandardHeaders_outcome]])

lemma transformPlugin_outcome: "same_outcome c (fst (snd (transformPlugin X R A cfg c w)))"
proof (cases "c_phase c = ''pre_request''")
  case True
  obtain e c1 w1 where h: "transformRequestHeaders X A cfg c w = (e, c1, w1)"
    by (cases "transformRequestHeaders X A cfg c w")
  from transformHeaders_outcome(1) [OF h] True h show ?thesis
    by (cases e) (auto simp: transformPlugin_def Let_def split_beta intro: same_outcome_trans transform_request_outcome)
next
  case False
  obtain e c1 w1 where h: "transformResponseHeaders X A cfg c w = (e, c1, w1)"
    by (cases "transformResponseHeaders X A cfg c w")
  from transformHeaders_outcome(2) [OF h] False h show ?thesis
    by (cases e) (auto simp: transformPlugin_def Let_def split_beta intro: same_outcome_trans transformBody_outcome(2))
qed

end
