(* ===== verification/CachePlugin.thy ===== *)
theory CachePlugin
  imports Fetch
begin

text \<open>
  \<open>gateway/src/pipeline/plugins/cache.ts\<close>: the response cache in Redis. The plugin runs
  before the upstream call (status 0) to answer from the cache, and after it to fill it.
  An entry is stored as JSON with the body in base64. A stored entry without a numeric status
  reads as status 0; every other unreadable entry throws, which the plugin swallows after
  what it has done so far. Redis rejects an expiry that is not positive.
\<close>

section \<open>The code\<close>

definition CACHEABLE_METHODS :: "string list" where
  "CACHEABLE_METHODS = [''GET'', ''HEAD'']"

definition vary_parts :: "dict \<Rightarrow> string list \<Rightarrow> string list" where
  "vary_parts headers names =
     List.map_filter (\<lambda>h. let v = rget headers (js_lower h)
                          in if truthy v then Some (h @ ''='' @ str_of v) else None) names"

definition key_parts :: "ctx \<Rightarrow> dict \<Rightarrow> string list" where
  "key_parts c cfg =
     (let keyBy = orelse (rget cfg ''key_by'') ''path''
      in [''cache'', c_apiId c, c_path c]
         @ (if keyBy = ''path_method'' then [c_method c] else [])
         @ (if keyBy = ''path_method_client'' then [c_method c, c_clientId c] else [])
         @ (if truthy (rget cfg ''vary_headers'')
            then vary_parts (c_requestHeaders c) (map js_trim (split_on (CHR '','') (str_of (rget cfg ''vary_headers''))))
            else []))"

definition buildKey :: "ext \<Rightarrow> ctx \<Rightarrow> dict \<Rightarrow> string" where
  "buildKey X c cfg =
     (let hash = take 16 (x_sha256 X (join_with '':'' (key_parts c cfg)))
      in ''cache:'' @ c_apiId c @ '':'' @ hash)"

record cache_entry =
  ce_status :: int
  ce_headers :: dict
  ce_body :: string

definition encode_entry :: "cache_entry \<Rightarrow> json" where
  "encode_entry en = JObj [(''status'', JNum (of_int (ce_status en))),
     (''headers'', JObj (map (\<lambda>(k, v). (k, JStr v)) (ce_headers en))), (''body'', JStr (ce_body en))]"

definition header_values :: "jobj \<Rightarrow> dict" where
  "header_values obj = List.map_filter (\<lambda>(k, v). map_option (\<lambda>s. (k, s)) (json_string v)) obj"

definition json_status :: "jobj \<Rightarrow> int" where
  "json_status obj = (case rget obj ''status'' of Some (JNum r) \<Rightarrow> \<lfloor>r\<rfloor> | _ \<Rightarrow> 0)"

text \<open>The statements of the hit, in order; a throw ends them where it happens.\<close>

definition cache_hit :: "ext \<Rightarrow> json \<Rightarrow> ctx \<Rightarrow> ctx" where
  "cache_hit X v c =
     (let c1 = c\<lparr>c_cacheHit := True\<rparr>
      in case sfield (json_obj v) ''body'' of
           None \<Rightarrow> c1
         | Some body \<Rightarrow>
             (let status = json_status (json_obj v);
                  c2 = c1\<lparr>c_responseBody := Some (x_b64_dec X body), c_statusCode := status\<rparr>
              in case rget (json_obj v) ''headers'' of
                   Some (JObj hs) \<Rightarrow>
                     (let c3 = c2\<lparr>c_responseHeaders := fold (\<lambda>(k, s). rset k s) (header_values hs) (c_responseHeaders c2)\<rparr>
                      in abort (set_response_header ''x-cache'' ''HIT'' c3) status [])
                 | _ \<Rightarrow> c2))"

definition cache_read :: "ext \<Rightarrow> 'd redis \<Rightarrow> string \<Rightarrow> ctx \<Rightarrow> 'd io \<Rightarrow> ctx \<times> 'd io" where
  "cache_read X R cacheKey c w =
     (case redis_read (\<lambda>t d. r_get R t d cacheKey) w of
        (Inl e, w1) \<Rightarrow> (c, w1)
      | (Inr raw, w1) \<Rightarrow>
          (if truthy raw
           then (case x_json_parse X (str_of raw) of
                   None \<Rightarrow> (c, w1) | Some v \<Rightarrow> (cache_hit X v c, w1))
           else (set_response_header ''x-cache'' ''MISS'' c, w1)))"

definition cache_write :: "ext \<Rightarrow> 'd redis \<Rightarrow> string \<Rightarrow> int \<Rightarrow> ctx \<Rightarrow> 'd io \<Rightarrow> 'd io" where
  "cache_write X R cacheKey ttlSec c w =
     (if 200 \<le> c_statusCode c \<and> c_statusCode c < 300 \<and> c_responseBody c \<noteq> None
      then (let en = \<lparr>ce_status = c_statusCode c, ce_headers = c_responseHeaders c,
                      ce_body = x_b64_enc X (str_of (c_responseBody c))\<rparr>
            in if 0 < ttlSec
               then snd (redis_write (\<lambda>t. r_setex R t cacheKey (x_json_str X (encode_entry en)) ttlSec) w)
               else w)
      else w)"

definition cache_ttl :: "dict \<Rightarrow> int" where
  "cache_ttl cfg =
     (case parse_int (orelse (rget cfg ''ttl'') ''60'') of None \<Rightarrow> 60 | Some n \<Rightarrow> if n = 0 then 60 else n)"

definition cache_bypass :: "dict \<Rightarrow> ctx \<Rightarrow> bool" where
  "cache_bypass cfg c =
     (rget cfg ''bypass_if'' = Some ''no-cache'' \<and>
      (let cc = js_lower (orelse (rget (c_requestHeaders c) ''cache-control'') [])
       in str_includes cc ''no-cache'' \<or> str_includes cc ''no-store''))"

definition cache :: "'d plugin" where
  "cache X R A cfg c w =
     (if js_upper (c_method c) \<notin> set CACHEABLE_METHODS then done_with c w
      else if cache_bypass cfg c then done_with c w
      else (let ttlSec = cache_ttl cfg; cacheKey = buildKey X c cfg
            in if c_statusCode c = 0
               then (let (c1, w1) = cache_read X R cacheKey c w in done_with c1 w1)
               else done_with c (cache_write X R cacheKey ttlSec c w)))"

section \<open>Writing and reading back\<close>

lemma header_values_encode [simp]: "header_values (map (\<lambda>(k, v). (k, JStr v)) h) = h"
  by (induction h) (auto simp: header_values_def List.map_filter_def)

lemma cache_hit_encode:
  "cache_hit X (encode_entry en) c =
     abort (set_response_header ''x-cache'' ''HIT''
       (c\<lparr>c_cacheHit := True, c_responseBody := Some (x_b64_dec X (ce_body en)), c_statusCode := ce_status en,
          c_responseHeaders := fold (\<lambda>(k, s). rset k s) (ce_headers en) (c_responseHeaders c)\<rparr>))
       (ce_status en) []"
  by (simp add: cache_hit_def encode_entry_def sfield_def json_status_def Let_def)

lemma rget_fold_rset:
  "distinct (map fst h) \<Longrightarrow> rget (fold (\<lambda>(k, s). rset k s) h d) k = orelse_opt (rget h k) (rget d k)"
proof (induction h arbitrary: d)
  case (Cons p h)
  obtain a b where p: "p = (a, b)" by (cases p)
  have "rget h a = None" using Cons.prems by (simp add: p rget_None_iff)
  with Cons show ?case by (auto simp: p)
qed simp

text \<open>Requests the plugin looks at, and responses it stores.\<close>

definition cacheable :: "dict \<Rightarrow> ctx \<Rightarrow> bool" where
  "cacheable cfg c = (js_upper (c_method c) \<in> set CACHEABLE_METHODS \<and> \<not> cache_bypass cfg c)"

definition storable :: "ctx \<Rightarrow> bool" where
  "storable c = (200 \<le> c_statusCode c \<and> c_statusCode c < 300 \<and> c_responseBody c \<noteq> None)"

definition stored_entry :: "ext \<Rightarrow> ctx \<Rightarrow> cache_entry" where
  "stored_entry X c = \<lparr>ce_status = c_statusCode c, ce_headers = c_responseHeaders c,
     ce_body = x_b64_enc X (str_of (c_responseBody c))\<rparr>"

text \<open>
  A successful response stored by one request answers a later one with the same key
  within the time to live: same status, same body, every stored header, and a mark that it
  came from the cache.
\<close>

theorem cache_roundtrip:
  assumes "redis_server R obj" and "quiet w" and "quiet w2"
    and "cacheable cfg c" and "cacheable cfg c2" and "storable c" and "c_statusCode c2 = 0"
    and "buildKey X c2 cfg = buildKey X c cfg" and "0 < cache_ttl cfg"
    and "distinct (map fst (c_responseHeaders c))" and "rget (c_responseHeaders c) ''x-cache'' = None"
    and "x_b64_dec X (x_b64_enc X (str_of (c_responseBody c))) = str_of (c_responseBody c)"
    and "x_json_str X (encode_entry (stored_entry X c)) \<noteq> []"
    and "x_json_parse X (x_json_str X (encode_entry (stored_entry X c))) = Some (encode_entry (stored_entry X c))"
    and "io_data w2 = io_data (snd (snd (cache X R A cfg c w)))"
    and "io_rtime w 0 \<le> io_rtime w2 0" and "io_rtime w2 0 < io_rtime w 0 + 1000 * cache_ttl cfg"
    and "c3 = fst (snd (cache X R A cfg c2 w2))"
  shows "c_cacheHit c3 \<and> c_statusCode c3 = c_statusCode c \<and> c_responseBody c3 = c_responseBody c \<and>
    rget (c_responseHeaders c3) ''x-cache'' = Some ''HIT'' \<and>
    (\<forall>k v. rget (c_responseHeaders c) k = Some v \<longrightarrow> rget (c_responseHeaders c3) k = Some v)"
proof -
  define v where "v = x_json_str X (encode_entry (stored_entry X c))"
  from assms(6) have st: "c_statusCode c \<noteq> 0" "Some (str_of (c_responseBody c)) = c_responseBody c"
    by (auto simp: storable_def)
  have "snd (snd (cache X R A cfg c w)) =
      snd (redis_write (\<lambda>t. r_setex R t (buildKey X c cfg) v (cache_ttl cfg)) w)"
    using assms(4,6,9) st(1)
    by (simp add: cache_def cacheable_def cache_write_def storable_def stored_entry_def v_def Let_def)
  then have d: "io_data w2 = r_setex R (io_rtime w 0) (buildKey X c cfg) v (cache_ttl cfg) (io_data w)"
    using assms(2,15) by (simp add: redis_write_def redis_call_quiet)
  have "r_get R (io_rtime w2 0) (io_data w2) (buildKey X c cfg) = Some v"
    unfolding d by (rule redis_server.get_setex [OF assms(1,16,17,9)])
  then have "fst (cache_read X R (buildKey X c cfg) c2 w2) = cache_hit X (encode_entry (stored_entry X c)) c2"
    using assms(3,13,14) by (simp add: cache_read_def redis_read_def redis_call_quiet v_def)
  then have "c3 = cache_hit X (encode_entry (stored_entry X c)) c2"
    using assms(5,7,8,18) by (simp add: cache_def cacheable_def Let_def split_beta)
  moreover have "rget (fold (\<lambda>(k, s). rset k s) (c_responseHeaders c) h) k =
      orelse_opt (rget (c_responseHeaders c) k) (rget h k)" for h k
    using assms(10) by (rule rget_fold_rset)
  ultimately show ?thesis
    using assms(11,12) st(2) by (auto simp: cache_hit_encode stored_entry_def)
qed

text \<open>
  A HEAD request to \<open>/orders?page=1\<close> fills the cache, a GET to \<open>/orders?page=2\<close> is answered
  from it.
\<close>

definition sample_head :: ctx where
  "sample_head = (createExecContext ''orders'' ''t1'' ''HEAD'' ''/orders'' ''api.test'' ''10.1.2.3'' []
     [(''page'', ''1'')] None 0)\<lparr>c_statusCode := 200, c_responseBody := Some [],
       c_responseHeaders := [(''etag'', ''x'')]\<rparr>"

definition sample_get :: ctx where
  "sample_get = createExecContext ''orders'' ''t2'' ''GET'' ''/orders'' ''api.test'' ''10.9.9.9'' []
     [(''page'', ''2'')] None 0"

definition sample_cache_ext :: ext where
  "sample_cache_ext = sample_ext\<lparr>x_json_str := \<lambda>_. ''entry'',
     x_json_parse := \<lambda>_. Some (encode_entry (stored_entry sample_ext sample_head))\<rparr>"

definition sample_cache_world :: "mem io" where
  "sample_cache_world = sample_io\<lparr>io_rtime := \<lambda>_. 59000,
     io_data := io_data (snd (snd (cache sample_cache_ext mem_redis sample_config [] sample_head sample_io)))\<rparr>"

theorem cache_roundtrip_witness:
  "let c3 = fst (snd (cache sample_cache_ext mem_redis sample_config [] sample_get sample_cache_world))
   in c_cacheHit c3 \<and> c_statusCode c3 = 200 \<and> c_responseBody c3 = Some [] \<and>
      rget (c_responseHeaders c3) ''x-cache'' = Some ''HIT''"
proof -
  have q: "quiet sample_io" "quiet sample_cache_world"
    by (simp_all add: quiet_def sample_cache_world_def sample_io_def)
  have c: "cacheable [] sample_head" "cacheable [] sample_get" "storable sample_head" "c_statusCode sample_get = 0"
      "buildKey sample_cache_ext sample_get [] = buildKey sample_cache_ext sample_head []" "cache_ttl [] = 60"
      "rget (c_responseHeaders sample_head) ''x-cache'' = None" "c_responseBody sample_head = Some []"
      "c_statusCode sample_head = 200"
    by code_simp+
  have h: "distinct (map fst (c_responseHeaders sample_head))"
    by (simp add: sample_head_def)
  have x: "x_b64_dec sample_cache_ext s = s" "x_b64_enc sample_cache_ext s = s"
      "x_json_str sample_cache_ext j = ''entry''"
      "x_json_parse sample_cache_ext s = Some (encode_entry (stored_entry sample_ext sample_head))"
      "stored_entry sample_cache_ext sample_head = stored_entry sample_ext sample_head" for s j
    by (simp_all add: sample_cache_ext_def sample_ext_def stored_entry_def)
  have t: "io_rtime sample_io 0 \<le> io_rtime sample_cache_world 0"
      "io_rtime sample_cache_world 0 < io_rtime sample_io 0 + 1000 * cache_ttl []"
      "io_data sample_cache_world = io_data (snd (snd (cache sample_cache_ext mem_redis sample_config [] sample_head sample_io)))"
    by (simp_all add: sample_cache_world_def sample_io_def c)
  show ?thesis
    unfolding Let_def
    using cache_roundtrip [OF mem.redis_server_axioms q c(1-5) _ h c(7) _ _ _ t(3,1,2) refl]
    by (simp add: c x)
qed

section \<open>What the key leaves out\<close>

text \<open>
  With the default key the method, the client and the query of a request do not reach
  the cache key: requests that differ only there share one entry.
\<close>

theorem cache_key_shared:
  assumes "orelse (rget cfg ''key_by'') ''path'' \<notin> {''path_method'', ''path_method_client''}"
  shows "buildKey X (c\<lparr>c_method := m, c_clientId := client, c_queryParams := query\<rparr>) cfg = buildKey X c cfg"
  using assms by (simp add: buildKey_def key_parts_def Let_def)

theorem cache_key_shared_witness:
  "buildKey sample_ext (sample_get\<lparr>c_method := ''HEAD'', c_clientId := ''c2'', c_queryParams := [(''page'', ''9'')]\<rparr>) []
   = buildKey sample_ext sample_get []"
  by (rule cache_key_shared) simp

end
