(* ===== verification/CircuitBreaker.thy ===== *)
theory CircuitBreaker
  imports ExecTypes
begin

text \<open>
  \<open>gateway/src/pipeline/plugins/circuit-breaker.ts\<close>: the breaker kept in five Redis keys
  per API. A configuration or a stored value that is no number is \<open>NaN\<close>, here \<open>None\<close>; every
  comparison with it is false, and as an expiry Redis rejects it. The failure rate is
  computed exactly (the code divides doubles). A rejected command makes the plugin throw
  where it stands, except in \<open>Promise.all\<close>, whose commands have all been sent.
\<close>

section \<open>The code\<close>

definition cb_number :: "dict \<Rightarrow> string \<Rightarrow> string \<Rightarrow> int option" where
  "cb_number cfg k dflt = parse_int (orelse (rget cfg k) dflt)"

definition num_ge :: "int option \<Rightarrow> int option \<Rightarrow> bool" where
  "num_ge a b = (case (a, b) of (Some x, Some y) \<Rightarrow> y \<le> x | _ \<Rightarrow> False)"

definition num_gt :: "int option \<Rightarrow> int option \<Rightarrow> bool" where
  "num_gt a b = (case (a, b) of (Some x, Some y) \<Rightarrow> y < x | _ \<Rightarrow> False)"

definition stateKey :: "string \<Rightarrow> string" where
  "stateKey apiId = ''cb:state:'' @ apiId"
definition openAtKey :: "string \<Rightarrow> string" where
  "openAtKey apiId = ''cb:open_at:'' @ apiId"
definition failKey :: "string \<Rightarrow> string" where
  "failKey apiId = ''cb:fail:'' @ apiId"
definition totalKey :: "string \<Rightarrow> string" where
  "totalKey apiId = ''cb:total:'' @ apiId"
definition halfKey :: "string \<Rightarrow> string" where
  "halfKey apiId = ''cb:half:'' @ apiId"

text \<open>\<open>redis.expire(key, seconds)\<close>; an expiry in the past deletes the key.\<close>

definition redis_expire :: "'d redis \<Rightarrow> string \<Rightarrow> int option \<Rightarrow> 'd io \<Rightarrow> (exn + unit) \<times> 'd io" where
  "redis_expire R key secs w =
     (case secs of
        None \<Rightarrow> (Inl (JsError ''ReplyError'' []), w)
      | Some s \<Rightarrow> redis_write (\<lambda>t. if 0 < s then r_pexpire R t key (1000 * s) else r_del R t key) w)"

text \<open>All commands are sent; the first rejection is thrown.\<close>

definition promise_all :: "(int \<Rightarrow> 'd \<Rightarrow> 'd) list \<Rightarrow> 'd io \<Rightarrow> (exn + unit) \<times> 'd io" where
  "promise_all fs w =
     fold (\<lambda>f (r, w). let (r', w') = redis_write f w
                      in (case r of Inl e \<Rightarrow> Inl e | Inr _ \<Rightarrow> r', w')) fs (Inr (), w)"

definition cb_open ::
  "'d redis \<Rightarrow> int option \<Rightarrow> ctx \<Rightarrow> 'd io \<Rightarrow> exn option \<times> ctx \<times> 'd io" where
  "cb_open R timeoutSec c w =
     (let apiId = c_apiId c
      in case redis_read (\<lambda>t d. r_get R t d (openAtKey apiId)) w of
           (Inl e, w1) \<Rightarrow> (Some e, c, w1)
         | (Inr v, w1) \<Rightarrow>
             (let openAt = parse_int (orelse v ''0'');
                  (now, w2) = date_now w1;
                  nowSec = now div 1000
              in if num_ge (map_option (\<lambda>a. nowSec - a) openAt) timeoutSec
                 then (case redis_write (\<lambda>t. r_set R t (stateKey apiId) ''half_open'') w2 of
                         (Inl e, w3) \<Rightarrow> (Some e, c, w3)
                       | (Inr _, w3) \<Rightarrow>
                           (case redis_write (\<lambda>t. r_del R t (halfKey apiId)) w3 of
                              (Inl e, w4) \<Rightarrow> (Some e, c, w4)
                            | (Inr _, w4) \<Rightarrow> done_with (set_request_header ''x-circuit-breaker'' ''half_open'' c) w4))
                 else done_with (abort c 503 ''circuit breaker open: service unavailable'') w2))"

definition cb_half_open ::
  "'d redis \<Rightarrow> int option \<Rightarrow> int option \<Rightarrow> ctx \<Rightarrow> 'd io \<Rightarrow> exn option \<times> ctx \<times> 'd io" where
  "cb_half_open R timeoutSec halfOpenMax c w =
     (let apiId = c_apiId c
      in case redis_call (\<lambda>t. r_incr R t (halfKey apiId)) w of
           (Inl e, w1) \<Rightarrow> (Some e, c, w1)
         | (Inr n, w1) \<Rightarrow>
             (case redis_expire R (halfKey apiId) timeoutSec w1 of
                (Inl e, w2) \<Rightarrow> (Some e, c, w2)
              | (Inr _, w2) \<Rightarrow>
                  (if num_gt (Some n) halfOpenMax
                   then done_with (abort c 503 ''circuit breaker half-open: probe limit reached'') w2
                   else done_with (set_request_header ''x-circuit-breaker'' ''half_open_probe'' c) w2)))"

text \<open>\<open>Math.floor((fails / total) * 100)\<close>; a total of zero gives an infinite rate.\<close>

definition rate_reached :: "int \<Rightarrow> int option \<Rightarrow> int option \<Rightarrow> bool" where
  "rate_reached fails totalVal errThreshold =
     (case (totalVal, errThreshold) of
        (Some t, Some e) \<Rightarrow> (if t = 0 then 0 < fails else e \<le> \<lfloor>(of_int fails / of_int t :: rat) * 100\<rfloor>)
      | _ \<Rightarrow> False)"

definition cb_failure ::
  "'d redis \<Rightarrow> int option \<Rightarrow> int option \<Rightarrow> int option \<Rightarrow> ctx \<Rightarrow> 'd io \<Rightarrow> exn option \<times> ctx \<times> 'd io" where
  "cb_failure R threshold windowSec errThreshold c w =
     (let apiId = c_apiId c
      in case redis_call (\<lambda>t. r_incr R t (failKey apiId)) w of
           (Inl e, w1) \<Rightarrow> (Some e, c, w1)
         | (Inr fails, w1) \<Rightarrow>
             (case redis_expire R (failKey apiId) windowSec w1 of
                (Inl e, w2) \<Rightarrow> (Some e, c, w2)
              | (Inr _, w2) \<Rightarrow>
                  (case redis_read (\<lambda>t d. r_get R t d (totalKey apiId)) w2 of
                     (Inl e, w3) \<Rightarrow> (Some e, c, w3)
                   | (Inr v, w3) \<Rightarrow>
                       (let totalVal = parse_int (orelse v ''1'')
                        in if num_ge (Some fails) threshold \<or> rate_reached fails totalVal errThreshold
                           then (let (now, w4) = date_now w3
                                 in case promise_all
                                   [\<lambda>t. r_set R t (stateKey apiId) ''open'',
                                    \<lambda>t. r_set R t (openAtKey apiId) (show_int (now div 1000)),
                                    \<lambda>t. r_del R t (failKey apiId),
                                    \<lambda>t. r_del R t (totalKey apiId)] w4 of
                                      (Inl e, w5) \<Rightarrow> (Some e, c, w5)
                                    | (Inr _, w5) \<Rightarrow> done_with c w5)
                           else done_with c w3))))"

text \<open>The reset after a successful probe; one \<open>DEL\<close> removes four keys.\<close>

definition cb_reset :: "'d redis \<Rightarrow> ctx \<Rightarrow> 'd io \<Rightarrow> exn option \<times> ctx \<times> 'd io" where
  "cb_reset R c w =
     (let apiId = c_apiId c
      in case promise_all
        [\<lambda>t. r_set R t (stateKey apiId) ''closed'',
         \<lambda>t d. r_del R t (openAtKey apiId) (r_del R t (halfKey apiId)
                 (r_del R t (totalKey apiId) (r_del R t (failKey apiId) d)))] w of
           (Inl e, w1) \<Rightarrow> (Some e, c, w1)
         | (Inr _, w1) \<Rightarrow> done_with c w1)"

definition cb_closed ::
  "'d redis \<Rightarrow> int option \<Rightarrow> int option \<Rightarrow> int option \<Rightarrow> ctx \<Rightarrow> 'd io \<Rightarrow> exn option \<times> ctx \<times> 'd io" where
  "cb_closed R threshold windowSec errThreshold c w =
     (let apiId = c_apiId c
      in if c_statusCode c = 0 then done_with c w
         else case redis_call (\<lambda>t. r_incr R t (totalKey apiId)) w of
                (Inl e, w1) \<Rightarrow> (Some e, c, w1)
              | (Inr _, w1) \<Rightarrow>
                  (case redis_expire R (totalKey apiId) windowSec w1 of
                     (Inl e, w2) \<Rightarrow> (Some e, c, w2)
                   | (Inr _, w2) \<Rightarrow>
                       (if 500 \<le> c_statusCode c then cb_failure R threshold windowSec errThreshold c w2
                        else if rget (c_requestHeaders c) ''x-circuit-breaker'' = Some ''half_open_probe''
                        then cb_reset R c w2
                        else done_with c w2)))"

definition circuitBreaker :: "'d plugin" where
  "circuitBreaker X R A cfg c w =
     (let threshold = cb_number cfg ''threshold'' ''5'';
          timeoutSec = cb_number cfg ''timeout'' ''30'';
          halfOpenMax = cb_number cfg ''half_open_max'' ''2'';
          windowSec = cb_number cfg ''window'' ''60'';
          errThreshold = cb_number cfg ''error_threshold'' ''50''
      in case redis_read (\<lambda>t d. r_get R t d (stateKey (c_apiId c))) w of
           (Inl e, w1) \<Rightarrow> (Some e, c, w1)
         | (Inr stateVal, w1) \<Rightarrow>
             (if stateVal = Some ''open'' then cb_open R timeoutSec c w1
              else if stateVal = Some ''half_open'' then cb_half_open R timeoutSec halfOpenMax c w1
              else cb_closed R threshold windowSec errThreshold c w1))"

section \<open>Single requests\<close>

lemma cb_keys [simp]:
  "stateKey a \<noteq> openAtKey b" "stateKey a \<noteq> failKey b" "stateKey a \<noteq> totalKey b" "stateKey a \<noteq> halfKey b"
  "openAtKey a \<noteq> stateKey b" "failKey a \<noteq> stateKey b" "totalKey a \<noteq> stateKey b" "halfKey a \<noteq> stateKey b"
  "openAtKey a \<noteq> failKey b" "openAtKey a \<noteq> totalKey b" "openAtKey a \<noteq> halfKey b"
  "failKey a \<noteq> openAtKey b" "totalKey a \<noteq> openAtKey b" "halfKey a \<noteq> openAtKey b"
  "failKey a \<noteq> totalKey b" "totalKey a \<noteq> failKey b" "failKey a \<noteq> halfKey b" "halfKey a \<noteq> failKey b"
  "totalKey a \<noteq> halfKey b" "halfKey a \<noteq> totalKey b"
  by (simp_all add: stateKey_def openAtKey_def failKey_def totalKey_def halfKey_def)

lemmas quiet_commands = redis_read_def redis_write_def redis_call_quiet date_now_def

definition sample_ctx0 :: ctx where
  "sample_ctx0 = createExecContext ''orders'' ''t'' ''GET'' ''/'' ''api.test'' ''10.1.2.3'' [] [] None 0"

definition sample_open :: mem where
  "sample_open = (\<lambda>_. None)(stateKey ''orders'' := Some (RStr ''open'', None),
     openAtKey ''orders'' := Some (RStr (show_int 15), None))"

text \<open>
  While the breaker is open and its timeout has not passed, a request is refused with 503
  and nothing is written; once it has passed, the request goes on and the breaker is
  half-open.
\<close>

theorem open_breaker:
  assumes "redis_server R obj" and "quiet w" and "io_rtime w 0 \<le> io_rtime w 1"
    and "io_rtime w 1 \<le> io_rtime w 2" and "io_rtime w 2 \<le> io_rtime w 3"
    and "obj (io_rtime w 0) (io_data w) (stateKey (c_apiId c)) = Some (RStr ''open'')"
    and "obj (io_rtime w 1) (io_data w) (openAtKey (c_apiId c)) = Some (RStr (show_int openAt))"
    and "cb_number cfg ''timeout'' ''30'' = Some timeoutSec"
    and "circuitBreaker X R A cfg c w = (e, c', w')"
  shows "e = None \<and>
    (if io_clock w 0 div 1000 - openAt < timeoutSec
     then c_aborted c' \<and> c_abortCode c' = 503 \<and> io_data w' = io_data w
     else c_aborted c' = c_aborted c \<and>
       (\<forall>t \<ge> io_rtime w 3. obj t (io_data w') (stateKey (c_apiId c)) = Some (RStr ''half_open'')))"
proof -
  note R = redis_server.get_Some [OF assms(1)] redis_server.set [OF assms(1)] redis_server.del [OF assms(1)]
  have o: "circuitBreaker X R A cfg c w =
      cb_open R (Some timeoutSec) c (w\<lparr>io_rtime := shift (io_rtime w)\<rparr>)"
    using assms(2,6,8) R(1) by (simp add: circuitBreaker_def quiet_commands)
  have g: "r_get R (io_rtime w 1) (io_data w) (openAtKey (c_apiId c)) = Some (show_int openAt)"
    by (rule R(1) [OF assms(7)])
  show ?thesis
  proof (cases "io_clock w 0 div 1000 - openAt < timeoutSec")
    case True
    with assms(2,9) g o show ?thesis
      by (auto simp: cb_open_def quiet_commands num_ge_def Let_def)
  next
    case False
    have "io_data w' = r_del R (io_rtime w 3) (halfKey (c_apiId c))
        (r_set R (io_rtime w 2) (stateKey (c_apiId c)) ''half_open'' (io_data w)) \<and>
        e = None \<and> c_aborted c' = c_aborted c"
      using False assms(2,9) g o
      by (auto simp: cb_open_def quiet_commands num_ge_def Let_def eval_nat_numeral)
    with False assms(5) show ?thesis by (simp add: R(2,3))
  qed
qed

text \<open>A counter that a reader finds absent or as a number.\<close>

definition counts :: "robj option \<Rightarrow> int \<Rightarrow> bool" where
  "counts v n = (v = (if n = 0 then None else Some (RStr (show_int n))))"

context redis_server
begin

lemma incr_counts: "counts (obj t d k) n \<Longrightarrow> 0 \<le> n \<Longrightarrow> fst (r_incr R t k d) = n + 1"
  using incr_new [of t d k] incr_old [of t d k n] by (auto simp: counts_def split: if_splits)

lemma incr_other: "counts (obj t d k) n \<Longrightarrow> t \<le> t' \<Longrightarrow> k' \<noteq> k \<Longrightarrow> obj t' (snd (r_incr R t k d)) k' = obj t' d k'"
  using incr_new_obj [of t d k t' k'] incr_old_obj [of t d k n t' k'] by (auto simp: counts_def split: if_splits)

lemma incr_self:
  assumes "counts (obj t d k) n" "0 \<le> n" "t \<le> t'" "n = 0 \<or> obj t' d k \<noteq> None"
  shows "counts (obj t' (snd (r_incr R t k d)) k) (n + 1)"
  using assms incr_new_obj [of t d k t' k] incr_old_obj [of t d k n t' k]
  by (auto simp: counts_def split: if_splits)

end

text \<open>
  In the closed state the failure that reaches the threshold opens the breaker: the state
  and the time of opening are stored without expiry and both counters start afresh.
\<close>

theorem threshold_opens:
  assumes "redis_server R obj" and "quiet w" and "mono (io_rtime w)"
    and "obj (io_rtime w 0) (io_data w) (stateKey (c_apiId c)) = None"
    and "counts (obj (io_rtime w 1) (io_data w) (totalKey (c_apiId c))) requests"
    and "counts (obj (io_rtime w 3) (io_data w) (failKey (c_apiId c))) fails" and "0 \<le> fails"
    and "cb_number cfg ''threshold'' ''5'' = Some threshold" and "threshold \<le> fails + 1"
    and "cb_number cfg ''window'' ''60'' = Some windowSec" and "0 < windowSec"
    and "500 \<le> c_statusCode c"
    and "circuitBreaker X R A cfg c w = (e, c', w')"
  shows "e = None \<and> c' = c \<and> (\<forall>t \<ge> io_rtime w 9.
      obj t (io_data w') (stateKey (c_apiId c)) = Some (RStr ''open'') \<and>
      obj t (io_data w') (openAtKey (c_apiId c)) = Some (RStr (show_int (io_clock w 0 div 1000))) \<and>
      obj t (io_data w') (failKey (c_apiId c)) = None \<and> obj t (io_data w') (totalKey (c_apiId c)) = None)"
proof -
  note R = redis_server.set [OF assms(1)] redis_server.del [OF assms(1)]
  have le: "io_rtime w m \<le> io_rtime w n" if "m \<le> n" for m n
    using assms(3) that by (simp add: monoD)
  define api where "api = c_apiId c"
  define d1 where "d1 = snd (r_incr R (io_rtime w 1) (totalKey api) (io_data w))"
  define d2 where "d2 = r_pexpire R (io_rtime w 2) (totalKey api) (1000 * windowSec) d1"
  define d3 where "d3 = snd (r_incr R (io_rtime w 3) (failKey api) d2)"
  define d4 where "d4 = r_pexpire R (io_rtime w 4) (failKey api) (1000 * windowSec) d3"
  define d5 where "d5 = r_del R (io_rtime w 9) (totalKey api) (r_del R (io_rtime w 8) (failKey api)
     (r_set R (io_rtime w 7) (openAtKey api) (show_int (io_clock w 0 div 1000))
       (r_set R (io_rtime w 6) (stateKey api) ''open'' d4)))"
  have g: "r_get R (io_rtime w 0) (io_data w) (stateKey api) = None"
    using redis_server.get_None [OF assms(1)] assms(4) by (simp add: api_def)
  have "obj (io_rtime w 3) d2 (failKey api) = obj (io_rtime w 3) (io_data w) (failKey api)"
    using redis_server.pexpire [OF assms(1) le [of 2 3], of "1000 * windowSec" "totalKey api" d1 "failKey api"]
      redis_server.incr_other [OF assms(1) assms(5) le [of 1 3], of "failKey api"] assms(11)
    by (simp add: d2_def d1_def api_def)
  then have n: "fst (r_incr R (io_rtime w 3) (failKey api) d2) = fails + 1"
    using redis_server.incr_counts [OF assms(1), of "io_rtime w 3" d2 "failKey api" fails] assms(6,7)
    by (simp add: api_def)
  have num: "cb_number cfg ''threshold'' ''5'' = Some threshold" "cb_number cfg ''window'' ''60'' = Some windowSec"
    by (rule assms(8), rule assms(10))
  have "circuitBreaker X R A cfg c w =
      cb_closed R (Some threshold) (Some windowSec) (cb_number cfg ''error_threshold'' ''50'') c
        (w\<lparr>io_rtime := shift (io_rtime w)\<rparr>)"
    using assms(2) g by (simp add: circuitBreaker_def quiet_commands num api_def)
  also have "\<dots> = cb_failure R (Some threshold) (Some windowSec) (cb_number cfg ''error_threshold'' ''50'') c
      (w\<lparr>io_rtime := shift (shift (shift (io_rtime w))), io_data := d2\<rparr>)"
    using assms(2,11,12)
    by (simp add: cb_closed_def redis_expire_def quiet_commands d1_def d2_def api_def Let_def eval_nat_numeral)
  also have "\<dots> = (None, c, w\<lparr>io_rtime := (\<lambda>k. io_rtime w (k + 10)), io_data := d5, io_clock := shift (io_clock w)\<rparr>)"
    using assms(2,9,11) n
    by (simp add: cb_failure_def redis_expire_def promise_all_def quiet_commands num_ge_def d3_def d4_def d5_def
        api_def Let_def eval_nat_numeral shift_def)
  finally have "e = None" "c' = c" "io_data w' = d5"
    using assms(13) by auto
  moreover have "io_rtime w k \<le> t" if "io_rtime w 9 \<le> t" "k \<le> 9" for k t
    using le [of k 9] that by linarith
  ultimately show ?thesis by (simp add: d5_def R api_def)
qed

section \<open>Half open\<close>

text \<open>
  Requests for one API served one after the other, each on the dataset the previous one
  left; no other client touches the keys in between.
\<close>

fun cb_sequence ::
  "ext \<Rightarrow> 'd redis \<Rightarrow> config \<Rightarrow> dict \<Rightarrow> (ctx \<times> 'd io) list \<Rightarrow> 'd \<Rightarrow> (exn option \<times> ctx) list \<times> 'd" where
  "cb_sequence X R A cfg [] d = ([], d)"
| "cb_sequence X R A cfg ((c, w) # reqs) d =
     (let (e, c', w') = circuitBreaker X R A cfg c (w\<lparr>io_data := d\<rparr>);
          (outs, d') = cb_sequence X R A cfg reqs (io_data w')
      in ((e, c') # outs, d'))"

text \<open>The server's time goes forward, and at most a timeout passes between two requests.\<close>

fun steady :: "int \<Rightarrow> int \<Rightarrow> (ctx \<times> 'd io) list \<Rightarrow> bool" where
  "steady timeoutSec t [] = True"
| "steady timeoutSec t ((c, w) # reqs) =
     (t \<le> io_rtime w 0 \<and> io_rtime w 0 \<le> io_rtime w 1 \<and> io_rtime w 1 \<le> io_rtime w 2 \<and>
      io_rtime w 2 < t + 1000 * timeoutSec \<and> steady timeoutSec (io_rtime w 2) reqs)"

context redis_server
begin

definition probing :: "string \<Rightarrow> int \<Rightarrow> int \<Rightarrow> 'd \<Rightarrow> int \<Rightarrow> bool" where
  "probing api timeoutSec n d t0 =
     ((\<forall>t \<ge> t0. obj t d (stateKey api) = Some (RStr ''half_open'')) \<and>
      (\<forall>t \<ge> t0. t < t0 + 1000 * timeoutSec \<longrightarrow> counts (obj t d (halfKey api)) n))"

lemma probing_step:
  assumes "probing (c_apiId c) timeoutSec n (io_data w) t0" "quiet w" "0 \<le> n" "0 < timeoutSec"
    and t: "t0 \<le> io_rtime w 0" "io_rtime w 0 \<le> io_rtime w 1" "io_rtime w 1 \<le> io_rtime w 2"
      "io_rtime w 2 < t0 + 1000 * timeoutSec"
    and num: "cb_number cfg ''timeout'' ''30'' = Some timeoutSec" "cb_number cfg ''half_open_max'' ''2'' = Some probes"
    and run: "circuitBreaker X R A cfg c w = (e, c', w')"
  shows "e = None" "c' = (if probes < n + 1 then abort c 503 ''circuit breaker half-open: probe limit reached''
      else set_request_header ''x-circuit-breaker'' ''half_open_probe'' c)"
    and "probing (c_apiId c) timeoutSec (n + 1) (io_data w') (io_rtime w 2)"
proof -
  define k where "k = halfKey (c_apiId c)"
  define d1 where "d1 = snd (r_incr R (io_rtime w 1) k (io_data w))"
  define d2 where "d2 = r_pexpire R (io_rtime w 2) k (1000 * timeoutSec) d1"
  have c1: "counts (obj (io_rtime w 1) (io_data w) k) n" and c2: "counts (obj (io_rtime w 2) (io_data w) k) n"
    using assms(1) t by (simp_all add: probing_def k_def)
  have g: "r_get R (io_rtime w 0) (io_data w) (stateKey (c_apiId c)) = Some ''half_open''"
    using assms(1) t by (intro get_Some) (simp add: probing_def)
  have "circuitBreaker X R A cfg c w =
      cb_half_open R (Some timeoutSec) (Some probes) c (w\<lparr>io_rtime := shift (io_rtime w)\<rparr>)"
    using assms(2) g by (simp add: circuitBreaker_def quiet_commands num)
  also have "\<dots> = (None, (if probes < n + 1 then abort c 503 ''circuit breaker half-open: probe limit reached''
      else set_request_header ''x-circuit-breaker'' ''half_open_probe'' c),
      w\<lparr>io_rtime := shift (shift (shift (io_rtime w))), io_data := d2\<rparr>)"
    using assms(2,4) incr_counts [OF c1 assms(3)]
    by (simp add: cb_half_open_def redis_expire_def quiet_commands num_gt_def Let_def k_def d1_def d2_def
        eval_nat_numeral)
  finally have r: "e = None" "c' = (if probes < n + 1 then abort c 503 ''circuit breaker half-open: probe limit reached''
      else set_request_header ''x-circuit-breaker'' ''half_open_probe'' c)" "io_data w' = d2"
    using run by auto
  then show "e = None" "c' = (if probes < n + 1 then abort c 503 ''circuit breaker half-open: probe limit reached''
      else set_request_header ''x-circuit-breaker'' ''half_open_probe'' c)" by simp_all
  have "obj (io_rtime w 2) (io_data w) k \<noteq> None \<or> n = 0"
    using c2 by (auto simp: counts_def)
  then have h: "counts (obj (io_rtime w 2) d1 k) (n + 1)"
    unfolding d1_def using incr_self [OF c1 assms(3) t(3)] by blast
  have s: "obj t d2 (stateKey (c_apiId c)) = Some (RStr ''half_open'')" if "io_rtime w 2 \<le> t" for t
  proof -
    have "obj t d2 (stateKey (c_apiId c)) = obj t d1 (stateKey (c_apiId c))"
      using pexpire [OF that, of "1000 * timeoutSec" k d1 "stateKey (c_apiId c)"] assms(4) by (simp add: d2_def k_def)
    also have "\<dots> = obj t (io_data w) (stateKey (c_apiId c))"
      unfolding d1_def using that t(3) by (intro incr_other [OF c1]) (simp_all add: k_def)
    finally show ?thesis using assms(1) that t by (simp add: probing_def)
  qed
  have "counts (obj t d2 k) (n + 1)" if "io_rtime w 2 \<le> t" "t < io_rtime w 2 + 1000 * timeoutSec" for t
    using pexpire [OF that(1), of "1000 * timeoutSec" k d1 k] that(2) assms(4) h by (simp add: d2_def)
  with s show "probing (c_apiId c) timeoutSec (n + 1) (io_data w') (io_rtime w 2)"
    by (simp add: probing_def r(3) k_def)
qed

lemma probing_sequence:
  assumes "probing api timeoutSec n d t0" "0 \<le> n" "0 < timeoutSec" "steady timeoutSec t0 reqs"
    and "\<forall>(c, w) \<in> set reqs. quiet w \<and> c_apiId c = api"
    and num: "cb_number cfg ''timeout'' ''30'' = Some timeoutSec" "cb_number cfg ''half_open_max'' ''2'' = Some probes"
  shows "fst (cb_sequence X R A cfg reqs d) =
      map (\<lambda>(i, c, w). (None, if probes < n + int i + 1
         then abort c 503 ''circuit breaker half-open: probe limit reached''
         else set_request_header ''x-circuit-breaker'' ''half_open_probe'' c)) (enumerate 0 reqs) \<and>
    (\<exists>t1. \<forall>t \<ge> t1. obj t (snd (cb_sequence X R A cfg reqs d)) (stateKey api) = Some (RStr ''half_open''))"
  using assms(1,2,4,5)
proof (induction reqs arbitrary: n d t0)
  case Nil
  then show ?case by (auto simp: probing_def)
next
  case (Cons q reqs)
  obtain c w where q: "q = (c, w)" by (cases q)
  have w: "quiet (w\<lparr>io_data := d\<rparr>)" "c_apiId c = api" using Cons.prems(4) by (auto simp: q)
  obtain e c' w' where r: "circuitBreaker X R A cfg c (w\<lparr>io_data := d\<rparr>) = (e, c', w')"
    by (metis prod.exhaust)
  have t: "t0 \<le> io_rtime w 0" "io_rtime w 0 \<le> io_rtime w 1" "io_rtime w 1 \<le> io_rtime w 2"
      "io_rtime w 2 < t0 + 1000 * timeoutSec" "steady timeoutSec (io_rtime w 2) reqs"
    using Cons.prems(3) by (auto simp: q)
  have s: "e = None" "c' = (if probes < n + 1 then abort c 503 ''circuit breaker half-open: probe limit reached''
      else set_request_header ''x-circuit-breaker'' ''half_open_probe'' c)"
    "probing api timeoutSec (n + 1) (io_data w') (io_rtime w 2)"
    using probing_step [of c timeoutSec n "w\<lparr>io_data := d\<rparr>" t0 cfg probes X A e c' w']
      Cons.prems(1,2) assms(3) num w r t by simp_all
  have "\<forall>(c, w) \<in> set reqs. quiet w \<and> c_apiId c = api" using Cons.prems(4) by (simp add: q)
  from Cons.IH [OF s(3) _ t(5) this] Cons.prems(2)
  have ih: "fst (cb_sequence X R A cfg reqs (io_data w')) =
      map (\<lambda>(i, c, w). (None, if probes < n + 1 + int i + 1
         then abort c 503 ''circuit breaker half-open: probe limit reached''
         else set_request_header ''x-circuit-breaker'' ''half_open_probe'' c)) (enumerate 0 reqs)"
    "\<exists>t1. \<forall>t \<ge> t1. obj t (snd (cb_sequence X R A cfg reqs (io_data w'))) (stateKey api) = Some (RStr ''half_open'')"
    by auto
  have "enumerate (Suc 0) reqs = map (\<lambda>(i, q). (Suc i, q)) (enumerate 0 reqs)"
    by (rule nth_equalityI) (simp_all add: nth_enumerate_eq)
  with ih s(1,2) show ?case
    by (simp add: q r split_beta Let_def comp_def algebra_simps)
qed

end

text \<open>
  C36. A half-open breaker never closes again. Under traffic without a gap of a whole timeout
  the first \<open>half_open_max\<close> requests pass as probes and every later one is refused, whatever
  the upstream answered to the probes, because each refused request renews the expiry of the
  probe counter; and nothing any request does changes the stored state.
\<close>

theorem half_open_never_closes:
  assumes "redis_server R obj"
    and "\<forall>t \<ge> t0. obj t d (stateKey api) = Some (RStr ''half_open'')" and "\<forall>t \<ge> t0. obj t d (halfKey api) = None"
    and "cb_number cfg ''timeout'' ''30'' = Some timeoutSec" and "0 < timeoutSec"
    and "cb_number cfg ''half_open_max'' ''2'' = Some probes"
    and "steady timeoutSec t0 reqs" and "\<forall>(c, w) \<in> set reqs. quiet w \<and> c_apiId c = api"
  shows "fst (cb_sequence X R A cfg reqs d) =
      map (\<lambda>(i, c, w). (None, if probes \<le> int i
         then abort c 503 ''circuit breaker half-open: probe limit reached''
         else set_request_header ''x-circuit-breaker'' ''half_open_probe'' c)) (enumerate 0 reqs) \<and>
    (\<exists>t1. \<forall>t \<ge> t1. obj t (snd (cb_sequence X R A cfg reqs d)) (stateKey api) = Some (RStr ''half_open''))"
proof -
  have "redis_server.probing obj api timeoutSec 0 d t0"
    using assms(2,3) by (simp add: redis_server.probing_def [OF assms(1)] counts_def)
  from redis_server.probing_sequence [OF assms(1) this _ assms(5,7,8,4,6)]
  show ?thesis by (simp add: zle_add1_eq_le)
qed

definition sample_probe :: "int \<Rightarrow> int \<Rightarrow> ctx \<times> mem io" where
  "sample_probe status at_ms =
     ((createExecContext ''orders'' ''t'' ''GET'' ''/'' ''api.test'' ''10.1.2.3'' [] [] None 0)\<lparr>c_statusCode := status\<rparr>,
      sample_io\<lparr>io_rtime := \<lambda>n. at_ms + int n\<rparr>)"

theorem half_open_never_closes_witness:
  "let outs = fst (cb_sequence sample_ext mem_redis sample_config []
       [sample_probe 0 1000, sample_probe 200 2000, sample_probe 0 25000, sample_probe 200 50000]
       ((\<lambda>_. None)(stateKey ''orders'' := Some (RStr ''half_open'', None))))
   in map (c_aborted \<circ> snd) outs = [False, False, True, True]"
proof -
  let ?d = "((\<lambda>_. None)(stateKey ''orders'' := Some (RStr ''half_open'', None))) :: mem"
  let ?reqs = "[sample_probe 0 1000, sample_probe 200 2000, sample_probe 0 25000, sample_probe 200 50000]"
  have n: "cb_number [] ''timeout'' ''30'' = Some 30" "cb_number [] ''half_open_max'' ''2'' = Some 2"
    by code_simp+
  have o: "\<forall>t \<ge> 1000. mem_obj t ?d (stateKey ''orders'') = Some (RStr ''half_open'')"
      "\<forall>t \<ge> 1000. mem_obj t ?d (halfKey ''orders'') = None"
    by (simp_all add: mem_obj_def)
  have q: "steady 30 1000 ?reqs" "\<forall>(c, w) \<in> set ?reqs. quiet w \<and> c_apiId c = ''orders''"
    by (simp_all add: sample_probe_def sample_io_def quiet_def createExecContext_def)
  have c: "c_aborted (fst (sample_probe s t)) = False" for s t
    by (simp add: sample_probe_def createExecContext_def)
  have "fst (cb_sequence sample_ext mem_redis sample_config [] ?reqs ?d) =
      map (\<lambda>(i, c, w). (None, if 2 \<le> int i
         then abort c 503 ''circuit breaker half-open: probe limit reached''
         else set_request_header ''x-circuit-breaker'' ''half_open_probe'' c)) (enumerate 0 ?reqs)"
    by (rule half_open_never_closes [OF mem.redis_server_axioms o n(1) _ n(2) q, THEN conjunct1]) simp
  with c show ?thesis by (simp add: split_beta)
qed

theorem open_breaker_witness:
  "c_aborted (fst (snd (circuitBreaker sample_ext mem_redis sample_config [] sample_ctx0
     (sample_io\<lparr>io_data := sample_open, io_clock := \<lambda>_. 40000\<rparr>))))"
proof -
  let ?w = "sample_io\<lparr>io_data := sample_open, io_clock := \<lambda>_. 40000\<rparr>"
  let ?r = "circuitBreaker sample_ext mem_redis sample_config [] sample_ctx0 ?w"
  have n: "cb_number [] ''timeout'' ''30'' = Some 30" by code_simp
  have q: "quiet ?w" "io_rtime ?w n = 10 * int n" "io_clock ?w 0 = 40000" for n
    by (simp_all add: quiet_def sample_io_def)
  have o: "mem_obj t sample_open (stateKey ''orders'') = Some (RStr ''open'')"
      "mem_obj t sample_open (openAtKey ''orders'') = Some (RStr (show_int 15))" for t
    by (simp_all add: mem_obj_def sample_open_def)
  have c: "c_apiId sample_ctx0 = ''orders''" by (simp add: sample_ctx0_def createExecContext_def)
  show ?thesis
    using open_breaker [OF mem.redis_server_axioms q(1), where openAt = 15 and c = sample_ctx0
        and e = "fst ?r" and c' = "fst (snd ?r)" and w' = "snd (snd ?r)", OF _ _ _ _ _ n]
      o c q(2,3) by simp
qed

theorem threshold_opens_witness:
  "mem_obj 1000 (io_data (snd (snd (circuitBreaker sample_ext mem_redis sample_config [(''threshold'', ''1'')]
     (fst (sample_probe 503 0)) (snd (sample_probe 503 0)))))) (stateKey ''orders'') = Some (RStr ''open'')"
proof -
  let ?c = "fst (sample_probe 503 0)" and ?w = "snd (sample_probe 503 0)"
  let ?cfg = "[(''threshold'', ''1'')]"
  let ?r = "circuitBreaker sample_ext mem_redis sample_config ?cfg ?c ?w"
  have n: "cb_number ?cfg ''threshold'' ''5'' = Some 1" "cb_number ?cfg ''window'' ''60'' = Some 60"
    by code_simp+
  have w: "quiet ?w" "mono (io_rtime ?w)" "mem_obj t (io_data ?w) k = None" "io_rtime ?w m = int m" for t k m
    by (simp_all add: sample_probe_def sample_io_def quiet_def mem_obj_def mono_def)
  have c: "c_apiId ?c = ''orders''" "c_statusCode ?c = 503"
    by (simp_all add: sample_probe_def createExecContext_def)
  have "fst ?r = None \<and> fst (snd ?r) = ?c \<and> (\<forall>t \<ge> io_rtime ?w 9.
      mem_obj t (io_data (snd (snd ?r))) (stateKey (c_apiId ?c)) = Some (RStr ''open'') \<and>
      mem_obj t (io_data (snd (snd ?r))) (openAtKey (c_apiId ?c)) = Some (RStr (show_int (io_clock ?w 0 div 1000))) \<and>
      mem_obj t (io_data (snd (snd ?r))) (failKey (c_apiId ?c)) = None \<and>
      mem_obj t (io_data (snd (snd ?r))) (totalKey (c_apiId ?c)) = None)"
    by (rule threshold_opens [OF mem.redis_server_axioms w(1,2) _ _ _ _ n(1) _ n(2), where requests = 0 and fails = 0])
      (simp_all add: w c counts_def)
  then show ?thesis by (simp add: w c)
qed

end
