(* ===== verification/Executor.thy ===== *)
theory Executor
  imports Memo Auth RateLimit Cors IpWhitelist Transform CachePlugin CircuitBreaker
begin

text \<open>
  \<open>gateway/src/pipeline/executor.ts\<close>: the policy chain of an API is fetched from the policy
  engine, kept for five minutes, and the policies of a phase run in order until one stops the
  request.

  The chain is the JSON the engine sent; the fields of a policy are read with the types of
  its interface (an order is a whole number, a configuration maps names to texts), and a body
  that is no chain at all makes the phase throw.
\<close>

section \<open>The code\<close>

definition PLUGIN_MAP :: "string \<Rightarrow> 'd plugin option" where
  "PLUGIN_MAP ty =
     (if ty = ''auth'' \<or> ty = ''jwt_auth'' \<or> ty = ''api_key_auth'' then Some authPlugin
      else if ty = ''rate_limit'' then Some rateLimit
      else if ty = ''cors'' then Some cors
      else if ty = ''ip_whitelist'' then Some ipWhitelist
      else if ty = ''transform'' \<or> ty = ''request_transform'' \<or> ty = ''response_transform'' then Some transformPlugin
      else if ty = ''cache'' then Some cache
      else if ty = ''circuit_breaker'' then Some circuitBreaker
      else None)"

type_synonym chain_cache = "(string \<times> (json \<times> int)) list"

definition CHAIN_TTL_MS :: int where
  "CHAIN_TTL_MS = 5 * 60 * 1000"

definition chain_url :: "config \<Rightarrow> string \<Rightarrow> string" where
  "chain_url A apiId = cfg_POLICY_ENGINE_URL A @ ''/internal/chains/'' @ apiId"

text \<open>The part after the cache: \<open>stale\<close> is the chain of the expired entry, if there is one.\<close>

definition fetch_chain ::
  "ext \<Rightarrow> config \<Rightarrow> string \<Rightarrow> json option \<Rightarrow> chain_cache \<times> 'd io \<Rightarrow> json option \<times> chain_cache \<times> 'd io" where
  "fetch_chain X A apiId stale s =
     (case s of (cc, w) \<Rightarrow>
       (case internalFetch X A (get_request (chain_url A apiId) []) w of
          (Inl e, w1) \<Rightarrow> (stale, cc, w1)
        | (Inr resp, w1) \<Rightarrow>
            (if \<not> resp_ok resp then (None, cc, w1)
             else case resp_json X resp of
                    Inl e \<Rightarrow> (stale, cc, w1)
                  | Inr ch \<Rightarrow> (let (now, w2) = date_now w1 in (Some ch, rset apiId (ch, now) cc, w2)))))"

definition getPolicyChain ::
  "ext \<Rightarrow> config \<Rightarrow> string \<Rightarrow> chain_cache \<times> 'd io \<Rightarrow> json option \<times> chain_cache \<times> 'd io" where
  "getPolicyChain X A apiId s =
     (case s of (cc, w) \<Rightarrow>
       (case rget cc apiId of
          None \<Rightarrow> fetch_chain X A apiId None (cc, w)
        | Some (ch, fetchedAt) \<Rightarrow>
            (let (now, w1) = date_now w
             in if now - fetchedAt < CHAIN_TTL_MS then (Some ch, cc, w1)
                else fetch_chain X A apiId (Some ch) (cc, w1))))"

definition evalCondition :: "ext \<Rightarrow> string \<Rightarrow> ctx \<Rightarrow> bool" where
  "evalCondition X cond c =
     (case index_of (CHR ''='') cond of
        None \<Rightarrow> True
      | Some i \<Rightarrow>
          (let key = js_trim (take i cond); expected = js_trim (drop (i + 1) cond)
           in if starts_with key ''header.'' then rget (c_requestHeaders c) (js_lower (drop 7 key)) = Some expected
              else if starts_with key ''claim.'' then jstring X (c_claims c) (drop 6 key) [] = expected
              else if key = ''method'' then js_upper (c_method c) = js_upper expected
              else if key = ''plan'' then c_plan c = expected
              else True))"

text \<open>
  A policy of the chain, read by the executor. The engine declares the order as an integer
  (\<open>int32\<close> in \<open>policy.proto\<close>, \<open>INT\<close> in the database); of any other number the whole part is taken.
\<close>

definition json_int :: "json \<Rightarrow> int" where
  "json_int v = (case v of JNum r \<Rightarrow> \<lfloor>r\<rfloor> | _ \<Rightarrow> 0)"

definition config_entries :: "json \<Rightarrow> dict" where
  "config_entries v = List.map_filter (\<lambda>(k, x). map_option (Pair k) (json_string x)) (json_obj v)"

definition decode_policy :: "json \<Rightarrow> policy" where
  "decode_policy v =
     (let obj = json_obj v
      in \<lparr>p_id = orelse (sfield obj ''id'') [], p_type = orelse (sfield obj ''type'') [],
          p_phase = orelse (sfield obj ''phase'') [],
          p_order = (case rget obj ''order'' of None \<Rightarrow> 0 | Some x \<Rightarrow> json_int x),
          p_enabled = (case rget obj ''enabled'' of None \<Rightarrow> False | Some x \<Rightarrow> js_truthy x),
          p_config = (case rget obj ''config'' of None \<Rightarrow> [] | Some x \<Rightarrow> config_entries x),
          p_condition = sfield obj ''condition''\<rparr>)"

definition chain_policies :: "json \<Rightarrow> exn + policy list" where
  "chain_policies ch =
     (case rget (json_obj ch) ''policies'' of
        Some (JArr ps) \<Rightarrow> (if JNull \<in> set ps then Inl type_error else Inr (map decode_policy ps))
      | _ \<Rightarrow> Inl type_error)"

definition phase_policies :: "string \<Rightarrow> policy list \<Rightarrow> policy list" where
  "phase_policies phase ps =
     js_sort (\<lambda>a b. p_order a - p_order b) (filter (\<lambda>p. p_enabled p \<and> p_phase p = phase) ps)"

text \<open>One pass of the loop for a request that is not stopped yet: errors are logged only.\<close>

definition run_policy :: "ext \<Rightarrow> 'd redis \<Rightarrow> config \<Rightarrow> policy \<Rightarrow> ctx \<times> 'd io \<Rightarrow> ctx \<times> 'd io" where
  "run_policy X R A p s =
     (case s of (c, w) \<Rightarrow>
       (if truthy (p_condition p) \<and> \<not> evalCondition X (str_of (p_condition p)) c then (c, w)
        else case PLUGIN_MAP (p_type p) of
               None \<Rightarrow> (c, w)
             | Some executor \<Rightarrow> snd (executor X R A (p_config p) c w)))"

definition stopped :: "ctx \<Rightarrow> bool" where
  "stopped c = (c_aborted c \<or> c_cacheHit c)"

fun run_policies :: "ext \<Rightarrow> 'd redis \<Rightarrow> config \<Rightarrow> policy list \<Rightarrow> ctx \<times> 'd io \<Rightarrow> ctx \<times> 'd io" where
  "run_policies X R A [] s = s"
| "run_policies X R A (p # ps) s =
     (if stopped (fst s) then s else run_policies X R A ps (run_policy X R A p s))"

record exec_result =
  er_aborted :: bool
  er_abortCode :: int
  er_abortMessage :: string
  er_cacheHit :: bool
  er_durationMs :: int

definition executePhase ::
  "ext \<Rightarrow> 'd redis \<Rightarrow> config \<Rightarrow> string \<Rightarrow> ctx \<Rightarrow> chain_cache \<times> 'd io \<Rightarrow>
   (exn + exec_result) \<times> ctx \<times> chain_cache \<times> 'd io" where
  "executePhase X R A phase c s =
     (let (start, w1) = date_now (snd s);
          (ch, cc, w2) = getPolicyChain X A (c_apiId c) (fst s, w1)
      in if (case ch of None \<Rightarrow> False | Some j \<Rightarrow> js_truthy j)
         then (let c1 = c\<lparr>c_phase := phase\<rparr>
               in case chain_policies (the ch) of
                    Inl e \<Rightarrow> (Inl e, c1, cc, w2)
                  | Inr ps \<Rightarrow>
                      (let (c2, w3) = run_policies X R A (phase_policies phase ps) (c1, w2);
                           (end, w4) = date_now w3
                       in (Inr \<lparr>er_aborted = c_aborted c2, er_abortCode = c_abortCode c2,
                                er_abortMessage = c_abortMessage c2, er_cacheHit = c_cacheHit c2,
                                er_durationMs = end - start\<rparr>, c2, cc, w4)))
         else (let (end, w3) = date_now w2
               in (Inr \<lparr>er_aborted = False, er_abortCode = 0, er_abortMessage = [], er_cacheHit = False,
                        er_durationMs = end - start\<rparr>, c, cc, w3)))"

section \<open>Which policies run\<close>

lemma phase_policies_sort:
  "phase_policies phase ps = sort_key p_order (filter (\<lambda>p. p_enabled p \<and> p_phase p = phase) ps)"
  by (simp add: phase_policies_def js_sort_sort_key [where f = p_order])

lemma run_policies_stopped [simp]: "stopped (fst s) \<Longrightarrow> run_policies X R A ps s = s"
  by (cases ps) simp_all

lemma run_policies_append:
  "run_policies X R A (ps @ qs) s = run_policies X R A qs (run_policies X R A ps s)"
  by (induction ps arbitrary: s) simp_all

text \<open>The run on a list is the unconditional run on a prefix of it.\<close>

lemma run_policies_prefix:
  "\<exists>us vs. ps = us @ vs \<and> run_policies X R A ps s = fold (run_policy X R A) us s \<and>
     (vs \<noteq> [] \<longrightarrow> stopped (fst (run_policies X R A ps s))) \<and>
     (\<forall>i < length us. \<not> stopped (fst (fold (run_policy X R A) (take i us) s)))"
proof (induction ps arbitrary: s)
  case (Cons p ps)
  show ?case
  proof (cases "stopped (fst s)")
    case True
    then show ?thesis by (intro exI [of _ "[]"] exI [of _ "p # ps"]) simp
  next
    case False
    from Cons.IH [of "run_policy X R A p s"] obtain us vs where h: "ps = us @ vs"
      "run_policies X R A ps (run_policy X R A p s) = fold (run_policy X R A) us (run_policy X R A p s)"
      "vs \<noteq> [] \<longrightarrow> stopped (fst (run_policies X R A ps (run_policy X R A p s)))"
      "\<forall>i < length us. \<not> stopped (fst (fold (run_policy X R A) (take i us) (run_policy X R A p s)))"
      by blast
    have "\<not> stopped (fst (fold (run_policy X R A) (take i (p # us)) s))" if "i < length (p # us)" for i
      using that h(4) False by (cases i) simp_all
    with h False show ?thesis by (intro exI [of _ "p # us"] exI [of _ vs]) simp
  qed
qed simp

text \<open>
  C3. A phase runs exactly a prefix of its enabled policies in ascending order, ties in the
  order of the chain: each one starts on a request that is neither aborted nor answered from
  the cache, and if any is left out the request was stopped.
\<close>

theorem phase_runs_in_order:
  "\<exists>us vs. sort_key p_order (filter (\<lambda>p. p_enabled p \<and> p_phase p = phase) ps) = us @ vs \<and>
     run_policies X R A (phase_policies phase ps) s = fold (run_policy X R A) us s \<and>
     (vs \<noteq> [] \<longrightarrow> stopped (fst (run_policies X R A (phase_policies phase ps) s))) \<and>
     (\<forall>i < length us. \<not> stopped (fst (fold (run_policy X R A) (take i us) s)))"
  unfolding phase_policies_sort by (rule run_policies_prefix)

definition sample_ordered :: "string \<Rightarrow> int \<Rightarrow> bool \<Rightarrow> policy" where
  "sample_ordered ty n b = \<lparr> p_id = ty, p_type = ty, p_phase = ''pre_request'', p_order = n, p_enabled = b,
     p_config = [(''allowed_origins'', ''https://a'')], p_condition = None \<rparr>"

definition sample_origin_ctx :: ctx where
  "sample_origin_ctx = createExecContext ''orders'' ''t1'' ''GET'' ''/'' ''h'' ''10.0.0.1'' [(''origin'', ''https://b'')] [] None 0"

lemma sample_refused:
  "stopped (fst (run_policy sample_ext mem_redis sample_config (sample_ordered ''cors'' 1 True) (sample_origin_ctx, sample_io)))"
  by code_simp

theorem phase_runs_in_order_witness:
  "run_policies sample_ext mem_redis sample_config
     (phase_policies ''pre_request'' [sample_ordered ''auth'' 2 True, sample_ordered ''cache'' 0 False, sample_ordered ''cors'' 1 True])
     (sample_origin_ctx, sample_io) =
   run_policy sample_ext mem_redis sample_config (sample_ordered ''cors'' 1 True) (sample_origin_ctx, sample_io)"
proof -
  let ?ps = "[sample_ordered ''auth'' 2 True, sample_ordered ''cache'' 0 False, sample_ordered ''cors'' 1 True]"
  let ?s = "(sample_origin_ctx, sample_io)" and ?run = "run_policy sample_ext mem_redis sample_config"
  have order: "sort_key p_order (filter (\<lambda>p. p_enabled p \<and> p_phase p = ''pre_request'') ?ps) =
      [sample_ordered ''cors'' 1 True, sample_ordered ''auth'' 2 True]"
    by (simp add: sample_ordered_def)
  from phase_runs_in_order [of "''pre_request''" ?ps sample_ext mem_redis sample_config ?s, unfolded order]
  obtain us vs where run: "[sample_ordered ''cors'' 1 True, sample_ordered ''auth'' 2 True] = us @ vs"
    "run_policies sample_ext mem_redis sample_config (phase_policies ''pre_request'' ?ps) ?s = fold ?run us ?s"
    "vs \<noteq> [] \<longrightarrow> stopped (fst (run_policies sample_ext mem_redis sample_config (phase_policies ''pre_request'' ?ps) ?s))"
    "\<forall>i < length us. \<not> stopped (fst (fold ?run (take i us) ?s))" by blast
  have first: "\<not> stopped (fst ?s)" by code_simp
  show ?thesis
  proof (cases us)
    case Nil
    then show ?thesis using run first by simp
  next
    case (Cons p us')
    then have p: "p = sample_ordered ''cors'' 1 True" using run(1) by simp
    have "us' = []"
    proof (rule ccontr)
      assume "us' \<noteq> []"
      with Cons have "1 < length us" by simp
      with run(4) have "\<not> stopped (fst (fold ?run (take 1 us) ?s))" by blast
      then show False using sample_refused Cons p by simp
    qed
    then show ?thesis using run(2) Cons p by simp
  qed
qed

end
