(* ===== verification/ExecutorProps.thy ===== *)
theory ExecutorProps
  imports Executor
begin

text \<open>
  Properties of \<open>gateway/src/pipeline/executor.ts\<close>: where the chains that are executed come
  from, what an unreachable policy engine means, and that an authentication policy in a chain
  protects the API.
\<close>

section \<open>Where a chain comes from\<close>

text \<open>The chain in a successful answer of the policy engine at this point of the run.\<close>

definition engine_chain :: "ext \<Rightarrow> config \<Rightarrow> string \<Rightarrow> 'd io \<Rightarrow> json option" where
  "engine_chain X A apiId w =
     (case fst (internalFetch X A (get_request (chain_url A apiId) []) w) of
        Inl e \<Rightarrow> None
      | Inr resp \<Rightarrow> (if resp_ok resp then (case resp_json X resp of Inl e \<Rightarrow> None | Inr ch \<Rightarrow> Some ch) else None))"

lemma engine_chain_date_now [simp]: "engine_chain X A apiId (snd (date_now w)) = engine_chain X A apiId w"
  by (simp add: engine_chain_def internalFetch_def http_fetch_def date_now_def)

lemma internalFetch_sends [simp]: "io_sent (snd (internalFetch X A q w)) \<noteq> io_sent w"
  by (simp add: internalFetch_def http_fetch_def)

lemma fetch_chain_sends [simp]: "io_sent (snd (snd (fetch_chain X A a stale (cc, w)))) \<noteq> io_sent w"
proof -
  obtain r w1 where f: "internalFetch X A (get_request (chain_url A a) []) w = (r, w1)"
    by (cases "internalFetch X A (get_request (chain_url A a) []) w")
  have "io_sent w1 \<noteq> io_sent w"
    using internalFetch_sends [of X A "get_request (chain_url A a) []" w] f by simp
  with f show ?thesis
    by (simp add: fetch_chain_def date_now_def split: sum.split)
qed

lemma fetch_chain_answer:
  "fst (fetch_chain X A a stale (cc, w)) = Some ch \<Longrightarrow> engine_chain X A a w = Some ch \<or> stale = Some ch"
  by (auto simp: fetch_chain_def engine_chain_def split: sum.splits prod.splits if_splits)

lemma fetch_chain_cache:
  "fst (snd (fetch_chain X A a stale (cc, w))) = cc \<or>
   (\<exists>ch t. engine_chain X A a w = Some ch \<and> fst (fetch_chain X A a stale (cc, w)) = Some ch \<and>
      fst (snd (fetch_chain X A a stale (cc, w))) = rset a (ch, t) cc)"
  by (auto simp: fetch_chain_def engine_chain_def date_now_def split: sum.splits prod.splits)

definition chain_entry :: "chain_cache \<times> 'd io \<Rightarrow> string \<Rightarrow> (json option \<times> int) option" where
  "chain_entry s k = map_option (\<lambda>(ch, t). (Some ch, t)) (rget (fst s) k)"

lemma getPolicyChain_hit:
  assumes "fresh_entry CHAIN_TTL_MS (io_clock w 0) (chain_entry (cc, w) a)"
  shows "\<exists>ch t. rget cc a = Some (ch, t) \<and> getPolicyChain X A a (cc, w) = (Some ch, cc, snd (date_now w))"
  using assms
  by (auto simp: chain_entry_def getPolicyChain_def date_now_def fresh_entry_def split: option.splits)

lemma getPolicyChain_miss:
  assumes "\<not> fresh_entry CHAIN_TTL_MS (io_clock w 0) (chain_entry (cc, w) a)"
  shows "\<exists>w1. (w1 = w \<or> w1 = snd (date_now w)) \<and>
    getPolicyChain X A a (cc, w) = fetch_chain X A a (map_option fst (rget cc a)) (cc, w1)"
  using assms
  by (auto simp: chain_entry_def getPolicyChain_def date_now_def split: option.splits)

interpretation chains: ttl_memo "getPolicyChain X A" chain_entry "\<lambda>s. io_clock (snd s) 0" CHAIN_TTL_MS
  for X A
proof (standard, goal_cases)
  case (1 s k v stp)
  then have "fresh_entry CHAIN_TTL_MS (io_clock (snd s) 0) (chain_entry (fst s, snd s) k)" by simp
  from getPolicyChain_hit [OF this, of X A] 1 show ?case by (auto simp: chain_entry_def)
next
  case (2 s k)
  then have "fresh_entry CHAIN_TTL_MS (io_clock (snd s) 0) (chain_entry (fst s, snd s) k)" by simp
  from getPolicyChain_hit [OF this, of X A] show ?case by (auto simp: chain_entry_def fun_eq_iff)
next
  case (3 s k)
  then have "\<not> fresh_entry CHAIN_TTL_MS (io_clock (snd s) 0) (chain_entry (fst s, snd s) k)" by simp
  from getPolicyChain_miss [OF this, of X A] obtain w1 where
    g: "getPolicyChain X A k s = fetch_chain X A k (map_option fst (rget (fst s) k)) (fst s, w1)" by auto
  show ?case
    using fetch_chain_cache [of X A k "map_option fst (rget (fst s) k)" "fst s" w1]
    by (auto simp: g chain_entry_def fun_eq_iff)
qed

text \<open>
  The runs of the cache: it starts empty, and every question may change it. The second
  component collects the chains that the engine has sent so far, per API.
\<close>

inductive chain_run :: "ext \<Rightarrow> config \<Rightarrow> chain_cache \<Rightarrow> (string \<times> json) set \<Rightarrow> bool"
  for X :: ext and A :: config where
  start: "chain_run X A [] {}"
| question: "chain_run X A cc H \<Longrightarrow> getPolicyChain X A a (cc, w :: mem io) = (r, cc', w') \<Longrightarrow>
    H' = (if io_sent w' = io_sent w then H else H \<union> {(a, ch) | ch. engine_chain X A a w = Some ch}) \<Longrightarrow>
    chain_run X A cc' H'"

lemma getPolicyChain_answer:
  assumes "getPolicyChain X A a (cc, w) = (Some ch, cc', w')"
  shows "(io_sent w' \<noteq> io_sent w \<and> engine_chain X A a w = Some ch) \<or> (\<exists>t. rget cc a = Some (ch, t))"
proof (cases "fresh_entry CHAIN_TTL_MS (io_clock w 0) (chain_entry (cc, w) a)")
  case True
  from getPolicyChain_hit [OF this, of X A] assms show ?thesis by auto
next
  case False
  from getPolicyChain_miss [OF this, of X A] obtain w1 where w1: "w1 = w \<or> w1 = snd (date_now w)"
    and g0: "getPolicyChain X A a (cc, w) = fetch_chain X A a (map_option fst (rget cc a)) (cc, w1)" by blast
  have g: "fetch_chain X A a (map_option fst (rget cc a)) (cc, w1) = (Some ch, cc', w')" using assms g0 by simp
  have "io_sent w1 = io_sent w" "engine_chain X A a w1 = engine_chain X A a w"
    using w1 by (auto simp: date_now_def intro: engine_chain_date_now [unfolded date_now_def snd_conv])
  then show ?thesis
    using fetch_chain_answer [of X A a "map_option fst (rget cc a)" cc w1 ch]
      fetch_chain_sends [of X A a "map_option fst (rget cc a)" cc w1] g by auto
qed

lemma getPolicyChain_cache:
  assumes "getPolicyChain X A a (cc, w) = (r, cc', w')"
  shows "cc' = cc \<or> (\<exists>ch t. io_sent w' \<noteq> io_sent w \<and> engine_chain X A a w = Some ch \<and> cc' = rset a (ch, t) cc)"
proof (cases "fresh_entry CHAIN_TTL_MS (io_clock w 0) (chain_entry (cc, w) a)")
  case True
  from getPolicyChain_hit [OF this, of X A] assms show ?thesis by auto
next
  case False
  from getPolicyChain_miss [OF this, of X A] obtain w1 where w1: "w1 = w \<or> w1 = snd (date_now w)"
    and g0: "getPolicyChain X A a (cc, w) = fetch_chain X A a (map_option fst (rget cc a)) (cc, w1)" by blast
  have g: "fetch_chain X A a (map_option fst (rget cc a)) (cc, w1) = (r, cc', w')" using assms g0 by simp
  have "io_sent w1 = io_sent w" "engine_chain X A a w1 = engine_chain X A a w"
    using w1 by (auto simp: date_now_def intro: engine_chain_date_now [unfolded date_now_def snd_conv])
  then show ?thesis
    using fetch_chain_cache [of X A a "map_option fst (rget cc a)" cc w1]
      fetch_chain_sends [of X A a "map_option fst (rget cc a)" cc w1] g by auto
qed

lemma chain_run_sound: "chain_run X A cc H \<Longrightarrow> rget cc a = Some (ch, t) \<Longrightarrow> (a, ch) \<in> H"
proof (induction arbitrary: a ch t rule: chain_run.induct)
  case (question cc H b w r cc' w' H')
  from getPolicyChain_cache [OF question.hyps(2)] question.IH [of a ch] question.prems show ?case
    by (auto simp: question.hyps(3) split: if_splits)
qed simp

text \<open>
  C35. In every run from an empty cache, a chain that is executed for an API is one that the
  policy engine sent for that API in a successful answer, now or earlier: no chain of another
  API and no error body is ever executed.
\<close>

theorem chains_from_engine:
  assumes "chain_run X A cc H" and "getPolicyChain X A a (cc, w) = (Some ch, cc', w')"
  shows "(a, ch) \<in> H \<or> engine_chain X A a w = Some ch"
  using getPolicyChain_answer [OF assms(2)] chain_run_sound [OF assms(1)] by blast

definition engine_world :: "mem io" where
  "engine_world = sample_io\<lparr>io_net := (\<lambda>_ q. if rq_url q = ''http://policy/internal/chains/orders''
     then Inr \<lparr>rs_status = 200, rs_headers = [], rs_body = []\<rparr> else Inl NonError)\<rparr>"

definition chain_of :: "json list \<Rightarrow> json" where
  "chain_of ps = JObj [(''policies'', JArr ps)]"

definition engine_ext :: "json list \<Rightarrow> ext" where
  "engine_ext ps = sample_ext\<lparr>x_json_parse := (\<lambda>_. Some (chain_of ps))\<rparr>"

theorem chains_from_engine_witness:
  "\<exists>cc' w'. getPolicyChain (engine_ext []) sample_config ''orders'' ([], engine_world) = (Some (chain_of []), cc', w') \<and>
     engine_chain (engine_ext []) sample_config ''orders'' engine_world = Some (chain_of [])"
proof -
  obtain r cc' w' where run: "getPolicyChain (engine_ext []) sample_config ''orders'' ([], engine_world) = (r, cc', w')"
    by (cases "getPolicyChain (engine_ext []) sample_config ''orders'' ([], engine_world)")
  have "fst (getPolicyChain (engine_ext []) sample_config ''orders'' ([], engine_world)) = Some (chain_of [])"
    by (simp add: getPolicyChain_def fetch_chain_def internalFetch_def http_fetch_def sample_config_def
        engine_world_def chain_url_def get_request_def resp_ok_def resp_json_def engine_ext_def date_now_def)
  with run have "r = Some (chain_of [])" by simp
  with chains_from_engine [OF start run [unfolded this]] run show ?thesis by simp
qed

section \<open>An unreachable policy engine\<close>

text \<open>
  C40. The gateway fails open when it has no chain: if the engine's answer gives none, and
  either no chain was cached or the engine did answer, with an error status, then the phase
  runs no policy at all and lets the request through unchanged, even where an expired chain
  with an authentication policy is still in the cache.
\<close>

theorem no_chain_no_policies:
  assumes "engine_chain X A (c_apiId c) w = None"
    and "\<not> fresh_entry CHAIN_TTL_MS (io_clock w 1) (chain_entry (cc, w) (c_apiId c))"
    and "rget cc (c_apiId c) = None \<or>
      (\<exists>resp. fst (internalFetch X A (get_request (chain_url A (c_apiId c)) []) w) = Inr resp \<and> \<not> resp_ok resp)"
  shows "\<exists>res cc' w'. executePhase X R A phase c (cc, w) = (Inr res, c, cc', w') \<and>
    \<not> er_aborted res \<and> \<not> er_cacheHit res"
proof -
  let ?w1 = "snd (date_now w)"
  have f: "\<not> fresh_entry CHAIN_TTL_MS (io_clock ?w1 0) (chain_entry (cc, ?w1) (c_apiId c))"
    using assms(2) by (simp add: date_now_def chain_entry_def)
  have net: "fst (internalFetch X A q (snd (date_now v))) = fst (internalFetch X A q v)" for q v
    by (simp add: internalFetch_def http_fetch_def date_now_def)
  from getPolicyChain_miss [OF f, of X A] obtain w2 where w2: "w2 = ?w1 \<or> w2 = snd (date_now ?w1)"
    and g: "getPolicyChain X A (c_apiId c) (cc, ?w1) =
      fetch_chain X A (c_apiId c) (map_option fst (rget cc (c_apiId c))) (cc, w2)" by blast
  obtain r w3 where r: "internalFetch X A (get_request (chain_url A (c_apiId c)) []) w2 = (r, w3)"
    by (cases "internalFetch X A (get_request (chain_url A (c_apiId c)) []) w2")
  have "fst (internalFetch X A q w2) = fst (internalFetch X A q w)" for q
    using w2 by (auto simp: net)
  from this [of "get_request (chain_url A (c_apiId c)) []"] r
  have "fst (internalFetch X A (get_request (chain_url A (c_apiId c)) []) w) = r" by simp
  with r have "fst (fetch_chain X A (c_apiId c) (map_option fst (rget cc (c_apiId c))) (cc, w2)) = None"
    using assms(1,3) by (auto simp: fetch_chain_def engine_chain_def split: sum.splits prod.splits if_splits)
  with g show ?thesis
    by (cases "fetch_chain X A (c_apiId c) (map_option fst (rget cc (c_apiId c))) (cc, w2)")
      (auto simp: executePhase_def date_now_def Let_def split_beta)
qed

definition auth_policy_json :: json where
  "auth_policy_json = JObj [(''id'', JStr ''p1''), (''type'', JStr ''auth''), (''phase'', JStr ''pre_request''),
     (''order'', JNum 1), (''enabled'', JBool True), (''config'', JObj [(''methods'', JStr ''jwt'')])]"

definition failing_engine :: "mem io" where
  "failing_engine = sample_io\<lparr>io_clock := (\<lambda>_. 300000),
     io_net := (\<lambda>_ _. Inr \<lparr>rs_status = 500, rs_headers = [], rs_body = []\<rparr>)\<rparr>"

theorem no_chain_no_policies_witness:
  "\<exists>res cc' w'. executePhase sample_ext mem_redis sample_config ''pre_request'' anonymous_ctx
     ([(''orders'', (chain_of [auth_policy_json], 0))], failing_engine) = (Inr res, anonymous_ctx, cc', w') \<and>
     \<not> er_aborted res \<and> \<not> er_cacheHit res"
proof -
  have a: "c_apiId anonymous_ctx = ''orders''" by (simp add: anonymous_ctx_def createExecContext_def)
  show ?thesis
    by (rule no_chain_no_policies)
      (simp_all add: a engine_chain_def internalFetch_def http_fetch_def failing_engine_def sample_config_def
        resp_ok_def chain_entry_def CHAIN_TTL_MS_def)
qed

section \<open>An authentication policy protects the API\<close>

lemma run_auth_policy:
  assumes "PLUGIN_MAP (p_type p) = Some (authPlugin :: 'd plugin)" and "\<not> truthy (p_condition p)"
    and "rget (p_config p) ''allow_anonymous'' \<noteq> Some ''true''"
    and "run_policy X (R :: 'd redis) A p (c, w) = (c', w')" and "\<not> stopped c'"
  shows "auth_accepted X R A (p_config p) c w c' w'"
proof -
  obtain e c1 w1 where run: "authPlugin X R A (p_config p) c w = (e, c1, w1)"
    by (cases "authPlugin X R A (p_config p) c w")
  from assms(1,2,4) run have c': "c1 = c'" "w1 = w'" by (simp_all add: run_policy_def)
  with authPlugin_cases [OF run assms(3)] assms(5) show ?thesis by (auto simp: stopped_def)
qed

text \<open>A run that ends with a request that is not stopped ran every policy of the list.\<close>

lemma run_policies_through:
  assumes "run_policies X R A (before @ p # after) s = (c', w')" and "\<not> stopped c'"
  obtains cp wp c1 w1 where "run_policies X R A before s = (cp, wp)" "\<not> stopped cp"
    "run_policy X R A p (cp, wp) = (c1, w1)" "\<not> stopped c1" "run_policies X R A after (c1, w1) = (c', w')"
proof -
  obtain cp wp where b: "run_policies X R A before s = (cp, wp)" by (cases "run_policies X R A before s")
  obtain c1 w1 where r: "run_policy X R A p (cp, wp) = (c1, w1)" by (cases "run_policy X R A p (cp, wp)")
  have 1: "\<not> stopped cp" using assms b by (auto simp: run_policies_append)
  then have 2: "run_policies X R A after (c1, w1) = (c', w')"
    using assms(1) b r by (simp add: run_policies_append)
  then have "\<not> stopped c1" using assms(2) by auto
  with that b 1 r 2 show thesis by blast
qed

lemma phase_authenticates:
  assumes "chain_policies ch = Inr ps" and "p \<in> set ps" and "p_enabled p" and "p_phase p = phase"
    and "p_type p \<in> {''auth'', ''jwt_auth'', ''api_key_auth''}" and "\<not> truthy (p_condition p)"
    and "rget (p_config p) ''allow_anonymous'' \<noteq> Some ''true''"
    and "js_truthy ch" and "getPolicyChain X A (c_apiId c) (cc, snd (date_now w)) = (Some ch, cc1, w1)"
    and "executePhase X R A phase c (cc, w) = (res, c', s')" and "\<not> stopped c'"
  shows "\<exists>before after cp wp c1 w2 w3. phase_policies phase ps = before @ p # after \<and>
    run_policies X R A before (c\<lparr>c_phase := phase\<rparr>, w1) = (cp, wp) \<and>
    auth_accepted X R A (p_config p) cp wp c1 w2 \<and>
    run_policies X R A after (c1, w2) = (c', w3) \<and> s' = (cc1, snd (date_now w3))"
proof -
  let ?ps = "phase_policies phase ps" and ?s = "(c\<lparr>c_phase := phase\<rparr>, w1)"
  obtain w3 where run: "run_policies X R A ?ps ?s = (c', w3)" and s': "s' = (cc1, snd (date_now w3))"
    using assms(1,8-10) by (auto simp: executePhase_def date_now_def Let_def split: prod.splits)
  have "p \<in> set ?ps" using assms(2-4) by (simp add: phase_policies_sort)
  then obtain before after where ps: "?ps = before @ p # after" by (auto dest: split_list)
  have plugin: "PLUGIN_MAP (p_type p) = Some authPlugin"
    using assms(5) by (auto simp: PLUGIN_MAP_def)
  from run [unfolded ps] assms(11) show ?thesis
  proof (rule run_policies_through)
    fix cp wp c1 w2
    assume "run_policies X R A before ?s = (cp, wp)" "run_policy X R A p (cp, wp) = (c1, w2)" "\<not> stopped c1"
      "run_policies X R A after (c1, w2) = (c', w3)"
    then show ?thesis using run_auth_policy [OF plugin assms(6,7)] ps s' by blast
  qed
qed

text \<open>
  If the chain of an API holds an enabled authentication policy for a phase, without a
  condition and without anonymous access, then a request that comes out of this phase neither
  aborted nor answered from the cache was accepted by one of the policy's methods, at the
  context which the policies before it left and with the result from which those after it
  went on, whatever they are and whatever they throw.
\<close>

theorem auth_policy_protects:
  assumes "chain_policies ch = Inr ps" and "p \<in> set ps" and "p_enabled p" and "p_phase p = phase"
    and "p_type p \<in> {''auth'', ''jwt_auth'', ''api_key_auth''}" and "\<not> truthy (p_condition p)"
    and "rget (p_config p) ''allow_anonymous'' \<noteq> Some ''true''"
    and "js_truthy ch" and "getPolicyChain X A (c_apiId c) (cc, snd (date_now w)) = (Some ch, cc1, w1)"
    and "executePhase X R A phase c (cc, w) = (res, c', s')" and "\<not> stopped c'"
  shows "\<exists>before after cp wp c1 w2 w3. phase_policies phase ps = before @ p # after \<and>
    run_policies X R A before (c\<lparr>c_phase := phase\<rparr>, w1) = (cp, wp) \<and>
    auth_accepted X R A (p_config p) cp wp c1 w2 \<and>
    run_policies X R A after (c1, w2) = (c', w3) \<and> s' = (cc1, snd (date_now w3))"
  using assms by (rule phase_authenticates)

definition open_engine :: "mem io" where
  "open_engine = engine_world\<lparr>io_jwt := (\<lambda>_ q. if jc_token q = ''abc'' then Inr [] else Inl NonError)\<rparr>"

definition open_engine_ext :: "json list \<Rightarrow> ext" where
  "open_engine_ext ps = (engine_ext ps)\<lparr>x_url := (\<lambda>_. Some \<lparr>u_protocol = ''http:'', u_hostname = ''auth'', u_port = []\<rparr>)\<rparr>"

theorem auth_policy_protects_witness:
  "\<exists>cp wp c1 (w2 :: mem io).
     auth_accepted (open_engine_ext [auth_policy_json]) mem_redis sample_config (p_config (decode_policy auth_policy_json)) cp wp c1 w2"
proof -
  let ?X = "open_engine_ext [auth_policy_json]" and ?p = "decode_policy auth_policy_json"
  let ?ch = "chain_of [auth_policy_json]"
  have ps: "chain_policies ?ch = Inr [?p]"
    by (simp add: chain_policies_def chain_of_def auth_policy_json_def)
  have p: "p_enabled ?p" "p_phase ?p = ''pre_request''" "p_type ?p = ''auth''" "p_condition ?p = None"
      "p_config ?p = [(''methods'', ''jwt'')]"
    by code_simp+
  have t: "js_truthy ?ch" by (simp add: chain_of_def)
  have id: "c_apiId anonymous_ctx = ''orders''" by (simp add: anonymous_ctx_def createExecContext_def)
  obtain r cc1 w1 where g: "getPolicyChain ?X sample_config ''orders'' ([], snd (date_now open_engine)) = (r, cc1, w1)"
    by (cases "getPolicyChain ?X sample_config ''orders'' ([], snd (date_now open_engine))")
  have "fst (getPolicyChain ?X sample_config ''orders'' ([], snd (date_now open_engine))) = Some ?ch"
    by (simp add: getPolicyChain_def fetch_chain_def internalFetch_def http_fetch_def sample_config_def
        open_engine_def engine_world_def chain_url_def get_request_def resp_ok_def resp_json_def open_engine_ext_def
        engine_ext_def date_now_def)
  with g have r: "r = Some ?ch" by simp
  obtain res c' s' where e: "executePhase ?X mem_redis sample_config ''pre_request'' anonymous_ctx ([], open_engine) = (res, c', s')"
    by (cases "executePhase ?X mem_redis sample_config ''pre_request'' anonymous_ctx ([], open_engine)")
  have "\<not> stopped (fst (snd (executePhase ?X mem_redis sample_config ''pre_request'' anonymous_ctx ([], open_engine))))"
    by code_simp
  with e have s: "\<not> stopped c'" by simp
  have "p_phase ?p = ''pre_request''" "?p \<in> set [?p]" by (simp_all add: p)
  from auth_policy_protects [OF ps this(2) _ this(1) _ _ _ t g [unfolded r id [symmetric]] e s] show ?thesis
    by (auto simp: p)
qed

end
