(* ===== verification/RouteTable.thy ===== *)
theory RouteTable
  imports Fetch "HOL-Library.List_Lexorder" "HOL-Library.Product_Lexorder"
begin

text \<open>
  \<open>gateway/src/proxy/route-table.ts\<close>: the in-memory route table, how a request is matched
  against it, and how it follows the registry.

  A payload of the registry is decoded from JSON field by field; a field of another type
  than the interface declares counts as absent, as does \<open>null\<close>.
\<close>

section \<open>The code\<close>

record route =
  rt_id :: "string option"
  rt_apiId :: string
  rt_upstreamUrl :: string
  rt_stripPrefix :: string
  rt_active :: bool
  rt_version :: string
  rt_host :: "string option"
  rt_pathPrefix :: string
  rt_methods :: "string list"

record payload =
  pl_id :: "string option"
  pl_apiId :: "string option"
  pl_api_id :: "string option"
  pl_upstreamUrl :: "string option"
  pl_upstream_url :: "string option"
  pl_stripPrefix :: "string option"
  pl_strip_prefix :: "string option"
  pl_active :: "bool option"
  pl_version :: "string option"
  pl_api_version :: "string option"
  pl_host :: "string option"
  pl_host_match :: "string option"
  pl_pathPrefix :: "string option"
  pl_path_prefix :: "string option"
  pl_methods :: "string list option"

definition decode_payload :: "json \<Rightarrow> payload" where
  "decode_payload v = (let obj = json_obj v in \<lparr>
     pl_id = sfield obj ''id'',
     pl_apiId = sfield obj ''apiId'', pl_api_id = sfield obj ''api_id'',
     pl_upstreamUrl = sfield obj ''upstreamUrl'', pl_upstream_url = sfield obj ''upstream_url'',
     pl_stripPrefix = sfield obj ''stripPrefix'', pl_strip_prefix = sfield obj ''strip_prefix'',
     pl_active = bfield obj ''active'',
     pl_version = sfield obj ''version'', pl_api_version = sfield obj ''api_version'',
     pl_host = sfield obj ''host'', pl_host_match = sfield obj ''host_match'',
     pl_pathPrefix = sfield obj ''pathPrefix'', pl_path_prefix = sfield obj ''path_prefix'',
     pl_methods = lfield obj ''methods'' \<rparr>)"

text \<open>What \<open>JSON.stringify\<close> makes of a route: an undefined property is left out.\<close>

definition encode_route :: "route \<Rightarrow> json" where
  "encode_route r = JObj (
     (case rt_id r of None \<Rightarrow> [] | Some i \<Rightarrow> [(''id'', JStr i)]) @
     [(''apiId'', JStr (rt_apiId r)), (''upstreamUrl'', JStr (rt_upstreamUrl r)),
      (''stripPrefix'', JStr (rt_stripPrefix r)), (''active'', JBool (rt_active r)),
      (''version'', JStr (rt_version r))] @
     (case rt_host r of None \<Rightarrow> [] | Some h \<Rightarrow> [(''host'', JStr h)]) @
     [(''pathPrefix'', JStr (rt_pathPrefix r)), (''methods'', JArr (map JStr (rt_methods r)))])"

definition normalizeHost :: "string \<Rightarrow> string option" where
  "normalizeHost host =
     (let trimmed = js_lower (js_trim host)
      in if trimmed = [] then None
         else if starts_with trimmed ''['' then Some trimmed
         else Some (hd (split_on (CHR '':'') trimmed)))"

definition normalizePath :: "string \<Rightarrow> string" where
  "normalizePath path =
     (let pathname = (let p = hd (split_on (CHR ''?'') path) in if p = [] then ''/'' else p)
      in if starts_with pathname ''/'' then pathname else ''/'' @ pathname)"

text \<open>\<open>s.replace(/\/+$/, '')\<close>.\<close>

definition drop_trailing_slashes :: "string \<Rightarrow> string" where
  "drop_trailing_slashes s = rev (dropWhile (\<lambda>c. c = CHR ''/'') (rev s))"

definition normalizePathPrefix :: "string \<Rightarrow> string" where
  "normalizePathPrefix pre =
     (let normalized = normalizePath pre
      in if normalized = ''/'' then normalized else drop_trailing_slashes normalized)"

definition normalizeMethods :: "string list \<Rightarrow> string list" where
  "normalizeMethods methods =
     (if methods = [] then [] else sort (remdups (nonempty (map js_upper methods))))"

definition normalizeRoute :: "payload \<Rightarrow> route option" where
  "normalizeRoute p =
     (let apiId = orelse_opt (pl_apiId p) (pl_api_id p);
          pathPrefix = orelse_opt (pl_pathPrefix p) (pl_path_prefix p);
          upstreamUrl = orelse_opt (pl_upstreamUrl p) (pl_upstream_url p)
      in if \<not> truthy apiId \<or> \<not> truthy pathPrefix \<or> \<not> truthy upstreamUrl then None
         else Some \<lparr>
           rt_id = pl_id p,
           rt_apiId = str_of apiId,
           rt_upstreamUrl = str_of upstreamUrl,
           rt_stripPrefix = orelse (pl_stripPrefix p) (orelse (pl_strip_prefix p) []),
           rt_active = orelse (pl_active p) False,
           rt_version = orelse (pl_version p) (orelse (pl_api_version p) []),
           rt_host = normalizeHost (orelse (pl_host p) (orelse (pl_host_match p) [])),
           rt_pathPrefix = normalizePathPrefix (str_of pathPrefix),
           rt_methods = normalizeMethods (orelse (pl_methods p) []) \<rparr>)"

definition normalizeRoutes :: "payload list \<Rightarrow> route list" where
  "normalizeRoutes next = List.map_filter normalizeRoute next"

definition matchesPathPrefix :: "string \<Rightarrow> string \<Rightarrow> bool" where
  "matchesPathPrefix path pre =
     (pre = ''/'' \<or> path = pre \<or> starts_with path (pre @ ''/''))"

definition routeIdentityKey :: "route \<Rightarrow> string" where
  "routeIdentityKey r =
     join_with [CHR 0x00]
       [rt_apiId r, orelse (rt_host r) ''*'', rt_pathPrefix r,
        (if 0 < length (rt_methods r) then join_with '','' (rt_methods r) else ''*''),
        rt_version r]"

text \<open>The filter and the comparison of \<open>matchRoute\<close>.\<close>

definition route_candidate :: "string option \<Rightarrow> string \<Rightarrow> string \<Rightarrow> route \<Rightarrow> bool" where
  "route_candidate normalizedHost normalizedPath normalizedMethod r =
     (if \<not> rt_active r then False
      else if truthy (rt_host r) \<and> rt_host r \<noteq> normalizedHost then False
      else if 0 < length (rt_methods r) \<and> normalizedMethod \<notin> set (rt_methods r) then False
      else matchesPathPrefix normalizedPath (rt_pathPrefix r))"

definition js_bool_num :: "bool \<Rightarrow> int" where
  "js_bool_num b = (if b then 1 else 0)"

definition route_compare :: "route \<Rightarrow> route \<Rightarrow> int" where
  "route_compare a b =
     (let hostSpecificity = js_bool_num (truthy (rt_host b)) - js_bool_num (truthy (rt_host a));
          pathSpecificity = int (length (rt_pathPrefix b)) - int (length (rt_pathPrefix a))
      in if hostSpecificity \<noteq> 0 then hostSpecificity
         else if pathSpecificity \<noteq> 0 then pathSpecificity
         else js_bool_num (0 < length (rt_methods b)) - js_bool_num (0 < length (rt_methods a)))"

definition matchRoute :: "route list \<Rightarrow> string \<Rightarrow> string \<Rightarrow> string \<Rightarrow> route option" where
  "matchRoute routes host path mth =
     (let candidates = filter (route_candidate (normalizeHost host) (normalizePath path) (js_upper mth)) routes
      in if candidates = [] then None else Some (hd (js_sort route_compare candidates)))"

text \<open>\<open>findIndex\<close> with \<open>None\<close> for \<open>-1\<close>, and the loop of \<open>applyDelta\<close>.\<close>

fun find_index :: "('a \<Rightarrow> bool) \<Rightarrow> 'a list \<Rightarrow> nat option" where
  "find_index P [] = None"
| "find_index P (x # xs) = (if P x then Some 0 else map_option Suc (find_index P xs))"

definition apply_payload :: "payload \<Rightarrow> route list \<Rightarrow> route list" where
  "apply_payload p routes =
     (case normalizeRoute p of
        None \<Rightarrow> routes
      | Some r \<Rightarrow>
          (let idx = find_index (\<lambda>x. routeIdentityKey x = routeIdentityKey r) routes
           in if \<not> rt_active r
              then (case idx of None \<Rightarrow> routes | Some i \<Rightarrow> take i routes @ drop (Suc i) routes)
              else (case idx of Some i \<Rightarrow> routes[i := r] | None \<Rightarrow> routes @ [r])))"

definition applyDelta :: "payload list \<Rightarrow> route list \<Rightarrow> route list" where
  "applyDelta delta routes = fold apply_payload delta routes"

record route_state =
  tb_routes :: "route list"
  tb_lastSyncAt :: int

definition REDIS_KEY :: string where
  "REDIS_KEY = ''gateway:routes''"

definition getRouteCount :: "route_state \<Rightarrow> nat" where
  "getRouteCount s = length (tb_routes s)"

text \<open>\<open>Array.isArray(data.routes)\<close>; reading a property of \<open>null\<close> throws.\<close>

definition data_routes :: "json \<Rightarrow> exn + payload list option" where
  "data_routes data =
     (case data of
        JNull \<Rightarrow> Inl (JsError ''TypeError'' [])
      | _ \<Rightarrow> Inr (case rget (json_obj data) ''routes'' of
                     Some (JArr vs) \<Rightarrow> Some (map decode_payload vs) | _ \<Rightarrow> None))"

definition fetch_delta ::
  "ext \<Rightarrow> config \<Rightarrow> int \<Rightarrow> 'd io \<Rightarrow> payload list option \<times> 'd io" where
  "fetch_delta X A since w =
     (case internalHeaders X A of
        Inl e \<Rightarrow> (None, w)
      | Inr h \<Rightarrow>
          (case internalFetch X A
             (get_request (cfg_REGISTRY_SERVICE_URL A @ ''/internal/routes/delta?since='' @ show_int since) h) w of
             (Inl e, w1) \<Rightarrow> (None, w1)
           | (Inr resp, w1) \<Rightarrow>
               (if \<not> resp_ok resp then (None, w1)
                else (case resp_json X resp of
                        Inl e \<Rightarrow> (None, w1)
                      | Inr data \<Rightarrow>
                          (case data_routes data of Inl e \<Rightarrow> (None, w1) | Inr ps \<Rightarrow> (ps, w1))))))"

definition save_routes ::
  "ext \<Rightarrow> 'd redis \<Rightarrow> config \<Rightarrow> route list \<Rightarrow> 'd io \<Rightarrow> (exn + unit) \<times> 'd io" where
  "save_routes X R A routes w =
     redis_write (\<lambda>t. r_setex R t REDIS_KEY (x_json_str X (JArr (map encode_route routes)))
                        (cfg_ROUTE_CACHE_TTL_S A)) w"

definition syncRoutes ::
  "ext \<Rightarrow> 'd redis \<Rightarrow> config \<Rightarrow> route_state \<Rightarrow> 'd io \<Rightarrow> route_state \<times> 'd io" where
  "syncRoutes X R A s w =
     (case fetch_delta X A (tb_lastSyncAt s) w of
        (None, w1) \<Rightarrow> (s, w1)
      | (Some delta, w1) \<Rightarrow>
          (let (now, w2) = date_now w1;
               s' = \<lparr>tb_routes = applyDelta delta (tb_routes s), tb_lastSyncAt = now div 1000\<rparr>
           in if 0 < length (tb_routes s') then (s', snd (save_routes X R A (tb_routes s') w2))
              else (s', w2)))"

definition loadFromCache ::
  "ext \<Rightarrow> 'd redis \<Rightarrow> route_state \<Rightarrow> 'd io \<Rightarrow> route_state \<times> 'd io" where
  "loadFromCache X R s w =
     (case redis_read (\<lambda>t d. r_get R t d REDIS_KEY) w of
        (Inl e, w1) \<Rightarrow> (s, w1)
      | (Inr cached, w1) \<Rightarrow>
          (if truthy cached
           then (case x_json_parse X (str_of cached) of
                   Some (JArr vs) \<Rightarrow> (s\<lparr>tb_routes := normalizeRoutes (map decode_payload vs)\<rparr>, w1)
                 | _ \<Rightarrow> (s, w1))
           else (s, w1)))"

definition fullSync ::
  "ext \<Rightarrow> 'd redis \<Rightarrow> config \<Rightarrow> route_state \<Rightarrow> 'd io \<Rightarrow> route_state \<times> 'd io" where
  "fullSync X R A s w =
     (case fetch_delta X A 0 w of
        (None, w1) \<Rightarrow> (s, w1)
      | (Some all, w1) \<Rightarrow>
          (let (now, w2) = date_now w1;
               s' = \<lparr>tb_routes = filter rt_active (normalizeRoutes all), tb_lastSyncAt = now div 1000\<rparr>
           in (s', snd (save_routes X R A (tb_routes s') w2))))"

definition replaceRoutesForTest :: "payload list \<Rightarrow> route_state \<Rightarrow> route_state" where
  "replaceRoutesForTest next s = s\<lparr>tb_routes := normalizeRoutes next\<rparr>"

definition applyDeltaForTest :: "payload list \<Rightarrow> route_state \<Rightarrow> route_state" where
  "applyDeltaForTest delta s = s\<lparr>tb_routes := applyDelta delta (tb_routes s)\<rparr>"

definition resetRoutesForTest :: "route_state \<Rightarrow> route_state" where
  "resetRoutesForTest s = \<lparr>tb_routes = [], tb_lastSyncAt = 0\<rparr>"

section \<open>Matching\<close>

text \<open>
  The order of preference as a linear order: a host-specific route comes first, then the
  longer prefix, then a route with a method list.
\<close>

datatype specificity = Specificity (sp_host: bool) (sp_length: nat) (sp_methods: bool)

definition sp_key :: "specificity \<Rightarrow> bool \<times> int \<times> bool" where
  "sp_key p = (\<not> sp_host p, - int (sp_length p), \<not> sp_methods p)"

lemma sp_key_inject: "sp_key p = sp_key q \<longleftrightarrow> p = q"
  by (cases p; cases q) (auto simp: sp_key_def)

instantiation specificity :: linorder
begin

definition less_eq_specificity :: "specificity \<Rightarrow> specificity \<Rightarrow> bool" where
  "less_eq_specificity p q = (sp_key p \<le> sp_key q)"

definition less_specificity :: "specificity \<Rightarrow> specificity \<Rightarrow> bool" where
  "less_specificity p q = (sp_key p < sp_key q)"

instance
proof
  fix x y z :: specificity
  show "(x < y) = (x \<le> y \<and> \<not> y \<le> x)"
    by (auto simp: less_eq_specificity_def less_specificity_def)
  show "x \<le> x" by (simp add: less_eq_specificity_def)
  show "x \<le> y \<Longrightarrow> y \<le> z \<Longrightarrow> x \<le> z"
    unfolding less_eq_specificity_def by (rule order.trans)
  show "x \<le> y \<Longrightarrow> y \<le> x \<Longrightarrow> x = y"
    unfolding less_eq_specificity_def by (simp flip: sp_key_inject)
  show "x \<le> y \<or> y \<le> x" unfolding less_eq_specificity_def by (rule linear)
qed

end

definition specificity_of :: "route \<Rightarrow> specificity" where
  "specificity_of r =
     Specificity (truthy (rt_host r)) (length (rt_pathPrefix r)) (rt_methods r \<noteq> [])"

lemma route_compare_le: "route_compare a b \<le> 0 \<longleftrightarrow> specificity_of a \<le> specificity_of b"
  by (auto simp: route_compare_def specificity_of_def less_eq_specificity_def sp_key_def
      js_bool_num_def Let_def less_eq_prod_def)

text \<open>A prefix matches whole segments of the path; the root matches every path.\<close>

definition segment_prefix :: "string \<Rightarrow> string \<Rightarrow> bool" where
  "segment_prefix pre path =
     (pre = ''/'' \<or> (\<exists>rest. path = pre @ rest \<and> (rest = [] \<or> hd rest = CHR ''/'')))"

lemma matchesPathPrefix_segment: "matchesPathPrefix path pre \<longleftrightarrow> segment_prefix pre path"
proof -
  have "starts_with path (pre @ ''/'') \<longleftrightarrow> (\<exists>rest. path = pre @ rest \<and> rest \<noteq> [] \<and> hd rest = CHR ''/'')"
    by (auto simp: starts_with_prefix prefix_def) (metis list.collapse)
  then show ?thesis by (auto simp: matchesPathPrefix_def segment_prefix_def)
qed

text \<open>What it means that a route serves a request.\<close>

definition serves :: "route \<Rightarrow> string \<Rightarrow> string \<Rightarrow> string \<Rightarrow> bool" where
  "serves r host path mth =
     (rt_active r \<and> (truthy (rt_host r) \<longrightarrow> rt_host r = normalizeHost host) \<and>
      (rt_methods r = [] \<or> js_upper mth \<in> set (rt_methods r)) \<and>
      segment_prefix (rt_pathPrefix r) (normalizePath path))"

lemma route_candidate_serves:
  "route_candidate (normalizeHost host) (normalizePath path) (js_upper mth) r = serves r host path mth"
  by (simp add: route_candidate_def serves_def matchesPathPrefix_segment)

lemma matchRoute_spec:
  "case matchRoute routes host path mth of
     None \<Rightarrow> \<forall>r \<in> set routes. \<not> serves r host path mth
   | Some r \<Rightarrow> \<exists>before after. routes = before @ r # after \<and> serves r host path mth \<and>
       (\<forall>q \<in> set before. serves q host path mth \<longrightarrow> specificity_of r < specificity_of q) \<and>
       (\<forall>q \<in> set after. serves q host path mth \<longrightarrow> specificity_of r \<le> specificity_of q)"
proof -
  define P where "P r = serves r host path mth" for r
  have c: "route_candidate (normalizeHost host) (normalizePath path) (js_upper mth) = P"
    by (simp add: fun_eq_iff P_def route_candidate_serves)
  have m: "matchRoute routes host path mth =
      (if filter P routes = [] then None
       else Some (hd (sort_key specificity_of (filter P routes))))"
    by (simp add: matchRoute_def c Let_def
        js_sort_sort_key [of route_compare specificity_of, OF route_compare_le])
  show ?thesis
  proof (cases "filter P routes = []")
    case True
    with m show ?thesis by (simp add: P_def filter_empty_conv)
  next
    case False
    define r where "r = hd (sort_key specificity_of (filter P routes))"
    from sort_key_hd_first [OF False, of specificity_of, folded r_def]
    obtain us vs where e: "filter P routes = us @ r # vs"
      and u: "\<forall>u \<in> set us. specificity_of r < specificity_of u"
      and v: "\<forall>v \<in> set vs. specificity_of r \<le> specificity_of v" by blast
    from e obtain as bs where s: "routes = as @ r # bs" "filter P as = us" "filter P bs = vs" "P r"
      by (rule filter_eq_appendE)
    have "(\<forall>q \<in> set as. serves q host path mth \<longrightarrow> specificity_of r < specificity_of q) \<and>
        (\<forall>q \<in> set bs. serves q host path mth \<longrightarrow> specificity_of r \<le> specificity_of q)"
      using u v s(2,3) by (auto simp: P_def)
    with s m False show ?thesis by (auto simp: r_def P_def)
  qed
qed

text \<open>
  C8. Matching is complete and optimal: no route is returned exactly when none serves the
  request; the one returned serves it, and no other route that does is more specific (host,
  then length of the prefix, then a method list), ties going to the first in the table.
\<close>

theorem matchRoute_best:
  "case matchRoute routes host path mth of
     None \<Rightarrow> \<forall>r \<in> set routes. \<not> serves r host path mth
   | Some r \<Rightarrow> \<exists>before after. routes = before @ r # after \<and> serves r host path mth \<and>
       (\<forall>q \<in> set before. serves q host path mth \<longrightarrow> specificity_of r < specificity_of q) \<and>
       (\<forall>q \<in> set after. serves q host path mth \<longrightarrow> specificity_of r \<le> specificity_of q)"
  by (rule matchRoute_spec)

definition sample_route :: "string \<Rightarrow> string option \<Rightarrow> string \<Rightarrow> route" where
  "sample_route api h pre = \<lparr>rt_id = None, rt_apiId = api, rt_upstreamUrl = ''http://up'',
     rt_stripPrefix = [], rt_active = True, rt_version = ''v1'', rt_host = h,
     rt_pathPrefix = pre, rt_methods = []\<rparr>"

theorem matchRoute_best_witness:
  "let routes = [sample_route ''any'' None ''/orders'', sample_route ''root'' (Some ''api.test'') ''/'',
                 sample_route ''exact'' (Some ''api.test'') ''/orders'']
   in matchRoute routes ''API.test:8080'' ''/orders/7?x=1'' ''get'' = Some (routes ! 2) \<and>
      serves (routes ! 2) ''API.test:8080'' ''/orders/7?x=1'' ''get''"
proof -
  let ?rs = "[sample_route ''any'' None ''/orders'', sample_route ''root'' (Some ''api.test'') ''/'',
                 sample_route ''exact'' (Some ''api.test'') ''/orders'']"
  have m: "matchRoute ?rs ''API.test:8080'' ''/orders/7?x=1'' ''get'' = Some (?rs ! 2)"
    by code_simp
  show ?thesis
    unfolding Let_def
    using matchRoute_best [of ?rs "''API.test:8080''" "''/orders/7?x=1''" "''get''", unfolded m option.case] m
    by blast
qed

section \<open>A delta is a series of map updates\<close>

text \<open>The contract of the table: at most one route per identity key, read as a map.\<close>

definition table_of :: "route list \<Rightarrow> string \<Rightarrow> route option" where
  "table_of routes = map_of (map (\<lambda>r. (routeIdentityKey r, r)) routes)"

definition delta_update :: "payload \<Rightarrow> (string \<Rightarrow> route option) \<Rightarrow> string \<Rightarrow> route option" where
  "delta_update p m =
     (case normalizeRoute p of
        None \<Rightarrow> m
      | Some r \<Rightarrow> m(routeIdentityKey r := if rt_active r then Some r else None))"

definition table_ok :: "route list \<Rightarrow> bool" where
  "table_ok routes = (distinct (map routeIdentityKey routes) \<and> (\<forall>r \<in> set routes. rt_active r))"

lemma find_index_None: "find_index P xs = None \<longleftrightarrow> (\<forall>x \<in> set xs. \<not> P x)"
  by (induction xs) auto

lemma find_index_Some:
  "find_index P xs = Some i \<Longrightarrow> \<exists>us x vs. xs = us @ x # vs \<and> length us = i \<and> P x \<and> (\<forall>u \<in> set us. \<not> P u)"
proof (induction xs arbitrary: i)
  case (Cons y ys)
  show ?case
  proof (cases "P y")
    case True
    with Cons.prems show ?thesis by (intro exI [of _ "[]"]) simp
  next
    case False
    with Cons.prems obtain j where "find_index P ys = Some j" "i = Suc j" by auto
    with Cons.IH obtain us x vs where "ys = us @ x # vs" "length us = j" "P x" "\<forall>u \<in> set us. \<not> P u"
      by blast
    with False \<open>i = Suc j\<close> show ?thesis by (intro exI [of _ "y # us"]) auto
  qed
qed simp

lemma table_of_append: "table_of (us @ vs) = table_of vs ++ table_of us"
  by (simp add: table_of_def)

lemma table_of_Cons: "table_of (r # rs) = (table_of rs)(routeIdentityKey r \<mapsto> r)"
  by (simp add: table_of_def)

lemma table_of_Nil: "table_of [] = (\<lambda>_. None)"
  by (simp add: table_of_def)

lemma table_of_None: "table_of rs k = None \<longleftrightarrow> k \<notin> routeIdentityKey ` set rs"
  by (simp add: table_of_def map_of_eq_None_iff image_image)

lemma apply_payload_cases:
  assumes n: "normalizeRoute p = Some r"
  obtains (fresh) "routeIdentityKey r \<notin> routeIdentityKey ` set rs"
      "apply_payload p rs = (if rt_active r then rs @ [r] else rs)"
    | (found) us x vs where "rs = us @ x # vs" "routeIdentityKey x = routeIdentityKey r"
      "routeIdentityKey r \<notin> routeIdentityKey ` set us"
      "apply_payload p rs = us @ (if rt_active r then r # vs else vs)"
proof (cases "find_index (\<lambda>x. routeIdentityKey x = routeIdentityKey r) rs")
  case None
  then have "routeIdentityKey r \<notin> routeIdentityKey ` set rs"
    by (force simp: find_index_None)
  with None n show thesis by (intro fresh) (simp_all add: apply_payload_def)
next
  case (Some i)
  from find_index_Some [OF this] obtain us x vs where f: "rs = us @ x # vs" "length us = i"
    "routeIdentityKey x = routeIdentityKey r" "\<forall>u \<in> set us. routeIdentityKey u \<noteq> routeIdentityKey r"
    by blast
  then have "apply_payload p rs = us @ (if rt_active r then r # vs else vs)"
    using n Some by (auto simp: apply_payload_def)
  with f show thesis by (intro found) force+
qed

lemma apply_payload_refines:
  assumes "table_ok rs"
  shows "table_ok (apply_payload p rs) \<and> table_of (apply_payload p rs) = delta_update p (table_of rs)"
proof (cases "normalizeRoute p")
  case None
  with assms show ?thesis by (simp add: apply_payload_def delta_update_def)
next
  case (Some r)
  then show ?thesis
  proof (cases rule: apply_payload_cases [where rs = rs])
    case fresh
    then have "table_of rs (routeIdentityKey r) = None" by (simp add: table_of_None)
    then have "(table_of rs)(routeIdentityKey r := None) = table_of rs" by auto
    with fresh assms Some show ?thesis
      using \<open>table_of rs (routeIdentityKey r) = None\<close>
      by (auto simp: table_ok_def delta_update_def table_of_append table_of_Cons table_of_Nil fun_eq_iff
          map_add_def split: option.splits)
  next
    case (found us x vs)
    from assms found have o: "table_of us (routeIdentityKey r) = None"
        "table_of vs (routeIdentityKey r) = None"
      by (force simp: table_of_None table_ok_def)+
    have "table_of (us @ (if rt_active r then r # vs else vs)) =
        (table_of (us @ x # vs))(routeIdentityKey r := if rt_active r then Some r else None)"
      using o found(2) by (auto simp: table_of_append table_of_Cons map_add_def fun_eq_iff split: option.splits)
    moreover have "table_ok (us @ (if rt_active r then r # vs else vs))"
      using assms found(1-3) by (auto simp: table_ok_def)
    ultimately show ?thesis using found(1,4) Some by (simp add: delta_update_def)
  qed
qed

lemma applyDelta_refines_map:
  "table_ok rs \<Longrightarrow> table_ok (applyDelta delta rs) \<and>
     table_of (applyDelta delta rs) = fold delta_update delta (table_of rs)"
proof (induction delta arbitrary: rs)
  case (Cons p delta)
  from Cons.IH [of "apply_payload p rs"] apply_payload_refines [OF Cons.prems, of p]
  show ?case by (simp add: applyDelta_def)
qed (simp add: applyDelta_def)

text \<open>
  C7. On a table with at most one route per identity key, all active, the index juggling of
  \<open>applyDelta\<close> is the series of map updates it stands for: each payload that survives
  normalisation replaces the route with its key, or deletes it when inactive, and the table
  keeps both conditions.
\<close>

theorem applyDelta_refines:
  assumes "distinct (map routeIdentityKey routes)" and "\<forall>r \<in> set routes. rt_active r"
  shows "table_of (applyDelta delta routes) = fold delta_update delta (table_of routes) \<and>
    distinct (map routeIdentityKey (applyDelta delta routes)) \<and>
    (\<forall>r \<in> set (applyDelta delta routes). rt_active r)"
  using applyDelta_refines_map [of routes delta] assms by (simp_all add: table_ok_def)

definition sample_payload :: "string \<Rightarrow> string \<Rightarrow> string \<Rightarrow> bool \<Rightarrow> payload" where
  "sample_payload api up pre act = \<lparr>pl_id = None, pl_apiId = None, pl_api_id = Some api,
     pl_upstreamUrl = None, pl_upstream_url = Some up, pl_stripPrefix = None, pl_strip_prefix = None,
     pl_active = Some act, pl_version = None, pl_api_version = None, pl_host = None,
     pl_host_match = None, pl_pathPrefix = None, pl_path_prefix = Some pre, pl_methods = Some [''get'']\<rparr>"

theorem applyDelta_refines_witness:
  "let rs = applyDelta [sample_payload ''a'' ''http://old'' ''/a/'' True, sample_payload ''b'' ''http://b'' ''/b'' True] [];
       delta = [sample_payload ''a'' ''http://new'' ''/a'' True, sample_payload ''b'' ''http://b'' ''/b'' False]
   in map rt_upstreamUrl (applyDelta delta rs) = [''http://new''] \<and>
      table_of (applyDelta delta rs) = fold delta_update delta (table_of rs)"
proof -
  let ?rs = "applyDelta [sample_payload ''a'' ''http://old'' ''/a/'' True, sample_payload ''b'' ''http://b'' ''/b'' True] []"
  let ?delta = "[sample_payload ''a'' ''http://new'' ''/a'' True, sample_payload ''b'' ''http://b'' ''/b'' False]"
  have d: "distinct (map routeIdentityKey ?rs)" by code_simp
  have a: "\<forall>r \<in> set ?rs. rt_active r" by code_simp
  have n: "map rt_upstreamUrl (applyDelta ?delta ?rs) = [''http://new'']" by code_simp
  show ?thesis
    unfolding Let_def using applyDelta_refines [OF d a, of ?delta] n by blast
qed

section \<open>Normal form\<close>

text \<open>What \<open>normalizeRoute\<close> makes of every payload it keeps.\<close>

definition prefix_normal :: "string \<Rightarrow> bool" where
  "prefix_normal pre =
     (pre = ''/'' \<or> pre = [] \<or>
      starts_with pre ''/'' \<and> CHR ''?'' \<notin> set pre \<and> last pre \<noteq> CHR ''/'')"

definition host_normal :: "string option \<Rightarrow> bool" where
  "host_normal h =
     (case h of None \<Rightarrow> True
      | Some s \<Rightarrow> js_lower s = s \<and> (starts_with s ''['' \<or> CHR '':'' \<notin> set s))"

definition methods_normal :: "string list \<Rightarrow> bool" where
  "methods_normal ms =
     (sorted ms \<and> distinct ms \<and> (\<forall>m \<in> set ms. m \<noteq> [] \<and> js_upper m = m))"

definition route_normal :: "route \<Rightarrow> bool" where
  "route_normal r =
     (rt_apiId r \<noteq> [] \<and> rt_upstreamUrl r \<noteq> [] \<and> prefix_normal (rt_pathPrefix r) \<and>
      host_normal (rt_host r) \<and> methods_normal (rt_methods r))"

lemma normalizePath_shape:
  "starts_with (normalizePath path) ''/'' \<and> CHR ''?'' \<notin> set (normalizePath path)"
proof -
  define p where "p = hd (split_on (CHR ''?'') path)"
  have "CHR ''?'' \<notin> set p"
    unfolding p_def by (rule split_on_no_sep [of _ _ path]) simp
  then show ?thesis
    by (auto simp: normalizePath_def Let_def p_def [symmetric] starts_with_def)
qed

lemma drop_trailing_slashes_shape:
  assumes "starts_with s ''/''" "CHR ''?'' \<notin> set s"
  shows "prefix_normal (drop_trailing_slashes s)"
proof -
  let ?t = "drop_trailing_slashes s"
  have "prefix ?t s"
    unfolding drop_trailing_slashes_def
    by (metis rev_rev_ident suffix_dropWhile suffix_to_prefix)
  then obtain u where u: "s = ?t @ u" by (auto simp: prefix_def)
  show ?thesis
  proof (cases "?t = []")
    case False
    then have "starts_with ?t ''/''"
      using assms(1) u by (cases ?t) (auto simp: starts_with_def)
    moreover have "CHR ''?'' \<notin> set ?t" using assms(2) u by (metis Un_iff set_append)
    moreover have "last ?t \<noteq> CHR ''/''"
      using False unfolding drop_trailing_slashes_def
      by (metis (full_types) hd_dropWhile last_rev rev_is_Nil_conv)
    ultimately show ?thesis by (simp add: prefix_normal_def)
  qed (simp add: prefix_normal_def)
qed

lemma normalizePathPrefix_normal: "prefix_normal (normalizePathPrefix pre)"
  using normalizePath_shape [of pre] drop_trailing_slashes_shape [of "normalizePath pre"]
  by (auto simp: normalizePathPrefix_def Let_def prefix_normal_def)

lemma normalizePath_id:
  "starts_with p ''/'' \<Longrightarrow> CHR ''?'' \<notin> set p \<Longrightarrow> normalizePath p = p"
  by (auto simp: normalizePath_def split_on_absent starts_with_def)

lemma drop_trailing_slashes_id: "s = [] \<or> last s \<noteq> CHR ''/'' \<Longrightarrow> drop_trailing_slashes s = s"
  by (cases s rule: rev_cases) (auto simp: drop_trailing_slashes_def)

lemma normalizePathPrefix_id:
  "prefix_normal pre \<Longrightarrow> pre \<noteq> [] \<Longrightarrow> normalizePathPrefix pre = pre"
  by (auto simp: prefix_normal_def normalizePathPrefix_def normalizePath_id drop_trailing_slashes_id
      Let_def)

lemma js_lower_set: "set (js_lower s) = lower_char ` set s"
  by (simp add: js_lower_def)

lemma split_on_hd_prefix: "\<exists>u. s = hd (split_on c s) @ u"
  by (induction s) (auto split: list.splits)

lemma normalizeHost_normal: "host_normal (normalizeHost host)"
proof -
  define t where "t = js_lower (js_trim host)"
  have l: "map lower_char t = t" unfolding t_def using js_lower_idem [of "js_trim host"] by (simp add: js_lower_def)
  obtain u where u: "t = hd (split_on (CHR '':'') t) @ u" using split_on_hd_prefix by blast
  have "map lower_char (hd (split_on (CHR '':'') t)) = hd (split_on (CHR '':'') t)"
    using l by (subst (asm) u, subst (asm) (2) u) simp
  moreover have "CHR '':'' \<notin> set (hd (split_on (CHR '':'') t))"
    by (rule split_on_no_sep [of _ _ t]) simp
  ultimately show ?thesis
    using l unfolding host_normal_def normalizeHost_def Let_def t_def [symmetric]
    by (auto simp: js_lower_def)
qed

lemma normalizeMethods_normal: "methods_normal (normalizeMethods ms)"
  by (auto simp: methods_normal_def normalizeMethods_def)

lemma normalizeMethods_id:
  assumes "methods_normal ms"
  shows "normalizeMethods ms = ms"
proof -
  have "map js_upper ms = ms" "nonempty ms = ms"
    using assms by (auto simp: methods_normal_def nonempty_def map_idI)
  then show ?thesis
    using assms by (simp add: normalizeMethods_def methods_normal_def distinct_remdups_id sorted_sort_id)
qed

lemma normalizeRoute_normal: "normalizeRoute p = Some r \<Longrightarrow> route_normal r"
  by (auto simp: normalizeRoute_def Let_def route_normal_def normalizePathPrefix_normal
      normalizeHost_normal normalizeMethods_normal elim!: truthyE split: if_splits)

lemma normalizeRoutes_normal: "r \<in> set (normalizeRoutes ps) \<Longrightarrow> route_normal r"
  by (auto simp: normalizeRoutes_def List.map_filter_def normalizeRoute_normal)

lemma apply_payload_normal:
  assumes "\<forall>r \<in> set rs. route_normal r"
  shows "\<forall>r \<in> set (apply_payload p rs). route_normal r"
proof (cases "normalizeRoute p")
  case None
  with assms show ?thesis by (simp add: apply_payload_def)
next
  case (Some r)
  with normalizeRoute_normal have "route_normal r" by blast
  with Some assms show ?thesis
    by (cases rule: apply_payload_cases [where rs = rs]) auto
qed

lemma applyDelta_normal:
  "\<forall>r \<in> set rs. route_normal r \<Longrightarrow> \<forall>r \<in> set (applyDelta delta rs). route_normal r"
proof (induction delta arbitrary: rs)
  case (Cons p delta)
  from Cons.IH [OF apply_payload_normal [OF Cons.prems]] show ?case by (simp add: applyDelta_def)
qed (simp add: applyDelta_def)

section \<open>The life of the table\<close>

text \<open>
  The operations that change the table, each in any world: what Redis holds, what the
  registry answers and what the clock says may differ at every step.
\<close>

inductive table_step :: "ext \<Rightarrow> 'd redis \<Rightarrow> config \<Rightarrow> route_state \<Rightarrow> route_state \<Rightarrow> bool"
  for X R A where
  sync: "syncRoutes X R A s w = (s', w') \<Longrightarrow> table_step X R A s s'"
| load: "loadFromCache X R s w = (s', w') \<Longrightarrow> table_step X R A s s'"
| full: "fullSync X R A s w = (s', w') \<Longrightarrow> table_step X R A s s'"

inductive_cases table_stepE: "table_step X R A s s'"

abbreviation table_runs :: "ext \<Rightarrow> 'd redis \<Rightarrow> config \<Rightarrow> route_state \<Rightarrow> route_state \<Rightarrow> bool" where
  "table_runs X R A \<equiv> (table_step X R A)\<^sup>*\<^sup>*"

lemma sync_normal:
  "syncRoutes X R A s w = (s', w') \<Longrightarrow> \<forall>r \<in> set (tb_routes s). route_normal r \<Longrightarrow>
   \<forall>r \<in> set (tb_routes s'). route_normal r"
  by (auto simp: syncRoutes_def Let_def split_beta applyDelta_normal split: prod.splits option.splits if_splits)

lemma load_normal:
  "loadFromCache X R s w = (s', w') \<Longrightarrow> \<forall>r \<in> set (tb_routes s). route_normal r \<Longrightarrow>
   \<forall>r \<in> set (tb_routes s'). route_normal r"
  by (auto simp: loadFromCache_def normalizeRoutes_normal
      split: prod.splits option.splits if_splits sum.splits json.splits)

lemma full_normal:
  "fullSync X R A s w = (s', w') \<Longrightarrow> \<forall>r \<in> set (tb_routes s). route_normal r \<Longrightarrow>
   \<forall>r \<in> set (tb_routes s'). route_normal r"
  by (auto simp: fullSync_def Let_def split_beta normalizeRoutes_normal split: prod.splits option.splits)

lemma runs_normal:
  "table_runs X R A s s' \<Longrightarrow> \<forall>r \<in> set (tb_routes s). route_normal r \<Longrightarrow>
   \<forall>r \<in> set (tb_routes s'). route_normal r"
proof (induction rule: rtranclp_induct)
  case (step s1 s2)
  from step.hyps(2) step.IH [OF step.prems] show ?case
    by (cases rule: table_stepE) (blast dest: sync_normal load_normal full_normal)+
qed

definition sample_table :: "route list" where
  "sample_table = [sample_route ''orders'' (Some ''api.test'') ''/orders'']"

text \<open>A registry that answers with that table, and a JSON printer that can write it.\<close>

definition sample_registry_ext :: ext where
  "sample_registry_ext = sample_ext\<lparr>
     x_json_str := \<lambda>_. ''table'',
     x_json_parse := \<lambda>s. if s = ''delta'' then Some (JObj [(''routes'', JArr (map encode_route sample_table))])
                        else if s = ''table'' then Some (JArr (map encode_route sample_table)) else None\<rparr>"

definition sample_registry_world :: "mem io" where
  "sample_registry_world =
     sample_io\<lparr>io_net := \<lambda>_ _. Inr \<lparr>rs_status = 200, rs_headers = [], rs_body = ''delta''\<rparr>\<rparr>"

definition sample_full_sync :: "route_state \<times> mem io" where
  "sample_full_sync = fullSync sample_registry_ext mem_redis sample_config \<lparr>tb_routes = [], tb_lastSyncAt = 0\<rparr>
     sample_registry_world"

lemma sample_full_sync_routes: "tb_routes (fst sample_full_sync) = sample_table"
  by code_simp

text \<open>
  C15. Whatever the registry, Redis and the clock did, and however full synchronisations,
  deltas and loads from the cache were mixed since the start, every route of the table is in
  normal form, and a route that is matched is active and names an API and an upstream.
\<close>

theorem table_invariant:
  assumes "table_runs X R A \<lparr>tb_routes = [], tb_lastSyncAt = 0\<rparr> s"
  shows "(\<forall>r \<in> set (tb_routes s). route_normal r) \<and>
    (\<forall>h p m r. matchRoute (tb_routes s) h p m = Some r \<longrightarrow>
       rt_active r \<and> rt_apiId r \<noteq> [] \<and> rt_upstreamUrl r \<noteq> [])"
proof -
  have n: "\<forall>r \<in> set (tb_routes s). route_normal r"
    using runs_normal [OF assms] by simp
  have "rt_active r \<and> rt_apiId r \<noteq> [] \<and> rt_upstreamUrl r \<noteq> []"
    if "matchRoute (tb_routes s) h p m = Some r" for h p m r
    using matchRoute_spec [of "tb_routes s" h p m] that n
    by (auto simp: serves_def route_normal_def)
  with n show ?thesis by blast
qed

theorem table_invariant_witness:
  "matchRoute (tb_routes (fst sample_full_sync)) ''api.test'' ''/orders/7'' ''GET'' = Some (hd sample_table) \<and>
   rt_active (hd sample_table) \<and> route_normal (hd sample_table)"
proof -
  have r: "table_runs sample_registry_ext mem_redis sample_config \<lparr>tb_routes = [], tb_lastSyncAt = 0\<rparr> (fst sample_full_sync)"
    by (rule r_into_rtranclp, rule table_step.full [where w = sample_registry_world and w' = "snd sample_full_sync"])
      (simp add: sample_full_sync_def)
  have m: "matchRoute (tb_routes (fst sample_full_sync)) ''api.test'' ''/orders/7'' ''GET'' = Some (hd sample_table)"
    unfolding sample_full_sync_routes by code_simp
  from table_invariant [OF r] m sample_full_sync_routes show ?thesis
    by (auto simp: sample_table_def)
qed

section \<open>Restart\<close>

text \<open>A route that survives being written to the cache and normalised again.\<close>

definition reloadable :: "route \<Rightarrow> bool" where
  "reloadable r =
     (rt_pathPrefix r \<noteq> [] \<and> (case rt_host r of None \<Rightarrow> True | Some h \<Rightarrow> h \<noteq> [] \<and> js_trim h = h))"

lemma normalizeHost_id:
  "host_normal (Some h) \<Longrightarrow> h \<noteq> [] \<Longrightarrow> js_trim h = h \<Longrightarrow> normalizeHost h = Some h"
  by (auto simp: host_normal_def normalizeHost_def split_on_absent)

lemma normalizeHost_Nil: "normalizeHost [] = None"
  by (simp add: normalizeHost_def)

lemma decode_encode_route:
  "decode_payload (encode_route r) = \<lparr>
     pl_id = rt_id r, pl_apiId = Some (rt_apiId r), pl_api_id = None,
     pl_upstreamUrl = Some (rt_upstreamUrl r), pl_upstream_url = None,
     pl_stripPrefix = Some (rt_stripPrefix r), pl_strip_prefix = None,
     pl_active = Some (rt_active r), pl_version = Some (rt_version r), pl_api_version = None,
     pl_host = rt_host r, pl_host_match = None,
     pl_pathPrefix = Some (rt_pathPrefix r), pl_path_prefix = None,
     pl_methods = Some (rt_methods r) \<rparr>"
  by (cases "rt_id r"; cases "rt_host r")
    (simp_all add: decode_payload_def encode_route_def sfield_def bfield_def lfield_def Let_def)

lemma normalize_reload:
  assumes "route_normal r" "reloadable r"
  shows "normalizeRoute (decode_payload (encode_route r)) = Some r"
  using assms
  by (cases "rt_host r")
    (simp_all add: decode_encode_route normalizeRoute_def route_normal_def reloadable_def Let_def
      normalizePathPrefix_id normalizeMethods_id normalizeHost_id normalizeHost_Nil)

lemma normalizeRoutes_reload:
  "\<forall>r \<in> set rs. route_normal r \<and> reloadable r \<Longrightarrow>
   normalizeRoutes (map decode_payload (map encode_route rs)) = rs"
  by (induction rs) (simp_all add: normalizeRoutes_def List.map_filter_def normalize_reload)

text \<open>
  A table written to Redis by a full synchronisation is the table a restarted gateway
  loads, as long as it starts within the time to live, the JSON printer is inverted by the
  parser, and no route has an empty prefix or a padded host (those are changed or dropped by
  the second normalisation).
\<close>

theorem route_cache_roundtrip:
  assumes "redis_server R obj" and "quiet w" and "0 < cfg_ROUTE_CACHE_TTL_S A"
    and "fetch_delta X A 0 w = (Some ps, w0)"
    and "fullSync X R A s w = (s1, w1)"
    and "x_json_str X (JArr (map encode_route (tb_routes s1))) \<noteq> []"
    and "x_json_parse X (x_json_str X (JArr (map encode_route (tb_routes s1)))) =
           Some (JArr (map encode_route (tb_routes s1)))"
    and "\<forall>r \<in> set (tb_routes s1). reloadable r"
    and "quiet w2" and "io_data w2 = io_data w1"
    and "io_rtime w 0 \<le> io_rtime w2 0"
    and "io_rtime w2 0 < io_rtime w 0 + 1000 * cfg_ROUTE_CACHE_TTL_S A"
  shows "tb_routes (fst (loadFromCache X R s2 w2)) = tb_routes s1"
proof -
  have fr: "io_rtime w0 = io_rtime w" "quiet w0"
    using assms(2,4) by (auto simp: fetch_delta_def quiet_def frame_simps split: sum.splits prod.splits if_splits
        dest!: arg_cong [where f = snd]) 
  define v where "v = x_json_str X (JArr (map encode_route (tb_routes s1)))"
  have s1: "tb_routes s1 = filter rt_active (normalizeRoutes ps)"
    and d: "io_data w1 = r_setex R (io_rtime w 0) REDIS_KEY v (cfg_ROUTE_CACHE_TTL_S A) (io_data w0)"
    using assms(4,5) fr
    by (auto simp: fullSync_def save_routes_def redis_write_def redis_call_quiet date_now_def v_def Let_def)
  have "r_get R (io_rtime w2 0) (io_data w2) REDIS_KEY = Some v"
    unfolding assms(10) d using redis_server.get_setex [OF assms(1) assms(11,12,3)] .
  moreover have "\<forall>r \<in> set (tb_routes s1). route_normal r \<and> reloadable r"
    using assms(8) normalizeRoutes_normal by (auto simp: s1)
  ultimately show ?thesis
    using assms(6,7,9) normalizeRoutes_reload
    by (simp add: loadFromCache_def redis_read_def redis_call_quiet v_def [symmetric])
qed

theorem route_cache_roundtrip_witness:
  "tb_routes (fst (loadFromCache sample_registry_ext mem_redis \<lparr>tb_routes = [], tb_lastSyncAt = 0\<rparr>
     (sample_io\<lparr>io_data := io_data (snd sample_full_sync), io_rtime := \<lambda>_. 59000\<rparr>))) = sample_table"
proof -
  let ?w2 = "sample_io\<lparr>io_data := io_data (snd sample_full_sync), io_rtime := \<lambda>_. 59000\<rparr>"
  have q: "quiet sample_registry_world" "quiet ?w2"
    by (simp_all add: quiet_def sample_registry_world_def sample_io_def)
  have f: "fst (fetch_delta sample_registry_ext sample_config 0 sample_registry_world) =
      Some (map decode_payload (map encode_route sample_table))"
    by code_simp
  have t: "0 < cfg_ROUTE_CACHE_TTL_S sample_config"
    "io_rtime sample_registry_world 0 \<le> io_rtime ?w2 0"
    "io_rtime ?w2 0 < io_rtime sample_registry_world 0 + 1000 * cfg_ROUTE_CACHE_TTL_S sample_config"
    by (simp_all add: sample_config_def sample_registry_world_def sample_io_def)
  have j: "x_json_str sample_registry_ext (JArr (map encode_route sample_table)) = ''table''"
    "x_json_parse sample_registry_ext ''table'' = Some (JArr (map encode_route sample_table))"
    by (simp_all add: sample_registry_ext_def)
  have r: "\<forall>r \<in> set sample_table. reloadable r" by code_simp
  show ?thesis
    unfolding sample_full_sync_routes [symmetric]
    by (rule route_cache_roundtrip [OF mem.redis_server_axioms q(1) t(1), 
          where ?s1.0 = "fst sample_full_sync" and ?w1.0 = "snd sample_full_sync" and s = "\<lparr>tb_routes = [], tb_lastSyncAt = 0\<rparr>"
          and X = sample_registry_ext, OF prod_eqI])
      (simp_all add: f q t [simplified] q [simplified] j r sample_full_sync_routes
        sample_full_sync_def [symmetric])
qed

end
