(* ===== verification/Upstream.thy ===== *)
theory Upstream
  imports RouteTable
begin

text \<open>
  \<open>gateway/src/proxy/upstream.ts\<close>: the request that goes to the upstream of a route and the
  response that comes back. The network either rejects the call or answers with a whole
  response; the connection pool and the timeouts are part of it.
\<close>

section \<open>The code\<close>

record upstream_request =
  ur_method :: string
  ur_path :: string
  ur_query :: string
  ur_headers :: dict
  ur_body :: "string option"

record upstream_response =
  us_status :: int
  us_headers :: dict
  us_body :: string

definition HOP_BY_HOP :: "string list" where
  "HOP_BY_HOP = [''connection'', ''keep-alive'', ''transfer-encoding'', ''te'', ''trailers'', ''upgrade'',
     ''proxy-authorization'', ''proxy-authenticate'']"

text \<open>\<open>Object.entries\<close> of an object has every key once, so the copy is a filter.\<close>

definition sanitizeHeaders :: "dict \<Rightarrow> dict" where
  "sanitizeHeaders headers = filter (\<lambda>(k, v). js_lower k \<notin> set HOP_BY_HOP) headers"

definition flattenHeaders :: "dict \<Rightarrow> dict" where
  "flattenHeaders headers = fold (\<lambda>(k, v). rset k v) headers []"

definition drop_slash :: "string \<Rightarrow> string" where
  "drop_slash base = (if ends_with base ''/'' then take (length base - 1) base else base)"

definition buildUpstreamUrl :: "string \<Rightarrow> string \<Rightarrow> string \<Rightarrow> string" where
  "buildUpstreamUrl base pth query =
     (let u = drop_slash base @ (if starts_with pth ''/'' then pth else CHR ''/'' # pth)
      in if query \<noteq> [] then u @ ''?'' @ query else u)"

definition upstream_path :: "route \<Rightarrow> string \<Rightarrow> string" where
  "upstream_path r pth =
     (if rt_stripPrefix r \<noteq> [] \<and> starts_with pth (rt_stripPrefix r)
      then (if drop (length (rt_stripPrefix r)) pth = [] then ''/'' else drop (length (rt_stripPrefix r)) pth)
      else pth)"

text \<open>\<open>h[k] ??= v\<close>.\<close>

definition set_absent :: "string \<Rightarrow> string \<Rightarrow> dict \<Rightarrow> dict" where
  "set_absent k v h = (if rget h k = None then rset k v h else h)"

definition upstream_headers :: "dict \<Rightarrow> dict" where
  "upstream_headers headers =
     set_absent ''x-forwarded-host'' (orelse (rget headers ''host'') [])
       (set_absent ''x-forwarded-for'' (orelse (rget headers ''x-real-ip'') []) (sanitizeHeaders headers))"

definition upstream_call :: "route \<Rightarrow> upstream_request \<Rightarrow> http_req" where
  "upstream_call r q =
     \<lparr>rq_url = buildUpstreamUrl (rt_upstreamUrl r) (upstream_path r (ur_path q)) (ur_query q),
      rq_method = ur_method q, rq_headers = upstream_headers (ur_headers q),
      rq_body = (if truthy (ur_body q) \<and> ur_method q \<notin> {''GET'', ''HEAD'', ''OPTIONS''} then ur_body q else None)\<rparr>"

definition forwardRequest :: "route \<Rightarrow> upstream_request \<Rightarrow> 'd io \<Rightarrow> upstream_response \<times> 'd io" where
  "forwardRequest r q w =
     (case http_fetch (upstream_call r q) w of
        (Inl (JsError name msg), w1) \<Rightarrow>
          (if name = ''TimeoutError''
           then (\<lparr>us_status = 504, us_headers = [], us_body = ''upstream timeout''\<rparr>, w1)
           else (\<lparr>us_status = 502, us_headers = [], us_body = ''bad gateway''\<rparr>, w1))
      | (Inl NonError, w1) \<Rightarrow> (\<lparr>us_status = 502, us_headers = [], us_body = ''bad gateway''\<rparr>, w1)
      | (Inr resp, w1) \<Rightarrow>
          (\<lparr>us_status = rs_status resp, us_headers = flattenHeaders (rs_headers resp), us_body = rs_body resp\<rparr>, w1))"

section \<open>What reaches the upstream\<close>

lemma rget_filter_keys: "rget (filter (\<lambda>(k, v). P k) d) k = (if P k then rget d k else None)"
  by (induction d) auto

lemma rget_sanitize: "rget (sanitizeHeaders h) k = (if js_lower k \<in> set HOP_BY_HOP then None else rget h k)"
  using rget_filter_keys [of "\<lambda>k. js_lower k \<notin> set HOP_BY_HOP" h k] by (simp add: sanitizeHeaders_def)

lemma rget_set_absent: "rget (set_absent k v h) k' = (if k' = k then Some (orelse (rget h k) v) else rget h k')"
  by (auto simp: set_absent_def)

lemma forwarded_not_hop: "js_lower ''x-forwarded-for'' \<notin> set HOP_BY_HOP" "js_lower ''x-forwarded-host'' \<notin> set HOP_BY_HOP"
  by code_simp+

text \<open>
  The header part of the proxied request: no hop-by-hop header reaches the upstream
  whatever its spelling, the two forwarding headers are always there, and every other header
  arrives as the pipeline left it.
\<close>

theorem upstream_headers_exact:
  "rget (upstream_headers h) k =
    (if js_lower k \<in> set HOP_BY_HOP then None
     else if k = ''x-forwarded-for'' then Some (orelse (rget h k) (orelse (rget h ''x-real-ip'') []))
     else if k = ''x-forwarded-host'' then Some (orelse (rget h k) (orelse (rget h ''host'') []))
     else rget h k)"
  using forwarded_not_hop by (auto simp: upstream_headers_def rget_set_absent rget_sanitize)

lemma drop_slash_end: "\<not> ends_with base ''//'' \<Longrightarrow> \<not> ends_with (drop_slash base) ''/''"
proof
  assume n: "\<not> ends_with base ''//''" and e: "ends_with (drop_slash base) ''/''"
  show False
  proof (cases "ends_with base ''/''")
    case False
    with e show False by (simp add: drop_slash_def)
  next
    case True
    then obtain b where b: "base = b @ ''/''" by (auto simp: ends_with_suffix suffix_def)
    with e True obtain b' where "b = b' @ ''/''" by (auto simp: drop_slash_def ends_with_suffix suffix_def)
    with b have "base = b' @ ''//''" by simp
    with n show False by (simp add: ends_with_suffix suffix_def)
  qed
qed

text \<open>
  The URL of the proxied request is the upstream's base and the path below it with exactly
  one slash between them, then the query of the client: stripping removes the configured
  prefix once, and a request for just the prefix asks for the root.
\<close>

theorem upstream_url_joined:
  assumes "\<not> ends_with (rt_upstreamUrl r) ''//''"
  shows "\<exists>base rest. rt_upstreamUrl r \<in> {base, base @ ''/''} \<and> \<not> ends_with base ''/'' \<and>
    rq_url (upstream_call r q) = base @ ''/'' @ rest @ (if ur_query q = [] then [] else ''?'' @ ur_query q) \<and>
    (if rt_stripPrefix r \<noteq> [] \<and> starts_with (ur_path q) (rt_stripPrefix r)
     then ur_path q = rt_stripPrefix r @ ''/'' @ rest \<or> ur_path q = rt_stripPrefix r @ rest \<and> \<not> starts_with rest ''/''
     else ur_path q = ''/'' @ rest \<or> ur_path q = rest \<and> \<not> starts_with rest ''/'')"
proof -
  define p where "p = upstream_path r (ur_path q)"
  obtain rest where rest: "(if starts_with p ''/'' then p else CHR ''/'' # p) = ''/'' @ rest"
      "p = ''/'' @ rest \<or> p = rest \<and> \<not> starts_with rest ''/''"
  proof (cases "starts_with p ''/''")
    case True
    from starts_with_drop [OF this] True show thesis by (intro that [of "drop 1 p"]) simp_all
  qed (auto intro: that [of p])
  have b: "rt_upstreamUrl r \<in> {drop_slash (rt_upstreamUrl r), drop_slash (rt_upstreamUrl r) @ ''/''}"
    by (auto simp: drop_slash_def ends_with_suffix suffix_def)
  have u: "rq_url (upstream_call r q) =
      drop_slash (rt_upstreamUrl r) @ ''/'' @ rest @ (if ur_query q = [] then [] else ''?'' @ ur_query q)"
    using rest(1) by (simp add: upstream_call_def buildUpstreamUrl_def Let_def p_def [symmetric])
  have path: "if rt_stripPrefix r \<noteq> [] \<and> starts_with (ur_path q) (rt_stripPrefix r)
     then ur_path q = rt_stripPrefix r @ ''/'' @ rest \<or> ur_path q = rt_stripPrefix r @ rest \<and> \<not> starts_with rest ''/''
     else ur_path q = ''/'' @ rest \<or> ur_path q = rest \<and> \<not> starts_with rest ''/''"
  proof (cases "rt_stripPrefix r \<noteq> [] \<and> starts_with (ur_path q) (rt_stripPrefix r)")
    case False
    then have "p = ur_path q" by (auto simp: p_def upstream_path_def)
    with rest(2) False show ?thesis by auto
  next
    case True
    let ?d = "drop (length (rt_stripPrefix r)) (ur_path q)"
    have s: "ur_path q = rt_stripPrefix r @ ?d" using True by (simp add: starts_with_drop)
    show ?thesis
    proof (cases "?d = []")
      case True
      with \<open>rt_stripPrefix r \<noteq> [] \<and> _\<close> have "p = ''/''" by (simp add: p_def upstream_path_def)
      with rest have "rest = []" by (auto simp: starts_with_def)
      with True s \<open>rt_stripPrefix r \<noteq> [] \<and> _\<close> show ?thesis by (simp add: starts_with_def)
    next
      case False
      with \<open>rt_stripPrefix r \<noteq> [] \<and> _\<close> have "p = ?d" by (simp add: p_def upstream_path_def)
      with rest(2) s \<open>rt_stripPrefix r \<noteq> [] \<and> _\<close> show ?thesis by auto
    qed
  qed
  from b drop_slash_end [OF assms] u path show ?thesis by blast
qed

theorem upstream_url_joined_witness:
  "rq_url (upstream_call
     \<lparr>rt_id = None, rt_apiId = ''orders'', rt_upstreamUrl = ''http://up/'', rt_stripPrefix = ''/api'', rt_active = True,
      rt_version = [], rt_host = None, rt_pathPrefix = ''/api'', rt_methods = []\<rparr>
     \<lparr>ur_method = ''GET'', ur_path = ''/api/x'', ur_query = ''a=1'', ur_headers = [], ur_body = None\<rparr>) = ''http://up/x?a=1''"
proof -
  let ?r = "\<lparr>rt_id = None, rt_apiId = ''orders'', rt_upstreamUrl = ''http://up/'', rt_stripPrefix = ''/api'', rt_active = True,
      rt_version = [], rt_host = None, rt_pathPrefix = ''/api'', rt_methods = []\<rparr>"
  have "\<not> ends_with (rt_upstreamUrl ?r) ''//''" by code_simp
  from upstream_url_joined [OF this, of "\<lparr>ur_method = ''GET'', ur_path = ''/api/x'', ur_query = ''a=1'', ur_headers = [], ur_body = None\<rparr>"]
  show ?thesis by (auto simp: starts_with_def ends_with_def)
qed

end
