(* ===== verification/SsrfGuard.thy ===== *)
theory SsrfGuard
  imports ExecTypes Ipv4 Memo
begin

text \<open>
  \<open>gateway/src/proxy/ssrf-guard.ts\<close>: the check of an upstream address before a request is
  forwarded, with its 60 second cache.
\<close>

section \<open>The code\<close>

definition allowedHosts :: "config \<Rightarrow> string list" where
  "allowedHosts A =
     nonempty (map (\<lambda>s. js_lower (js_trim s)) (split_on (CHR '','') (cfg_UPSTREAM_ALLOWED_HOSTS A)))"

definition blockPrivateEnabled :: "config \<Rightarrow> bool" where
  "blockPrivateEnabled A =
     (if cfg_UPSTREAM_BLOCK_PRIVATE_IPS A = ''true'' then True
      else if cfg_UPSTREAM_BLOCK_PRIVATE_IPS A = ''false'' then False
      else cfg_NODE_ENV A = ''production'')"

definition isBlockedIPv4 :: "string \<Rightarrow> bool \<Rightarrow> bool" where
  "isBlockedIPv4 ip blockPrivate =
     (case map js_Number (split_on (CHR ''.'') ip) of
        [Fin a, Fin b, Fin c, Fin d] \<Rightarrow>
          (if \<not> list_all in_octet [Fin a, Fin b, Fin c, Fin d] then True
           else if a = 0 then True
           else if a = 127 then True
           else if a = 169 \<and> b = 254 then True
           else if a = 255 then True
           else if blockPrivate
           then (if a = 10 then True
                 else if a = 172 \<and> 16 \<le> b \<and> b \<le> 31 then True
                 else if a = 192 \<and> b = 168 then True
                 else if a = 100 \<and> 64 \<le> b \<and> b \<le> 127 then True
                 else False)
           else False)
      | _ \<Rightarrow> True)"

text \<open>\<open>s.replace(/^\[|\]$/g, '')\<close>.\<close>

definition strip_brackets :: "string \<Rightarrow> string" where
  "strip_brackets s =
     (let t = (if starts_with s ''['' then tl s else s)
      in if ends_with t '']'' then butlast t else t)"

definition isBlockedIPv6 :: "string \<Rightarrow> bool \<Rightarrow> bool" where
  "isBlockedIPv6 ip blockPrivate =
     (let lower = strip_brackets (js_lower ip)
      in if lower = ''::1'' \<or> lower = ''::'' then True
         else if starts_with lower ''fe80'' then True
         else if starts_with lower ''::ffff:'' then isBlockedIPv4 (drop 7 lower) blockPrivate
         else if blockPrivate \<and> (starts_with lower ''fc'' \<or> starts_with lower ''fd'') then True
         else False)"

record ssrf_check =
  sc_ok :: bool
  sc_reason :: "string option"

definition refuse :: "string \<Rightarrow> ssrf_check" where
  "refuse reason = \<lparr>sc_ok = False, sc_reason = Some reason\<rparr>"

definition ip_blocked :: "ext \<Rightarrow> bool \<Rightarrow> string \<Rightarrow> bool" where
  "ip_blocked X blockPrivate ip =
     (if x_is_ip X ip = 6 then isBlockedIPv6 ip blockPrivate else isBlockedIPv4 ip blockPrivate)"

definition bare_host :: "url \<Rightarrow> string" where
  "bare_host u = strip_brackets (js_lower (u_hostname u))"

text \<open>\<open>u.port\<close> is the empty string for the scheme's own port.\<close>

definition host_allowed :: "config \<Rightarrow> url \<Rightarrow> bool" where
  "host_allowed A u =
     (let host = js_lower (u_hostname u);
          hostPort = (if u_port u \<noteq> [] then host @ '':'' @ u_port u else host)
      in allowedHosts A = [] \<or> host \<in> set (allowedHosts A) \<or> hostPort \<in> set (allowedHosts A))"

definition check_ips :: "ext \<Rightarrow> config \<Rightarrow> string \<Rightarrow> string list \<Rightarrow> ssrf_check" where
  "check_ips X A host ips =
     (if ips = [] then refuse (''no address for '' @ quoted host)
      else case find (ip_blocked X (blockPrivateEnabled A)) ips of
             Some ip \<Rightarrow> refuse (''resolved ip '' @ quoted ip @ '' is blocked'')
           | None \<Rightarrow> \<lparr>sc_ok = True, sc_reason = None\<rparr>)"

definition evaluate :: "ext \<Rightarrow> config \<Rightarrow> string \<Rightarrow> 'd io \<Rightarrow> ssrf_check \<times> 'd io" where
  "evaluate X A urlStr w =
     (case x_url X urlStr of
        None \<Rightarrow> (refuse ''invalid url'', w)
      | Some u \<Rightarrow>
          (if u_protocol u \<noteq> ''http:'' \<and> u_protocol u \<noteq> ''https:''
           then (refuse (''scheme '' @ quoted (u_protocol u) @ '' not allowed''), w)
           else (let host = js_lower (u_hostname u)
                 in if \<not> host_allowed A u then (refuse (''host '' @ quoted host @ '' not in allow-list''), w)
                    else if x_is_ip X (bare_host u) \<noteq> 0 then (check_ips X A host [bare_host u], w)
                    else (case dns_lookup host w of
                            (Inl e, w') \<Rightarrow> (refuse (''dns resolve failed for '' @ quoted host), w')
                          | (Inr ips, w') \<Rightarrow> (check_ips X A host ips, w')))))"

type_synonym ssrf_cache = "(string \<times> (ssrf_check \<times> int)) list"

definition SSRF_TTL_MS :: int where
  "SSRF_TTL_MS = 60000"

definition checkUpstream ::
  "ext \<Rightarrow> config \<Rightarrow> string \<Rightarrow> ssrf_cache \<times> 'd io \<Rightarrow> ssrf_check \<times> (ssrf_cache \<times> 'd io)" where
  "checkUpstream X A urlStr s =
     (let (cache, w) = s; (now, w1) = date_now w
      in case rget cache urlStr of
           Some (result, stp) \<Rightarrow>
             (if now - stp < SSRF_TTL_MS then (result, (cache, w1))
              else (let (result', w2) = evaluate X A urlStr w1
                    in (result', (rset urlStr (result', now) cache, w2))))
         | None \<Rightarrow>
             (let (result', w2) = evaluate X A urlStr w1
              in (result', (rset urlStr (result', now) cache, w2))))"

section \<open>The IPv4 rules are address blocks\<close>

text \<open>The blocks the documentation names, as prefixes of the 32-bit address.\<close>

definition always_blocked :: "32 word \<Rightarrow> bool" where
  "always_blocked x =
     (same_prefix 8 x (quad 0 0 0 0) \<or> same_prefix 8 x (quad 127 0 0 0) \<or>
      same_prefix 16 x (quad 169 254 0 0) \<or> same_prefix 8 x (quad 255 0 0 0))"

definition private_blocked :: "32 word \<Rightarrow> bool" where
  "private_blocked x =
     (same_prefix 8 x (quad 10 0 0 0) \<or> same_prefix 12 x (quad 172 16 0 0) \<or>
      same_prefix 16 x (quad 192 168 0 0) \<or> same_prefix 10 x (quad 100 64 0 0))"

lemma of_nat_le_numeral: "(of_nat n \<le> (numeral k :: rat)) = (n \<le> numeral k)"
  by (metis of_nat_le_iff of_nat_numeral)

lemma numeral_le_of_nat: "((numeral k :: rat) \<le> of_nat n) = (numeral k \<le> n)"
  by (metis of_nat_le_iff of_nat_numeral)

lemma of_nat_eq_numeral: "(of_nat n = (numeral k :: rat)) = (n = numeral k)"
  by (metis of_nat_eq_iff of_nat_numeral)

lemma isBlockedIPv4_dotted:
  assumes "is_quad a b c d"
  shows "isBlockedIPv4 (dotted a b c d) bp \<longleftrightarrow>
    a = 0 \<or> a = 127 \<or> a = 169 \<and> b = 254 \<or> a = 255 \<or>
    bp \<and> (a = 10 \<or> a = 172 \<and> 16 \<le> b \<and> b \<le> 31 \<or> a = 192 \<and> b = 168 \<or> a = 100 \<and> 64 \<le> b \<and> b \<le> 127)"
proof -
  have "list_all in_octet [Fin (of_nat a), Fin (of_nat b), Fin (of_nat c), Fin (of_nat d)]"
    using assms by (simp add: is_quad_def)
  then show ?thesis
    unfolding isBlockedIPv4_def split_dotted list.map js_Number_show_nat list.case jsnum.case
    by (simp add: of_nat_le_numeral numeral_le_of_nat of_nat_eq_numeral)
qed

lemma blocks_quad:
  assumes "is_quad a b c d"
  shows "always_blocked (quad a b c d) \<longleftrightarrow> a = 0 \<or> a = 127 \<or> a = 169 \<and> b = 254 \<or> a = 255"
    and "private_blocked (quad a b c d) \<longleftrightarrow>
      a = 10 \<or> a = 172 \<and> 16 \<le> b \<and> b \<le> 31 \<or> a = 192 \<and> b = 168 \<or> a = 100 \<and> 64 \<le> b \<and> b \<le> 127"
  using same_prefix_quad_12 [OF assms, of 172 1] same_prefix_quad_10 [OF assms, of 100 1] assms
  by (simp_all add: always_blocked_def private_blocked_def same_prefix_quad_8 same_prefix_quad_16
      is_quad_def)

text \<open>
  On dotted quads the octet comparisons of the guard decide exactly membership in the
  documented blocks: 0/8, 127/8, 169.254/16 and 255/8 always, and with private addresses
  blocked also 10/8, 172.16/12, 192.168/16 and 100.64/10.
\<close>

theorem isBlockedIPv4_blocks:
  assumes "is_quad a b c d"
  shows "isBlockedIPv4 (dotted a b c d) blockPrivate \<longleftrightarrow>
    always_blocked (quad a b c d) \<or> blockPrivate \<and> private_blocked (quad a b c d)"
  by (simp only: isBlockedIPv4_dotted [OF assms] blocks_quad [OF assms]) blast

theorem isBlockedIPv4_blocks_witness:
  "isBlockedIPv4 (dotted 169 254 169 254) False \<and> \<not> isBlockedIPv4 (dotted 10 0 0 5) False
   \<and> isBlockedIPv4 (dotted 10 0 0 5) True"
  using isBlockedIPv4_blocks [of 169 254 169 254 False] isBlockedIPv4_blocks [of 10 0 0 5 False]
    isBlockedIPv4_blocks [of 10 0 0 5 True]
  by (simp add: is_quad_def blocks_quad)

section \<open>What a permitted upstream satisfies\<close>

lemma check_ips_ok:
  "sc_ok (check_ips X A host ips) \<longleftrightarrow>
    ips \<noteq> [] \<and> (\<forall>ip \<in> set ips. \<not> ip_blocked X (blockPrivateEnabled A) ip)"
  by (auto simp: check_ips_def refuse_def find_None_iff find_Some_iff split: option.splits)

text \<open>The addresses the guard examined for a URL in a given world.\<close>

definition examined :: "ext \<Rightarrow> url \<Rightarrow> 'd io \<Rightarrow> string list option" where
  "examined X u w =
     (if x_is_ip X (bare_host u) \<noteq> 0 then Some [bare_host u]
      else case io_dns w 0 (js_lower (u_hostname u)) of Inl _ \<Rightarrow> None | Inr ips \<Rightarrow> Some ips)"

lemma refuse_not_ok [simp]: "\<not> sc_ok (refuse r)"
  by (simp add: refuse_def)

lemma evaluate_ok_iff:
  "sc_ok (fst (evaluate X A urlStr w)) \<longleftrightarrow>
    (case x_url X urlStr of None \<Rightarrow> False
     | Some u \<Rightarrow> u_protocol u \<in> {''http:'', ''https:''} \<and> host_allowed A u \<and>
         (case examined X u w of None \<Rightarrow> False
          | Some ips \<Rightarrow> ips \<noteq> [] \<and> (\<forall>ip \<in> set ips. \<not> ip_blocked X (blockPrivateEnabled A) ip)))"
proof (cases "x_url X urlStr")
  case (Some u)
  show ?thesis
  proof (cases "x_is_ip X (bare_host u) = 0")
    case True
    with Some show ?thesis
      by (cases "io_dns w 0 (js_lower (u_hostname u))")
        (auto simp: evaluate_def check_ips_ok examined_def dns_lookup_def Let_def)
  next
    case False
    with Some show ?thesis by (auto simp: evaluate_def check_ips_ok examined_def Let_def)
  qed
qed (simp add: evaluate_def)

text \<open>
  C6. The guard lets an upstream URL pass only if it is an http or https URL whose host is on
  the allow-list (when there is one), it resolves to at least one address, and no dotted-quad
  address among all it resolves to lies in a blocked range: one bad record among several is
  enough to refuse it.
\<close>

theorem evaluate_safe:
  assumes "sc_ok (fst (evaluate X A urlStr w))"
  shows "\<exists>u ips. x_url X urlStr = Some u \<and> u_protocol u \<in> {''http:'', ''https:''} \<and>
    host_allowed A u \<and> examined X u w = Some ips \<and> ips \<noteq> [] \<and>
    (\<forall>a b c d. is_quad a b c d \<longrightarrow> dotted a b c d \<in> set ips \<longrightarrow> x_is_ip X (dotted a b c d) = 4 \<longrightarrow>
       \<not> always_blocked (quad a b c d) \<and>
       (blockPrivateEnabled A \<longrightarrow> \<not> private_blocked (quad a b c d)))"
proof -
  from assms obtain u ips where u: "x_url X urlStr = Some u" "u_protocol u \<in> {''http:'', ''https:''}"
      "host_allowed A u" "examined X u w = Some ips" "ips \<noteq> []"
      "\<forall>ip \<in> set ips. \<not> ip_blocked X (blockPrivateEnabled A) ip"
    unfolding evaluate_ok_iff by (auto split: option.splits)
  have "\<not> always_blocked (quad a b c d) \<and> (blockPrivateEnabled A \<longrightarrow> \<not> private_blocked (quad a b c d))"
    if q: "is_quad a b c d" and "dotted a b c d \<in> set ips" "x_is_ip X (dotted a b c d) = 4" for a b c d
  proof -
    from that u(6) have "\<not> isBlockedIPv4 (dotted a b c d) (blockPrivateEnabled A)"
      by (auto simp: ip_blocked_def)
    then show ?thesis
      unfolding isBlockedIPv4_dotted [OF q] blocks_quad [OF q] by blast
  qed
  with u(1-5) show ?thesis by blast
qed

definition sample_dns :: "string list \<Rightarrow> mem io" where
  "sample_dns ips = sample_io\<lparr>io_dns := \<lambda>_ _. Inr ips\<rparr>"

definition sample_url_ext :: ext where
  "sample_url_ext = sample_ext\<lparr>
     x_url := \<lambda>_. Some \<lparr>u_protocol = ''https:'', u_hostname = ''api.test'', u_port = []\<rparr>,
     x_is_ip := \<lambda>s. if s = ''api.test'' then 0 else 4\<rparr>"

theorem evaluate_safe_witness:
  "sc_ok (fst (evaluate sample_url_ext sample_config ''https://api.test/'' (sample_dns [''8.8.8.8'', ''1.1.1.1''])))
   \<and> \<not> sc_ok (fst (evaluate sample_url_ext sample_config ''https://api.test/'' (sample_dns [''8.8.8.8'', ''127.0.0.1''])))
   \<and> (\<exists>u ips. x_url sample_url_ext ''https://api.test/'' = Some u \<and> ips \<noteq> [] \<and>
        examined sample_url_ext u (sample_dns [''8.8.8.8'', ''1.1.1.1'']) = Some ips)"
proof (intro conjI)
  show ok: "sc_ok (fst (evaluate sample_url_ext sample_config ''https://api.test/'' (sample_dns [''8.8.8.8'', ''1.1.1.1''])))"
    by code_simp
  show "\<not> sc_ok (fst (evaluate sample_url_ext sample_config ''https://api.test/'' (sample_dns [''8.8.8.8'', ''127.0.0.1''])))"
    by code_simp
  show "\<exists>u ips. x_url sample_url_ext ''https://api.test/'' = Some u \<and> ips \<noteq> [] \<and>
      examined sample_url_ext u (sample_dns [''8.8.8.8'', ''1.1.1.1'']) = Some ips"
    using evaluate_safe [OF ok] by blast
qed

section \<open>The cache\<close>

lemma checkUpstream_hit:
  "fresh_entry SSRF_TTL_MS (io_clock w 0) (rget cache u) \<Longrightarrow>
   checkUpstream X A u (cache, w) = (fst (the (rget cache u)), (cache, snd (date_now w)))"
  by (auto simp: checkUpstream_def date_now_def fresh_entry_def split: option.splits)

lemma checkUpstream_miss:
  "\<not> fresh_entry SSRF_TTL_MS (io_clock w 0) (rget cache u) \<Longrightarrow>
   checkUpstream X A u (cache, w) =
     (let (r, w2) = evaluate X A u (snd (date_now w)) in (r, (rset u (r, io_clock w 0) cache, w2)))"
  by (auto simp: checkUpstream_def date_now_def fresh_entry_def split: option.splits prod.splits)

interpretation ssrf: ttl_memo "checkUpstream X A" "\<lambda>s. rget (fst s)" "\<lambda>s. io_clock (snd s) 0" SSRF_TTL_MS
  for X A
proof (standard, goal_cases)
  case (1 s k v stp)
  then show ?case by (cases s) (simp add: checkUpstream_hit)
next
  case (2 s k)
  then show ?case by (cases s) (simp add: checkUpstream_hit)
next
  case (3 s k)
  then show ?case
    by (cases s) (auto simp: checkUpstream_miss split_beta Let_def fun_eq_iff)
qed

text \<open>
  Started with an empty cache, every answer of the guard is the evaluation made for that
  very question, or the evaluation made for an earlier question about the same URL and stored
  less than 60 seconds before: no stale or foreign verdict is ever served, whatever the
  clock, the resolver and the order of the questions are.
\<close>

theorem ssrf_answers_recent:
  assumes "fst s0 = []" and "\<forall>(u, move) \<in> set qs. \<forall>s. rget (fst (move s)) = rget (fst s)"
    and "i < length (ssrf.trace X A qs s0)"
    and "ssrf.trace X A qs s0 ! i = (u, (cache, w), verdict, s')"
  shows "verdict = fst (evaluate X A u (snd (date_now w))) \<or>
    (\<exists>j < i. \<exists>cache1 w1 s1 stamp. ssrf.trace X A qs s0 ! j = (u, (cache1, w1), verdict, s1) \<and>
       verdict = fst (evaluate X A u (snd (date_now w1))) \<and>
       rget (fst s1) u = Some (verdict, stamp) \<and> io_clock w 0 - stamp < 60000)"
proof -
  have "ssrf.keeps_entries qs" "rget (fst s0) = (\<lambda>_. None)"
    using assms(1,2) by (simp_all add: ssrf.keeps_entries_def fun_eq_iff)
  from ssrf.trace_recent [OF this(2,1) assms(3,4)] show ?thesis
    by (fastforce simp: checkUpstream_miss split_beta Let_def SSRF_TTL_MS_def)
qed

theorem ssrf_answers_recent_witness:
  "let q = (''https://api.test/'', \<lambda>s. s); s0 = ([], sample_dns [''8.8.8.8'']);
       run = ssrf.trace sample_url_ext sample_config [q, q] s0
   in length run = 2 \<and>
      (case run ! 1 of (u, (cache, w), verdict, s') \<Rightarrow>
         verdict = fst (evaluate sample_url_ext sample_config u (snd (date_now w))) \<or>
         (\<exists>j < 1. \<exists>cache1 w1 s1 stamp. run ! j = (u, (cache1, w1), verdict, s1) \<and>
            verdict = fst (evaluate sample_url_ext sample_config u (snd (date_now w1))) \<and>
            rget (fst s1) u = Some (verdict, stamp) \<and> io_clock w 0 - stamp < 60000))"
proof -
  define q :: "string \<times> (ssrf_cache \<times> mem io \<Rightarrow> ssrf_cache \<times> mem io)"
    where "q = (''https://api.test/'', \<lambda>s. s)"
  define s0 :: "ssrf_cache \<times> mem io" where "s0 = ([], sample_dns [''8.8.8.8''])"
  define run where "run = ssrf.trace sample_url_ext sample_config [q, q] s0"
  have len: "length run = 2"
    by (simp add: run_def q_def split_beta Let_def)
  obtain u cache w verdict s' where r: "run ! 1 = (u, (cache, w), verdict, s')"
    by (metis prod.collapse)
  have "verdict = fst (evaluate sample_url_ext sample_config u (snd (date_now w))) \<or>
         (\<exists>j < 1. \<exists>cache1 w1 s1 stamp. run ! j = (u, (cache1, w1), verdict, s1) \<and>
            verdict = fst (evaluate sample_url_ext sample_config u (snd (date_now w1))) \<and>
            rget (fst s1) u = Some (verdict, stamp) \<and> io_clock w 0 - stamp < 60000)"
    unfolding run_def
    by (rule ssrf_answers_recent [of s0 "[q, q]" 1 sample_url_ext sample_config u cache w verdict s'])
      (use len r in \<open>simp_all add: run_def s0_def q_def\<close>)
  with len r show ?thesis by (simp add: run_def s0_def q_def Let_def)
qed

end
