(* ===== verification/Server.thy ===== *)
theory Server
  imports ExecutorProps Upstream SsrfGuard
begin

text \<open>
  \<open>gateway/src/server.ts\<close> and \<open>gateway/src/middleware/request-id.ts\<close>: the handler that takes
  a request through route lookup, SSRF guard, the \<open>pre_request\<close> policies, the upstream and
  the \<open>post_response\<close> policies, and the replies it gives.

  The web framework is a parameter: it hands over a request with its address, identifier and
  body, parses the target of the request line, and sends the reply. The headers that Helmet
  adds, the overload guard and the metrics are not modelled.
\<close>

section \<open>Requests and replies\<close>

datatype header_value = One string | Many "string list"

text \<open>A body is missing, raw bytes, or what the framework parsed.\<close>

datatype raw_body = NoBody | RawBytes string | Parsed json

record web_request =
  wr_method :: string
  wr_target :: string
  wr_headers :: "(string \<times> header_value) list"
  wr_ip :: string
  wr_id :: string
  wr_body :: raw_body

text \<open>\<open>new URL(target, 'http://localhost')\<close>: path, search and the query parameters in order.\<close>

record target_url =
  tu_pathname :: string
  tu_search :: string
  tu_params :: "(string \<times> string) list"

type_synonym parse_target = "string \<Rightarrow> target_url option"

datatype reply_body = Empty | Json jobj | Bytes "string option"

record reply =
  rp_status :: int
  rp_headers :: dict
  rp_body :: reply_body

text \<open>The state of the process: routes, the two caches, and the outside world.\<close>

record 'd server =
  sv_routes :: route_state
  sv_ssrf :: ssrf_cache
  sv_chains :: chain_cache
  sv_io :: "'d io"

section \<open>The code\<close>

definition header_text :: "header_value \<Rightarrow> string" where
  "header_text v = (case v of One s \<Rightarrow> s | Many ss \<Rightarrow> join_with '', '' ss)"

text \<open>The hook of \<open>request-id.ts\<close>: the request with the identifiers, and the reply's headers.\<close>

definition requestId :: "web_request \<Rightarrow> 'd io \<Rightarrow> web_request \<times> dict \<times> 'd io" where
  "requestId q w =
     (let known = orelse_opt (rget (wr_headers q) ''x-trace-id'') (rget (wr_headers q) ''x-request-id'');
          (traceId, w1) = (case known of Some v \<Rightarrow> (v, w) | None \<Rightarrow> (let (u, w1) = fresh_random w in (One u, w1)))
      in (q\<lparr>wr_headers := rset ''x-request-id'' traceId (rset ''x-trace-id'' traceId (wr_headers q))\<rparr>,
          [(''x-trace-id'', header_text traceId), (''x-request-id'', header_text traceId)], w1))"

definition reply_of :: "int \<Rightarrow> jobj \<Rightarrow> reply" where
  "reply_of code obj = \<lparr>rp_status = code, rp_headers = [], rp_body = Json obj\<rparr>"

text \<open>The error handler: an error with a client status keeps its message, any other is hidden.\<close>

definition error_reply :: "int option \<Rightarrow> string \<Rightarrow> reply" where
  "error_reply statusCode message =
     (let status = (case statusCode of Some n \<Rightarrow> (if 400 \<le> n \<and> n < 600 then n else 500) | None \<Rightarrow> 500)
      in reply_of status [(''error'', JStr (if 500 \<le> status then ''internal error'' else message))])"

definition applyResponseHeaders :: "ctx \<Rightarrow> dict \<Rightarrow> dict" where
  "applyResponseHeaders c h = fold (\<lambda>(k, v). rset (js_lower k) v) (c_responseHeaders c) h"

definition flushAbort :: "ctx \<Rightarrow> reply" where
  "flushAbort c =
     \<lparr>rp_status = c_abortCode c,
      rp_headers = fold (\<lambda>(k, v). rset (js_lower k) v) (c_abortHeaders c) (applyResponseHeaders c []),
      rp_body = (if c_abortCode c = 204 then Empty else Json [(''error'', JStr (c_abortMessage c))])\<rparr>"

definition flushCtxResponse :: "ctx \<Rightarrow> reply" where
  "flushCtxResponse c =
     \<lparr>rp_status = c_statusCode c, rp_headers = applyResponseHeaders c [], rp_body = Bytes (c_responseBody c)\<rparr>"

definition healthz :: "bool \<Rightarrow> route_state \<Rightarrow> reply" where
  "healthz redisOk s =
     reply_of (if redisOk then 200 else 503)
       [(''status'', JStr (if redisOk then ''ok'' else ''degraded'')), (''routes'', JNum (of_nat (getRouteCount s)))]"

definition request_host :: "web_request \<Rightarrow> string" where
  "request_host q =
     hd (split_on (CHR '':'') (case rget (wr_headers q) ''host'' of Some (One s) \<Rightarrow> s | _ \<Rightarrow> []))"

definition request_headers :: "web_request \<Rightarrow> dict" where
  "request_headers q = fold (\<lambda>(k, v). rset (js_lower k) (header_text v)) (wr_headers q) []"

definition query_params :: "target_url \<Rightarrow> dict" where
  "query_params u = fold (\<lambda>(k, v). rset k v) (tu_params u) []"

definition body_bytes :: "ext \<Rightarrow> raw_body \<Rightarrow> string option" where
  "body_bytes X b =
     (case b of NoBody \<Rightarrow> None | RawBytes s \<Rightarrow> Some s | Parsed JNull \<Rightarrow> None | Parsed j \<Rightarrow> Some (x_json_str X j))"

definition request_ctx :: "ext \<Rightarrow> web_request \<Rightarrow> target_url \<Rightarrow> route \<Rightarrow> int \<Rightarrow> ctx" where
  "request_ctx X q u r now =
     (let headers = request_headers q
      in createExecContext (rt_apiId r) (orelse (rget headers ''x-trace-id'') (wr_id q)) (wr_method q)
           (tu_pathname u) (request_host q) (wr_ip q) headers (query_params u) (body_bytes X (wr_body q)) now)"

text \<open>
  The handler up to the proxy call: either the reply of a request that is turned away, or the
  route and the context with which the upstream is called.
\<close>

definition admit ::
  "ext \<Rightarrow> parse_target \<Rightarrow> 'd redis \<Rightarrow> config \<Rightarrow> web_request \<Rightarrow> 'd server \<Rightarrow>
   (reply + target_url \<times> route \<times> ctx) \<times> 'd server" where
  "admit X P R A q s =
     (let (startMs, w0) = date_now (sv_io s)
      in case P (wr_target q) of
           None \<Rightarrow> (Inl (error_reply None ''Invalid URL''), s\<lparr>sv_io := w0\<rparr>)
         | Some u \<Rightarrow>
             (case matchRoute (tb_routes (sv_routes s)) (request_host q) (tu_pathname u) (wr_method q) of
                None \<Rightarrow> (Inl (reply_of 404 [(''error'', JStr ''no route found'')]), s\<lparr>sv_io := w0\<rparr>)
              | Some r \<Rightarrow>
                  (let (verdict, cache, w1) = checkUpstream X A (rt_upstreamUrl r) (sv_ssrf s, w0);
                       s1 = s\<lparr>sv_ssrf := cache, sv_io := w1\<rparr>
                   in if \<not> sc_ok verdict then (Inl (reply_of 502 [(''error'', JStr ''bad gateway'')]), s1)
                      else (let (now, w2) = date_now w1;
                                (res, c, cc, w3) = executePhase X R A ''pre_request'' (request_ctx X q u r now) (sv_chains s, w2);
                                s2 = s1\<lparr>sv_chains := cc, sv_io := w3\<rparr>
                            in case res of
                                 Inl e \<Rightarrow> (Inl (error_reply None []), s2)
                               | Inr _ \<Rightarrow>
                                   (if c_aborted c then (Inl (flushAbort c), s2)
                                    else if c_cacheHit c then (Inl (flushCtxResponse c), s2)
                                    else (Inr (u, r, c), s2))))))"

definition upstream_of :: "web_request \<Rightarrow> target_url \<Rightarrow> ctx \<Rightarrow> upstream_request" where
  "upstream_of q u c =
     \<lparr>ur_method = wr_method q, ur_path = c_path c, ur_query = drop 1 (tu_search u),
      ur_headers = c_requestHeaders c, ur_body = c_requestBody c\<rparr>"

definition with_response :: "upstream_response \<Rightarrow> ctx \<Rightarrow> ctx" where
  "with_response r c =
     c\<lparr>c_statusCode := us_status r, c_responseBody := Some (us_body r), c_responseHeaders := us_headers r\<rparr>"

definition gateway_handler ::
  "ext \<Rightarrow> parse_target \<Rightarrow> 'd redis \<Rightarrow> config \<Rightarrow> web_request \<Rightarrow> 'd server \<Rightarrow> reply \<times> 'd server" where
  "gateway_handler X P R A q s =
     (case admit X P R A q s of
        (Inl rep, s1) \<Rightarrow> (rep, s1)
      | (Inr (u, r, c), s1) \<Rightarrow>
          (let (resp, w1) = forwardRequest r (upstream_of q u c) (sv_io s1);
               (res, c2, cc, w2) = executePhase X R A ''post_response'' (with_response resp c) (sv_chains s1, w1);
               s2 = s1\<lparr>sv_chains := cc, sv_io := w2\<rparr>
           in case res of
                Inl e \<Rightarrow> (error_reply None [], s2)
              | Inr _ \<Rightarrow> (flushCtxResponse c2, s2\<lparr>sv_io := snd (date_now w2)\<rparr>)))"

text \<open>A request with the hook before the handler; the handler's headers win.\<close>

definition handle_request ::
  "ext \<Rightarrow> parse_target \<Rightarrow> 'd redis \<Rightarrow> config \<Rightarrow> web_request \<Rightarrow> 'd server \<Rightarrow> reply \<times> 'd server" where
  "handle_request X P R A q s =
     (let (q1, hs, w1) = requestId q (sv_io s);
          (rep, s1) = gateway_handler X P R A q1 (s\<lparr>sv_io := w1\<rparr>)
      in (rep\<lparr>rp_headers := fold (\<lambda>(k, v). rset k v) (rp_headers rep) hs\<rparr>, s1))"

text \<open>\<open>onReady\<close>; the timer then repeats \<open>syncRoutes\<close>.\<close>

definition on_ready :: "ext \<Rightarrow> 'd redis \<Rightarrow> config \<Rightarrow> 'd server \<Rightarrow> 'd server" where
  "on_ready X R A s =
     (let (t1, w1) = loadFromCache X R (sv_routes s) (sv_io s); (t2, w2) = fullSync X R A t1 w1
      in s\<lparr>sv_routes := t2, sv_io := w2\<rparr>)"

definition refresh :: "ext \<Rightarrow> 'd redis \<Rightarrow> config \<Rightarrow> 'd server \<Rightarrow> 'd server" where
  "refresh X R A s = (let (t, w) = syncRoutes X R A (sv_routes s) (sv_io s) in s\<lparr>sv_routes := t, sv_io := w\<rparr>)"

end
