(* ===== verification/ServiceCalls.thy ===== *)
theory ServiceCalls
  imports Server
begin

text \<open>
  Which requests the gateway sends on its own account while it handles one: the policy chain,
  the quota of a client, the check of an API key, of basic credentials or of an opaque token.
  Every plugin, phase and guard is shown to append such requests to the log of the outside
  world and nothing else, so what else is found there was sent by the proxy.
\<close>

section \<open>The requests to services\<close>

inductive asks_service :: "ext \<Rightarrow> config \<Rightarrow> http_req \<Rightarrow> bool" for X A where
  chain: "asks_service X A (get_request (chain_url A apiId) [])"
| quota: "asks_service X A (get_request (quota_url X A clientId apiId) [])"
| api_key: "asks_service X A (post_json X (verify_url A) h [(''key'', JStr rawKey)])"
| basic: "asks_service X A (post_json X
    (orelse (rget cfg ''auth_endpoint'') (cfg_AUTH_SERVICE_URL A @ ''/internal/basic/verify'')) []
    [(''username'', JStr username), (''password'', JStr password)])"
| introspect: "asks_service X A (introspect_request X A cfg token)"

text \<open>What is sent is such a request, or the same one over mutual TLS.\<close>

definition service_call :: "ext \<Rightarrow> config \<Rightarrow> http_req \<Rightarrow> bool" where
  "service_call X A q' = (\<exists>q. asks_service X A q \<and> (q' = q \<or> q' = q\<lparr>rq_url := internalUrl X A (rq_url q)\<rparr>))"

definition asks :: "ext \<Rightarrow> config \<Rightarrow> 'd io \<Rightarrow> 'd io \<Rightarrow> bool" where
  "asks X A w w' = (\<exists>qs. io_sent w' = io_sent w @ qs \<and> (\<forall>q \<in> set qs. service_call X A q))"

lemma asks_silent [intro]: "io_sent w' = io_sent w \<Longrightarrow> asks X A w w'"
  by (auto simp: asks_def)

lemma asks_refl [simp]: "asks X A w w"
  by (rule asks_silent) (rule refl)

lemma asks_trans: "asks X A w w1 \<Longrightarrow> asks X A w1 w2 \<Longrightarrow> asks X A w w2"
  unfolding asks_def by (metis Un_iff append.assoc set_append)

text \<open>Only the log matters, so a silent step on either side changes nothing.\<close>

lemma asks_cong: "io_sent w = io_sent v \<Longrightarrow> io_sent w' = io_sent v' \<Longrightarrow> asks X A w w' = asks X A v v'"
  by (simp add: asks_def)

named_theorems silent_simps

lemma host_silent [silent_simps]:
  "io_sent (snd (redis_call f w)) = io_sent w" "io_sent (snd (redis_read g w)) = io_sent w"
  "io_sent (snd (redis_write h w)) = io_sent w" "io_sent (snd (date_now w)) = io_sent w"
  "io_sent (snd (jwt_verify q w)) = io_sent w" "io_sent (snd (dns_lookup a w)) = io_sent w"
  "io_sent (snd (fresh_random w)) = io_sent w"
  by (simp_all add: redis_call_def redis_read_def redis_write_def date_now_def jwt_verify_def dns_lookup_def
      fresh_random_def Let_def split: option.split prod.split)

lemma internalFetch_asks: "asks_service X A q \<Longrightarrow> asks X A w (snd (internalFetch X A q w))"
  by (auto simp: internalFetch_def http_fetch_def asks_def service_call_def)

section \<open>Authentication\<close>

lemma service_down_silent [silent_simps]: "io_sent (snd (snd (service_down cfg r c w))) = io_sent w"
  by (simp add: service_down_def)

lemma set_quietly_silent [silent_simps]: "io_sent (set_quietly R k v t w) = io_sent w"
  by (simp add: set_quietly_def silent_simps)

text \<open>A function that asks first and then only computes.\<close>

lemma asks_after:
  assumes "asks X A w (snd (internalFetch X A q w))" and "io_sent w' = io_sent (snd (internalFetch X A q w))"
  shows "asks X A w w'"
  using assms by (simp add: asks_def)

lemma jwtAuth_asks: "asks X A w (snd (snd (jwtAuth X R A cfg c w)))"
  by (rule asks_silent) (simp add: jwtAuth_def Let_def split_beta silent_simps split: sum.split exn.split option.split)

lemma apikey_verify_asks: "asks X A w (snd (snd (apikey_verify k X R A cfg c w)))"
proof (cases "internalHeaders X A")
  case (Inl e)
  then show ?thesis by (intro asks_silent) (simp add: apikey_verify_def silent_simps)
next
  case (Inr h)
  show ?thesis
    by (rule asks_after [OF internalFetch_asks [OF asks_service.api_key [of X A h k]]])
      (simp add: apikey_verify_def Inr split_beta silent_simps split: sum.split json.split)
qed

lemma apiKeyAuth_asks: "asks X A w (snd (snd (apiKeyAuth X R A cfg c w)))"
proof -
  obtain k c1 where k: "key_location cfg c = (k, c1)" by (cases "key_location cfg c")
  obtain r w1 where r: "redis_read (\<lambda>t d. r_hgetall R t d (apikey_cache_key X k)) w = (r, w1)"
    by (cases "redis_read (\<lambda>t d. r_hgetall R t d (apikey_cache_key X k)) w")
  have w1: "io_sent w1 = io_sent w"
    using host_silent(2) [of "\<lambda>t d. r_hgetall R t d (apikey_cache_key X k)" w] r by simp
  then have "asks X A w (snd (snd (apikey_verify k X R A cfg c1 w1)))"
    using apikey_verify_asks [of X A w1 k R cfg c1] by (simp add: asks_def)
  with w1 show ?thesis
    by (auto simp: apiKeyAuth_def k r split: sum.split)
qed

lemma basicAuth_asks: "asks X A w (snd (snd (basicAuth X R A cfg c w)))"
proof -
  have "asks X A w (snd (snd (basic_verify u p X R A cfg c w)))" for u p
    by (rule asks_after [OF internalFetch_asks [OF asks_service.basic [of X A cfg u p]]])
      (simp add: basic_verify_def Let_def split_beta silent_simps split: sum.split json.split)
  then show ?thesis by (simp add: basicAuth_def Let_def split: option.split)
qed

lemma tokenIntrospect_asks: "asks X A w (snd (snd (tokenIntrospect X R A cfg c w)))"
proof (cases "bearer_token c")
  case None
  then show ?thesis by (simp add: tokenIntrospect_def)
next
  case (Some t)
  obtain r w1 where r: "redis_read (\<lambda>u d. r_get R u d (token_cache_key X t)) w = (r, w1)"
    by (cases "redis_read (\<lambda>u d. r_get R u d (token_cache_key X t)) w")
  have w1: "io_sent w1 = io_sent w"
    using host_silent(2) [of "\<lambda>u d. r_get R u d (token_cache_key X t)" w] r by simp
  have "asks X A w1 (snd (snd (introspect_remote t X R A cfg c w1)))"
    by (rule asks_after [OF internalFetch_asks [OF asks_service.introspect [of X A cfg t]]])
      (simp add: introspect_remote_def Let_def split_beta silent_simps split: sum.split json.split)
  with w1 have "asks X A w (snd (snd (introspect_remote t X R A cfg c w1)))" by (simp add: asks_def)
  with w1 Some r show ?thesis
    by (auto simp: tokenIntrospect_def split_beta split: sum.split option.split json.split)
qed

lemma hmacAuth_asks: "asks X A w (snd (snd (hmacAuth X R A cfg c w)))"
  by (rule asks_silent) (simp add: hmacAuth_def Let_def split_beta silent_simps)

lemma method_asks: "auth_method m = Some fn \<Longrightarrow> asks X A w (snd (snd (fn X R A cfg c w)))"
  by (auto simp: auth_method_def jwtAuth_asks apiKeyAuth_asks basicAuth_asks tokenIntrospect_asks hmacAuth_asks
      split: if_splits)

lemma refused_asks: "refused X R A cfg ms c w c1 w1 \<Longrightarrow> asks X A w w1"
proof (induction rule: refused.induct)
  case (rejects m fn c w reason c1 w1 ms c2 w2)
  then show ?case using method_asks [of m fn X A w R "buildSubConfig cfg m" c] by (auto intro: asks_trans)
next
  case (throws m fn c w e c1 w1 ms c2 w2)
  then show ?case using method_asks [of m fn X A w R "buildSubConfig cfg m" c] by (auto intro: asks_trans)
qed simp_all

lemma authPlugin_asks: "asks X A w (snd (snd (authPlugin X R A cfg c w)))"
proof -
  obtain r c1 w1 where t: "try_methods X R A cfg (auth_methods cfg) [] c w = (r, c1, w1)"
    by (cases "try_methods X R A cfg (auth_methods cfg) [] c w") auto
  have "asks X A w w1"
  proof (cases r)
    case None
    with try_methods_runs [OF t] obtain m fn c2 w2 tried where "refused X R A cfg tried c w c2 w2"
      "auth_method m = Some fn" "fn X R A (buildSubConfig cfg m) c2 w2 = (Inr AuthOk, c1, w1)" by auto
    then show ?thesis
      using method_asks [of m fn X A w2 R "buildSubConfig cfg m" c2] by (auto intro: asks_trans refused_asks)
  qed (use try_methods_runs [OF t] in \<open>auto intro: refused_asks\<close>)
  with t show ?thesis by (simp add: authPlugin_def Let_def split: option.split)
qed

section \<open>Rate limits\<close>

lemma strategies_silent [silent_simps]:
  "io_sent (snd (slidingWindow R key ms n w)) = io_sent w" "io_sent (snd (fixedWindow R key secs n w)) = io_sent w"
  "io_sent (snd (tokenBucket X R key cap rate req w)) = io_sent w"
  by (simp_all add: slidingWindow_def fixedWindow_def tokenBucket_def randomReqId_def Let_def split_beta silent_simps
      split: sum.split prod.split)

lemma headers_silent [silent_simps]: "io_sent (snd (applyRateLimitHeaders h ws d w)) = io_sent w"
  by (simp add: applyRateLimitHeaders_def Let_def split_beta silent_simps split: list.split option.split)

lemma checkWindow_silent [silent_simps]: "io_sent (snd (checkWindow st R key p ms secs n l w)) = io_sent w"
  by (simp add: checkWindow_def Let_def split_beta silent_simps)

lemma window_block_silent [silent_simps]:
  "io_sent (snd (window_block st R key p ms secs limit l s)) = io_sent (snd s)"
  by (cases s) (simp add: window_block_def Let_def split_beta silent_simps split: option.split)

lemma branches_silent [silent_simps]:
  "io_sent (snd (bucket_branch X R cfg rpm c w)) = io_sent w"
  "io_sent (snd (window_branch st R key limits c w)) = io_sent w"
  by (simp_all add: bucket_branch_def window_branch_def check_windows_def Let_def split_beta silent_simps split: option.split)

lemma store_plan_silent [silent_simps]: "io_sent (store_plan k l w) = io_sent w"
  by (simp add: store_plan_def date_now_def)

lemma fetch_plan_asks: "asks X A w (snd (fetch_plan X A clientId apiId w))"
  by (rule asks_after [OF internalFetch_asks [OF asks_service.quota [of X A clientId apiId]]])
    (simp add: fetch_plan_def Let_def split_beta silent_simps split: sum.split json.split)

lemma lookup_plan_asks: "asks X A w (snd (lookup_plan X R A clientId apiId w))"
proof -
  obtain r w1 where r: "redis_read (\<lambda>t d. r_hgetall R t d (info_key clientId)) w = (r, w1)"
    by (cases "redis_read (\<lambda>t d. r_hgetall R t d (info_key clientId)) w")
  have w1: "io_sent w1 = io_sent w"
    using host_silent(2) [of "\<lambda>t d. r_hgetall R t d (info_key clientId)" w] r by simp
  with fetch_plan_asks [of X A w1 clientId apiId] have "asks X A w (snd (fetch_plan X A clientId apiId w1))"
    by (simp add: asks_def)
  with w1 r show ?thesis by (auto simp: lookup_plan_def silent_simps Let_def split: sum.split)
qed

lemma resolvePlanLimits_asks: "asks X A w (snd (resolvePlanLimits X R A clientId apiId w))"
proof -
  have "asks X A w (snd (lookup_plan X R A clientId apiId (snd (date_now w))))"
    using lookup_plan_asks [of X A "snd (date_now w)" R clientId apiId] by (simp add: asks_def silent_simps)
  then show ?thesis
    by (auto simp: resolvePlanLimits_def Let_def split_beta lookup_plan_asks silent_simps split: option.split)
qed

lemma effective_limits_asks: "asks X A w (snd (effective_limits X R A cfg c w))"
  using resolvePlanLimits_asks [of X A w R "c_clientId c" "c_apiId c"]
  by (simp add: effective_limits_def Let_def split_beta split: option.split)

lemma rateLimit_asks: "asks X A w (snd (snd (rateLimit X R A cfg c w)))"
  using effective_limits_asks [of X A w R cfg c]
  by (auto simp: rateLimit_def asks_def Let_def split_beta silent_simps)

section \<open>Plugins that ask nobody\<close>

lemma templates_silent [silent_simps]: "io_sent (snd (resolveTemplate A c s w)) = io_sent w"
proof (induction A c s w rule: resolveTemplate.induct)
  case (2 A c x s w)
  have "io_sent (snd (resolveExpr A c e w)) = io_sent w" for e
    by (simp add: resolveExpr_def Let_def split_beta silent_simps)
  moreover have "io_sent (snd (resolveTemplate A c rest (snd (resolveExpr A c (js_trim e) w)))) =
      io_sent (snd (resolveExpr A c (js_trim e) w))" if "placeholder (x # s) = Some (e, rest)" for e rest
    using "2.IH"(2) [OF that refl refl prod.collapse] by simp
  ultimately show ?case using "2.IH"(1) by (simp add: split_beta split: option.split)
qed simp

lemma applyOps_silent [silent_simps]: "io_sent (snd (snd (applyOps req A ops c w))) = io_sent w"
proof (induction ops arbitrary: c w)
  case (Cons oper ops)
  then show ?case
    by (simp add: split_beta silent_simps split: sum.split option.split json.split)
qed simp

lemma add_query_silent [silent_simps]: "io_sent (snd (add_query A kvs c w)) = io_sent w"
  by (induction kvs arbitrary: c w) (simp_all add: Let_def split_beta silent_simps split: option.split)

lemma json_op_silent [silent_simps]: "io_sent (snd (snd (json_op X A c obj s))) = io_sent (snd (snd s))"
  by (cases s) (simp add: json_op_def op_value_def Let_def split_beta silent_simps split: option.split json.split)

lemma applyJsonOps_silent [silent_simps]: "io_sent (snd (snd (applyJsonOps X A c ops s))) = io_sent (snd (snd s))"
  by (induction ops arbitrary: s) (simp_all add: applyJsonOps_def silent_simps)

lemma bodies_silent [silent_simps]:
  "io_sent (snd (transformRequestBody X A cfg c w)) = io_sent w"
  "io_sent (snd (transformResponseBody X A cfg c w)) = io_sent w"
  by (simp_all add: transformRequestBody_def transformResponseBody_def body_ops_def run_ops_def Let_def split_beta
      silent_simps split: option.split json.split)

lemma transformPlugin_silent: "io_sent (snd (snd (transformPlugin X R A cfg c w))) = io_sent w"
  by (simp add: transformPlugin_def transformRequestHeaders_def transformResponseHeaders_def transformQueryParams_def
      injectStandardHeaders_def Let_def split_beta silent_simps split: option.split)

lemma cache_silent: "io_sent (snd (snd (cache X R A cfg c w))) = io_sent w"
  by (simp add: cache_def cache_read_def cache_write_def Let_def split_beta silent_simps split: option.split sum.split)

lemma redis_expire_silent [silent_simps]: "io_sent (snd (redis_expire R key secs w)) = io_sent w"
  by (simp add: redis_expire_def silent_simps split: option.split)

lemma promise_all_silent [silent_simps]: "io_sent (snd (promise_all fs w)) = io_sent w"
proof -
  have "io_sent (snd (fold (\<lambda>f (r, w). let (r', w') = redis_write f w
      in (case r of Inl e \<Rightarrow> Inl e | Inr _ \<Rightarrow> r', w')) fs s)) = io_sent (snd s)" for s
    by (induction fs arbitrary: s) (simp_all add: Let_def split_beta silent_simps)
  from this [of "(Inr (), w)"] show ?thesis by (simp add: promise_all_def)
qed

lemma breaker_states_silent [silent_simps]:
  "io_sent (snd (snd (cb_open R t c w))) = io_sent w" "io_sent (snd (snd (cb_half_open R t m c w))) = io_sent w"
  "io_sent (snd (snd (cb_failure R th win er c w))) = io_sent w" "io_sent (snd (snd (cb_reset R c w))) = io_sent w"
  by (simp_all add: cb_open_def cb_half_open_def cb_failure_def cb_reset_def Let_def split_beta silent_simps split: sum.split)

lemma circuitBreaker_silent: "io_sent (snd (snd (circuitBreaker X R A cfg c w))) = io_sent w"
  by (simp add: circuitBreaker_def cb_closed_def Let_def split_beta silent_simps split: sum.split)

section \<open>A phase and the admission\<close>

lemma plugin_asks:
  assumes "PLUGIN_MAP ty = Some f"
  shows "asks X A w (snd (snd (f X R A cfg c w)))"
proof -
  from assms have "f \<in> {authPlugin, rateLimit, cors, ipWhitelist, transformPlugin, cache, circuitBreaker}"
    by (auto simp: PLUGIN_MAP_def split: if_splits)
  then show ?thesis
    by (auto simp: authPlugin_asks rateLimit_asks cors_def ipWhitelist_def transformPlugin_silent cache_silent
        circuitBreaker_silent)
qed

lemma run_policies_asks: "asks X A (snd s) (snd (run_policies X R A ps s))"
proof (induction ps arbitrary: s)
  case (Cons p ps)
  have "asks X A (snd s) (snd (run_policy X R A p s))"
    by (cases s) (simp add: run_policy_def plugin_asks split: option.split)
  with Cons.IH [of "run_policy X R A p s"] show ?case by (auto intro: asks_trans)
qed simp

lemma getPolicyChain_asks: "asks X A (snd s) (snd (snd (getPolicyChain X A apiId s)))"
proof -
  have f: "asks X A w (snd (snd (fetch_chain X A apiId stale (cc, w))))" for stale cc w
    by (rule asks_after [OF internalFetch_asks [OF asks_service.chain [of X A apiId]]])
      (simp add: fetch_chain_def Let_def split_beta silent_simps split: sum.split)
  obtain cc w where s: "s = (cc, w)" by (cases s)
  have "asks X A w (snd (snd (fetch_chain X A apiId stale (cc, snd (date_now w)))))" for stale
    using f [of "snd (date_now w)" stale cc] by (simp add: asks_def silent_simps)
  with f show ?thesis
    by (auto simp: getPolicyChain_def s Let_def split_beta silent_simps split: option.split)
qed

lemma executePhase_asks: "asks X A (snd s) (snd (snd (snd (executePhase X R A phase c s))))"
proof -
  obtain ch cc w2 where g: "getPolicyChain X A (c_apiId c) (fst s, snd (date_now (snd s))) = (ch, cc, w2)"
    by (cases "getPolicyChain X A (c_apiId c) (fst s, snd (date_now (snd s)))") auto
  have w2: "asks X A (snd s) w2"
    using getPolicyChain_asks [of X A "(fst s, snd (date_now (snd s)))" "c_apiId c"] g by (simp add: asks_def silent_simps)
  have "asks X A (snd s) (snd (run_policies X R A ps (c1, w2)))" for ps c1
    using asks_trans [OF w2] run_policies_asks [of X A "(c1, w2)" R ps] by simp
  then have "asks X A (snd s) (snd (date_now (snd (run_policies X R A ps (c1, w2)))))" for ps c1
    by (simp add: asks_def silent_simps)
  moreover have "asks X A (snd s) (snd (date_now w2))" using w2 by (simp add: asks_def silent_simps)
  ultimately show ?thesis
    using w2 by (simp add: executePhase_def Let_def split_beta g split: sum.split option.split)
qed

lemma checkUpstream_silent [silent_simps]: "io_sent (snd (snd (checkUpstream X A u s))) = io_sent (snd s)"
  by (cases s) (simp add: checkUpstream_def evaluate_def Let_def split_beta silent_simps split: option.split sum.split)

lemma admit_asks: "asks X A (sv_io s) (sv_io (snd (admit X P R A q s)))"
proof -
  have phase: "asks X A (sv_io s) (snd (snd (snd (executePhase X R A ph c (cc, w)))))"
    if "io_sent w = io_sent (sv_io s)" for ph c cc and w :: "'a io"
    using executePhase_asks [of X A "(cc, w)" R ph c] that by (simp add: asks_def)
  show ?thesis
    by (auto simp: admit_def Let_def split_beta silent_simps phase split: option.split sum.split)
qed

end
