(* ===== verification/ServerProps.thy ===== *)
theory ServerProps
  imports ServiceCalls
begin

text \<open>
  Properties of the request path of \<open>gateway/src/server.ts\<close> that span its components: what a
  request must have passed before the upstream is called, and what of the pipeline's work
  reaches the upstream and the client.
\<close>

section \<open>Admission\<close>

lemma admit_Inr:
  assumes "admit X P R A q s = (Inr (u, r, c), s1)"
  obtains w0 w1 now w2 res s2 where "w0 = snd (date_now (sv_io s))"
    "P (wr_target q) = Some u"
    "matchRoute (tb_routes (sv_routes s)) (request_host q) (tu_pathname u) (wr_method q) = Some r"
    "sc_ok (fst (checkUpstream X A (rt_upstreamUrl r) (sv_ssrf s, w0)))"
    "w1 = snd (snd (checkUpstream X A (rt_upstreamUrl r) (sv_ssrf s, w0)))"
    "date_now w1 = (now, w2)"
    "executePhase X R A ''pre_request'' (request_ctx X q u r now) (sv_chains s, w2) = (Inr res, c, s2)"
    "\<not> stopped c" "sv_chains s1 = fst s2" "sv_io s1 = snd s2"
proof -
  obtain st w0 where d0: "date_now (sv_io s) = (st, w0)" by (cases "date_now (sv_io s)")
  have u: "P (wr_target q) = Some u"
    and r: "matchRoute (tb_routes (sv_routes s)) (request_host q) (tu_pathname u) (wr_method q) = Some r"
    using assms by (auto simp: admit_def d0 Let_def split: option.splits if_splits prod.splits sum.splits)
  obtain v guard w1 where v: "checkUpstream X A (rt_upstreamUrl r) (sv_ssrf s, w0) = (v, guard, w1)"
    by (cases "checkUpstream X A (rt_upstreamUrl r) (sv_ssrf s, w0)") auto
  obtain now w2 where d1: "date_now w1 = (now, w2)" by (cases "date_now w1")
  obtain res c' cc w3 where e: "executePhase X R A ''pre_request'' (request_ctx X q u r now) (sv_chains s, w2) = (res, c', cc, w3)"
    by (cases "executePhase X R A ''pre_request'' (request_ctx X q u r now) (sv_chains s, w2)") auto
  from assms have ok: "sc_ok v" "\<exists>x. res = Inr x" "c' = c" "\<not> c_aborted c" "\<not> c_cacheHit c" "sv_chains s1 = cc" "sv_io s1 = w3"
    by (auto simp: admit_def d0 u r v d1 e Let_def split: if_splits sum.splits)
  then obtain x where x: "res = Inr x" by blast
  show thesis
    by (rule that [of w0 w1 now w2 x "(cc, w3)"])
      (use u r v d0 d1 e ok x in \<open>simp_all add: stopped_def\<close>)
qed

text \<open>What the proxied request leaves on the wire.\<close>

lemma forwardRequest_sends: "io_sent (snd (forwardRequest r q w)) = io_sent w @ [upstream_call r q]"
  by (simp add: forwardRequest_def http_fetch_def split: sum.split exn.split)

lemma admit_Inl_Inr_asks:
  "admit X P R A q s = (a, s1) \<Longrightarrow> \<exists>before. io_sent (sv_io s1) = io_sent (sv_io s) @ before \<and> (\<forall>x \<in> set before. service_call X A x)"
  using admit_asks [of X A s P R q] by (simp add: asks_def)

lemma executePhase_sent:
  "executePhase X R A phase c (cc, w) = (res, c', cc', w') \<Longrightarrow>
     \<exists>after. io_sent w' = io_sent w @ after \<and> (\<forall>x \<in> set after. service_call X A x)"
  using executePhase_asks [of X A "(cc, w)" R phase c] by (simp add: asks_def)

text \<open>
  C2. A request reaches an upstream only along one path: its target parses, a route serves
  it, the SSRF guard passes the upstream's address, and the \<open>pre_request\<close> phase ends with a
  context that is neither aborted nor answered from the cache. Then exactly one request is
  sent that is none of the gateway's own calls to its services, the one for this route and
  this context; the reply is the one that the \<open>post_response\<close> phase makes of the upstream's
  answer. In every other case the reply is the one of the turned-away request and nothing
  but calls to services has been sent.
\<close>

theorem upstream_only_if_admitted:
  assumes "gateway_handler X P R A q s = (rep, s')"
  shows "(admit X P R A q s = (Inl rep, s') \<and>
      (\<exists>calls. io_sent (sv_io s') = io_sent (sv_io s) @ calls \<and> (\<forall>x \<in> set calls. service_call X A x))) \<or>
    (\<exists>u r v guard w1 res c cc wp resp w2 res2 c2 w3 before after.
       P (wr_target q) = Some u \<and>
       matchRoute (tb_routes (sv_routes s)) (request_host q) (tu_pathname u) (wr_method q) = Some r \<and>
       checkUpstream X A (rt_upstreamUrl r) (sv_ssrf s, snd (date_now (sv_io s))) = (v, guard, w1) \<and> sc_ok v \<and>
       executePhase X R A ''pre_request'' (request_ctx X q u r (io_clock w1 0)) (sv_chains s, snd (date_now w1)) =
         (Inr res, c, cc, wp) \<and> \<not> c_aborted c \<and> \<not> c_cacheHit c \<and>
       forwardRequest r (upstream_of q u c) wp = (resp, w2) \<and>
       executePhase X R A ''post_response'' (with_response resp c) (cc, w2) = (res2, c2, sv_chains s', w3) \<and>
       rep = (case res2 of Inl e \<Rightarrow> error_reply None [] | Inr _ \<Rightarrow> flushCtxResponse c2) \<and>
       io_sent (sv_io s') = io_sent (sv_io s) @ before @ [upstream_call r (upstream_of q u c)] @ after \<and>
       (\<forall>x \<in> set (before @ after). service_call X A x))"
proof (cases "admit X P R A q s")
  case (Pair a s1)
  from admit_Inl_Inr_asks [OF Pair] obtain before where before: "io_sent (sv_io s1) = io_sent (sv_io s) @ before"
    "\<forall>x \<in> set before. service_call X A x" by blast
  show ?thesis
  proof (cases a)
    case (Inl rep1)
    with assms Pair before show ?thesis by (simp add: gateway_handler_def)
  next
    case (Inr b)
    obtain u r c where b: "b = (u, r, c)" by (cases b)
    from Pair Inr b have adm: "admit X P R A q s = (Inr (u, r, c), s1)" by simp
    obtain resp w2 where f: "forwardRequest r (upstream_of q u c) (sv_io s1) = (resp, w2)"
      by (cases "forwardRequest r (upstream_of q u c) (sv_io s1)")
    obtain res2 c2 cc w3 where post: "executePhase X R A ''post_response'' (with_response resp c) (sv_chains s1, w2) =
        (res2, c2, cc, w3)" by (cases "executePhase X R A ''post_response'' (with_response resp c) (sv_chains s1, w2)") auto
    from executePhase_sent [OF post] obtain after where after: "io_sent w3 = io_sent w2 @ after"
      "\<forall>x \<in> set after. service_call X A x" by blast
    have w2: "io_sent w2 = io_sent (sv_io s1) @ [upstream_call r (upstream_of q u c)]"
      using forwardRequest_sends [of r "upstream_of q u c" "sv_io s1"] f by simp
    have out: "rep = (case res2 of Inl e \<Rightarrow> error_reply None [] | Inr _ \<Rightarrow> flushCtxResponse c2)"
        "sv_chains s' = cc" "io_sent (sv_io s') = io_sent w3"
      using assms by (auto simp: gateway_handler_def adm f post Let_def silent_simps split: sum.splits)
    have sent: "io_sent (sv_io s') = io_sent (sv_io s) @ before @ [upstream_call r (upstream_of q u c)] @ after"
        "\<forall>x \<in> set (before @ after). service_call X A x"
      using out(3) after w2 before by auto
    from adm show ?thesis
    proof (rule admit_Inr)
      fix w0 w1 now v res s2
      assume w: "w0 = snd (date_now (sv_io s))" "w1 = snd (snd (checkUpstream X A (rt_upstreamUrl r) (sv_ssrf s, w0)))"
          "date_now w1 = (now, v)"
        and u: "P (wr_target q) = Some u"
        and m: "matchRoute (tb_routes (sv_routes s)) (request_host q) (tu_pathname u) (wr_method q) = Some r"
        and ok: "sc_ok (fst (checkUpstream X A (rt_upstreamUrl r) (sv_ssrf s, w0)))"
        and pre: "executePhase X R A ''pre_request'' (request_ctx X q u r now) (sv_chains s, v) = (Inr res, c, s2)"
        and st: "\<not> stopped c" "sv_chains s1 = fst s2" "sv_io s1 = snd s2"
      obtain ok' guard where g: "checkUpstream X A (rt_upstreamUrl r) (sv_ssrf s, snd (date_now (sv_io s))) = (ok', guard, w1)" "sc_ok ok'"
        using w ok by (cases "checkUpstream X A (rt_upstreamUrl r) (sv_ssrf s, snd (date_now (sv_io s)))") auto
      have pre': "executePhase X R A ''pre_request'' (request_ctx X q u r (io_clock w1 0)) (sv_chains s, snd (date_now w1)) =
          (Inr res, c, sv_chains s1, sv_io s1)"
        using pre w(3) st(2,3) by (simp add: date_now_def)
      have post': "executePhase X R A ''post_response'' (with_response resp c) (sv_chains s1, w2) = (res2, c2, sv_chains s', w3)"
        using post out(2) by simp
      have "\<not> c_aborted c" "\<not> c_cacheHit c" using st(1) by (simp_all add: stopped_def)
      with u m g pre' f post' out(1) sent show ?thesis
        by blast
    qed
  qed
qed

section \<open>Authentication before the upstream\<close>

lemma evaluate_clock: "io_clock (snd (evaluate X A u w)) = io_clock w"
  by (simp add: evaluate_def Let_def dns_lookup_def split: option.split sum.split)

lemma checkUpstream_clock: "io_clock (snd (snd (checkUpstream X A u (sc, w)))) = shift (io_clock w)"
  using evaluate_clock [of X A u "snd (date_now w)"]
  by (auto simp: checkUpstream_def date_now_def Let_def split: option.split prod.split)

text \<open>The clock that the cache of chains is compared with comes later on the same tape.\<close>

lemma getPolicyChain_fresh:
  assumes "rget cc a = Some (ch, t)" and "io_clock w 0 - t < CHAIN_TTL_MS"
  shows "getPolicyChain X A a (cc, w) = (Some ch, cc, snd (date_now w))"
  using assms by (simp add: getPolicyChain_def date_now_def)

text \<open>
  C1. End to end: if the chain in the cache of the route's API is fresh throughout the request
  and holds an enabled unconditional authentication policy for \<open>pre_request\<close> without
  anonymous access, then a request that is handed to the upstream of the route was
  authenticated: the policies ordered before this one ran on the request's own context, one
  of the configured methods accepted the context they left (every method before it having
  turned it down), and the policies after it went on from what this method returned to the
  context that is forwarded.
\<close>

theorem protected_api:
  assumes "admit X P R A q s = (Inr (u, r, c), s1)"
    and "rget (sv_chains s) (rt_apiId r) = Some (ch, t)" and "\<And>n. io_clock (sv_io s) n - t < CHAIN_TTL_MS"
    and "js_truthy ch" and "chain_policies ch = Inr ps" and "p \<in> set ps" and "p_enabled p"
    and "p_phase p = ''pre_request''" and "p_type p \<in> {''auth'', ''jwt_auth'', ''api_key_auth''}"
    and "\<not> truthy (p_condition p)" and "rget (p_config p) ''allow_anonymous'' \<noteq> Some ''true''"
    and "checkUpstream X A (rt_upstreamUrl r) (sv_ssrf s, snd (date_now (sv_io s))) = (v, guard, w1)"
  shows "\<exists>before after cp wp c1 w2 w3. phase_policies ''pre_request'' ps = before @ p # after \<and>
    run_policies X R A before ((request_ctx X q u r (io_clock w1 0))\<lparr>c_phase := ''pre_request''\<rparr>,
      snd (date_now (snd (date_now (snd (date_now w1)))))) = (cp, wp) \<and>
    auth_accepted X R A (p_config p) cp wp c1 w2 \<and>
    run_policies X R A after (c1, w2) = (c, w3) \<and> sv_io s1 = snd (date_now w3)"
  using assms(1)
proof (rule admit_Inr)
  fix w0 w1' now w2 res s2
  assume w: "w0 = snd (date_now (sv_io s))" "w1' = snd (snd (checkUpstream X A (rt_upstreamUrl r) (sv_ssrf s, w0)))"
      "date_now w1' = (now, w2)"
    and e: "executePhase X R A ''pre_request'' (request_ctx X q u r now) (sv_chains s, w2) = (Inr res, c, s2)"
    and st: "\<not> stopped c" and s1: "sv_io s1 = snd s2"
  have w1: "w1' = w1" using w(1,2) assms(12) by simp
  have now: "now = io_clock w1 0" "w2 = snd (date_now w1)" using w(3) w1 by (simp_all add: date_now_def)
  have "io_clock (snd (date_now w2)) 0 = io_clock (sv_io s) (Suc (Suc (Suc (Suc 0))))"
    using w checkUpstream_clock [of X A "rt_upstreamUrl r" "sv_ssrf s" w0] by (auto simp: date_now_def)
  with assms(3) have "io_clock (snd (date_now w2)) 0 - t < CHAIN_TTL_MS" by simp
  from getPolicyChain_fresh [OF assms(2) this, of X A]
  have g: "getPolicyChain X A (c_apiId (request_ctx X q u r now)) (sv_chains s, snd (date_now w2)) =
      (Some ch, sv_chains s, snd (date_now (snd (date_now w2))))"
    by (simp add: request_ctx_def createExecContext_def Let_def)
  from phase_authenticates [OF assms(5-11,4) g e st] s1 show ?thesis
    unfolding now by fastforce
qed

subsection \<open>A request through a gateway with one policy\<close>

definition shop_route :: route where
  "shop_route = \<lparr>rt_id = Some ''r1'', rt_apiId = ''orders'', rt_upstreamUrl = ''http://up.test'', rt_stripPrefix = [],
     rt_active = True, rt_version = ''v1'', rt_host = None, rt_pathPrefix = ''/orders'', rt_methods = []\<rparr>"

definition shop_ext :: ext where
  "shop_ext = sample_ext\<lparr>x_url := (\<lambda>u. Some \<lparr>u_protocol = ''http:'', u_hostname = ''up.test'', u_port = []\<rparr>)\<rparr>"

definition shop_target :: parse_target where
  "shop_target t = Some \<lparr>tu_pathname = ''/orders'', tu_search = ''?api_key=xca_1'', tu_params = [(''api_key'', ''xca_1'')]\<rparr>"

definition shop_request :: web_request where
  "shop_request = \<lparr>wr_method = ''GET'', wr_target = ''/orders?api_key=xca_1'',
     wr_headers = [(''host'', One ''shop.test''), (''origin'', One ''https://app.test''), (''authorization'', One ''Bearer abc'')],
     wr_ip = ''203.0.113.9'', wr_id = ''1'', wr_body = NoBody\<rparr>"

text \<open>The upstream answers 200; Redis knows the key and the cached response.\<close>

definition shop_world :: "mem io" where
  "shop_world = sample_io\<lparr>
     io_clock := (\<lambda>_. 5),
     io_dns := (\<lambda>_ _. Inr [''8.8.8.8'']), io_jwt := (\<lambda>_ q. if jc_token q = ''abc'' then Inr [] else Inl NonError),
     io_net := (\<lambda>_ _. Inr \<lparr>rs_status = 200, rs_headers = [(''content-type'', ''text/plain'')], rs_body = ''hello''\<rparr>)\<rparr>"

definition shop_server :: "json list \<Rightarrow> mem server" where
  "shop_server ps = \<lparr>sv_routes = \<lparr>tb_routes = [shop_route], tb_lastSyncAt = 0\<rparr>, sv_ssrf = [],
     sv_chains = [(''orders'', (chain_of ps, 0))], sv_io = shop_world\<rparr>"

definition policy_json :: "string \<Rightarrow> (string \<times> json) list \<Rightarrow> json" where
  "policy_json ty cfg = JObj [(''id'', JStr ''p1''), (''type'', JStr ty), (''phase'', JStr ''pre_request''),
     (''order'', JNum 1), (''enabled'', JBool True), (''config'', JObj cfg)]"

definition shop_admit :: "json list \<Rightarrow> (reply + target_url \<times> route \<times> ctx) \<times> mem server" where
  "shop_admit ps = admit shop_ext shop_target mem_redis sample_config shop_request (shop_server ps)"

definition admitted_route :: "(reply + target_url \<times> route \<times> ctx) \<times> mem server \<Rightarrow> string option" where
  "admitted_route a = (case fst a of Inl _ \<Rightarrow> None | Inr (u, r, c) \<Rightarrow> Some (rt_apiId r))"

lemma shop_admitted:
  assumes "admitted_route (shop_admit ps) = Some ''orders''"
  obtains u r c s1 where "admit shop_ext shop_target mem_redis sample_config shop_request (shop_server ps) = (Inr (u, r, c), s1)"
    "rt_apiId r = ''orders''"
  using assms that by (cases "shop_admit ps") (auto simp: admitted_route_def shop_admit_def split: sum.splits)

lemma shop_auth_admitted: "admitted_route (shop_admit [policy_json ''auth'' []]) = Some ''orders''"
  by code_simp

theorem protected_api_witness:
  "\<exists>u r c s1 w1 c1 w2. admit shop_ext shop_target mem_redis sample_config shop_request
       (shop_server [policy_json ''auth'' []]) = (Inr (u, r, c), s1) \<and>
     auth_accepted shop_ext mem_redis sample_config []
       ((request_ctx shop_ext shop_request u r (io_clock w1 0))\<lparr>c_phase := ''pre_request''\<rparr>)
       (snd (date_now (snd (date_now (snd (date_now w1)))))) c1 w2 \<and> c = c1 \<and> sv_io s1 = snd (date_now w2)"
proof -
  let ?p = "decode_policy (policy_json ''auth'' [])" and ?ch = "chain_of [policy_json ''auth'' []]"
  from shop_admitted [OF shop_auth_admitted] obtain u r c s1 where
    a: "admit shop_ext shop_target mem_redis sample_config shop_request (shop_server [policy_json ''auth'' []]) = (Inr (u, r, c), s1)"
    and r: "rt_apiId r = ''orders''" .
  have p: "p_enabled ?p" "p_phase ?p = ''pre_request''" "p_type ?p = ''auth''" "p_condition ?p = None" "p_config ?p = []"
    by code_simp+
  have ch: "js_truthy ?ch" "chain_policies ?ch = Inr [?p]"
    by (simp_all add: chain_of_def chain_policies_def policy_json_def)
  have e: "rget (sv_chains (shop_server [policy_json ''auth'' []])) (rt_apiId r) = Some (?ch, 0)"
    by (simp add: shop_server_def r)
  have t: "io_clock (sv_io (shop_server [policy_json ''auth'' []])) n - 0 < CHAIN_TTL_MS" for n
    by (simp add: shop_server_def shop_world_def CHAIN_TTL_MS_def)
  obtain v guard w1 where g: "checkUpstream shop_ext sample_config (rt_upstreamUrl r) (sv_ssrf (shop_server [policy_json ''auth'' []]),
      snd (date_now (sv_io (shop_server [policy_json ''auth'' []])))) = (v, guard, w1)"
    by (cases "checkUpstream shop_ext sample_config (rt_upstreamUrl r) (sv_ssrf (shop_server [policy_json ''auth'' []]),
      snd (date_now (sv_io (shop_server [policy_json ''auth'' []]))))") auto
  have in_ps: "?p \<in> set [?p]" by simp
  have only: "phase_policies ''pre_request'' [?p] = [?p]" by (simp add: phase_policies_sort p)
  have ty: "p_type ?p \<in> {''auth'', ''jwt_auth'', ''api_key_auth''}" by (simp add: p)
  have cond: "\<not> truthy (p_condition ?p)" "rget (p_config ?p) ''allow_anonymous'' \<noteq> Some ''true''"
    by (simp_all add: p truthy_def)
  from protected_api [OF a e t ch in_ps p(1,2) ty cond g] obtain before after cp wp c1 w2 w3 where
    h: "phase_policies ''pre_request'' [?p] = before @ ?p # after"
    "run_policies shop_ext mem_redis sample_config before
       ((request_ctx shop_ext shop_request u r (io_clock w1 0))\<lparr>c_phase := ''pre_request''\<rparr>,
        snd (date_now (snd (date_now (snd (date_now w1)))))) = (cp, wp)"
    "auth_accepted shop_ext mem_redis sample_config (p_config ?p) cp wp c1 w2"
    "run_policies shop_ext mem_redis sample_config after (c1, w2) = (c, w3)" "sv_io s1 = snd (date_now w3)" by blast
  from h(1) only have "before = []" "after = []" by (simp_all add: Cons_eq_append_conv)
  with h a show ?thesis by (auto simp: p(5))
qed

theorem upstream_only_if_admitted_witness:
  "\<exists>rep s' u r c before after. gateway_handler shop_ext shop_target mem_redis sample_config shop_request (shop_server []) = (rep, s') \<and>
     shop_target (wr_target shop_request) = Some u \<and>
     io_sent (sv_io s') = before @ [upstream_call r (upstream_of shop_request u c)] @ after \<and>
     (\<forall>x \<in> set (before @ after). service_call shop_ext sample_config x)"
proof -
  have "admitted_route (shop_admit []) = Some ''orders''" by code_simp
  from shop_admitted [OF this] obtain u r c s1 where
    a: "admit shop_ext shop_target mem_redis sample_config shop_request (shop_server []) = (Inr (u, r, c), s1)" .
  obtain rep s' where h: "gateway_handler shop_ext shop_target mem_redis sample_config shop_request (shop_server []) = (rep, s')"
    by (cases "gateway_handler shop_ext shop_target mem_redis sample_config shop_request (shop_server [])")
  have "io_sent (sv_io (shop_server [])) = []" by (simp add: shop_server_def shop_world_def sample_io_def)
  with upstream_only_if_admitted [OF h] a have "\<exists>u r c before after. shop_target (wr_target shop_request) = Some u \<and>
      io_sent (sv_io s') = before @ [upstream_call r (upstream_of shop_request u c)] @ after \<and>
      (\<forall>x \<in> set (before @ after). service_call shop_ext sample_config x)" by simp blast
  with h show ?thesis by blast
qed

section \<open>What the pipeline's work comes to\<close>

text \<open>
  Changes of the query parameters never reach the upstream: whatever the policies did to
  them, the proxied request carries the query string of the client as it came. A key that
  \<open>apiKeyAuth\<close> removed and a parameter that a transformation removed are forwarded.
\<close>

theorem raw_query_forwarded:
  assumes "admit X P R A q s = (Inr (u, r, c), s1)" and "tu_search u = ''?'' @ qs" and "qs \<noteq> []"
  shows "upstream_call r (upstream_of q u (c\<lparr>c_queryParams := anything\<rparr>)) = upstream_call r (upstream_of q u c) \<and>
    (\<exists>base. rq_url (upstream_call r (upstream_of q u c)) = base @ ''?'' @ qs)"
  using assms(2,3) by (auto simp: upstream_call_def upstream_of_def buildUpstreamUrl_def Let_def)

theorem raw_query_forwarded_witness:
  "\<exists>u r c s1. admit shop_ext shop_target mem_redis sample_config shop_request
       (shop_server [policy_json ''transform'' [(''remove_query'', JStr ''api_key'')]]) = (Inr (u, r, c), s1) \<and>
     (\<exists>base. rq_url (upstream_call r (upstream_of shop_request u c)) = base @ ''?'' @ ''api_key=xca_1'')"
proof -
  let ?ps = "[policy_json ''transform'' [(''remove_query'', JStr ''api_key'')]]"
  have "admitted_route (shop_admit ?ps) = Some ''orders''" by code_simp
  from shop_admitted [OF this] obtain u r c s1 where
    a: "admit shop_ext shop_target mem_redis sample_config shop_request (shop_server ?ps) = (Inr (u, r, c), s1)" .
  from a have "shop_target (wr_target shop_request) = Some u" by (rule admit_Inr)
  then have "tu_search u = ''?'' @ ''api_key=xca_1''" by (auto simp: shop_target_def)
  from raw_query_forwarded [OF a this] a show ?thesis by blast
qed

text \<open>
  Response headers set before the proxy call are lost: if the \<open>post_response\<close> phase adds
  nothing, the client of a proxied request sees exactly the upstream's headers. The headers of
  CORS, of the rate limiter and of the cache plugin never reach it.
\<close>

theorem pre_request_headers_lost:
  assumes "admit X P R A q s = (Inr (u, r, c), s1)"
    and "forwardRequest r (upstream_of q u c) (sv_io s1) = (resp, w1)"
    and "executePhase X R A ''post_response'' (with_response resp c) (sv_chains s1, w1) = (Inr res, c2, s2)"
    and "c_responseHeaders c2 = c_responseHeaders (with_response resp c)"
  shows "rp_headers (fst (gateway_handler X P R A q s)) = fold (\<lambda>(k, v). rset (js_lower k) v) (us_headers resp) []"
  using assms by (cases s2) (simp add: gateway_handler_def flushCtxResponse_def applyResponseHeaders_def with_response_def)

definition cors_policies :: "json list" where
  "cors_policies = [policy_json ''cors'' [(''allowed_origins'', JStr ''*'')]]"

theorem pre_request_headers_lost_witness:
  "rp_headers (fst (gateway_handler shop_ext shop_target mem_redis sample_config shop_request (shop_server cors_policies)))
     = [(''content-type'', ''text/plain'')]"
proof -
  have "admitted_route (shop_admit cors_policies) = Some ''orders''" by code_simp
  from shop_admitted [OF this] obtain u r c s1 where
    a: "admit shop_ext shop_target mem_redis sample_config shop_request (shop_server cors_policies) = (Inr (u, r, c), s1)" .
  obtain resp w1 where f: "forwardRequest r (upstream_of shop_request u c) (sv_io s1) = (resp, w1)"
    by (cases "forwardRequest r (upstream_of shop_request u c) (sv_io s1)")
  obtain res c2 s2 where e: "executePhase shop_ext mem_redis sample_config ''post_response'' (with_response resp c) (sv_chains s1, w1) = (res, c2, s2)"
    by (cases "executePhase shop_ext mem_redis sample_config ''post_response'' (with_response resp c) (sv_chains s1, w1)")
  have "case fst (shop_admit cors_policies) of Inl _ \<Rightarrow> False | Inr (u, r, c) \<Rightarrow>
      (case forwardRequest r (upstream_of shop_request u c) (sv_io (snd (shop_admit cors_policies))) of (resp, w1) \<Rightarrow>
        us_headers resp = [(''content-type'', ''text/plain'')] \<and>
        (case executePhase shop_ext mem_redis sample_config ''post_response'' (with_response resp c)
             (sv_chains (snd (shop_admit cors_policies)), w1) of
           (Inl _, _) \<Rightarrow> False | (Inr _, c2, _) \<Rightarrow> c_responseHeaders c2 = us_headers resp))"
    by code_simp
  then have "us_headers resp = [(''content-type'', ''text/plain'')]" "\<exists>x. res = Inr x" "c_responseHeaders c2 = us_headers resp"
    by (auto simp: shop_admit_def a f e split: sum.splits)
  with pre_request_headers_lost [OF a f] e show ?thesis
    by (auto simp: with_response_def js_simps js_lower_def lower_char_def)
qed

text \<open>
  A response found in the cache is not served: the hit also aborts the context, the abort
  is looked at first, and the client gets the stored status with an empty error message as
  its body.
\<close>

theorem cached_body_lost:
  assumes "P (wr_target q) = Some u"
    and "matchRoute (tb_routes (sv_routes s)) (request_host q) (tu_pathname u) (wr_method q) = Some r"
    and "checkUpstream X A (rt_upstreamUrl r) (sv_ssrf s, snd (date_now (sv_io s))) = (v, sc, w1)" and "sc_ok v"
    and "executePhase X R A ''pre_request'' (request_ctx X q u r (io_clock w1 0)) (sv_chains s, snd (date_now w1)) =
           (Inr res, cache_hit X (encode_entry en) c0, s2)"
    and "ce_status en \<noteq> 204"
  shows "rp_status (fst (gateway_handler X P R A q s)) = ce_status en \<and>
    rp_body (fst (gateway_handler X P R A q s)) = Json [(''error'', JStr [])]"
proof -
  have a: "c_aborted (cache_hit X (encode_entry en) c0)" "c_abortCode (cache_hit X (encode_entry en) c0) = ce_status en"
      "c_abortMessage (cache_hit X (encode_entry en) c0) = []"
    by (simp_all add: cache_hit_encode)
  obtain now0 w0 where d0: "date_now (sv_io s) = (now0, w0)" by (cases "date_now (sv_io s)")
  obtain w2 where d1: "date_now w1 = (io_clock w1 0, w2)" by (simp add: date_now_def)
  obtain cc w3 where s2: "s2 = (cc, w3)" by (cases s2)
  have "fst (admit X P R A q s) = Inl (flushAbort (cache_hit X (encode_entry en) c0))"
    using assms a by (simp add: admit_def d0 d1 s2 Let_def)
  then show ?thesis
    using assms(6) a by (cases "admit X P R A q s") (simp add: gateway_handler_def flushAbort_def)
qed

definition hit_ext :: ext where
  "hit_ext = shop_ext\<lparr>x_json_parse := (\<lambda>_. Some (encode_entry \<lparr>ce_status = 200, ce_headers = [], ce_body = ''stored''\<rparr>))\<rparr>"

definition hit_server :: "mem server" where
  "hit_server = (shop_server [policy_json ''cache'' []])\<lparr>sv_io := shop_world\<lparr>
     io_data := [buildKey hit_ext (request_ctx hit_ext shop_request
        \<lparr>tu_pathname = ''/orders'', tu_search = ''?api_key=xca_1'', tu_params = [(''api_key'', ''xca_1'')]\<rparr> shop_route 5) []
        \<mapsto> (RStr ''entry'', None)]\<rparr>\<rparr>"

definition shop_url :: target_url where
  "shop_url = \<lparr>tu_pathname = ''/orders'', tu_search = ''?api_key=xca_1'', tu_params = [(''api_key'', ''xca_1'')]\<rparr>"

definition hit_check :: "ssrf_check \<times> ssrf_cache \<times> mem io" where
  "hit_check = checkUpstream hit_ext sample_config ''http://up.test'' ([], snd (date_now (sv_io hit_server)))"

definition hit_phase :: "(exn + exec_result) \<times> ctx \<times> chain_cache \<times> mem io" where
  "hit_phase = executePhase hit_ext mem_redis sample_config ''pre_request''
     (request_ctx hit_ext shop_request shop_url shop_route (io_clock (snd (snd hit_check)) 0))
     (sv_chains hit_server, snd (date_now (snd (snd hit_check))))"

lemma hit_phase_facts:
  "sc_ok (fst hit_check)" "case fst hit_phase of Inl _ \<Rightarrow> False | Inr _ \<Rightarrow> True"
  "fst (snd hit_phase) = cache_hit hit_ext (encode_entry \<lparr>ce_status = 200, ce_headers = [], ce_body = ''stored''\<rparr>)
     ((request_ctx hit_ext shop_request shop_url shop_route 5)\<lparr>c_phase := ''pre_request''\<rparr>)"
  by code_simp+

theorem cached_body_lost_witness:
  "rp_status (fst (gateway_handler hit_ext shop_target mem_redis sample_config shop_request hit_server)) = 200 \<and>
   rp_body (fst (gateway_handler hit_ext shop_target mem_redis sample_config shop_request hit_server)) = Json [(''error'', JStr [])]"
proof -
  have u: "shop_target (wr_target shop_request) = Some shop_url"
    by (simp add: shop_target_def shop_url_def)
  have m: "matchRoute (tb_routes (sv_routes hit_server)) (request_host shop_request) (tu_pathname shop_url) (wr_method shop_request)
      = Some shop_route"
    by code_simp
  obtain v sc w1 where c: "hit_check = (v, sc, w1)" by (cases hit_check)
  have ck: "checkUpstream hit_ext sample_config (rt_upstreamUrl shop_route) (sv_ssrf hit_server, snd (date_now (sv_io hit_server))) = (v, sc, w1)"
    using c by (simp add: hit_check_def shop_route_def hit_server_def shop_server_def)
  obtain r x s2 where p: "hit_phase = (r, x, s2)" by (cases hit_phase)
  from hit_phase_facts(2) obtain res where "fst hit_phase = Inr res" by (auto split: sum.splits)
  then have r: "r = Inr res" unfolding p fst_conv .
  have ok: "sc_ok v" using hit_phase_facts(1) unfolding c fst_conv .
  have e: "executePhase hit_ext mem_redis sample_config ''pre_request''
      (request_ctx hit_ext shop_request shop_url shop_route (io_clock w1 0)) (sv_chains hit_server, snd (date_now w1)) =
      (Inr res, cache_hit hit_ext (encode_entry \<lparr>ce_status = 200, ce_headers = [], ce_body = ''stored''\<rparr>)
         ((request_ctx hit_ext shop_request shop_url shop_route 5)\<lparr>c_phase := ''pre_request''\<rparr>), s2)"
    using p [unfolded hit_phase_def c snd_conv] hit_phase_facts(3) [unfolded p snd_conv fst_conv] r by (simp only:)
  show ?thesis
    using cached_body_lost [where P = shop_target, OF u m ck ok e] by simp
qed

end
