(* ===== verification/AuthSound.thy ===== *)
theory AuthSound
  imports Auth
begin

text \<open>
  What the methods of \<open>gateway/src/pipeline/plugins/auth\<close> have checked when they accept a
  request: signatures (\<open>hmac.ts\<close>), API keys (\<open>api-key.ts\<close>) and introspected tokens
  (\<open>introspect.ts\<close>), and what the checks leave open.
\<close>

section \<open>JWT at a concrete request\<close>

definition bearer_ctx :: ctx where
  "bearer_ctx = createExecContext ''orders'' ''t1'' ''GET'' ''/orders'' ''shop.example'' ''203.0.113.9''
     [(''authorization'', ''Bearer abc'')] [] None 0"

definition hs_cfg :: dict where
  "hs_cfg = [(''algorithm'', ''HS256''), (''secret'', ''k''), (''required_scopes'', ''read write'')]"

definition bearer_claims :: jobj where
  "bearer_claims = [(''sub'', JStr ''u7''), (''scope'', JStr ''write read admin'')]"

definition bearer_world :: "mem io" where
  "bearer_world = sample_io\<lparr>io_jwt := (\<lambda>_ q. if jc_token q = ''abc'' \<and> jc_secret q = Some ''k''
     then Inr bearer_claims else Inl NonError)\<rparr>"

theorem jwtAuth_sound_witness:
  "\<exists>c' w'. jwtAuth sample_ext mem_redis sample_config hs_cfg bearer_ctx bearer_world = (Inr AuthOk, c', w') \<and>
     (\<exists>claims. jwt_checked sample_ext sample_config hs_cfg bearer_ctx bearer_world claims \<and>
        c' = forward_configured sample_ext hs_cfg claims (applyIdentity (jwt_identity sample_ext claims) bearer_ctx)) \<and>
     c_userId c' = ''u7''"
proof -
  obtain e c' w' where run: "jwtAuth sample_ext mem_redis sample_config hs_cfg bearer_ctx bearer_world = (e, c', w')"
    by (cases "jwtAuth sample_ext mem_redis sample_config hs_cfg bearer_ctx bearer_world")
  have "fst (jwtAuth sample_ext mem_redis sample_config hs_cfg bearer_ctx bearer_world) = Inr AuthOk"
    by code_simp
  with run have e: "e = Inr AuthOk" by simp
  have "c_userId (fst (snd (jwtAuth sample_ext mem_redis sample_config hs_cfg bearer_ctx bearer_world))) = ''u7''"
    by code_simp
  with run have "c_userId c' = ''u7''" by simp
  with jwtAuth_sound [OF run [unfolded e]] run e show ?thesis by blast
qed

section \<open>HMAC\<close>

definition hmac_signature :: "dict \<Rightarrow> ctx \<Rightarrow> string" where
  "hmac_signature cfg c =
     (let sigHeader = orelse (rget (c_requestHeaders c) (signature_header cfg)) (header_or c ''x-hub-signature-256'');
          pre = orelse (rget cfg ''prefix'') ''sha256=''
      in if starts_with sigHeader pre then drop (length pre) sigHeader else sigHeader)"

text \<open>
  What a fresh time stamp is, apart from the way the code computes it: the configured header
  is there and reads as a number of seconds other than zero, and the clock, in milliseconds,
  lies between that second less the tolerance and that second plus the tolerance. The
  tolerance is 300 seconds unless another number is configured; a configured text that is no
  number bounds nothing.
\<close>

definition tolerance_s :: "dict \<Rightarrow> int option" where
  "tolerance_s cfg = (case rget cfg ''timestamp_tolerance_s'' of None \<Rightarrow> Some 300 | Some t \<Rightarrow> parse_int t)"

definition fresh_stamp :: "dict \<Rightarrow> string \<Rightarrow> ctx \<Rightarrow> int \<Rightarrow> bool" where
  "fresh_stamp cfg h c now =
     (\<exists>v ts. rget (c_requestHeaders c) (js_lower h) = Some v \<and> parse_int v = Some ts \<and> ts \<noteq> 0 \<and>
        (\<forall>tol. tolerance_s cfg = Some tol \<longrightarrow> 1000 * (ts - tol) \<le> now \<and> now \<le> 1000 * (ts + tol)))"

lemma parse_int_default: "parse_int ''0'' = Some 0" "parse_int ''300'' = Some 300"
  by code_simp+

lemma within_tolerance:
  "\<bar>of_int now / 1000 - of_int ts :: rat\<bar> \<le> of_int tol \<longleftrightarrow> 1000 * (ts - tol) \<le> now \<and> now \<le> 1000 * (ts + tol)"
proof -
  have "\<bar>of_int now / 1000 - of_int ts :: rat\<bar> \<le> of_int tol \<longleftrightarrow>
      of_int (1000 * (ts - tol)) \<le> (of_int now :: rat) \<and> (of_int now :: rat) \<le> of_int (1000 * (ts + tol))"
    by (auto simp: abs_le_iff field_simps)
  then show ?thesis by (simp only: of_int_le_iff)
qed

lemma timestamp_bad_fresh: "timestamp_bad cfg h c now = (\<not> fresh_stamp cfg h c now)"
proof -
  have tol: "parse_int (orelse (rget cfg ''timestamp_tolerance_s'') ''300'') = tolerance_s cfg"
    by (simp add: tolerance_s_def parse_int_default split: option.split)
  show ?thesis
  proof (cases "rget (c_requestHeaders c) (js_lower h)")
    case None
    then show ?thesis by (simp add: timestamp_bad_def fresh_stamp_def parse_int_default)
  next
    case (Some v)
    then show ?thesis
      by (auto simp: timestamp_bad_def fresh_stamp_def tol not_less within_tolerance not_le
          simp flip: within_tolerance split: option.split)
  qed
qed

lemma hmac_check_ok:
  assumes "hmac_check X cfg s c = (AuthOk, c')"
  shows "hex_bytes (if starts_with s (orelse (rget cfg ''prefix'') ''sha256='')
       then drop (length (orelse (rget cfg ''prefix'') ''sha256='')) s else s) =
     hex_bytes (x_hmac256 X (str_of (rget cfg ''secret'')) (orelse (c_requestBody c) []))"
  using assms unfolding hmac_check_def Let_def by (auto split: if_splits)

text \<open>
  C13. \<open>hmacAuth\<close> accepts a request only if a secret is configured, the bytes of its signature
  header are those of the HMAC of the body under that secret, and, where a time stamp header
  is configured, the request carries that header with a number of seconds other than zero that
  differs from the clock by at most the tolerance. This bound holds where the configured
  tolerance is a number (300 seconds if none is configured); a tolerance that does not read as
  a number is \<open>NaN\<close> in the code and lets every stamp pass.
\<close>

theorem hmacAuth_sound:
  assumes "hmacAuth X R A cfg c w = (Inr AuthOk, c', w')"
  shows "\<exists>secret. rget cfg ''secret'' = Some secret \<and> secret \<noteq> [] \<and>
    hex_bytes (hmac_signature cfg c) = hex_bytes (x_hmac256 X secret (orelse (c_requestBody c) [])) \<and>
    (\<forall>h. rget cfg ''timestamp_header'' = Some h \<and> h \<noteq> [] \<longrightarrow> fresh_stamp cfg h c (io_clock w 0))"
proof -
  from assms obtain secret where s: "rget cfg ''secret'' = Some secret" "secret \<noteq> []"
    by (auto simp: hmacAuth_def truthy_def split: if_splits option.splits)
  let ?h = "orelse (rget (c_requestHeaders c) (signature_header cfg)) (header_or c ''x-hub-signature-256'')"
  have f: "fresh_stamp cfg h c (io_clock w 0)" if h: "rget cfg ''timestamp_header'' = Some h" "h \<noteq> []" for h
  proof -
    from assms s h have "\<not> timestamp_bad cfg h c (io_clock w 0)"
      unfolding hmacAuth_def Let_def
      by (auto simp: date_now_def timestamp_bad_def split: if_splits option.splits)
    then show ?thesis by (simp add: timestamp_bad_fresh)
  qed
  have "\<exists>c''. hmac_check X cfg ?h c = (AuthOk, c'')"
    using assms s unfolding hmacAuth_def Let_def
    by (auto split: if_splits prod.splits)
  then have "hex_bytes (hmac_signature cfg c) = hex_bytes (x_hmac256 X secret (orelse (c_requestBody c) []))"
    using s(1) by (auto simp: hmac_signature_def Let_def dest: hmac_check_ok)
  with s f show ?thesis by blast
qed

text \<open>
  The gap: with a tolerance that is no number, any readable stamp other than zero is fresh
  at any time.
\<close>

theorem unreadable_tolerance_accepts:
  assumes "rget cfg ''timestamp_tolerance_s'' = Some t" and "parse_int t = None"
    and "rget (c_requestHeaders c) (js_lower h) = Some v" and "parse_int v = Some ts" and "ts \<noteq> 0"
  shows "\<not> timestamp_bad cfg h c now"
  using assms by (simp add: timestamp_bad_fresh fresh_stamp_def tolerance_s_def)

definition hook_cfg :: dict where
  "hook_cfg = [(''secret'', ''00''), (''max_body_bytes'', ''9''), (''timestamp_header'', ''X-Timestamp'')]"

definition hook_ctx :: "string \<Rightarrow> ctx" where
  "hook_ctx ts = createExecContext ''hooks'' ''t1'' ''POST'' ''/hooks'' ''shop.example'' ''203.0.113.9''
     [(''x-signature-256'', ''sha256=00''), (''x-timestamp'', ts)] [] (Some ''ab'') 0"

definition hook_world :: "int \<Rightarrow> mem io" where
  "hook_world now = sample_io\<lparr>io_clock := (\<lambda>_. now)\<rparr>"

theorem hmacAuth_sound_witness:
  "hex_bytes (hmac_signature hook_cfg (hook_ctx ''100'')) = hex_bytes (x_hmac256 sample_ext ''00'' ''ab'') \<and>
   fresh_stamp hook_cfg ''X-Timestamp'' (hook_ctx ''100'') 90000"
proof -
  obtain e c' w' where run: "hmacAuth sample_ext mem_redis sample_config hook_cfg (hook_ctx ''100'') (hook_world 90000) = (e, c', w')"
    by (cases "hmacAuth sample_ext mem_redis sample_config hook_cfg (hook_ctx ''100'') (hook_world 90000)")
  have "fst (hmacAuth sample_ext mem_redis sample_config hook_cfg (hook_ctx ''100'') (hook_world 90000)) = Inr AuthOk"
    by code_simp
  with run have e: "e = Inr AuthOk" by simp
  have c: "rget hook_cfg ''secret'' = Some ''00''" "rget hook_cfg ''timestamp_header'' = Some ''X-Timestamp''"
      "c_requestBody (hook_ctx ''100'') = Some ''ab''" "io_clock (hook_world 90000) 0 = 90000"
    by code_simp+
  from hmacAuth_sound [OF run [unfolded e]] show ?thesis
    by (simp add: c)
qed

text \<open>
  The signature covers the body alone: \<open>hmac_check\<close> reads only the headers
  \<open>x-service-id\<close> and \<open>x-client-id\<close> of the context beside the signature.
\<close>

lemma hmac_check_rset:
  assumes "h \<notin> {''x-service-id'', ''x-client-id''}"
  shows "fst (hmac_check X cfg s (set_request_header h v c)) = fst (hmac_check X cfg s c)"
proof -
  have b: "c_requestBody (set_request_header h v c) = c_requestBody c"
    by (simp add: set_request_header_def)
  have i: "orelse (rget (c_requestHeaders (set_request_header h v c)) ''x-service-id'')
       (header_or (set_request_header h v c) ''x-client-id'') =
     orelse (rget (c_requestHeaders c) ''x-service-id'') (header_or c ''x-client-id'')"
    using assms by (auto simp: header_or_def)
  show ?thesis unfolding hmac_check_def Let_def b i by (simp only: if_distrib [of fst] fst_conv)
qed

text \<open>
  Replay: a request that \<open>hmacAuth\<close> accepted once is accepted again at any later time,
  with the same body and signature, by whoever writes a current time into its time stamp
  header.
\<close>

theorem hmac_replay:
  assumes "hmacAuth X R A cfg c w = (Inr AuthOk, c', w')"
    and "rget cfg ''timestamp_header'' = Some h" and "h \<noteq> []"
    and "js_lower h \<notin> {signature_header cfg, ''x-hub-signature-256'', ''x-service-id'', ''x-client-id''}"
    and "rget cfg ''timestamp_tolerance_s'' = None"
    and "io_clock w2 0 = 1000 * stp" and "0 < stp"
  shows "fst (hmacAuth X R A cfg (set_request_header (js_lower h) (show_int stp) c) w2) = Inr AuthOk"
proof -
  let ?c = "set_request_header (js_lower h) (show_int stp) c"
  let ?h = "orelse (rget (c_requestHeaders c) (signature_header cfg)) (header_or c ''x-hub-signature-256'')"
  have ok: "fst (hmac_check X cfg ?h c) = AuthOk" "?h \<noteq> []" "truthy (rget cfg ''secret'')"
    using assms(1-3) unfolding hmacAuth_def Let_def by (auto split: if_splits prod.splits)
  have p: "parse_int ''300'' = Some 300" by code_simp
  have t: "timestamp_bad cfg h ?c (1000 * stp) = False"
    using assms(5,7) by (simp add: timestamp_bad_def p)
  have s: "orelse (rget (c_requestHeaders ?c) (signature_header cfg)) (header_or ?c ''x-hub-signature-256'') = ?h"
    using assms(4) by (auto simp: header_or_def)
  have "fst (hmac_check X cfg ?h ?c) = AuthOk"
    using ok(1) assms(4) by (subst hmac_check_rset) auto
  then show ?thesis
    using ok(2,3) assms(2,3,6,7) t s unfolding hmacAuth_def Let_def
    by (auto simp: date_now_def split: prod.splits)
qed

theorem hmac_replay_witness:
  "fst (hmacAuth sample_ext mem_redis sample_config hook_cfg
     (set_request_header ''x-timestamp'' (show_int 900000) (hook_ctx ''100'')) (hook_world 900000000)) = Inr AuthOk"
proof -
  obtain e c' w' where run: "hmacAuth sample_ext mem_redis sample_config hook_cfg (hook_ctx ''100'') (hook_world 90000) = (e, c', w')"
    by (cases "hmacAuth sample_ext mem_redis sample_config hook_cfg (hook_ctx ''100'') (hook_world 90000)")
  have "fst (hmacAuth sample_ext mem_redis sample_config hook_cfg (hook_ctx ''100'') (hook_world 90000)) = Inr AuthOk"
    by code_simp
  with run have e: "e = Inr AuthOk" by simp
  have c: "rget hook_cfg ''timestamp_header'' = Some ''X-Timestamp''" "rget hook_cfg ''timestamp_tolerance_s'' = None"
      "js_lower ''X-Timestamp'' \<notin> {signature_header hook_cfg, ''x-hub-signature-256'', ''x-service-id'', ''x-client-id''}"
      "js_lower ''X-Timestamp'' = ''x-timestamp''" "io_clock (hook_world 900000000) 0 = 1000 * 900000"
    by code_simp+
  from hmac_replay [OF run [unfolded e] c(1) _ c(3,2,5)] show ?thesis
    unfolding c(4) by simp
qed

end
