(* ===== verification/AuthKeys.thy ===== *)
theory AuthKeys
  imports AuthSound
begin

text \<open>
  What an accepted API key (\<open>api-key.ts\<close>) and an accepted opaque token (\<open>introspect.ts\<close>)
  rest on, and how the answers kept in Redis are used.
\<close>

section \<open>API keys\<close>

definition key_read :: "ext \<Rightarrow> 'd redis \<Rightarrow> string \<Rightarrow> 'd io \<Rightarrow> (exn + dict) \<times> 'd io" where
  "key_read X R rawKey = redis_read (\<lambda>t d. r_hgetall R t d (apikey_cache_key X rawKey))"

text \<open>The subscription service was asked for this key, answered 2xx, and the body was read.\<close>

definition service_vouches :: "ext \<Rightarrow> config \<Rightarrow> string \<Rightarrow> 'd io \<Rightarrow> jobj \<Rightarrow> bool" where
  "service_vouches X A rawKey w body =
     (case internalHeaders X A of
        Inl _ \<Rightarrow> False
      | Inr h \<Rightarrow> (case fst (internalFetch X A (post_json X (verify_url A) h [(''key'', JStr rawKey)]) w) of
                    Inl _ \<Rightarrow> False
                  | Inr resp \<Rightarrow> resp_ok resp \<and>
                      (case resp_json X resp of Inl _ \<Rightarrow> False | Inr j \<Rightarrow> j \<noteq> JNull \<and> json_obj j = body)))"

lemma service_down_ok: "fst (service_down cfg r c w) = Inr AuthOk \<longleftrightarrow> rget cfg ''fail_open'' = Some ''true''"
  by (simp add: service_down_def)

lemma apikey_verify_ok:
  assumes "apikey_verify rawKey X R A cfg c w = (Inr AuthOk, c', w')"
  shows "rget cfg ''fail_open'' = Some ''true'' \<or>
    (\<exists>body. service_vouches X A rawKey w body \<and> c' = key_identity X body c)"
  using assms
  by (auto simp: apikey_verify_def service_vouches_def service_down_def
      split: sum.splits prod.splits if_splits json.splits)

text \<open>
  C14. \<open>apiKeyAuth\<close> accepts a request only if it carries a key with the platform's prefix and
  either Redis holds an entry for the hash of that key whose status is active, or the
  subscription service, asked for that key, answered with success, or failing open is
  configured.
\<close>

theorem apiKeyAuth_sound:
  assumes "apiKeyAuth X R A cfg c w = (Inr AuthOk, c', w')" and "key_location cfg c = (rawKey, c1)"
  shows "starts_with rawKey KEY_PREFIX \<and>
    (rget cfg ''fail_open'' = Some ''true'' \<or>
     (\<exists>info. fst (key_read X R rawKey w) = Inr info \<and> rget info ''status'' = Some ''active'' \<and>
        c' = injectFromCache info c1) \<or>
     (\<exists>body. service_vouches X A rawKey (snd (key_read X R rawKey w)) body \<and> c' = key_identity X body c1))"
proof -
  obtain r w1 where k: "key_read X R rawKey w = (r, w1)" by (cases "key_read X R rawKey w")
  show ?thesis
  proof (cases "\<exists>info. r = Inr info \<and> info \<noteq> []")
    case True
    with assms k show ?thesis by (auto simp: apiKeyAuth_def key_read_def split: if_splits)
  next
    case False
    with assms k have "starts_with rawKey KEY_PREFIX" "apikey_verify rawKey X R A cfg c1 w1 = (Inr AuthOk, c', w')"
      by (auto simp: apiKeyAuth_def key_read_def split: if_splits sum.splits)
    with apikey_verify_ok [OF this(2)] k show ?thesis by auto
  qed
qed

text \<open>A key of the API \<open>billing\<close>, sent to the API \<open>orders\<close>.\<close>

definition key_ctx :: ctx where
  "key_ctx = createExecContext ''orders'' ''t1'' ''GET'' ''/orders'' ''shop.example'' ''203.0.113.9''
     [(''x-api-key'', ''xca_1''), (''x-user-id'', ''root'')] [] None 0"

definition key_info :: dict where
  "key_info = [(''status'', ''active''), (''key_id'', ''k1''), (''api_id'', ''billing'')]"

definition key_world :: "mem io" where
  "key_world = sample_io\<lparr>io_data := [''apikey:info:sha256:xca_1'' \<mapsto> (RHash key_info, None)]\<rparr>"

lemma key_world_accepts: "fst (apiKeyAuth sample_ext mem_redis sample_config [] key_ctx key_world) = Inr AuthOk"
  by code_simp

lemma key_ctx_location: "key_location [] key_ctx = (''xca_1'', key_ctx)"
  by code_simp

theorem apiKeyAuth_sound_witness:
  "\<exists>info. fst (key_read sample_ext mem_redis ''xca_1'' key_world) = Inr info \<and> rget info ''status'' = Some ''active''"
proof -
  obtain e c' w' where run: "apiKeyAuth sample_ext mem_redis sample_config [] key_ctx key_world = (e, c', w')"
    by (cases "apiKeyAuth sample_ext mem_redis sample_config [] key_ctx key_world")
  with key_world_accepts have e: "e = Inr AuthOk" by simp
  have down: "fst (internalFetch sample_ext sample_config q (snd (key_read sample_ext mem_redis ''xca_1'' key_world))) \<noteq> Inr resp"
    for q resp
    by (simp add: internalFetch_def sample_config_def http_fetch_def key_read_def redis_read_def redis_call_def
        key_world_def sample_io_def Let_def)
  then have "\<not> service_vouches sample_ext sample_config ''xca_1'' (snd (key_read sample_ext mem_redis ''xca_1'' key_world)) body" for body
    by (auto simp: service_vouches_def split: sum.splits)
  with apiKeyAuth_sound [OF run [unfolded e] key_ctx_location] show ?thesis by auto
qed

text \<open>
  The check does not compare the API of the key with the API of the route: whenever Redis
  holds an active entry for the key, the request is accepted, and from there on the context
  names the API of the entry, whatever route was matched.
\<close>

theorem apiKey_accepted_for_any_api:
  assumes "redis_server R obj" and "quiet w" and "key_location cfg c = (rawKey, c1)"
    and "starts_with rawKey KEY_PREFIX"
    and "obj (io_rtime w 0) (io_data w) (apikey_cache_key X rawKey) = Some (RHash info)"
    and "rget info ''status'' = Some ''active''" and "rget info ''api_id'' = Some a" and "a \<noteq> []"
  shows "fst (apiKeyAuth X R A cfg (c\<lparr>c_apiId := route_api\<rparr>) w) = Inr AuthOk \<and>
    c_apiId (fst (snd (apiKeyAuth X R A cfg (c\<lparr>c_apiId := route_api\<rparr>) w))) = a"
proof -
  have f: "find_key ls h q (c\<lparr>c_apiId := route_api\<rparr>) =
      (fst (find_key ls h q c), (snd (find_key ls h q c))\<lparr>c_apiId := route_api\<rparr>)" for ls h q
    by (induction ls) (simp_all add: header_key_def header_or_def Let_def)
  then have k: "key_location cfg (c\<lparr>c_apiId := route_api\<rparr>) = (rawKey, c1\<lparr>c_apiId := route_api\<rparr>)"
    using assms(3) by (simp add: key_location_def)
  have h: "r_hgetall R (io_rtime w 0) (io_data w) (apikey_cache_key X rawKey) = info"
    by (rule redis_server.hgetall [OF assms(1)]) (simp add: assms(5))
  have "info \<noteq> []" "rawKey \<noteq> []" using assms(4,6) by (auto simp: starts_with_def KEY_PREFIX_def)
  with assms(2,4,6-8) k h show ?thesis
    by (simp add: apiKeyAuth_def redis_read_def redis_call_quiet injectFromCache_def Let_def)
qed

theorem apiKey_accepted_for_any_api_witness:
  "c_apiId (fst (snd (apiKeyAuth sample_ext mem_redis sample_config [] (key_ctx\<lparr>c_apiId := ''orders''\<rparr>) key_world))) = ''billing''"
proof -
  have q: "quiet key_world" by (simp add: key_world_def sample_io_def quiet_def)
  have o: "mem_obj (io_rtime key_world 0) (io_data key_world) (apikey_cache_key sample_ext ''xca_1'') = Some (RHash key_info)"
    by (simp add: key_world_def sample_io_def apikey_cache_key_def sample_ext_def mem_obj_def)
  have i: "rget key_info ''status'' = Some ''active''" "rget key_info ''api_id'' = Some ''billing''"
      "starts_with ''xca_1'' KEY_PREFIX"
    by code_simp+
  show ?thesis
    using apiKey_accepted_for_any_api [where obj = mem_obj and X = sample_ext and info = key_info and A = sample_config,
      OF mem.redis_server_axioms q key_ctx_location i(3) o i(1,2)]
    by simp
qed

section \<open>Introspection\<close>

definition token_read :: "ext \<Rightarrow> 'd redis \<Rightarrow> string \<Rightarrow> 'd io \<Rightarrow> (exn + string option) \<times> 'd io" where
  "token_read X R token = redis_read (\<lambda>t d. r_get R t d (token_cache_key X token))"

text \<open>Where an active answer came from: the cached entry of this token, or the endpoint.\<close>

definition active_cached :: "ext \<Rightarrow> 'd redis \<Rightarrow> string \<Rightarrow> 'd io \<Rightarrow> jobj \<Rightarrow> bool" where
  "active_cached X R token w info =
     (\<exists>v j. fst (token_read X R token w) = Inr (Some v) \<and> x_json_parse X v = Some j \<and> json_obj j = info \<and> is_active info)"

definition active_answer :: "ext \<Rightarrow> 'd redis \<Rightarrow> config \<Rightarrow> dict \<Rightarrow> string \<Rightarrow> 'd io \<Rightarrow> jobj \<Rightarrow> bool" where
  "active_answer X R A cfg token w info =
     (\<exists>resp j. fst (internalFetch X A (introspect_request X A cfg token) (snd (token_read X R token w))) = Inr resp \<and>
        resp_ok resp \<and> resp_json X resp = Inr j \<and> json_obj j = info \<and> is_active info)"

lemma introspect_remote_ok:
  assumes "introspect_remote token X R A cfg c w = (Inr AuthOk, c', w')"
  shows "rget cfg ''fail_open'' = Some ''true'' \<or>
    (\<exists>info resp j. fst (internalFetch X A (introspect_request X A cfg token) w) = Inr resp \<and>
        resp_ok resp \<and> resp_json X resp = Inr j \<and> json_obj j = info \<and> is_active info \<and>
        applyIntrospectResult X cfg info c = (AuthOk, c'))"
  using assms
  by (fastforce simp: introspect_remote_def service_down_def
      split: sum.splits prod.splits if_splits json.splits)

lemma applyIntrospectResult_ok:
  assumes "applyIntrospectResult X cfg info c = (AuthOk, c')"
  shows "c' = forward_configured X cfg info (applyIdentity (introspect_identity info) c) \<and>
    (\<forall>s \<in> set (nonempty (split_ws (str_of (rget cfg ''required_scopes'')))). s \<in> set (extractScopes info))"
  using assms missing_scope_None [of "str_of (rget cfg ''required_scopes'')" "extractScopes info"]
  by (cases "rget cfg ''required_scopes''") (auto simp: applyIntrospectResult_def split: option.splits)

text \<open>
  Unless failing open is configured, \<open>tokenIntrospect\<close> accepts a request only with a
  bearer token for which the cached entry or the endpoint said active, whose scopes contain
  every required scope, and the identity in the context is that of this answer.
\<close>

theorem tokenIntrospect_sound:
  assumes "tokenIntrospect X R A cfg c w = (Inr AuthOk, c', w')" and "rget cfg ''fail_open'' \<noteq> Some ''true''"
  shows "\<exists>token info. bearer_token c = Some token \<and>
    (active_cached X R token w info \<or> active_answer X R A cfg token w info) \<and>
    (\<forall>s \<in> set (nonempty (split_ws (str_of (rget cfg ''required_scopes'')))). s \<in> set (extractScopes info)) \<and>
    c' = forward_configured X cfg info (applyIdentity (introspect_identity info) c)"
proof -
  obtain token where t: "bearer_token c = Some token"
    using assms(1) by (auto simp: tokenIntrospect_def split: option.splits)
  obtain r w1 where k: "token_read X R token w = (r, w1)" by (cases "token_read X R token w")
  have "introspect_remote token X R A cfg c w1 = (Inr AuthOk, c', w') \<or>
      (\<exists>v j. r = Inr (Some v) \<and> x_json_parse X v = Some j \<and> is_active (json_obj j) \<and>
         applyIntrospectResult X cfg (json_obj j) c = (AuthOk, c'))"
    using assms(1) t k unfolding tokenIntrospect_def token_read_def
    by (auto simp: truthy_def split: sum.splits if_splits option.splits json.splits prod.splits)
  then show ?thesis
  proof
    assume "introspect_remote token X R A cfg c w1 = (Inr AuthOk, c', w')"
    from introspect_remote_ok [OF this] assms(2) obtain info where
      "active_answer X R A cfg token w info" "applyIntrospectResult X cfg info c = (AuthOk, c')"
      by (auto simp: active_answer_def k)
    with t applyIntrospectResult_ok [OF this(2)] show ?thesis by blast
  next
    assume "\<exists>v j. r = Inr (Some v) \<and> x_json_parse X v = Some j \<and> is_active (json_obj j) \<and>
         applyIntrospectResult X cfg (json_obj j) c = (AuthOk, c')"
    then obtain j where "active_cached X R token w (json_obj j)" "applyIntrospectResult X cfg (json_obj j) c = (AuthOk, c')"
      by (auto simp: active_cached_def k)
    with t applyIntrospectResult_ok [OF this(2)] show ?thesis by blast
  qed
qed

definition token_info :: jobj where
  "token_info = [(''active'', JBool True), (''sub'', JStr ''u7''), (''scope'', JStr ''read'')]"

definition token_ext :: ext where
  "token_ext = sample_ext\<lparr>x_json_parse := (\<lambda>_. Some (JObj token_info)), x_json_str := (\<lambda>_. ''answer'')\<rparr>"

definition token_world :: "mem io" where
  "token_world = sample_io\<lparr>io_net := (\<lambda>_ _. Inr \<lparr>rs_status = 200, rs_headers = [], rs_body = ''answer''\<rparr>)\<rparr>"

theorem tokenIntrospect_sound_witness:
  "\<exists>token info. bearer_token bearer_ctx = Some token \<and> is_active info"
proof -
  obtain e c' w' where run: "tokenIntrospect token_ext mem_redis sample_config [] bearer_ctx token_world = (e, c', w')"
    by (cases "tokenIntrospect token_ext mem_redis sample_config [] bearer_ctx token_world")
  have "fst (tokenIntrospect token_ext mem_redis sample_config [] bearer_ctx token_world) = Inr AuthOk"
    by code_simp
  with run have e: "e = Inr AuthOk" by simp
  from tokenIntrospect_sound [OF run [unfolded e]] show ?thesis
    by (auto simp: active_cached_def active_answer_def)
qed

text \<open>
  An answer is remembered: once the endpoint has said that a token is active, every
  request with that token is decided from the stored answer, without asking again, until the
  cache time is over; a token revoked meanwhile stays accepted.
\<close>

theorem introspection_remembered:
  assumes "redis_server R obj" and "quiet w" and "quiet w2"
    and "internalFetch X A (introspect_request X A cfg token) w = (Inr resp, w1)" and "resp_ok resp"
    and "resp_json X resp = Inr (JObj info)" and "is_active info" and "0 < cache_seconds cfg"
    and "x_json_str X (JObj info) \<noteq> []" and "x_json_parse X (x_json_str X (JObj info)) = Some (JObj info)"
    and "io_data w2 = io_data (snd (snd (introspect_remote token X R A cfg c w)))"
    and "io_rtime w 0 \<le> io_rtime w2 0" and "io_rtime w2 0 < io_rtime w 0 + 1000 * cache_seconds cfg"
    and "bearer_token c2 = Some token"
  shows "fst (tokenIntrospect X R A cfg c2 w2) = Inr (fst (applyIntrospectResult X cfg info c2)) \<and>
    io_sent (snd (snd (tokenIntrospect X R A cfg c2 w2))) = io_sent w2"
proof -
  let ?v = "x_json_str X (JObj info)"
  have w1: "w1 = snd (internalFetch X A (introspect_request X A cfg token) w)" using assms(4) by simp
  have q1: "quiet w1" "io_rtime w1 = io_rtime w" "io_data w1 = io_data w"
    using assms(2) by (simp_all add: w1 quiet_def internalFetch_frame)
  have "snd (snd (introspect_remote token X R A cfg c w)) =
      set_quietly R (token_cache_key X token) ?v (cache_seconds cfg) w1"
    using assms(4-7) by (simp add: introspect_remote_def Let_def split_beta)
  then have d: "io_data w2 = r_setex R (io_rtime w 0) (token_cache_key X token) ?v (cache_seconds cfg) (io_data w)"
    using assms(8,11) q1 by (simp add: set_quietly_def redis_write_def redis_call_quiet)
  have "r_get R (io_rtime w2 0) (io_data w2) (token_cache_key X token) = Some ?v"
    unfolding d by (rule redis_server.get_setex [OF assms(1,12,13,8)])
  then show ?thesis
    using assms(3,7,9,10,14)
    by (simp add: tokenIntrospect_def redis_read_def redis_call_quiet Let_def split_beta)
qed

theorem introspection_remembered_witness:
  "fst (tokenIntrospect token_ext mem_redis sample_config [] bearer_ctx
     (sample_io\<lparr>io_rtime := (\<lambda>_. 59000),
        io_data := io_data (snd (snd (introspect_remote ''abc'' token_ext mem_redis sample_config [] bearer_ctx token_world)))\<rparr>))
   = Inr AuthOk"
proof -
  let ?w2 = "sample_io\<lparr>io_rtime := (\<lambda>_. 59000),
        io_data := io_data (snd (snd (introspect_remote ''abc'' token_ext mem_redis sample_config [] bearer_ctx token_world)))\<rparr>"
  have q: "quiet token_world" "quiet ?w2" by (simp_all add: quiet_def token_world_def sample_io_def)
  define resp where "resp = \<lparr>rs_status = 200, rs_headers = [], rs_body = ''answer''\<rparr>"
  have f: "internalFetch token_ext sample_config (introspect_request token_ext sample_config [] ''abc'') token_world =
      (Inr resp, snd (internalFetch token_ext sample_config (introspect_request token_ext sample_config [] ''abc'') token_world))"
    by (simp add: internalFetch_def sample_config_def http_fetch_def token_world_def resp_def)
  have r: "resp_ok resp" "resp_json token_ext resp = Inr (JObj token_info)"
    by (simp_all add: resp_ok_def resp_def resp_json_def token_ext_def)
  have c: "is_active token_info" "0 < cache_seconds []" "cache_seconds [] = 60"
      "bearer_token bearer_ctx = Some ''abc''"
      "fst (applyIntrospectResult token_ext [] token_info bearer_ctx) = AuthOk"
    by code_simp+
  have j: "x_json_str token_ext (JObj token_info) \<noteq> []"
      "x_json_parse token_ext (x_json_str token_ext (JObj token_info)) = Some (JObj token_info)"
    by (simp_all add: token_ext_def)
  have t: "io_rtime token_world 0 \<le> io_rtime ?w2 0"
      "io_rtime ?w2 0 < io_rtime token_world 0 + 1000 * cache_seconds []"
    by (simp_all add: token_world_def sample_io_def c)
  have d: "io_data ?w2 = io_data (snd (snd (introspect_remote ''abc'' token_ext mem_redis sample_config [] bearer_ctx token_world)))"
    by simp
  from introspection_remembered [OF mem.redis_server_axioms q f r c(1,2) j d t c(4)]
  show ?thesis unfolding c(5) by simp
qed

end
