(* ===== verification/LegacyPlugins.thy ===== *)
theory LegacyPlugins
  imports AuthKeys
begin

text \<open>
  The three plugins of the first version that are still in the tree and no longer in the
  executor's registry: \<open>transform.ts\<close>, \<open>jwt-auth.ts\<close> and \<open>api-key-auth.ts\<close> of
  \<open>gateway/src/pipeline/plugins\<close>. The regular expressions of a URL rewrite belong to the
  platform: \<open>RX pattern path replacement\<close> is the rewritten path, or \<open>None\<close> where the
  pattern is malformed.
\<close>

section \<open>Transformations\<close>

definition parseKVPairs :: "string \<Rightarrow> (string \<times> string) list" where
  "parseKVPairs s =
     List.map_filter (\<lambda>entry. map_option (\<lambda>i. (js_trim (take i entry), js_trim (drop (i + 1) entry)))
       (index_of (CHR '':'') entry)) (split_trim (CHR '','') s)"

definition pairs_of :: "dict \<Rightarrow> string \<Rightarrow> (string \<times> string) list" where
  "pairs_of cfg k = (if truthy (rget cfg k) then parseKVPairs (str_of (rget cfg k)) else [])"

definition names_of :: "dict \<Rightarrow> string \<Rightarrow> string list" where
  "names_of cfg k = (if truthy (rget cfg k) then split_trim (CHR '','') (str_of (rget cfg k)) else [])"

definition add_missing :: "string \<times> string \<Rightarrow> dict \<Rightarrow> dict" where
  "add_missing kv h = (if truthy (rget h (js_lower (fst kv))) then h else rset (js_lower (fst kv)) (snd kv) h)"

definition set_lower :: "string \<times> string \<Rightarrow> dict \<Rightarrow> dict" where
  "set_lower kv h = rset (js_lower (fst kv)) (snd kv) h"

definition url_rewrite :: "(string \<Rightarrow> string \<Rightarrow> string \<Rightarrow> string option) \<Rightarrow> dict \<Rightarrow> string \<Rightarrow> string" where
  "url_rewrite RX cfg pth =
     (case index_of (CHR '':'') (str_of (rget cfg ''url_rewrite'')) of
        Some (Suc i) \<Rightarrow>
          orelse (RX (take (Suc i) (str_of (rget cfg ''url_rewrite''))) pth
                     (drop (Suc (Suc i)) (str_of (rget cfg ''url_rewrite'')))) pth
      | _ \<Rightarrow> pth)"

definition requestTransform :: "(string \<Rightarrow> string \<Rightarrow> string \<Rightarrow> string option) \<Rightarrow> dict \<Rightarrow> ctx \<Rightarrow> ctx" where
  "requestTransform RX cfg c =
     (let h1 = fold add_missing (pairs_of cfg ''add_headers'') (c_requestHeaders c);
          h2 = fold set_lower (pairs_of cfg ''set_headers'') h1;
          h3 = fold (\<lambda>k h. rdel k (rdel (js_lower k) h)) (names_of cfg ''remove_headers'') h2;
          h4 = (if rget cfg ''inject_trace'' = Some ''true'' \<and> c_traceId c \<noteq> []
                then rset ''x-request-id'' (c_traceId c) (rset ''x-trace-id'' (c_traceId c) h3) else h3)
      in c\<lparr>c_requestHeaders := h4, c_path := url_rewrite RX cfg (c_path c)\<rparr>)"

text \<open>
  \<open>maskField\<close>: along the path only objects and arrays are entered; the last name is replaced
  if it is there. Assigning a text to the length of an array throws, which is \<open>None\<close>.
\<close>

definition element_index :: "string \<Rightarrow> 'a list \<Rightarrow> nat option" where
  "element_index k vs =
     (if k \<noteq> [] \<and> list_all is_digit k \<and> show_nat (digits_val k) = k \<and> digits_val k < length vs
      then Some (digits_val k) else None)"

fun maskField :: "string list \<Rightarrow> json \<Rightarrow> json option" where
  "maskField [] j = Some j"
| "maskField [k] (JObj fs) = Some (JObj (if rget fs k = None then fs else rset k (JStr ''***'') fs))"
| "maskField [k] (JArr vs) =
     (case element_index k vs of
        Some i \<Rightarrow> Some (JArr (vs[i := JStr ''***'']))
      | None \<Rightarrow> (if k = ''length'' then None else Some (JArr vs)))"
| "maskField (k # k' # ks) (JObj fs) =
     (case rget fs k of
        None \<Rightarrow> Some (JObj fs)
      | Some v \<Rightarrow> map_option (\<lambda>v'. JObj (rset k v' fs)) (maskField (k' # ks) v))"
| "maskField (k # k' # ks) (JArr vs) =
     (case element_index k vs of
        None \<Rightarrow> Some (JArr vs)
      | Some i \<Rightarrow> map_option (\<lambda>v'. JArr (vs[i := v'])) (maskField (k' # ks) (vs ! i)))"
| "maskField (k # ks) j = Some j"

fun mask_all :: "string list \<Rightarrow> json \<Rightarrow> json option" where
  "mask_all [] j = Some j"
| "mask_all (name # names) j = Option.bind (maskField (split_on (CHR ''.'') name) j) (mask_all names)"

definition masked_body :: "ext \<Rightarrow> dict \<Rightarrow> string \<Rightarrow> string option" where
  "masked_body X cfg body =
     map_option (x_json_str X) (Option.bind (x_json_parse X body) (mask_all (names_of cfg ''mask_fields'')))"

definition responseTransform :: "ext \<Rightarrow> dict \<Rightarrow> ctx \<Rightarrow> ctx" where
  "responseTransform X cfg c =
     (let h1 = fold set_lower (pairs_of cfg ''add_headers'') (c_responseHeaders c);
          h2 = fold (\<lambda>k. rdel (js_lower k)) (names_of cfg ''remove_headers'') h1;
          h3 = rdel ''x-powered-by'' (rdel ''server'' h2);
          b = (if truthy (rget cfg ''mask_fields'') \<and> c_responseBody c \<noteq> None
               then orelse_opt (masked_body X cfg (str_of (c_responseBody c))) (c_responseBody c)
               else c_responseBody c)
      in c\<lparr>c_responseHeaders := h3, c_responseBody := b\<rparr>)"

section \<open>Authentication\<close>

text \<open>Here the scopes of a token are not filtered, and the reasons become responses.\<close>

definition legacy_extractScopes :: "jobj \<Rightarrow> string list" where
  "legacy_extractScopes payload =
     (case orelse_opt (jget payload ''scopes'') (jget payload ''scope'') of
        Some (JArr vs) \<Rightarrow> List.map_filter json_string vs
      | Some (JStr s) \<Rightarrow> split_ws s
      | _ \<Rightarrow> [])"

definition legacy_missing_scope :: "string option \<Rightarrow> jobj \<Rightarrow> string option" where
  "legacy_missing_scope required payload =
     (if truthy required then find (\<lambda>s. s \<notin> set (legacy_extractScopes payload)) (split_ws (str_of required)) else None)"

definition legacy_identity :: "jobj \<Rightarrow> ctx \<Rightarrow> ctx" where
  "legacy_identity payload c =
     (let c1 = c\<lparr>c_claims := fold (\<lambda>(k, v). rset k v) payload (c_claims c)\<rparr>;
          c2 = (case sfield payload ''client_id'' of
                  None \<Rightarrow> c1 | Some s \<Rightarrow> set_request_header ''x-client-id'' s (c1\<lparr>c_clientId := s\<rparr>));
          c3 = (case sfield payload ''sub'' of None \<Rightarrow> c2 | Some s \<Rightarrow> set_request_header ''x-user-id'' s c2)
      in case sfield payload ''plan'' of None \<Rightarrow> c3 | Some s \<Rightarrow> c3\<lparr>c_plan := s\<rparr>)"

definition legacy_jwtAuth :: "ext \<Rightarrow> config \<Rightarrow> dict \<Rightarrow> ctx \<Rightarrow> 'd io \<Rightarrow> ctx \<times> 'd io" where
  "legacy_jwtAuth X A cfg c w =
     (let authHeader = orelse (orelse_opt (rget (c_requestHeaders c) ''authorization'')
                                 (rget (c_requestHeaders c) ''Authorization'')) []
      in if \<not> starts_with (js_lower authHeader) ''bearer ''
         then (abort c 401 ''missing or invalid Authorization header'', w)
         else if x_url X (cfg_JWKS_URL A) = None then (abort c 401 ''JWT verification failed: Invalid URL'', w)
         else (case jwt_verify \<lparr>jc_token = js_trim (drop 7 authHeader), jc_secret = None,
                      jc_jwks_url = Some (cfg_JWKS_URL A), jc_algorithm = ''RS256'',
                      jc_issuer = nonempty_opt (rget cfg ''issuer''),
                      jc_audience = nonempty_opt (rget cfg ''audience'')\<rparr> w of
                 (Inl (JsError _ msg), w1) \<Rightarrow> (abort c 401 (''JWT verification failed: '' @ msg), w1)
               | (Inl NonError, w1) \<Rightarrow> (abort c 401 ''JWT verification failed: invalid token'', w1)
               | (Inr payload, w1) \<Rightarrow>
                   (case legacy_missing_scope (rget cfg ''required_scopes'') payload of
                      Some s \<Rightarrow> (abort c 403 (''insufficient scope: '' @ s), w1)
                    | None \<Rightarrow> (legacy_identity payload c, w1))))"

definition legacy_raw_key :: "ctx \<Rightarrow> string" where
  "legacy_raw_key c =
     (let k = orelse (orelse_opt (rget (c_requestHeaders c) ''x-api-key'') (rget (c_requestHeaders c) ''X-API-Key'')) []
      in if k \<noteq> [] then k
         else (let auth = header_or c ''authorization''
               in if starts_with (js_lower auth) ''apikey '' then js_trim (drop 7 auth) else []))"

definition applyKeyInfo :: "dict \<Rightarrow> ctx \<Rightarrow> ctx" where
  "applyKeyInfo info c =
     set_request_header ''x-client-id'' (orelse (rget info ''key_id'') [])
       (c\<lparr>c_clientId := orelse (rget info ''key_id'') [], c_apiId := orelse (rget info ''api_id'') (c_apiId c),
          c_plan := orelse (rget info ''plan_name'') []\<rparr>)"

definition legacy_service_down :: "dict \<Rightarrow> ctx \<Rightarrow> ctx" where
  "legacy_service_down cfg c =
     (if rget cfg ''fail_open'' = Some ''true'' then c else abort c 503 ''auth service unavailable'')"

definition legacy_key_identity :: "ext \<Rightarrow> jobj \<Rightarrow> ctx \<Rightarrow> ctx" where
  "legacy_key_identity X info c =
     (let c1 = c\<lparr>c_clientId := jstring X info ''key_id'' [], c_apiId := jstring X info ''api_id'' (c_apiId c),
                 c_plan := jstring X info ''plan'' []\<rparr>;
          c2 = set_request_header ''x-client-id'' (c_clientId c1) c1;
          c3 = set_request_header ''x-subscription-id'' (jstring X info ''subscription_id'' []) c2
      in set_request_header ''x-org-id'' (jstring X info ''organization_id'' []) c3)"

definition legacy_verify :: "ext \<Rightarrow> config \<Rightarrow> dict \<Rightarrow> string \<Rightarrow> ctx \<Rightarrow> 'd io \<Rightarrow> ctx \<times> 'd io" where
  "legacy_verify X A cfg rawKey c w =
     (case internalFetch X A (post_json X (verify_url A) [] [(''key'', JStr rawKey)]) w of
        (Inl e, w1) \<Rightarrow> (legacy_service_down cfg c, w1)
      | (Inr resp, w1) \<Rightarrow>
          (if rs_status resp = 401 then (abort c 401 ''invalid or revoked API key'', w1)
           else if rs_status resp = 403 then (abort c 403 ''subscription is not active'', w1)
           else if \<not> resp_ok resp then (legacy_service_down cfg c, w1)
           else case resp_json X resp of
                  Inl e \<Rightarrow> (legacy_service_down cfg c, w1)
                | Inr JNull \<Rightarrow> (legacy_service_down cfg c, w1)
                | Inr j \<Rightarrow> (legacy_key_identity X (json_obj j) c, w1)))"

definition legacy_apiKeyAuth :: "ext \<Rightarrow> 'd redis \<Rightarrow> config \<Rightarrow> dict \<Rightarrow> ctx \<Rightarrow> 'd io \<Rightarrow> ctx \<times> 'd io" where
  "legacy_apiKeyAuth X R A cfg c w =
     (let rawKey = legacy_raw_key c
      in if rawKey = [] then (abort c 401 ''missing API key'', w)
         else if \<not> starts_with rawKey KEY_PREFIX then (abort c 401 ''invalid API key format'', w)
         else (case redis_read (\<lambda>t d. r_hgetall R t d (apikey_cache_key X rawKey)) w of
                 (Inl e, w1) \<Rightarrow> legacy_verify X A cfg rawKey c w1
               | (Inr info, w1) \<Rightarrow>
                   (if info \<noteq> []
                    then (if rget info ''status'' \<noteq> Some ''active'' then (abort c 401 ''api key is not active'', w1)
                          else (applyKeyInfo info c, w1))
                    else legacy_verify X A cfg rawKey c w1)))"

section \<open>What masking does\<close>

text \<open>The value that a path of member names leads to.\<close>

fun json_at :: "string list \<Rightarrow> json \<Rightarrow> json option" where
  "json_at [] j = Some j"
| "json_at (k # ks) (JObj fs) = Option.bind (rget fs k) (json_at ks)"
| "json_at (k # ks) j = None"

text \<open>Two paths that part at some member.\<close>

fun parts :: "string list \<Rightarrow> string list \<Rightarrow> bool" where
  "parts (k # ks) (l # ls) = (k \<noteq> l \<or> parts ks ls)"
| "parts _ _ = False"

text \<open>
  Masking a field replaces exactly that field: where the path leads through objects to a
  value, the masked body has the asterisks there, and every path that parts from it leads to
  what it led to before.
\<close>

theorem maskField_exact:
  assumes "json_at ks j = Some v" and "ks \<noteq> []"
  shows "\<exists>j'. maskField ks j = Some j' \<and> json_at ks j' = Some (JStr ''***'') \<and>
    (\<forall>ls. parts ks ls \<longrightarrow> json_at ls j' = json_at ls j)"
  using assms
proof (induction ks arbitrary: j)
  case (Cons k ks)
  from Cons.prems(1) obtain fs u where j: "j = JObj fs" "rget fs k = Some u" "json_at ks u = Some v"
    by (cases j) (auto simp: bind_eq_Some_conv)
  show ?case
  proof (cases ks)
    case Nil
    have "json_at ls (JObj (rset k (JStr ''***'') fs)) = json_at ls (JObj fs)" if "parts [k] ls" for ls
      using that by (cases ls) auto
    with j Nil show ?thesis by auto
  next
    case (Cons k' ks')
    with Cons.IH [OF j(3)] obtain u' where u: "maskField ks u = Some u'" "json_at ks u' = Some (JStr ''***'')"
        "\<forall>ls. parts ks ls \<longrightarrow> json_at ls u' = json_at ls u" by auto
    have "json_at ls (JObj (rset k u' fs)) = json_at ls (JObj fs)" if "parts (k # ks) ls" for ls
      using that u(3) j(2) by (cases ls) auto
    with j u Cons show ?thesis by auto
  qed
qed simp

theorem maskField_exact_witness:
  "\<exists>j'. maskField [''card'', ''pan''] (JObj [(''card'', JObj [(''pan'', JStr ''4111''), (''name'', JStr ''x'')])]) = Some j' \<and>
     json_at [''card'', ''pan''] j' = Some (JStr ''***'') \<and> json_at [''card'', ''name''] j' = Some (JStr ''x'')"
proof -
  let ?j = "JObj [(''card'', JObj [(''pan'', JStr ''4111''), (''name'', JStr ''x'')])]"
  have "json_at [''card'', ''pan''] ?j = Some (JStr ''4111'')" by simp
  from maskField_exact [OF this] obtain j' where j: "maskField [''card'', ''pan''] ?j = Some j'"
      "json_at [''card'', ''pan''] j' = Some (JStr ''***'')"
      "\<forall>ls. parts [''card'', ''pan''] ls \<longrightarrow> json_at ls j' = json_at ls ?j" by auto
  have "json_at [''card'', ''name''] j' = json_at [''card'', ''name''] ?j" using j(3) by simp
  with j(1,2) show ?thesis by auto
qed

section \<open>What the first API key plugin lets through\<close>

definition legacy_vouched :: "ext \<Rightarrow> config \<Rightarrow> string \<Rightarrow> 'd io \<Rightarrow> bool" where
  "legacy_vouched X A rawKey w =
     (case fst (internalFetch X A (post_json X (verify_url A) [] [(''key'', JStr rawKey)]) w) of
        Inl _ \<Rightarrow> False | Inr resp \<Rightarrow> resp_ok resp)"

lemma legacy_verify_ok:
  assumes "legacy_verify X A cfg k c w = (c', w')" and "\<not> c_aborted c'"
  shows "rget cfg ''fail_open'' = Some ''true'' \<or> legacy_vouched X A k w"
  using assms
  by (auto simp: legacy_verify_def legacy_vouched_def legacy_service_down_def
      split: sum.splits prod.splits if_splits json.splits)

text \<open>
  The first API key plugin fails closed like its successor: a request it does not stop
  carries a key with the platform's prefix, and an entry for it in Redis is active, or the
  service answered with success, or failing open is configured.
\<close>

theorem legacy_apiKeyAuth_sound:
  assumes "legacy_apiKeyAuth X R A cfg c w = (c', w')" and "\<not> c_aborted c'"
  shows "starts_with (legacy_raw_key c) KEY_PREFIX \<and>
    (rget cfg ''fail_open'' = Some ''true'' \<or>
     (\<exists>info. fst (key_read X R (legacy_raw_key c) w) = Inr info \<and> rget info ''status'' = Some ''active'') \<or>
     legacy_vouched X A (legacy_raw_key c) (snd (key_read X R (legacy_raw_key c) w)))"
proof -
  obtain r w1 where k: "key_read X R (legacy_raw_key c) w = (r, w1)" by (cases "key_read X R (legacy_raw_key c) w")
  show ?thesis
  proof (cases "\<exists>info. r = Inr info \<and> info \<noteq> []")
    case True
    with assms k show ?thesis by (auto simp: legacy_apiKeyAuth_def key_read_def Let_def split: if_splits)
  next
    case False
    with assms k have "starts_with (legacy_raw_key c) KEY_PREFIX" "legacy_verify X A cfg (legacy_raw_key c) c w1 = (c', w')"
      by (auto simp: legacy_apiKeyAuth_def key_read_def Let_def split: if_splits sum.splits)
    with legacy_verify_ok [OF this(2) assms(2)] k show ?thesis by auto
  qed
qed

definition legacy_key_ctx :: ctx where
  "legacy_key_ctx = createExecContext ''orders'' ''t1'' ''GET'' ''/orders'' ''shop.example'' ''203.0.113.9''
     [(''x-api-key'', ''xca_1'')] [] None 0"

definition legacy_key_world :: "mem io" where
  "legacy_key_world = sample_io\<lparr>io_data := [''apikey:info:sha256:xca_1'' \<mapsto> (RHash [(''status'', ''active'')], None)]\<rparr>"

theorem legacy_apiKeyAuth_sound_witness:
  "starts_with (legacy_raw_key legacy_key_ctx) KEY_PREFIX"
proof -
  obtain c' w' where run: "legacy_apiKeyAuth sample_ext mem_redis sample_config [] legacy_key_ctx legacy_key_world = (c', w')"
    by (cases "legacy_apiKeyAuth sample_ext mem_redis sample_config [] legacy_key_ctx legacy_key_world")
  have "\<not> c_aborted (fst (legacy_apiKeyAuth sample_ext mem_redis sample_config [] legacy_key_ctx legacy_key_world))"
    by code_simp
  with run have "\<not> c_aborted c'" by simp
  from legacy_apiKeyAuth_sound [OF run this] show ?thesis by (rule conjunct1)
qed

end
