(* ===== verification/DepthLimit.thy ===== *)
theory DepthLimit
  imports JsNumber
begin

text \<open>
  \<open>manager/bff/src/plugins/depth-limit.ts\<close>: the depth and the complexity of a GraphQL
  operation, with fragments followed through a set of the names on the way, and the plugin
  that refuses an operation above the limits. The parsed document is the one of the
  \<open>graphql\<close> package, as far as the plugin reads it; a field carries its response name.
\<close>

section \<open>Documents\<close>

datatype selection =
    Field string "selection list option"
  | InlineFragment "selection list"
  | FragmentSpread string

type_synonym fragments = "(string \<times> selection list) list"

datatype definition_node =
    FragmentDefinition string "selection list"
  | OperationDefinition "selection list"
  | OtherDefinition

section \<open>The two measures\<close>

text \<open>
  The recursion enters a fragment only if its name is not on the way yet, so the number of
  fragments that are not on the way decreases there and the text does elsewhere.
\<close>

definition unvisited :: "fragments \<Rightarrow> string list \<Rightarrow> nat" where
  "unvisited fr seen = card (fst ` set fr - set seen)"

lemma unvisited_less [termination_simp]:
  assumes "n \<notin> set seen" and "rget fr n = Some fs"
  shows "unvisited fr (n # seen) < unvisited fr seen"
proof -
  have "n \<in> fst ` set fr" using assms(2) by (force simp: rget_def dest: map_of_SomeD)
  with assms(1) show ?thesis unfolding unvisited_def
    by (intro psubset_card_mono) auto
qed

function measureDepth :: "fragments \<Rightarrow> selection list \<Rightarrow> nat \<Rightarrow> string list \<Rightarrow> nat" where
  "measureDepth fr [] d seen = d"
| "measureDepth fr (Field n None # ss) d seen = measureDepth fr ss d seen"
| "measureDepth fr (Field n (Some sub) # ss) d seen =
     max (measureDepth fr sub (d + 1) seen) (measureDepth fr ss d seen)"
| "measureDepth fr (InlineFragment sub # ss) d seen =
     max (measureDepth fr sub d seen) (measureDepth fr ss d seen)"
| "measureDepth fr (FragmentSpread n # ss) d seen =
     (if n \<in> set seen then measureDepth fr ss d seen
      else case rget fr n of
             None \<Rightarrow> measureDepth fr ss d seen
           | Some fs \<Rightarrow> max (measureDepth fr fs d (n # seen)) (measureDepth fr ss d seen))"
  by pat_completeness auto
termination
  by (relation "measures [\<lambda>(fr, ss, d, seen). unvisited fr seen, \<lambda>(fr, ss, d, seen). size_list size ss]")
     (auto simp: unvisited_less)

function measureComplexity :: "fragments \<Rightarrow> selection list \<Rightarrow> string list \<Rightarrow> nat" where
  "measureComplexity fr [] seen = 0"
| "measureComplexity fr (Field n None # ss) seen = 1 + measureComplexity fr ss seen"
| "measureComplexity fr (Field n (Some sub) # ss) seen =
     1 + measureComplexity fr sub seen + measureComplexity fr ss seen"
| "measureComplexity fr (InlineFragment sub # ss) seen =
     measureComplexity fr sub seen + measureComplexity fr ss seen"
| "measureComplexity fr (FragmentSpread n # ss) seen =
     (if n \<in> set seen then measureComplexity fr ss seen
      else case rget fr n of
             None \<Rightarrow> measureComplexity fr ss seen
           | Some fs \<Rightarrow> measureComplexity fr fs (n # seen) + measureComplexity fr ss seen)"
  by pat_completeness auto
termination
  by (relation "measures [\<lambda>(fr, ss, seen). unvisited fr seen, \<lambda>(fr, ss, seen). size_list size ss]")
     (auto simp: unvisited_less)

section \<open>The plugin\<close>

datatype gql_error = GraphQLError string string

text \<open>\<open>fragments.set(name, def)\<close> for the fragment definitions in order: the last of a name stays.\<close>

fun collect_fragments :: "definition_node list \<Rightarrow> fragments \<Rightarrow> fragments" where
  "collect_fragments [] fr = fr"
| "collect_fragments (FragmentDefinition n fs # ds) fr = collect_fragments ds (rset n fs fr)"
| "collect_fragments (_ # ds) fr = collect_fragments ds fr"

definition check_operation :: "int \<Rightarrow> int \<Rightarrow> fragments \<Rightarrow> selection list \<Rightarrow> gql_error option" where
  "check_operation maxDepth maxComplexity fr ss =
     (let depth = int (measureDepth fr ss 0 []); complexity = int (measureComplexity fr ss [])
      in if depth > maxDepth
         then Some (GraphQLError
           (''Query depth '' @ show_int depth @ '' exceeds maximum allowed depth '' @ show_int maxDepth)
           ''QUERY_TOO_DEEP'')
         else if complexity > maxComplexity
         then Some (GraphQLError
           (''Query complexity '' @ show_int complexity @ '' exceeds maximum allowed complexity '' @
            show_int maxComplexity)
           ''QUERY_TOO_COMPLEX'')
         else None)"

fun check_definitions :: "int \<Rightarrow> int \<Rightarrow> fragments \<Rightarrow> definition_node list \<Rightarrow> gql_error option" where
  "check_definitions md mc fr [] = None"
| "check_definitions md mc fr (OperationDefinition ss # ds) =
     (case check_operation md mc fr ss of Some e \<Rightarrow> Some e | None \<Rightarrow> check_definitions md mc fr ds)"
| "check_definitions md mc fr (_ # ds) = check_definitions md mc fr ds"

definition didResolveOperation :: "int \<Rightarrow> int \<Rightarrow> definition_node list \<Rightarrow> gql_error option" where
  "didResolveOperation maxDepth maxComplexity doc =
     check_definitions maxDepth maxComplexity (collect_fragments doc []) doc"

section \<open>What an operation selects\<close>

text \<open>
  The reference: the response paths that an operation selects, fragments replaced by their
  selections. The plugin's set of names on the way cuts fragments that reach themselves;
  validation has refused those documents before, which the reference states with a rank.
\<close>

inductive field_path :: "fragments \<Rightarrow> selection list \<Rightarrow> string list \<Rightarrow> bool" for fr where
  field: "Field n sub \<in> set ss \<Longrightarrow> field_path fr ss [n]"
| below: "\<lbrakk>Field n (Some sub) \<in> set ss; field_path fr sub p\<rbrakk> \<Longrightarrow> field_path fr ss (n # p)"
| inline: "\<lbrakk>InlineFragment sub \<in> set ss; field_path fr sub p\<rbrakk> \<Longrightarrow> field_path fr ss p"
| spread: "\<lbrakk>FragmentSpread n \<in> set ss; rget fr n = Some fs; field_path fr fs p\<rbrakk> \<Longrightarrow> field_path fr ss p"

fun spreads :: "selection list \<Rightarrow> string list" where
  "spreads [] = []"
| "spreads (Field n None # ss) = spreads ss"
| "spreads (Field n (Some sub) # ss) = spreads sub @ spreads ss"
| "spreads (InlineFragment sub # ss) = spreads sub @ spreads ss"
| "spreads (FragmentSpread n # ss) = n # spreads ss"

definition ranked :: "(string \<Rightarrow> nat) \<Rightarrow> fragments \<Rightarrow> bool" where
  "ranked rank fr = list_all (\<lambda>(n, fs). list_all (\<lambda>m. rank m < rank n) (spreads fs)) fr"

definition below_all :: "(string \<Rightarrow> nat) \<Rightarrow> string list \<Rightarrow> string list \<Rightarrow> bool" where
  "below_all rank ms seen = (\<forall>m \<in> set ms. \<forall>n \<in> set seen. rank m < rank n)"

lemma below_all_simps [simp]:
  "below_all rank [] seen" "below_all rank ms []"
  "below_all rank (ms @ ms') seen \<longleftrightarrow> below_all rank ms seen \<and> below_all rank ms' seen"
  "below_all rank (m # ms) seen \<longleftrightarrow> (\<forall>n \<in> set seen. rank m < rank n) \<and> below_all rank ms seen"
  by (auto simp: below_all_def)

lemma below_all_enter:
  assumes "ranked rank fr" and "rget fr n = Some fs" and "\<forall>k \<in> set seen. rank n < rank k"
  shows "n \<notin> set seen" "below_all rank (spreads fs) (n # seen)"
proof -
  show "n \<notin> set seen" using assms(3) by auto
  have "(n, fs) \<in> set fr" using assms(2) by (simp add: rget_def map_of_SomeD)
  then have "\<forall>m \<in> set (spreads fs). rank m < rank n"
    using assms(1) by (force simp: ranked_def list_all_iff)
  then show "below_all rank (spreads fs) (n # seen)"
    using assms(3) by (fastforce simp: below_all_def)
qed

inductive_simps field_path_Nil [simp]: "field_path fr [] p"
inductive_simps field_path_any: "field_path fr ss p"

lemma field_path_Cons [simp]:
  "field_path fr (Field n None # ss) p \<longleftrightarrow> p = [n] \<or> field_path fr ss p"
  "field_path fr (Field n (Some sub) # ss) p \<longleftrightarrow>
     p = [n] \<or> (\<exists>q. p = n # q \<and> field_path fr sub q) \<or> field_path fr ss p"
  "field_path fr (InlineFragment sub # ss) p \<longleftrightarrow> field_path fr sub p \<or> field_path fr ss p"
  "field_path fr (FragmentSpread n # ss) p \<longleftrightarrow>
     (\<exists>fs. rget fr n = Some fs \<and> field_path fr fs p) \<or> field_path fr ss p"
  by (subst (1 2) field_path_any; auto; metis)+

lemma depth_ge: "d \<le> measureDepth fr ss d seen"
  by (induction fr ss d seen rule: measureDepth.induct) (auto split: option.splits)

lemma depth_ge_max: "d \<le> max k (measureDepth fr ss d seen)"
  by (rule le_trans [OF depth_ge max.cobounded2])

lemma le_Suc_max1: "k \<le> Suc a \<Longrightarrow> k \<le> Suc (max a b)"
  and le_Suc_max2: "k \<le> Suc b \<Longrightarrow> k \<le> Suc (max a b)"
  by simp_all

lemma depth_bounds_paths:
  assumes "ranked rank fr" and "below_all rank (spreads ss) seen" and "field_path fr ss p"
  shows "d + length p \<le> Suc (measureDepth fr ss d seen)"
  using assms
proof (induction fr ss d seen arbitrary: p rule: measureDepth.induct)
  case (5 fr n ss d seen)
  show ?case
  proof (cases "rget fr n")
    case None
    then show ?thesis using 5 by auto
  next
    case (Some fs)
    then show ?thesis
      using 5 below_all_enter [OF "5.prems"(1) Some, of seen]
      by (auto intro: le_Suc_max1 le_Suc_max2)
  qed
qed (auto intro: le_Suc_max1 le_Suc_max2 max.coboundedI1 max.coboundedI2 depth_ge depth_ge_max)

text \<open>Distinct response paths are never more than the complexity counts.\<close>

lemma complexity_bounds_paths:
  assumes "ranked rank fr" and "below_all rank (spreads ss) seen"
  shows "\<exists>ps. length ps = measureComplexity fr ss seen \<and> {p. field_path fr ss p} \<subseteq> set ps"
  using assms
proof (induction fr ss seen rule: measureComplexity.induct)
  case (1 fr seen)
  then show ?case by simp
next
  case (2 fr n ss seen)
  then obtain ps where "length ps = measureComplexity fr ss seen" "{p. field_path fr ss p} \<subseteq> set ps"
    by auto
  then show ?case by (intro exI [of _ "[n] # ps"]) auto
next
  case (3 fr n sub ss seen)
  then obtain ps qs where
    "length ps = measureComplexity fr ss seen" "{p. field_path fr ss p} \<subseteq> set ps"
    "length qs = measureComplexity fr sub seen" "{p. field_path fr sub p} \<subseteq> set qs"
    by auto
  then show ?case by (intro exI [of _ "[n] # map ((#) n) qs @ ps"]) auto
next
  case (4 fr sub ss seen)
  then obtain ps qs where
    "length ps = measureComplexity fr ss seen" "{p. field_path fr ss p} \<subseteq> set ps"
    "length qs = measureComplexity fr sub seen" "{p. field_path fr sub p} \<subseteq> set qs"
    by auto
  then show ?case by (intro exI [of _ "qs @ ps"]) auto
next
  case (5 fr n ss seen)
  show ?case
  proof (cases "rget fr n")
    case None
    then show ?thesis using 5 by auto
  next
    case (Some fs)
    have "\<forall>k \<in> set seen. rank n < rank k" using "5.prems"(2) by simp
    note enter = below_all_enter [OF "5.prems"(1) Some this]
    obtain ps qs where
      "length ps = measureComplexity fr ss seen" "{p. field_path fr ss p} \<subseteq> set ps"
      "length qs = measureComplexity fr fs (n # seen)" "{p. field_path fr fs p} \<subseteq> set qs"
      using "5.IH"(3,4) [OF enter(1) Some] "5.prems" enter by auto
    then show ?thesis using Some enter(1) by (intro exI [of _ "qs @ ps"]) auto
  qed
qed

lemma check_definitions_None:
  "check_definitions md mc fr ds = None \<Longrightarrow> OperationDefinition ss \<in> set ds \<Longrightarrow>
   check_operation md mc fr ss = None"
  by (induction md mc fr ds rule: check_definitions.induct) (auto split: option.splits)

text \<open>
  C20. What the limits promise: in an operation that passes, every response path has at most
  \<open>maxDepth + 1\<close> names and there are at most \<open>maxComplexity\<close> of them, however the selections
  are spread over fragments. Validation has refused fragments that reach themselves before.
\<close>

theorem accepted_operation_bounded:
  assumes "didResolveOperation maxDepth maxComplexity doc = None"
    and "OperationDefinition ss \<in> set doc" and "ranked rank (collect_fragments doc [])"
  shows "finite {p. field_path (collect_fragments doc []) ss p} \<and>
         int (card {p. field_path (collect_fragments doc []) ss p}) \<le> maxComplexity \<and>
         (\<forall>p. field_path (collect_fragments doc []) ss p \<longrightarrow> int (length p) \<le> maxDepth + 1)"
proof -
  let ?fr = "collect_fragments doc []"
  let ?P = "{p. field_path ?fr ss p}"
  have "check_operation maxDepth maxComplexity ?fr ss = None"
    using assms(1,2) check_definitions_None by (auto simp: didResolveOperation_def)
  then have lim: "int (measureDepth ?fr ss 0 []) \<le> maxDepth" "int (measureComplexity ?fr ss []) \<le> maxComplexity"
    by (auto simp: check_operation_def Let_def split: if_splits)
  obtain ps where ps: "length ps = measureComplexity ?fr ss []" "?P \<subseteq> set ps"
    using complexity_bounds_paths [OF assms(3), of ss "[]"] by auto
  have "finite ?P" using ps(2) finite_subset by blast
  moreover have "card ?P \<le> length ps"
    using card_mono [OF finite_set ps(2)] card_length le_trans by blast
  then have "int (card ?P) \<le> maxComplexity" using ps(1) lim(2) by simp
  moreover have "int (length p) \<le> maxDepth + 1" if "field_path ?fr ss p" for p
    using depth_bounds_paths [OF assms(3) _ that, of "[]" 0] lim(1) by simp
  ultimately show ?thesis by blast
qed

definition sample_doc :: "definition_node list" where
  "sample_doc =
     [OperationDefinition [Field ''apis'' (Some [FragmentSpread ''A'', Field ''total'' None])],
      FragmentDefinition ''A'' [Field ''edges'' (Some [InlineFragment [Field ''id'' None], FragmentSpread ''B''])],
      FragmentDefinition ''B'' [Field ''name'' None]]"

lemma sample_doc_limits:
  "didResolveOperation 2 5 sample_doc = None"
  "didResolveOperation 1 5 sample_doc =
     Some (GraphQLError ''Query depth 2 exceeds maximum allowed depth 1'' ''QUERY_TOO_DEEP'')"
  "didResolveOperation 2 4 sample_doc =
     Some (GraphQLError ''Query complexity 5 exceeds maximum allowed complexity 4'' ''QUERY_TOO_COMPLEX'')"
  by code_simp+

theorem accepted_operation_bounded_witness:
  "field_path (collect_fragments sample_doc []) [Field ''apis'' (Some [FragmentSpread ''A'', Field ''total'' None])]
     [''apis'', ''edges'', ''name''] \<and>
   int (length [''apis'', ''edges'', ''name'']) \<le> (2 :: int) + 1"
proof -
  let ?ss = "[Field ''apis'' (Some [FragmentSpread ''A'', Field ''total'' None])]"
  let ?fr = "collect_fragments sample_doc []"
  have fr: "ranked (\<lambda>n. if n = ''A'' then 1 else 0) ?fr"
    by (simp add: sample_doc_def ranked_def rset_def)
  have "OperationDefinition ?ss \<in> set sample_doc" by (simp add: sample_doc_def)
  note use = accepted_operation_bounded [OF sample_doc_limits(1) this fr]
  have "field_path ?fr ?ss [''apis'', ''edges'', ''name'']"
    by (simp add: sample_doc_def rset_def rget_def)
  with use show ?thesis by blast
qed

end
