(* ===== verification/BffClient.thy ===== *)
theory BffClient
  imports DepthLimit Fetch
begin

text \<open>
  The BFF's way in and out: \<open>manager/bff/src/http/client.ts\<close> (calls of the services behind),
  \<open>context.ts\<close> as far as it decides who the user is and what the services are told about it,
  and \<open>resolvers/helpers.ts\<close>. Connection pools and the key set of the token issuer belong to
  the network; \<open>be_origin\<close> is \<open>new URL(base)\<close> moved to https and a port, read as its origin,
  \<open>be_alg\<close> is \<open>decodeProtectedHeader(token).alg\<close>, and \<open>be_iso\<close> prints a time.
\<close>

record bff_env =
  be_MTLS_ENABLED :: bool
  be_MTLS_PORT :: string
  be_AUTH_SERVICE_URL :: string
  be_REGISTRY_SERVICE_URL :: string
  be_POLICY_ENGINE_URL :: string
  be_SUBSCRIPTION_SERVICE_URL :: string
  be_JWKS_URL :: string
  be_JWT_ISSUER :: string
  be_JWT_AUDIENCE :: string
  be_SESSION_SECRET :: string
  be_origin :: "string \<Rightarrow> string \<Rightarrow> string"
  be_byteLength :: "string \<Rightarrow> nat"
  be_alg :: "string \<Rightarrow> exn + string option"
  be_iso :: "int \<Rightarrow> string"

datatype bff_error = Gql gql_error | Thrown exn

section \<open>Calls of the services\<close>

definition mtlsBase :: "ext \<Rightarrow> bff_env \<Rightarrow> string \<Rightarrow> string" where
  "mtlsBase X E baseUrl =
     (if \<not> be_MTLS_ENABLED E then baseUrl
      else case x_url X baseUrl of
             None \<Rightarrow> baseUrl
           | Some u \<Rightarrow> if u_hostname u \<notin> set INTERNAL_HOSTS then baseUrl
                       else be_origin E baseUrl (be_MTLS_PORT E))"

record request_options =
  ro_method :: "string option"
  ro_path :: string
  ro_body :: "json option"
  ro_headers :: "dict option"

record service_client =
  sv_baseUrl :: string
  sv_baseHeaders :: dict

definition ServiceClient :: "string \<Rightarrow> dict option \<Rightarrow> service_client" where
  "ServiceClient baseUrl extraHeaders =
     \<lparr> sv_baseUrl = baseUrl,
       sv_baseHeaders = fold (\<lambda>(k, v). rset k v) (orelse extraHeaders [])
         [(''content-type'', ''application/json''), (''accept'', ''application/json'')] \<rparr>"

definition plain_error :: "string \<Rightarrow> exn" where
  "plain_error msg = JsError ''Error'' msg"

definition request :: "ext \<Rightarrow> bff_env \<Rightarrow> service_client \<Rightarrow> request_options \<Rightarrow> 'd io \<Rightarrow> (exn + json) \<times> 'd io" where
  "request X E sv opts w =
     (let headers = fold (\<lambda>(k, v). rset k v) (orelse (ro_headers opts) []) (sv_baseHeaders sv);
          bodyStr = map_option (x_json_str X) (ro_body opts);
          headers1 = (if truthy bodyStr
            then rset ''content-length'' (show_nat (be_byteLength E (str_of bodyStr))) headers else headers);
          q = \<lparr> rq_url = mtlsBase X E (sv_baseUrl sv) @ ro_path opts,
                rq_method = orelse (ro_method opts) ''GET'', rq_headers = headers1, rq_body = bodyStr \<rparr>
      in case http_fetch q w of
           (Inl e, w1) \<Rightarrow>
             (Inl (plain_error (''upstream service unavailable: '' @ sv_baseUrl sv @ ro_path opts)), w1)
         | (Inr response, w1) \<Rightarrow>
             (if rs_status response \<ge> 400
              then (Inl (plain_error (''upstream error '' @ show_int (rs_status response) @ '': '' @ ro_path opts)), w1)
              else if rs_body response = [] then (Inr (JObj []), w1)
              else case x_json_parse X (rs_body response) of
                     None \<Rightarrow> (Inl (plain_error (''upstream returned non-JSON: '' @ ro_path opts)), w1)
                   | Some data \<Rightarrow> (Inr data, w1)))"

definition sv_get :: "ext \<Rightarrow> bff_env \<Rightarrow> service_client \<Rightarrow> string \<Rightarrow> 'd io \<Rightarrow> (exn + json) \<times> 'd io" where
  "sv_get X E sv path = request X E sv \<lparr> ro_method = None, ro_path = path, ro_body = None, ro_headers = None \<rparr>"

definition sv_post :: "ext \<Rightarrow> bff_env \<Rightarrow> service_client \<Rightarrow> string \<Rightarrow> json \<Rightarrow> 'd io \<Rightarrow> (exn + json) \<times> 'd io" where
  "sv_post X E sv path body =
     request X E sv \<lparr> ro_method = Some ''POST'', ro_path = path, ro_body = Some body, ro_headers = None \<rparr>"

definition sv_put :: "ext \<Rightarrow> bff_env \<Rightarrow> service_client \<Rightarrow> string \<Rightarrow> json \<Rightarrow> 'd io \<Rightarrow> (exn + json) \<times> 'd io" where
  "sv_put X E sv path body =
     request X E sv \<lparr> ro_method = Some ''PUT'', ro_path = path, ro_body = Some body, ro_headers = None \<rparr>"

definition sv_patch :: "ext \<Rightarrow> bff_env \<Rightarrow> service_client \<Rightarrow> string \<Rightarrow> json \<Rightarrow> 'd io \<Rightarrow> (exn + json) \<times> 'd io" where
  "sv_patch X E sv path body =
     request X E sv \<lparr> ro_method = Some ''PATCH'', ro_path = path, ro_body = Some body, ro_headers = None \<rparr>"

definition sv_delete :: "ext \<Rightarrow> bff_env \<Rightarrow> service_client \<Rightarrow> string \<Rightarrow> 'd io \<Rightarrow> (exn + json) \<times> 'd io" where
  "sv_delete X E sv path =
     request X E sv \<lparr> ro_method = Some ''DELETE'', ro_path = path, ro_body = None, ro_headers = None \<rparr>"

section \<open>Who is asking\<close>

record auth_user =
  au_id :: string
  au_email :: string
  au_role :: string
  au_orgId :: "string option"
  au_sub :: string

definition nullable :: "string \<Rightarrow> string option" where
  "nullable s = (if s = [] then None else Some s)"

definition bearer_token :: "string option \<Rightarrow> string option" where
  "bearer_token authHeader =
     (case authHeader of
        None \<Rightarrow> None
      | Some h \<Rightarrow> if starts_with (js_lower h) ''bearer '' then Some (js_trim (drop 7 h)) else None)"

text \<open>The verification asked for: with the session secret for an HMAC token, else with the key set.\<close>

definition verify_call :: "bff_env \<Rightarrow> string \<Rightarrow> string option \<Rightarrow> jwt_call" where
  "verify_call E token alg =
     (if truthy alg \<and> starts_with (str_of alg) ''HS'' \<and> be_SESSION_SECRET E \<noteq> []
      then \<lparr> jc_token = token, jc_secret = Some (be_SESSION_SECRET E), jc_jwks_url = None, jc_algorithm = [],
             jc_issuer = Some ''auth-service-session'', jc_audience = None \<rparr>
      else \<lparr> jc_token = token, jc_secret = None, jc_jwks_url = Some (be_JWKS_URL E), jc_algorithm = [],
             jc_issuer = nullable (be_JWT_ISSUER E), jc_audience = nullable (be_JWT_AUDIENCE E) \<rparr>)"

definition user_of_claims :: "ext \<Rightarrow> jobj \<Rightarrow> auth_user" where
  "user_of_claims X payload =
     \<lparr> au_id = (case jget payload ''uid'' of Some v \<Rightarrow> js_String X v | None \<Rightarrow> jstring X payload ''sub'' []),
       au_email = jstring X payload ''email'' [],
       au_role = jstring X payload ''role'' ''VIEWER'',
       au_orgId = (case rget payload ''org_id'' of
                     Some v \<Rightarrow> (if js_truthy v then Some (js_String X v) else None) | None \<Rightarrow> None),
       au_sub = orelse (sfield payload ''sub'') [] \<rparr>"

definition context_user :: "ext \<Rightarrow> bff_env \<Rightarrow> string option \<Rightarrow> 'd io \<Rightarrow> auth_user option \<times> 'd io" where
  "context_user X E authHeader w =
     (case bearer_token authHeader of
        None \<Rightarrow> (None, w)
      | Some token \<Rightarrow>
          (case be_alg E token of
             Inl e \<Rightarrow> (None, w)
           | Inr alg \<Rightarrow>
               (case jwt_verify (verify_call E token alg) w of
                  (Inl e, w1) \<Rightarrow> (None, w1)
                | (Inr payload, w1) \<Rightarrow> (Some (user_of_claims X payload), w1))))"

definition identityHeaders :: "auth_user option \<Rightarrow> dict" where
  "identityHeaders user =
     (case user of
        None \<Rightarrow> []
      | Some u \<Rightarrow> (if au_id u \<noteq> [] then [(''x-user-id'', au_id u)] else []) @
          (if truthy (au_orgId u) then [(''x-org-id'', str_of (au_orgId u))] else []))"

section \<open>Helpers of the resolvers\<close>

definition requireAuth :: "auth_user option \<Rightarrow> bff_error option" where
  "requireAuth user =
     (if user = None then Some (Gql (GraphQLError ''Authentication required'' ''UNAUTHENTICATED'')) else None)"

definition requireRole :: "auth_user option \<Rightarrow> string list \<Rightarrow> bff_error option" where
  "requireRole user roles =
     (case requireAuth user of
        Some e \<Rightarrow> Some e
      | None \<Rightarrow>
          if au_role (the user) \<notin> set roles
          then Some (Gql (GraphQLError (''Insufficient permissions. Required: '' @ join_with '' or '' roles) ''FORBIDDEN''))
          else None)"

record page_info =
  pi_page :: int
  pi_limit :: int
  pi_total :: int
  pi_totalPages :: jsnum
  pi_hasNext :: bool
  pi_hasPrev :: bool

text \<open>\<open>Math.ceil(tot / limit)\<close>: a division by zero gives an infinity or \<open>NaN\<close>.\<close>

definition total_pages :: "int \<Rightarrow> int \<Rightarrow> jsnum" where
  "total_pages tot limit =
     (if limit = 0 then (if tot = 0 then NaN else Inf (tot < 0))
      else Fin (of_int \<lceil>(of_int tot :: rat) / of_int limit\<rceil>))"

definition js_less :: "int \<Rightarrow> jsnum \<Rightarrow> bool" where
  "js_less n x = (case x of NaN \<Rightarrow> False | Inf neg \<Rightarrow> \<not> neg | Fin r \<Rightarrow> of_int n < r)"

definition buildPageInfo :: "int \<Rightarrow> int \<Rightarrow> int \<Rightarrow> page_info" where
  "buildPageInfo page limit tot =
     (let totalPages = total_pages tot limit
      in \<lparr> pi_page = page, pi_limit = limit, pi_total = tot, pi_totalPages = totalPages,
           pi_hasNext = js_less page totalPages, pi_hasPrev = page > 1 \<rparr>)"

definition notFound :: "string \<Rightarrow> string \<Rightarrow> bff_error" where
  "notFound ty i = Gql (GraphQLError (ty @ '' not found: '' @ i) ''NOT_FOUND'')"

section \<open>Properties\<close>

text \<open>A further page is announced exactly if items lie beyond this one.\<close>

lemma hasNext_iff:
  assumes "0 < lmt"
  shows "pi_hasNext (buildPageInfo page lmt tot) \<longleftrightarrow> page * lmt < tot"
proof -
  have "page < \<lceil>(of_int tot :: rat) / of_int lmt\<rceil> \<longleftrightarrow> (of_int page :: rat) < of_int tot / of_int lmt"
    by (simp add: less_ceiling_iff)
  also have "\<dots> \<longleftrightarrow> (of_int (page * lmt) :: rat) < of_int tot"
    using assms by (simp add: pos_less_divide_eq)
  also have "\<dots> \<longleftrightarrow> page * lmt < tot" by (simp only: of_int_less_iff)
  finally show ?thesis
    using assms by (simp add: buildPageInfo_def total_pages_def js_less_def Let_def)
qed

text \<open>
  The BFF knows a user only by a verified token: the header carries a bearer token, the
  verifier accepted it under the session secret or the key set of the issuer, with the issuer
  that belongs to it, and the user is read from the claims of that answer.
\<close>

theorem context_user_sound:
  assumes "context_user X E authHeader w = (Some user, w1)"
  shows "\<exists>token alg payload. bearer_token authHeader = Some token \<and> be_alg E token = Inr alg \<and>
    io_jwt w 0 (verify_call E token alg) = Inr payload \<and> user = user_of_claims X payload"
  using assms
  by (auto simp: context_user_def jwt_verify_def split: option.splits sum.splits)

definition sample_bff :: bff_env where
  "sample_bff = \<lparr> be_MTLS_ENABLED = True, be_MTLS_PORT = ''9443'', be_AUTH_SERVICE_URL = ''http://auth-service:8081'',
     be_REGISTRY_SERVICE_URL = ''http://registry-service:8082'', be_POLICY_ENGINE_URL = ''http://policy-engine:8083'',
     be_SUBSCRIPTION_SERVICE_URL = ''http://subscription-service:8084'',
     be_JWKS_URL = ''http://auth-service:8081/oauth2/jwks'', be_JWT_ISSUER = [], be_JWT_AUDIENCE = [],
     be_SESSION_SECRET = ''s3cret'', be_origin = (\<lambda>_ p. ''https://policy-engine:'' @ p),
     be_byteLength = length, be_alg = (\<lambda>t. if t = [] then Inl NonError else Inr (Some ''HS256'')),
     be_iso = (\<lambda>_. ''2026-01-01T00:00:00.000Z'') \<rparr>"

definition sample_jwt_world :: "mem io" where
  "sample_jwt_world = sample_io\<lparr>io_jwt := (\<lambda>_ c.
     if jc_secret c = Some ''s3cret'' then Inr [(''sub'', JStr ''u1''), (''org_id'', JStr ''o1'')] else Inl NonError)\<rparr>"

theorem context_user_sound_witness:
  "map_option au_orgId (fst (context_user sample_ext sample_bff (Some ''Bearer abc'') sample_jwt_world)) = Some (Some ''o1'') \<and>
   (\<exists>token alg payload. bearer_token (Some ''Bearer abc'') = Some token \<and> be_alg sample_bff token = Inr alg \<and>
     io_jwt sample_jwt_world 0 (verify_call sample_bff token alg) = Inr payload)"
proof -
  have run: "map_option au_orgId (fst (context_user sample_ext sample_bff (Some ''Bearer abc'') sample_jwt_world)) = Some (Some ''o1'')"
    by code_simp
  then obtain user w1 where
    "context_user sample_ext sample_bff (Some ''Bearer abc'') sample_jwt_world = (Some user, w1)"
    by (cases "context_user sample_ext sample_bff (Some ''Bearer abc'') sample_jwt_world") auto
  from context_user_sound [OF this] run show ?thesis by blast
qed

end
