(* ===== verification/StudioTypes.thy ===== *)
theory StudioTypes
  imports Prelude
begin

text \<open>
  \<open>studio/src/types/policy.ts\<close> and \<open>studio/src/utils/nanoid.ts\<close>: the policies and chains that
  the editor works on, the registry of the plugins it offers, and the identifiers it invents.
  The registry leaves out the three texts shown to the user, which are not ASCII.
\<close>

section \<open>Policies and chains\<close>

datatype policy_phase = PRE_REQUEST | POST_REQUEST | PRE_RESPONSE | POST_RESPONSE

datatype policy_type =
  T_auth | T_rate_limit | T_cors | T_ip_whitelist | T_transform | T_cache | T_circuit_breaker

fun phase_name :: "policy_phase \<Rightarrow> string" where
  "phase_name PRE_REQUEST = ''PRE_REQUEST''"
| "phase_name POST_REQUEST = ''POST_REQUEST''"
| "phase_name PRE_RESPONSE = ''PRE_RESPONSE''"
| "phase_name POST_RESPONSE = ''POST_RESPONSE''"

fun type_name :: "policy_type \<Rightarrow> string" where
  "type_name T_auth = ''auth''"
| "type_name T_rate_limit = ''rate_limit''"
| "type_name T_cors = ''cors''"
| "type_name T_ip_whitelist = ''ip_whitelist''"
| "type_name T_transform = ''transform''"
| "type_name T_cache = ''cache''"
| "type_name T_circuit_breaker = ''circuit_breaker''"

record studio_policy =
  sp_id :: string
  sp_type :: string
  sp_phase :: policy_phase
  sp_order :: int
  sp_enabled :: bool
  sp_config :: dict
  sp_condition :: "string option"

record studio_chain =
  sc_chainId :: string
  sc_apiId :: string
  sc_version :: int
  sc_etag :: string
  sc_updatedAt :: "string option"
  sc_policies :: "studio_policy list"

record api_info =
  ai_id :: string
  ai_name :: string
  ai_version :: string
  ai_basePath :: string
  ai_upstreamUrl :: string
  ai_description :: "string option"
  ai_status :: string
  ai_orgId :: string
  ai_tags :: "string list"
  ai_policyChain :: "studio_chain option"

definition STUDIO_PHASE_ORDER :: "policy_phase list" where
  "STUDIO_PHASE_ORDER = [PRE_REQUEST, POST_REQUEST, PRE_RESPONSE, POST_RESPONSE]"

fun PHASE_LABELS :: "policy_phase \<Rightarrow> string" where
  "PHASE_LABELS PRE_REQUEST = ''Pre-Request''"
| "PHASE_LABELS POST_REQUEST = ''Post-Request''"
| "PHASE_LABELS PRE_RESPONSE = ''Pre-Response''"
| "PHASE_LABELS POST_RESPONSE = ''Post-Response''"

fun PHASE_COLORS :: "policy_phase \<Rightarrow> string" where
  "PHASE_COLORS PRE_REQUEST = ''border-blue-300 bg-blue-50''"
| "PHASE_COLORS POST_REQUEST = ''border-green-300 bg-green-50''"
| "PHASE_COLORS PRE_RESPONSE = ''border-purple-300 bg-purple-50''"
| "PHASE_COLORS POST_RESPONSE = ''border-orange-300 bg-orange-50''"

section \<open>The plugin registry\<close>

datatype plugin_category = Security | Traffic | Transformation | Reliability

fun PLUGIN_CATEGORY_COLORS :: "plugin_category \<Rightarrow> string" where
  "PLUGIN_CATEGORY_COLORS Security = ''text-violet-600 bg-violet-50 border-violet-200''"
| "PLUGIN_CATEGORY_COLORS Traffic = ''text-amber-600  bg-amber-50  border-amber-200''"
| "PLUGIN_CATEGORY_COLORS Transformation = ''text-teal-600   bg-teal-50   border-teal-200''"
| "PLUGIN_CATEGORY_COLORS Reliability = ''text-orange-600 bg-orange-50 border-orange-200''"

record plugin_meta =
  pm_type :: policy_type
  pm_label :: string
  pm_lucideIcon :: string
  pm_color :: string
  pm_textColor :: string
  pm_borderColor :: string
  pm_category :: plugin_category
  pm_compatiblePhases :: "policy_phase list"
  pm_defaultPhase :: policy_phase
  pm_defaultConfig :: dict

definition PLUGIN_REGISTRY :: "plugin_meta list" where
  "PLUGIN_REGISTRY = [
     \<lparr> pm_type = T_auth, pm_label = ''Auth'', pm_lucideIcon = ''ShieldCheck'',
       pm_color = ''bg-violet-100'', pm_textColor = ''text-violet-700'', pm_borderColor = ''border-violet-300'',
       pm_category = Security, pm_compatiblePhases = [PRE_REQUEST], pm_defaultPhase = PRE_REQUEST,
       pm_defaultConfig = [(''methods'', ''jwt''), (''jwt.algorithm'', ''RS256'')] \<rparr>,
     \<lparr> pm_type = T_rate_limit, pm_label = ''Rate Limit'', pm_lucideIcon = ''Gauge'',
       pm_color = ''bg-amber-100'', pm_textColor = ''text-amber-700'', pm_borderColor = ''border-amber-300'',
       pm_category = Traffic, pm_compatiblePhases = [PRE_REQUEST], pm_defaultPhase = PRE_REQUEST,
       pm_defaultConfig = [(''strategy'', ''sliding_window''), (''rpm'', ''1000''), (''key_by'', ''client_id'')] \<rparr>,
     \<lparr> pm_type = T_cors, pm_label = ''CORS'', pm_lucideIcon = ''Globe'',
       pm_color = ''bg-sky-100'', pm_textColor = ''text-sky-700'', pm_borderColor = ''border-sky-300'',
       pm_category = Security, pm_compatiblePhases = [PRE_REQUEST], pm_defaultPhase = PRE_REQUEST,
       pm_defaultConfig = [(''allowed_origins'', ''*''), (''allowed_methods'', ''GET,POST,PUT,DELETE,OPTIONS'')] \<rparr>,
     \<lparr> pm_type = T_ip_whitelist, pm_label = ''IP Filter'', pm_lucideIcon = ''Shield'',
       pm_color = ''bg-red-100'', pm_textColor = ''text-red-700'', pm_borderColor = ''border-red-300'',
       pm_category = Security, pm_compatiblePhases = [PRE_REQUEST], pm_defaultPhase = PRE_REQUEST,
       pm_defaultConfig = [(''mode'', ''whitelist''), (''ips'', [])] \<rparr>,
     \<lparr> pm_type = T_transform, pm_label = ''Transform'', pm_lucideIcon = ''ArrowLeftRight'',
       pm_color = ''bg-teal-100'', pm_textColor = ''text-teal-700'', pm_borderColor = ''border-teal-300'',
       pm_category = Transformation,
       pm_compatiblePhases = [PRE_REQUEST, POST_REQUEST, PRE_RESPONSE, POST_RESPONSE],
       pm_defaultPhase = PRE_REQUEST,
       pm_defaultConfig = [(''inject_request_id'', ''true''), (''inject_gateway_id'', ''true'')] \<rparr>,
     \<lparr> pm_type = T_cache, pm_label = ''Cache'', pm_lucideIcon = ''Layers'',
       pm_color = ''bg-green-100'', pm_textColor = ''text-green-700'', pm_borderColor = ''border-green-300'',
       pm_category = Reliability, pm_compatiblePhases = [PRE_REQUEST, POST_RESPONSE], pm_defaultPhase = PRE_REQUEST,
       pm_defaultConfig = [(''ttl'', ''60''), (''key_by'', ''path'')] \<rparr>,
     \<lparr> pm_type = T_circuit_breaker, pm_label = ''Circuit Breaker'', pm_lucideIcon = ''ToggleLeft'',
       pm_color = ''bg-orange-100'', pm_textColor = ''text-orange-700'', pm_borderColor = ''border-orange-300'',
       pm_category = Reliability, pm_compatiblePhases = [PRE_REQUEST, POST_REQUEST], pm_defaultPhase = PRE_REQUEST,
       pm_defaultConfig = [(''threshold'', ''5''), (''timeout'', ''30''), (''error_threshold'', ''50'')] \<rparr>]"

lemma registry_complete: "\<exists>meta \<in> set PLUGIN_REGISTRY. pm_type meta = ty"
  by (cases ty) (simp_all add: PLUGIN_REGISTRY_def)

lemma registry_find: "\<exists>meta. find (\<lambda>m. pm_type m = ty) PLUGIN_REGISTRY = Some meta \<and> pm_type meta = ty"
proof -
  have "find (\<lambda>m. pm_type m = ty) PLUGIN_REGISTRY \<noteq> None"
    using registry_complete by (auto simp: find_None_iff)
  then show ?thesis by (auto simp: find_Some_iff)
qed

section \<open>Identifiers\<close>

text \<open>\<open>nanoid(len)\<close> on the random bytes that \<open>crypto.getRandomValues\<close> delivers.\<close>

definition nanoid_chars :: string where
  "nanoid_chars = ''ABCDEFGHIJKLMNOPQRSTUVWXYZabcdefghijklmnopqrstuvwxyz0123456789''"

definition nanoid :: "nat list \<Rightarrow> string" where
  "nanoid bytes = map (\<lambda>b. nanoid_chars ! (b mod length nanoid_chars)) bytes"

lemma nanoid_alphabet: "set (nanoid bytes) \<subseteq> set nanoid_chars" "length (nanoid bytes) = length bytes"
proof -
  have "nanoid_chars ! (b mod length nanoid_chars) \<in> set nanoid_chars" for b
    by (rule nth_mem) (simp add: nanoid_chars_def)
  then show "set (nanoid bytes) \<subseteq> set nanoid_chars" by (auto simp: nanoid_def)
qed (simp add: nanoid_def)

end
