(* ===== verification/StudioStore.thy ===== *)
theory StudioStore
  imports StudioTypes
begin

text \<open>
  \<open>studio/src/stores/studio.ts\<close>: the state of the policy editor, its actions and its
  selectors. An action works on a draft of the state and its result replaces the state.
\<close>

section \<open>State and actions\<close>

record studio =
  st_api :: "api_info option"
  st_chain :: "studio_chain option"
  st_isDirty :: bool
  st_isSaving :: bool
  st_selectedPolicyId :: "string option"

definition studio_init :: studio where
  "studio_init = \<lparr> st_api = None, st_chain = None, st_isDirty = False, st_isSaving = False,
     st_selectedPolicyId = None \<rparr>"

text \<open>\<open>state.chain?.policies ?? []\<close>, and an update of the policies of the chain there is.\<close>

definition policies_of :: "studio \<Rightarrow> studio_policy list" where
  "policies_of s = (case st_chain s of None \<Rightarrow> [] | Some ch \<Rightarrow> sc_policies ch)"

definition with_policies :: "studio_policy list \<Rightarrow> studio \<Rightarrow> studio" where
  "with_policies ps s = s\<lparr>st_chain := map_option (\<lambda>ch. ch\<lparr>sc_policies := ps\<rparr>) (st_chain s)\<rparr>"

text \<open>Assignments to \<open>policies.find((p) => p.id === id)\<close> change the first such policy.\<close>

fun update_first :: "string \<Rightarrow> (studio_policy \<Rightarrow> studio_policy) \<Rightarrow> studio_policy list \<Rightarrow> studio_policy list" where
  "update_first i f [] = []"
| "update_first i f (p # ps) = (if sp_id p = i then f p # ps else p # update_first i f ps)"

definition loadChain :: "api_info \<Rightarrow> studio_chain option \<Rightarrow> studio \<Rightarrow> studio" where
  "loadChain api chain s =
     s\<lparr>st_api := Some api, st_chain := chain, st_isDirty := False, st_selectedPolicyId := None\<rparr>"

definition in_phase :: "policy_phase \<Rightarrow> studio_policy list \<Rightarrow> studio_policy list" where
  "in_phase phase ps = filter (\<lambda>p. sp_phase p = phase) ps"

definition addPolicy :: "string \<Rightarrow> policy_type \<Rightarrow> policy_phase \<Rightarrow> studio \<Rightarrow> studio" where
  "addPolicy newId ty phase s =
     (case find (\<lambda>m. pm_type m = ty) PLUGIN_REGISTRY of
        None \<Rightarrow> s
      | Some meta \<Rightarrow>
          let existing = in_phase phase (policies_of s);
              newPolicy = \<lparr> sp_id = newId, sp_type = type_name ty, sp_phase = phase,
                sp_order = int (length existing), sp_enabled = True,
                sp_config = pm_defaultConfig meta, sp_condition = None \<rparr>;
              chain = (case st_chain s of
                Some ch \<Rightarrow> ch
              | None \<Rightarrow> \<lparr> sc_chainId = [], sc_apiId = (case st_api s of None \<Rightarrow> [] | Some a \<Rightarrow> ai_id a),
                  sc_version = 0, sc_etag = [], sc_updatedAt = None, sc_policies = [] \<rparr>)
          in s\<lparr>st_chain := Some (chain\<lparr>sc_policies := sc_policies chain @ [newPolicy]\<rparr>),
               st_selectedPolicyId := Some newId, st_isDirty := True\<rparr>)"

definition removePolicy :: "string \<Rightarrow> studio \<Rightarrow> studio" where
  "removePolicy i s =
     (if st_chain s = None then s
      else let s1 = with_policies (filter (\<lambda>p. sp_id p \<noteq> i) (policies_of s)) s;
               s2 = (if st_selectedPolicyId s1 = Some i then s1\<lparr>st_selectedPolicyId := None\<rparr> else s1)
           in s2\<lparr>st_isDirty := True\<rparr>)"

record policy_patch =
  pp_enabled :: "bool option"
  pp_config :: "dict option"
  pp_condition :: "string option"

definition merge_config :: "dict \<Rightarrow> dict \<Rightarrow> dict" where
  "merge_config old new = fold (\<lambda>(k, v). rset k v) new old"

definition apply_patch :: "policy_patch \<Rightarrow> studio_policy \<Rightarrow> studio_policy" where
  "apply_patch partial p =
     (let p1 = (case pp_enabled partial of None \<Rightarrow> p | Some b \<Rightarrow> p\<lparr>sp_enabled := b\<rparr>);
          p2 = (case pp_config partial of None \<Rightarrow> p1 | Some cfg \<Rightarrow> p1\<lparr>sp_config := merge_config (sp_config p1) cfg\<rparr>)
      in case pp_condition partial of None \<Rightarrow> p2 | Some c \<Rightarrow> p2\<lparr>sp_condition := Some c\<rparr>)"

definition updatePolicy :: "string \<Rightarrow> policy_patch \<Rightarrow> studio \<Rightarrow> studio" where
  "updatePolicy i partial s =
     (case find (\<lambda>p. sp_id p = i) (policies_of s) of
        None \<Rightarrow> s
      | Some _ \<Rightarrow> (with_policies (update_first i (apply_patch partial) (policies_of s)) s)\<lparr>st_isDirty := True\<rparr>)"

text \<open>\<open>orderedIds.forEach((id, idx) => ...)\<close> from a first index on.\<close>

fun renumber :: "policy_phase \<Rightarrow> int \<Rightarrow> string list \<Rightarrow> studio_policy list \<Rightarrow> studio_policy list" where
  "renumber phase idx [] ps = ps"
| "renumber phase idx (i # ids) ps =
     renumber phase (idx + 1) ids
       (update_first i (\<lambda>p. if sp_phase p = phase then p\<lparr>sp_order := idx\<rparr> else p) ps)"

definition reorderPolicies :: "policy_phase \<Rightarrow> string list \<Rightarrow> studio \<Rightarrow> studio" where
  "reorderPolicies phase orderedIds s =
     (if st_chain s = None then s
      else (with_policies (renumber phase 0 orderedIds (policies_of s)) s)\<lparr>st_isDirty := True\<rparr>)"

definition movePolicy :: "string \<Rightarrow> policy_phase \<Rightarrow> studio \<Rightarrow> studio" where
  "movePolicy i newPhase s =
     (case find (\<lambda>p. sp_id p = i) (policies_of s) of
        None \<Rightarrow> s
      | Some _ \<Rightarrow>
          let existing = in_phase newPhase (policies_of s)
          in (with_policies (update_first i
                 (\<lambda>p. p\<lparr>sp_phase := newPhase, sp_order := int (length existing)\<rparr>) (policies_of s)) s)
               \<lparr>st_isDirty := True\<rparr>)"

definition selectPolicy :: "string option \<Rightarrow> studio \<Rightarrow> studio" where
  "selectPolicy i s = s\<lparr>st_selectedPolicyId := i\<rparr>"

definition setSaving :: "bool \<Rightarrow> studio \<Rightarrow> studio" where
  "setSaving v s = s\<lparr>st_isSaving := v\<rparr>"

definition markClean :: "studio_chain \<Rightarrow> studio \<Rightarrow> studio" where
  "markClean chain s = s\<lparr>st_chain := Some chain, st_isDirty := False\<rparr>"

definition selectPoliciesByPhase :: "studio \<Rightarrow> policy_phase \<Rightarrow> studio_policy list" where
  "selectPoliciesByPhase s phase = js_sort (\<lambda>a b. sp_order a - sp_order b) (in_phase phase (policies_of s))"

definition selectSelectedPolicy :: "studio \<Rightarrow> studio_policy option" where
  "selectSelectedPolicy s =
     (case st_selectedPolicyId s of None \<Rightarrow> None | Some i \<Rightarrow> find (\<lambda>p. sp_id p = i) (policies_of s))"

section \<open>Sessions\<close>

datatype studio_action =
    LoadChain api_info "studio_chain option"
  | AddPolicy string policy_type policy_phase
  | RemovePolicy string
  | UpdatePolicy string policy_patch
  | ReorderPolicies policy_phase "string list"
  | MovePolicy string policy_phase
  | SelectPolicy "string option"
  | SetSaving bool
  | MarkClean studio_chain

fun studio_act :: "studio_action \<Rightarrow> studio \<Rightarrow> studio" where
  "studio_act (LoadChain api ch) = loadChain api ch"
| "studio_act (AddPolicy i ty ph) = addPolicy i ty ph"
| "studio_act (RemovePolicy i) = removePolicy i"
| "studio_act (UpdatePolicy i partial) = updatePolicy i partial"
| "studio_act (ReorderPolicies ph ids) = reorderPolicies ph ids"
| "studio_act (MovePolicy i ph) = movePolicy i ph"
| "studio_act (SelectPolicy i) = selectPolicy i"
| "studio_act (SetSaving v) = setSaving v"
| "studio_act (MarkClean ch) = markClean ch"

definition studio_session :: "studio_action list \<Rightarrow> studio" where
  "studio_session acts = fold studio_act acts studio_init"

end
