(* ===== verification/StudioProps.thy ===== *)
theory StudioProps
  imports StudioStore
begin

text \<open>
  What the editor's store promises: the dirty flag, the order that a reordering asks for, and
  where a new policy appears.
\<close>

section \<open>The dirty flag\<close>

text \<open>The chain that was loaded from or saved to the server last.\<close>

fun saved_chain :: "studio_action \<Rightarrow> studio_chain option \<Rightarrow> studio_chain option" where
  "saved_chain (LoadChain api ch) old = ch"
| "saved_chain (MarkClean ch) old = Some ch"
| "saved_chain _ old = old"

definition last_saved :: "studio_action list \<Rightarrow> studio_chain option" where
  "last_saved acts = fold saved_chain acts None"

lemmas studio_defs = loadChain_def addPolicy_def removePolicy_def updatePolicy_def reorderPolicies_def
  movePolicy_def selectPolicy_def setSaving_def markClean_def with_policies_def Let_def

lemma act_clean:
  assumes "\<not> st_isDirty s \<Longrightarrow> st_chain s = old" and "\<not> st_isDirty (studio_act a s)"
  shows "st_chain (studio_act a s) = saved_chain a old"
  using assms by (cases a) (auto simp: studio_defs split: option.splits if_splits)

lemma fold_clean:
  "(\<not> st_isDirty s \<Longrightarrow> st_chain s = old) \<Longrightarrow> \<not> st_isDirty (fold studio_act acts s) \<Longrightarrow>
   st_chain (fold studio_act acts s) = fold saved_chain acts old"
proof (induction acts arbitrary: s old)
  case (Cons a acts)
  from Cons.IH [of "studio_act a s" "saved_chain a old"] Cons.prems act_clean show ?case by simp
qed simp

text \<open>
  The editor never hides an unsaved change: whatever the user did, as long as the state is
  not marked dirty its chain is the one loaded or saved last.
\<close>

theorem dirty_flag_sound:
  assumes "\<not> st_isDirty (studio_session acts)"
  shows "st_chain (studio_session acts) = last_saved acts"
  unfolding studio_session_def last_saved_def
  by (rule fold_clean [OF _ assms [unfolded studio_session_def]]) (simp add: studio_init_def)

definition sample_api :: api_info where
  "sample_api = \<lparr> ai_id = ''a1'', ai_name = ''Orders'', ai_version = ''v1'', ai_basePath = ''/orders'',
     ai_upstreamUrl = ''http://orders'', ai_description = None, ai_status = ''ACTIVE'', ai_orgId = ''o1'',
     ai_tags = [], ai_policyChain = None \<rparr>"

definition sample_chain :: "studio_policy list \<Rightarrow> studio_chain" where
  "sample_chain ps = \<lparr> sc_chainId = ''c1'', sc_apiId = ''a1'', sc_version = 1, sc_etag = ''e'',
     sc_updatedAt = None, sc_policies = ps \<rparr>"

definition sample_edits :: "studio_action list" where
  "sample_edits =
     [LoadChain sample_api None, AddPolicy ''p1'' T_auth PRE_REQUEST, SetSaving True,
      MarkClean (sample_chain []), SetSaving False, RemovePolicy ''p1'',
      LoadChain sample_api (Some (sample_chain []))]"

theorem dirty_flag_sound_witness:
  "st_chain (studio_session sample_edits) = Some (sample_chain [])"
proof -
  have "\<not> st_isDirty (studio_session sample_edits)"
    by (simp add: studio_session_def sample_edits_def loadChain_def)
  from dirty_flag_sound [OF this] show ?thesis by (simp add: last_saved_def sample_edits_def)
qed

section \<open>Reordering\<close>

primrec pos :: "'a list \<Rightarrow> 'a \<Rightarrow> nat" where
  "pos [] x = 0"
| "pos (y # ys) x = (if x = y then 0 else Suc (pos ys x))"

lemma map_pos: "distinct xs \<Longrightarrow> map (pos xs) xs = [0..<length xs]"
proof (induction xs)
  case (Cons x xs)
  then have IH: "map (pos xs) xs = [0..<length xs]" by simp
  have "map (pos (x # xs)) xs = map Suc (map (pos xs) xs)" using Cons.prems by auto
  then have "map (pos (x # xs)) xs = map Suc [0..<length xs]" unfolding IH .
  moreover have "[0..<length (x # xs)] = 0 # map Suc [0..<length xs]"
    by (simp add: map_Suc_upt upt_conv_Cons del: upt_Suc)
  ultimately show ?case by (simp del: pos.simps(2) upt_Suc) simp
qed simp

lemma update_first_distinct:
  "distinct (map sp_id ps) \<Longrightarrow> update_first i f ps = map (\<lambda>p. if sp_id p = i then f p else p) ps"
proof (induction ps)
  case (Cons p ps)
  have "map (\<lambda>p. if sp_id p = i then f p else p) ps = ps" if "sp_id p = i"
    using that Cons.prems by (intro map_idI) (metis distinct.simps(2) image_eqI list.set_map list.simps(9))
  with Cons show ?case by simp
qed simp

definition numbered :: "policy_phase \<Rightarrow> int \<Rightarrow> string list \<Rightarrow> studio_policy \<Rightarrow> studio_policy" where
  "numbered phase k ids p =
     (if sp_phase p = phase \<and> sp_id p \<in> set ids then p\<lparr>sp_order := k + int (pos ids (sp_id p))\<rparr> else p)"

lemma numbered_keeps [simp]:
  "sp_id (numbered phase k ids p) = sp_id p" "sp_phase (numbered phase k ids p) = sp_phase p"
  by (simp_all add: numbered_def)

lemma renumber_map:
  "distinct ids \<Longrightarrow> distinct (map sp_id ps) \<Longrightarrow> renumber phase k ids ps = map (numbered phase k ids) ps"
proof (induction ids arbitrary: k ps)
  case Nil
  then show ?case by (simp add: numbered_def)
next
  case (Cons i ids)
  let ?f = "\<lambda>p. if sp_id p = i then (if sp_phase p = phase then p\<lparr>sp_order := k\<rparr> else p) else p"
  have "map sp_id (map ?f ps) = map sp_id ps" by (induction ps) simp_all
  then have ids: "distinct (map sp_id (map ?f ps))" using Cons.prems(2) by (simp only:)
  have "renumber phase k (i # ids) ps = renumber phase (k + 1) ids (map ?f ps)"
    by (simp add: update_first_distinct [OF Cons.prems(2)])
  also have "\<dots> = map (numbered phase (k + 1) ids) (map ?f ps)"
    using Cons.prems(1) ids by (intro Cons.IH) simp_all
  also have "\<dots> = map (numbered phase k (i # ids)) ps"
    using Cons.prems(1) by (auto simp: numbered_def)
  finally show ?case .
qed

lemma order_sort: "selectPoliciesByPhase s phase = sort_key sp_order (in_phase phase (policies_of s))"
  unfolding selectPoliciesByPhase_def by (subst js_sort_sort_key [of _ sp_order]) auto

lemma sort_by_pos:
  assumes "distinct ids" and "distinct (map sp_id qs)" and "set ids = sp_id ` set qs"
    and "\<forall>q \<in> set qs. sp_order q = int (pos ids (sp_id q))"
  shows "map sp_id (sort_key sp_order qs) = ids"
proof -
  let ?L = "map sp_id (sort_key sp_order qs)"
  have sets: "set ?L = set ids" using assms(3) by simp
  have inj: "inj_on (pos ids) (set ids)"
    using map_pos [OF assms(1)] distinct_map [of "pos ids" ids] by simp
  have "map int (map (pos ids) ?L) = map sp_order (sort_key sp_order qs)"
    using assms(4) by simp
  then have "sorted (map int (map (pos ids) ?L))" by (simp only: sorted_sort_key)
  then have "sorted (map (pos ids) ?L)" by (auto simp: sorted_wrt_map)
  moreover have dist: "distinct ?L"
    using assms(2) by (metis distinct_map distinct_sort set_sort)
  have "distinct (map (pos ids) ?L)" unfolding distinct_map [of "pos ids" ?L] sets using dist inj by blast
  moreover have "sorted (map (pos ids) ids)" "distinct (map (pos ids) ids)"
    by (simp_all add: map_pos [OF assms(1)])
  ultimately have "map (pos ids) ?L = map (pos ids) ids"
    using \<open>distinct (map (pos ids) ?L)\<close> set_map [of "pos ids" ?L] set_map [of "pos ids" ids]
    unfolding sets by (intro sorted_distinct_set_unique) simp_all
  then show ?thesis using inj sets by (metis map_inj_on sup.idem)
qed

lemma in_phase_map:
  "(\<And>p. sp_phase (f p) = sp_phase p) \<Longrightarrow> in_phase ph (map f ps) = map f (in_phase ph ps)"
  by (induction ps) (auto simp: in_phase_def)

lemma policies_with [simp]:
  "st_chain s \<noteq> None \<Longrightarrow> policies_of (with_policies ps s) = ps"
  "policies_of (s\<lparr>st_isDirty := b\<rparr>) = policies_of s"
  by (auto simp: policies_of_def with_policies_def)

text \<open>
  Reordering is exact: if the identifiers are those of the policies of the phase, the phase
  shows them in the order asked for, and the other phases are as they were.
\<close>

theorem reorder_exact:
  assumes "st_chain s \<noteq> None" and "distinct (map sp_id (policies_of s))"
    and "distinct ids" and "set ids = sp_id ` set (in_phase phase (policies_of s))"
  shows "map sp_id (selectPoliciesByPhase (reorderPolicies phase ids s) phase) = ids \<and>
    (\<forall>ph. ph \<noteq> phase \<longrightarrow> selectPoliciesByPhase (reorderPolicies phase ids s) ph = selectPoliciesByPhase s ph)"
proof -
  let ?f = "numbered phase 0 ids" and ?ps = "policies_of s"
  have ps: "policies_of (reorderPolicies phase ids s) = map ?f ?ps"
    using assms(1) renumber_map [OF assms(3,2)] by (auto simp: reorderPolicies_def)
  have ph: "in_phase ph (map ?f ?ps) = map ?f (in_phase ph ?ps)" for ph by (rule in_phase_map) simp
  have "map sp_id (sort_key sp_order (map ?f (in_phase phase ?ps))) = ids"
  proof (rule sort_by_pos [OF assms(3)])
    show "distinct (map sp_id (map ?f (in_phase phase ?ps)))"
      using assms(2) by (simp add: in_phase_def comp_def distinct_map_filter)
    show "set ids = sp_id ` set (map ?f (in_phase phase ?ps))"
      using assms(4) by (auto simp: image_image)
    show "\<forall>q \<in> set (map ?f (in_phase phase ?ps)). sp_order q = int (pos ids (sp_id q))"
      using assms(4) by (auto simp: numbered_def in_phase_def)
  qed
  moreover have "map ?f (in_phase ph ?ps) = in_phase ph ?ps" if "ph \<noteq> phase" for ph
    using that by (intro map_idI) (auto simp: numbered_def in_phase_def)
  ultimately show ?thesis by (simp add: order_sort ps ph)
qed

definition sample_policy :: "string \<Rightarrow> int \<Rightarrow> studio_policy" where
  "sample_policy i n = \<lparr> sp_id = i, sp_type = ''cors'', sp_phase = PRE_REQUEST, sp_order = n, sp_enabled = True,
     sp_config = [], sp_condition = None \<rparr>"

definition sample_state :: studio where
  "sample_state = studio_init\<lparr>st_chain :=
     Some (sample_chain [sample_policy ''x'' 0, sample_policy ''y'' 1, sample_policy ''z'' 2])\<rparr>"

lemma sample_policies:
  "policies_of sample_state = [sample_policy ''x'' 0, sample_policy ''y'' 1, sample_policy ''z'' 2]"
  "st_chain sample_state \<noteq> None"
  by (simp_all add: sample_state_def policies_of_def sample_chain_def)

theorem reorder_exact_witness:
  "map sp_id (selectPoliciesByPhase (reorderPolicies PRE_REQUEST [''z'', ''x'', ''y''] sample_state) PRE_REQUEST) =
     [''z'', ''x'', ''y'']"
  using reorder_exact [of sample_state "[''z'', ''x'', ''y'']" PRE_REQUEST]
  by (auto simp: sample_policies sample_policy_def in_phase_def)

section \<open>New policies\<close>

lemma sort_key_snoc_last:
  "\<forall>y \<in> set xs. f y \<le> f x \<Longrightarrow> sort_key f (xs @ [x]) = sort_key f xs @ [x]"
proof (induction xs)
  case (Cons y xs)
  have "insort_key f y (zs @ [x]) = insort_key f y zs @ [x]" if "f y \<le> f x" for zs
    using that by (induction zs) auto
  with Cons show ?case by (simp add: sort_key_def)
qed (simp add: sort_key_def)

text \<open>
  A new policy appears last in its phase, and nothing else moves, as long as no policy of
  the phase carries an order above their number, which holds when the orders count from 0.
\<close>

theorem addPolicy_last:
  assumes "\<forall>p \<in> set (in_phase phase (policies_of s)). sp_order p \<le> int (length (in_phase phase (policies_of s)))"
  shows "map sp_id (selectPoliciesByPhase (addPolicy i ty phase s) phase) =
           map sp_id (selectPoliciesByPhase s phase) @ [i] \<and>
         (\<forall>ph. ph \<noteq> phase \<longrightarrow> selectPoliciesByPhase (addPolicy i ty phase s) ph = selectPoliciesByPhase s ph)"
proof -
  obtain meta where meta: "find (\<lambda>m. pm_type m = ty) PLUGIN_REGISTRY = Some meta"
    using registry_find by blast
  let ?n = "\<lparr> sp_id = i, sp_type = type_name ty, sp_phase = phase,
    sp_order = int (length (in_phase phase (policies_of s))), sp_enabled = True,
    sp_config = pm_defaultConfig meta, sp_condition = None \<rparr>"
  have ps: "policies_of (addPolicy i ty phase s) = policies_of s @ [?n]"
    by (simp add: addPolicy_def meta policies_of_def Let_def split: option.splits)
  have "in_phase ph (policies_of s @ [?n]) =
      in_phase ph (policies_of s) @ (if ph = phase then [?n] else [])" for ph
    by (auto simp: in_phase_def)
  with sort_key_snoc_last [of _ sp_order ?n] assms show ?thesis
    by (simp add: order_sort ps)
qed

theorem addPolicy_last_witness:
  "map sp_id (selectPoliciesByPhase (addPolicy ''new'' T_auth PRE_REQUEST sample_state) PRE_REQUEST) =
     [''x'', ''y'', ''z'', ''new'']"
proof -
  have "map sp_id (selectPoliciesByPhase sample_state PRE_REQUEST) = [''x'', ''y'', ''z'']"
    by (simp add: selectPoliciesByPhase_def js_sort_def sample_policies sample_policy_def in_phase_def)
  then show ?thesis
    using addPolicy_last [of PRE_REQUEST sample_state "''new''" T_auth]
    by (simp add: sample_policies sample_policy_def in_phase_def)
qed

text \<open>
  A removal leaves a gap in the orders and the count falls behind: here the new policy takes
  the place before the one that was there.
\<close>

lemma added_after_removal:
  "map sp_id (selectPoliciesByPhase
     (addPolicy ''new'' T_auth PRE_REQUEST (removePolicy ''y'' (removePolicy ''x'' sample_state))) PRE_REQUEST) =
     [''new'', ''z'']"
  by code_simp

end
