(* ===== verification/StudioDeploy.thy ===== *)
theory StudioDeploy
  imports BffClient StudioProps Executor
begin

text \<open>
  From the editor to the gateway: publishing a chain in \<open>studio/src/pages/Editor.tsx\<close>, the
  resolvers of \<open>manager/bff/src/resolvers/policy.ts\<close> over the policy engine's client
  \<open>datasources/policy-api.ts\<close>, and back into the editor's store. The engine's chains are those
  that the gateway reads.
\<close>

section \<open>The policy engine's client\<close>

definition PolicyAPI :: "bff_env \<Rightarrow> auth_user option \<Rightarrow> service_client" where
  "PolicyAPI E user = ServiceClient (be_POLICY_ENGINE_URL E) (Some (identityHeaders user))"

definition chain_path :: "string \<Rightarrow> string" where
  "chain_path apiId = ''/v1/chains/'' @ apiId"

record bff_chain = chain +
  bc_updatedAt :: "string option"

text \<open>The body of an answer is taken for a chain as it is; its fields are read as their types say.\<close>

definition decode_chain :: "json \<Rightarrow> exn + bff_chain" where
  "decode_chain v =
     (let obj = json_obj v
      in case chain_policies v of
           Inl e \<Rightarrow> Inl e
         | Inr ps \<Rightarrow> Inr \<lparr> ch_chainId = orelse (sfield obj ''chain_id'') [], ch_apiId = orelse (sfield obj ''api_id'') [],
             ch_version = (case rget obj ''version'' of None \<Rightarrow> 0 | Some n \<Rightarrow> json_int n),
             ch_etag = orelse (sfield obj ''etag'') [], ch_policies = ps,
             bc_updatedAt = sfield obj ''updated_at'' \<rparr>)"

definition api_getPolicyChain :: "ext \<Rightarrow> bff_env \<Rightarrow> auth_user option \<Rightarrow> string \<Rightarrow> 'd io \<Rightarrow> json option \<times> 'd io" where
  "api_getPolicyChain X E user apiId w =
     (case sv_get X E (PolicyAPI E user) (chain_path apiId) w of
        (Inl e, w1) \<Rightarrow> (None, w1) | (Inr j, w1) \<Rightarrow> (Some j, w1))"

definition api_publishPolicyChain ::
  "ext \<Rightarrow> bff_env \<Rightarrow> auth_user option \<Rightarrow> string \<Rightarrow> json \<Rightarrow> 'd io \<Rightarrow> (exn + json) \<times> 'd io" where
  "api_publishPolicyChain X E user apiId input = sv_post X E (PolicyAPI E user) (chain_path apiId) input"

definition api_validatePolicyChain ::
  "ext \<Rightarrow> bff_env \<Rightarrow> auth_user option \<Rightarrow> string \<Rightarrow> json \<Rightarrow> 'd io \<Rightarrow> (exn + json) \<times> 'd io" where
  "api_validatePolicyChain X E user apiId input =
     sv_post X E (PolicyAPI E user) (chain_path apiId @ ''/validate'') input"

definition api_invalidateCache :: "ext \<Rightarrow> bff_env \<Rightarrow> auth_user option \<Rightarrow> string \<Rightarrow> 'd io \<Rightarrow> (exn + json) \<times> 'd io" where
  "api_invalidateCache X E user apiId = sv_delete X E (PolicyAPI E user) (chain_path apiId @ ''/cache'')"

section \<open>The resolvers\<close>

text \<open>\<open>mapChain\<close>: the phases in capitals.\<close>

definition mapChain :: "bff_chain \<Rightarrow> bff_chain" where
  "mapChain c = c\<lparr>ch_policies := map (\<lambda>p. p\<lparr>p_phase := js_upper (p_phase p)\<rparr>) (ch_policies c)\<rparr>"

definition chain_result :: "exn + bff_chain \<Rightarrow> bff_error + bff_chain" where
  "chain_result r = (case r of Inl e \<Rightarrow> Inl (Thrown e) | Inr c \<Rightarrow> Inr (mapChain c))"

definition resolve_policyChain ::
  "ext \<Rightarrow> bff_env \<Rightarrow> auth_user option \<Rightarrow> string \<Rightarrow> 'd io \<Rightarrow> (bff_error + bff_chain) \<times> 'd io" where
  "resolve_policyChain X E user apiId w =
     (case requireAuth user of
        Some e \<Rightarrow> (Inl e, w)
      | None \<Rightarrow>
          (case api_getPolicyChain X E user apiId w of
             (None, w1) \<Rightarrow> (Inl (notFound ''PolicyChain'' apiId), w1)
           | (Some j, w1) \<Rightarrow>
               (if js_truthy j then (chain_result (decode_chain j), w1)
                else (Inl (notFound ''PolicyChain'' apiId), w1))))"

text \<open>\<open>{ ...p, phase: p.phase.toLowerCase() }\<close> on the members of an input policy.\<close>

definition lower_phase :: "jobj \<Rightarrow> jobj" where
  "lower_phase p = rset ''phase'' (JStr (js_lower (orelse (sfield p ''phase'') []))) p"

definition resolve_publish ::
  "ext \<Rightarrow> bff_env \<Rightarrow> auth_user option \<Rightarrow> string \<Rightarrow> jobj list \<Rightarrow> 'd io \<Rightarrow> (bff_error + bff_chain) \<times> 'd io" where
  "resolve_publish X E user apiId inputs w =
     (case requireAuth user of
        Some e \<Rightarrow> (Inl e, w)
      | None \<Rightarrow>
          (case api_publishPolicyChain X E user apiId
                  (JObj [(''policies'', JArr (map (\<lambda>p. JObj (lower_phase p)) inputs))]) w of
             (Inl e, w1) \<Rightarrow> (Inl (Thrown e), w1)
           | (Inr j, w1) \<Rightarrow> (chain_result (decode_chain j), w1)))"

definition resolve_invalidate ::
  "ext \<Rightarrow> bff_env \<Rightarrow> auth_user option \<Rightarrow> string \<Rightarrow> 'd io \<Rightarrow> (bff_error + bool) \<times> 'd io" where
  "resolve_invalidate X E user apiId w =
     (case requireAuth user of
        Some e \<Rightarrow> (Inl e, w)
      | None \<Rightarrow>
          (case api_invalidateCache X E user apiId w of
             (Inl e, w1) \<Rightarrow> (Inl (Thrown e), w1) | (Inr _, w1) \<Rightarrow> (Inr True, w1)))"

section \<open>The schema\<close>

text \<open>
  The parts of \<open>schema/typeDefs.ts\<close> between both sides. A result is serialised: a phase must be
  one of the enum \<open>PolicyPhase\<close>, else the whole answer is an error. Before the resolver runs,
  every policy of an input is coerced to the type \<open>PolicyInput\<close>; \<open>coerces fields obj\<close> says
  whether the server accepts the object for a type with these fields.
\<close>

definition phase_of :: "string \<Rightarrow> policy_phase option" where
  "phase_of name = find (\<lambda>ph. phase_name ph = name) STUDIO_PHASE_ORDER"

definition to_studio_policy :: "policy \<Rightarrow> studio_policy option" where
  "to_studio_policy p =
     map_option (\<lambda>ph. \<lparr> sp_id = p_id p, sp_type = p_type p, sp_phase = ph, sp_order = p_order p,
       sp_enabled = p_enabled p, sp_config = p_config p, sp_condition = p_condition p \<rparr>) (phase_of (p_phase p))"

definition serialize_chain :: "bff_error + bff_chain \<Rightarrow> bff_error + studio_chain" where
  "serialize_chain r =
     (case r of
        Inl e \<Rightarrow> Inl e
      | Inr c \<Rightarrow>
          (case those (map to_studio_policy (ch_policies c)) of
             None \<Rightarrow> Inl (Gql (GraphQLError ''Enum \"PolicyPhase\" cannot represent value'' ''INTERNAL_SERVER_ERROR''))
           | Some ps \<Rightarrow> Inr \<lparr> sc_chainId = ch_chainId c, sc_apiId = ch_apiId c, sc_version = ch_version c,
               sc_etag = ch_etag c, sc_updatedAt = bc_updatedAt c, sc_policies = ps \<rparr>))"

definition PolicyInput_fields :: "string list" where
  "PolicyInput_fields = [''type'', ''phase'', ''order'', ''enabled'', ''config'', ''condition'']"

definition execute_publish ::
  "(string list \<Rightarrow> jobj \<Rightarrow> bool) \<Rightarrow> ext \<Rightarrow> bff_env \<Rightarrow> auth_user option \<Rightarrow> string \<Rightarrow> jobj list \<Rightarrow> 'd io \<Rightarrow>
   (bff_error + studio_chain) \<times> 'd io" where
  "execute_publish coerces X E user apiId inputs w =
     (if list_all (coerces PolicyInput_fields) inputs
      then apfst serialize_chain (resolve_publish X E user apiId inputs w)
      else (Inl (Gql (GraphQLError ''Variable \"$input\" got invalid value'' ''BAD_USER_INPUT'')), w))"

section \<open>The editor\<close>

definition config_json :: "dict \<Rightarrow> json" where
  "config_json d = JObj (map (\<lambda>(k, v). (k, JStr v)) d)"

definition policy_input :: "studio_policy \<Rightarrow> jobj" where
  "policy_input p =
     [(''id'', JStr (sp_id p)), (''type'', JStr (sp_type p)), (''phase'', JStr (phase_name (sp_phase p))),
      (''order'', JNum (of_int (sp_order p))), (''enabled'', JBool (sp_enabled p)),
      (''config'', config_json (sp_config p)),
      (''condition'', case sp_condition p of None \<Rightarrow> JNull | Some c \<Rightarrow> JStr c)]"

text \<open>The chain of the query \<open>api\<close> as the editor loads it, at the time \<open>nowIso\<close>.\<close>

definition loaded_chain :: "string \<Rightarrow> string \<Rightarrow> studio_chain \<Rightarrow> studio_chain" where
  "loaded_chain nowIso apiId c = c\<lparr>sc_apiId := apiId, sc_updatedAt := Some (orelse (sc_updatedAt c) nowIso)\<rparr>"

record deploy_view =
  dv_error :: "string option"
  dv_success :: bool

fun error_message :: "bff_error \<Rightarrow> string" where
  "error_message (Gql (GraphQLError msg code)) = msg"
| "error_message (Thrown (JsError name msg)) = msg"
| "error_message (Thrown NonError) = ''publish failed''"

definition handleDeploy ::
  "(jobj list \<Rightarrow> 'w \<Rightarrow> (bff_error + studio_chain) \<times> 'w) \<Rightarrow> ('w \<Rightarrow> (bff_error + bool) \<times> 'w) \<Rightarrow>
   studio \<Rightarrow> deploy_view \<Rightarrow> 'w \<Rightarrow> studio \<times> deploy_view \<times> 'w" where
  "handleDeploy publish invalidate s v w =
     (case st_chain s of
        None \<Rightarrow> (s, v, w)
      | Some ch \<Rightarrow>
          let s1 = setSaving True s; v1 = \<lparr> dv_error = None, dv_success = False \<rparr>
          in case publish (map policy_input (sc_policies ch)) w of
               (Inl e, w1) \<Rightarrow> (setSaving False s1, v1\<lparr>dv_error := Some (error_message e)\<rparr>, w1)
             | (Inr c, w1) \<Rightarrow>
                 (case invalidate w1 of
                    (Inl e, w2) \<Rightarrow> (setSaving False s1, v1\<lparr>dv_error := Some (error_message e)\<rparr>, w2)
                  | (Inr _, w2) \<Rightarrow>
                      (setSaving False (markClean c s1), v1\<lparr>dv_success := True\<rparr>, w2)))"

section \<open>What is shown is what runs\<close>

definition engine_phase :: "policy_phase \<Rightarrow> string" where
  "engine_phase ph = js_lower (phase_name ph)"

lemma phase_of_upper: "phase_of (js_upper (engine_phase ph)) = Some ph"
proof -
  have "list_all (\<lambda>ph. phase_of (js_upper (engine_phase ph)) = Some ph) STUDIO_PHASE_ORDER" by code_simp
  then show ?thesis by (cases ph) (simp_all add: STUDIO_PHASE_ORDER_def)
qed

lemma engine_phase_eq: "engine_phase ph = engine_phase ph' \<longleftrightarrow> ph = ph'"
  by (metis option.inject phase_of_upper)

lemma gateway_runs_engine_phases: "map engine_phase STUDIO_PHASE_ORDER = map fst PHASE_ORDER"
  by code_simp

text \<open>How a policy of the engine looks in the editor, once its phase is known.\<close>

definition shown :: "policy \<Rightarrow> policy_phase \<Rightarrow> studio_policy" where
  "shown p ph = \<lparr> sp_id = p_id p, sp_type = p_type p, sp_phase = ph, sp_order = p_order p,
     sp_enabled = p_enabled p, sp_config = p_config p, sp_condition = p_condition p \<rparr>"

lemma to_studio_upper:
  "p_phase p = engine_phase ph \<Longrightarrow> to_studio_policy (p\<lparr>p_phase := js_upper (p_phase p)\<rparr>) = Some (shown p ph)"
  by (simp add: to_studio_policy_def phase_of_upper shown_def)

lemma those_map_Some: "those (map (\<lambda>x. Some (f x)) xs) = Some (map f xs)"
  by (induction xs) auto

lemma serialize_mapChain:
  assumes "\<forall>p \<in> set (ch_policies c). p_phase p = engine_phase (g p)"
  shows "serialize_chain (Inr (mapChain c)) = Inr \<lparr> sc_chainId = ch_chainId c, sc_apiId = ch_apiId c,
    sc_version = ch_version c, sc_etag = ch_etag c, sc_updatedAt = bc_updatedAt c,
    sc_policies = map (\<lambda>p. shown p (g p)) (ch_policies c) \<rparr>"
proof -
  have "map (to_studio_policy \<circ> (\<lambda>p. p\<lparr>p_phase := js_upper (p_phase p)\<rparr>)) (ch_policies c) =
      map (\<lambda>p. Some (shown p (g p))) (ch_policies c)"
    using assms to_studio_upper by (intro map_cong) auto
  then have "map to_studio_policy (ch_policies (mapChain c)) = map (\<lambda>p. Some (shown p (g p))) (ch_policies c)"
    unfolding mapChain_def by simp
  note those = arg_cong [OF this, of those, unfolded those_map_Some]
  show ?thesis unfolding serialize_chain_def sum.case those option.case
    by (simp add: mapChain_def)
qed

lemma sort_key_map: "sort_key f (map g xs) = map g (sort_key (f \<circ> g) xs)"
proof (induction xs)
  case (Cons x xs)
  have "insort_key f (g x) (map g ys) = map g (insort_key (f \<circ> g) x ys)" for ys
    by (induction ys) auto
  with Cons show ?case by (simp add: sort_key_def comp_def)
qed (simp add: sort_key_def)

lemma phase_policies_sorted:
  "phase_policies phase ps = sort_key p_order (filter (\<lambda>p. p_enabled p \<and> p_phase p = phase) ps)"
  unfolding phase_policies_def by (subst js_sort_sort_key [of _ p_order]) auto

text \<open>
  C17. The editor shows what the gateway runs: a chain of the engine, resolved by the BFF and
  loaded into the store, lists in each phase the enabled policies with their configurations in
  exactly the order in which the gateway's executor takes them for that phase.
\<close>

theorem studio_shows_gateway_order:
  assumes "\<forall>p \<in> set (ch_policies c). p_phase p = engine_phase (g p)"
    and "serialize_chain (Inr (mapChain c)) = Inr sc"
  shows "map (\<lambda>p. (sp_id p, sp_type p, sp_config p, sp_condition p))
           (filter sp_enabled (selectPoliciesByPhase (loadChain api (Some (loaded_chain nowIso apiId sc)) s) ph)) =
         map (\<lambda>p. (p_id p, p_type p, p_config p, p_condition p)) (phase_policies (engine_phase ph) (ch_policies c))"
proof -
  let ?f = "\<lambda>p. shown p (g p)" and ?ps = "ch_policies c"
  have "policies_of (loadChain api (Some (loaded_chain nowIso apiId sc)) s) = map ?f ?ps"
    using serialize_mapChain [OF assms(1)] assms(2) by (auto simp: policies_of_def loadChain_def loaded_chain_def)
  moreover have "filter sp_enabled (in_phase ph (map ?f ?ps)) =
      map ?f (filter (\<lambda>p. p_enabled p \<and> p_phase p = engine_phase ph) ?ps)"
    using assms(1) by (induction ?ps) (auto simp: in_phase_def shown_def engine_phase_eq filter_map comp_def
        intro!: arg_cong [where f = "map _"] filter_cong)
  moreover have "sp_order \<circ> ?f = p_order" by (auto simp: shown_def)
  ultimately show ?thesis
    by (simp add: order_sort filter_sort sort_key_map phase_policies_sorted comp_def shown_def)
qed

text \<open>
  Publishing from the editor fails: it sends the identifier of every policy, which the input
  type of the mutation does not declare. On a server that rejects undeclared fields, deploying a
  chain with a policy calls no service, reports the error and leaves the chain unsaved.
\<close>

theorem deploy_rejected:
  assumes "\<And>obj k. k \<in> fst ` set obj \<Longrightarrow> k \<notin> set PolicyInput_fields \<Longrightarrow> \<not> coerces PolicyInput_fields obj"
    and "st_chain s = Some ch" and "sc_policies ch \<noteq> []"
  shows "handleDeploy (execute_publish coerces X E user apiId) (resolve_invalidate X E user apiId) s v w =
    (s\<lparr>st_isSaving := False\<rparr>,
     \<lparr> dv_error = Some ''Variable \"$input\" got invalid value'', dv_success = False \<rparr>, w)"
proof -
  obtain p ps where p: "sc_policies ch = p # ps" using assms(3) by (cases "sc_policies ch") auto
  have "\<not> coerces PolicyInput_fields (policy_input p)"
    by (rule assms(1) [of "''id''"]) (simp_all add: policy_input_def PolicyInput_fields_def)
  then show ?thesis using assms(2) p
    by (simp add: handleDeploy_def execute_publish_def setSaving_def Let_def)
qed

definition sample_engine_policy :: "string \<Rightarrow> int \<Rightarrow> bool \<Rightarrow> policy" where
  "sample_engine_policy i n b = \<lparr> p_id = i, p_type = ''cors'', p_phase = ''pre_request'', p_order = n, p_enabled = b,
     p_config = [(''max_age'', i)], p_condition = None \<rparr>"

definition sample_engine_chain :: bff_chain where
  "sample_engine_chain = \<lparr> ch_chainId = ''c1'', ch_apiId = ''a1'', ch_version = 3, ch_etag = ''e3'',
     ch_policies = [sample_engine_policy ''x'' 2 True, sample_engine_policy ''y'' 0 False, sample_engine_policy ''z'' 1 True],
     bc_updatedAt = None \<rparr>"

lemma sample_gateway_order:
  "map (\<lambda>p. (p_id p, p_type p, p_config p, p_condition p))
     (phase_policies (engine_phase PRE_REQUEST) (ch_policies sample_engine_chain)) =
   [(''z'', ''cors'', [(''max_age'', ''z'')], None), (''x'', ''cors'', [(''max_age'', ''x'')], None)]"
  by code_simp

theorem studio_shows_gateway_order_witness:
  "\<exists>sc. serialize_chain (Inr (mapChain sample_engine_chain)) = Inr sc \<and>
    map (\<lambda>p. (sp_id p, sp_type p, sp_config p, sp_condition p))
      (filter sp_enabled (selectPoliciesByPhase
        (loadChain sample_api (Some (loaded_chain ''2024-01-01'' ''a1'' sc)) studio_init) PRE_REQUEST)) =
    [(''z'', ''cors'', [(''max_age'', ''z'')], None), (''x'', ''cors'', [(''max_age'', ''x'')], None)]"
proof -
  have ph: "\<forall>p \<in> set (ch_policies sample_engine_chain). p_phase p = engine_phase ((\<lambda>_. PRE_REQUEST) p)"
    by code_simp
  note sc = serialize_mapChain [OF ph]
  from studio_shows_gateway_order [OF ph sc, where ph = PRE_REQUEST] show ?thesis
    unfolding sample_gateway_order using sc by blast
qed

theorem deploy_rejected_witness:
  "fst (handleDeploy (execute_publish (\<lambda>fields obj. list_all (\<lambda>(k, _). k \<in> set fields) obj) sample_ext sample_bff None ''a1'')
     (resolve_invalidate sample_ext sample_bff None ''a1'') sample_state \<lparr> dv_error = None, dv_success = False \<rparr> sample_io) =
   sample_state"
proof -
  have state: "st_chain sample_state = Some (sample_chain [sample_policy ''x'' 0, sample_policy ''y'' 1, sample_policy ''z'' 2])"
    "sample_state\<lparr>st_isSaving := False\<rparr> = sample_state"
    by (simp_all add: sample_state_def studio_init_def)
  note use = deploy_rejected [where coerces = "\<lambda>fields obj. list_all (\<lambda>(k, _). k \<in> set fields) obj", OF _ state(1)]
  show ?thesis by (subst use) (auto simp: sample_chain_def state(2) list_all_iff)
qed

end
