(* ===== verification/AuditSink.thy ===== *)
theory AuditSink
  imports Fetch
begin

text \<open>
  \<open>manager/services/audit-sink\<close>: the audit record taken from a Kafka message
  (\<open>kafka/consumer.ts\<close>) and the transaction that appends it to the table \<open>audit_log\<close>
  (\<open>store/pg.ts\<close>), statement by statement, for any number of consumers at once. The column
  \<open>payload\<close> is \<open>jsonb\<close>: what PostgreSQL keeps of a text is the parameter \<open>jb\<close>.
\<close>

section \<open>Records and rows\<close>

record audit_record =
  ar_topic :: string
  ar_eventType :: "string option"
  ar_actor :: "string option"
  ar_sourceIp :: "string option"
  ar_payload :: json

record audit_row =
  aw_topic :: string
  aw_event_type :: "string option"
  aw_actor :: "string option"
  aw_source_ip :: "string option"
  aw_payload :: string
  aw_prev_hash :: string
  aw_row_hash :: string

text \<open>
  The handler of a message: no value, no record; a value that is not JSON is kept as
  \<open>{ raw }\<close>; the three columns are the first of the alternative members that is a string.
\<close>

definition audit_record_of :: "ext \<Rightarrow> string \<Rightarrow> string option \<Rightarrow> audit_record option" where
  "audit_record_of X topic msg =
     (case msg of
        None \<Rightarrow> None
      | Some text \<Rightarrow>
          let payload = (case x_json_parse X text of Some j \<Rightarrow> j | None \<Rightarrow> JObj [(''raw'', JStr text)]);
              p = json_obj payload
          in Some \<lparr> ar_topic = topic,
               ar_eventType = orelse_opt (sfield p ''event_type'') (orelse_opt (sfield p ''type'') (sfield p ''event'')),
               ar_actor = orelse_opt (sfield p ''actor'') (orelse_opt (sfield p ''user_id'') (sfield p ''org_id'')),
               ar_sourceIp = orelse_opt (sfield p ''ip'') (sfield p ''source_ip''),
               ar_payload = payload \<rparr>)"

text \<open>\<open>SELECT row_hash FROM audit_log ORDER BY id DESC LIMIT 1\<close>, with \<open>?? ''\<close>.\<close>

definition last_hash :: "audit_row list \<Rightarrow> string" where
  "last_hash rows = (if rows = [] then [] else aw_row_hash (last rows))"

definition hash_input :: "ext \<Rightarrow> string \<Rightarrow> audit_record \<Rightarrow> string" where
  "hash_input X prevHash rec = prevHash @ ''|'' @ ar_topic rec @ ''|'' @ x_json_str X (ar_payload rec)"

definition audit_row_of :: "ext \<Rightarrow> (string \<Rightarrow> string) \<Rightarrow> string \<Rightarrow> audit_record \<Rightarrow> audit_row" where
  "audit_row_of X jb prevHash rec =
     \<lparr> aw_topic = ar_topic rec, aw_event_type = ar_eventType rec, aw_actor = ar_actor rec,
       aw_source_ip = ar_sourceIp rec, aw_payload = jb (x_json_str X (ar_payload rec)),
       aw_prev_hash = prevHash, aw_row_hash = x_sha256 X (hash_input X prevHash rec) \<rparr>"

section \<open>Consumers and transactions\<close>

text \<open>
  Where a consumer stands in \<open>appendAudit\<close>: it has a connection, has begun, holds the
  advisory lock, has read the last hash, has inserted. The lock belongs to the transaction
  and goes with it; rows that are not committed are seen by nobody else.
\<close>

datatype audit_pc =
    Idle
  | Connected audit_record
  | Begun audit_record
  | Locked audit_record
  | HasPrev audit_record string
  | Inserted audit_row

datatype audit_event =
    Deliver nat string "string option"
  | Begin nat
  | TakeLock nat
  | ReadLast nat
  | Insert nat
  | Commit nat
  | Rollback nat

record audit_sys =
  as_rows :: "audit_row list"
  as_owner :: "nat option"
  as_pc :: "nat \<Rightarrow> audit_pc"

definition set_pc :: "nat \<Rightarrow> audit_pc \<Rightarrow> audit_sys \<Rightarrow> audit_sys" where
  "set_pc w pc s = s\<lparr>as_pc := (as_pc s)(w := pc)\<rparr>"

definition unlock :: "nat \<Rightarrow> audit_sys \<Rightarrow> audit_sys" where
  "unlock w s = (if as_owner s = Some w then s\<lparr>as_owner := None\<rparr> else s)"

text \<open>
  One step; \<open>None\<close> if it cannot happen now. An error of any statement rolls back and is
  logged by the handler, so the consumer takes the next message.
\<close>

fun audit_step :: "ext \<Rightarrow> (string \<Rightarrow> string) \<Rightarrow> audit_event \<Rightarrow> audit_sys \<Rightarrow> audit_sys option" where
  "audit_step X jb (Deliver w topic msg) s =
     (case as_pc s w of
        Idle \<Rightarrow> (case audit_record_of X topic msg of
                   None \<Rightarrow> Some s | Some rec \<Rightarrow> Some (set_pc w (Connected rec) s))
      | _ \<Rightarrow> None)"
| "audit_step X jb (Begin w) s =
     (case as_pc s w of Connected rec \<Rightarrow> Some (set_pc w (Begun rec) s) | _ \<Rightarrow> None)"
| "audit_step X jb (TakeLock w) s =
     (case as_pc s w of
        Begun rec \<Rightarrow>
          if as_owner s = None then Some (set_pc w (Locked rec) (s\<lparr>as_owner := Some w\<rparr>)) else None
      | _ \<Rightarrow> None)"
| "audit_step X jb (ReadLast w) s =
     (case as_pc s w of
        Locked rec \<Rightarrow> Some (set_pc w (HasPrev rec (last_hash (as_rows s))) s) | _ \<Rightarrow> None)"
| "audit_step X jb (Insert w) s =
     (case as_pc s w of
        HasPrev rec prevHash \<Rightarrow> Some (set_pc w (Inserted (audit_row_of X jb prevHash rec)) s)
      | _ \<Rightarrow> None)"
| "audit_step X jb (Commit w) s =
     (case as_pc s w of
        Inserted row \<Rightarrow> Some (unlock w (set_pc w Idle (s\<lparr>as_rows := as_rows s @ [row]\<rparr>)))
      | _ \<Rightarrow> None)"
| "audit_step X jb (Rollback w) s =
     (if as_pc s w = Idle then None else Some (unlock w (set_pc w Idle s)))"

definition audit_init :: audit_sys where
  "audit_init = \<lparr> as_rows = [], as_owner = None, as_pc = (\<lambda>_. Idle) \<rparr>"

inductive audit_reaches :: "ext \<Rightarrow> (string \<Rightarrow> string) \<Rightarrow> audit_event list \<Rightarrow> audit_sys \<Rightarrow> bool" for X jb where
  init: "audit_reaches X jb [] audit_init"
| step: "audit_reaches X jb es s \<Longrightarrow> audit_step X jb e s = Some s' \<Longrightarrow> audit_reaches X jb (es @ [e]) s'"

section \<open>The serial log\<close>

text \<open>The specification: one record after the other, each chained to the row before.\<close>

definition append_serial :: "ext \<Rightarrow> (string \<Rightarrow> string) \<Rightarrow> audit_row list \<Rightarrow> audit_record \<Rightarrow> audit_row list" where
  "append_serial X jb rows rec = rows @ [audit_row_of X jb (last_hash rows) rec]"

definition serial_log :: "ext \<Rightarrow> (string \<Rightarrow> string) \<Rightarrow> audit_record list \<Rightarrow> audit_row list" where
  "serial_log X jb recs = foldl (append_serial X jb) [] recs"

text \<open>The records whose transactions committed, in that order: all that the log should hold.\<close>

definition track :: "ext \<Rightarrow> (nat \<Rightarrow> audit_record option) \<times> audit_record list \<Rightarrow> audit_event \<Rightarrow>
    (nat \<Rightarrow> audit_record option) \<times> audit_record list" where
  "track X = (\<lambda>(cur, out) e.
     case e of
       Deliver w topic msg \<Rightarrow>
         (case audit_record_of X topic msg of None \<Rightarrow> (cur, out) | Some rec \<Rightarrow> (cur(w := Some rec), out))
     | Commit w \<Rightarrow> (cur, out @ (case cur w of None \<Rightarrow> [] | Some rec \<Rightarrow> [rec]))
     | _ \<Rightarrow> (cur, out))"

definition tracked :: "ext \<Rightarrow> audit_event list \<Rightarrow> (nat \<Rightarrow> audit_record option) \<times> audit_record list" where
  "tracked X es = foldl (track X) (\<lambda>_. None, []) es"

definition committed :: "ext \<Rightarrow> audit_event list \<Rightarrow> audit_record list" where
  "committed X es = snd (tracked X es)"

lemma tracked_snoc [simp]: "tracked X (es @ [e]) = track X (tracked X es) e"
  by (simp add: tracked_def)

text \<open>
  The invariant: the table is the serial log of the committed records; a consumer holds the
  lock exactly from \<open>TakeLock\<close> to the end, and what it has read is still the last hash.
\<close>

fun pc_ok :: "ext \<Rightarrow> (string \<Rightarrow> string) \<Rightarrow> audit_row list \<Rightarrow> audit_record option \<Rightarrow> audit_pc \<Rightarrow> bool" where
  "pc_ok X jb rows c Idle = True"
| "pc_ok X jb rows c (Connected rec) = (c = Some rec)"
| "pc_ok X jb rows c (Begun rec) = (c = Some rec)"
| "pc_ok X jb rows c (Locked rec) = (c = Some rec)"
| "pc_ok X jb rows c (HasPrev rec prev) = (c = Some rec \<and> prev = last_hash rows)"
| "pc_ok X jb rows c (Inserted row) = (\<exists>rec. c = Some rec \<and> row = audit_row_of X jb (last_hash rows) rec)"

fun holds_lock :: "audit_pc \<Rightarrow> bool" where
  "holds_lock (Locked _) = True"
| "holds_lock (HasPrev _ _) = True"
| "holds_lock (Inserted _) = True"
| "holds_lock _ = False"

definition audit_inv :: "ext \<Rightarrow> (string \<Rightarrow> string) \<Rightarrow> audit_record list \<Rightarrow> (nat \<Rightarrow> audit_record option) \<Rightarrow> audit_sys \<Rightarrow> bool" where
  "audit_inv X jb recs cur s \<longleftrightarrow>
     as_rows s = serial_log X jb recs \<and>
     (\<forall>w. holds_lock (as_pc s w) \<longleftrightarrow> as_owner s = Some w) \<and>
     (\<forall>w. pc_ok X jb (as_rows s) (cur w) (as_pc s w))"

lemma serial_log_snoc: "serial_log X jb (recs @ [rec]) = append_serial X jb (serial_log X jb recs) rec"
  by (simp add: serial_log_def)

lemma pc_ok_free: "\<not> holds_lock pc \<Longrightarrow> pc_ok X jb rows c pc = pc_ok X jb rows' c pc"
  by (cases pc) auto

lemma audit_invD:
  assumes "audit_inv X jb recs cur s"
  shows "as_rows s = serial_log X jb recs" "holds_lock (as_pc s w) \<longleftrightarrow> as_owner s = Some w"
    "pc_ok X jb (as_rows s) (cur w) (as_pc s w)"
  using assms unfolding audit_inv_def by blast+

lemma audit_inv_set_pc:
  "audit_inv X jb recs cur s \<Longrightarrow> holds_lock pc = holds_lock (as_pc s w) \<Longrightarrow>
   pc_ok X jb (as_rows s) c pc \<Longrightarrow> audit_inv X jb recs (cur(w := c)) (set_pc w pc s)"
  by (auto simp: audit_inv_def set_pc_def)

lemma audit_inv_lock:
  "audit_inv X jb recs cur s \<Longrightarrow> as_owner s = None \<Longrightarrow> as_pc s w = Begun rec \<Longrightarrow>
   audit_inv X jb recs cur (set_pc w (Locked rec) (s\<lparr>as_owner := Some w\<rparr>))"
  using audit_invD(3) [of X jb recs cur s w] by (auto simp: audit_inv_def set_pc_def)

lemma audit_inv_rollback:
  "audit_inv X jb recs cur s \<Longrightarrow> audit_inv X jb recs cur (unlock w (set_pc w Idle s))"
  by (auto simp: audit_inv_def set_pc_def unlock_def)

lemma audit_inv_commit:
  assumes inv: "audit_inv X jb recs cur s" and pc: "as_pc s w = Inserted row" and rec: "cur w = Some rec"
  shows "audit_inv X jb (recs @ [rec]) cur (unlock w (set_pc w Idle (s\<lparr>as_rows := as_rows s @ [row]\<rparr>)))"
proof -
  have own: "as_owner s = Some w" using inv pc by (metis audit_inv_def holds_lock.simps(3))
  then have others: "v \<noteq> w \<Longrightarrow> \<not> holds_lock (as_pc s v)" for v
    using inv by (auto simp: audit_inv_def)
  have "row = audit_row_of X jb (last_hash (as_rows s)) rec"
    using inv pc rec unfolding audit_inv_def by (metis option.inject pc_ok.simps(6))
  then have "as_rows s @ [row] = serial_log X jb (recs @ [rec])"
    using inv by (simp add: serial_log_snoc append_serial_def audit_inv_def)
  moreover have "pc_ok X jb (as_rows s @ [row]) (cur v) (as_pc s v)" if "v \<noteq> w" for v
    using pc_ok_free [OF others [OF that]] audit_invD(3) [OF inv] by blast
  ultimately show ?thesis using inv own others
    by (auto simp: audit_inv_def unlock_def set_pc_def)
qed

lemma audit_step_inv:
  assumes inv: "audit_inv X jb (snd t) (fst t) s" and step: "audit_step X jb e s = Some s'"
  shows "audit_inv X jb (snd (track X t e)) (fst (track X t e)) s'"
proof -
  obtain cur out where t: "t = (cur, out)" by fastforce
  have ok: "pc_ok X jb (as_rows s) (cur w) (as_pc s w)" for w
    using audit_invD(3) [OF inv] by (simp add: t)
  have same: "cur(w := cur w) = cur" for w by simp
  note set_pc = audit_inv_set_pc [OF inv [unfolded t prod.sel]]
  note keep = set_pc [where c = "cur w" and w = w for w, unfolded same]
  show ?thesis
  proof (cases e)
    case (Commit w)
    with step obtain row where "as_pc s w = Inserted row" by (auto split: audit_pc.splits)
    with ok [of w] Commit step audit_inv_commit [of X jb out cur s w row] inv show ?thesis
      by (auto simp: t track_def)
  next
    case (TakeLock w)
    then show ?thesis using step inv audit_inv_lock [of X jb out cur s w]
      by (auto simp: t track_def split: audit_pc.splits if_splits)
  next
    case (Rollback w)
    then show ?thesis using step inv audit_inv_rollback [of X jb out cur s w]
      by (auto simp: t track_def split: if_splits)
  next
    case (Deliver w topic msg)
    then show ?thesis using step inv set_pc [where w = w]
      by (auto simp: t track_def split: audit_pc.splits option.splits)
  next
    case (Begin w)
    then show ?thesis using step ok [of w] keep [of _ w]
      by (auto simp: t track_def split: audit_pc.splits)
  next
    case (ReadLast w)
    then show ?thesis using step ok [of w] keep [of _ w]
      by (auto simp: t track_def split: audit_pc.splits)
  next
    case (Insert w)
    then show ?thesis using step ok [of w] keep [of _ w]
      by (auto simp: t track_def split: audit_pc.splits)
  qed
qed

lemma audit_reaches_inv:
  "audit_reaches X jb es s \<Longrightarrow> audit_inv X jb (committed X es) (fst (tracked X es)) s"
proof (induction rule: audit_reaches.induct)
  case init
  show ?case by (auto simp: audit_inv_def audit_init_def serial_log_def committed_def tracked_def)
next
  case (step es s e s')
  then show ?case using audit_step_inv [of X jb "tracked X es" s e s'] by (simp add: committed_def)
qed

section \<open>Properties\<close>

text \<open>
  C12. The log is serial: whatever consumers append at once, in whatever interleaving of their
  statements and with whatever failures, the table is the chain of the committed records in
  the order of their commits, as if one consumer had appended them one after the other.
\<close>

theorem audit_log_serial:
  assumes "audit_reaches X jb es s"
  shows "as_rows s = serial_log X jb (committed X es)"
  by (rule audit_invD(1) [OF audit_reaches_inv [OF assms]])

fun audit_run :: "ext \<Rightarrow> (string \<Rightarrow> string) \<Rightarrow> audit_event list \<Rightarrow> audit_sys \<Rightarrow> audit_sys option" where
  "audit_run X jb [] s = Some s"
| "audit_run X jb (e # es) s = Option.bind (audit_step X jb e s) (audit_run X jb es)"

lemma audit_run_reaches:
  "audit_reaches X jb es s \<Longrightarrow> audit_run X jb es' s = Some s' \<Longrightarrow> audit_reaches X jb (es @ es') s'"
proof (induction es' arbitrary: es s)
  case (Cons e es')
  then obtain s1 where "audit_step X jb e s = Some s1" "audit_run X jb es' s1 = Some s'"
    by (auto simp: bind_eq_Some_conv)
  with Cons.IH [of "es @ [e]" s1] Cons.prems(1) show ?case by (auto intro: audit_reaches.step)
qed simp

definition sample_audit_ext :: ext where
  "sample_audit_ext = sample_ext\<lparr>
     x_sha256 := map (\<lambda>c. if c = CHR ''|'' then CHR ''!'' else c),
     x_json_parse := (\<lambda>s. if s = [] then None else Some (JObj [(''type'', JStr s), (''user_id'', JStr ''u'')])),
     x_json_str := (\<lambda>j. case j of JObj ((k, JStr s) # _) \<Rightarrow> s | _ \<Rightarrow> [])\<rparr>"

definition sample_events :: "audit_event list" where
  "sample_events =
     [Deliver 0 ''auth'' (Some ''login''), Deliver 1 ''auth'' (Some ''logout''), Begin 0, Begin 1,
      TakeLock 1, ReadLast 1, Insert 1, Commit 1, Deliver 1 ''auth'' (Some []), TakeLock 0, Begin 1,
      ReadLast 0, Insert 0, Commit 0, TakeLock 1, ReadLast 1, Rollback 1]"

lemma sample_run:
  "map_option as_rows (audit_run sample_audit_ext id sample_events audit_init) =
     Some [\<lparr> aw_topic = ''auth'', aw_event_type = Some ''logout'', aw_actor = Some ''u'', aw_source_ip = None,
            aw_payload = ''logout'', aw_prev_hash = [], aw_row_hash = ''!auth!logout'' \<rparr>,
           \<lparr> aw_topic = ''auth'', aw_event_type = Some ''login'', aw_actor = Some ''u'', aw_source_ip = None,
            aw_payload = ''login'', aw_prev_hash = ''!auth!logout'',
            aw_row_hash = ''!auth!logout!auth!login'' \<rparr>]"
  by code_simp

theorem audit_log_serial_witness:
  "map aw_prev_hash (serial_log sample_audit_ext id (committed sample_audit_ext sample_events)) =
     [[], ''!auth!logout'']"
proof -
  from sample_run obtain s where run: "audit_run sample_audit_ext id sample_events audit_init = Some s"
    and rows: "map aw_prev_hash (as_rows s) = [[], ''!auth!logout'']" by auto
  have "audit_reaches sample_audit_ext id sample_events s"
    using audit_run_reaches [OF audit_reaches.init run] by simp
  from audit_log_serial [OF this] rows show ?thesis by simp
qed

text \<open>Tampering with a hashed part shows, unless somebody finds a collision.\<close>

definition hashed_part :: "ext \<Rightarrow> audit_record \<Rightarrow> string \<times> string" where
  "hashed_part X rec = (ar_topic rec, x_json_str X (ar_payload rec))"

text \<open>
  The texts that were hashed for the rows of a log, and the search through two logs, row by
  row, for two different texts with the same hash.
\<close>

definition hashed_texts :: "ext \<Rightarrow> (string \<Rightarrow> string) \<Rightarrow> audit_record list \<Rightarrow> string list" where
  "hashed_texts X jb recs = map (\<lambda>(row, rec). hash_input X (aw_prev_hash row) rec) (zip (serial_log X jb recs) recs)"

definition find_collision :: "ext \<Rightarrow> (string \<Rightarrow> string) \<Rightarrow> audit_record list \<Rightarrow> audit_record list \<Rightarrow> (string \<times> string) option" where
  "find_collision X jb recs recs' =
     find (\<lambda>(x, y). x \<noteq> y \<and> x_sha256 X x = x_sha256 X y) (zip (hashed_texts X jb recs) (hashed_texts X jb recs'))"

lemma serial_log_length [simp]: "length (serial_log X jb recs) = length recs"
  by (induction recs rule: rev_induct) (simp_all add: serial_log_snoc append_serial_def, simp add: serial_log_def)

lemma hashed_texts_snoc:
  "hashed_texts X jb (recs @ [rec]) = hashed_texts X jb recs @ [hash_input X (last_hash (serial_log X jb recs)) rec]"
  by (simp add: hashed_texts_def serial_log_snoc append_serial_def audit_row_of_def)

lemma hashed_texts_length [simp]: "length (hashed_texts X jb recs) = length recs"
  by (simp add: hashed_texts_def)

lemma find_collision_found:
  assumes "\<exists>(x, y) \<in> set (zip (hashed_texts X jb recs) (hashed_texts X jb recs')). x \<noteq> y \<and> x_sha256 X x = x_sha256 X y"
  shows "\<exists>x y. find_collision X jb recs recs' = Some (x, y) \<and> x \<noteq> y \<and> x_sha256 X x = x_sha256 X y"
proof (cases "find_collision X jb recs recs'")
  case None
  with assms show ?thesis by (auto simp: find_collision_def find_None_iff)
next
  case (Some p)
  then have "case p of (x, y) \<Rightarrow> x \<noteq> y \<and> x_sha256 X x = x_sha256 X y"
    unfolding find_collision_def find_Some_iff by (elim exE conjE) (simp only:)
  with Some show ?thesis by (cases p) auto
qed

lemma last_hash_snoc:
  "last_hash (serial_log X jb (recs @ [rec])) =
     x_sha256 X (hash_input X (last_hash (serial_log X jb recs)) rec)"
  by (simp add: serial_log_snoc append_serial_def last_hash_def audit_row_of_def)

lemma bar_split:
  assumes "CHR ''|'' \<notin> set a" "CHR ''|'' \<notin> set b" "a @ ''|'' @ x = b @ ''|'' @ y"
  shows "a = b \<and> x = y"
proof -
  have "takeWhile (\<lambda>c. c \<noteq> CHR ''|'') (a @ ''|'' @ x) = a"
    "takeWhile (\<lambda>c. c \<noteq> CHR ''|'') (b @ ''|'' @ y) = b"
    using assms(1,2) by (subst takeWhile_append2; auto)+
  then have "a = b" using assms(3) by simp
  then show ?thesis using assms(3) by simp
qed

lemma hash_input_inj:
  assumes "CHR ''|'' \<notin> set p" "CHR ''|'' \<notin> set p'"
    and "CHR ''|'' \<notin> set (ar_topic rec)" "CHR ''|'' \<notin> set (ar_topic rec')"
    and "hash_input X p rec = hash_input X p' rec'"
  shows "p = p' \<and> hashed_part X rec = hashed_part X rec'"
  using bar_split [OF assms(1,2)] bar_split [OF assms(3,4)] assms(5)
  unfolding hash_input_def hashed_part_def by (metis append.assoc)

lemma last_hash_no_bar:
  "\<forall>s. CHR ''|'' \<notin> set (x_sha256 X s) \<Longrightarrow> CHR ''|'' \<notin> set (last_hash (serial_log X jb recs))"
  by (cases recs rule: rev_cases) (simp_all add: last_hash_snoc, simp add: last_hash_def serial_log_def)

lemma same_hash_same_log:
  assumes sha: "\<forall>s. CHR ''|'' \<notin> set (x_sha256 X s)"
  shows "length recs = length recs' \<Longrightarrow> \<forall>r \<in> set recs \<union> set recs'. CHR ''|'' \<notin> set (ar_topic r) \<Longrightarrow>
    last_hash (serial_log X jb recs) = last_hash (serial_log X jb recs') \<Longrightarrow>
    map (hashed_part X) recs = map (hashed_part X) recs' \<or>
    (\<exists>(x, y) \<in> set (zip (hashed_texts X jb recs) (hashed_texts X jb recs')). x \<noteq> y \<and> x_sha256 X x = x_sha256 X y)"
proof (induction recs arbitrary: recs' rule: rev_induct)
  case (snoc rec recs)
  then obtain rs r where r: "recs' = rs @ [r]" by (cases recs' rule: rev_cases) auto
  let ?p = "last_hash (serial_log X jb recs)" and ?p' = "last_hash (serial_log X jb rs)"
  have eq: "x_sha256 X (hash_input X ?p rec) = x_sha256 X (hash_input X ?p' r)"
    using snoc.prems(3) by (simp add: r last_hash_snoc)
  show ?case
  proof (cases "hash_input X ?p rec = hash_input X ?p' r")
    case True
    then have "?p = ?p'" "hashed_part X rec = hashed_part X r"
      using hash_input_inj [OF last_hash_no_bar [OF sha] last_hash_no_bar [OF sha]] snoc.prems(2)
      by (auto simp: r)
    then show ?thesis using snoc.IH [of rs] snoc.prems(1,2) by (auto simp: r hashed_texts_snoc)
  next
    case False
    then show ?thesis using eq snoc.prems(1) by (auto simp: r hashed_texts_snoc)
  qed
qed simp

text \<open>
  C37. Tamper evidence: if two logs of the same length end in the same hash, then either they
  hold the same topics and payload texts throughout, or the search through their rows finds,
  at the same position of both, two different hashed texts with the same SHA-256. Topics and
  hashes contain no bar, which Kafka's names and hexadecimal digits guarantee.
\<close>

theorem audit_tamper_evident:
  assumes "\<forall>s. CHR ''|'' \<notin> set (x_sha256 X s)"
    and "\<forall>r \<in> set recs \<union> set recs'. CHR ''|'' \<notin> set (ar_topic r)"
    and "length recs = length recs'"
    and "last_hash (serial_log X jb recs) = last_hash (serial_log X jb recs')"
  shows "map (hashed_part X) recs = map (hashed_part X) recs' \<or>
    (\<exists>x y. find_collision X jb recs recs' = Some (x, y) \<and> x \<noteq> y \<and> x_sha256 X x = x_sha256 X y)"
  using same_hash_same_log [OF assms(1,3,2,4)] find_collision_found by blast

definition sample_record :: "string \<Rightarrow> audit_record" where
  "sample_record s = \<lparr> ar_topic = ''auth'', ar_eventType = Some ''login'', ar_actor = Some ''u'',
     ar_sourceIp = None, ar_payload = JObj [(''type'', JStr s)] \<rparr>"

text \<open>
  The chain does not protect the columns that name the event, the actor and the address:
  with any other values in them every row has the hashes it had.
\<close>

theorem audit_columns_unprotected:
  "map (\<lambda>row. (aw_prev_hash row, aw_row_hash row))
       (serial_log X jb (map (\<lambda>r. r\<lparr>ar_eventType := f r, ar_actor := g r, ar_sourceIp := h r\<rparr>) recs)) =
   map (\<lambda>row. (aw_prev_hash row, aw_row_hash row)) (serial_log X jb recs)"
proof (induction recs rule: rev_induct)
  case (snoc rec recs)
  let ?F = "map (\<lambda>r. r\<lparr>ar_eventType := f r, ar_actor := g r, ar_sourceIp := h r\<rparr>)"
  let ?H = "map (\<lambda>row. (aw_prev_hash row, aw_row_hash row))"
  have "last_hash rows = last (map snd (([], []) # ?H rows))" for rows
    by (cases rows rule: rev_cases) (auto simp: last_hash_def)
  then have "last_hash (serial_log X jb (?F recs)) = last_hash (serial_log X jb recs)"
    using snoc by presburger
  then show ?case using snoc
    by (simp add: serial_log_snoc append_serial_def audit_row_of_def hash_input_def)
qed (simp add: serial_log_def)

text \<open>Two logs that differ in a column that is not hashed, with no collision between them.\<close>

theorem audit_tamper_evident_witness:
  "map (hashed_part sample_audit_ext) [sample_record ''x''] =
     map (hashed_part sample_audit_ext) [(sample_record ''x'')\<lparr>ar_actor := None\<rparr>]"
proof -
  let ?a = "[sample_record ''x'']" and ?b = "[(sample_record ''x'')\<lparr>ar_actor := None\<rparr>]"
  have bar: "\<forall>s. CHR ''|'' \<notin> set (x_sha256 sample_audit_ext s)"
    by (auto simp: sample_audit_ext_def split: if_splits)
  have "find_collision sample_audit_ext id ?a ?b = None" by code_simp
  moreover have "map (hashed_part sample_audit_ext) ?a = map (hashed_part sample_audit_ext) ?b \<or>
      (\<exists>x y. find_collision sample_audit_ext id ?a ?b = Some (x, y) \<and> x \<noteq> y \<and>
        x_sha256 sample_audit_ext x = x_sha256 sample_audit_ext y)"
    by (rule audit_tamper_evident [OF bar])
      (simp_all add: sample_record_def serial_log_def append_serial_def last_hash_def audit_row_of_def hash_input_def)
  ultimately show ?thesis by simp
qed

end
