(* ===== verification/NotifyChannels.thy ===== *)
theory NotifyChannels
  imports Fetch
begin

text \<open>
  \<open>manager/services/notification\<close>, first part: the log collection (\<open>store/mongodb.ts\<close>), the
  templates (\<open>templates/index.ts\<close>) and the three channels (\<open>channels/webhook.ts\<close>,
  \<open>channels/email.ts\<close>, \<open>channels/in-app.ts\<close>).

  MongoDB, the mail transport, the endpoints of the webhooks and the compilation of a template
  by Handlebars are what the world \<open>nio\<close> and the environment answer. The texts of the mail
  templates are a parameter, because they are not ASCII.
\<close>

section \<open>Log, environment and world\<close>

datatype log_status = Pending | Sent | Failed | Skipped

record notification_log =
  nl_channel :: string
  nl_eventType :: string
  nl_recipient :: string
  nl_orgId :: string
  nl_apiId :: "json option"
  nl_subject :: "json option"
  nl_status :: log_status
  nl_attempts :: nat
  nl_payload :: jobj
  nl_error :: "string option"
  nl_ts :: int

type_synonym template = "jobj \<Rightarrow> string"

record email_template =
  et_subject :: string
  et_html :: string
  et_text :: string

record notify_env =
  ne_MAX_RETRIES :: nat
  ne_RETRY_BASE_MS :: int
  ne_SMTP_FROM :: string
  ne_compile :: "string \<Rightarrow> template"
  ne_email_text :: "string \<Rightarrow> email_template"

record mail =
  m_from :: string
  m_to :: string
  m_subject :: string
  m_html :: string
  m_text :: string

record nio =
  no_logs :: "(nat \<times> notification_log) list"
  no_next :: nat
  no_fault :: "nat \<Rightarrow> exn option"
  no_net :: "nat \<Rightarrow> http_req \<Rightarrow> exn + http_resp"
  no_sent :: "http_req list"
  no_smtp :: "nat \<Rightarrow> mail \<Rightarrow> exn option"
  no_mailed :: "mail list"
  no_clock :: "nat \<Rightarrow> int"
  no_slept :: "int list"
  no_compiledEmail :: "(string \<times> template) list"
  no_compiledWebhook :: "(string \<times> template) list"

definition now_ms :: "nio \<Rightarrow> int \<times> nio" where
  "now_ms w = (no_clock w 0, w\<lparr>no_clock := shift (no_clock w)\<rparr>)"

text \<open>\<open>insertOne\<close> and \<open>updateOne({ _id })\<close> on the collection; every command may be rejected.\<close>

definition insertOne :: "notification_log \<Rightarrow> nio \<Rightarrow> (exn + nat) \<times> nio" where
  "insertOne entry w =
     (let w1 = w\<lparr>no_fault := shift (no_fault w)\<rparr>
      in case no_fault w 0 of
           Some e \<Rightarrow> (Inl e, w1)
         | None \<Rightarrow> (Inr (no_next w), w1\<lparr>no_logs := no_logs w @ [(no_next w, entry)], no_next := Suc (no_next w)\<rparr>))"

definition updateOne :: "nat \<Rightarrow> (notification_log \<Rightarrow> notification_log) \<Rightarrow> nio \<Rightarrow> (exn + unit) \<times> nio" where
  "updateOne i f w =
     (let w1 = w\<lparr>no_fault := shift (no_fault w)\<rparr>
      in case no_fault w 0 of
           Some e \<Rightarrow> (Inl e, w1)
         | None \<Rightarrow> (Inr (), w1\<lparr>no_logs := map (\<lambda>(j, entry). (j, if j = i then f entry else entry)) (no_logs w)\<rparr>))"

section \<open>Templates\<close>

definition WEBHOOK_TEMPLATES :: dict where
  "WEBHOOK_TEMPLATES = [
     (''quota_exceeded'', ''{\"event\":\"quota.exceeded\",\"apiId\":\"{{apiId}}\",\"clientId\":\"{{clientId}}\",\"window\":\"{{window}}\",\"limit\":{{limit}},\"actual\":{{actual}},\"ts\":\"{{ts}}\"}''),
     (''subscription_expiry'', ''{\"event\":\"subscription.expiry\",\"subscriptionId\":\"{{subscriptionId}}\",\"planName\":\"{{planName}}\",\"expiresAt\":\"{{expiresAt}}\"}''),
     (''api_key_revoked'', ''{\"event\":\"api_key.revoked\",\"keyId\":\"{{keyId}}\",\"ts\":\"{{ts}}\"}''),
     (''subscription_activated'', ''{\"event\":\"subscription.activated\",\"subscriptionId\":\"{{subscriptionId}}\",\"planName\":\"{{planName}}\"}''),
     (''subscription_cancelled'', ''{\"event\":\"subscription.cancelled\",\"subscriptionId\":\"{{subscriptionId}}\",\"planName\":\"{{planName}}\"}'')]"

definition EMAIL_EVENTS :: "string list" where
  "EMAIL_EVENTS = [''quota_exceeded'', ''subscription_expiry'', ''api_key_revoked'',
     ''subscription_activated'', ''subscription_cancelled'']"

definition EMAIL_TEMPLATES :: "notify_env \<Rightarrow> string \<Rightarrow> email_template option" where
  "EMAIL_TEMPLATES E eventType =
     (if eventType \<in> set EMAIL_EVENTS then Some (ne_email_text E eventType) else None)"

text \<open>\<open>getCached\<close>: the compiled template and the cache that holds it.\<close>

definition getCached :: "notify_env \<Rightarrow> (string \<times> template) list \<Rightarrow> string \<Rightarrow> string \<Rightarrow> template \<times> (string \<times> template) list" where
  "getCached E cached key source =
     (case rget cached key of
        Some fn \<Rightarrow> (fn, cached)
      | None \<Rightarrow> (ne_compile E source, rset key (ne_compile E source) cached))"

record rendered_email =
  re_subject :: string
  re_html :: string
  re_text :: string

definition renderEmail :: "notify_env \<Rightarrow> string \<Rightarrow> jobj \<Rightarrow> nio \<Rightarrow> rendered_email option \<times> nio" where
  "renderEmail E eventType data w =
     (case EMAIL_TEMPLATES E eventType of
        None \<Rightarrow> (None, w)
      | Some tpl \<Rightarrow>
          (let (renderSubject, c1) = getCached E (no_compiledEmail w) (eventType @ ''_subject'') (et_subject tpl);
               (renderHtml, c2) = getCached E c1 (eventType @ ''_html'') (et_html tpl);
               (renderText, c3) = getCached E c2 (eventType @ ''_text'') (et_text tpl)
           in (Some \<lparr> re_subject = renderSubject data, re_html = renderHtml data, re_text = renderText data \<rparr>,
               w\<lparr>no_compiledEmail := c3\<rparr>)))"

definition renderWebhook :: "notify_env \<Rightarrow> string \<Rightarrow> jobj \<Rightarrow> nio \<Rightarrow> string option \<times> nio" where
  "renderWebhook E eventType data w =
     (case rget WEBHOOK_TEMPLATES eventType of
        None \<Rightarrow> (None, w)
      | Some tplStr \<Rightarrow>
          (let (render, c) = getCached E (no_compiledWebhook w) eventType tplStr
           in (Some (render data), w\<lparr>no_compiledWebhook := c\<rparr>)))"

section \<open>Channels\<close>

record send_result =
  sr_ok :: bool
  sr_statusCode :: "int option"
  sr_error :: "string option"

definition post_webhook :: "http_req \<Rightarrow> nio \<Rightarrow> (exn + http_resp) \<times> nio" where
  "post_webhook q w = (no_net w 0 q, w\<lparr>no_net := shift (no_net w), no_sent := no_sent w @ [q]\<rparr>)"

definition sleep :: "int \<Rightarrow> nio \<Rightarrow> nio" where
  "sleep ms w = w\<lparr>no_slept := no_slept w @ [ms]\<rparr>"

definition exn_message :: "string \<Rightarrow> exn \<Rightarrow> string" where
  "exn_message other e = (case e of JsError name msg \<Rightarrow> msg | NonError \<Rightarrow> other)"

text \<open>The loop of \<open>sendWebhook\<close> from an attempt on, with the number of attempts that are left.\<close>

fun try_webhook :: "notify_env \<Rightarrow> http_req \<Rightarrow> nat \<Rightarrow> nat \<Rightarrow> string \<Rightarrow> nio \<Rightarrow> send_result \<times> nio" where
  "try_webhook E q attempt 0 lastErr w =
     (\<lparr> sr_ok = False, sr_statusCode = None, sr_error = Some (''max retries exceeded: '' @ lastErr) \<rparr>, w)"
| "try_webhook E q attempt (Suc left) lastErr w =
     (let w1 = (if attempt > 0 then sleep (ne_RETRY_BASE_MS E * 2 ^ (attempt - 1)) w else w)
      in case post_webhook q w1 of
           (Inl e, w2) \<Rightarrow> try_webhook E q (Suc attempt) left (exn_message ''network error'' e) w2
         | (Inr resp, w2) \<Rightarrow>
             (if resp_ok resp \<or> (rs_status resp \<ge> 400 \<and> rs_status resp < 500)
              then if \<not> resp_ok resp
                   then (\<lparr> sr_ok = False, sr_statusCode = Some (rs_status resp),
                           sr_error = Some (''4xx: '' @ show_int (rs_status resp)) \<rparr>, w2)
                   else (\<lparr> sr_ok = True, sr_statusCode = Some (rs_status resp), sr_error = None \<rparr>, w2)
              else try_webhook E q (Suc attempt) left (''status '' @ show_int (rs_status resp)) w2))"

definition webhook_request :: "ext \<Rightarrow> string \<Rightarrow> string \<Rightarrow> string \<Rightarrow> string option \<Rightarrow> int \<Rightarrow> http_req" where
  "webhook_request X url eventType body secret now =
     \<lparr> rq_url = url, rq_method = ''POST'',
       rq_headers = [(''content-type'', ''application/json''), (''x-xcloudapim-event'', eventType),
         (''x-xcloudapim-timestamp'', show_int (now div 1000))] @
         (if truthy secret then [(''x-xcloudapim-signature'', ''sha256='' @ x_hmac256 X (str_of secret) body)] else []),
       rq_body = Some body \<rparr>"

definition sendWebhook :: "ext \<Rightarrow> notify_env \<Rightarrow> string \<Rightarrow> string \<Rightarrow> jobj \<Rightarrow> string option \<Rightarrow> nio \<Rightarrow> send_result \<times> nio" where
  "sendWebhook X E url eventType data secret w =
     (let (rendered, w1) = renderWebhook E eventType data w;
          body = orelse rendered (x_json_str X (JObj data));
          (now, w2) = now_ms w1
      in try_webhook E (webhook_request X url eventType body secret now) 0 (ne_MAX_RETRIES E) [] w2)"

definition sendEmail :: "notify_env \<Rightarrow> string \<Rightarrow> string \<Rightarrow> jobj \<Rightarrow> nio \<Rightarrow> send_result \<times> nio" where
  "sendEmail E to eventType data w =
     (case renderEmail E eventType data w of
        (None, w1) \<Rightarrow>
          (\<lparr> sr_ok = False, sr_statusCode = None, sr_error = Some (''no template for '' @ eventType) \<rparr>, w1)
      | (Some r, w1) \<Rightarrow>
          (let m = \<lparr> m_from = ne_SMTP_FROM E, m_to = to, m_subject = re_subject r, m_html = re_html r, m_text = re_text r \<rparr>;
               w2 = w1\<lparr>no_smtp := shift (no_smtp w1)\<rparr>
           in case no_smtp w1 0 m of
                None \<Rightarrow> (\<lparr> sr_ok = True, sr_statusCode = None, sr_error = None \<rparr>, w2\<lparr>no_mailed := no_mailed w1 @ [m]\<rparr>)
              | Some e \<Rightarrow>
                  (\<lparr> sr_ok = False, sr_statusCode = None, sr_error = Some (exn_message ''unknown error'' e) \<rparr>, w2)))"

definition saveInApp :: "string \<Rightarrow> string \<Rightarrow> jobj \<Rightarrow> nio \<Rightarrow> (exn + nat) \<times> nio" where
  "saveInApp orgId eventType data w =
     (let (now, w1) = now_ms w
      in insertOne \<lparr> nl_channel = ''in_app'', nl_eventType = eventType, nl_recipient = orgId, nl_orgId = orgId,
           nl_apiId = rget data ''apiId'', nl_subject = rget data ''subject'', nl_status = Sent, nl_attempts = 1,
           nl_payload = data, nl_error = None, nl_ts = now \<rparr> w1)"

end
