(* ===== verification/NotifyDispatch.thy ===== *)
theory NotifyDispatch
  imports NotifyChannels
begin

text \<open>
  \<open>manager/services/notification\<close>, second part: the messages from Kafka and their dispatch to
  the channels (\<open>kafka/consumer.ts\<close>), the manual send and the listing (\<open>http/routes.ts\<close>).
\<close>

section \<open>Messages\<close>

record recipient =
  rc_email :: "string option"
  rc_webhookUrl :: "string option"
  rc_webhookSecret :: "string option"
  rc_orgId :: string

record notification_message =
  nm_eventType :: string
  nm_channels :: "string list"
  nm_recipient :: "recipient option"
  nm_data :: "jobj option"

text \<open>
  A message of \<open>notification.send\<close> is taken as it is; its members may be missing. The channels
  are what \<open>for ... of\<close> makes of the member: the elements of an array, the characters of a
  text, nothing for a missing one or null, and an error for anything else. An element that is
  no text goes the way of every unknown channel, and its name is read as empty. The remaining
  members are texts by \<open>NotificationMessage\<close>; one that is not is read as missing, since what
  nodemailer, \<open>fetch\<close> and MongoDB do with it is not in this repository.
\<close>

definition channel_names :: "json option \<Rightarrow> string list option" where
  "channel_names v =
     (case v of None \<Rightarrow> Some []
      | Some (JArr vs) \<Rightarrow> Some (map (\<lambda>c. orelse (json_string c) []) vs)
      | Some (JStr s) \<Rightarrow> Some (map (\<lambda>c. [c]) s)
      | Some _ \<Rightarrow> None)"

definition recipient_of :: "jobj \<Rightarrow> recipient" where
  "recipient_of r = \<lparr> rc_email = sfield r ''email'', rc_webhookUrl = sfield r ''webhookUrl'',
     rc_webhookSecret = sfield r ''webhookSecret'', rc_orgId = orelse (sfield r ''orgId'') [] \<rparr>"

definition message_of :: "jobj \<Rightarrow> string list \<Rightarrow> notification_message" where
  "message_of raw channels =
     \<lparr> nm_eventType = orelse (sfield raw ''eventType'') [], nm_channels = channels,
       nm_recipient = map_option (\<lambda>v. recipient_of (json_obj v)) (jget raw ''recipient''),
       nm_data = map_option json_obj (jget raw ''data'') \<rparr>"

definition owner_message :: "string \<Rightarrow> string \<Rightarrow> jobj \<Rightarrow> notification_message" where
  "owner_message eventType orgId raw =
     \<lparr> nm_eventType = eventType, nm_channels = [''email'', ''in_app''],
       nm_recipient = Some \<lparr> rc_email = sfield raw ''contactEmail'', rc_webhookUrl = None, rc_webhookSecret = None,
         rc_orgId = orgId \<rparr>,
       nm_data = Some raw \<rparr>"

text \<open>What \<open>eachMessage\<close> makes of a parsed value: an error, nothing, or a message.\<close>

definition notification_of :: "ext \<Rightarrow> string \<Rightarrow> json \<Rightarrow> exn + notification_message option" where
  "notification_of X topic v =
     (if v = JNull then Inl (JsError ''TypeError'' [])
      else let raw = json_obj v in
        if topic = ''quota.exceeded'' then
          Inr (Some (owner_message ''quota_exceeded''
            (case jget raw ''orgId'' of Some j \<Rightarrow> js_String X j | None \<Rightarrow> jstring X raw ''org_id'' []) raw))
        else if topic = ''auth.events'' then
          (if rget raw ''event'' \<noteq> Some (JStr ''api_key.revoked'') then Inr None
           else Inr (Some (owner_message ''api_key_revoked'' (jstring X raw ''orgId'' []) raw)))
        else (case channel_names (jget raw ''channels'') of
            None \<Rightarrow> Inl (JsError ''TypeError'' [])
          | Some channels \<Rightarrow> Inr (Some (message_of raw channels))))"

section \<open>Dispatch\<close>

definition pending_entry :: "string \<Rightarrow> notification_message \<Rightarrow> recipient \<Rightarrow> jobj \<Rightarrow> int \<Rightarrow> notification_log" where
  "pending_entry channel msg rc data now =
     \<lparr> nl_channel = channel, nl_eventType = nm_eventType msg,
       nl_recipient = (if channel = ''email'' then orelse (rc_email rc) []
                       else orelse (rc_webhookUrl rc) (rc_orgId rc)),
       nl_orgId = rc_orgId rc, nl_apiId = rget data ''apiId'', nl_subject = None, nl_status = Pending,
       nl_attempts = 0, nl_payload = data, nl_error = None, nl_ts = now \<rparr>"

definition skip_entry :: "string \<Rightarrow> notification_log \<Rightarrow> notification_log" where
  "skip_entry why entry = entry\<lparr>nl_status := Skipped, nl_error := Some why\<rparr>"

definition settle_entry :: "send_result \<Rightarrow> notification_log \<Rightarrow> notification_log" where
  "settle_entry r entry =
     entry\<lparr>nl_status := (if sr_ok r then Sent else Failed), nl_attempts := 1, nl_error := sr_error r\<rparr>"

text \<open>The sending of one channel: a reason to skip it, or the result; only in-app can throw.\<close>

definition send_channel :: "ext \<Rightarrow> notify_env \<Rightarrow> string \<Rightarrow> notification_message \<Rightarrow> recipient \<Rightarrow> jobj \<Rightarrow> nio \<Rightarrow>
    (exn + (string + send_result)) \<times> nio" where
  "send_channel X E channel msg rc data w =
     (if channel = ''email'' then
        (if \<not> truthy (rc_email rc) then (Inr (Inl ''no email recipient''), w)
         else apfst (\<lambda>r. Inr (Inr r)) (sendEmail E (str_of (rc_email rc)) (nm_eventType msg) data w))
      else if channel = ''webhook'' then
        (if \<not> truthy (rc_webhookUrl rc) then (Inr (Inl ''no webhook url''), w)
         else apfst (\<lambda>r. Inr (Inr r))
           (sendWebhook X E (str_of (rc_webhookUrl rc)) (nm_eventType msg) data (rc_webhookSecret rc) w))
      else (case saveInApp (rc_orgId rc) (nm_eventType msg) data w of
              (Inl e, w1) \<Rightarrow> (Inl e, w1)
            | (Inr _, w1) \<Rightarrow> (Inr (Inr \<lparr> sr_ok = True, sr_statusCode = None, sr_error = None \<rparr>), w1)))"

definition dispatch_channel :: "ext \<Rightarrow> notify_env \<Rightarrow> notification_message \<Rightarrow> string \<Rightarrow> nio \<Rightarrow> (exn + unit) \<times> nio" where
  "dispatch_channel X E msg channel w =
     (case (nm_recipient msg, nm_data msg) of
        (Some rc, Some data) \<Rightarrow>
          (let (now, w1) = now_ms w
           in case insertOne (pending_entry channel msg rc data now) w1 of
                (Inl e, w2) \<Rightarrow> (Inl e, w2)
              | (Inr i, w2) \<Rightarrow>
                  (case send_channel X E channel msg rc data w2 of
                     (Inl e, w3) \<Rightarrow> (Inl e, w3)
                   | (Inr (Inl why), w3) \<Rightarrow> updateOne i (skip_entry why) w3
                   | (Inr (Inr r), w3) \<Rightarrow> updateOne i (settle_entry r) w3))
      | _ \<Rightarrow> (Inl (JsError ''TypeError'' []), w))"

fun dispatch_all :: "ext \<Rightarrow> notify_env \<Rightarrow> notification_message \<Rightarrow> string list \<Rightarrow> nio \<Rightarrow> (exn + unit) \<times> nio" where
  "dispatch_all X E msg [] w = (Inr (), w)"
| "dispatch_all X E msg (channel # chs) w =
     (case dispatch_channel X E msg channel w of
        (Inl e, w1) \<Rightarrow> (Inl e, w1)
      | (Inr _, w1) \<Rightarrow> dispatch_all X E msg chs w1)"

definition dispatch :: "ext \<Rightarrow> notify_env \<Rightarrow> notification_message \<Rightarrow> nio \<Rightarrow> (exn + unit) \<times> nio" where
  "dispatch X E msg w = dispatch_all X E msg (nm_channels msg) w"

text \<open>The handler catches whatever was thrown and goes on with the next message.\<close>

definition eachMessage :: "ext \<Rightarrow> notify_env \<Rightarrow> string \<Rightarrow> string option \<Rightarrow> nio \<Rightarrow> nio" where
  "eachMessage X E topic msg w =
     (case msg of
        None \<Rightarrow> w
      | Some text \<Rightarrow>
          (case x_json_parse X text of
             None \<Rightarrow> w
           | Some v \<Rightarrow>
               (case notification_of X topic v of
                  Inl e \<Rightarrow> w
                | Inr None \<Rightarrow> w
                | Inr (Some m) \<Rightarrow> snd (dispatch X E m w))))"

section \<open>The REST interface\<close>

record send_request =
  sq_channel :: "string option"
  sq_eventType :: "string option"
  sq_recipient :: "string option"
  sq_orgId :: "string option"
  sq_data :: "jobj option"
  sq_webhookSecret :: "string option"

datatype reply = BadRequest string | SendReply int send_result | ServerError

definition manual_send :: "ext \<Rightarrow> notify_env \<Rightarrow> send_request \<Rightarrow> nio \<Rightarrow> reply \<times> nio" where
  "manual_send X E body w =
     (if \<not> truthy (sq_channel body) \<or> \<not> truthy (sq_eventType body) \<or> \<not> truthy (sq_recipient body) \<or> \<not> truthy (sq_orgId body)
      then (BadRequest ''channel, eventType, recipient, orgId required'', w)
      else
        let data = orelse (sq_data body) []; eventType = str_of (sq_eventType body);
            answer = (\<lambda>(r, w1). (SendReply (if sr_ok r then 200 else 500) r, w1))
        in if sq_channel body = Some ''email''
           then answer (sendEmail E (str_of (sq_recipient body)) eventType data w)
           else if sq_channel body = Some ''webhook''
           then answer (sendWebhook X E (str_of (sq_recipient body)) eventType data (sq_webhookSecret body) w)
           else case saveInApp (str_of (sq_orgId body)) eventType data w of
                  (Inl e, w1) \<Rightarrow> (ServerError, w1)
                | (Inr _, w1) \<Rightarrow> (SendReply 200 \<lparr> sr_ok = True, sr_statusCode = None, sr_error = None \<rparr>, w1))"

fun status_text :: "log_status \<Rightarrow> string" where
  "status_text Pending = ''pending''"
| "status_text Sent = ''sent''"
| "status_text Failed = ''failed''"
| "status_text Skipped = ''skipped''"

record log_page =
  lp_data :: "notification_log list"
  lp_total :: nat
  lp_page :: int
  lp_limit :: int

text \<open>
  The listing: newest first. A skip below zero is refused by the server, a limit of zero is no
  limit and a negative one counts as its absolute value; a number that cannot be read is refused.
\<close>

definition list_notifications ::
  "string option \<Rightarrow> string option \<Rightarrow> string option \<Rightarrow> string option \<Rightarrow> (nat \<times> notification_log) list \<Rightarrow> string + log_page" where
  "list_notifications orgId status page limit logs =
     (if \<not> truthy orgId then Inl ''orgId required''
      else case (parse_int (orelse page ''1''), parse_int (orelse limit ''20'')) of
             (Some pg, Some lmt) \<Rightarrow>
               (let matching = filter (\<lambda>entry. Some (nl_orgId entry) = orgId \<and>
                        (truthy status \<longrightarrow> Some (status_text (nl_status entry)) = status)) (map snd logs);
                    sorted_logs = js_sort (\<lambda>a b. nl_ts b - nl_ts a) matching;
                    skip = (pg - 1) * lmt
                in if skip < 0 then Inl ''internal error''
                   else let rest = drop (nat skip) sorted_logs
                     in Inr \<lparr> lp_data = (if lmt = 0 then rest else take (nat \<bar>lmt\<bar>) rest),
                              lp_total = length matching, lp_page = pg, lp_limit = lmt \<rparr>)
           | _ \<Rightarrow> Inl ''internal error'')"

text \<open>
  One entry: \<open>oid\<close> reads an identifier and throws on one that is malformed, \<open>find_one\<close> asks the
  database. The catch does not tell their errors apart.
\<close>

datatype lookup_reply = Entry notification_log | Lookup_error int string

definition get_notification ::
  "(string \<Rightarrow> exn + 'i) \<Rightarrow> ('i \<Rightarrow> exn + notification_log option) \<Rightarrow> string \<Rightarrow> lookup_reply" where
  "get_notification oid find_one i =
     (case oid i of
        Inl e \<Rightarrow> Lookup_error 400 ''invalid id''
      | Inr k \<Rightarrow>
          (case find_one k of
             Inl e \<Rightarrow> Lookup_error 400 ''invalid id''
           | Inr None \<Rightarrow> Lookup_error 404 ''not found''
           | Inr (Some doc) \<Rightarrow> Entry doc))"

end
