(* ===== verification/NotifyProps.thy ===== *)
theory NotifyProps
  imports NotifyDispatch
begin

text \<open>
  What the notification service does: the retries of a webhook, exactly; every entry of the log
  is settled when the database answers; an in-app notification is written twice.
\<close>

section \<open>Retries\<close>

text \<open>An answer ends the attempts if it is a success or a refusal by the endpoint.\<close>

fun decisive :: "exn + http_resp \<Rightarrow> bool" where
  "decisive (Inl e) = False"
| "decisive (Inr r) = (resp_ok r \<or> (rs_status r \<ge> 400 \<and> rs_status r < 500))"

fun delivered :: "exn + http_resp \<Rightarrow> bool" where
  "delivered (Inl e) = False"
| "delivered (Inr r) = resp_ok r"

lemma delivered_decisive: "delivered a \<Longrightarrow> decisive a"
  by (cases a) auto

fun undecided :: "(nat \<Rightarrow> exn + http_resp) \<Rightarrow> nat \<Rightarrow> nat" where
  "undecided f 0 = 0"
| "undecided f (Suc n) = (if decisive (f 0) then 0 else Suc (undecided (\<lambda>i. f (Suc i)) n))"

lemma undecided_le: "undecided f n \<le> n"
  by (induction f n rule: undecided.induct) auto

lemma undecided_before: "i < undecided f n \<Longrightarrow> \<not> decisive (f i)"
proof (induction f n arbitrary: i rule: undecided.induct)
  case (2 f n)
  then show ?case by (cases i) (auto split: if_splits)
qed simp

lemma undecided_at: "undecided f n < n \<Longrightarrow> decisive (f (undecided f n))"
  by (induction f n rule: undecided.induct) (auto split: if_splits)

definition attempts_made :: "(nat \<Rightarrow> exn + http_resp) \<Rightarrow> nat \<Rightarrow> nat" where
  "attempts_made f n = min (Suc (undecided f n)) n"

lemma attempts_made_Suc:
  "attempts_made f (Suc n) = (if decisive (f 0) then 1 else Suc (attempts_made (\<lambda>i. f (Suc i)) n))"
  by (simp add: attempts_made_def)

definition backoff :: "notify_env \<Rightarrow> nat \<Rightarrow> nat \<Rightarrow> int list" where
  "backoff E a k = map (\<lambda>i. ne_RETRY_BASE_MS E * 2 ^ (i - 1)) (filter (\<lambda>i. i > 0) [a..<a + k])"

lemma backoff_Suc: "backoff E a (Suc k) = (if a > 0 then [ne_RETRY_BASE_MS E * 2 ^ (a - 1)] else []) @ backoff E (Suc a) k"
proof -
  have "[a..<a + Suc k] = a # [Suc a..<Suc a + k]" by (simp add: upt_rec)
  then show ?thesis by (simp add: backoff_def del: upt_Suc)
qed

lemma try_webhook_run:
  "no_sent (snd (try_webhook E q a n err w)) = no_sent w @ replicate (attempts_made (\<lambda>i. no_net w i q) n) q \<and>
   no_slept (snd (try_webhook E q a n err w)) = no_slept w @ backoff E a (attempts_made (\<lambda>i. no_net w i q) n) \<and>
   (sr_ok (fst (try_webhook E q a n err w)) \<longleftrightarrow>
     undecided (\<lambda>i. no_net w i q) n < n \<and> delivered (no_net w (undecided (\<lambda>i. no_net w i q) n) q))"
proof (induction n arbitrary: a err w)
  case 0
  show ?case by (simp add: attempts_made_def backoff_def)
next
  case (Suc n)
  let ?f = "\<lambda>i. no_net w i q"
  show ?case
  proof (cases "decisive (?f 0)")
    case True
    then obtain r where "no_net w 0 q = Inr r" by (cases "no_net w 0 q") auto
    with True show ?thesis
      by (auto simp: attempts_made_Suc backoff_Suc backoff_def post_webhook_def sleep_def Let_def)
  next
    case False
    then show ?thesis
      using Suc.IH by (cases "no_net w 0 q")
        (auto simp: attempts_made_Suc backoff_Suc post_webhook_def sleep_def Let_def)
  qed
qed

text \<open>The request that a call of \<open>sendWebhook\<close> makes, whatever was rendered before.\<close>

definition the_webhook :: "ext \<Rightarrow> notify_env \<Rightarrow> string \<Rightarrow> string \<Rightarrow> jobj \<Rightarrow> string option \<Rightarrow> nio \<Rightarrow> http_req" where
  "the_webhook X E url eventType data secret w =
     webhook_request X url eventType
       (orelse (fst (renderWebhook E eventType data w)) (x_json_str X (JObj data))) secret (no_clock w 0)"

lemma renderWebhook_frame [frame_simps]:
  "no_net (snd (renderWebhook E ty data w)) = no_net w" "no_sent (snd (renderWebhook E ty data w)) = no_sent w"
  "no_slept (snd (renderWebhook E ty data w)) = no_slept w" "no_clock (snd (renderWebhook E ty data w)) = no_clock w"
  "no_logs (snd (renderWebhook E ty data w)) = no_logs w" "no_next (snd (renderWebhook E ty data w)) = no_next w"
  "no_fault (snd (renderWebhook E ty data w)) = no_fault w"
  by (simp_all add: renderWebhook_def getCached_def split: option.splits)

lemma sendWebhook_try:
  "sendWebhook X E url ty data secret w =
     try_webhook E (the_webhook X E url ty data secret w) 0 (ne_MAX_RETRIES E) []
       (snd (now_ms (snd (renderWebhook E ty data w))))"
  by (simp add: sendWebhook_def the_webhook_def now_ms_def split_beta Let_def frame_simps)

text \<open>
  C38. The retries of a webhook: the same request is sent again until an answer is a success or
  a refusal, and never more often than configured; the waits in between double from the base;
  the call succeeds exactly if the last answer was a success.
\<close>

theorem webhook_retries:
  assumes "answer = (\<lambda>i. no_net w i (the_webhook X E url ty data secret w))"
    and "sendWebhook X E url ty data secret w = (r, w1)"
  shows "\<exists>k \<le> ne_MAX_RETRIES E.
    no_sent w1 = no_sent w @ replicate k (the_webhook X E url ty data secret w) \<and>
    no_slept w1 = no_slept w @ map (\<lambda>i. ne_RETRY_BASE_MS E * 2 ^ i) [0..<k - 1] \<and>
    (\<forall>i < k - 1. \<not> decisive (answer i)) \<and>
    (k < ne_MAX_RETRIES E \<longrightarrow> 0 < k \<and> decisive (answer (k - 1))) \<and>
    (sr_ok r \<longleftrightarrow> 0 < k \<and> delivered (answer (k - 1)))"
proof -
  let ?n = "ne_MAX_RETRIES E" and ?q = "the_webhook X E url ty data secret w"
  let ?w = "snd (now_ms (snd (renderWebhook E ty data w)))"
  have w: "no_net ?w = no_net w" "no_sent ?w = no_sent w" "no_slept ?w = no_slept w"
    by (simp_all add: now_ms_def frame_simps)
  let ?u = "undecided answer ?n" and ?k = "attempts_made answer ?n"
  note run = try_webhook_run [of E ?q 0 ?n "[]" ?w, folded sendWebhook_try, unfolded w assms(2) snd_conv fst_conv, folded assms(1)]
  have "backoff E 0 ?k = map (\<lambda>i. ne_RETRY_BASE_MS E * 2 ^ i) [0..<?k - 1]"
  proof (cases ?k)
    case (Suc k)
    have "filter (\<lambda>i. i > 0) [0..<0 + Suc k] = map Suc [0..<k]"
      by (simp add: map_Suc_upt upt_conv_Cons del: upt_Suc)
    then show ?thesis unfolding Suc backoff_def by simp
  qed (simp add: backoff_def)
  moreover have "?k = (if ?u < ?n then Suc ?u else ?n)"
    using undecided_le [of answer ?n] by (simp add: attempts_made_def)
  moreover have "?u = ?n \<Longrightarrow> 0 < ?n \<Longrightarrow> \<not> delivered (answer (?n - 1))"
    using undecided_before [of "?n - 1" answer ?n] delivered_decisive by auto
  ultimately show ?thesis
    using run undecided_before [of _ answer ?n] undecided_at [of answer ?n] undecided_le [of answer ?n]
    by (intro exI [of _ ?k]) (auto simp: assms(1) split: if_splits)
qed

definition sample_notify_env :: notify_env where
  "sample_notify_env = \<lparr> ne_MAX_RETRIES = 3, ne_RETRY_BASE_MS = 1000, ne_SMTP_FROM = ''noreply'',
     ne_compile = (\<lambda>source _. source), ne_email_text = (\<lambda>ty. \<lparr> et_subject = ty, et_html = [], et_text = [] \<rparr>) \<rparr>"

text \<open>A world in which the endpoint fails twice and then accepts, and the database answers.\<close>

definition sample_nio :: nio where
  "sample_nio = \<lparr> no_logs = [], no_next = 0, no_fault = (\<lambda>_. None),
     no_net = (\<lambda>n _. if n = 0 then Inl (JsError ''TypeError'' ''fetch failed'')
       else Inr \<lparr> rs_status = (if n = 1 then 503 else 200), rs_headers = [], rs_body = [] \<rparr>),
     no_sent = [], no_smtp = (\<lambda>_ _. None), no_mailed = [], no_clock = (\<lambda>n. 5000 * int n), no_slept = [],
     no_compiledEmail = [], no_compiledWebhook = [] \<rparr>"

lemma sample_webhook:
  "no_slept (snd (sendWebhook sample_ext sample_notify_env ''http://h'' ''custom'' [] None sample_nio)) = [1000, 2000]"
  "sr_ok (fst (sendWebhook sample_ext sample_notify_env ''http://h'' ''custom'' [] None sample_nio))"
  by code_simp+

theorem webhook_retries_witness:
  "\<exists>k \<le> 3. no_slept (snd (sendWebhook sample_ext sample_notify_env ''http://h'' ''custom'' [] None sample_nio)) =
     map (\<lambda>i. 1000 * 2 ^ i) [0..<k - 1] \<and> 0 < k \<and>
     no_sent (snd (sendWebhook sample_ext sample_notify_env ''http://h'' ''custom'' [] None sample_nio)) =
     replicate k (the_webhook sample_ext sample_notify_env ''http://h'' ''custom'' [] None sample_nio)"
proof -
  let ?s = "sendWebhook sample_ext sample_notify_env ''http://h'' ''custom'' [] None sample_nio"
  have env: "ne_MAX_RETRIES sample_notify_env = 3" "ne_RETRY_BASE_MS sample_notify_env = 1000"
    "no_sent sample_nio = []" "no_slept sample_nio = []"
    by (simp_all add: sample_notify_env_def sample_nio_def)
  have "?s = (fst ?s, snd ?s)" by simp
  from webhook_retries [OF refl this] sample_webhook(2) show ?thesis unfolding env by auto
qed

section \<open>Dispatch\<close>

definition fresh_ids :: "nio \<Rightarrow> bool" where
  "fresh_ids w = list_all (\<lambda>(i, _). i < no_next w) (no_logs w)"

definition db_answers :: "nio \<Rightarrow> bool" where
  "db_answers w = (no_fault w = (\<lambda>_. None))"

text \<open>The channels of the entries that a channel of a message leaves in the log.\<close>

definition logged_channels :: "string \<Rightarrow> string list" where
  "logged_channels ch = (if ch = ''email'' \<or> ch = ''webhook'' then [ch] else [ch, ''in_app''])"

definition settled :: "notification_log \<Rightarrow> bool" where
  "settled entry = (nl_status entry \<noteq> Pending)"

definition same_logs :: "nio \<Rightarrow> nio \<Rightarrow> bool" where
  "same_logs w w' = (no_logs w' = no_logs w \<and> no_next w' = no_next w \<and> no_fault w' = no_fault w)"

lemma try_webhook_logs: "same_logs w (snd (try_webhook E q a n err w))"
proof (induction n arbitrary: a err w)
  case (Suc n)
  let ?w = "snd (post_webhook q (if a > 0 then sleep (ne_RETRY_BASE_MS E * 2 ^ (a - 1)) w else w))"
  have "same_logs w ?w" by (simp add: post_webhook_def sleep_def same_logs_def)
  with Suc.IH [where w = ?w] show ?case
    by (auto simp: same_logs_def Let_def split_beta split: sum.splits)
qed (simp add: same_logs_def)

lemma sendWebhook_logs: "same_logs w (snd (sendWebhook X E url ty data secret w))"
  using try_webhook_logs [of "snd (now_ms (snd (renderWebhook E ty data w)))"]
  by (simp add: sendWebhook_try same_logs_def now_ms_def frame_simps)

lemma sendEmail_logs: "same_logs w (snd (sendEmail E to ty data w))"
  by (auto simp: sendEmail_def renderEmail_def same_logs_def split_beta Let_def split: option.splits)

lemma insertOne_answers:
  "db_answers w \<Longrightarrow> insertOne entry w =
     (Inr (no_next w), w\<lparr>no_logs := no_logs w @ [(no_next w, entry)], no_next := Suc (no_next w)\<rparr>)"
  by (cases w) (simp add: insertOne_def db_answers_def)

lemma updateOne_answers:
  "db_answers w \<Longrightarrow> updateOne i f w =
     (Inr (), w\<lparr>no_logs := map (\<lambda>(j, entry). (j, if j = i then f entry else entry)) (no_logs w)\<rparr>)"
  by (cases w) (simp add: updateOne_def db_answers_def)

text \<open>After the sending there is the pending entry, and perhaps the one of the in-app channel.\<close>

lemma send_channel_logs:
  assumes "db_answers w"
  shows "\<exists>out w1 extra. send_channel X E ch msg rc data w = (Inr out, w1) \<and> db_answers w1 \<and>
    no_logs w1 = no_logs w @ extra \<and> map (nl_channel \<circ> snd) extra = tl (logged_channels ch) \<and>
    (\<forall>(j, entry) \<in> set extra. settled entry \<and> j = no_next w) \<and> no_next w1 = no_next w + length extra"
proof (cases "ch = ''email'' \<or> ch = ''webhook''")
  case True
  then show ?thesis
    using assms sendEmail_logs [of w] sendWebhook_logs [of w]
    by (auto simp: send_channel_def logged_channels_def same_logs_def db_answers_def apfst_def map_prod_def split_beta)
next
  case False
  have "db_answers (snd (now_ms w))" using assms by (simp add: db_answers_def now_ms_def)
  note ins = insertOne_answers [OF this]
  have "saveInApp (rc_orgId rc) (nm_eventType msg) data w =
      (Inr (no_next w), snd (saveInApp (rc_orgId rc) (nm_eventType msg) data w))" and
    "db_answers (snd (saveInApp (rc_orgId rc) (nm_eventType msg) data w))" and
    "no_next (snd (saveInApp (rc_orgId rc) (nm_eventType msg) data w)) = Suc (no_next w)" and
    "\<exists>entry. no_logs (snd (saveInApp (rc_orgId rc) (nm_eventType msg) data w)) = no_logs w @ [(no_next w, entry)] \<and>
      nl_channel entry = ''in_app'' \<and> settled entry"
    using assms unfolding saveInApp_def Let_def split_beta ins
    by (auto simp: now_ms_def db_answers_def settled_def)
  with False show ?thesis
    by (auto simp: send_channel_def logged_channels_def split: prod.splits)
qed

lemma settle_settled:
  "settled (settle_entry r entry) \<and> nl_channel (settle_entry r entry) = nl_channel entry"
  "settled (skip_entry why entry) \<and> nl_channel (skip_entry why entry) = nl_channel entry"
  by (simp_all add: settled_def settle_entry_def skip_entry_def)

lemma dispatch_channel_settles:
  assumes "db_answers w" and "fresh_ids w" and "nm_recipient msg = Some rc" and "nm_data msg = Some data"
  shows "\<exists>w1 added. dispatch_channel X E msg ch w = (Inr (), w1) \<and> db_answers w1 \<and> fresh_ids w1 \<and>
    no_logs w1 = no_logs w @ added \<and> map (nl_channel \<circ> snd) added = logged_channels ch \<and>
    (\<forall>(j, entry) \<in> set added. settled entry)"
proof -
  let ?w = "snd (now_ms w)" and ?p = "pending_entry ch msg rc data (no_clock w 0)"
  have w: "no_logs ?w = no_logs w" "no_next ?w = no_next w" "db_answers ?w" "fst (now_ms w) = no_clock w 0"
    using assms(1) by (simp_all add: now_ms_def db_answers_def)
  let ?w2 = "?w\<lparr>no_logs := no_logs w @ [(no_next w, ?p)], no_next := Suc (no_next w)\<rparr>"
  have w2: "db_answers ?w2" using w(3) by (simp add: db_answers_def)
  obtain out w3 extra where send: "send_channel X E ch msg rc data ?w2 = (Inr out, w3)" "db_answers w3"
    "no_logs w3 = (no_logs w @ [(no_next w, ?p)]) @ extra" "map (nl_channel \<circ> snd) extra = tl (logged_channels ch)"
    "\<forall>(j, entry) \<in> set extra. settled entry \<and> j = Suc (no_next w)" "no_next w3 = Suc (no_next w) + length extra"
    using send_channel_logs [OF w2, of X E ch msg rc data] by auto
  have f: "\<exists>f. dispatch_channel X E msg ch w = updateOne (no_next w) f w3 \<and>
      (\<forall>entry. settled (f entry) \<and> nl_channel (f entry) = nl_channel entry)"
  proof (cases out)
    case (Inl why)
    then show ?thesis using send(1) insertOne_answers [OF w(3)] w
      by (intro exI [of _ "skip_entry why"])
        (simp add: dispatch_channel_def assms(3,4) split_beta settle_settled)
  next
    case (Inr r)
    then show ?thesis using send(1) insertOne_answers [OF w(3)] w
      by (intro exI [of _ "settle_entry r"])
        (simp add: dispatch_channel_def assms(3,4) split_beta settle_settled)
  qed
  then obtain f where f: "dispatch_channel X E msg ch w = updateOne (no_next w) f w3"
    "\<And>entry. settled (f entry) \<and> nl_channel (f entry) = nl_channel entry" by blast
  let ?u = "map (\<lambda>(j, entry). (j, if j = no_next w then f entry else entry))"
  have old: "?u (no_logs w) = no_logs w"
    using assms(2) by (intro map_idI) (auto simp: fresh_ids_def list_all_iff)
  have new: "?u extra = extra"
    using send(5) by (intro map_idI) auto
  have "fresh_ids (w3\<lparr>no_logs := no_logs w @ (no_next w, f ?p) # extra\<rparr>)"
    using assms(2) send(5,6) by (cases extra) (auto simp: fresh_ids_def list_all_iff)
  moreover have "logged_channels ch = nl_channel ?p # tl (logged_channels ch)"
    by (simp add: logged_channels_def pending_entry_def)
  ultimately show ?thesis
    using updateOne_answers [OF send(2), of "no_next w" f] send(2,3,4,5) f old new
    by (intro exI [of _ "w3\<lparr>no_logs := no_logs w @ (no_next w, f ?p) # extra\<rparr>"] exI [of _ "(no_next w, f ?p) # extra"])
       (auto simp: db_answers_def)
qed

lemma dispatch_all_settles:
  assumes "nm_recipient msg = Some rc" and "nm_data msg = Some data"
  shows "db_answers w \<Longrightarrow> fresh_ids w \<Longrightarrow> \<exists>w1 added. dispatch_all X E msg chs w = (Inr (), w1) \<and>
    no_logs w1 = no_logs w @ added \<and> map (nl_channel \<circ> snd) added = concat (map logged_channels chs) \<and>
    (\<forall>(j, entry) \<in> set added. settled entry)"
proof (induction chs arbitrary: w)
  case (Cons ch chs)
  obtain w1 added where one: "dispatch_channel X E msg ch w = (Inr (), w1)" "db_answers w1" "fresh_ids w1"
    "no_logs w1 = no_logs w @ added" "map (nl_channel \<circ> snd) added = logged_channels ch"
    "\<forall>(j, entry) \<in> set added. settled entry"
    using dispatch_channel_settles [OF Cons.prems assms, of X E ch] by blast
  obtain w2 more where "dispatch_all X E msg chs w1 = (Inr (), w2)" "no_logs w2 = no_logs w1 @ more"
    "map (nl_channel \<circ> snd) more = concat (map logged_channels chs)" "\<forall>(j, entry) \<in> set more. settled entry"
    using Cons.IH [OF one(2,3)] by blast
  with one show ?case by (intro exI [of _ w2] exI [of _ "added @ more"]) (auto simp: comp_def)
qed simp

text \<open>
  C39. Nothing is left pending: while the database answers, a message with a recipient and data
  is dispatched to all its channels, and the log gains exactly one settled entry per email and
  webhook channel and two for every other channel, the second as in-app notification.
\<close>

theorem dispatch_settles:
  assumes "db_answers w" and "fresh_ids w" and "nm_recipient msg = Some rc" and "nm_data msg = Some data"
  shows "\<exists>w1 added. dispatch X E msg w = (Inr (), w1) \<and> no_logs w1 = no_logs w @ added \<and>
    map (nl_channel \<circ> snd) added = concat (map logged_channels (nm_channels msg)) \<and>
    (\<forall>(j, entry) \<in> set added. settled entry)"
  unfolding dispatch_def by (rule dispatch_all_settles [OF assms(3,4,1,2)])

theorem dispatch_settles_witness:
  "map (nl_channel \<circ> snd) (no_logs (snd (dispatch sample_ext sample_notify_env
     (owner_message ''quota_exceeded'' ''o1'' []) sample_nio))) = [''email'', ''in_app'', ''in_app'']"
proof -
  have "db_answers sample_nio" "fresh_ids sample_nio" "no_logs sample_nio = []"
    by (simp_all add: sample_nio_def db_answers_def fresh_ids_def)
  moreover obtain rc where "nm_recipient (owner_message ''quota_exceeded'' ''o1'' []) = Some rc"
    "nm_data (owner_message ''quota_exceeded'' ''o1'' []) = Some []"
    "nm_channels (owner_message ''quota_exceeded'' ''o1'' []) = [''email'', ''in_app'']"
    by (simp add: owner_message_def)
  ultimately show ?thesis
    using dispatch_settles [of sample_nio "owner_message ''quota_exceeded'' ''o1'' []" rc "[]" sample_ext sample_notify_env]
    by (auto simp: logged_channels_def)
qed

text \<open>An entry is shown exactly if its identifier can be read and the database has it; a failing database counts as a bad identifier.\<close>

lemma entry_found: "get_notification oid find_one i = Entry doc \<longleftrightarrow> (\<exists>k. oid i = Inr k \<and> find_one k = Inr (Some doc))"
  by (auto simp: get_notification_def split: sum.splits option.splits)

lemma database_failure_blamed:
  "oid i = Inr k \<Longrightarrow> find_one k = Inl e \<Longrightarrow> get_notification oid find_one i = Lookup_error 400 ''invalid id''"
  by (simp add: get_notification_def)

end
