(* ===== verification/JsObject.thy ===== *)
theory JsObject
  imports Host
begin

text \<open>
  The order in which JavaScript lists the members of an object, for the components that turn an
  object into a list, and members copied from one object to another under new names.
\<close>

text \<open>\<open>Object.entries\<close>: the keys that are array indices come first, in ascending order.\<close>

definition is_index :: "string \<Rightarrow> bool" where
  "is_index k = (k \<noteq> [] \<and> list_all is_digit k \<and> (k = ''0'' \<or> hd k \<noteq> CHR ''0'') \<and> int (digits_val k) < 2 ^ 32 - 1)"

definition object_entries :: "(string \<times> 'v) list \<Rightarrow> (string \<times> 'v) list" where
  "object_entries obj =
     sort_key (\<lambda>p. digits_val (fst p)) (filter (\<lambda>p. is_index (fst p)) obj) @ filter (\<lambda>p. \<not> is_index (fst p)) obj"

text \<open>
  \<open>{ k: obj.k', ... }\<close> for every pair \<open>(k, k')\<close>: a member that is undefined is left out, as it is
  when the object is sent as JSON or read by the GraphQL executor.
\<close>

definition pick :: "jobj \<Rightarrow> (string \<times> string) list \<Rightarrow> jobj" where
  "pick obj ps = concat (map (\<lambda>(k, k'). case rget obj k' of None \<Rightarrow> [] | Some v \<Rightarrow> [(k, v)]) ps)"

lemma orelse_opt_None [simp]: "orelse_opt v None = v"
  by (cases v) simp_all

lemma rget_pick: "distinct (map fst ps) \<Longrightarrow>
    rget (pick obj ps) k = (case map_of ps k of None \<Rightarrow> None | Some k' \<Rightarrow> rget obj k')"
proof (induction ps arbitrary: k)
  case (Cons p ps)
  obtain a b where p: "p = (a, b)" by (cases p)
  have "rget (pick obj ps) a = None"
    using Cons.IH [of a] Cons.prems p by (simp add: map_of_eq_None_iff [THEN iffD2])
  moreover have "rget (pick obj (p # ps)) k
      = orelse_opt (rget (case rget obj b of None \<Rightarrow> [] | Some v \<Rightarrow> [(a, v)]) k) (rget (pick obj ps) k)"
    by (simp add: pick_def p rget_append)
  ultimately show ?case using Cons.IH [of k] Cons.prems p by (auto split: option.split)
qed (simp add: pick_def)

end
