(* ===== verification/Analytics.thy ===== *)
theory Analytics
  imports Fetch JsObject
begin

text \<open>
  \<open>manager/services/analytics\<close>: the events that arrive from Kafka (\<open>kafka/consumer.ts\<close>), the
  buckets of an hour and of a day (\<open>store/mongodb.ts\<close>, \<open>store/repository.ts\<close>), the counters
  in Redis (\<open>aggregator/realtime.ts\<close>) and the queries (\<open>http/routes.ts\<close>).

  A collection of MongoDB is the list of its documents, and every command may be rejected.
  A number that \<open>parseInt\<close> made is an integer or \<open>NaN\<close>, written \<open>None\<close>; a date is the
  milliseconds of its time or invalid, written \<open>None\<close>. What the platform decides is the
  environment \<open>ana_env\<close>: how a value becomes a date, what the driver stores for an invalid
  one, the offset of the local time zone (a zone without summer time), and the order in which
  the server hands out documents and groups when none is asked for.
\<close>

section \<open>Documents\<close>

datatype bucket_type = Hour | Day

record api_event =
  ev_traceId :: string
  ev_apiId :: string
  ev_clientId :: string
  ev_userId :: string
  ev_plan :: string
  ev_method :: string
  ev_path :: string
  ev_statusCode :: "int option"
  ev_latencyMs :: "int option"
  ev_requestBytes :: "int option"
  ev_responseBytes :: "int option"
  ev_isError :: bool
  ev_ts :: "int option"

record metric_bucket =
  mb_bucketStart :: "int option"
  mb_bucketType :: bucket_type
  mb_apiId :: string
  mb_clientId :: string
  mb_plan :: string
  mb_requests :: int
  mb_errors :: int
  mb_latencySum :: "int option"
  mb_latencyMax :: "int option"
  mb_latencyP99 :: int
  mb_bytes2xx :: "int option"
  mb_bytes4xx :: "int option"
  mb_bytes5xx :: "int option"
  mb_statusCounts :: "(string \<times> int) list"

record quota_event =
  qe_apiId :: string
  qe_clientId :: string
  qe_plan :: string
  qe_window :: string
  qe_limit :: "int option"
  qe_actual :: "int option"
  qe_ts :: "int option"

record client_count =
  cc_clientId :: string
  cc_requests :: int
  cc_errors :: int

record ana_env =
  ae_date :: "json \<Rightarrow> int option"
  ae_bad_date :: int
  ae_zone :: int
  ae_iso :: "int \<Rightarrow> string"
  ae_scan :: "metric_bucket list \<Rightarrow> metric_bucket list"
  ae_groups :: "client_count list \<Rightarrow> client_count list"
  ae_scan_quota :: "quota_event list \<Rightarrow> quota_event list"

record 'd aio =
  ao_events :: "api_event list"
  ao_hourly :: "metric_bucket list"
  ao_daily :: "metric_bucket list"
  ao_quota :: "quota_event list"
  ao_fault :: "nat \<Rightarrow> exn option"
  ao_io :: "'d io"

text \<open>The value of a date that the database compares.\<close>

definition date_ms :: "ana_env \<Rightarrow> int option \<Rightarrow> int" where
  "date_ms E d = orelse d (ae_bad_date E)"

text \<open>One command to MongoDB, and one query.\<close>

definition mongo :: "('d aio \<Rightarrow> 'd aio) \<Rightarrow> 'd aio \<Rightarrow> (exn + unit) \<times> 'd aio" where
  "mongo f w =
     (let w1 = w\<lparr>ao_fault := shift (ao_fault w)\<rparr>
      in case ao_fault w 0 of Some e \<Rightarrow> (Inl e, w1) | None \<Rightarrow> (Inr (), f w1))"

definition mongo_read :: "('d aio \<Rightarrow> exn + 'a) \<Rightarrow> 'd aio \<Rightarrow> (exn + 'a) \<times> 'd aio" where
  "mongo_read f w =
     (let w1 = w\<lparr>ao_fault := shift (ao_fault w)\<rparr>
      in case ao_fault w 0 of Some e \<Rightarrow> (Inl e, w1) | None \<Rightarrow> (f w1, w1))"

definition clock :: "'d aio \<Rightarrow> int \<times> 'd aio" where
  "clock w = (let (now, io) = date_now (ao_io w) in (now, w\<lparr>ao_io := io\<rparr>))"

section \<open>Writing\<close>

text \<open>\<open>$inc\<close> and \<open>$max\<close> on numbers: \<open>NaN\<close> absorbs a sum and is below every number.\<close>

definition num_add :: "int option \<Rightarrow> int option \<Rightarrow> int option" where
  "num_add a b = (case (a, b) of (Some x, Some y) \<Rightarrow> Some (x + y) | _ \<Rightarrow> None)"

definition num_max :: "int option \<Rightarrow> int option \<Rightarrow> int option" where
  "num_max a b =
     (case a of None \<Rightarrow> b
      | Some x \<Rightarrow> (case b of None \<Rightarrow> a | Some y \<Rightarrow> Some (max x y)))"

definition show_num :: "ext \<Rightarrow> int option \<Rightarrow> string" where
  "show_num X a = (case a of None \<Rightarrow> ''NaN'' | Some i \<Rightarrow> num_to_string X (of_int i))"

text \<open>\<open>updateOne(filter, update, { upsert: true })\<close>: the first match, or a new document.\<close>

fun upsert_doc :: "('a \<Rightarrow> bool) \<Rightarrow> ('a option \<Rightarrow> 'a) \<Rightarrow> 'a list \<Rightarrow> 'a list" where
  "upsert_doc p f [] = [f None]"
| "upsert_doc p f (b # bs) = (if p b then f (Some b) # bs else b # upsert_doc p f bs)"

record bucket_event =
  be_latencyMs :: "int option"
  be_statusCode :: "int option"
  be_isError :: bool
  be_responseBytes :: "int option"

definition status_within :: "bucket_event \<Rightarrow> int \<Rightarrow> int option \<Rightarrow> bool" where
  "status_within ev lo hi =
     (case be_statusCode ev of None \<Rightarrow> False
      | Some s \<Rightarrow> lo \<le> s \<and> (case hi of None \<Rightarrow> True | Some h \<Rightarrow> s < h))"

definition bytes_of :: "bucket_event \<Rightarrow> int \<Rightarrow> int option \<Rightarrow> int option" where
  "bytes_of ev lo hi = (if status_within ev lo hi then be_responseBytes ev else Some 0)"

definition fresh_bucket :: "bucket_type \<Rightarrow> int option \<Rightarrow> string \<Rightarrow> string \<Rightarrow> string \<Rightarrow> bucket_event \<Rightarrow> metric_bucket" where
  "fresh_bucket t start apiId clientId plan ev =
     \<lparr> mb_bucketStart = start, mb_bucketType = t, mb_apiId = apiId, mb_clientId = clientId, mb_plan = plan,
       mb_requests = 0, mb_errors = 0, mb_latencySum = Some 0, mb_latencyMax = be_latencyMs ev, mb_latencyP99 = 0,
       mb_bytes2xx = Some 0, mb_bytes4xx = Some 0, mb_bytes5xx = Some 0, mb_statusCounts = [] \<rparr>"

definition count_event :: "ext \<Rightarrow> string \<Rightarrow> bucket_event \<Rightarrow> metric_bucket \<Rightarrow> metric_bucket" where
  "count_event X plan ev b =
     (let statusKey = show_num X (be_statusCode ev)
      in b\<lparr>mb_requests := mb_requests b + 1,
           mb_errors := mb_errors b + (if be_isError ev then 1 else 0),
           mb_latencySum := num_add (mb_latencySum b) (be_latencyMs ev),
           mb_statusCounts := rset statusKey (orelse (rget (mb_statusCounts b) statusKey) 0 + 1) (mb_statusCounts b),
           mb_bytes2xx := num_add (mb_bytes2xx b) (bytes_of ev 200 (Some 300)),
           mb_bytes4xx := num_add (mb_bytes4xx b) (bytes_of ev 400 (Some 500)),
           mb_bytes5xx := num_add (mb_bytes5xx b) (bytes_of ev 500 None),
           mb_latencyMax := num_max (mb_latencyMax b) (be_latencyMs ev),
           mb_plan := plan\<rparr>)"

type_synonym bucket_key = "int \<times> string \<times> string \<times> bucket_type"

definition mb_key :: "ana_env \<Rightarrow> metric_bucket \<Rightarrow> bucket_key" where
  "mb_key E b = (date_ms E (mb_bucketStart b), mb_apiId b, mb_clientId b, mb_bucketType b)"

definition upsertBucket :: "ext \<Rightarrow> ana_env \<Rightarrow> bucket_type \<Rightarrow> int option \<Rightarrow> string \<Rightarrow> string \<Rightarrow> string \<Rightarrow>
    bucket_event \<Rightarrow> metric_bucket list \<Rightarrow> metric_bucket list" where
  "upsertBucket X E t start apiId clientId plan ev =
     upsert_doc (\<lambda>b. mb_key E b = (date_ms E start, apiId, clientId, t))
       (\<lambda>old. count_event X plan ev
          (case old of None \<Rightarrow> fresh_bucket t start apiId clientId plan ev | Some b \<Rightarrow> b))"

definition insertApiEvent :: "api_event \<Rightarrow> 'd aio \<Rightarrow> (exn + unit) \<times> 'd aio" where
  "insertApiEvent event = mongo (\<lambda>w. w\<lparr>ao_events := ao_events w @ [event]\<rparr>)"

definition upsertHourlyBucket :: "ext \<Rightarrow> ana_env \<Rightarrow> int option \<Rightarrow> string \<Rightarrow> string \<Rightarrow> string \<Rightarrow> bucket_event \<Rightarrow>
    'd aio \<Rightarrow> (exn + unit) \<times> 'd aio" where
  "upsertHourlyBucket X E bucketStart apiId clientId plan event =
     mongo (\<lambda>w. w\<lparr>ao_hourly := upsertBucket X E Hour bucketStart apiId clientId plan event (ao_hourly w)\<rparr>)"

definition upsertDailyBucket :: "ext \<Rightarrow> ana_env \<Rightarrow> int option \<Rightarrow> string \<Rightarrow> string \<Rightarrow> string \<Rightarrow> bucket_event \<Rightarrow>
    'd aio \<Rightarrow> (exn + unit) \<times> 'd aio" where
  "upsertDailyBucket X E bucketStart apiId clientId plan event =
     mongo (\<lambda>w. w\<lparr>ao_daily := upsertBucket X E Day bucketStart apiId clientId plan event (ao_daily w)\<rparr>)"

section \<open>The counters in Redis\<close>

definition counter_key :: "string \<Rightarrow> string \<Rightarrow> string \<Rightarrow> string" where
  "counter_key name apiId clientId = ''rt:'' @ name @ '':'' @ apiId @ '':'' @ clientId"

definition error_key :: "string \<Rightarrow> string" where
  "error_key apiId = ''rt:err:'' @ apiId"

text \<open>\<open>incr(key).expire(key, seconds)\<close> in the pipeline.\<close>

definition incr_expire :: "'d redis \<Rightarrow> int \<Rightarrow> string \<Rightarrow> int \<Rightarrow> 'd \<Rightarrow> 'd" where
  "incr_expire R t k seconds d = r_pexpire R t k (seconds * 1000) (snd (r_incr R t k d))"

definition count_pipeline :: "'d redis \<Rightarrow> string \<Rightarrow> string \<Rightarrow> bool \<Rightarrow> int \<Rightarrow> 'd \<Rightarrow> 'd" where
  "count_pipeline R apiId clientId isError t d =
     (let d1 = incr_expire R t (counter_key ''rpm'' apiId clientId) 60 d;
          d2 = incr_expire R t (counter_key ''rph'' apiId clientId) 3600 d1;
          d3 = incr_expire R t (counter_key ''rpd'' apiId clientId) 86400 d2
      in if isError then incr_expire R t (error_key apiId) 60 d3 else d3)"

definition incrRealtimeCounters :: "'d redis \<Rightarrow> string \<Rightarrow> string \<Rightarrow> bool \<Rightarrow> 'd aio \<Rightarrow> (exn + unit) \<times> 'd aio" where
  "incrRealtimeCounters R apiId clientId isError w =
     (let (r, io) = redis_write (count_pipeline R apiId clientId isError) (ao_io w) in (r, w\<lparr>ao_io := io\<rparr>))"

record realtime_stats =
  st_rpm :: "int option"
  st_rph :: "int option"
  st_rpd :: "int option"
  st_errRpm :: "int option"

text \<open>The replies of \<open>mget\<close>, as \<open>parseInt(v ?? '0', 10)\<close> reads them.\<close>

definition read_stats :: "'d redis \<Rightarrow> string \<Rightarrow> string \<Rightarrow> int \<Rightarrow> 'd \<Rightarrow> realtime_stats" where
  "read_stats R apiId clientId t d =
     (let num = (\<lambda>k. parse_int (orelse (r_get R t d k) ''0''))
      in \<lparr> st_rpm = num (counter_key ''rpm'' apiId clientId), st_rph = num (counter_key ''rph'' apiId clientId),
           st_rpd = num (counter_key ''rpd'' apiId clientId), st_errRpm = num (error_key apiId) \<rparr>)"

definition getRealtimeStats :: "'d redis \<Rightarrow> string \<Rightarrow> string \<Rightarrow> 'd aio \<Rightarrow> (exn + realtime_stats) \<times> 'd aio" where
  "getRealtimeStats R apiId clientId w =
     (let (r, io) = redis_read (read_stats R apiId clientId) (ao_io w) in (r, w\<lparr>ao_io := io\<rparr>))"

section \<open>The messages\<close>

text \<open>\<open>String(payload[k] ?? payload[k'] ?? d)\<close> and \<open>parseInt\<close> of it.\<close>

definition jstring2 :: "ext \<Rightarrow> jobj \<Rightarrow> string \<Rightarrow> string \<Rightarrow> string \<Rightarrow> string" where
  "jstring2 X payload k k' d =
     (case jget payload k of Some v \<Rightarrow> js_String X v | None \<Rightarrow> jstring X payload k' d)"

definition payload_ts :: "ana_env \<Rightarrow> jobj \<Rightarrow> 'd aio \<Rightarrow> int option \<times> 'd aio" where
  "payload_ts E payload w =
     (case rget payload ''ts'' of
        Some v \<Rightarrow> if js_truthy v then (ae_date E v, w) else apfst Some (clock w)
      | None \<Rightarrow> apfst Some (clock w))"

definition event_of :: "ext \<Rightarrow> jobj \<Rightarrow> bool \<Rightarrow> int option \<Rightarrow> api_event" where
  "event_of X payload forceError ts =
     (let statusCode = parse_int (jstring2 X payload ''statusCode'' ''status_code'' ''0'')
      in \<lparr> ev_traceId = jstring X payload ''traceId'' [],
           ev_apiId = jstring2 X payload ''apiId'' ''api_id'' [],
           ev_clientId = jstring2 X payload ''clientId'' ''client_id'' [],
           ev_userId = jstring2 X payload ''userId'' ''user_id'' [],
           ev_plan = jstring X payload ''plan'' [],
           ev_method = jstring X payload ''method'' ''UNKNOWN'',
           ev_path = jstring X payload ''path'' ''/'',
           ev_statusCode = statusCode,
           ev_latencyMs = parse_int (jstring2 X payload ''latencyMs'' ''latency_ms'' ''0''),
           ev_requestBytes = parse_int (jstring X payload ''requestBytes'' ''0''),
           ev_responseBytes = parse_int (jstring X payload ''responseBytes'' ''0''),
           ev_isError = (forceError \<or> (case statusCode of None \<Rightarrow> False | Some s \<Rightarrow> 500 \<le> s)),
           ev_ts = ts \<rparr>)"

text \<open>\<open>setMinutes(0, 0, 0)\<close> and \<open>setHours(0, 0, 0, 0)\<close> in local time.\<close>

definition floor_to :: "ana_env \<Rightarrow> int \<Rightarrow> int option \<Rightarrow> int option" where
  "floor_to E len ts = map_option (\<lambda>t. t - (t + ae_zone E) mod len) ts"

fun bucket_start :: "ana_env \<Rightarrow> bucket_type \<Rightarrow> int option \<Rightarrow> int option" where
  "bucket_start E Hour ts = floor_to E 3600000 ts"
| "bucket_start E Day ts = floor_to E 86400000 ts"

definition bucket_event_of :: "api_event \<Rightarrow> bucket_event" where
  "bucket_event_of e =
     \<lparr> be_latencyMs = ev_latencyMs e, be_statusCode = ev_statusCode e, be_isError = ev_isError e,
       be_responseBytes = ev_responseBytes e \<rparr>"

text \<open>
  The three updates of \<open>Promise.all\<close> are all sent; they touch different collections, so their
  order does not show. The first that fails rejects the whole, which is only logged.
\<close>

definition handleApiEvent :: "ext \<Rightarrow> ana_env \<Rightarrow> 'd redis \<Rightarrow> jobj \<Rightarrow> bool \<Rightarrow> 'd aio \<Rightarrow> (exn + unit) \<times> 'd aio" where
  "handleApiEvent X E R payload forceError w =
     (let (ts, w1) = payload_ts E payload w; e = event_of X payload forceError ts
      in if ev_apiId e = [] then (Inr (), w1)
         else case insertApiEvent e w1 of
                (Inl err, w2) \<Rightarrow> (Inl err, w2)
              | (Inr _, w2) \<Rightarrow>
                  (let hourStart = bucket_start E Hour ts; dayStart = bucket_start E Day ts; ev = bucket_event_of e;
                       (r1, w3) = upsertHourlyBucket X E hourStart (ev_apiId e) (ev_clientId e) (ev_plan e) ev w2;
                       (r2, w4) = upsertDailyBucket X E dayStart (ev_apiId e) (ev_clientId e) (ev_plan e) ev w3;
                       (r3, w5) = incrRealtimeCounters R (ev_apiId e) (ev_clientId e) (ev_isError e) w4
                   in (case r1 of Inl err \<Rightarrow> Inl err | Inr _ \<Rightarrow> (case r2 of Inl err \<Rightarrow> Inl err | Inr _ \<Rightarrow> r3), w5)))"

definition quota_event_of :: "ext \<Rightarrow> jobj \<Rightarrow> int option \<Rightarrow> quota_event" where
  "quota_event_of X payload ts =
     \<lparr> qe_apiId = jstring2 X payload ''apiId'' ''api_id'' [], qe_clientId = jstring2 X payload ''clientId'' ''client_id'' [],
       qe_plan = jstring X payload ''plan'' [], qe_window = jstring X payload ''window'' ''rpm'',
       qe_limit = parse_int (jstring X payload ''limit'' ''0''),
       qe_actual = parse_int (jstring X payload ''actual'' ''0''), qe_ts = ts \<rparr>"

definition handleQuotaEvent :: "ext \<Rightarrow> ana_env \<Rightarrow> jobj \<Rightarrow> 'd aio \<Rightarrow> (exn + unit) \<times> 'd aio" where
  "handleQuotaEvent X E payload w =
     (let (ts, w1) = payload_ts E payload w
      in mongo (\<lambda>w. w\<lparr>ao_quota := ao_quota w @ [quota_event_of X payload ts]\<rparr>) w1)"

record message =
  ms_topic :: string
  ms_value :: "string option"

text \<open>\<open>eachMessage\<close>: whatever is thrown is logged, and the message counts as handled.\<close>

definition handle_message :: "ext \<Rightarrow> ana_env \<Rightarrow> 'd redis \<Rightarrow> message \<Rightarrow> 'd aio \<Rightarrow> 'd aio" where
  "handle_message X E R m w =
     (case ms_value m of
        None \<Rightarrow> w
      | Some text \<Rightarrow>
          (case x_json_parse X text of
             None \<Rightarrow> w
           | Some v \<Rightarrow>
               (if v = JNull then w
                else if ms_topic m = ''quota.exceeded''
                then snd (handleQuotaEvent X E (json_obj v) w)
                else snd (handleApiEvent X E R (json_obj v) (ms_topic m = ''api.errors'') w))))"

definition consume :: "ext \<Rightarrow> ana_env \<Rightarrow> 'd redis \<Rightarrow> message list \<Rightarrow> 'd aio \<Rightarrow> 'd aio" where
  "consume X E R ms w = fold (handle_message X E R) ms w"

section \<open>Queries\<close>

definition buckets_of :: "bucket_type \<Rightarrow> 'd aio \<Rightarrow> metric_bucket list" where
  "buckets_of t w = (case t of Hour \<Rightarrow> ao_hourly w | Day \<Rightarrow> ao_daily w)"

definition in_range :: "ana_env \<Rightarrow> string \<Rightarrow> int \<Rightarrow> int \<Rightarrow> metric_bucket \<Rightarrow> bool" where
  "in_range E apiId lo hi b =
     (mb_apiId b = apiId \<and> lo \<le> date_ms E (mb_bucketStart b) \<and> date_ms E (mb_bucketStart b) \<le> hi)"

definition merge_objects :: "(string \<times> int) list list \<Rightarrow> (string \<times> int) list" where
  "merge_objects objs = fold (\<lambda>obj acc. fold (\<lambda>(k, v). rset k v) obj acc) objs []"

definition num_sum :: "int option list \<Rightarrow> int option" where
  "num_sum xs = fold (\<lambda>x acc. num_add acc x) xs (Some 0)"

definition num_maximum :: "int option list \<Rightarrow> int option" where
  "num_maximum xs = fold (\<lambda>x acc. num_max acc x) xs None"

record metrics_summary =
  su_apiId :: string
  su_period :: string
  su_totalRequests :: int
  su_errorRequests :: int
  su_errorRate :: rat
  su_avgLatencyMs :: "rat option"
  su_maxLatencyMs :: "int option"
  su_totalBytes :: "int option"
  su_topStatusCodes :: "(int option \<times> int) list"

definition top_codes :: "(string \<times> int) list \<Rightarrow> (int option \<times> int) list" where
  "top_codes counts =
     map (\<lambda>(code, n). (parse_int code, n)) (take 5 (js_sort (\<lambda>a b. snd b - snd a) (object_entries counts)))"

definition summarize :: "ana_env \<Rightarrow> string \<Rightarrow> int \<Rightarrow> int \<Rightarrow> metric_bucket list \<Rightarrow> metrics_summary" where
  "summarize E apiId lo hi bs =
     (let tot = sum_list (map mb_requests bs); errs = sum_list (map mb_errors bs);
          period = ae_iso E lo @ ''/'' @ ae_iso E hi
      in if bs = [] \<or> tot = 0
         then \<lparr> su_apiId = apiId, su_period = period, su_totalRequests = 0, su_errorRequests = 0, su_errorRate = 0,
                su_avgLatencyMs = Some 0, su_maxLatencyMs = Some 0, su_totalBytes = Some 0, su_topStatusCodes = [] \<rparr>
         else \<lparr> su_apiId = apiId, su_period = period, su_totalRequests = tot, su_errorRequests = errs,
                su_errorRate = of_int errs / of_int tot,
                su_avgLatencyMs = map_option (\<lambda>l. of_int l / of_int tot) (num_sum (map mb_latencySum bs)),
                su_maxLatencyMs = num_maximum (map mb_latencyMax bs),
                su_totalBytes = num_add (num_add (num_sum (map mb_bytes2xx bs)) (num_sum (map mb_bytes4xx bs)))
                  (num_sum (map mb_bytes5xx bs)),
                su_topStatusCodes = top_codes (merge_objects (map mb_statusCounts bs)) \<rparr>)"

definition getAPISummary :: "ana_env \<Rightarrow> string \<Rightarrow> int \<Rightarrow> int \<Rightarrow> bucket_type \<Rightarrow> 'd aio \<Rightarrow>
    (exn + metrics_summary) \<times> 'd aio" where
  "getAPISummary E apiId lo hi granularity =
     mongo_read (\<lambda>w. Inr (summarize E apiId lo hi (filter (in_range E apiId lo hi) (ae_scan E (buckets_of granularity w)))))"

definition getTimeSeries :: "ana_env \<Rightarrow> string \<Rightarrow> string option \<Rightarrow> int \<Rightarrow> int \<Rightarrow> bucket_type \<Rightarrow> 'd aio \<Rightarrow>
    (exn + metric_bucket list) \<times> 'd aio" where
  "getTimeSeries E apiId clientId lo hi granularity =
     mongo_read (\<lambda>w. Inr (take 1000 (sort_key (\<lambda>b. date_ms E (mb_bucketStart b))
       (filter (\<lambda>b. in_range E apiId lo hi b \<and> (truthy clientId \<longrightarrow> Some (mb_clientId b) = clientId))
         (ae_scan E (buckets_of granularity w))))))"

definition count_client :: "metric_bucket \<Rightarrow> (string \<times> int \<times> int) list \<Rightarrow> (string \<times> int \<times> int) list" where
  "count_client b acc =
     (let (n, errs) = orelse (rget acc (mb_clientId b)) (0, 0)
      in rset (mb_clientId b) (n + mb_requests b, errs + mb_errors b) acc)"

definition client_counts :: "metric_bucket list \<Rightarrow> client_count list" where
  "client_counts bs =
     map (\<lambda>(c, n, errs). \<lparr> cc_clientId = c, cc_requests = n, cc_errors = errs \<rparr>) (fold count_client bs [])"

text \<open>\<open>$limit\<close> takes a positive number only; the server refuses the rest.\<close>

definition getTopClients :: "ana_env \<Rightarrow> string \<Rightarrow> int \<Rightarrow> int \<Rightarrow> int option \<Rightarrow> 'd aio \<Rightarrow>
    (exn + client_count list) \<times> 'd aio" where
  "getTopClients E apiId lo hi lmt =
     mongo_read (\<lambda>w.
       let groups = ae_groups E (client_counts (filter (in_range E apiId lo hi) (ae_scan E (ao_hourly w))))
       in case lmt of
            None \<Rightarrow> Inl (JsError ''MongoServerError'' [])
          | Some n \<Rightarrow> if n \<le> 0 then Inl (JsError ''MongoServerError'' [])
                    else Inr (take (nat n) (sort_key (\<lambda>c. - cc_requests c) groups)))"

definition getQuotaEvents :: "ana_env \<Rightarrow> string \<Rightarrow> int \<Rightarrow> int \<Rightarrow> 'd aio \<Rightarrow> (exn + quota_event list) \<times> 'd aio" where
  "getQuotaEvents E apiId lo hi =
     mongo_read (\<lambda>w. Inr (take 200 (sort_key (\<lambda>q. - date_ms E (qe_ts q))
       (filter (\<lambda>q. qe_apiId q = apiId \<and> lo \<le> date_ms E (qe_ts q) \<and> date_ms E (qe_ts q) \<le> hi)
         (ae_scan_quota E (ao_quota w))))))"

section \<open>Routes\<close>

datatype 'a answer = Refused string | Crashed | Data 'a

definition parseDateParam :: "ana_env \<Rightarrow> string option \<Rightarrow> int \<Rightarrow> int" where
  "parseDateParam E val fallback =
     (if \<not> truthy val then fallback else orelse (ae_date E (JStr (str_of val))) fallback)"

definition DAY_MS :: int where
  "DAY_MS = 24 * 3600000"

definition answer_of :: "(exn + 'a) \<times> 'd aio \<Rightarrow> 'a answer \<times> 'd aio" where
  "answer_of r = (case r of (Inl e, w) \<Rightarrow> (Crashed, w) | (Inr a, w) \<Rightarrow> (Data a, w))"

text \<open>What the four routes over a range share: the \<open>apiId\<close> and the two dates.\<close>

definition range_route :: "ana_env \<Rightarrow> dict \<Rightarrow> (string \<Rightarrow> int \<Rightarrow> int \<Rightarrow> 'd aio \<Rightarrow> (exn + 'a) \<times> 'd aio) \<Rightarrow>
    'd aio \<Rightarrow> 'a answer \<times> 'd aio" where
  "range_route E q query w =
     (if \<not> truthy (rget q ''apiId'') then (Refused ''apiId required'', w)
      else (let (now, w1) = clock w; toDate = parseDateParam E (rget q ''to'') now;
                (now', w2) = clock w1; fromDate = parseDateParam E (rget q ''from'') (now' - DAY_MS)
            in answer_of (query (str_of (rget q ''apiId'')) fromDate toDate w2)))"

definition granularity_of :: "dict \<Rightarrow> bucket_type" where
  "granularity_of q = (if rget q ''granularity'' = Some ''day'' then Day else Hour)"

definition summary_route :: "ana_env \<Rightarrow> dict \<Rightarrow> 'd aio \<Rightarrow> metrics_summary answer \<times> 'd aio" where
  "summary_route E q = range_route E q (\<lambda>apiId lo hi. getAPISummary E apiId lo hi (granularity_of q))"

definition timeseries_route :: "ana_env \<Rightarrow> dict \<Rightarrow> 'd aio \<Rightarrow> metric_bucket list answer \<times> 'd aio" where
  "timeseries_route E q =
     range_route E q (\<lambda>apiId lo hi. getTimeSeries E apiId (rget q ''clientId'') lo hi (granularity_of q))"

definition top_clients_route :: "ana_env \<Rightarrow> dict \<Rightarrow> 'd aio \<Rightarrow> client_count list answer \<times> 'd aio" where
  "top_clients_route E q =
     range_route E q (\<lambda>apiId lo hi. getTopClients E apiId lo hi (parse_int (orelse (rget q ''limit'') ''10'')))"

definition quota_route :: "ana_env \<Rightarrow> dict \<Rightarrow> 'd aio \<Rightarrow> quota_event list answer \<times> 'd aio" where
  "quota_route E q = range_route E q (getQuotaEvents E)"

definition realtime_route :: "'d redis \<Rightarrow> dict \<Rightarrow> 'd aio \<Rightarrow> realtime_stats answer \<times> 'd aio" where
  "realtime_route R q w =
     (if \<not> truthy (rget q ''apiId'') then (Refused ''apiId required'', w)
      else answer_of (getRealtimeStats R (str_of (rget q ''apiId'')) (orelse (rget q ''clientId'') []) w))"

end
