(* ===== verification/Views.thy ===== *)
theory Views
  imports Analytics "HOL-Library.Multiset"
begin

text \<open>
  Documents that summarise groups of events. The locale \<open>materialised\<close> states what makes an
  upsert maintain the grouping of a list of events, and \<open>materialised_total\<close> what makes a total
  over the documents the total over the events; \<open>AnalyticsProps\<close> interprets both on the buckets
  of the analytics service.
\<close>

section \<open>Groups of events\<close>

definition firsts :: "'k list \<Rightarrow> 'k list" where
  "firsts ks = rev (remdups (rev ks))"

definition groups_by :: "('e \<Rightarrow> 'k) \<Rightarrow> 'e list \<Rightarrow> 'e list list" where
  "groups_by key es = map (\<lambda>k. filter (\<lambda>e. key e = k) es) (firsts (map key es))"

lemma firsts_Nil [simp]: "firsts [] = []"
  by (simp add: firsts_def)

lemma firsts_snoc: "firsts (ks @ [k]) = (if k \<in> set ks then firsts ks else firsts ks @ [k])"
  by (simp add: firsts_def)

lemma set_firsts [simp]: "set (firsts ks) = set ks"
  by (simp add: firsts_def)

lemma distinct_firsts [simp]: "distinct (firsts ks)"
  by (simp add: firsts_def)

lemma groups_by_Nil [simp]: "groups_by key [] = []"
  by (simp add: groups_by_def)

lemma group_members: "g \<in> set (groups_by key es) \<Longrightarrow> g \<noteq> [] \<and> (\<forall>e \<in> set g. key e = key (hd g))"
proof -
  assume "g \<in> set (groups_by key es)"
  then obtain k where k: "k \<in> key ` set es" "g = filter (\<lambda>e. key e = k) es"
    by (auto simp: groups_by_def)
  then have "g \<noteq> []" and m: "\<And>e. e \<in> set g \<Longrightarrow> key e = k" by (auto simp: filter_empty_conv)
  moreover from this have "key (hd g) = k" by simp
  ultimately show ?thesis by simp
qed

lemma group_nonempty: "g \<in> set (groups_by key es) \<Longrightarrow> g \<noteq> []"
  using group_members by blast

lemma group_subset: "g \<in> set (groups_by key es) \<Longrightarrow> set g \<subseteq> set es"
  by (auto simp: groups_by_def)

lemma upsert_doc_absent: "(\<And>b. b \<in> set bs \<Longrightarrow> \<not> p b) \<Longrightarrow> upsert_doc p f bs = bs @ [f None]"
  by (induction bs) auto

lemma upsert_doc_map:
  assumes "\<And>g. g \<in> set gs \<Longrightarrow> p (h g) = q g" and "\<And>g. g \<in> set gs \<Longrightarrow> q g \<Longrightarrow> f (Some (h g)) = h (u (Some g))"
    and "f None = h (u None)"
  shows "upsert_doc p f (map h gs) = map h (upsert_doc q u gs)"
  using assms by (induction gs) auto

text \<open>Appending an event is an upsert on the groups.\<close>

definition add_event :: "'e \<Rightarrow> 'e list option \<Rightarrow> 'e list" where
  "add_event e g = (case g of None \<Rightarrow> [e] | Some es \<Rightarrow> es @ [e])"

lemma upsert_groups:
  assumes "distinct ks" "\<And>k. k \<in> set ks \<Longrightarrow> G k \<noteq> [] \<and> (\<forall>e \<in> set (G k). key e = k)" "key x \<in> set ks"
  shows "upsert_doc (\<lambda>g. key (hd g) = key x) (add_event x) (map G ks)
    = map (\<lambda>k. if key x = k then G k @ [x] else G k) ks"
  using assms
proof (induction ks)
  case (Cons k ks)
  have hd: "key (hd (G k)) = k" using Cons.prems(2) [of k] by simp
  show ?case
  proof (cases "key x = k")
    case True
    with Cons.prems(1) have "map (\<lambda>k. if key x = k then G k @ [x] else G k) ks = map G ks" by auto
    with True hd show ?thesis by (simp add: add_event_def)
  next
    case False
    with Cons.prems have "upsert_doc (\<lambda>g. key (hd g) = key x) (add_event x) (map G ks)
        = map (\<lambda>k. if key x = k then G k @ [x] else G k) ks"
      by (intro Cons.IH) simp_all
    with False hd show ?thesis by simp
  qed
qed simp

lemma groups_by_snoc:
  "groups_by key (es @ [x]) = upsert_doc (\<lambda>g. key (hd g) = key x) (add_event x) (groups_by key es)"
proof (cases "key x \<in> key ` set es")
  case True
  have "filter (\<lambda>e. key e = k) es \<noteq> []" if "k \<in> key ` set es" for k
    using that by (auto simp: filter_empty_conv)
  then show ?thesis
    using True unfolding groups_by_def
    by (subst upsert_groups) (auto simp: firsts_snoc intro!: map_cong)
next
  case False
  have "\<not> key (hd g) = key x" if g: "g \<in> set (groups_by key es)" for g
  proof -
    have "hd g \<in> set g" using group_nonempty [OF g] by simp
    then have "hd g \<in> set es" using group_subset [OF g] by blast
    then show ?thesis using False by (metis image_eqI)
  qed
  moreover have "filter (\<lambda>e. key e = key x) es = []" using False unfolding filter_empty_conv by (metis image_eqI)
  moreover have "\<forall>e \<in> set es. key x \<noteq> key e" using False by (metis image_eqI)
  ultimately show ?thesis
    using False by (simp add: upsert_doc_absent) (simp add: groups_by_def firsts_snoc add_event_def)
qed

section \<open>Materialised views\<close>

text \<open>
  \<open>agg\<close> summarises a group in a document, \<open>step e\<close> is the update by one more event (\<open>None\<close>
  when the document is new), and a document shows the key of its group.
\<close>

locale materialised =
  fixes key :: "'e \<Rightarrow> 'k" and dkey :: "'b \<Rightarrow> 'k" and agg :: "'e list \<Rightarrow> 'b" and step :: "'e \<Rightarrow> 'b option \<Rightarrow> 'b"
  assumes agg_one: "step e None = agg [e]"
    and agg_more: "g \<noteq> [] \<Longrightarrow> step e (Some (agg g)) = agg (g @ [e])"
    and agg_key: "g \<noteq> [] \<Longrightarrow> dkey (agg g) = key (hd g)"
begin

lemma view_step:
  "upsert_doc (\<lambda>b. dkey b = key e) (step e) (map agg (groups_by key es)) = map agg (groups_by key (es @ [e]))"
  unfolding groups_by_snoc
proof (rule upsert_doc_map)
  fix g assume "g \<in> set (groups_by key es)"
  then have g: "g \<noteq> []" by (rule group_nonempty)
  show "(dkey (agg g) = key e) = (key (hd g) = key e)" by (simp add: agg_key g)
  show "step e (Some (agg g)) = agg (add_event e (Some g))" by (simp add: add_event_def agg_more g)
qed (simp add: add_event_def agg_one)

lemma view_keys: "b \<in> set (map agg (groups_by key es)) \<Longrightarrow> \<exists>e \<in> set es. dkey b = key e"
proof -
  assume "b \<in> set (map agg (groups_by key es))"
  then obtain g where g: "g \<in> set (groups_by key es)" "b = agg g" by auto
  have n: "g \<noteq> []" by (rule group_nonempty [OF g(1)])
  then have "hd g \<in> set g" by simp
  then have "hd g \<in> set es" using group_subset [OF g(1)] by blast
  then show ?thesis using g(2) agg_key [OF n] by blast
qed

end

text \<open>A total over documents that is the total over events, for a commutative operation.\<close>

locale materialised_total = materialised key dkey agg step + comm_monoid plus zero
  for key :: "'e \<Rightarrow> 'k" and dkey :: "'b \<Rightarrow> 'k" and agg :: "'e list \<Rightarrow> 'b" and step :: "'e \<Rightarrow> 'b option \<Rightarrow> 'b"
    and plus :: "'n \<Rightarrow> 'n \<Rightarrow> 'n" and zero :: 'n +
  fixes doc :: "'b \<Rightarrow> 'n" and part :: "'e \<Rightarrow> 'n"
  assumes doc_one: "doc (agg [e]) = part e"
    and doc_more: "g \<noteq> [] \<Longrightarrow> doc (agg (g @ [e])) = plus (doc (agg g)) (part e)"
begin

definition total_of :: "('x \<Rightarrow> 'n) \<Rightarrow> 'x list \<Rightarrow> 'n" where
  "total_of f xs = fold (\<lambda>x acc. plus acc (f x)) xs zero"

lemma fold_total: "fold (\<lambda>x acc. plus acc (f x)) xs a = plus a (total_of f xs)"
proof (induction xs arbitrary: a)
  case (Cons x xs)
  show ?case unfolding total_of_def by (simp add: Cons.IH assoc)
qed (simp add: total_of_def)

lemma total_of_Cons: "total_of f (x # xs) = plus (f x) (total_of f xs)"
  unfolding total_of_def [of f "x # xs"] by (simp add: fold_total)

lemma total_of_Nil: "total_of f [] = zero"
  by (simp add: total_of_def)

lemma total_of_snoc: "total_of f (xs @ [x]) = plus (total_of f xs) (f x)"
  by (simp add: total_of_def)

lemma total_of_perm: "mset xs = mset ys \<Longrightarrow> total_of f xs = total_of f ys"
  unfolding total_of_def
  by (rule arg_cong [of _ _ "\<lambda>h. h zero"], rule fold_multiset_equiv) (auto simp: fun_eq_iff ac_simps)

lemma total_upsert:
  "(\<And>g. g \<in> set gs \<Longrightarrow> g \<noteq> []) \<Longrightarrow>
   total_of doc (filter (\<lambda>b. P (dkey b)) (map agg (upsert_doc (\<lambda>g. key (hd g) = key x) (add_event x) gs)))
   = plus (total_of doc (filter (\<lambda>b. P (dkey b)) (map agg gs))) (if P (key x) then part x else zero)"
proof (induction gs)
  case Nil
  then show ?case by (simp add: total_of_Cons total_of_Nil add_event_def agg_key doc_one ac_simps)
next
  case (Cons g gs)
  have g: "g \<noteq> []" and gs: "\<And>g. g \<in> set gs \<Longrightarrow> g \<noteq> []" using Cons.prems by simp_all
  show ?case
  proof (cases "key (hd g) = key x")
    case True
    then show ?thesis
      by (simp add: add_event_def agg_key g total_of_Cons doc_more ac_simps)
  next
    case False
    show ?thesis
      using Cons.IH [OF gs] by (simp add: False agg_key g total_of_Cons ac_simps)
  qed
qed

lemma total_view:
  "total_of doc (filter (\<lambda>b. P (dkey b)) (map agg (groups_by key es))) = total_of part (filter (\<lambda>e. P (key e)) es)"
proof (induction es rule: rev_induct)
  case (snoc x es)
  have "total_of doc (filter (\<lambda>b. P (dkey b)) (map agg (groups_by key (es @ [x]))))
      = plus (total_of doc (filter (\<lambda>b. P (dkey b)) (map agg (groups_by key es)))) (if P (key x) then part x else zero)"
    unfolding groups_by_snoc by (rule total_upsert) (rule group_nonempty)
  then show ?case by (simp add: snoc.IH total_of_snoc)
qed (simp add: total_of_Nil)

lemma total_scan:
  assumes "mset bs = mset (map agg (groups_by key es))"
  shows "total_of doc (filter (\<lambda>b. P (dkey b)) bs) = total_of part (filter (\<lambda>e. P (key e)) es)"
proof -
  have "mset (filter (\<lambda>b. P (dkey b)) bs) = mset (filter (\<lambda>b. P (dkey b)) (map agg (groups_by key es)))"
    unfolding mset_filter assms ..
  from total_of_perm [OF this] show ?thesis by (simp only: total_view)
qed

end

end
