(* ===== verification/AnalyticsProps.thy ===== *)
theory AnalyticsProps
  imports Views
begin

text \<open>
  The buckets of the analytics service are a materialised view of the raw events: after any
  messages the collection of the hours and the one of the days are what grouping the events
  gives, and what the summary route reports are totals over the events of its range.
\<close>

section \<open>The view the buckets should show\<close>

definition event_key :: "ana_env \<Rightarrow> bucket_type \<Rightarrow> api_event \<Rightarrow> bucket_key" where
  "event_key E t e = (date_ms E (bucket_start E t (ev_ts e)), ev_apiId e, ev_clientId e, t)"

definition status_between :: "int \<Rightarrow> int option \<Rightarrow> api_event \<Rightarrow> bool" where
  "status_between lo hi e = status_within (bucket_event_of e) lo hi"

text \<open>How often every entry of a list occurs, in the order of the first occurrences.\<close>

definition tally :: "'a list \<Rightarrow> ('a \<times> int) list" where
  "tally xs = map (\<lambda>x. (x, int (count_list xs x))) (firsts xs)"

definition bucket_of :: "ext \<Rightarrow> ana_env \<Rightarrow> bucket_type \<Rightarrow> api_event list \<Rightarrow> metric_bucket" where
  "bucket_of X E t es =
     \<lparr> mb_bucketStart = bucket_start E t (ev_ts (hd es)), mb_bucketType = t, mb_apiId = ev_apiId (hd es),
       mb_clientId = ev_clientId (hd es), mb_plan = ev_plan (last es), mb_requests = int (length es),
       mb_errors = int (length (filter ev_isError es)), mb_latencySum = num_sum (map ev_latencyMs es),
       mb_latencyMax = num_maximum (map ev_latencyMs es), mb_latencyP99 = 0,
       mb_bytes2xx = num_sum (map ev_responseBytes (filter (status_between 200 (Some 300)) es)),
       mb_bytes4xx = num_sum (map ev_responseBytes (filter (status_between 400 (Some 500)) es)),
       mb_bytes5xx = num_sum (map ev_responseBytes (filter (status_between 500 None) es)),
       mb_statusCounts = tally (map (\<lambda>e. show_num X (ev_statusCode e)) es) \<rparr>"

definition event_view :: "ext \<Rightarrow> ana_env \<Rightarrow> bucket_type \<Rightarrow> api_event list \<Rightarrow> metric_bucket list" where
  "event_view X E t es = map (bucket_of X E t) (groups_by (event_key E t) es)"

section \<open>Arithmetic with NaN\<close>

lemma num_add_simps [simp]: "num_add (Some 0) a = a" "num_add a (Some 0) = a"
  by (simp_all add: num_add_def split: option.split)

lemma num_max_simps [simp]: "num_max None a = a" "num_max a None = a" "num_max a a = a"
  by (simp_all add: num_max_def split: option.split)

interpretation num_add: comm_monoid num_add "Some 0"
  by unfold_locales (auto simp: num_add_def split: option.splits)

interpretation num_max: comm_monoid num_max None
  by unfold_locales (auto simp: num_max_def split: option.splits)

lemma num_sum_snoc [simp]: "num_sum [] = Some 0" "num_sum (xs @ [x]) = num_add (num_sum xs) x"
  by (simp_all add: num_sum_def)

lemma num_maximum_snoc [simp]: "num_maximum [] = None" "num_maximum (xs @ [x]) = num_max (num_maximum xs) x"
  by (simp_all add: num_maximum_def)

lemma singleton_snoc: "[x] = [] @ [x]"
  by simp

lemma num_sum_one [simp]: "num_sum [x] = x" "num_maximum [x] = x"
  by (simp_all add: num_sum_def num_maximum_def)

lemma tally_one: "tally [x] = [(x, 1)]"
  by (simp add: tally_def firsts_def)

lemma rget_map_pair: "rget (map (\<lambda>x. (x, f x)) xs) k = (if k \<in> set xs then Some (f k) else None)"
  by (induction xs) auto

lemma rset_map_pair:
  "distinct xs \<Longrightarrow> k \<in> set xs \<Longrightarrow>
   rset k v (map (\<lambda>x. (x, f x)) xs) = map (\<lambda>x. (x, if x = k then v else f x)) xs"
  by (induction xs) (auto simp: rset_code intro!: map_cong)

lemma tally_snoc: "tally (xs @ [x]) = rset x (orelse (rget (tally xs) x) 0 + 1) (tally xs)"
proof (cases "x \<in> set xs")
  case True
  have "map (\<lambda>y. (y, int (count_list (xs @ [x]) y))) (firsts xs)
      = map (\<lambda>y. (y, if y = x then int (count_list xs x) + 1 else int (count_list xs y))) (firsts xs)"
    by (rule map_cong) auto
  with True show ?thesis
    by (simp add: tally_def firsts_snoc rget_map_pair rset_map_pair)
next
  case False
  then have c: "count_list xs x = 0" by simp
  have "map (\<lambda>y. (y, int (count_list (xs @ [x]) y))) (firsts xs) = tally xs"
    unfolding tally_def by (rule map_cong) (use False in auto)
  moreover have "rget (tally xs) x = None" using False by (simp add: tally_def rget_map_pair)
  moreover from this have "rset x 1 (tally xs) = tally xs @ [(x, 1)]"
    by (intro length_rset_new) (simp add: rget_None_iff)
  ultimately show ?thesis using False c by (simp add: tally_def firsts_snoc)
qed

section \<open>The upserts maintain the view\<close>

definition add_to_bucket :: "ext \<Rightarrow> ana_env \<Rightarrow> bucket_type \<Rightarrow> api_event \<Rightarrow> metric_bucket option \<Rightarrow> metric_bucket" where
  "add_to_bucket X E t e old =
     count_event X (ev_plan e) (bucket_event_of e)
       (case old of None \<Rightarrow> fresh_bucket t (bucket_start E t (ev_ts e)) (ev_apiId e) (ev_clientId e) (ev_plan e) (bucket_event_of e)
        | Some b \<Rightarrow> b)"

lemma bytes_of_event: "bytes_of (bucket_event_of e) lo hi = (if status_between lo hi e then ev_responseBytes e else Some 0)"
  by (simp add: bytes_of_def status_between_def) (simp add: bucket_event_of_def)

lemma bucket_event_of_simps [simp]:
  "be_latencyMs (bucket_event_of e) = ev_latencyMs e" "be_statusCode (bucket_event_of e) = ev_statusCode e"
  "be_isError (bucket_event_of e) = ev_isError e"
  by (simp_all add: bucket_event_of_def)

interpretation buckets: materialised "event_key E t" "mb_key E" "bucket_of X E t" "add_to_bucket X E t"
  for X E t
proof (standard, goal_cases)
  case (1 e)
  then show ?case
    by (simp add: add_to_bucket_def count_event_def fresh_bucket_def bucket_of_def bytes_of_event Let_def
        tally_one rset_code)
next
  case (2 g e)
  then show ?case
    by (simp add: add_to_bucket_def count_event_def bucket_of_def bytes_of_event Let_def tally_snoc)
next
  case (3 g)
  then show ?case by (simp add: mb_key_def bucket_of_def event_key_def)
qed

lemma upsertBucket_view:
  "upsertBucket X E t (bucket_start E t (ev_ts e)) (ev_apiId e) (ev_clientId e) (ev_plan e) (bucket_event_of e)
     (event_view X E t es) = event_view X E t (es @ [e])"
  using buckets.view_step [of E t e X es]
  by (simp add: upsertBucket_def event_view_def event_key_def add_to_bucket_def [abs_def])

section \<open>What any run of messages leaves\<close>

definition same_buckets :: "'d aio \<Rightarrow> 'd aio \<Rightarrow> bool" where
  "same_buckets w w' \<longleftrightarrow> ao_events w' = ao_events w \<and> ao_hourly w' = ao_hourly w \<and> ao_daily w' = ao_daily w"

text \<open>The buckets show the raw events, those aside whose update the database rejected.\<close>

definition follows :: "ext \<Rightarrow> ana_env \<Rightarrow> bool \<Rightarrow> 'd aio \<Rightarrow> bool" where
  "follows X E all_of w \<longleftrightarrow> (\<exists>hs ds. subseq hs (ao_events w) \<and> subseq ds (ao_events w) \<and>
     ao_hourly w = event_view X E Hour hs \<and> ao_daily w = event_view X E Day ds \<and>
     (all_of \<longrightarrow> hs = ao_events w \<and> ds = ao_events w))"

lemma payload_ts_frame:
  "same_buckets w (snd (payload_ts E payload w))" "ao_fault (snd (payload_ts E payload w)) = ao_fault w"
  by (auto simp: payload_ts_def clock_def date_now_def same_buckets_def split: option.split)

lemma realtime_frame:
  "incrRealtimeCounters R a c err w = (r, w') \<Longrightarrow> same_buckets w w' \<and> ao_fault w' = ao_fault w"
  by (auto simp: incrRealtimeCounters_def same_buckets_def split: prod.splits)

lemma realtime_fault [simp]: "ao_fault (snd (incrRealtimeCounters R a c err w)) = ao_fault w"
  by (simp add: incrRealtimeCounters_def split: prod.split)

lemma shift_None: "shift (\<lambda>_. None) = (\<lambda>_. None)"
  by (simp add: fun_eq_iff)

lemma follows_same: "same_buckets w w' \<Longrightarrow> follows X E all_of w \<Longrightarrow> follows X E all_of w'"
  by (simp add: follows_def same_buckets_def)

text \<open>One event: inserted or not; if it was, each of its two buckets is updated or not.\<close>

definition event_effect :: "ext \<Rightarrow> ana_env \<Rightarrow> api_event \<Rightarrow> bool \<Rightarrow> bool \<Rightarrow> bool \<Rightarrow> 'd aio \<Rightarrow> 'd aio \<Rightarrow> bool" where
  "event_effect X E e i h d w w' \<longleftrightarrow>
     ao_events w' = (if i then ao_events w @ [e] else ao_events w) \<and>
     ao_hourly w' = (if i \<and> h then upsertBucket X E Hour (bucket_start E Hour (ev_ts e)) (ev_apiId e) (ev_clientId e)
        (ev_plan e) (bucket_event_of e) (ao_hourly w) else ao_hourly w) \<and>
     ao_daily w' = (if i \<and> d then upsertBucket X E Day (bucket_start E Day (ev_ts e)) (ev_apiId e) (ev_clientId e)
        (ev_plan e) (bucket_event_of e) (ao_daily w) else ao_daily w)"

lemma handleApiEvent_effect:
  "\<exists>e i h d. event_effect X E e i h d w (snd (handleApiEvent X E R payload forceError w)) \<and>
    (ao_fault w = (\<lambda>_. None) \<longrightarrow> (i \<longrightarrow> h \<and> d) \<and> ao_fault (snd (handleApiEvent X E R payload forceError w)) = (\<lambda>_. None))"
proof -
  obtain ts w1 where p: "payload_ts E payload w = (ts, w1)" by (cases "payload_ts E payload w")
  have b: "ao_events w1 = ao_events w" "ao_hourly w1 = ao_hourly w" "ao_daily w1 = ao_daily w" "ao_fault w1 = ao_fault w"
    using payload_ts_frame [where w = w and E = E and payload = payload] by (simp_all add: p same_buckets_def)
  define e where "e = event_of X payload forceError ts"
  have ts: "ev_ts e = ts" by (simp add: e_def event_of_def Let_def)
  note defs = handleApiEvent_def p e_def [symmetric] Let_def insertApiEvent_def upsertHourlyBucket_def upsertDailyBucket_def
    mongo_def event_effect_def b ts
  show ?thesis
  proof (cases "ev_apiId e = [] \<or> ao_fault w 0 \<noteq> None")
    case True
    show ?thesis
      by (rule exI [of _ e], rule exI [of _ False]) (use True in \<open>auto simp: defs shift_None\<close>)
  next
    case False
    show ?thesis
      by (rule exI [of _ e], rule exI [of _ True], rule exI [of _ "ao_fault w 1 = None"], rule exI [of _ "ao_fault w 2 = None"])
        (use False in \<open>auto simp: defs shift_None same_buckets_def numeral_2_eq_2 dest!: realtime_frame split: prod.split option.split\<close>)
  qed
qed

lemma event_effect_follows:
  assumes "event_effect X E e i h d w w'" "all_of \<longrightarrow> (i \<longrightarrow> h \<and> d)" "follows X E all_of w"
  shows "follows X E all_of w'"
proof -
  from assms(3) obtain hs ds where v: "subseq hs (ao_events w)" "subseq ds (ao_events w)"
    "ao_hourly w = event_view X E Hour hs" "ao_daily w = event_view X E Day ds"
    "all_of \<longrightarrow> hs = ao_events w \<and> ds = ao_events w"
    unfolding follows_def by blast
  show ?thesis
    unfolding follows_def
    by (rule exI [of _ "if i \<and> h then hs @ [e] else hs"], rule exI [of _ "if i \<and> d then ds @ [e] else ds"])
      (use assms(1, 2) v in \<open>auto simp: event_effect_def upsertBucket_view simp del: bucket_start.simps\<close>)
qed

lemma handleQuotaEvent_frame:
  "same_buckets w (snd (handleQuotaEvent X E payload w))"
  "ao_fault w = (\<lambda>_. None) \<Longrightarrow> ao_fault (snd (handleQuotaEvent X E payload w)) = (\<lambda>_. None)"
  using payload_ts_frame [where w = w and E = E and payload = payload]
  by (auto simp: handleQuotaEvent_def mongo_def Let_def same_buckets_def shift_None split: prod.split option.split)

lemma handle_message_follows:
  assumes "follows X E all_of w" "all_of \<longrightarrow> ao_fault w = (\<lambda>_. None)"
  shows "follows X E all_of (handle_message X E R m w) \<and>
    (all_of \<longrightarrow> ao_fault (handle_message X E R m w) = (\<lambda>_. None))"
proof -
  have q: "follows X E all_of (snd (handleQuotaEvent X E p w))" for p
    by (rule follows_same [OF handleQuotaEvent_frame(1) assms(1)])
  have a: "follows X E all_of (snd (handleApiEvent X E R p f w)) \<and>
      (all_of \<longrightarrow> ao_fault (snd (handleApiEvent X E R p f w)) = (\<lambda>_. None))" for p f
    using handleApiEvent_effect [of X E w R p f] event_effect_follows [OF _ _ assms(1)] assms(2) by blast
  show ?thesis
    using assms q a handleQuotaEvent_frame(2)
    by (auto simp: handle_message_def split: option.split)
qed

lemma consume_follows:
  "follows X E all_of w \<Longrightarrow> all_of \<longrightarrow> ao_fault w = (\<lambda>_. None) \<Longrightarrow>
   follows X E all_of (consume X E R ms w) \<and> (all_of \<longrightarrow> ao_fault (consume X E R ms w) = (\<lambda>_. None))"
  unfolding consume_def
proof (induction ms arbitrary: w)
  case (Cons m ms)
  from handle_message_follows [OF Cons.prems] show ?case
    unfolding fold.simps comp_def by (intro Cons.IH) simp_all
qed simp

definition empty_store :: "'d aio \<Rightarrow> bool" where
  "empty_store w \<longleftrightarrow> ao_events w = [] \<and> ao_hourly w = [] \<and> ao_daily w = []"

lemma empty_follows: "empty_store w \<Longrightarrow> follows X E all_of w"
  by (auto simp: empty_store_def follows_def event_view_def intro!: exI [of _ "[]"])

section \<open>Totals\<close>

interpretation requests: materialised_total "event_key E t" "mb_key E" "bucket_of X E t" "add_to_bucket X E t"
    "(+)" 0 mb_requests "\<lambda>e. 1" for X E t
  by unfold_locales (simp_all add: bucket_of_def)

interpretation errors: materialised_total "event_key E t" "mb_key E" "bucket_of X E t" "add_to_bucket X E t"
    "(+)" 0 mb_errors "\<lambda>e. if ev_isError e then 1 else 0" for X E t
  by unfold_locales (simp_all add: bucket_of_def)

interpretation latencies: materialised_total "event_key E t" "mb_key E" "bucket_of X E t" "add_to_bucket X E t"
    num_add "Some 0" mb_latencySum ev_latencyMs for X E t
  by unfold_locales (simp_all add: bucket_of_def)

interpretation slowest: materialised_total "event_key E t" "mb_key E" "bucket_of X E t" "add_to_bucket X E t"
    num_max None mb_latencyMax ev_latencyMs for X E t
  by unfold_locales (simp_all add: bucket_of_def)

definition bytes_between :: "int \<Rightarrow> int option \<Rightarrow> api_event \<Rightarrow> int option" where
  "bytes_between lo hi e = (if status_between lo hi e then ev_responseBytes e else Some 0)"

interpretation bytes2: materialised_total "event_key E t" "mb_key E" "bucket_of X E t" "add_to_bucket X E t"
    num_add "Some 0" mb_bytes2xx "bytes_between 200 (Some 300)" for X E t
  by unfold_locales (simp_all add: bucket_of_def bytes_between_def)

interpretation bytes4: materialised_total "event_key E t" "mb_key E" "bucket_of X E t" "add_to_bucket X E t"
    num_add "Some 0" mb_bytes4xx "bytes_between 400 (Some 500)" for X E t
  by unfold_locales (simp_all add: bucket_of_def bytes_between_def)

interpretation bytes5: materialised_total "event_key E t" "mb_key E" "bucket_of X E t" "add_to_bucket X E t"
    num_add "Some 0" mb_bytes5xx "bytes_between 500 None" for X E t
  by unfold_locales (simp_all add: bucket_of_def bytes_between_def)

lemma sum_list_total: "sum_list (map f xs) = requests.total_of f xs"
proof -
  have "fold (\<lambda>x acc. acc + f x) xs a = a + sum_list (map f xs)" for a :: int
    by (induction xs arbitrary: a) simp_all
  then show ?thesis by (simp add: requests.total_of_def)
qed

lemma num_sum_total: "num_sum (map f xs) = latencies.total_of f xs"
  by (simp add: num_sum_def latencies.total_of_def fold_map comp_def)

lemma num_maximum_total: "num_maximum (map f xs) = slowest.total_of f xs"
  by (simp add: num_maximum_def slowest.total_of_def fold_map comp_def)

section \<open>What the summary reports\<close>

definition events_in :: "ana_env \<Rightarrow> bucket_type \<Rightarrow> string \<Rightarrow> int \<Rightarrow> int \<Rightarrow> api_event list \<Rightarrow> api_event list" where
  "events_in E t apiId lo hi es =
     filter (\<lambda>e. ev_apiId e = apiId \<and> lo \<le> date_ms E (bucket_start E t (ev_ts e)) \<and> date_ms E (bucket_start E t (ev_ts e)) \<le> hi) es"

definition key_in :: "string \<Rightarrow> int \<Rightarrow> int \<Rightarrow> bucket_key \<Rightarrow> bool" where
  "key_in apiId lo hi k = (case k of (start, a, c, t) \<Rightarrow> a = apiId \<and> lo \<le> start \<and> start \<le> hi)"

lemma in_range_key: "in_range E apiId lo hi = (\<lambda>b. key_in apiId lo hi (mb_key E b))"
  by (simp add: fun_eq_iff in_range_def key_in_def mb_key_def)

lemma events_in_key: "events_in E t apiId lo hi es = filter (\<lambda>e. key_in apiId lo hi (event_key E t e)) es"
  by (simp add: events_in_def key_in_def event_key_def)

lemma requests_count: "requests.total_of (\<lambda>e. 1) es = int (length es)"
  by (simp flip: sum_list_total add: sum_list_triv)

lemma errors_count: "requests.total_of (\<lambda>e. if ev_isError e then 1 else 0) es = int (length (filter ev_isError es))"
  by (induction es) (simp_all flip: sum_list_total)

text \<open>The totals of a summary, computed from the events themselves.\<close>

definition reports :: "metrics_summary \<Rightarrow> api_event list \<Rightarrow> bool" where
  "reports s es \<longleftrightarrow>
     su_totalRequests s = int (length es) \<and> su_errorRequests s = int (length (filter ev_isError es)) \<and>
     su_errorRate s = (if es = [] then 0 else of_nat (length (filter ev_isError es)) / of_nat (length es)) \<and>
     su_avgLatencyMs s = (if es = [] then Some 0
       else map_option (\<lambda>l. of_int l / of_nat (length es)) (num_sum (map ev_latencyMs es))) \<and>
     su_maxLatencyMs s = (if es = [] then Some 0 else num_maximum (map ev_latencyMs es)) \<and>
     su_totalBytes s = num_add (num_add (num_sum (map (bytes_between 200 (Some 300)) es))
       (num_sum (map (bytes_between 400 (Some 500)) es))) (num_sum (map (bytes_between 500 None) es))"

lemma summarize_reports:
  assumes "mset bs = mset (event_view X E t es)"
  shows "reports (summarize E apiId lo hi (filter (in_range E apiId lo hi) bs)) (events_in E t apiId lo hi es)"
proof -
  define ms where "ms = filter (in_range E apiId lo hi) bs"
  define es' where "es' = events_in E t apiId lo hi es"
  note v = assms [unfolded event_view_def]
  have r: "sum_list (map mb_requests ms) = int (length es')"
    unfolding ms_def es'_def in_range_key events_in_key sum_list_total requests.total_scan [OF v] by (rule requests_count)
  have e: "sum_list (map mb_errors ms) = int (length (filter ev_isError es'))"
    unfolding ms_def es'_def in_range_key events_in_key sum_list_total errors.total_scan [OF v] by (rule errors_count)
  have l: "num_sum (map mb_latencySum ms) = num_sum (map ev_latencyMs es')"
    unfolding ms_def es'_def in_range_key events_in_key num_sum_total latencies.total_scan [OF v] ..
  have m: "num_maximum (map mb_latencyMax ms) = num_maximum (map ev_latencyMs es')"
    unfolding ms_def es'_def in_range_key events_in_key num_maximum_total slowest.total_scan [OF v] ..
  have b: "num_sum (map mb_bytes2xx ms) = num_sum (map (bytes_between 200 (Some 300)) es')"
    "num_sum (map mb_bytes4xx ms) = num_sum (map (bytes_between 400 (Some 500)) es')"
    "num_sum (map mb_bytes5xx ms) = num_sum (map (bytes_between 500 None) es')"
    unfolding ms_def es'_def in_range_key events_in_key num_sum_total
      bytes2.total_scan [OF v] bytes4.total_scan [OF v] bytes5.total_scan [OF v] by (rule refl)+
  have n: "es' = []" if "ms = []" using r that by simp
  show ?thesis
    unfolding ms_def [symmetric] es'_def [symmetric]
    using n by (auto simp: reports_def summarize_def Let_def r e l m b)
qed

lemma getAPISummary_unfailing:
  "ao_fault w = (\<lambda>_. None) \<Longrightarrow> fst (getAPISummary E apiId lo hi t w) =
     Inr (summarize E apiId lo hi (filter (in_range E apiId lo hi) (ae_scan E (buckets_of t w))))"
  by (simp add: getAPISummary_def mongo_read_def buckets_of_def split: bucket_type.split)

lemma consumed_view:
  assumes "empty_store w" "ao_fault w = (\<lambda>_. None)"
  shows "buckets_of t (consume X E R ms w) = event_view X E t (ao_events (consume X E R ms w))"
    "ao_fault (consume X E R ms w) = (\<lambda>_. None)"
  using consume_follows [OF empty_follows [OF assms(1)], of True X E R ms] assms(2)
  by (auto simp: follows_def buckets_of_def split: bucket_type.split)

text \<open>
  C18. Whatever messages arrive, in whatever order, and whichever commands the database
  rejects: the buckets of the hours are exactly what grouping some of the stored raw events by
  hour, API and client gives (number of requests and errors, sum and maximum of the latencies,
  bytes per class of status, count per status code, plan of the last one), and likewise the
  buckets of the days. When no command is rejected, all the stored events are in both.
\<close>

theorem buckets_follow_events:
  assumes "empty_store w"
  shows "\<exists>hs ds. let w' = consume X E R ms w in
    subseq hs (ao_events w') \<and> subseq ds (ao_events w') \<and>
    ao_hourly w' = event_view X E Hour hs \<and> ao_daily w' = event_view X E Day ds \<and>
    (ao_fault w = (\<lambda>_. None) \<longrightarrow> hs = ao_events w' \<and> ds = ao_events w')"
  using consume_follows [OF empty_follows [OF assms], of "ao_fault w = (\<lambda>_. None)" X E R ms]
  unfolding follows_def Let_def by blast

text \<open>
  C19. The summary route adds up buckets, and the buckets were filled message by message; all
  the same, when no command is rejected, what it reports is computed from the raw events whose
  bucket starts in the range: their number, the number and the rate of the errors, the average
  and the maximum latency and the bytes of the 2xx, 4xx and 5xx answers. The order in which the
  database returns the buckets does not matter.
\<close>

theorem summary_reports_events:
  assumes "empty_store w" "ao_fault w = (\<lambda>_. None)" "\<And>bs. mset (ae_scan E bs) = mset bs"
  shows "\<exists>s. fst (getAPISummary E apiId lo hi t (consume X E R ms w)) = Inr s \<and>
    reports s (events_in E t apiId lo hi (ao_events (consume X E R ms w)))"
  using consumed_view [OF assms(1, 2)] assms(3)
  by (simp add: getAPISummary_unfailing summarize_reports)

subsection \<open>A run\<close>

definition sample_event :: "string \<Rightarrow> rat \<Rightarrow> rat \<Rightarrow> json" where
  "sample_event client status ts =
     JObj [(''apiId'', JStr ''shop''), (''clientId'', JStr client), (''statusCode'', JNum status),
       (''latencyMs'', JNum 20), (''responseBytes'', JNum 100), (''ts'', JNum ts)]"

definition ana_ext :: ext where
  "ana_ext = sample_ext\<lparr>x_json_parse := (\<lambda>s.
     if s = ''one'' then Some (sample_event ''c1'' 200 1000)
     else if s = ''two'' then Some (sample_event ''c1'' 200 3601000)
     else if s = ''three'' then Some (sample_event ''c2'' 503 3602000)
     else None)\<rparr>"

definition sample_ana_env :: ana_env where
  "sample_ana_env = \<lparr> ae_date = (\<lambda>v. case v of JNum r \<Rightarrow> Some \<lfloor>r\<rfloor> | _ \<Rightarrow> None), ae_bad_date = 0, ae_zone = 0,
     ae_iso = (\<lambda>_. ''date''), ae_scan = rev, ae_groups = rev, ae_scan_quota = rev \<rparr>"

text \<open>Redis does not answer; the buckets do not need it.\<close>

definition sample_aio :: "mem aio" where
  "sample_aio = \<lparr> ao_events = [], ao_hourly = [], ao_daily = [], ao_quota = [], ao_fault = (\<lambda>_. None),
     ao_io = sample_io\<lparr>io_fault := (\<lambda>_. Some NonError)\<rparr> \<rparr>"

definition sample_messages :: "message list" where
  "sample_messages = [\<lparr> ms_topic = ''api.requests'', ms_value = Some ''one'' \<rparr>, \<lparr> ms_topic = ''api.requests'', ms_value = Some ''two'' \<rparr>,
     \<lparr> ms_topic = ''api.requests'', ms_value = Some ''three'' \<rparr>, \<lparr> ms_topic = ''api.requests'', ms_value = Some ''oops'' \<rparr>]"

definition sample_consumed :: "mem aio" where
  "sample_consumed = consume ana_ext sample_ana_env mem_redis sample_messages sample_aio"

lemma sample_store: "empty_store sample_aio" "ao_fault sample_aio = (\<lambda>_. None)"
  by (simp_all add: empty_store_def sample_aio_def)

definition sample_api_event :: "string \<Rightarrow> int \<Rightarrow> int \<Rightarrow> api_event" where
  "sample_api_event client status ts =
     \<lparr> ev_traceId = [], ev_apiId = ''shop'', ev_clientId = client, ev_userId = [], ev_plan = [], ev_method = ''UNKNOWN'',
       ev_path = ''/'', ev_statusCode = Some status, ev_latencyMs = Some 20, ev_requestBytes = Some 0,
       ev_responseBytes = Some 100, ev_isError = (500 \<le> status), ev_ts = Some ts \<rparr>"

lemma sample_consumed_events:
  "ao_events sample_consumed =
    [sample_api_event ''c1'' 200 1000, sample_api_event ''c1'' 200 3601000, sample_api_event ''c2'' 503 3602000]"
  by code_simp

definition sample_bucket :: "string \<Rightarrow> int \<Rightarrow> int \<Rightarrow> metric_bucket" where
  "sample_bucket client status start =
     \<lparr> mb_bucketStart = Some start, mb_bucketType = Hour, mb_apiId = ''shop'', mb_clientId = client, mb_plan = [],
       mb_requests = 1, mb_errors = (if 500 \<le> status then 1 else 0), mb_latencySum = Some 20, mb_latencyMax = Some 20,
       mb_latencyP99 = 0, mb_bytes2xx = Some (if status < 300 then 100 else 0), mb_bytes4xx = Some 0,
       mb_bytes5xx = Some (if 500 \<le> status then 100 else 0), mb_statusCounts = [(show_int status, 1)] \<rparr>"

lemma sample_consumed_hourly:
  "ao_hourly sample_consumed =
    [sample_bucket ''c1'' 200 0, sample_bucket ''c1'' 200 3600000, sample_bucket ''c2'' 503 3600000]"
  by code_simp

lemma buckets_follow_events_witness:
  "\<exists>hs ds. subseq hs (ao_events sample_consumed) \<and> subseq ds (ao_events sample_consumed) \<and>
    ao_hourly sample_consumed = event_view ana_ext sample_ana_env Hour hs \<and>
    ao_daily sample_consumed = event_view ana_ext sample_ana_env Day ds \<and> length hs = 3"
  using buckets_follow_events [OF sample_store(1), of ana_ext sample_ana_env mem_redis sample_messages]
    sample_store(2)
  unfolding sample_consumed_def [symmetric] Let_def by (metis length_Cons list.size(3) numeral_3_eq_3 sample_consumed_events)

lemma summary_reports_events_witness:
  "\<exists>s. fst (getAPISummary sample_ana_env ''shop'' 0 3600000 Hour sample_consumed) = Inr s \<and>
    su_totalRequests s = 3 \<and> su_errorRequests s = 1 \<and> su_totalBytes s = Some 300"
proof -
  have e: "events_in sample_ana_env Hour ''shop'' 0 3600000 (ao_events sample_consumed) = ao_events sample_consumed"
    "int (length (ao_events sample_consumed)) = 3" "int (length (filter ev_isError (ao_events sample_consumed))) = 1"
    "num_add (num_add (num_sum (map (bytes_between 200 (Some 300)) (ao_events sample_consumed)))
       (num_sum (map (bytes_between 400 (Some 500)) (ao_events sample_consumed))))
       (num_sum (map (bytes_between 500 None) (ao_events sample_consumed))) = Some 300"
    unfolding sample_consumed_events by code_simp+
  show ?thesis
    using summary_reports_events [OF sample_store, of sample_ana_env "''shop''" 0 3600000 Hour ana_ext mem_redis sample_messages]
    unfolding sample_consumed_def [symmetric] e(1) reports_def e(2-4) by (auto simp: sample_ana_env_def)
qed

text \<open>
  The status codes of a summary are not totals: merging the counts of the buckets keeps the
  count of the last bucket that has the code. Two requests in two hours answered 200, and the
  summary says that one was.
\<close>

lemma status_counts_lost:
  "map_sum id (\<lambda>s. (su_totalRequests s, su_topStatusCodes s))
     (fst (getAPISummary sample_ana_env ''shop'' 0 3600000 Hour sample_consumed))
   = Inr (3, [(Some 200, 1), (Some 503, 1)])"
proof -
  have "ao_fault sample_consumed = (\<lambda>_. None)"
    unfolding sample_consumed_def by (rule consumed_view(2) [OF sample_store])
  show ?thesis
    unfolding getAPISummary_unfailing [OF \<open>ao_fault sample_consumed = (\<lambda>_. None)\<close>]
      buckets_of_def bucket_type.case sample_consumed_hourly
    by code_simp
qed

end
