(* ===== verification/AnalyticsCounters.thy ===== *)
theory AnalyticsCounters
  imports Analytics
begin

text \<open>
  The realtime counters (\<open>aggregator/realtime.ts\<close>) on any Redis server. Every event renews the
  expiry of the counters it increments, so a counter reads the length of the current streak:
  the events back to the first pause of at least the time to live.
\<close>

section \<open>Streaks\<close>

text \<open>The times of the events, latest first, seen at time \<open>t\<close>.\<close>

fun streak :: "int \<Rightarrow> int list \<Rightarrow> int \<Rightarrow> nat" where
  "streak ttl [] t = 0"
| "streak ttl (u # us) t = (if t < u + ttl then Suc (streak ttl us u) else 0)"

definition counter_obj :: "int \<Rightarrow> int list \<Rightarrow> int \<Rightarrow> robj option" where
  "counter_obj ttl us t = (case streak ttl us t of 0 \<Rightarrow> None | Suc n \<Rightarrow> Some (RStr (show_int (int (Suc n)))))"

lemma counter_obj_Cons: "counter_obj ttl (u # us) t =
    (if t < u + ttl then Some (RStr (show_int (int (streak ttl us u) + 1))) else None)"
  by (simp add: counter_obj_def add.commute)

lemma counter_obj_Nil [simp]: "counter_obj ttl [] t = None"
  by (simp add: counter_obj_def)

context redis_server
begin

definition counting :: "string \<Rightarrow> int \<Rightarrow> int list \<Rightarrow> int \<Rightarrow> 'd \<Rightarrow> bool" where
  "counting k ttl us t d \<longleftrightarrow> (\<forall>t' \<ge> t. obj t' d k = counter_obj ttl us t')"

lemma counting_empty: "obj t d k = None \<Longrightarrow> counting k ttl [] t d"
  by (auto simp: counting_def intro: fades_None)

lemma counting_later: "counting k ttl us t d \<Longrightarrow> t \<le> u \<Longrightarrow> counting k ttl us u d"
  by (simp add: counting_def)

lemma incr_expire_same:
  assumes "counting k (s * 1000) us t d" "t \<le> u" "0 < s"
  shows "counting k (s * 1000) (u # us) u (incr_expire R u k s d)"
  unfolding counting_def
proof (intro allI impI)
  fix t' assume t: "u \<le> t'"
  let ?d = "snd (r_incr R u k d)"
  have o: "obj u d k = counter_obj (s * 1000) us u" using assms(1, 2) by (simp add: counting_def)
  have "obj u ?d k = Some (RStr (show_int (int (streak (s * 1000) us u) + 1)))"
  proof (cases "streak (s * 1000) us u")
    case 0
    then show ?thesis using o incr_new_obj [of u d k u] by (simp add: counter_obj_def)
  next
    case (Suc n)
    then have "obj u d k = Some (RStr (show_int (int (Suc n))))" using o by (simp add: counter_obj_def)
    then show ?thesis using incr_old_obj [of u d k "int (Suc n)" u k] Suc by (simp add: algebra_simps)
  qed
  then show "obj t' (incr_expire R u k s d) k = counter_obj (s * 1000) (u # us) t'"
    using t assms(3) by (simp add: incr_expire_def pexpire counter_obj_Cons)
qed

lemma incr_expire_other:
  assumes "counting k' ttl' us' u d" "k \<noteq> k'" "0 < s" "counting k (s * 1000) us u d"
  shows "counting k' ttl' us' u (incr_expire R u k s d)"
  unfolding counting_def
proof (intro allI impI)
  fix t' assume t: "u \<le> t'"
  have o: "obj u d k = counter_obj (s * 1000) us u" using assms(4) by (simp add: counting_def)
  have "obj t' (snd (r_incr R u k d)) k' = obj t' d k'"
  proof (cases "streak (s * 1000) us u")
    case 0
    then show ?thesis using o t assms(2) incr_new_obj [of u d k t'] by (simp add: counter_obj_def)
  next
    case (Suc n)
    then have "obj u d k = Some (RStr (show_int (int (Suc n))))" using o by (simp add: counter_obj_def)
    then show ?thesis using incr_old_obj [of u d k "int (Suc n)" t' k'] t assms(2) by auto
  qed
  then show "obj t' (incr_expire R u k s d) k' = counter_obj ttl' us' t'"
    using assms t by (simp add: incr_expire_def pexpire counting_def)
qed

lemma counting_read:
  "counting k ttl us t d \<Longrightarrow> t \<le> t' \<Longrightarrow> parse_int (orelse (r_get R t' d k) ''0'') = Some (int (streak ttl us t'))"
proof -
  assume "counting k ttl us t d" "t \<le> t'"
  then have o: "obj t' d k = counter_obj ttl us t'" by (simp add: counting_def)
  show ?thesis
  proof (cases "streak ttl us t'")
    case 0
    have z: "parse_int ''0'' = Some 0" by code_simp
    from 0 o show ?thesis using get_None [of t' d k] z by (simp add: counter_obj_def)
  next
    case (Suc n)
    then have "r_get R t' d k = Some (show_int (int (Suc n)))"
      using o get_Some by (simp add: counter_obj_def)
    with Suc show ?thesis by (simp only: orelse_simps parse_int_show_int)
  qed
qed

text \<open>All counters at once: every key that starts with \<open>rt:\<close> counts its own hits.\<close>

definition all_counting :: "(string \<Rightarrow> int) \<Rightarrow> (string \<Rightarrow> int list) \<Rightarrow> int \<Rightarrow> 'd \<Rightarrow> bool" where
  "all_counting secs us t d \<longleftrightarrow> (\<forall>k. starts_with k ''rt:'' \<longrightarrow> counting k (secs k * 1000) (us k) t d)"

lemma incr_expire_all:
  assumes "all_counting secs us u d" "starts_with k ''rt:''" "0 < secs k"
  shows "all_counting secs (us(k := u # us k)) u (incr_expire R u k (secs k) d)"
  using assms incr_expire_same [of k "secs k" "us k" u d u] incr_expire_other [of _ _ _ u d k "secs k" "us k"]
  unfolding all_counting_def by simp

lemma pipeline_all:
  assumes "all_counting secs us u d" "distinct (map fst kss)" "\<forall>(k, s) \<in> set kss. starts_with k ''rt:'' \<and> s = secs k \<and> 0 < s"
  shows "all_counting secs (\<lambda>k. if k \<in> fst ` set kss then u # us k else us k) u
    (fold (\<lambda>(k, s). incr_expire R u k s) kss d)"
  using assms
proof (induction kss arbitrary: us d)
  case (Cons p kss)
  obtain k s where p: "p = (k, s)" by (cases p)
  have "all_counting secs (us(k := u # us k)) u (incr_expire R u k s d)"
    using incr_expire_all [of secs us u d k] Cons.prems(1, 3) by (auto simp: p)
  from Cons.IH [OF this] Cons.prems(2, 3) have
    "all_counting secs (\<lambda>k'. if k' \<in> fst ` set kss then u # (us(k := u # us k)) k' else (us(k := u # us k)) k') u
      (fold (\<lambda>(k, s). incr_expire R u k s) kss (incr_expire R u k s d))" by (simp add: p)
  moreover have "(\<lambda>k'. if k' \<in> fst ` set kss then u # (us(k := u # us k)) k' else (us(k := u # us k)) k')
      = (\<lambda>k'. if k' \<in> fst ` set (p # kss) then u # us k' else us k')"
    using Cons.prems(2) by (auto simp: p fun_eq_iff)
  ultimately show ?case by (simp add: p)
qed simp

end

section \<open>The counters of a sequence of events\<close>

record hit =
  h_at :: int
  h_apiId :: string
  h_clientId :: string
  h_isError :: bool

definition count_hits :: "'d redis \<Rightarrow> hit list \<Rightarrow> 'd \<Rightarrow> 'd" where
  "count_hits R hs d = fold (\<lambda>h. count_pipeline R (h_apiId h) (h_clientId h) (h_isError h) (h_at h)) hs d"

definition hit_keys :: "hit \<Rightarrow> (string \<times> int) list" where
  "hit_keys h = [(counter_key ''rpm'' (h_apiId h) (h_clientId h), 60), (counter_key ''rph'' (h_apiId h) (h_clientId h), 3600),
     (counter_key ''rpd'' (h_apiId h) (h_clientId h), 86400)] @ (if h_isError h then [(error_key (h_apiId h), 60)] else [])"

text \<open>The times of the hits that increment a key, latest first.\<close>

definition hits_on :: "string \<Rightarrow> hit list \<Rightarrow> int list" where
  "hits_on k hs = rev (map h_at (filter (\<lambda>h. k \<in> fst ` set (hit_keys h)) hs))"

definition key_seconds :: "string \<Rightarrow> int" where
  "key_seconds k = (if starts_with k ''rt:rph:'' then 3600 else if starts_with k ''rt:rpd:'' then 86400 else 60)"

lemma count_pipeline_keys:
  "count_pipeline R (h_apiId h) (h_clientId h) (h_isError h) t = fold (\<lambda>(k, s). incr_expire R t k s) (hit_keys h)"
  by (simp add: fun_eq_iff count_pipeline_def hit_keys_def)

lemma hit_keys_ok:
  "distinct (map fst (hit_keys h))"
  "\<forall>(k, s) \<in> set (hit_keys h). starts_with k ''rt:'' \<and> s = key_seconds k \<and> 0 < s"
  by (simp_all add: hit_keys_def counter_key_def error_key_def key_seconds_def starts_with_def)

lemma hits_on_Cons: "hits_on k (hs @ [h]) = (if k \<in> fst ` set (hit_keys h) then h_at h # hits_on k hs else hits_on k hs)"
  by (simp add: hits_on_def)

context redis_server
begin

lemma count_hits_all:
  assumes "\<And>k. starts_with k ''rt:'' \<Longrightarrow> obj t0 d k = None" "sorted (map h_at hs)" "\<And>h. h \<in> set hs \<Longrightarrow> t0 \<le> h_at h"
  shows "all_counting key_seconds (\<lambda>k. hits_on k hs) (if hs = [] then t0 else h_at (last hs)) (count_hits R hs d)"
  using assms(2, 3)
proof (induction hs rule: rev_induct)
  case Nil
  show ?case using assms(1) by (simp add: all_counting_def counting_empty count_hits_def hits_on_def)
next
  case (snoc h hs)
  have "all_counting key_seconds (\<lambda>k. hits_on k hs) (if hs = [] then t0 else h_at (last hs)) (count_hits R hs d)"
    using snoc by (simp add: sorted_append)
  moreover have "(if hs = [] then t0 else h_at (last hs)) \<le> h_at h"
    using snoc.prems by (auto simp: sorted_append)
  ultimately have "all_counting key_seconds (\<lambda>k. hits_on k hs) (h_at h) (count_hits R hs d)"
    by (auto simp: all_counting_def intro: counting_later)
  from pipeline_all [OF this hit_keys_ok] show ?case
    by (simp add: count_hits_def count_pipeline_keys hits_on_Cons)
qed

lemma count_hits_stats:
  assumes "\<And>k. starts_with k ''rt:'' \<Longrightarrow> obj t0 d k = None" "sorted (map h_at hs)" "\<And>h. h \<in> set hs \<Longrightarrow> t0 \<le> h_at h"
    and "t0 \<le> t" "\<And>h. h \<in> set hs \<Longrightarrow> h_at h \<le> t"
  shows "read_stats R a c t (count_hits R hs d) =
    \<lparr> st_rpm = Some (int (streak 60000 (hits_on (counter_key ''rpm'' a c) hs) t)),
      st_rph = Some (int (streak 3600000 (hits_on (counter_key ''rph'' a c) hs) t)),
      st_rpd = Some (int (streak 86400000 (hits_on (counter_key ''rpd'' a c) hs) t)),
      st_errRpm = Some (int (streak 60000 (hits_on (error_key a) hs) t)) \<rparr>"
proof -
  have l: "(if hs = [] then t0 else h_at (last hs)) \<le> t" using assms(4, 5) by simp
  have "parse_int (orelse (r_get R t (count_hits R hs d) k) ''0'') = Some (int (streak (key_seconds k * 1000) (hits_on k hs) t))"
    if "starts_with k ''rt:''" for k
    using count_hits_all [OF assms(1-3)] that counting_read [OF _ l] unfolding all_counting_def by blast
  then show ?thesis
    by (simp add: read_stats_def Let_def counter_key_def error_key_def key_seconds_def starts_with_def)
qed

end

text \<open>
  The realtime counters on any server that behaves like Redis: after any events in the order
  of time, on a dataset without counters, each of the four numbers reported by
  \<open>getRealtimeStats\<close> is the length of the current streak of the events that increment it, which reaches
  back to the first pause of a minute (an hour, a day). Under steady traffic it has no bound;
  after a pause it starts again at zero.
\<close>

theorem realtime_counts_streak:
  assumes "redis_server R obj" "\<And>k. starts_with k ''rt:'' \<Longrightarrow> obj t0 d k = None" "sorted (map h_at hs)"
    and "\<And>h. h \<in> set hs \<Longrightarrow> t0 \<le> h_at h \<and> h_at h \<le> t" "t0 \<le> t"
  shows "read_stats R a c t (count_hits R hs d) =
    \<lparr> st_rpm = Some (int (streak 60000 (hits_on (counter_key ''rpm'' a c) hs) t)),
      st_rph = Some (int (streak 3600000 (hits_on (counter_key ''rph'' a c) hs) t)),
      st_rpd = Some (int (streak 86400000 (hits_on (counter_key ''rpd'' a c) hs) t)),
      st_errRpm = Some (int (streak 60000 (hits_on (error_key a) hs) t)) \<rparr>"
  using assms by (intro redis_server.count_hits_stats [of R obj t0]) simp_all

text \<open>Hits twice a minute for three minutes, and then none for two.\<close>

definition steady_hits :: "hit list" where
  "steady_hits = map (\<lambda>i. \<lparr> h_at = 30000 * i, h_apiId = ''shop'', h_clientId = ''c1'', h_isError = False \<rparr>) [0, 1, 2, 3, 4, 5]"

lemma realtime_counts_streak_witness:
  "st_rpm (read_stats mem_redis ''shop'' ''c1'' 160000 (count_hits mem_redis steady_hits (\<lambda>_. None))) = Some 6 \<and>
   st_rpm (read_stats mem_redis ''shop'' ''c1'' 270000 (count_hits mem_redis steady_hits (\<lambda>_. None))) = Some 0"
proof -
  have s: "sorted (map h_at steady_hits)" "h \<in> set steady_hits \<Longrightarrow> 0 \<le> h_at h \<and> h_at h \<le> 150000" for h
    by (auto simp: steady_hits_def)
  have e: "mem_obj 0 (\<lambda>_. None) k = None" for k by (simp add: mem_obj_def)
  have "streak 60000 (hits_on (counter_key ''rpm'' ''shop'' ''c1'') steady_hits) 160000 = 6"
    "streak 60000 (hits_on (counter_key ''rpm'' ''shop'' ''c1'') steady_hits) 270000 = 0"
    by code_simp+
  then show ?thesis
    using realtime_counts_streak [OF mem.redis_server_axioms, of 0 "\<lambda>_. None" steady_hits 160000 "''shop''" "''c1''", OF e s(1)]
      realtime_counts_streak [OF mem.redis_server_axioms, of 0 "\<lambda>_. None" steady_hits 270000 "''shop''" "''c1''", OF e s(1)]
      s(2) by fastforce
qed

text \<open>Events with pauses below the time to live are all counted, however long they go on.\<close>

lemma streak_steady: "0 \<le> step \<Longrightarrow> step < ttl \<Longrightarrow> streak ttl (rev (map (\<lambda>i. step * int i) [0..<n])) (step * int n) = n"
proof (induction n)
  case (Suc n)
  then show ?case by (simp add: algebra_simps)
qed simp

end
