(* ===== verification/BffData.thy ===== *)
theory BffData
  imports BffClient JsObject
begin

text \<open>
  The data sources of the BFF for APIs, users and subscriptions:
  \<open>manager/bff/src/datasources/registry-api.ts\<close>, \<open>auth-api.ts\<close> and \<open>subscription-api.ts\<close>. An
  object of a service is the JSON object it sent; a missing member is undefined.
\<close>

section \<open>Calls in sequence\<close>

record bff_ctx =
  bx_user :: "auth_user option"
  bx_authHeader :: "string option"

definition TypeError :: exn where
  "TypeError = JsError ''TypeError'' []"

text \<open>\<open>await\<close>: what follows runs on the value, an exception goes through.\<close>

definition awaiting :: "('e + 'a) \<times> 's \<Rightarrow> ('a \<Rightarrow> 's \<Rightarrow> ('e + 'b) \<times> 's) \<Rightarrow> ('e + 'b) \<times> 's" where
  "awaiting r k = (case r of (Inl e, w) \<Rightarrow> (Inl e, w) | (Inr a, w) \<Rightarrow> k a w)"

definition returning :: "('e + 'a) \<times> 's \<Rightarrow> ('a \<Rightarrow> 'e + 'b) \<Rightarrow> ('e + 'b) \<times> 's" where
  "returning r f = awaiting r (\<lambda>a w. (f a, w))"

text \<open>\<open>try { return await ... } catch { return null }\<close>\<close>

definition or_null :: "(exn + 'a) \<times> 's \<Rightarrow> (exn + 'a option) \<times> 's" where
  "or_null r = (case r of (Inl e, w) \<Rightarrow> (Inr None, w) | (Inr a, w) \<Rightarrow> (Inr (Some a), w))"

definition array_of :: "json option \<Rightarrow> exn + json list" where
  "array_of v = (case v of Some (JArr vs) \<Rightarrow> Inr vs | _ \<Rightarrow> Inl TypeError)"

text \<open>A member of an answer: reading one of \<open>null\<close> throws.\<close>

definition obj_of :: "json \<Rightarrow> exn + jobj" where
  "obj_of v = (if v = JNull then Inl TypeError else Inr (json_obj v))"

definition sum_bind :: "'e + 'a \<Rightarrow> ('a \<Rightarrow> 'e + 'b) \<Rightarrow> 'e + 'b" where
  "sum_bind r f = (case r of Inl e \<Rightarrow> Inl e | Inr a \<Rightarrow> f a)"

definition not_null :: "json option list \<Rightarrow> json list" where
  "not_null vs = List.map_filter (\<lambda>v. if v = Some JNull then None else v) vs"

text \<open>The parameters that are set, in the order of the code.\<close>

definition query_string :: "ext \<Rightarrow> dict \<Rightarrow> string" where
  "query_string X ps = join_with ''&'' (map (\<lambda>(k, v). k @ ''='' @ x_form_encode X v) ps)"

definition str_param :: "string \<Rightarrow> string option \<Rightarrow> dict" where
  "str_param k v = (if truthy v then [(k, str_of v)] else [])"

definition int_param :: "string \<Rightarrow> int option \<Rightarrow> dict" where
  "int_param k v = (case v of None \<Rightarrow> [] | Some n \<Rightarrow> if n = 0 then [] else [(k, show_int n)])"

text \<open>The lookups one by one of \<open>Promise.all\<close>, for the loaders.\<close>

fun each :: "('a \<Rightarrow> 's \<Rightarrow> (exn + 'b) \<times> 's) \<Rightarrow> 'a list \<Rightarrow> 's \<Rightarrow> (exn + 'b list) \<times> 's" where
  "each f [] w = (Inr [], w)"
| "each f (x # xs) w = awaiting (f x w) (\<lambda>y w1. returning (each f xs w1) (\<lambda>ys. Inr (y # ys)))"

record list_params =
  lq_orgId :: "string option"
  lq_apiId :: "string option"
  lq_status :: "string option"
  lq_page :: "int option"
  lq_limit :: "int option"

record listing =
  ls_data :: "json option"
  ls_total :: "json option"
  ls_page :: "json option"
  ls_limit :: "json option"

section \<open>APIs\<close>

definition RegistryAPI :: "bff_env \<Rightarrow> bff_ctx \<Rightarrow> service_client" where
  "RegistryAPI E c = ServiceClient (be_REGISTRY_SERVICE_URL E) (Some (identityHeaders (bx_user c)))"

definition listAPIs :: "ext \<Rightarrow> bff_env \<Rightarrow> bff_ctx \<Rightarrow> list_params \<Rightarrow> 'd io \<Rightarrow> (exn + listing) \<times> 'd io" where
  "listAPIs X E c q w =
     (let qs = query_string X (str_param ''org_id'' (lq_orgId q) @ str_param ''status'' (lq_status q) @
            int_param ''page'' (lq_page q) @ int_param ''page_size'' (lq_limit q))
      in returning (sv_get X E (RegistryAPI E c) (''/apis?'' @ qs) w)
           (\<lambda>v. sum_bind (obj_of v) (\<lambda>data.
              Inr \<lparr> ls_data = rget data ''items'', ls_total = rget data ''total'', ls_page = rget data ''page'',
                    ls_limit = rget data ''page_size'' \<rparr>)))"

definition getAPI :: "ext \<Rightarrow> bff_env \<Rightarrow> bff_ctx \<Rightarrow> string \<Rightarrow> 'd io \<Rightarrow> (exn + json option) \<times> 'd io" where
  "getAPI X E c i w = or_null (sv_get X E (RegistryAPI E c) (''/apis/'' @ i) w)"

definition getAPIsByIds :: "ext \<Rightarrow> bff_env \<Rightarrow> bff_ctx \<Rightarrow> string list \<Rightarrow> 'd io \<Rightarrow> (exn + json list) \<times> 'd io" where
  "getAPIsByIds X E c ids w = returning (each (getAPI X E c) ids w) (\<lambda>vs. Inr (not_null vs))"

definition api_createAPI :: "ext \<Rightarrow> bff_env \<Rightarrow> bff_ctx \<Rightarrow> jobj \<Rightarrow> 'd io \<Rightarrow> (exn + json) \<times> 'd io" where
  "api_createAPI X E c input = sv_post X E (RegistryAPI E c) ''/apis'' (JObj input)"

definition api_updateAPI :: "ext \<Rightarrow> bff_env \<Rightarrow> bff_ctx \<Rightarrow> string \<Rightarrow> jobj \<Rightarrow> 'd io \<Rightarrow> (exn + json) \<times> 'd io" where
  "api_updateAPI X E c i input = sv_put X E (RegistryAPI E c) (''/apis/'' @ i) (JObj input)"

definition api_deleteAPI :: "ext \<Rightarrow> bff_env \<Rightarrow> bff_ctx \<Rightarrow> string \<Rightarrow> 'd io \<Rightarrow> (exn + json) \<times> 'd io" where
  "api_deleteAPI X E c i = sv_delete X E (RegistryAPI E c) (''/apis/'' @ i)"

section \<open>Users and organisations\<close>

definition AuthAPI :: "bff_env \<Rightarrow> bff_ctx \<Rightarrow> service_client" where
  "AuthAPI E c = ServiceClient (be_AUTH_SERVICE_URL E)
     (Some (if truthy (bx_authHeader c) then [(''authorization'', str_of (bx_authHeader c))] else []))"

text \<open>\<open>replace(/[^a-z0-9]+/g, '-')\<close> and \<open>replace(/^-+|-+$/g, '')\<close>.\<close>

definition slug_char :: "char \<Rightarrow> bool" where
  "slug_char ch = (is_digit ch \<or> ((97::nat) \<le> of_char ch \<and> of_char ch \<le> (122::nat)))"

fun dashes :: "bool \<Rightarrow> string \<Rightarrow> string" where
  "dashes after [] = []"
| "dashes after (ch # s) =
     (if slug_char ch then ch # dashes False s
      else if after then dashes True s else CHR ''-'' # dashes True s)"

definition trim_dashes :: "string \<Rightarrow> string" where
  "trim_dashes s = rev (dropWhile ((=) CHR ''-'') (rev (dropWhile ((=) CHR ''-'') s)))"

definition slugifyOrg :: "string \<Rightarrow> string \<Rightarrow> string" where
  "slugifyOrg name i =
     (let slug = trim_dashes (dashes False (js_trim (js_lower name)))
      in if slug = [] then ''org-'' @ take 8 i else slug)"

definition truthy_field :: "jobj \<Rightarrow> string \<Rightarrow> json option" where
  "truthy_field obj k = (case rget obj k of None \<Rightarrow> None | Some v \<Rightarrow> if js_truthy v then Some v else None)"

definition member :: "string \<Rightarrow> json option \<Rightarrow> jobj" where
  "member k v = (case v of None \<Rightarrow> [] | Some x \<Rightarrow> [(k, x)])"

definition nowIso :: "bff_env \<Rightarrow> 'd io \<Rightarrow> json \<times> 'd io" where
  "nowIso E w = apfst (\<lambda>t. JStr (be_iso E t)) (date_now w)"

definition mapMeToUser :: "bff_env \<Rightarrow> json \<Rightarrow> 'd io \<Rightarrow> (exn + jobj) \<times> 'd io" where
  "mapMeToUser E me w =
     (let (timestamp, w1) = nowIso E w
      in (sum_bind (obj_of me) (\<lambda>m. Inr (pick m [(''id'', ''id''), (''email'', ''email'')] @
            member ''name'' (orelse_opt (truthy_field m ''display_name'') (rget m ''email'')) @ pick m [(''role'', ''role'')] @
            [(''org_id'', orelse (truthy_field m ''org_id'') JNull), (''created_at'', timestamp), (''updated_at'', timestamp)])), w1))"

text \<open>The name and the identifier of an organisation are strings, as the code takes them.\<close>

definition mapMeToOrg :: "bff_env \<Rightarrow> json \<Rightarrow> 'd io \<Rightarrow> (exn + jobj option) \<times> 'd io" where
  "mapMeToOrg E me w =
     (case obj_of me of
        Inl e \<Rightarrow> (Inl e, w)
      | Inr m \<Rightarrow>
          (case truthy_field m ''org_id'' of
             None \<Rightarrow> (Inr None, w)
           | Some i \<Rightarrow>
               (let (timestamp, w1) = nowIso E w; name = truthy_field m ''org_name''
                in case (json_string i, json_string (orelse name (JStr ''default-organization''))) of
                     (Some org_id, Some slug_name) \<Rightarrow>
                       (Inr (Some [(''id'', i), (''name'', orelse name (JStr ''Default organization'')),
                          (''slug'', JStr (slugifyOrg slug_name org_id)), (''description'', JNull),
                          (''created_at'', timestamp), (''updated_at'', timestamp)]), w1)
                   | _ \<Rightarrow> (Inl TypeError, w1))))"

definition auth_me :: "ext \<Rightarrow> bff_env \<Rightarrow> bff_ctx \<Rightarrow> 'd io \<Rightarrow> (exn + json) \<times> 'd io" where
  "auth_me X E c = sv_get X E (AuthAPI E c) ''/auth/me''"

definition getMe :: "ext \<Rightarrow> bff_env \<Rightarrow> bff_ctx \<Rightarrow> 'd io \<Rightarrow> (exn + jobj) \<times> 'd io" where
  "getMe X E c w = awaiting (auth_me X E c w) (mapMeToUser E)"

definition getUserById :: "ext \<Rightarrow> bff_env \<Rightarrow> bff_ctx \<Rightarrow> string \<Rightarrow> 'd io \<Rightarrow> (exn + jobj option) \<times> 'd io" where
  "getUserById X E c i w =
     (case getMe X E c w of
        (Inl e, w1) \<Rightarrow> (Inr None, w1)
      | (Inr user, w1) \<Rightarrow> (Inr (if rget user ''id'' = Some (JStr i) then Some user else None), w1))"

definition auth_org :: "ext \<Rightarrow> bff_env \<Rightarrow> bff_ctx \<Rightarrow> 'd io \<Rightarrow> (exn + jobj option) \<times> 'd io" where
  "auth_org X E c w = awaiting (auth_me X E c w) (mapMeToOrg E)"

definition listOrganizations :: "ext \<Rightarrow> bff_env \<Rightarrow> bff_ctx \<Rightarrow> string option \<Rightarrow> 'd io \<Rightarrow> (exn + jobj list) \<times> 'd io" where
  "listOrganizations X E c search w =
     returning (auth_org X E c w) (\<lambda>found. Inr (case found of
        None \<Rightarrow> []
      | Some org \<Rightarrow>
          if truthy search \<and> \<not> str_includes (js_lower (orelse (sfield org ''name'') [])) (js_lower (str_of search))
          then [] else [org]))"

definition getOrganization :: "ext \<Rightarrow> bff_env \<Rightarrow> bff_ctx \<Rightarrow> string \<Rightarrow> 'd io \<Rightarrow> (exn + jobj option) \<times> 'd io" where
  "getOrganization X E c i w =
     (case auth_org X E c w of
        (Inl e, w1) \<Rightarrow> (Inr None, w1)
      | (Inr None, w1) \<Rightarrow> (Inr None, w1)
      | (Inr (Some org), w1) \<Rightarrow> (Inr (if rget org ''id'' = Some (JStr i) then Some org else None), w1))"

definition ORG_MANAGEMENT :: exn where
  "ORG_MANAGEMENT = plain_error ''organization management is handled by auth registration in this deployment''"

definition ORG_DELETION :: exn where
  "ORG_DELETION = plain_error ''organization deletion is not supported in this deployment''"

end
