(* ===== verification/BffSubscriptions.thy ===== *)
theory BffSubscriptions
  imports BffData
begin

text \<open>
  \<open>manager/bff/src/datasources/subscription-api.ts\<close>: plans, subscriptions and API keys. The
  pages of a list default to the parameters, because the service does not send them back.
\<close>

definition SubscriptionAPI :: "bff_env \<Rightarrow> bff_ctx \<Rightarrow> service_client" where
  "SubscriptionAPI E c = ServiceClient (be_SUBSCRIPTION_SERVICE_URL E) (Some (identityHeaders (bx_user c)))"

section \<open>Plans\<close>

definition listPlans :: "ext \<Rightarrow> bff_env \<Rightarrow> bff_ctx \<Rightarrow> json option \<Rightarrow> 'd io \<Rightarrow> (exn + json option) \<times> 'd io" where
  "listPlans X E c isPublic w =
     (let qs = query_string X (case isPublic of None \<Rightarrow> [] | Some v \<Rightarrow> [(''is_public'', js_String X v)])
      in returning (sv_get X E (SubscriptionAPI E c) (''/v1/plans?'' @ qs) w)
           (\<lambda>v. sum_bind (obj_of v) (\<lambda>data. Inr (rget data ''plans''))))"

definition getPlan :: "ext \<Rightarrow> bff_env \<Rightarrow> bff_ctx \<Rightarrow> string \<Rightarrow> 'd io \<Rightarrow> (exn + json option) \<times> 'd io" where
  "getPlan X E c i w = or_null (sv_get X E (SubscriptionAPI E c) (''/v1/plans/'' @ i) w)"

definition getPlansByIds :: "ext \<Rightarrow> bff_env \<Rightarrow> bff_ctx \<Rightarrow> string list \<Rightarrow> 'd io \<Rightarrow> (exn + json list) \<times> 'd io" where
  "getPlansByIds X E c ids w = returning (each (getPlan X E c) ids w) (\<lambda>vs. Inr (not_null vs))"

definition api_createPlan :: "ext \<Rightarrow> bff_env \<Rightarrow> bff_ctx \<Rightarrow> jobj \<Rightarrow> 'd io \<Rightarrow> (exn + json) \<times> 'd io" where
  "api_createPlan X E c input = sv_post X E (SubscriptionAPI E c) ''/v1/plans'' (JObj input)"

definition api_updatePlan :: "ext \<Rightarrow> bff_env \<Rightarrow> bff_ctx \<Rightarrow> string \<Rightarrow> jobj \<Rightarrow> 'd io \<Rightarrow> (exn + json) \<times> 'd io" where
  "api_updatePlan X E c i input = sv_put X E (SubscriptionAPI E c) (''/v1/plans/'' @ i) (JObj input)"

definition api_deletePlan :: "ext \<Rightarrow> bff_env \<Rightarrow> bff_ctx \<Rightarrow> string \<Rightarrow> 'd io \<Rightarrow> (exn + json) \<times> 'd io" where
  "api_deletePlan X E c i = sv_delete X E (SubscriptionAPI E c) (''/v1/plans/'' @ i)"

section \<open>Subscriptions\<close>

text \<open>\<open>data.subscriptions ?? []\<close>; a list without a length would not be mapped by the caller.\<close>

definition listSubscriptions :: "ext \<Rightarrow> bff_env \<Rightarrow> bff_ctx \<Rightarrow> list_params \<Rightarrow> 'd io \<Rightarrow> (exn + listing) \<times> 'd io" where
  "listSubscriptions X E c q w =
     (let qs = query_string X (str_param ''api_id'' (lq_apiId q) @ str_param ''status'' (lq_status q) @
            int_param ''page'' (lq_page q) @ int_param ''size'' (lq_limit q))
      in returning (sv_get X E (SubscriptionAPI E c) (''/v1/subscriptions?'' @ qs) w)
           (\<lambda>v. sum_bind (obj_of v) (\<lambda>data.
              let subscriptions = orelse (jget data ''subscriptions'') (JArr [])
              in Inr \<lparr> ls_data = Some subscriptions, ls_total = rget data ''total'',
                   ls_page = Some (JNum (of_int (orelse (lq_page q) 1))),
                   ls_limit = Some (case lq_limit q of Some n \<Rightarrow> JNum (of_int n)
                     | None \<Rightarrow> JNum (case subscriptions of JArr vs \<Rightarrow> of_nat (length vs) | _ \<Rightarrow> 0)) \<rparr>)))"

definition getSubscription :: "ext \<Rightarrow> bff_env \<Rightarrow> bff_ctx \<Rightarrow> string \<Rightarrow> 'd io \<Rightarrow> (exn + json option) \<times> 'd io" where
  "getSubscription X E c i w = or_null (sv_get X E (SubscriptionAPI E c) (''/v1/subscriptions/'' @ i) w)"

definition getSubscriptionsByIds :: "ext \<Rightarrow> bff_env \<Rightarrow> bff_ctx \<Rightarrow> string list \<Rightarrow> 'd io \<Rightarrow> (exn + json list) \<times> 'd io" where
  "getSubscriptionsByIds X E c ids w = returning (each (getSubscription X E c) ids w) (\<lambda>vs. Inr (not_null vs))"

definition api_createSubscription :: "ext \<Rightarrow> bff_env \<Rightarrow> bff_ctx \<Rightarrow> jobj \<Rightarrow> 'd io \<Rightarrow> (exn + json) \<times> 'd io" where
  "api_createSubscription X E c input =
     sv_post X E (SubscriptionAPI E c) ''/v1/subscriptions''
       (JObj (pick input [(''api_id'', ''api_id''), (''plan_id'', ''plan_id'')]))"

text \<open>One transition: the command, and then the subscription as it is now.\<close>

definition transition :: "ext \<Rightarrow> bff_env \<Rightarrow> bff_ctx \<Rightarrow> string \<Rightarrow> string \<Rightarrow> jobj \<Rightarrow> 'd io \<Rightarrow> (exn + json) \<times> 'd io" where
  "transition X E c i command body w =
     awaiting (sv_put X E (SubscriptionAPI E c) (''/v1/subscriptions/'' @ i @ ''/'' @ command) (JObj body) w)
       (\<lambda>_ w1. returning (getSubscription X E c i w1)
          (\<lambda>sub. case sub of
             None \<Rightarrow> Inl (plain_error (''subscription not found after '' @ command @ '': '' @ i))
           | Some v \<Rightarrow> if js_truthy v then Inr v
                     else Inl (plain_error (''subscription not found after '' @ command @ '': '' @ i))))"

definition api_updateSubscriptionStatus :: "ext \<Rightarrow> bff_env \<Rightarrow> bff_ctx \<Rightarrow> string \<Rightarrow> string \<Rightarrow> 'd io \<Rightarrow> (exn + json) \<times> 'd io" where
  "api_updateSubscriptionStatus X E c i status w =
     (if status = ''cancelled'' then transition X E c i ''cancel'' [] w
      else if status = ''active'' then transition X E c i ''approve'' [] w
      else if status = ''suspended'' then transition X E c i ''suspend'' [(''reason'', JStr ''suspended via portal'')] w
      else (Inl (plain_error (''unsupported subscription status transition: '' @ status)), w))"

section \<open>API keys\<close>

definition listAPIKeys :: "ext \<Rightarrow> bff_env \<Rightarrow> bff_ctx \<Rightarrow> string \<Rightarrow> string option \<Rightarrow> 'd io \<Rightarrow> (exn + json list) \<times> 'd io" where
  "listAPIKeys X E c subscriptionId status w =
     returning (sv_get X E (SubscriptionAPI E c) (''/v1/subscriptions/'' @ subscriptionId @ ''/keys'') w)
       (\<lambda>v. sum_bind (obj_of v) (\<lambda>data. sum_bind (array_of (rget data ''keys'')) (\<lambda>keys.
          if truthy status
          then if JNull \<in> set keys then Inl TypeError
               else Inr (filter (\<lambda>key. rget (json_obj key) ''status'' = Some (JStr (str_of status))) keys)
          else Inr keys)))"

definition getAPIKey :: "string \<Rightarrow> exn + json option" where
  "getAPIKey i = Inl (plain_error (''getAPIKey is not supported without subscription context: '' @ i))"

definition api_createAPIKey :: "ext \<Rightarrow> bff_env \<Rightarrow> bff_ctx \<Rightarrow> string \<Rightarrow> jobj \<Rightarrow> 'd io \<Rightarrow> (exn + json) \<times> 'd io" where
  "api_createAPIKey X E c subscription_id input =
     sv_post X E (SubscriptionAPI E c) (''/v1/subscriptions/'' @ subscription_id @ ''/keys'')
       (JObj (pick input [(''name'', ''name''), (''allowed_ips'', ''allowed_ips''), (''allowed_origins'', ''allowed_origins''),
          (''scopes'', ''scopes''), (''expires_at'', ''expires_at'')]))"

definition api_revokeAPIKey :: "ext \<Rightarrow> bff_env \<Rightarrow> bff_ctx \<Rightarrow> string \<Rightarrow> string \<Rightarrow> 'd io \<Rightarrow> (exn + json) \<times> 'd io" where
  "api_revokeAPIKey X E c subscriptionId i =
     request X E (SubscriptionAPI E c)
       \<lparr> ro_method = Some ''DELETE'', ro_path = ''/v1/subscriptions/'' @ subscriptionId @ ''/keys/'' @ i,
         ro_body = Some (JObj [(''reason'', JStr ''revoked via portal'')]), ro_headers = None \<rparr>"

end
