(* ===== verification/BffResolvers.thy ===== *)
theory BffResolvers
  imports BffSubscriptions
begin

text \<open>
  The resolvers of \<open>manager/bff/src/resolvers/api.ts\<close>, \<open>user.ts\<close> and \<open>subscription.ts\<close>, the
  loaders of \<open>context.ts\<close>, and the scalars of \<open>scalars.ts\<close>. \<open>resolve\<close> runs any query or
  mutation of the three files; the field resolvers run below a result that one of them gave.
  An argument \<open>input\<close> is the object that the schema accepted.
\<close>

section \<open>Results\<close>

datatype gql_value = VNull | VTrue | VObj jobj | VList "jobj list" | VPage "jobj list" page_info

fun map_result :: "('a \<Rightarrow> 'e + 'b) \<Rightarrow> 'a list \<Rightarrow> 'e + 'b list" where
  "map_result f [] = Inr []"
| "map_result f (x # xs) = sum_bind (f x) (\<lambda>y. sum_bind (map_result f xs) (\<lambda>ys. Inr (y # ys)))"

text \<open>\<open>s.toUpperCase()\<close> on a member: what is not a string has no such method.\<close>

definition upper_field :: "jobj \<Rightarrow> string \<Rightarrow> exn + json" where
  "upper_field obj k = (case rget obj k of Some (JStr s) \<Rightarrow> Inr (JStr (js_upper s)) | _ \<Rightarrow> Inl TypeError)"

definition mapAPI :: "json \<Rightarrow> exn + jobj" where
  "mapAPI v =
     (let a = json_obj v
      in sum_bind (upper_field a ''status'') (\<lambda>status. Inr (
           pick a [(''id'', ''id''), (''name'', ''name''), (''version'', ''version''), (''basePath'', ''base_path''),
             (''upstreamUrl'', ''upstream_url''), (''description'', ''description'')] @
           [(''status'', status)] @ pick a [(''orgId'', ''org_id'')] @ [(''tags'', orelse (jget a ''tags'') (JArr []))] @
           pick a [(''timeoutMs'', ''timeout_ms''), (''retries'', ''retries''), (''stripBasePath'', ''strip_base_path''),
             (''createdAt'', ''created_at''), (''updatedAt'', ''updated_at'')])))"

definition mapOrg :: "jobj \<Rightarrow> jobj" where
  "mapOrg org = pick org [(''id'', ''id''), (''name'', ''name''), (''slug'', ''slug''), (''description'', ''description''),
     (''createdAt'', ''created_at''), (''updatedAt'', ''updated_at'')]"

definition normalizeRole :: "string \<Rightarrow> string" where
  "normalizeRole role =
     (let normalized = js_lower role
      in if normalized = ''admin'' then ''ORG_ADMIN''
         else if normalized = ''super_admin'' then ''SUPER_ADMIN''
         else if normalized = ''developer'' then ''DEVELOPER'' else ''VIEWER'')"

definition mapUser :: "jobj \<Rightarrow> exn + jobj" where
  "mapUser u =
     (case rget u ''role'' of
        Some (JStr role) \<Rightarrow> Inr (pick u [(''id'', ''id''), (''email'', ''email''), (''name'', ''name'')] @
          [(''role'', JStr (normalizeRole role))] @
          pick u [(''orgId'', ''org_id''), (''createdAt'', ''created_at''), (''updatedAt'', ''updated_at'')])
      | _ \<Rightarrow> Inl TypeError)"

definition feature_text :: "ext \<Rightarrow> string \<times> json \<Rightarrow> json" where
  "feature_text X p = (case p of (key, value) \<Rightarrow>
     JStr (case value of JBool _ \<Rightarrow> key | _ \<Rightarrow> key @ '': '' @ js_String X value))"

definition mapFeatures :: "ext \<Rightarrow> json option \<Rightarrow> json" where
  "mapFeatures X features =
     JArr (case features of
        None \<Rightarrow> []
      | Some v \<Rightarrow>
          if \<not> js_truthy v then []
          else (case v of
             JArr vs \<Rightarrow> map (\<lambda>x. JStr (js_String X x)) vs
           | JObj obj \<Rightarrow> map (feature_text X) (object_entries obj)
           | JStr s \<Rightarrow> map (\<lambda>(i, ch). feature_text X (show_nat i, JStr [ch])) (List.enumerate 0 s)
           | _ \<Rightarrow> []))"

text \<open>A price is a number of cents; anything else than a number divides to \<open>NaN\<close>, which is left out.\<close>

definition mapPlan :: "ext \<Rightarrow> json \<Rightarrow> exn + jobj" where
  "mapPlan X v =
     sum_bind (obj_of v) (\<lambda>p. Inr (
       pick p [(''id'', ''id''), (''name'', ''name''), (''description'', ''description''), (''rpmLimit'', ''rpm_limit''),
         (''rpdLimit'', ''rpd_limit'')] @ [(''rphLimit'', orelse (jget p ''rph_limit'') (JNum 0))] @
       pick p [(''maxKeys'', ''max_api_keys'')] @
       (case rget p ''price_cents'' of Some (JNum cents) \<Rightarrow> [(''price'', JNum (cents / 100))] | _ \<Rightarrow> []) @
       pick p [(''currency'', ''currency'')] @ [(''features'', mapFeatures X (rget p ''features''))] @
       pick p [(''isPublic'', ''is_public''), (''createdAt'', ''created_at'')]))"

definition mapSub :: "json \<Rightarrow> exn + jobj" where
  "mapSub v =
     (let s = json_obj v
      in sum_bind (upper_field s ''status'') (\<lambda>status. Inr (
           pick s [(''id'', ''id''), (''orgId'', ''organization_id''), (''planId'', ''plan_id''), (''apiId'', ''api_id'')] @
           [(''status'', status)] @
           pick s [(''expiresAt'', ''end_date''), (''createdAt'', ''created_at''), (''updatedAt'', ''updated_at'')])))"

definition mapKey :: "json \<Rightarrow> exn + jobj" where
  "mapKey v =
     (let k = json_obj v; listed = (\<lambda>f. orelse (jget k f) (JArr []))
      in sum_bind (upper_field k ''status'') (\<lambda>status. Inr (
           pick k [(''id'', ''id''), (''keyId'', ''key_prefix''), (''keyPrefix'', ''key_prefix''), (''plainKey'', ''key''),
             (''subscriptionId'', ''subscription_id''), (''name'', ''name'')] @
           [(''status'', status), (''allowedIps'', listed ''allowed_ips''), (''allowedOrigins'', listed ''allowed_origins''),
            (''scopes'', listed ''scopes'')] @
           pick k [(''expiresAt'', ''expires_at''), (''lastUsedAt'', ''last_used_at''), (''createdAt'', ''created_at'')])))"

section \<open>Pages\<close>

text \<open>The executor refuses a page whose numbers are not integers, as the schema wants them.\<close>

definition int_of_json :: "json option \<Rightarrow> int option" where
  "int_of_json v = (case v of Some (JNum r) \<Rightarrow> if of_int \<lfloor>r\<rfloor> = r then Some \<lfloor>r\<rfloor> else None | _ \<Rightarrow> None)"

definition page_of :: "listing \<Rightarrow> (json \<Rightarrow> exn + jobj) \<Rightarrow> bff_error + gql_value" where
  "page_of resp f =
     (case sum_bind (array_of (ls_data resp)) (map_result f) of
        Inl e \<Rightarrow> Inl (Thrown e)
      | Inr nodes \<Rightarrow>
          (case (int_of_json (ls_page resp), int_of_json (ls_limit resp), int_of_json (ls_total resp)) of
             (Some page, Some lmt, Some tot) \<Rightarrow> Inr (VPage nodes (buildPageInfo page lmt tot))
           | _ \<Rightarrow> Inl (Gql (GraphQLError ''Int cannot represent non-integer value'' ''INTERNAL_SERVER_ERROR''))))"

section \<open>Queries and mutations\<close>

definition lift_error :: "exn + 'a \<Rightarrow> bff_error + 'a" where
  "lift_error r = (case r of Inl e \<Rightarrow> Inl (Thrown e) | Inr a \<Rightarrow> Inr a)"

definition finish :: "(exn + 'a) \<times> 's \<Rightarrow> ('a \<Rightarrow> bff_error + gql_value) \<Rightarrow> (bff_error + gql_value) \<times> 's" where
  "finish r f = (case r of (Inl e, w) \<Rightarrow> (Inl (Thrown e), w) | (Inr a, w) \<Rightarrow> (f a, w))"

definition as_object :: "exn + jobj \<Rightarrow> bff_error + gql_value" where
  "as_object r = lift_error (map_sum id VObj r)"

definition as_list :: "exn + jobj list \<Rightarrow> bff_error + gql_value" where
  "as_list r = lift_error (map_sum id VList r)"

text \<open>\<open>if (!found) notFound(type, id)\<close>.\<close>

definition found_or :: "string \<Rightarrow> string \<Rightarrow> (json \<Rightarrow> exn + jobj) \<Rightarrow> json option \<Rightarrow> bff_error + gql_value" where
  "found_or ty i f v =
     (case v of
        None \<Rightarrow> Inl (notFound ty i)
      | Some j \<Rightarrow> if js_truthy j then as_object (f j) else Inl (notFound ty i))"

definition lower_status :: "jobj \<Rightarrow> jobj" where
  "lower_status input = (case rget input ''status'' of Some (JStr s) \<Rightarrow> [(''status'', JStr (js_lower s))] | _ \<Rightarrow> [])"

definition api_input :: "jobj \<Rightarrow> jobj" where
  "api_input input = pick input [(''name'', ''name''), (''version'', ''version''), (''base_path'', ''basePath''),
     (''upstream_url'', ''upstreamUrl''), (''description'', ''description''), (''org_id'', ''orgId''), (''tags'', ''tags''),
     (''timeout_ms'', ''timeoutMs''), (''retries'', ''retries''), (''strip_base_path'', ''stripBasePath'')]"

definition api_changes :: "jobj \<Rightarrow> jobj" where
  "api_changes input = pick input [(''name'', ''name''), (''upstream_url'', ''upstreamUrl''), (''description'', ''description'')] @
     lower_status input @ pick input [(''tags'', ''tags''), (''timeout_ms'', ''timeoutMs''), (''retries'', ''retries''),
       (''strip_base_path'', ''stripBasePath'')]"

text \<open>\<open>Math.round(price * 100)\<close>; a product that is no number is sent as \<open>null\<close>.\<close>

definition price_cents :: "json option \<Rightarrow> json" where
  "price_cents v = (case v of Some (JNum r) \<Rightarrow> JNum (of_int \<lfloor>r * 100 + 1 / 2\<rfloor>) | _ \<Rightarrow> JNull)"

definition plan_input :: "jobj \<Rightarrow> jobj" where
  "plan_input input = pick input [(''name'', ''name''), (''description'', ''description''), (''rpm_limit'', ''rpmLimit''),
       (''rpd_limit'', ''rpdLimit'')] @ [(''rph_limit'', orelse (jget input ''rphLimit'') (JNum 0))] @
     pick input [(''max_api_keys'', ''maxKeys'')] @ [(''price_cents'', price_cents (rget input ''price'')),
       (''currency'', orelse (jget input ''currency'') (JStr ''USD''))] @
     pick input [(''features'', ''features''), (''is_public'', ''isPublic'')]"

definition subscription_input :: "jobj \<Rightarrow> jobj" where
  "subscription_input input = pick input [(''org_id'', ''orgId''), (''plan_id'', ''planId''), (''api_id'', ''apiId''),
     (''expires_at'', ''expiresAt'')]"

definition key_input :: "jobj \<Rightarrow> jobj" where
  "key_input input = pick input [(''subscription_id'', ''subscriptionId''), (''name'', ''name''), (''allowed_ips'', ''allowedIps''),
     (''allowed_origins'', ''allowedOrigins''), (''scopes'', ''scopes''), (''expires_at'', ''expiresAt'')]"

definition list_args :: "list_params \<Rightarrow> list_params" where
  "list_args q = q\<lparr>lq_status := map_option js_lower (lq_status q), lq_page := Some (orelse (lq_page q) 1),
     lq_limit := Some (orelse (lq_limit q) 20)\<rparr>"

definition list_of_json :: "(json \<Rightarrow> exn + jobj) \<Rightarrow> json option \<Rightarrow> bff_error + gql_value" where
  "list_of_json f v = as_list (sum_bind (array_of v) (map_result f))"

text \<open>\<open>requireAuth(ctx)\<close>, and then the rest.\<close>

definition authed :: "bff_ctx \<Rightarrow> ('s \<Rightarrow> (bff_error + 'a) \<times> 's) \<Rightarrow> 's \<Rightarrow> (bff_error + 'a) \<times> 's" where
  "authed c k w = (case requireAuth (bx_user c) of Some e \<Rightarrow> (Inl e, w) | None \<Rightarrow> k w)"

type_synonym 'd resolver = "'d io \<Rightarrow> (bff_error + gql_value) \<times> 'd io"

subsection \<open>Users and organisations\<close>

definition resolve_me :: "ext \<Rightarrow> bff_env \<Rightarrow> bff_ctx \<Rightarrow> 'd resolver" where
  "resolve_me X E c = authed c (\<lambda>w. finish (getMe X E c w) (\<lambda>u. as_object (mapUser u)))"

definition resolve_organizations :: "ext \<Rightarrow> bff_env \<Rightarrow> bff_ctx \<Rightarrow> string option \<Rightarrow> 'd resolver" where
  "resolve_organizations X E c search =
     authed c (\<lambda>w. finish (listOrganizations X E c search w) (\<lambda>orgs. Inr (VList (map mapOrg orgs))))"

definition resolve_organization :: "ext \<Rightarrow> bff_env \<Rightarrow> bff_ctx \<Rightarrow> string \<Rightarrow> 'd resolver" where
  "resolve_organization X E c i = authed c (\<lambda>w. finish (getOrganization X E c i w)
     (\<lambda>org. Inr (case org of None \<Rightarrow> VNull | Some org \<Rightarrow> VObj (mapOrg org))))"

definition resolve_createOrganization :: "bff_ctx \<Rightarrow> jobj \<Rightarrow> 'd resolver" where
  "resolve_createOrganization c input = authed c (\<lambda>w. (Inl (Thrown ORG_MANAGEMENT), w))"

definition resolve_updateOrganization :: "bff_ctx \<Rightarrow> string \<Rightarrow> jobj \<Rightarrow> 'd resolver" where
  "resolve_updateOrganization c i input = authed c (\<lambda>w. (Inl (Thrown ORG_MANAGEMENT), w))"

definition resolve_deleteOrganization :: "bff_ctx \<Rightarrow> string \<Rightarrow> 'd resolver" where
  "resolve_deleteOrganization c i = authed c (\<lambda>w. (Inl (Thrown ORG_DELETION), w))"

subsection \<open>APIs\<close>

definition resolve_apis :: "ext \<Rightarrow> bff_env \<Rightarrow> bff_ctx \<Rightarrow> list_params \<Rightarrow> 'd resolver" where
  "resolve_apis X E c q = authed c (\<lambda>w. finish (listAPIs X E c (list_args q) w) (\<lambda>resp. page_of resp mapAPI))"

definition resolve_api :: "ext \<Rightarrow> bff_env \<Rightarrow> bff_ctx \<Rightarrow> string \<Rightarrow> 'd resolver" where
  "resolve_api X E c i = authed c (\<lambda>w. finish (getAPI X E c i w) (found_or ''API'' i mapAPI))"

definition resolve_createAPI :: "ext \<Rightarrow> bff_env \<Rightarrow> bff_ctx \<Rightarrow> jobj \<Rightarrow> 'd resolver" where
  "resolve_createAPI X E c input =
     authed c (\<lambda>w. finish (api_createAPI X E c (api_input input) w) (\<lambda>v. as_object (mapAPI v)))"

definition resolve_updateAPI :: "ext \<Rightarrow> bff_env \<Rightarrow> bff_ctx \<Rightarrow> string \<Rightarrow> jobj \<Rightarrow> 'd resolver" where
  "resolve_updateAPI X E c i input =
     authed c (\<lambda>w. finish (api_updateAPI X E c i (api_changes input) w) (\<lambda>v. as_object (mapAPI v)))"

definition resolve_deleteAPI :: "ext \<Rightarrow> bff_env \<Rightarrow> bff_ctx \<Rightarrow> string \<Rightarrow> 'd resolver" where
  "resolve_deleteAPI X E c i = authed c (\<lambda>w. finish (api_deleteAPI X E c i w) (\<lambda>_. Inr VTrue))"

subsection \<open>Plans, subscriptions and keys\<close>

definition resolve_plans :: "ext \<Rightarrow> bff_env \<Rightarrow> bff_ctx \<Rightarrow> json option \<Rightarrow> 'd resolver" where
  "resolve_plans X E c isPublic = authed c (\<lambda>w. finish (listPlans X E c isPublic w) (list_of_json (mapPlan X)))"

definition resolve_plan :: "ext \<Rightarrow> bff_env \<Rightarrow> bff_ctx \<Rightarrow> string \<Rightarrow> 'd resolver" where
  "resolve_plan X E c i = authed c (\<lambda>w. finish (getPlan X E c i w) (found_or ''Plan'' i (mapPlan X)))"

definition resolve_subscriptions :: "ext \<Rightarrow> bff_env \<Rightarrow> bff_ctx \<Rightarrow> list_params \<Rightarrow> 'd resolver" where
  "resolve_subscriptions X E c q =
     authed c (\<lambda>w. finish (listSubscriptions X E c (list_args q) w) (\<lambda>resp. page_of resp mapSub))"

definition resolve_subscription :: "ext \<Rightarrow> bff_env \<Rightarrow> bff_ctx \<Rightarrow> string \<Rightarrow> 'd resolver" where
  "resolve_subscription X E c i = authed c (\<lambda>w. finish (getSubscription X E c i w) (found_or ''Subscription'' i mapSub))"

definition resolve_apiKeys :: "ext \<Rightarrow> bff_env \<Rightarrow> bff_ctx \<Rightarrow> string \<Rightarrow> 'd resolver" where
  "resolve_apiKeys X E c subscriptionId =
     authed c (\<lambda>w. finish (listAPIKeys X E c subscriptionId None w) (\<lambda>keys. as_list (map_result mapKey keys)))"

definition resolve_apiKey :: "bff_ctx \<Rightarrow> string \<Rightarrow> 'd resolver" where
  "resolve_apiKey c i = authed c (\<lambda>w. finish (getAPIKey i, w) (found_or ''APIKey'' i mapKey))"

definition resolve_createPlan :: "ext \<Rightarrow> bff_env \<Rightarrow> bff_ctx \<Rightarrow> jobj \<Rightarrow> 'd resolver" where
  "resolve_createPlan X E c input =
     authed c (\<lambda>w. finish (api_createPlan X E c (plan_input input) w) (\<lambda>v. as_object (mapPlan X v)))"

definition resolve_updatePlan :: "ext \<Rightarrow> bff_env \<Rightarrow> bff_ctx \<Rightarrow> string \<Rightarrow> jobj \<Rightarrow> 'd resolver" where
  "resolve_updatePlan X E c i input =
     authed c (\<lambda>w. finish (api_updatePlan X E c i input w) (\<lambda>v. as_object (mapPlan X v)))"

definition resolve_deletePlan :: "ext \<Rightarrow> bff_env \<Rightarrow> bff_ctx \<Rightarrow> string \<Rightarrow> 'd resolver" where
  "resolve_deletePlan X E c i = authed c (\<lambda>w. finish (api_deletePlan X E c i w) (\<lambda>_. Inr VTrue))"

definition resolve_createSubscription :: "ext \<Rightarrow> bff_env \<Rightarrow> bff_ctx \<Rightarrow> jobj \<Rightarrow> 'd resolver" where
  "resolve_createSubscription X E c input =
     authed c (\<lambda>w. finish (api_createSubscription X E c (subscription_input input) w) (\<lambda>v. as_object (mapSub v)))"

definition resolve_updateSubscriptionStatus :: "ext \<Rightarrow> bff_env \<Rightarrow> bff_ctx \<Rightarrow> string \<Rightarrow> string \<Rightarrow> 'd resolver" where
  "resolve_updateSubscriptionStatus X E c i status =
     authed c (\<lambda>w. finish (api_updateSubscriptionStatus X E c i (js_lower status) w) (\<lambda>v. as_object (mapSub v)))"

definition resolve_cancelSubscription :: "ext \<Rightarrow> bff_env \<Rightarrow> bff_ctx \<Rightarrow> string \<Rightarrow> 'd resolver" where
  "resolve_cancelSubscription X E c i =
     authed c (\<lambda>w. finish (api_updateSubscriptionStatus X E c i ''cancelled'' w) (\<lambda>v. as_object (mapSub v)))"

definition resolve_createAPIKey :: "ext \<Rightarrow> bff_env \<Rightarrow> bff_ctx \<Rightarrow> jobj \<Rightarrow> 'd resolver" where
  "resolve_createAPIKey X E c input =
     authed c (\<lambda>w. finish (api_createAPIKey X E c (orelse (sfield (key_input input) ''subscription_id'') []) (key_input input) w)
       (\<lambda>v. as_object (mapKey v)))"

definition resolve_revokeAPIKey :: "ext \<Rightarrow> bff_env \<Rightarrow> bff_ctx \<Rightarrow> string \<Rightarrow> string \<Rightarrow> 'd resolver" where
  "resolve_revokeAPIKey X E c subscriptionId i =
     authed c (\<lambda>w. finish (api_revokeAPIKey X E c subscriptionId i w) (\<lambda>_. Inr VTrue))"

subsection \<open>The root types\<close>

datatype operation =
    Me
  | Organizations "string option"
  | Organization string
  | CreateOrganization jobj
  | UpdateOrganization string jobj
  | DeleteOrganization string
  | Apis list_params
  | Api string
  | CreateAPI jobj
  | UpdateAPI string jobj
  | DeleteAPI string
  | Plans "json option"
  | Plan string
  | Subscriptions list_params
  | Subscription string
  | ApiKeys string
  | ApiKey string
  | CreatePlan jobj
  | UpdatePlan string jobj
  | DeletePlan string
  | CreateSubscription jobj
  | UpdateSubscriptionStatus string string
  | CancelSubscription string
  | CreateAPIKey jobj
  | RevokeAPIKey string string

fun resolve :: "ext \<Rightarrow> bff_env \<Rightarrow> bff_ctx \<Rightarrow> operation \<Rightarrow> 'd resolver" where
  "resolve X E c Me = resolve_me X E c"
| "resolve X E c (Organizations search) = resolve_organizations X E c search"
| "resolve X E c (Organization i) = resolve_organization X E c i"
| "resolve X E c (CreateOrganization input) = resolve_createOrganization c input"
| "resolve X E c (UpdateOrganization i input) = resolve_updateOrganization c i input"
| "resolve X E c (DeleteOrganization i) = resolve_deleteOrganization c i"
| "resolve X E c (Apis q) = resolve_apis X E c q"
| "resolve X E c (Api i) = resolve_api X E c i"
| "resolve X E c (CreateAPI input) = resolve_createAPI X E c input"
| "resolve X E c (UpdateAPI i input) = resolve_updateAPI X E c i input"
| "resolve X E c (DeleteAPI i) = resolve_deleteAPI X E c i"
| "resolve X E c (Plans isPublic) = resolve_plans X E c isPublic"
| "resolve X E c (Plan i) = resolve_plan X E c i"
| "resolve X E c (Subscriptions q) = resolve_subscriptions X E c q"
| "resolve X E c (Subscription i) = resolve_subscription X E c i"
| "resolve X E c (ApiKeys subscriptionId) = resolve_apiKeys X E c subscriptionId"
| "resolve X E c (ApiKey i) = resolve_apiKey c i"
| "resolve X E c (CreatePlan input) = resolve_createPlan X E c input"
| "resolve X E c (UpdatePlan i input) = resolve_updatePlan X E c i input"
| "resolve X E c (DeletePlan i) = resolve_deletePlan X E c i"
| "resolve X E c (CreateSubscription input) = resolve_createSubscription X E c input"
| "resolve X E c (UpdateSubscriptionStatus i status) = resolve_updateSubscriptionStatus X E c i status"
| "resolve X E c (CancelSubscription i) = resolve_cancelSubscription X E c i"
| "resolve X E c (CreateAPIKey input) = resolve_createAPIKey X E c input"
| "resolve X E c (RevokeAPIKey subscriptionId i) = resolve_revokeAPIKey X E c subscriptionId i"

section \<open>Loaders and field resolvers\<close>

text \<open>\<open>new Map(list.map((o) => [o.id, o]))\<close>, looked up in the order of the identifiers asked for.\<close>

definition by_ids :: "string list \<Rightarrow> json list \<Rightarrow> json option list" where
  "by_ids ids vs =
     (let entries = fold (\<lambda>v m. case rget (json_obj v) ''id'' of Some k \<Rightarrow> rset k v m | None \<Rightarrow> m) vs []
      in map (\<lambda>i. rget entries (JStr i)) ids)"

definition load_with :: "(string list \<Rightarrow> 's \<Rightarrow> (exn + json list) \<times> 's) \<Rightarrow> string list \<Rightarrow> 's \<Rightarrow> (exn + json option list) \<times> 's" where
  "load_with fetch ids w = returning (fetch ids w) (\<lambda>vs. Inr (by_ids ids vs))"

definition load_orgs :: "ext \<Rightarrow> bff_env \<Rightarrow> bff_ctx \<Rightarrow> string list \<Rightarrow> 'd io \<Rightarrow> (exn + json option list) \<times> 'd io" where
  "load_orgs X E c = load_with (\<lambda>ids w. returning (listOrganizations X E c None w) (\<lambda>orgs. Inr (map JObj orgs)))"

definition load_apis :: "ext \<Rightarrow> bff_env \<Rightarrow> bff_ctx \<Rightarrow> string list \<Rightarrow> 'd io \<Rightarrow> (exn + json option list) \<times> 'd io" where
  "load_apis X E c = load_with (getAPIsByIds X E c)"

definition load_plans :: "ext \<Rightarrow> bff_env \<Rightarrow> bff_ctx \<Rightarrow> string list \<Rightarrow> 'd io \<Rightarrow> (exn + json option list) \<times> 'd io" where
  "load_plans X E c = load_with (getPlansByIds X E c)"

definition load_subscriptions :: "ext \<Rightarrow> bff_env \<Rightarrow> bff_ctx \<Rightarrow> string list \<Rightarrow> 'd io \<Rightarrow> (exn + json option list) \<times> 'd io" where
  "load_subscriptions X E c = load_with (getSubscriptionsByIds X E c)"

text \<open>What a field makes of the value its loader gave: \<open>org ? mapOrg(org) : null\<close>.\<close>

definition loaded :: "(json \<Rightarrow> exn + jobj) \<Rightarrow> json option \<Rightarrow> bff_error + gql_value" where
  "loaded f v = (case v of Some j \<Rightarrow> if js_truthy j then as_object (f j) else Inr VNull | None \<Rightarrow> Inr VNull)"

definition org_field :: "json option \<Rightarrow> bff_error + gql_value" where
  "org_field = loaded (\<lambda>v. Inr (mapOrg (json_obj v)))"

definition organization_apis :: "ext \<Rightarrow> bff_env \<Rightarrow> bff_ctx \<Rightarrow> string \<Rightarrow> int option \<Rightarrow> int option \<Rightarrow> 'd io \<Rightarrow>
    (bff_error + gql_value) \<times> 'd io" where
  "organization_apis X E c i page lmt w =
     finish (listAPIs X E c \<lparr> lq_orgId = Some i, lq_apiId = None, lq_status = None, lq_page = Some (orelse page 1),
         lq_limit = Some (orelse lmt 20) \<rparr> w)
       (\<lambda>resp. page_of resp mapAPI)"

definition organization_subscriptions :: "ext \<Rightarrow> bff_env \<Rightarrow> bff_ctx \<Rightarrow> string \<Rightarrow> string option \<Rightarrow> int option \<Rightarrow>
    int option \<Rightarrow> 'd io \<Rightarrow> (bff_error + gql_value) \<times> 'd io" where
  "organization_subscriptions X E c i status page lmt w =
     finish (listSubscriptions X E c \<lparr> lq_orgId = Some i, lq_apiId = None, lq_status = status,
         lq_page = Some (orelse page 1), lq_limit = Some (orelse lmt 20) \<rparr> w)
       (\<lambda>resp. page_of resp mapSub)"

definition subscription_apiKeys :: "ext \<Rightarrow> bff_env \<Rightarrow> bff_ctx \<Rightarrow> string \<Rightarrow> string option \<Rightarrow> 'd io \<Rightarrow>
    (bff_error + gql_value) \<times> 'd io" where
  "subscription_apiKeys X E c i status w =
     finish (listAPIKeys X E c i (map_option js_lower status) w) (\<lambda>keys. as_list (map_result mapKey keys))"

section \<open>Scalars\<close>

datatype scalar_value = SDate int | SStr string | SOther

definition DateTime_serialize :: "bff_env \<Rightarrow> scalar_value \<Rightarrow> string option" where
  "DateTime_serialize E v = (case v of SDate t \<Rightarrow> Some (be_iso E t) | SStr s \<Rightarrow> Some s | SOther \<Rightarrow> None)"

end
