(* ===== verification/BffProps.thy ===== *)
theory BffProps
  imports BffResolvers
begin

text \<open>
  What the resolvers of the BFF guarantee: which requests leave it and in whose name, that a
  loader answers every identifier with the object of that identifier or nothing, and that a plan
  keeps its price and limits on the way through the service.
\<close>

section \<open>Which requests are sent\<close>

named_theorems sends_intros

text \<open>A result of a run from \<open>w\<close>, all of whose requests satisfy \<open>P\<close>.\<close>

definition sends :: "(http_req \<Rightarrow> bool) \<Rightarrow> 'd io \<Rightarrow> 'r \<times> 'd io \<Rightarrow> bool" where
  "sends P w r \<longleftrightarrow> (\<exists>new. io_sent (snd r) = io_sent w @ new \<and> list_all P new)"

lemma sends_nothing [sends_intros]: "sends P w (a, w)"
  by (auto simp: sends_def intro!: exI [of _ "[]"])

lemma sends_trans: "sends P w (a, w1) \<Longrightarrow> sends P w1 r \<Longrightarrow> sends P w r"
  by (force simp: sends_def)

lemma sends_value: "sends P w (a, w1) \<Longrightarrow> sends P w (b, w1)"
  by (simp add: sends_def)

lemma sends_awaiting [sends_intros]:
  "sends P w r \<Longrightarrow> (\<And>a w1. sends P w1 (k a w1)) \<Longrightarrow> sends P w (awaiting r k)"
  by (auto simp: awaiting_def intro: sends_trans sends_value split: prod.split sum.split)

lemma sends_returning [sends_intros]: "sends P w r \<Longrightarrow> sends P w (returning r f)"
  unfolding returning_def by (intro sends_intros)

lemma sends_or_null [sends_intros]: "sends P w r \<Longrightarrow> sends P w (or_null r)"
  by (auto simp: or_null_def intro: sends_value split: prod.split sum.split)

lemma sends_finish [sends_intros]: "sends P w r \<Longrightarrow> sends P w (finish r f)"
  by (auto simp: finish_def intro: sends_value split: prod.split sum.split)

lemma sends_authed [sends_intros]: "sends P w (k w) \<Longrightarrow> sends P w (authed c k w)"
  by (auto simp: authed_def intro: sends_nothing split: option.split)

lemma sends_if [sends_intros]: "(b \<Longrightarrow> sends P w x) \<Longrightarrow> (\<not> b \<Longrightarrow> sends P w y) \<Longrightarrow> sends P w (if b then x else y)"
  by simp

lemma sends_each [sends_intros]: "(\<And>x w1. sends P w1 (f x w1)) \<Longrightarrow> sends P w (each f xs w)"
proof (induction xs arbitrary: w)
  case (Cons x xs)
  then show ?case unfolding each.simps by (intro sends_intros) simp_all
qed (simp add: sends_nothing)

text \<open>The requests of a client: to its service, with its headers.\<close>

definition from_client :: "ext \<Rightarrow> bff_env \<Rightarrow> service_client \<Rightarrow> http_req \<Rightarrow> bool" where
  "from_client X E sv q \<longleftrightarrow> starts_with (rq_url q) (mtlsBase X E (sv_baseUrl sv)) \<and>
     (\<forall>k. k \<noteq> ''content-length'' \<longrightarrow> rget (rq_headers q) k = rget (sv_baseHeaders sv) k)"

lemma sends_request:
  assumes "ro_headers opts = None" "\<And>q. from_client X E sv q \<Longrightarrow> P q"
  shows "sends P w (request X E sv opts w)"
proof -
  define bodyStr where "bodyStr = map_option (x_json_str X) (ro_body opts)"
  define q where "q = \<lparr> rq_url = mtlsBase X E (sv_baseUrl sv) @ ro_path opts, rq_method = orelse (ro_method opts) ''GET'',
    rq_headers = (if truthy bodyStr then rset ''content-length'' (show_nat (be_byteLength E (str_of bodyStr))) (sv_baseHeaders sv)
      else sv_baseHeaders sv), rq_body = bodyStr \<rparr>"
  have "from_client X E sv q" by (simp add: from_client_def q_def)
  then have "P q" by (rule assms(2))
  moreover have "io_sent (snd (request X E sv opts w)) = io_sent w @ [q]"
    using assms(1)
    by (auto simp: request_def http_fetch_def Let_def q_def bodyStr_def split: sum.split option.split)
  ultimately show ?thesis by (auto simp: sends_def)
qed

lemma sends_verbs:
  assumes "\<And>q. from_client X E sv q \<Longrightarrow> P q"
  shows "sends P w (sv_get X E sv path w)" "sends P w (sv_post X E sv path body w)"
    "sends P w (sv_put X E sv path body w)" "sends P w (sv_delete X E sv path w)"
  unfolding sv_get_def sv_post_def sv_put_def sv_delete_def by (rule sends_request; simp add: assms)+

text \<open>
  A request of the BFF in the name of its caller: to the auth service with the caller's own
  header, or to one of the other two with the identity that was verified, and never both.
\<close>

definition in_the_name_of :: "ext \<Rightarrow> bff_env \<Rightarrow> bff_ctx \<Rightarrow> http_req \<Rightarrow> bool" where
  "in_the_name_of X E c q \<longleftrightarrow>
     starts_with (rq_url q) (mtlsBase X E (be_AUTH_SERVICE_URL E)) \<and>
       rget (rq_headers q) ''x-user-id'' = None \<and> rget (rq_headers q) ''x-org-id'' = None \<and>
       rget (rq_headers q) ''authorization'' = (if truthy (bx_authHeader c) then bx_authHeader c else None) \<or>
     (starts_with (rq_url q) (mtlsBase X E (be_REGISTRY_SERVICE_URL E)) \<or>
      starts_with (rq_url q) (mtlsBase X E (be_SUBSCRIPTION_SERVICE_URL E))) \<and>
       rget (rq_headers q) ''authorization'' = None \<and>
       (case bx_user c of
          None \<Rightarrow> rget (rq_headers q) ''x-user-id'' = None \<and> rget (rq_headers q) ''x-org-id'' = None
        | Some u \<Rightarrow> rget (rq_headers q) ''x-user-id'' = (if au_id u = [] then None else Some (au_id u)) \<and>
            rget (rq_headers q) ''x-org-id'' = (if truthy (au_orgId u) then au_orgId u else None))"

lemma from_client_header: "from_client X E sv q \<Longrightarrow> k \<noteq> ''content-length'' \<Longrightarrow> rget (rq_headers q) k = rget (sv_baseHeaders sv) k"
  by (simp add: from_client_def)

lemma client_headers:
  "k \<noteq> ''content-type'' \<Longrightarrow> k \<noteq> ''accept'' \<Longrightarrow> distinct (map fst hs) \<Longrightarrow>
   rget (sv_baseHeaders (ServiceClient b (Some hs))) k = rget hs k"
proof -
  have "rget (fold (\<lambda>(k, v). rset k v) hs d) k = orelse_opt (rget hs k) (rget d k)" if "distinct (map fst hs)" for d
    using that
  proof (induction hs arbitrary: d)
    case (Cons p hs)
    obtain a v where p: "p = (a, v)" by (cases p)
    have "a = k \<Longrightarrow> rget hs k = None" using Cons.prems p by (auto simp: rget_None_iff)
    then show ?case using Cons p by auto
  qed simp
  then show "k \<noteq> ''content-type'' \<Longrightarrow> k \<noteq> ''accept'' \<Longrightarrow> distinct (map fst hs) \<Longrightarrow>
      rget (sv_baseHeaders (ServiceClient b (Some hs))) k = rget hs k"
    by (cases "rget hs k") (simp_all add: ServiceClient_def)
qed

lemma identity_headers:
  "distinct (map fst (identityHeaders u))" "rget (identityHeaders u) ''authorization'' = None"
  "rget (identityHeaders None) k = None"
  by (cases u; simp add: identityHeaders_def)+

lemma identity_header_values:
  "rget (identityHeaders (Some v)) ''x-user-id'' = (if au_id v = [] then None else Some (au_id v))"
  "rget (identityHeaders (Some v)) ''x-org-id'' = (if truthy (au_orgId v) then au_orgId v else None)"
  by (cases "au_orgId v"; simp add: identityHeaders_def)+

lemma identity_calls:
  assumes "from_client X E (ServiceClient b (Some (identityHeaders (bx_user c)))) q"
    and "b = be_REGISTRY_SERVICE_URL E \<or> b = be_SUBSCRIPTION_SERVICE_URL E"
  shows "in_the_name_of X E c q"
proof -
  have "starts_with (rq_url q) (mtlsBase X E b)" using assms(1) by (simp add: from_client_def ServiceClient_def)
  moreover have "rget (rq_headers q) k = rget (identityHeaders (bx_user c)) k"
    if "k \<in> {''authorization'', ''x-user-id'', ''x-org-id''}" for k
    using that from_client_header [OF assms(1)] client_headers [OF _ _ identity_headers(1)] by auto
  ultimately show ?thesis
    using assms(2) unfolding in_the_name_of_def by (cases "bx_user c") (auto simp: identity_headers identity_header_values)
qed

lemma registry_calls: "from_client X E (RegistryAPI E c) q \<Longrightarrow> in_the_name_of X E c q"
  unfolding RegistryAPI_def by (erule identity_calls) simp

lemma subscription_calls: "from_client X E (SubscriptionAPI E c) q \<Longrightarrow> in_the_name_of X E c q"
  unfolding SubscriptionAPI_def by (erule identity_calls) simp

lemma auth_calls:
  assumes "from_client X E (AuthAPI E c) q"
  shows "in_the_name_of X E c q"
proof -
  define hs where "hs = (if truthy (bx_authHeader c) then [(''authorization'', str_of (bx_authHeader c))] else [])"
  note a = assms [unfolded AuthAPI_def hs_def [symmetric]]
  have d: "distinct (map fst hs)" by (simp add: hs_def)
  have "starts_with (rq_url q) (mtlsBase X E (be_AUTH_SERVICE_URL E))"
    using a by (simp add: from_client_def ServiceClient_def)
  moreover have "rget (rq_headers q) k = rget hs k" if "k \<in> {''authorization'', ''x-user-id'', ''x-org-id''}" for k
    using that from_client_header [OF a] client_headers [OF _ _ d] by auto
  moreover have "rget hs ''authorization'' = (if truthy (bx_authHeader c) then bx_authHeader c else None)"
    "rget hs ''x-user-id'' = None" "rget hs ''x-org-id'' = None"
    by (auto simp: hs_def elim!: truthyE)
  ultimately show ?thesis unfolding in_the_name_of_def by simp
qed

lemma registry_verbs [sends_intros]:
  "sends (in_the_name_of X E c) w (sv_get X E (RegistryAPI E c) path w)"
  "sends (in_the_name_of X E c) w (sv_post X E (RegistryAPI E c) path body w)"
  "sends (in_the_name_of X E c) w (sv_put X E (RegistryAPI E c) path body w)"
  "sends (in_the_name_of X E c) w (sv_delete X E (RegistryAPI E c) path w)"
  by (rule sends_verbs; erule registry_calls)+

lemma subscription_verbs [sends_intros]:
  "sends (in_the_name_of X E c) w (sv_get X E (SubscriptionAPI E c) path w)"
  "sends (in_the_name_of X E c) w (sv_post X E (SubscriptionAPI E c) path body w)"
  "sends (in_the_name_of X E c) w (sv_put X E (SubscriptionAPI E c) path body w)"
  "sends (in_the_name_of X E c) w (sv_delete X E (SubscriptionAPI E c) path w)"
  by (rule sends_verbs; erule subscription_calls)+

lemma auth_verbs [sends_intros]:
  "sends (in_the_name_of X E c) w (sv_get X E (AuthAPI E c) path w)"
  "sends (in_the_name_of X E c) w (sv_post X E (AuthAPI E c) path body w)"
  "sends (in_the_name_of X E c) w (sv_put X E (AuthAPI E c) path body w)"
  "sends (in_the_name_of X E c) w (sv_delete X E (AuthAPI E c) path w)"
  by (rule sends_verbs; erule auth_calls)+

lemma revoke_sends [sends_intros]: "sends (in_the_name_of X E c) w (api_revokeAPIKey X E c s i w)"
  unfolding api_revokeAPIKey_def by (rule sends_request) (simp_all add: subscription_calls)

lemma mapMe_sends [sends_intros]: "sends P w (mapMeToUser E me w)" "sends P w (mapMeToOrg E me w)"
  by (auto simp: mapMeToUser_def mapMeToOrg_def nowIso_def date_now_def sends_def Let_def
      split: sum.split option.split)

lemmas source_defs = listAPIs_def getAPI_def api_createAPI_def api_updateAPI_def api_deleteAPI_def auth_me_def getMe_def
  auth_org_def listOrganizations_def listPlans_def getPlan_def api_createPlan_def api_updatePlan_def
  api_deletePlan_def listSubscriptions_def getSubscription_def api_createSubscription_def
  listAPIKeys_def api_createAPIKey_def Let_def

lemma source_sends [sends_intros]:
  "sends (in_the_name_of X E c) w (listAPIs X E c q w)"
  "sends (in_the_name_of X E c) w (getAPI X E c i w)"
  "sends (in_the_name_of X E c) w (api_createAPI X E c input w)"
  "sends (in_the_name_of X E c) w (api_updateAPI X E c i input w)"
  "sends (in_the_name_of X E c) w (api_deleteAPI X E c i w)"
  "sends (in_the_name_of X E c) w (getMe X E c w)"
  "sends (in_the_name_of X E c) w (auth_org X E c w)"
  "sends (in_the_name_of X E c) w (listOrganizations X E c search w)"
  "sends (in_the_name_of X E c) w (listPlans X E c isPublic w)"
  "sends (in_the_name_of X E c) w (getPlan X E c i w)"
  "sends (in_the_name_of X E c) w (api_createPlan X E c input w)"
  "sends (in_the_name_of X E c) w (api_updatePlan X E c i input w)"
  "sends (in_the_name_of X E c) w (api_deletePlan X E c i w)"
  "sends (in_the_name_of X E c) w (listSubscriptions X E c q w)"
  "sends (in_the_name_of X E c) w (getSubscription X E c i w)"
  "sends (in_the_name_of X E c) w (api_createSubscription X E c input w)"
  "sends (in_the_name_of X E c) w (listAPIKeys X E c i st w)"
  "sends (in_the_name_of X E c) w (api_createAPIKey X E c i input w)"
  unfolding source_defs by (intro sends_intros)+

lemma transition_sends [sends_intros]: "sends (in_the_name_of X E c) w (transition X E c i command body w)"
  unfolding transition_def by (intro sends_intros)

lemma updateStatus_sends [sends_intros]: "sends (in_the_name_of X E c) w (api_updateSubscriptionStatus X E c i st w)"
  unfolding api_updateSubscriptionStatus_def by (intro sends_intros)

lemma getOrganization_sends [sends_intros]: "sends (in_the_name_of X E c) w (getOrganization X E c i w)"
proof (cases "auth_org X E c w")
  case (Pair r w1)
  have "sends (in_the_name_of X E c) w (r, w1)" using source_sends(7) [of X E c w] by (simp only: Pair)
  then show ?thesis
    by (auto simp: getOrganization_def Pair intro: sends_value split: sum.split option.split)
qed

lemmas resolver_defs = resolve_me_def resolve_organizations_def resolve_organization_def resolve_createOrganization_def
  resolve_updateOrganization_def resolve_deleteOrganization_def resolve_apis_def resolve_api_def resolve_createAPI_def
  resolve_updateAPI_def resolve_deleteAPI_def resolve_plans_def resolve_plan_def resolve_subscriptions_def
  resolve_subscription_def resolve_apiKeys_def resolve_apiKey_def resolve_createPlan_def resolve_updatePlan_def
  resolve_deletePlan_def resolve_createSubscription_def resolve_updateSubscriptionStatus_def
  resolve_cancelSubscription_def resolve_createAPIKey_def resolve_revokeAPIKey_def

lemma resolve_sends: "sends (in_the_name_of X E c) w (resolve X E c op w)"
  by (cases op; simp only: resolve.simps; unfold resolver_defs; intro sends_intros)

lemma resolve_authed: "bx_user c = None \<Longrightarrow>
    resolve X E c op w = (Inl (Gql (GraphQLError ''Authentication required'' ''UNAUTHENTICATED'')), w)"
  by (cases op) (simp_all add: resolver_defs authed_def requireAuth_def)

text \<open>
  Whatever query or mutation on users, APIs, plans, subscriptions or keys a caller asks for:
  without a verified user it is refused as unauthenticated and no service is called. With one,
  every request that leaves the BFF goes to the auth service with the caller's own
  authorization header and no identity header, or to the registry or the subscription service
  with exactly the verified user and organisation as its identity headers and without the
  caller's credentials.
\<close>

theorem requests_in_the_callers_name:
  assumes "resolve X E c op w = (r, w')"
  shows "(bx_user c = None \<longrightarrow>
      r = Inl (Gql (GraphQLError ''Authentication required'' ''UNAUTHENTICATED'')) \<and> w' = w) \<and>
    (\<exists>new. io_sent w' = io_sent w @ new \<and> list_all (in_the_name_of X E c) new)"
  using resolve_sends [of X E c w op] resolve_authed [of c X E op w] assms by (auto simp: sends_def)

definition caller :: bff_ctx where
  "caller = \<lparr> bx_user = Some \<lparr> au_id = ''u1'', au_email = [], au_role = ''DEVELOPER'', au_orgId = Some ''o1'', au_sub = ''u1'' \<rparr>,
     bx_authHeader = Some ''Bearer t'' \<rparr>"

definition plain_bff :: bff_env where
  "plain_bff = sample_bff\<lparr>be_MTLS_ENABLED := False\<rparr>"

definition cancel_run :: "(bff_error + gql_value) \<times> mem io" where
  "cancel_run = resolve sample_ext plain_bff caller (CancelSubscription ''s1'')
     (sample_io\<lparr>io_net := (\<lambda>_ _. Inr \<lparr> rs_status = 200, rs_headers = [], rs_body = [] \<rparr>)\<rparr>)"

lemma requests_in_the_callers_name_witness:
  "map rq_url (io_sent (snd cancel_run)) =
    [''http://subscription-service:8084/v1/subscriptions/s1/cancel'', ''http://subscription-service:8084/v1/subscriptions/s1''] \<and>
   list_all (in_the_name_of sample_ext plain_bff caller) (io_sent (snd cancel_run))"
proof -
  have sent: "map rq_url (io_sent (snd cancel_run)) =
    [''http://subscription-service:8084/v1/subscriptions/s1/cancel'', ''http://subscription-service:8084/v1/subscriptions/s1'']"
    by code_simp
  obtain r w' where run: "cancel_run = (r, w')" by (cases cancel_run)
  from requests_in_the_callers_name [OF run [unfolded cancel_run_def]]
  have "list_all (in_the_name_of sample_ext plain_bff caller) (io_sent w')"
    by (auto simp: sample_io_def)
  then show ?thesis unfolding run snd_conv using sent [unfolded run snd_conv] by blast
qed

section \<open>Loaders\<close>

lemma by_ids_entries:
  "rget (fold (\<lambda>v m. case rget (json_obj v) ''id'' of Some k \<Rightarrow> rset k v m | None \<Rightarrow> m) vs m) k =
    (case filter (\<lambda>v. rget (json_obj v) ''id'' = Some k) vs of [] \<Rightarrow> rget m k | us \<Rightarrow> Some (last us))"
  by (induction vs arbitrary: m) (auto split: option.split list.splits)

lemma by_ids_nth:
  "i < length ids \<Longrightarrow> by_ids ids vs ! i =
    (case filter (\<lambda>v. rget (json_obj v) ''id'' = Some (JStr (ids ! i))) vs of [] \<Rightarrow> None | us \<Rightarrow> Some (last us))"
  by (simp add: by_ids_def Let_def by_ids_entries split: list.split)

text \<open>
  A loader answers every identifier of its batch in its place: with an object that the data
  source returned and that has this identifier, and with nothing only if none has.
\<close>

theorem loader_answers_ids:
  assumes "load_with fetch ids w = (Inr answers, w')"
  shows "length answers = length ids \<and>
    (\<exists>vs. fst (fetch ids w) = Inr vs \<and> (\<forall>i < length ids.
      (case answers ! i of
         Some v \<Rightarrow> v \<in> set vs \<and> rget (json_obj v) ''id'' = Some (JStr (ids ! i))
       | None \<Rightarrow> (\<forall>v \<in> set vs. rget (json_obj v) ''id'' \<noteq> Some (JStr (ids ! i))))))"
proof -
  from assms obtain vs where f: "fetch ids w = (Inr vs, w')" and a: "answers = by_ids ids vs"
    by (auto simp: load_with_def returning_def awaiting_def split: prod.splits sum.splits)
  have "case answers ! i of
         Some v \<Rightarrow> v \<in> set vs \<and> rget (json_obj v) ''id'' = Some (JStr (ids ! i))
       | None \<Rightarrow> (\<forall>v \<in> set vs. rget (json_obj v) ''id'' \<noteq> Some (JStr (ids ! i)))" if i: "i < length ids" for i
  proof (cases "filter (\<lambda>v. rget (json_obj v) ''id'' = Some (JStr (ids ! i))) vs")
    case Nil
    then show ?thesis by (simp add: a by_ids_nth i filter_empty_conv)
  next
    case (Cons u us)
    then have "last (u # us) \<in> set (filter (\<lambda>v. rget (json_obj v) ''id'' = Some (JStr (ids ! i))) vs)"
      by (metis last_in_set list.distinct(1))
    then have "last (u # us) \<in> set vs \<and> rget (json_obj (last (u # us))) ''id'' = Some (JStr (ids ! i))" by simp
    then show ?thesis unfolding a by_ids_nth [OF i] Cons list.case option.case .
  qed
  with f show ?thesis by (simp add: a by_ids_def Let_def)
qed

definition me_ext :: ext where
  "me_ext = sample_ext\<lparr>x_json_parse := (\<lambda>s. Some (JObj [(''id'', JStr ''u1''), (''email'', JStr ''a@b''), (''org_id'', JStr ''o1''),
     (''org_name'', JStr ''Acme  Inc.'')]))\<rparr>"

definition me_world :: "mem io" where
  "me_world = sample_io\<lparr>io_net := (\<lambda>_ _. Inr \<lparr> rs_status = 200, rs_headers = [], rs_body = ''me'' \<rparr>)\<rparr>"

text \<open>The organisations of other users resolve to nothing: the auth service lists the caller's own.\<close>

lemma loader_answers_ids_witness:
  "\<exists>answers w'. load_orgs me_ext plain_bff caller [''o2'', ''o1''] me_world = (Inr answers, w') \<and>
    length answers = 2 \<and> answers ! 0 = None \<and> (\<exists>v. answers ! 1 = Some v \<and> rget (json_obj v) ''id'' = Some (JStr ''o1''))"
proof -
  have run: "map_sum id (map (\<lambda>v. v \<noteq> None)) (fst (load_orgs me_ext plain_bff caller [''o2'', ''o1''] me_world)) = Inr [False, True]"
    by code_simp
  obtain r w' where r: "load_orgs me_ext plain_bff caller [''o2'', ''o1''] me_world = (r, w')" by fastforce
  with run obtain answers where a: "r = Inr answers" "map (\<lambda>v. v \<noteq> None) answers = [False, True]"
    by (cases r) auto
  from a(2) have b: "answers ! 0 = None" "answers ! 1 \<noteq> None" "length answers = 2" by auto
  from loader_answers_ids [OF r [unfolded a(1) load_orgs_def]] b
  obtain v where "answers ! 1 = Some v" "rget (json_obj v) ''id'' = Some (JStr ''o1'')"
    by (force simp: less_Suc_eq numeral_2_eq_2)
  with r a(1) b show ?thesis by blast
qed

section \<open>Plans\<close>

lemma price_roundtrip: "r * 100 \<in> \<int> \<Longrightarrow> price_cents (Some (JNum r)) = JNum (r * 100)"
proof -
  assume "r * 100 \<in> \<int>"
  then obtain i where i: "r * 100 = of_int i" by (auto elim: Ints_cases)
  have "\<lfloor>(of_int i :: rat) + 1 / 2\<rfloor> = i" by (rule floor_unique) simp_all
  then show ?thesis by (simp add: price_cents_def i)
qed

text \<open>The members of the body of a new plan that come from the request.\<close>

definition plan_members :: "string list" where
  "plan_members = [''name'', ''description'', ''rpm_limit'', ''rpd_limit'', ''rph_limit'', ''max_api_keys'', ''price_cents'',
     ''currency'', ''features'', ''is_public'']"

text \<open>
  C27. A plan that the service stores as it was sent comes back as it was asked for: the limits,
  the names and the visibility member by member, the price to the cent, the currency with its
  default, and a list of features as it is. Members that the service adds do not matter.
\<close>

theorem plan_roundtrip:
  assumes "list_all (\<lambda>(k, v). k \<notin> set plan_members) added"
    and "rget input ''price'' = Some (JNum r)" "r * 100 \<in> \<int>"
    and "rget input ''features'' = Some (JArr (map JStr fs))"
  shows "\<exists>plan. mapPlan X (JObj (plan_input input @ added)) = Inr plan \<and>
    rget plan ''price'' = Some (JNum r) \<and> rget plan ''features'' = Some (JArr (map JStr fs)) \<and>
    rget plan ''currency'' = Some (orelse (jget input ''currency'') (JStr ''USD'')) \<and>
    rget plan ''rphLimit'' = Some (orelse (jget input ''rphLimit'') (JNum 0)) \<and>
    list_all (\<lambda>k. rget plan k = rget input k)
      [''name'', ''description'', ''rpmLimit'', ''rpdLimit'', ''maxKeys'', ''isPublic'']"
proof -
  define stored where "stored = plan_input input @ added"
  have n: "rget added k = None" if "k \<in> set plan_members" for k
    using assms(1) that by (force simp: rget_None_iff list_all_iff)
  have keys: "rget stored ''name'' = rget input ''name''" "rget stored ''description'' = rget input ''description''"
    "rget stored ''rpm_limit'' = rget input ''rpmLimit''" "rget stored ''rpd_limit'' = rget input ''rpdLimit''"
    "rget stored ''rph_limit'' = Some (orelse (jget input ''rphLimit'') (JNum 0))"
    "rget stored ''max_api_keys'' = rget input ''maxKeys''" "rget stored ''price_cents'' = Some (JNum (r * 100))"
    "rget stored ''currency'' = Some (orelse (jget input ''currency'') (JStr ''USD''))"
    "rget stored ''features'' = Some (JArr (map JStr fs))" "rget stored ''is_public'' = rget input ''isPublic''"
    using n price_roundtrip [OF assms(3)] assms(2, 4)
    by (simp_all add: stored_def plan_input_def plan_members_def rget_append rget_pick orelse_opt_def split: option.split)
  have j: "jget stored ''rph_limit'' = Some (orelse (jget input ''rphLimit'') (JNum 0))"
    using keys(5) by (auto simp: jget_def split: option.splits json.splits)
  have f: "mapFeatures X (Some (JArr (map JStr fs))) = JArr (map JStr fs)"
    by (simp add: mapFeatures_def)
  show ?thesis
    unfolding stored_def [symmetric]
    by (simp add: mapPlan_def sum_bind_def obj_of_def json_obj_def rget_append rget_pick keys f j orelse_opt_def split: option.split)
qed

definition gold_input :: jobj where
  "gold_input = [(''name'', JStr ''gold''), (''rpmLimit'', JNum 100), (''rpdLimit'', JNum 5000), (''maxKeys'', JNum 3),
     (''price'', JNum (1999 / 100)), (''features'', JArr [JStr ''sla'', JStr ''support''])]"

lemma plan_roundtrip_witness:
  "\<exists>plan. mapPlan sample_ext (JObj (plan_input gold_input @ [(''id'', JStr ''p1'')])) = Inr plan \<and>
    rget plan ''price'' = Some (JNum (1999 / 100)) \<and> rget plan ''currency'' = Some (JStr ''USD'') \<and>
    rget plan ''rpmLimit'' = Some (JNum 100)"
proof -
  have a: "list_all (\<lambda>(k, v). k \<notin> set plan_members) [(''id'', JStr ''p1'')]"
    by (simp add: plan_members_def)
  have b: "rget gold_input ''price'' = Some (JNum (1999 / 100))" "(1999 / 100 :: rat) * 100 \<in> \<int>"
    "rget gold_input ''features'' = Some (JArr (map JStr [''sla'', ''support'']))"
    "jget gold_input ''currency'' = None" "rget gold_input ''rpmLimit'' = Some (JNum 100)"
    by (simp_all add: gold_input_def jget_def)
  from plan_roundtrip [OF a b(1-3), of sample_ext] b(4, 5) show ?thesis by (auto simp: list_all_iff)
qed

text \<open>A change of a plan is sent with the names of the schema, which the service does not know.\<close>

lemma updatePlan_unmapped:
  "io_sent (snd (api_updatePlan X E c i input w)) = io_sent w @ [q] \<Longrightarrow> rq_body q = Some (x_json_str X (JObj input))"
  by (auto simp: api_updatePlan_def sv_put_def request_def http_fetch_def Let_def split: sum.splits option.splits if_splits)

end
