(* ===== verification/BffTypes.thy ===== *)
theory BffTypes
  imports BffResolvers
begin

text \<open>
  Types on both sides of the BFF: the interfaces that the data sources declare for the objects of
  the services (\<open>datasources/*.ts\<close>) and the object types and enums of the schema
  (\<open>schema/typeDefs.ts\<close>, the fields without a resolver of their own). The theorem: what the
  resolvers make of a well-typed object is well-typed.
\<close>

section \<open>The interfaces of the data sources\<close>

datatype ts_type = TsString | TsNumber | TsBool | TsRecord
  | TsNull ts_type | TsArray ts_type | TsOptional ts_type

fun ts_ok :: "ts_type \<Rightarrow> json option \<Rightarrow> bool" where
  "ts_ok TsString v = (case v of Some (JStr s) \<Rightarrow> True | _ \<Rightarrow> False)"
| "ts_ok TsNumber v = (case v of Some (JNum r) \<Rightarrow> True | _ \<Rightarrow> False)"
| "ts_ok TsBool v = (case v of Some (JBool b) \<Rightarrow> True | _ \<Rightarrow> False)"
| "ts_ok TsRecord v = (case v of Some (JObj obj) \<Rightarrow> True | _ \<Rightarrow> False)"
| "ts_ok (TsNull t) v = (v = Some JNull \<or> ts_ok t v)"
| "ts_ok (TsArray t) v = (case v of Some (JArr vs) \<Rightarrow> list_all (\<lambda>x. ts_ok t (Some x)) vs | _ \<Rightarrow> False)"
| "ts_ok (TsOptional t) v = (v = None \<or> ts_ok t v)"

definition APIDTO :: "(string \<times> ts_type) list" where
  "APIDTO = [
     (''id'', TsString), (''name'', TsString), (''version'', TsString), (''base_path'', TsString),
     (''upstream_url'', TsString), (''description'', TsNull TsString), (''status'', TsString),
     (''org_id'', TsString), (''tags'', TsArray TsString), (''timeout_ms'', TsNumber), (''retries'', TsNumber),
     (''strip_base_path'', TsBool), (''created_at'', TsString), (''updated_at'', TsString)]"

definition UserDTO :: "(string \<times> ts_type) list" where
  "UserDTO = [
     (''id'', TsString), (''email'', TsString), (''name'', TsString), (''role'', TsString),
     (''org_id'', TsNull TsString), (''created_at'', TsString), (''updated_at'', TsString)]"

definition OrgDTO :: "(string \<times> ts_type) list" where
  "OrgDTO = [
     (''id'', TsString), (''name'', TsString), (''slug'', TsString), (''description'', TsNull TsString),
     (''created_at'', TsString), (''updated_at'', TsString)]"

definition PlanDTO :: "(string \<times> ts_type) list" where
  "PlanDTO = [
     (''id'', TsString), (''name'', TsString), (''description'', TsNull TsString), (''rpm_limit'', TsNumber),
     (''rpd_limit'', TsNumber), (''rph_limit'', TsNull TsNumber), (''max_api_keys'', TsNumber),
     (''price_cents'', TsNumber), (''currency'', TsString), (''features'', TsNull TsRecord),
     (''is_public'', TsBool), (''created_at'', TsString)]"

definition SubscriptionDTO :: "(string \<times> ts_type) list" where
  "SubscriptionDTO = [
     (''id'', TsString), (''organization_id'', TsString), (''plan_id'', TsString), (''api_id'', TsString),
     (''status'', TsString), (''end_date'', TsNull TsString), (''created_at'', TsString),
     (''updated_at'', TsString)]"

definition APIKeyDTO :: "(string \<times> ts_type) list" where
  "APIKeyDTO = [
     (''id'', TsString), (''key_prefix'', TsString), (''subscription_id'', TsString), (''name'', TsString),
     (''status'', TsString), (''allowed_ips'', TsArray TsString), (''allowed_origins'', TsArray TsString),
     (''scopes'', TsArray TsString), (''expires_at'', TsNull TsString), (''last_used_at'', TsNull TsString),
     (''created_at'', TsString), (''key'', TsOptional TsString)]"

section \<open>The schema\<close>

datatype gql_type = Named string | NonNull gql_type | ListOf gql_type

definition ENUMS :: "(string \<times> string list) list" where
  "ENUMS = [
     (''UserRole'', [''SUPER_ADMIN'', ''ORG_ADMIN'', ''DEVELOPER'', ''VIEWER'']),
     (''APIStatus'', [''DRAFT'', ''ACTIVE'', ''DEPRECATED'', ''ARCHIVED'']),
     (''SubscriptionStatus'', [''PENDING'', ''ACTIVE'', ''SUSPENDED'', ''EXPIRED'', ''CANCELLED'']),
     (''APIKeyStatus'', [''ACTIVE'', ''REVOKED'', ''EXPIRED'']),
     (''PolicyPhase'', [''PRE_REQUEST'', ''POST_REQUEST'', ''PRE_RESPONSE'', ''POST_RESPONSE''])]"

definition User_fields :: "(string \<times> gql_type) list" where
  "User_fields = [
     (''id'', NonNull (Named ''ID'')), (''email'', NonNull (Named ''String'')),
     (''name'', NonNull (Named ''String'')), (''role'', NonNull (Named ''UserRole'')),
     (''orgId'', Named ''ID''), (''createdAt'', NonNull (Named ''DateTime'')),
     (''updatedAt'', NonNull (Named ''DateTime''))]"

definition Organization_fields :: "(string \<times> gql_type) list" where
  "Organization_fields = [
     (''id'', NonNull (Named ''ID'')), (''name'', NonNull (Named ''String'')),
     (''slug'', NonNull (Named ''String'')), (''description'', Named ''String''),
     (''createdAt'', NonNull (Named ''DateTime'')), (''updatedAt'', NonNull (Named ''DateTime''))]"

definition API_fields :: "(string \<times> gql_type) list" where
  "API_fields = [
     (''id'', NonNull (Named ''ID'')), (''name'', NonNull (Named ''String'')),
     (''version'', NonNull (Named ''String'')), (''basePath'', NonNull (Named ''String'')),
     (''upstreamUrl'', NonNull (Named ''String'')), (''description'', Named ''String''),
     (''status'', NonNull (Named ''APIStatus'')), (''orgId'', NonNull (Named ''ID'')),
     (''tags'', NonNull (ListOf (NonNull (Named ''String'')))), (''timeoutMs'', NonNull (Named ''Int'')),
     (''retries'', NonNull (Named ''Int'')), (''stripBasePath'', NonNull (Named ''Boolean'')),
     (''createdAt'', NonNull (Named ''DateTime'')), (''updatedAt'', NonNull (Named ''DateTime''))]"

definition Plan_fields :: "(string \<times> gql_type) list" where
  "Plan_fields = [
     (''id'', NonNull (Named ''ID'')), (''name'', NonNull (Named ''String'')),
     (''description'', Named ''String''), (''rpmLimit'', NonNull (Named ''Int'')),
     (''rpdLimit'', NonNull (Named ''Int'')), (''rphLimit'', NonNull (Named ''Int'')),
     (''maxKeys'', NonNull (Named ''Int'')), (''price'', NonNull (Named ''Float'')),
     (''currency'', NonNull (Named ''String'')), (''features'', NonNull (ListOf (NonNull (Named ''String'')))),
     (''isPublic'', NonNull (Named ''Boolean'')), (''createdAt'', NonNull (Named ''DateTime''))]"

definition Subscription_fields :: "(string \<times> gql_type) list" where
  "Subscription_fields = [
     (''id'', NonNull (Named ''ID'')), (''orgId'', NonNull (Named ''ID'')),
     (''planId'', NonNull (Named ''ID'')), (''apiId'', NonNull (Named ''ID'')),
     (''status'', NonNull (Named ''SubscriptionStatus'')), (''expiresAt'', Named ''DateTime''),
     (''createdAt'', NonNull (Named ''DateTime'')), (''updatedAt'', NonNull (Named ''DateTime''))]"

definition APIKey_fields :: "(string \<times> gql_type) list" where
  "APIKey_fields = [
     (''id'', NonNull (Named ''ID'')), (''keyId'', NonNull (Named ''String'')),
     (''keyPrefix'', NonNull (Named ''String'')), (''plainKey'', Named ''String''),
     (''subscriptionId'', NonNull (Named ''ID'')), (''name'', NonNull (Named ''String'')),
     (''status'', NonNull (Named ''APIKeyStatus'')),
     (''allowedIps'', NonNull (ListOf (NonNull (Named ''String'')))),
     (''allowedOrigins'', NonNull (ListOf (NonNull (Named ''String'')))),
     (''scopes'', NonNull (ListOf (NonNull (Named ''String'')))), (''expiresAt'', Named ''DateTime''),
     (''lastUsedAt'', Named ''DateTime''), (''createdAt'', NonNull (Named ''DateTime''))]"

definition PageInfo_fields :: "(string \<times> gql_type) list" where
  "PageInfo_fields = [
     (''page'', NonNull (Named ''Int'')), (''limit'', NonNull (Named ''Int'')),
     (''total'', NonNull (Named ''Int'')), (''totalPages'', NonNull (Named ''Int'')),
     (''hasNext'', NonNull (Named ''Boolean'')), (''hasPrev'', NonNull (Named ''Boolean''))]"

text \<open>
  The result coercion of GraphQL, without the conversions between scalars that it would also
  make: an \<open>Int\<close> has 32 bits, an \<open>ID\<close> is a string or an integer, \<open>null\<close> and an undefined
  value stand for each other, and a value of an enum is one of its names.
\<close>

definition is_int32 :: "rat \<Rightarrow> bool" where
  "is_int32 r = (of_int \<lfloor>r\<rfloor> = r \<and> - (2 ^ 31) \<le> \<lfloor>r\<rfloor> \<and> \<lfloor>r\<rfloor> < 2 ^ 31)"

definition scalar_ok :: "string \<Rightarrow> json \<Rightarrow> bool" where
  "scalar_ok ty v =
     (if ty = ''Int'' then (case v of JNum r \<Rightarrow> is_int32 r | _ \<Rightarrow> False)
      else if ty = ''Float'' then (case v of JNum r \<Rightarrow> True | _ \<Rightarrow> False)
      else if ty = ''Boolean'' then (case v of JBool b \<Rightarrow> True | _ \<Rightarrow> False)
      else if ty = ''ID'' then (case v of JStr s \<Rightarrow> True | JNum r \<Rightarrow> of_int \<lfloor>r\<rfloor> = r | _ \<Rightarrow> False)
      else if ty = ''String'' \<or> ty = ''DateTime'' then (case v of JStr s \<Rightarrow> True | _ \<Rightarrow> False)
      else if ty = ''JSON'' then True
      else (case v of JStr s \<Rightarrow> s \<in> set (orelse (rget ENUMS ty) []) | _ \<Rightarrow> False))"

fun gql_ok :: "gql_type \<Rightarrow> json option \<Rightarrow> bool" where
  "gql_ok (NonNull t) v = (v \<noteq> None \<and> v \<noteq> Some JNull \<and> gql_ok t v)"
| "gql_ok (ListOf t) v =
     (case v of None \<Rightarrow> True | Some JNull \<Rightarrow> True
      | Some (JArr vs) \<Rightarrow> list_all (\<lambda>x. gql_ok t (Some x)) vs | _ \<Rightarrow> False)"
| "gql_ok (Named ty) v = (case v of None \<Rightarrow> True | Some JNull \<Rightarrow> True | Some x \<Rightarrow> scalar_ok ty x)"

definition object_ok :: "(string \<times> gql_type) list \<Rightarrow> jobj \<Rightarrow> bool" where
  "object_ok ty obj = list_all (\<lambda>(f, t). gql_ok t (rget obj f)) ty"

section \<open>The maps preserve typing\<close>

datatype entity = AnAPI | AUser | AnOrg | APlan | ASubscription | AKey

fun interface_of :: "entity \<Rightarrow> (string \<times> ts_type) list" where
  "interface_of AnAPI = APIDTO"
| "interface_of AUser = UserDTO"
| "interface_of AnOrg = OrgDTO"
| "interface_of APlan = PlanDTO"
| "interface_of ASubscription = SubscriptionDTO"
| "interface_of AKey = APIKeyDTO"

fun object_type :: "entity \<Rightarrow> (string \<times> gql_type) list" where
  "object_type AnAPI = API_fields"
| "object_type AUser = User_fields"
| "object_type AnOrg = Organization_fields"
| "object_type APlan = Plan_fields"
| "object_type ASubscription = Subscription_fields"
| "object_type AKey = APIKey_fields"

fun map_entity :: "ext \<Rightarrow> entity \<Rightarrow> jobj \<Rightarrow> exn + jobj" where
  "map_entity X AnAPI obj = mapAPI (JObj obj)"
| "map_entity X AUser obj = mapUser obj"
| "map_entity X AnOrg obj = Inr (mapOrg obj)"
| "map_entity X APlan obj = mapPlan X (JObj obj)"
| "map_entity X ASubscription obj = mapSub (JObj obj)"
| "map_entity X AKey obj = mapKey (JObj obj)"

text \<open>The members that become integers, and the enum that a status has to belong to.\<close>

fun int_members :: "entity \<Rightarrow> string list" where
  "int_members AnAPI = [''timeout_ms'', ''retries'']"
| "int_members APlan = [''rpm_limit'', ''rpd_limit'', ''rph_limit'', ''max_api_keys'']"
| "int_members _ = []"

fun status_enum :: "entity \<Rightarrow> string option" where
  "status_enum AnAPI = Some ''APIStatus''"
| "status_enum ASubscription = Some ''SubscriptionStatus''"
| "status_enum AKey = Some ''APIKeyStatus''"
| "status_enum _ = None"

definition whole_number :: "json option \<Rightarrow> bool" where
  "whole_number v = (case v of Some (JNum r) \<Rightarrow> is_int32 r | _ \<Rightarrow> True)"

definition status_known :: "entity \<Rightarrow> jobj \<Rightarrow> bool" where
  "status_known en obj =
     (case status_enum en of None \<Rightarrow> True
      | Some enum \<Rightarrow> js_upper (orelse (sfield obj ''status'') []) \<in> set (orelse (rget ENUMS enum) []))"

definition well_typed :: "entity \<Rightarrow> jobj \<Rightarrow> bool" where
  "well_typed en obj =
     (list_all (\<lambda>(k, t). ts_ok t (rget obj k)) (interface_of en) \<and>
      list_all (\<lambda>k. whole_number (rget obj k)) (int_members en) \<and> status_known en obj)"

lemma ts_ok_cases [simp]:
  "ts_ok TsString v \<longleftrightarrow> (\<exists>s. v = Some (JStr s))"
  "ts_ok TsNumber v \<longleftrightarrow> (\<exists>r. v = Some (JNum r))"
  "ts_ok TsBool v \<longleftrightarrow> (\<exists>b. v = Some (JBool b))"
  "ts_ok TsRecord v \<longleftrightarrow> (\<exists>obj. v = Some (JObj obj))"
  "ts_ok (TsArray t) v \<longleftrightarrow> (\<exists>vs. v = Some (JArr vs) \<and> list_all (\<lambda>x. ts_ok t (Some x)) vs)"
  by (auto split: option.split json.split)

lemma gql_ok_scalar [simp]: "gql_ok (Named ''String'') (Some (JStr s))" "gql_ok (Named ''ID'') (Some (JStr s))"
  "gql_ok (Named ''DateTime'') (Some (JStr s))" "gql_ok (Named ''Float'') (Some (JNum r))"
  "gql_ok (Named ''Boolean'') (Some (JBool b))" "gql_ok (Named ''Int'') (Some (JNum r)) \<longleftrightarrow> is_int32 r"
  "gql_ok (Named ty) None" "gql_ok (Named ty) (Some JNull)"
  by (simp_all add: scalar_ok_def)

lemma gql_ok_enum [simp]:
  "gql_ok (Named ''APIStatus'') (Some (JStr s)) \<longleftrightarrow> s \<in> set (orelse (rget ENUMS ''APIStatus'') [])"
  "gql_ok (Named ''SubscriptionStatus'') (Some (JStr s)) \<longleftrightarrow> s \<in> set (orelse (rget ENUMS ''SubscriptionStatus'') [])"
  "gql_ok (Named ''APIKeyStatus'') (Some (JStr s)) \<longleftrightarrow> s \<in> set (orelse (rget ENUMS ''APIKeyStatus'') [])"
  "gql_ok (Named ''UserRole'') (Some (JStr s)) \<longleftrightarrow> s \<in> set (orelse (rget ENUMS ''UserRole'') [])"
  by (simp_all add: scalar_ok_def)

lemma strings_ok [simp]:
  "list_all (\<lambda>x. \<exists>s. x = JStr s) vs \<Longrightarrow> gql_ok (ListOf (NonNull (Named ''String''))) (Some (JArr vs))"
  by (induction vs) (auto simp: scalar_ok_def)

lemma nullable_ok: "v = Some JNull \<or> (\<exists>s. v = Some (JStr s)) \<Longrightarrow> gql_ok (Named ''String'') v \<and> gql_ok (Named ''DateTime'') v \<and> gql_ok (Named ''ID'') v"
  by (auto simp: scalar_ok_def)

declare ts_ok.simps(1-4,6) [simp del] gql_ok.simps(2,3) [simp del]

lemmas map_simps = sum_bind_def upper_field_def json_obj_def jget_def obj_of_def object_ok_def rget_append rget_pick
  well_typed_def whole_number_def status_known_def sfield_def json_string_def

lemma org_well_typed: "well_typed AnOrg obj \<Longrightarrow> object_ok Organization_fields (mapOrg obj)"
  by (auto simp: OrgDTO_def mapOrg_def Organization_fields_def map_simps)

lemma normalizeRole_known: "normalizeRole r \<in> set (orelse (rget ENUMS ''UserRole'') [])"
  by (simp add: normalizeRole_def ENUMS_def Let_def)

lemma user_well_typed: "well_typed AUser obj \<Longrightarrow> \<exists>u. mapUser obj = Inr u \<and> object_ok User_fields u"
  using normalizeRole_known by (auto simp: UserDTO_def mapUser_def User_fields_def map_simps)

lemma api_well_typed: "well_typed AnAPI obj \<Longrightarrow> \<exists>a. mapAPI (JObj obj) = Inr a \<and> object_ok API_fields a"
  by (auto simp: APIDTO_def mapAPI_def API_fields_def map_simps)

lemma sub_well_typed: "well_typed ASubscription obj \<Longrightarrow> \<exists>a. mapSub (JObj obj) = Inr a \<and> object_ok Subscription_fields a"
  by (auto simp: SubscriptionDTO_def mapSub_def Subscription_fields_def map_simps)

lemma key_well_typed: "well_typed AKey obj \<Longrightarrow> \<exists>a. mapKey (JObj obj) = Inr a \<and> object_ok APIKey_fields a"
  by (auto simp: APIKeyDTO_def mapKey_def APIKey_fields_def map_simps)

lemma features_ok: "ts_ok (TsNull TsRecord) v \<Longrightarrow>
    \<exists>vs. mapFeatures X v = JArr vs \<and> list_all (\<lambda>x. \<exists>s. x = JStr s) vs"
  by (auto simp: mapFeatures_def feature_text_def list_all_iff split: prod.splits)

lemma plan_well_typed:
  assumes "well_typed APlan obj"
  shows "\<exists>p. mapPlan X (JObj obj) = Inr p \<and> object_ok Plan_fields p"
proof -
  from assms obtain i n rpm rpd keys cents cur pub ct where v:
    "rget obj ''id'' = Some (JStr i)" "rget obj ''name'' = Some (JStr n)" "rget obj ''rpm_limit'' = Some (JNum rpm)"
    "rget obj ''rpd_limit'' = Some (JNum rpd)" "rget obj ''max_api_keys'' = Some (JNum keys)"
    "rget obj ''price_cents'' = Some (JNum cents)" "rget obj ''currency'' = Some (JStr cur)"
    "rget obj ''is_public'' = Some (JBool pub)" "rget obj ''created_at'' = Some (JStr ct)"
    and ints: "is_int32 rpm" "is_int32 rpd" "is_int32 keys"
    and d: "rget obj ''description'' = Some JNull \<or> (\<exists>s. rget obj ''description'' = Some (JStr s))"
    and rph: "rget obj ''rph_limit'' = Some JNull \<or> (\<exists>r. rget obj ''rph_limit'' = Some (JNum r) \<and> is_int32 r)"
    and feat: "ts_ok (TsNull TsRecord) (rget obj ''features'')"
    by (auto simp: PlanDTO_def well_typed_def whole_number_def)
  obtain vs where f: "mapFeatures X (rget obj ''features'') = JArr vs" "list_all (\<lambda>x. \<exists>s. x = JStr s) vs"
    using features_ok [OF feat] by blast
  obtain r where r: "orelse (jget obj ''rph_limit'') (JNum 0) = JNum r" "is_int32 r"
    using rph by (auto simp: jget_def is_int32_def)
  show ?thesis
    using v f r ints nullable_ok [OF d]
    by (simp add: mapPlan_def Plan_fields_def sum_bind_def obj_of_def json_obj_def object_ok_def rget_append rget_pick)
qed

text \<open>
  C26. The resolvers are well-typed: an object of a service that has the shape its interface
  declares, with whole numbers of 32 bits where the schema wants integers and a status that the
  enum knows, is mapped without an exception to an object that GraphQL can complete for its
  type: every field that may not be null is there, of the right kind, and enums are in capitals.
  For a user the role needs no condition, because every role maps to one of the enum.
\<close>

theorem maps_well_typed:
  assumes "well_typed en obj"
  shows "\<exists>result. map_entity X en obj = Inr result \<and> object_ok (object_type en) result"
  using assms
  by (cases en) (simp_all add: api_well_typed user_well_typed org_well_typed plan_well_typed sub_well_typed key_well_typed)

definition gold_plan :: jobj where
  "gold_plan = [(''id'', JStr ''p1''), (''name'', JStr ''gold''), (''description'', JNull), (''rpm_limit'', JNum 100),
     (''rpd_limit'', JNum 5000), (''rph_limit'', JNull), (''max_api_keys'', JNum 3), (''price_cents'', JNum 1999),
     (''currency'', JStr ''USD''), (''features'', JObj [(''sla'', JBool True), (''seats'', JNum 5)]),
     (''is_public'', JBool True), (''created_at'', JStr ''2026-01-01'')]"

lemma maps_well_typed_witness:
  "\<exists>plan. mapPlan sample_ext (JObj gold_plan) = Inr plan \<and> object_ok Plan_fields plan \<and>
    rget plan ''features'' = Some (JArr [JStr ''sla'', JStr ''seats: 5''])"
proof -
  have t: "well_typed APlan gold_plan" by code_simp
  have f: "map_sum id (\<lambda>plan. rget plan ''features'') (mapPlan sample_ext (JObj gold_plan))
      = Inr (Some (JArr [JStr ''sla'', JStr ''seats: 5'']))" by code_simp
  from maps_well_typed [OF t, of sample_ext] f show ?thesis by auto
qed

text \<open>The status that the registry gives a published API is not one of the enum.\<close>

lemma published_api_untyped:
  assumes "rget obj ''status'' = Some (JStr ''published'')"
  shows "\<exists>a. mapAPI (JObj obj) = Inr a \<and> \<not> object_ok API_fields a"
proof -
  have "js_upper ''published'' = ''PUBLISHED''" by code_simp
  then show ?thesis
    using assms by (simp add: mapAPI_def map_simps) (simp add: API_fields_def ENUMS_def object_ok_def rget_append rget_pick)
qed

text \<open>What the auth service says of the caller becomes a well-typed user.\<close>

definition AuthMeResponse :: "(string \<times> ts_type) list" where
  "AuthMeResponse = [(''id'', TsString), (''email'', TsString), (''display_name'', TsString), (''org_id'', TsString),
     (''org_name'', TsString), (''role'', TsString)]"

lemma me_well_typed:
  assumes "list_all (\<lambda>(k, t). ts_ok t (rget me k)) AuthMeResponse"
  shows "\<exists>u. fst (mapMeToUser E (JObj me) w) = Inr u \<and> well_typed AUser u"
  using assms
  by (auto simp: AuthMeResponse_def mapMeToUser_def nowIso_def date_now_def Let_def sum_bind_def obj_of_def json_obj_def
      well_typed_def UserDTO_def rget_append rget_pick truthy_field_def member_def status_known_def
      split: if_splits)

end
