(* ===== verification/Portal.thy ===== *)
theory Portal
  imports BffData
begin

text \<open>
  The session of the developer portal: \<open>portal/src/lib/auth.ts\<close>, \<open>middleware.ts\<close>, the routes
  under \<open>app/api\<close>, \<open>app/graphql/route.ts\<close>, the two forms of \<open>components/auth\<close> and the guard of
  \<open>app/dashboard/layout.tsx\<close>. Signing belongs to the library jose (\<open>pe_sign\<close>), and so does
  verifying, which asks the world as everywhere (\<open>jwt_verify\<close>). The texts shown to the user are
  not ASCII; they are named here and a parameter as strings.
\<close>

datatype portal_text = Fill_fields | Login_failed | Network_error | Short_password | Register_failed
  | Enter_name | Enter_email | Different_passwords

record portal_env =
  pe_SESSION_SECRET :: "string option"
  pe_SESSION_COOKIE_SECURE :: "string option"
  pe_AUTH_SERVICE_URL :: "string option"
  pe_REGISTRY_SERVICE_URL :: "string option"
  pe_BFF_URL :: "string option"
  pe_sign :: "string \<Rightarrow> jobj \<Rightarrow> string"
  pe_host :: "string \<Rightarrow> string"
  pe_text :: "portal_text \<Rightarrow> string"

definition portal_AUTH_URL :: "portal_env \<Rightarrow> string" where
  "portal_AUTH_URL P = orelse (pe_AUTH_SERVICE_URL P) ''http://localhost:8081''"

definition portal_REGISTRY_URL :: "portal_env \<Rightarrow> string" where
  "portal_REGISTRY_URL P = orelse (pe_REGISTRY_SERVICE_URL P) ''http://localhost:8082''"

definition portal_BFF_URL :: "portal_env \<Rightarrow> string" where
  "portal_BFF_URL P = orelse (pe_BFF_URL P) ''http://localhost:4000/graphql''"

section \<open>The session and its cookie\<close>

definition COOKIE_NAME :: string where
  "COOKIE_NAME = ''apim_session''"

definition COOKIE_MAX_S :: int where
  "COOKIE_MAX_S = 60 * 60 * 24 * 7"

definition getSecret :: "portal_env \<Rightarrow> exn + string" where
  "getSecret P =
     (case pe_SESSION_SECRET P of
        None \<Rightarrow> Inl (JsError ''Error'' ''SESSION_SECRET must be at least 32 characters'')
      | Some secret \<Rightarrow>
          if length secret < 32 then Inl (JsError ''Error'' ''SESSION_SECRET must be at least 32 characters'')
          else Inr secret)"

text \<open>The claims are those of the user, the time of issue and the expiry, in seconds.\<close>

definition session_claims :: "jobj \<Rightarrow> int \<Rightarrow> int \<Rightarrow> jobj" where
  "session_claims user t1 t2 =
     rset ''exp'' (JNum (of_int (t2 div 1000 + 604800))) (rset ''iat'' (JNum (of_int (t1 div 1000))) user)"

definition createSession :: "portal_env \<Rightarrow> jobj \<Rightarrow> 'd io \<Rightarrow> (exn + string) \<times> 'd io" where
  "createSession P user w =
     (let (t1, w1) = date_now w; (t2, w2) = date_now w1
      in case getSecret P of
           Inl e \<Rightarrow> (Inl e, w2)
         | Inr secret \<Rightarrow> (Inr (pe_sign P secret (session_claims user t1 t2)), w2))"

definition session_call :: "string \<Rightarrow> string \<Rightarrow> jwt_call" where
  "session_call secret token =
     \<lparr> jc_token = token, jc_secret = Some secret, jc_jwks_url = None, jc_algorithm = [],
       jc_issuer = None, jc_audience = None \<rparr>"

definition getSession :: "portal_env \<Rightarrow> dict \<Rightarrow> 'd io \<Rightarrow> jobj option \<times> 'd io" where
  "getSession P jar w =
     (case rget jar COOKIE_NAME of
        None \<Rightarrow> (None, w)
      | Some token \<Rightarrow>
          if token = [] then (None, w)
          else (case getSecret P of
             Inl e \<Rightarrow> (None, w)
           | Inr secret \<Rightarrow>
               (case jwt_verify (session_call secret token) w of
                  (Inl e, w1) \<Rightarrow> (None, w1) | (Inr payload, w1) \<Rightarrow> (Some payload, w1))))"

record session_cookie =
  sk_value :: string
  sk_httpOnly :: bool
  sk_secure :: bool
  sk_sameSite :: string
  sk_maxAge :: int
  sk_path :: string

datatype cookie_change = CookieSet session_cookie | CookieDeleted

definition setSessionCookie :: "portal_env \<Rightarrow> string \<Rightarrow> cookie_change" where
  "setSessionCookie P jwt = CookieSet
     \<lparr> sk_value = jwt, sk_httpOnly = True, sk_secure = (pe_SESSION_COOKIE_SECURE P = Some ''true''),
       sk_sameSite = ''lax'', sk_maxAge = COOKIE_MAX_S, sk_path = ''/'' \<rparr>"

definition clearSessionCookie :: cookie_change where
  "clearSessionCookie = CookieDeleted"

section \<open>The middleware and the guard of the dashboard\<close>

datatype edge_answer = RedirectTo string dict | NextPage

definition authenticated :: "portal_env \<Rightarrow> dict \<Rightarrow> 'd io \<Rightarrow> bool \<times> 'd io" where
  "authenticated P jar w =
     (case rget jar COOKIE_NAME of
        None \<Rightarrow> (False, w)
      | Some token \<Rightarrow>
          if token = [] then (False, w)
          else (case jwt_verify (session_call (orelse (pe_SESSION_SECRET P) []) token) w of
             (Inl e, w1) \<Rightarrow> (False, w1) | (Inr payload, w1) \<Rightarrow> (True, w1)))"

definition middleware :: "portal_env \<Rightarrow> string \<Rightarrow> dict \<Rightarrow> 'd io \<Rightarrow> edge_answer \<times> 'd io" where
  "middleware P pathname jar w =
     (let isProtected = list_ex (starts_with pathname) [''/dashboard''];
          isAuthPath = list_ex (starts_with pathname) [''/auth/login'', ''/auth/register''];
          (isAuthenticated, w1) = authenticated P jar w
      in (if isProtected \<and> \<not> isAuthenticated then RedirectTo ''/auth/login'' [(''next'', pathname)]
          else if isAuthPath \<and> isAuthenticated then RedirectTo ''/dashboard'' [] else NextPage, w1))"

text \<open>The matcher: \<open>/dashboard/:path*\<close> and \<open>/auth/:path*\<close>.\<close>

definition matcher :: "string \<Rightarrow> bool" where
  "matcher pathname = list_ex (\<lambda>p. pathname = p \<or> starts_with pathname (p @ ''/'')) [''/dashboard'', ''/auth'']"

definition edge :: "portal_env \<Rightarrow> string \<Rightarrow> dict \<Rightarrow> 'd io \<Rightarrow> edge_answer \<times> 'd io" where
  "edge P pathname jar w = (if matcher pathname then middleware P pathname jar w else (NextPage, w))"

definition DashboardLayout :: "portal_env \<Rightarrow> dict \<Rightarrow> 'd io \<Rightarrow> (edge_answer + jobj) \<times> 'd io" where
  "DashboardLayout P jar w =
     (case getSession P jar w of
        (None, w1) \<Rightarrow> (Inl (RedirectTo ''/auth/login'' [(''next'', ''/dashboard'')]), w1)
      | (Some session, w1) \<Rightarrow> (Inr session, w1))"

section \<open>Signing in, registering, signing out\<close>

record portal_reply =
  pr_status :: int
  pr_body :: "json option"
  pr_headers :: dict
  pr_cookie :: "cookie_change option"

text \<open>
  \<open>NextResponse.json(body, { status })\<close>: a status outside of 200 to 599 throws, and so does one
  that forbids a body.
\<close>

definition json_reply :: "json \<Rightarrow> int \<Rightarrow> exn + portal_reply" where
  "json_reply body status =
     (if status < 200 \<or> 599 < status then Inl (JsError ''RangeError'' [])
      else if status \<in> {204, 205, 304} then Inl TypeError
      else Inr \<lparr> pr_status = status, pr_body = Some body, pr_headers = [], pr_cookie = None \<rparr>)"

definition message_reply :: "json \<Rightarrow> int \<Rightarrow> portal_reply" where
  "message_reply msg status =
     \<lparr> pr_status = status, pr_body = Some (JObj [(''message'', msg)]), pr_headers = [], pr_cookie = None \<rparr>"

definition ok_reply :: "cookie_change \<Rightarrow> portal_reply" where
  "ok_reply c = \<lparr> pr_status = 200, pr_body = Some (JObj [(''ok'', JBool True)]), pr_headers = [], pr_cookie = Some c \<rparr>"

definition truthy_member :: "jobj \<Rightarrow> string \<Rightarrow> bool" where
  "truthy_member obj k = (case rget obj k of None \<Rightarrow> False | Some v \<Rightarrow> js_truthy v)"

text \<open>The user of the session: \<open>display_name || email\<close>, \<open>org_id ?? ''\<close>, undefined members left out.\<close>

definition session_user :: "jobj \<Rightarrow> json \<Rightarrow> jobj" where
  "session_user u token =
     pick u [(''sub'', ''id''), (''email'', ''email''),
       (''name'', if truthy_member u ''display_name'' then ''display_name'' else ''email'')] @
     [(''orgId'', orelse (jget u ''org_id'') (JStr []))] @ pick u [(''role'', ''role'')] @ [(''token'', token)]"

definition thrown_reply :: "string \<Rightarrow> int \<Rightarrow> exn \<Rightarrow> portal_reply" where
  "thrown_reply failed status e =
     message_reply (JStr (case e of JsError _ msg \<Rightarrow> msg | NonError \<Rightarrow> failed)) status"

text \<open>The \<open>try\<close> block that both routes share, before its \<open>catch\<close>.\<close>

definition sign_in :: "ext \<Rightarrow> portal_env \<Rightarrow> string \<Rightarrow> jobj \<Rightarrow> string \<Rightarrow> int \<Rightarrow> 'd io \<Rightarrow> (exn + portal_reply) \<times> 'd io" where
  "sign_in X P path body failed status w =
     (let q = \<lparr> rq_url = portal_AUTH_URL P @ path, rq_method = ''POST'',
                rq_headers = [(''content-type'', ''application/json'')], rq_body = Some (x_json_str X (JObj body)) \<rparr>
      in awaiting (http_fetch q w) (\<lambda>res w1.
           let data = orelse (x_json_parse X (rs_body res)) (JObj []); d = json_obj data
           in if data = JNull then (Inl TypeError, w1)
              else if \<not> resp_ok res \<or> \<not> truthy_member d ''session_token'' \<or> \<not> truthy_member d ''user''
              then (json_reply (JObj [(''message'', orelse (orelse_opt (jget d ''message'') (jget d ''error'')) (JStr failed))])
                      (if rs_status res = 0 then status else rs_status res), w1)
              else returning (createSession P (session_user (json_obj (orelse (rget d ''user'') JNull))
                      (orelse (rget d ''session_token'') JNull)) w1)
                     (\<lambda>jwt. Inr (ok_reply (setSessionCookie P jwt)))))"

definition caught :: "string \<Rightarrow> int \<Rightarrow> (exn + portal_reply) \<times> 's \<Rightarrow> (exn + portal_reply) \<times> 's" where
  "caught failed status r = (case r of (Inl e, w) \<Rightarrow> (Inr (thrown_reply failed status e), w) | (Inr a, w) \<Rightarrow> (Inr a, w))"

text \<open>\<open>await req.json().catch(() => ({}))\<close>; taking members of \<open>null\<close> throws.\<close>

definition body_of :: "ext \<Rightarrow> string \<Rightarrow> exn + jobj" where
  "body_of X raw = obj_of (orelse (x_json_parse X raw) (JObj []))"

definition login_POST :: "ext \<Rightarrow> portal_env \<Rightarrow> string \<Rightarrow> 'd io \<Rightarrow> (exn + portal_reply) \<times> 'd io" where
  "login_POST X P raw w =
     (case body_of X raw of
        Inl e \<Rightarrow> (Inl e, w)
      | Inr body \<Rightarrow>
          if \<not> truthy_member body ''email'' \<or> \<not> truthy_member body ''password''
          then (Inr (message_reply (JStr (pe_text P Fill_fields)) 400), w)
          else caught (pe_text P Login_failed) 401
            (sign_in X P ''/auth/login'' (pick body [(''email'', ''email''), (''password'', ''password'')])
               (pe_text P Login_failed) 401 w))"

text \<open>\<open>password.length < 8\<close> for any value; what has no length is not shorter.\<close>

definition json_number :: "ext \<Rightarrow> json \<Rightarrow> jsnum" where
  "json_number X v = (case v of JNull \<Rightarrow> Fin 0 | JBool b \<Rightarrow> Fin (if b then 1 else 0) | JNum r \<Rightarrow> Fin r
     | _ \<Rightarrow> js_Number (js_String X v))"

definition shorter_than :: "ext \<Rightarrow> json \<Rightarrow> nat \<Rightarrow> bool" where
  "shorter_than X v n =
     (case v of
        JStr s \<Rightarrow> length s < n
      | JArr vs \<Rightarrow> length vs < n
      | JObj obj \<Rightarrow> (case rget obj ''length'' of
            None \<Rightarrow> False
          | Some l \<Rightarrow> (case json_number X l of NaN \<Rightarrow> False | Inf neg \<Rightarrow> neg | Fin r \<Rightarrow> r < of_nat n))
      | _ \<Rightarrow> False)"

definition register_POST :: "ext \<Rightarrow> portal_env \<Rightarrow> string \<Rightarrow> 'd io \<Rightarrow> (exn + portal_reply) \<times> 'd io" where
  "register_POST X P raw w =
     (case body_of X raw of
        Inl e \<Rightarrow> (Inl e, w)
      | Inr body \<Rightarrow>
          if \<not> truthy_member body ''name'' \<or> \<not> truthy_member body ''email'' \<or> \<not> truthy_member body ''password''
          then (Inr (message_reply (JStr (pe_text P Fill_fields)) 400), w)
          else if shorter_than X (orelse (rget body ''password'') JNull) 8
          then (Inr (message_reply (JStr (pe_text P Short_password)) 400), w)
          else caught (pe_text P Register_failed) 422
            (sign_in X P ''/auth/register'' (pick body [(''name'', ''name''), (''email'', ''email''),
                 (''password'', ''password''), (''orgName'', ''orgName'')])
               (pe_text P Register_failed) 422 w))"

definition logout_POST :: portal_reply where
  "logout_POST = ok_reply clearSessionCookie"

section \<open>The way to the BFF and to the specifications\<close>

record browser_request =
  br_method :: string
  br_headers :: dict
  br_cookies :: dict
  br_text :: string

definition getBearerToken :: "portal_env \<Rightarrow> dict \<Rightarrow> 'd io \<Rightarrow> string option \<times> 'd io" where
  "getBearerToken P jar w =
     (case rget jar COOKIE_NAME of
        None \<Rightarrow> (None, w)
      | Some session \<Rightarrow>
          if session = [] then (None, w)
          else (case getSecret P of
             Inl e \<Rightarrow> (None, w)
           | Inr secret \<Rightarrow>
               (case jwt_verify (session_call secret session) w of
                  (Inl e, w1) \<Rightarrow> (None, w1) | (Inr payload, w1) \<Rightarrow> (sfield payload ''token'', w1))))"

text \<open>The answer of the BFF is handed on as it is; a rejected call is an exception of the route.\<close>

definition proxyGraphQL :: "portal_env \<Rightarrow> browser_request \<Rightarrow> 'd io \<Rightarrow> (exn + http_resp) \<times> 'd io" where
  "proxyGraphQL P req w =
     (let headers = rset ''host'' (pe_host P (portal_BFF_URL P)) (br_headers req);
          (headers1, w1) =
            (if rget headers ''authorization'' = None
             then (case getBearerToken P (br_cookies req) w of
                     (token, w') \<Rightarrow>
                       (if truthy token then rset ''authorization'' (''Bearer '' @ str_of token) headers else headers, w'))
             else (headers, w))
      in http_fetch \<lparr> rq_url = portal_BFF_URL P, rq_method = br_method req, rq_headers = headers1,
           rq_body = (if br_method req = ''GET'' then None else Some (br_text req)) \<rparr> w1)"

definition empty_reply :: "int \<Rightarrow> portal_reply" where
  "empty_reply status = \<lparr> pr_status = status, pr_body = None, pr_headers = [], pr_cookie = None \<rparr>"

text \<open>\<open>spec.servers\<close> is missing or empty; then it becomes the base path of the gateway.\<close>

definition no_servers :: "jobj \<Rightarrow> bool" where
  "no_servers spec =
     (case rget spec ''servers'' of
        None \<Rightarrow> True
      | Some v \<Rightarrow> \<not> js_truthy v \<or> v = JArr [] \<or> rget (json_obj v) ''length'' = Some (JNum 0))"

definition with_servers :: "json \<Rightarrow> exn + json" where
  "with_servers spec =
     (case spec of
        JObj obj \<Rightarrow>
          Inr (if no_servers obj
               then JObj (rset ''servers'' (JArr [JObj [(''url'', orelse (jget (json_obj (orelse (rget obj ''info'') JNull)) ''x-base-path'') (JStr ''/'')),
                      (''description'', JStr ''API Gateway'')]]) obj)
               else spec)
      | JArr vs \<Rightarrow> Inr spec
      | _ \<Rightarrow> Inl TypeError)"

definition spec_GET :: "ext \<Rightarrow> portal_env \<Rightarrow> string \<Rightarrow> 'd io \<Rightarrow> portal_reply \<times> 'd io" where
  "spec_GET X P apiId w =
     (case http_fetch (get_request (portal_REGISTRY_URL P @ ''/apis/'' @ apiId @ ''/spec'') [(''accept'', ''application/json'')]) w of
        (Inl e, w1) \<Rightarrow> (empty_reply 502, w1)
      | (Inr res, w1) \<Rightarrow>
          if \<not> resp_ok res
          then (empty_reply (if rs_status res < 200 \<or> 599 < rs_status res then 502 else rs_status res), w1)
          else (case sum_bind (resp_json X res) with_servers of
             Inl e \<Rightarrow> (empty_reply 502, w1)
           | Inr spec \<Rightarrow>
               (\<lparr> pr_status = 200, pr_body = Some spec,
                  pr_headers = [(''cache-control'', ''public, s-maxage=30, stale-while-revalidate=60''),
                    (''access-control-allow-origin'', ''*''), (''access-control-allow-methods'', ''GET'')],
                  pr_cookie = None \<rparr>, w1)))"

definition spec_HEAD :: "ext \<Rightarrow> portal_env \<Rightarrow> string \<Rightarrow> 'd io \<Rightarrow> portal_reply \<times> 'd io" where
  "spec_HEAD X P apiId w = (case spec_GET X P apiId w of (res, w1) \<Rightarrow> (res\<lparr>pr_body := None, pr_cookie := None\<rparr>, w1))"

section \<open>The forms\<close>

datatype form_outcome = Form_error json | Field_errors "(string \<times> portal_text) list" | Navigate string

definition post_json :: "ext \<Rightarrow> string \<Rightarrow> jobj \<Rightarrow> http_req" where
  "post_json X path body =
     \<lparr> rq_url = path, rq_method = ''POST'', rq_headers = [(''content-type'', ''application/json'')],
       rq_body = Some (x_json_str X (JObj body)) \<rparr>"

text \<open>What both forms do with the answer of their route.\<close>

definition form_answer :: "ext \<Rightarrow> portal_env \<Rightarrow> portal_text \<Rightarrow> string \<Rightarrow> exn + http_resp \<Rightarrow> form_outcome" where
  "form_answer X P failed target r =
     (case sum_bind r (\<lambda>res. sum_bind (resp_json X res) (\<lambda>j.
         if resp_ok res then Inr (Navigate target)
         else sum_bind (obj_of j) (\<lambda>obj. Inr (Form_error (orelse (jget obj ''message'') (JStr (pe_text P failed))))))) of
        Inl e \<Rightarrow> Form_error (JStr (pe_text P Network_error)) | Inr out \<Rightarrow> out)"

definition LoginForm_submit :: "ext \<Rightarrow> portal_env \<Rightarrow> string option \<Rightarrow> string \<Rightarrow> string \<Rightarrow> 'd io \<Rightarrow> form_outcome \<times> 'd io" where
  "LoginForm_submit X P next_param email password w =
     (if email = [] \<or> password = [] then (Form_error (JStr (pe_text P Fill_fields)), w)
      else (case http_fetch (post_json X ''/api/auth/login'' [(''email'', JStr email), (''password'', JStr password)]) w of
         (r, w1) \<Rightarrow> (form_answer X P Login_failed (orelse next_param ''/dashboard'') r, w1)))"

record register_form =
  rf_name :: string
  rf_email :: string
  rf_password :: string
  rf_confirm :: string
  rf_orgName :: string

definition register_errors :: "register_form \<Rightarrow> (string \<times> portal_text) list" where
  "register_errors form =
     (if js_trim (rf_name form) = [] then [(''name'', Enter_name)] else []) @
     (if js_trim (rf_email form) = [] then [(''email'', Enter_email)] else []) @
     (if length (rf_password form) < 8 then [(''password'', Short_password)] else []) @
     (if rf_password form \<noteq> rf_confirm form then [(''confirm'', Different_passwords)] else [])"

definition RegisterForm_submit :: "ext \<Rightarrow> portal_env \<Rightarrow> register_form \<Rightarrow> 'd io \<Rightarrow> form_outcome \<times> 'd io" where
  "RegisterForm_submit X P form w =
     (if register_errors form \<noteq> [] then (Field_errors (register_errors form), w)
      else (case http_fetch (post_json X ''/api/auth/register''
             ([(''name'', JStr (js_trim (rf_name form))), (''email'', JStr (js_trim (rf_email form))),
               (''password'', JStr (rf_password form))] @
              (if js_trim (rf_orgName form) = [] then [] else [(''orgName'', JStr (js_trim (rf_orgName form)))]))) w of
         (r, w1) \<Rightarrow> (form_answer X P Register_failed ''/dashboard'' r, w1)))"

end
