(* ===== verification/Schema.thy ===== *)
theory Schema
  imports BffTypes DepthLimit
begin

text \<open>
  The object types of \<open>manager/bff/src/schema/typeDefs.ts\<close> with all their fields, the arguments of
  the root fields and the input types, and the documents that the portal and the editor send:
  when such a document is valid, and what an answer to it looks like.
\<close>

section \<open>Object types\<close>

definition APIConnection_fields :: "(string \<times> gql_type) list" where
  "APIConnection_fields = [
     (''nodes'', NonNull (ListOf (NonNull (Named ''API'')))), (''pageInfo'', NonNull (Named ''PageInfo''))]"

definition SubscriptionConnection_fields :: "(string \<times> gql_type) list" where
  "SubscriptionConnection_fields = [
     (''nodes'', NonNull (ListOf (NonNull (Named ''Subscription'')))), (''pageInfo'', NonNull (Named ''PageInfo''))]"

definition PolicyChain_fields :: "(string \<times> gql_type) list" where
  "PolicyChain_fields = [
     (''chainId'', NonNull (Named ''ID'')), (''apiId'', NonNull (Named ''ID'')),
     (''version'', NonNull (Named ''Int'')), (''etag'', NonNull (Named ''String'')),
     (''policies'', NonNull (ListOf (NonNull (Named ''Policy'')))), (''updatedAt'', Named ''DateTime'')]"

definition Policy_fields :: "(string \<times> gql_type) list" where
  "Policy_fields = [
     (''id'', NonNull (Named ''ID'')), (''type'', NonNull (Named ''String'')),
     (''phase'', NonNull (Named ''PolicyPhase'')), (''order'', NonNull (Named ''Int'')),
     (''enabled'', NonNull (Named ''Boolean'')), (''config'', NonNull (Named ''JSON'')),
     (''condition'', Named ''String'')]"

text \<open>A root field has arguments too; those of the other fields are optional and never used.\<close>

record root_field =
  rf_args :: "(string \<times> gql_type) list"
  rf_type :: gql_type

definition root :: "(string \<times> gql_type) list \<Rightarrow> gql_type \<Rightarrow> root_field" where
  "root args ty = \<lparr> rf_args = args, rf_type = ty \<rparr>"

definition Query_fields :: "(string \<times> root_field) list" where
  "Query_fields = [
     (''me'', root [] (NonNull (Named ''User''))),
     (''organizations'', root [(''page'', Named ''Int''), (''limit'', Named ''Int''), (''search'', Named ''String'')]
        (NonNull (ListOf (NonNull (Named ''Organization''))))),
     (''organization'', root [(''id'', NonNull (Named ''ID''))] (Named ''Organization'')),
     (''apis'', root [(''orgId'', Named ''ID''), (''status'', Named ''APIStatus''), (''page'', Named ''Int''),
        (''limit'', Named ''Int'')] (NonNull (Named ''APIConnection''))),
     (''api'', root [(''id'', NonNull (Named ''ID''))] (Named ''API'')),
     (''plans'', root [(''isPublic'', Named ''Boolean'')] (NonNull (ListOf (NonNull (Named ''Plan''))))),
     (''plan'', root [(''id'', NonNull (Named ''ID''))] (Named ''Plan'')),
     (''subscriptions'', root [(''orgId'', Named ''ID''), (''apiId'', Named ''ID''), (''status'', Named ''SubscriptionStatus''),
        (''page'', Named ''Int''), (''limit'', Named ''Int'')] (NonNull (Named ''SubscriptionConnection''))),
     (''subscription'', root [(''id'', NonNull (Named ''ID''))] (Named ''Subscription'')),
     (''apiKeys'', root [(''subscriptionId'', NonNull (Named ''ID''))] (NonNull (ListOf (NonNull (Named ''APIKey''))))),
     (''apiKey'', root [(''id'', NonNull (Named ''ID''))] (Named ''APIKey'')),
     (''policyChain'', root [(''apiId'', NonNull (Named ''ID''))] (Named ''PolicyChain''))]"

definition Mutation_fields :: "(string \<times> root_field) list" where
  "Mutation_fields =
     (let i = (''id'', NonNull (Named ''ID'')); apiId = (''apiId'', NonNull (Named ''ID''));
          inp = (\<lambda>ty. (''input'', NonNull (Named ty))); yes = NonNull (Named ''Boolean'')
      in [(''createOrganization'', root [inp ''CreateOrganizationInput''] (NonNull (Named ''Organization''))),
          (''updateOrganization'', root [i, inp ''CreateOrganizationInput''] (NonNull (Named ''Organization''))),
          (''deleteOrganization'', root [i] yes),
          (''createAPI'', root [inp ''CreateAPIInput''] (NonNull (Named ''API''))),
          (''updateAPI'', root [i, inp ''UpdateAPIInput''] (NonNull (Named ''API''))),
          (''deleteAPI'', root [i] yes),
          (''createPlan'', root [inp ''CreatePlanInput''] (NonNull (Named ''Plan''))),
          (''updatePlan'', root [i, inp ''CreatePlanInput''] (NonNull (Named ''Plan''))),
          (''deletePlan'', root [i] yes),
          (''createSubscription'', root [inp ''CreateSubscriptionInput''] (NonNull (Named ''Subscription''))),
          (''updateSubscriptionStatus'', root [i, (''status'', NonNull (Named ''SubscriptionStatus''))]
             (NonNull (Named ''Subscription''))),
          (''cancelSubscription'', root [i] (NonNull (Named ''Subscription''))),
          (''createAPIKey'', root [inp ''CreateAPIKeyInput''] (NonNull (Named ''APIKey''))),
          (''revokeAPIKey'', root [(''subscriptionId'', NonNull (Named ''ID'')), i] yes),
          (''publishPolicyChain'', root [apiId, inp ''PublishPolicyChainInput''] (NonNull (Named ''PolicyChain''))),
          (''invalidatePolicyCache'', root [apiId] yes)])"

definition OBJECT_TYPES :: "(string \<times> (string \<times> gql_type) list) list" where
  "OBJECT_TYPES = [
     (''PageInfo'', PageInfo_fields),
     (''User'', User_fields @ [(''org'', Named ''Organization'')]),
     (''Organization'', Organization_fields @
        [(''apis'', NonNull (Named ''APIConnection'')), (''subscriptions'', NonNull (Named ''SubscriptionConnection''))]),
     (''API'', API_fields @ [(''org'', Named ''Organization''), (''policyChain'', Named ''PolicyChain'')]),
     (''APIConnection'', APIConnection_fields),
     (''Plan'', Plan_fields),
     (''Subscription'', Subscription_fields @ [(''org'', Named ''Organization''), (''plan'', Named ''Plan''),
        (''api'', Named ''API''), (''apiKeys'', NonNull (ListOf (NonNull (Named ''APIKey''))))]),
     (''SubscriptionConnection'', SubscriptionConnection_fields),
     (''APIKey'', APIKey_fields @ [(''subscription'', Named ''Subscription'')]),
     (''PolicyChain'', PolicyChain_fields),
     (''Policy'', Policy_fields)]"

definition field_type :: "string \<Rightarrow> string \<Rightarrow> gql_type option" where
  "field_type ty f = Option.bind (rget OBJECT_TYPES ty) (\<lambda>fs. rget fs f)"

fun base_type :: "gql_type \<Rightarrow> string" where
  "base_type (Named ty) = ty"
| "base_type (NonNull t) = base_type t"
| "base_type (ListOf t) = base_type t"

section \<open>Input types\<close>

definition INPUT_TYPES :: "(string \<times> (string \<times> gql_type) list) list" where
  "INPUT_TYPES =
     (let req = (\<lambda>f ty. (f, NonNull (Named ty))); opt = (\<lambda>f ty. (f, Named ty));
          texts = (\<lambda>f. (f, ListOf (NonNull (Named ''String''))))
      in [(''CreateOrganizationInput'', [req ''name'' ''String'', req ''slug'' ''String'', opt ''description'' ''String'']),
          (''CreateAPIInput'', [req ''name'' ''String'', req ''version'' ''String'', req ''basePath'' ''String'',
             req ''upstreamUrl'' ''String'', opt ''description'' ''String'', req ''orgId'' ''ID'', texts ''tags'',
             opt ''timeoutMs'' ''Int'', opt ''retries'' ''Int'', opt ''stripBasePath'' ''Boolean'']),
          (''UpdateAPIInput'', [opt ''name'' ''String'', opt ''upstreamUrl'' ''String'', opt ''description'' ''String'',
             opt ''status'' ''APIStatus'', texts ''tags'', opt ''timeoutMs'' ''Int'', opt ''retries'' ''Int'',
             opt ''stripBasePath'' ''Boolean'']),
          (''CreatePlanInput'', [req ''name'' ''String'', opt ''description'' ''String'', req ''rpmLimit'' ''Int'',
             req ''rpdLimit'' ''Int'', opt ''rphLimit'' ''Int'', req ''maxKeys'' ''Int'', req ''price'' ''Float'',
             opt ''currency'' ''String'', texts ''features'', opt ''isPublic'' ''Boolean'']),
          (''CreateSubscriptionInput'', [req ''orgId'' ''ID'', req ''planId'' ''ID'', req ''apiId'' ''ID'',
             opt ''expiresAt'' ''DateTime'']),
          (''CreateAPIKeyInput'', [req ''subscriptionId'' ''ID'', req ''name'' ''String'', texts ''allowedIps'',
             texts ''allowedOrigins'', texts ''scopes'', opt ''expiresAt'' ''DateTime''])])"

text \<open>
  Whether GraphQL takes a variable of an input type made of scalars: no member that is not
  declared, every required one there, and each of its type.
\<close>

definition input_ok :: "string \<Rightarrow> jobj \<Rightarrow> bool" where
  "input_ok ty obj =
     (case rget INPUT_TYPES ty of
        None \<Rightarrow> False
      | Some fs \<Rightarrow> list_all (\<lambda>(k, v). rget fs k \<noteq> None) obj \<and> list_all (\<lambda>(f, t). gql_ok t (rget obj f)) fs)"

section \<open>Documents\<close>

text \<open>
  An operation: the types of its variables, and its root fields with the variables or literals of
  their arguments and what they select. None of the documents renames a field.
\<close>

datatype gql_arg = Var string | Literal json

record root_selection =
  rs_field :: string
  rs_args :: "(string \<times> gql_arg) list"
  rs_sub :: "selection list option"

record gql_document =
  gd_mutation :: bool
  gd_vars :: "(string \<times> gql_type) list"
  gd_fields :: "root_selection list"
  gd_fragments :: "(string \<times> string \<times> selection list) list"

text \<open>The document as the depth limit reads it.\<close>

definition definitions_of :: "gql_document \<Rightarrow> definition_node list" where
  "definitions_of d = map (\<lambda>(n, ty, ss). FragmentDefinition n ss) (gd_fragments d) @
     [OperationDefinition (map (\<lambda>r. Field (rs_field r) (rs_sub r)) (gd_fields d))]"

text \<open>
  Validation: a field belongs to its type, selects something exactly if it gives objects, and a
  fragment, which none of the documents nests, is declared on the type it is spread in.
\<close>

fun valid_selections :: "(string \<times> string \<times> selection list) list \<Rightarrow> string \<Rightarrow> selection list \<Rightarrow> bool" where
  "valid_selections fr ty [] = True"
| "valid_selections fr ty (Field n None # ss) =
     ((case field_type ty n of None \<Rightarrow> False | Some t \<Rightarrow> rget OBJECT_TYPES (base_type t) = None) \<and> valid_selections fr ty ss)"
| "valid_selections fr ty (Field n (Some sub) # ss) =
     ((case field_type ty n of None \<Rightarrow> False
       | Some t \<Rightarrow> rget OBJECT_TYPES (base_type t) \<noteq> None \<and> sub \<noteq> [] \<and> valid_selections fr (base_type t) sub) \<and>
      valid_selections fr ty ss)"
| "valid_selections fr ty (InlineFragment sub # ss) = (valid_selections fr ty sub \<and> valid_selections fr ty ss)"
| "valid_selections fr ty (FragmentSpread n # ss) =
     ((case rget fr n of None \<Rightarrow> False | Some (on, sub) \<Rightarrow> on = ty) \<and> valid_selections fr ty ss)"

text \<open>A variable may be used where its own type is at least as strict.\<close>

definition fits :: "gql_type \<Rightarrow> gql_type \<Rightarrow> bool" where
  "fits have want = (have = want \<or> have = NonNull want)"

definition valid_arg :: "(string \<times> gql_type) list \<Rightarrow> (string \<times> gql_type) list \<Rightarrow> string \<times> gql_arg \<Rightarrow> bool" where
  "valid_arg vars args a =
     (case rget args (fst a) of
        None \<Rightarrow> False
      | Some want \<Rightarrow> (case snd a of
           Var v \<Rightarrow> (case rget vars v of None \<Rightarrow> False | Some have \<Rightarrow> fits have want)
         | Literal j \<Rightarrow> gql_ok want (Some j)))"

definition valid_root :: "gql_document \<Rightarrow> root_selection \<Rightarrow> bool" where
  "valid_root d r =
     (case rget (if gd_mutation d then Mutation_fields else Query_fields) (rs_field r) of
        None \<Rightarrow> False
      | Some f \<Rightarrow>
          list_all (valid_arg (gd_vars d) (rf_args f)) (rs_args r) \<and>
          list_all (\<lambda>(a, t). (case t of NonNull _ \<Rightarrow> rget (rs_args r) a \<noteq> None | _ \<Rightarrow> True)) (rf_args f) \<and>
          (case rs_sub r of
             None \<Rightarrow> rget OBJECT_TYPES (base_type (rf_type f)) = None
           | Some sub \<Rightarrow> sub \<noteq> [] \<and> rget OBJECT_TYPES (base_type (rf_type f)) \<noteq> None \<and>
               valid_selections (gd_fragments d) (base_type (rf_type f)) sub))"

definition valid_document :: "gql_document \<Rightarrow> bool" where
  "valid_document d = (list_all (valid_root d) (gd_fields d) \<and>
     list_all (\<lambda>(n, ty, ss). valid_selections (gd_fragments d) ty ss) (gd_fragments d))"

section \<open>Answers\<close>

text \<open>
  What GraphQL answers to a valid selection: an object with exactly the selected members, each
  completed by its type (a client may add the name of the type). \<open>answer_ok\<close> reads a value against a type and a selection, \<open>members_ok\<close>
  the members of an object against the fields; fragments do not occur in what the portal asks.
\<close>

fun response_names :: "selection list \<Rightarrow> string list" where
  "response_names [] = []"
| "response_names (Field n sub # ss) = n # response_names ss"
| "response_names (_ # ss) = response_names ss"

definition only_selected :: "selection list \<Rightarrow> jobj \<Rightarrow> bool" where
  "only_selected ss obj = list_all (\<lambda>(k, v). k = ''__typename'' \<or> k \<in> set (response_names ss)) obj"

function (sequential) answer_ok :: "gql_type \<Rightarrow> selection list \<Rightarrow> json \<Rightarrow> bool"
  and members_ok :: "string \<Rightarrow> selection list \<Rightarrow> jobj \<Rightarrow> bool" where
  "answer_ok (NonNull t) ss v = (v \<noteq> JNull \<and> answer_ok t ss v)"
| "answer_ok (ListOf t) ss v = (case v of JNull \<Rightarrow> True | JArr vs \<Rightarrow> list_all (answer_ok t ss) vs | _ \<Rightarrow> False)"
| "answer_ok (Named ty) ss v = (case v of JNull \<Rightarrow> True | JObj obj \<Rightarrow> members_ok ty ss obj \<and> only_selected ss obj | _ \<Rightarrow> False)"
| "members_ok ty [] obj = True"
| "members_ok ty (Field n None # ss) obj =
     ((case field_type ty n of None \<Rightarrow> False | Some t \<Rightarrow> rget obj n \<noteq> None \<and> gql_ok t (rget obj n)) \<and> members_ok ty ss obj)"
| "members_ok ty (Field n (Some sub) # ss) obj =
     ((case field_type ty n of None \<Rightarrow> False
       | Some t \<Rightarrow> (case rget obj n of None \<Rightarrow> False | Some v \<Rightarrow> answer_ok t sub v)) \<and> members_ok ty ss obj)"
| "members_ok ty (_ # ss) obj = False"
  by pat_completeness auto
termination
  by (relation "measures [\<lambda>x. case x of Inl (t, ss, v) \<Rightarrow> size_list size ss | Inr (ty, ss, obj) \<Rightarrow> size_list size ss,
      \<lambda>x. case x of Inl (t, ss, v) \<Rightarrow> 1 + size t | Inr (ty, ss, obj) \<Rightarrow> 0]") auto

definition root_answer_ok :: "gql_document \<Rightarrow> jobj \<Rightarrow> root_selection \<Rightarrow> bool" where
  "root_answer_ok d obj r =
     (case (rget (if gd_mutation d then Mutation_fields else Query_fields) (rs_field r), rget obj (rs_field r)) of
        (Some f, Some v) \<Rightarrow> (case rs_sub r of None \<Rightarrow> gql_ok (rf_type f) (Some v) | Some ss \<Rightarrow> answer_ok (rf_type f) ss v)
      | _ \<Rightarrow> False)"

definition document_answer_ok :: "gql_document \<Rightarrow> json \<Rightarrow> bool" where
  "document_answer_ok d data = (case data of JObj obj \<Rightarrow> list_all (root_answer_ok d obj) (gd_fields d) | _ \<Rightarrow> False)"

text \<open>Whether a document takes the variables that are sent with it; what it does not declare is ignored.\<close>

fun var_ok :: "gql_type \<Rightarrow> json option \<Rightarrow> bool" where
  "var_ok (NonNull t) v = (v \<noteq> None \<and> v \<noteq> Some JNull \<and> var_ok t v)"
| "var_ok (Named ty) v =
     (case v of None \<Rightarrow> True | Some JNull \<Rightarrow> True
      | Some j \<Rightarrow> if rget INPUT_TYPES ty = None then gql_ok (Named ty) v
                  else (case j of JObj obj \<Rightarrow> input_ok ty obj | _ \<Rightarrow> False))"
| "var_ok t v = gql_ok t v"

definition vars_ok :: "gql_document \<Rightarrow> jobj \<Rightarrow> bool" where
  "vars_ok d vars = list_all (\<lambda>(v, t). var_ok t (rget vars v)) (gd_vars d)"

section \<open>Reading answers\<close>

lemma answer_objects:
  assumes "answer_ok (NonNull (ListOf (NonNull (Named ty)))) ss v"
  shows "\<exists>objs. v = JArr (map JObj objs) \<and> list_all (\<lambda>obj. members_ok ty ss obj \<and> only_selected ss obj) objs"
proof -
  from assms obtain vs where v: "v = JArr vs" "list_all (answer_ok (NonNull (Named ty)) ss) vs"
    by (auto split: json.splits)
  have "\<exists>objs. vs = map JObj objs \<and> list_all (\<lambda>obj. members_ok ty ss obj \<and> only_selected ss obj) objs"
    using v(2)
  proof (induction vs)
    case (Cons x vs)
    then obtain objs where "vs = map JObj objs" "list_all (\<lambda>obj. members_ok ty ss obj \<and> only_selected ss obj) objs" by auto
    moreover from Cons.prems obtain obj where "x = JObj obj" "members_ok ty ss obj" "only_selected ss obj"
      by (auto split: json.splits)
    ultimately show ?case by (intro exI [of _ "obj # objs"]) simp
  qed simp
  with v(1) show ?thesis by blast
qed

lemma answer_object: "answer_ok (Named ty) ss v \<Longrightarrow> v = JNull \<or> (\<exists>obj. v = JObj obj \<and> members_ok ty ss obj)"
  by (auto split: json.splits)

lemma members_cons:
  assumes "members_ok ty (s # ss) obj"
  shows "(\<exists>n. s = Field n None) \<or> (\<exists>n sub. s = Field n (Some sub))"
proof (cases s)
  case (Field n sub)
  then show ?thesis by (cases sub) simp_all
qed (use assms in simp_all)

lemma members_get:
  "members_ok ty ss obj \<Longrightarrow> Field n (Some sub) \<in> set ss \<Longrightarrow> field_type ty n = Some t \<Longrightarrow>
    \<exists>v. rget obj n = Some v \<and> answer_ok t sub v"
proof (induction ss)
  case (Cons s ss)
  from members_cons [OF Cons.prems(1)] Cons.prems Cons.IH show ?case by (elim disjE exE) (auto split: option.splits)
qed simp

lemma members_leaf:
  "members_ok ty ss obj \<Longrightarrow> Field n None \<in> set ss \<Longrightarrow> field_type ty n = Some t \<Longrightarrow> gql_ok t (rget obj n)"
proof (induction ss)
  case (Cons s ss)
  from members_cons [OF Cons.prems(1)] Cons.prems Cons.IH show ?case by (elim disjE exE) (auto split: option.splits)
qed simp

lemma not_selected: "only_selected ss obj \<Longrightarrow> k \<noteq> ''__typename'' \<Longrightarrow> k \<notin> set (response_names ss) \<Longrightarrow> rget obj k = None"
  by (auto simp: only_selected_def list_all_iff rget_def map_of_eq_None_iff)

end
