(* ===== verification/Documents.thy ===== *)
theory Documents
  imports Schema
begin

text \<open>
  The GraphQL documents of the user interfaces: \<open>portal/src/lib/graphql/queries.ts\<close> and
  \<open>mutations.ts\<close>, \<open>studio/src/graphql/queries.ts\<close>. The theorem: the BFF accepts them, by its schema
  and by its limits.
\<close>

section \<open>The portal\<close>

definition leaves :: "string list \<Rightarrow> selection list" where
  "leaves ns = map (\<lambda>n. Field n None) ns"

definition node :: "string \<Rightarrow> selection list \<Rightarrow> selection" where
  "node n ss = Field n (Some ss)"

definition query :: "(string \<times> gql_type) list \<Rightarrow> root_selection list \<Rightarrow> gql_document" where
  "query vars rs = \<lparr> gd_mutation = False, gd_vars = vars, gd_fields = rs, gd_fragments = [] \<rparr>"

definition mutation :: "(string \<times> gql_type) list \<Rightarrow> root_selection list \<Rightarrow> gql_document" where
  "mutation vars rs = \<lparr> gd_mutation = True, gd_vars = vars, gd_fields = rs, gd_fragments = [] \<rparr>"

definition sel :: "string \<Rightarrow> (string \<times> gql_arg) list \<Rightarrow> selection list \<Rightarrow> root_selection" where
  "sel f args ss = \<lparr> rs_field = f, rs_args = args, rs_sub = Some ss \<rparr>"

abbreviation (input) required_id :: gql_type where "required_id \<equiv> NonNull (Named ''ID'')"

definition GET_PUBLIC_APIS :: gql_document where
  "GET_PUBLIC_APIS = query [(''limit'', Named ''Int''), (''page'', Named ''Int'')]
     [sel ''apis'' [(''limit'', Var ''limit''), (''page'', Var ''page'')]
        [node ''nodes'' (leaves [''id'', ''name'', ''version'', ''basePath'', ''description'', ''status'', ''tags''] @
           [node ''org'' (leaves [''id'', ''name''])]),
         node ''pageInfo'' (leaves [''page'', ''limit'', ''total'', ''totalPages'', ''hasNext''])]]"

definition GET_API_DETAIL :: gql_document where
  "GET_API_DETAIL = query [(''id'', required_id)]
     [sel ''api'' [(''id'', Var ''id'')]
        (leaves [''id'', ''name'', ''version'', ''basePath'', ''upstreamUrl'', ''description'', ''status'', ''tags''] @
         [node ''org'' (leaves [''id'', ''name''])]),
      sel ''plans'' [(''isPublic'', Literal (JBool True))]
        (leaves [''id'', ''name'', ''description'', ''rpmLimit'', ''rphLimit'', ''rpdLimit'', ''maxKeys'', ''price'', ''currency'',
           ''isPublic''])]"

definition GET_API_FOR_DOCS :: gql_document where
  "GET_API_FOR_DOCS = query [(''id'', required_id)]
     [sel ''api'' [(''id'', Var ''id'')]
        (leaves [''id'', ''name'', ''version'', ''basePath'', ''upstreamUrl'', ''description'', ''status'', ''tags''] @
         [node ''org'' (leaves [''id'', ''name'']),
          node ''policyChain'' [node ''policies'' (leaves [''type'', ''enabled'', ''config''])]])]"

definition GET_ME :: gql_document where
  "GET_ME = query [] [sel ''me'' [] (leaves [''id'', ''email'', ''name'', ''role''] @ [node ''org'' (leaves [''id'', ''name''])])]"

definition GET_MY_SUBSCRIPTIONS :: gql_document where
  "GET_MY_SUBSCRIPTIONS = query []
     [sel ''subscriptions'' []
        [node ''nodes'' (leaves [''id'', ''status'', ''createdAt''] @
           [node ''plan'' (leaves [''id'', ''name'']),
            node ''api'' (leaves [''id'', ''name'', ''basePath'', ''version'']),
            node ''apiKeys'' (leaves [''id'', ''name'', ''keyPrefix'', ''status'', ''createdAt'', ''lastUsedAt'', ''subscriptionId''])])]]"

definition GET_SUBSCRIPTION_DETAIL :: gql_document where
  "GET_SUBSCRIPTION_DETAIL = query [(''id'', required_id)]
     [sel ''subscription'' [(''id'', Var ''id'')]
        (leaves [''id'', ''status'', ''createdAt'', ''updatedAt''] @
         [node ''plan'' (leaves [''id'', ''name'', ''description'', ''rpmLimit'', ''rphLimit'', ''rpdLimit'']),
          node ''api'' (leaves [''id'', ''name'', ''basePath'', ''version'', ''description'']),
          node ''apiKeys'' (leaves [''id'', ''name'', ''keyPrefix'', ''plainKey'', ''status'', ''createdAt'', ''lastUsedAt'',
             ''subscriptionId''])])]"

definition GET_USAGE_STATS :: gql_document where
  "GET_USAGE_STATS = query
     [(''apiId'', required_id), (''from'', NonNull (Named ''String'')), (''to'', NonNull (Named ''String''))]
     [sel ''usageStats'' [(''apiId'', Var ''apiId''), (''from'', Var ''from''), (''to'', Var ''to'')]
        (leaves [''totalRequests'', ''successRequests'', ''errorRequests'', ''avgLatencyMs'', ''p99LatencyMs''] @
         [node ''dailySeries'' (leaves [''date'', ''requests'', ''errors'', ''avgLatency''])])]"

definition CREATE_SUBSCRIPTION :: gql_document where
  "CREATE_SUBSCRIPTION = mutation [(''input'', NonNull (Named ''CreateSubscriptionInput''))]
     [sel ''createSubscription'' [(''input'', Var ''input'')]
        (leaves [''id'', ''status''] @ [node ''plan'' (leaves [''id'', ''name'']), node ''api'' (leaves [''id'', ''name''])])]"

definition CANCEL_SUBSCRIPTION :: gql_document where
  "CANCEL_SUBSCRIPTION = mutation [(''id'', required_id)]
     [sel ''cancelSubscription'' [(''id'', Var ''id'')] (leaves [''id'', ''status''])]"

definition CREATE_API_KEY :: gql_document where
  "CREATE_API_KEY = mutation [(''input'', NonNull (Named ''CreateAPIKeyInput''))]
     [sel ''createAPIKey'' [(''input'', Var ''input'')]
        (leaves [''id'', ''name'', ''keyPrefix'', ''subscriptionId'', ''plainKey'', ''status'', ''createdAt''])]"

definition REVOKE_API_KEY :: gql_document where
  "REVOKE_API_KEY = mutation [(''subscriptionId'', required_id), (''id'', required_id)]
     [\<lparr> rs_field = ''revokeAPIKey'', rs_args = [(''subscriptionId'', Var ''subscriptionId''), (''id'', Var ''id'')], rs_sub = None \<rparr>]"

section \<open>The editor\<close>

definition POLICY_CHAIN_FRAGMENT :: "string \<times> string \<times> selection list" where
  "POLICY_CHAIN_FRAGMENT = (''PolicyChainFields'', ''PolicyChain'',
     leaves [''chainId'', ''apiId'', ''version'', ''etag'', ''updatedAt''] @
     [node ''policies'' (leaves [''id'', ''type'', ''phase'', ''order'', ''enabled'', ''config'', ''condition''])])"

definition with_chain :: "gql_document \<Rightarrow> gql_document" where
  "with_chain d = d\<lparr>gd_fragments := [POLICY_CHAIN_FRAGMENT]\<rparr>"

definition GET_APIS :: gql_document where
  "GET_APIS = query [(''page'', Named ''Int''), (''limit'', Named ''Int'')]
     [sel ''apis'' [(''page'', Var ''page''), (''limit'', Var ''limit'')]
        [node ''nodes'' (leaves [''id'', ''name'', ''version'', ''basePath'', ''upstreamUrl'', ''status'', ''orgId'', ''tags''] @
           [node ''policyChain'' (leaves [''chainId'', ''version'', ''updatedAt''] @ [node ''policies'' (leaves [''id'', ''type''])])]),
         node ''pageInfo'' (leaves [''page'', ''limit'', ''total'', ''totalPages'', ''hasNext''])]]"

definition GET_API_WITH_CHAIN :: gql_document where
  "GET_API_WITH_CHAIN = with_chain (query [(''id'', required_id)]
     [sel ''api'' [(''id'', Var ''id'')]
        (leaves [''id'', ''name'', ''version'', ''basePath'', ''upstreamUrl'', ''description'', ''status'', ''orgId'', ''tags''] @
         [node ''policyChain'' [FragmentSpread ''PolicyChainFields'']])])"

definition GET_POLICY_CHAIN :: gql_document where
  "GET_POLICY_CHAIN = with_chain (query [(''apiId'', required_id)]
     [sel ''policyChain'' [(''apiId'', Var ''apiId'')] [FragmentSpread ''PolicyChainFields'']])"

definition PUBLISH_POLICY_CHAIN :: gql_document where
  "PUBLISH_POLICY_CHAIN = with_chain (mutation
     [(''apiId'', required_id), (''input'', NonNull (Named ''PublishPolicyChainInput''))]
     [sel ''publishPolicyChain'' [(''apiId'', Var ''apiId''), (''input'', Var ''input'')] [FragmentSpread ''PolicyChainFields'']])"

definition INVALIDATE_POLICY_CACHE :: gql_document where
  "INVALIDATE_POLICY_CACHE = mutation [(''apiId'', required_id)]
     [\<lparr> rs_field = ''invalidatePolicyCache'', rs_args = [(''apiId'', Var ''apiId'')], rs_sub = None \<rparr>]"

section \<open>The BFF takes them\<close>

text \<open>All of them but \<open>GET_USAGE_STATS\<close>, which nothing sends.\<close>

definition DOCUMENTS :: "gql_document list" where
  "DOCUMENTS = [GET_PUBLIC_APIS, GET_API_DETAIL, GET_API_FOR_DOCS, GET_ME, GET_MY_SUBSCRIPTIONS, GET_SUBSCRIPTION_DETAIL,
     CREATE_SUBSCRIPTION, CANCEL_SUBSCRIPTION, CREATE_API_KEY, REVOKE_API_KEY,
     GET_APIS, GET_API_WITH_CHAIN, GET_POLICY_CHAIN, PUBLISH_POLICY_CHAIN, INVALIDATE_POLICY_CACHE]"

text \<open>A client that asks for one more name in every selection, as Apollo does for \<open>__typename\<close>.\<close>

fun with_typename :: "selection list \<Rightarrow> selection list" where
  "with_typename [] = []"
| "with_typename (Field n (Some sub) # ss) = Field n (Some (with_typename sub @ [Field ''__typename'' None])) # with_typename ss"
| "with_typename (s # ss) = s # with_typename ss"

fun typenames :: "definition_node \<Rightarrow> definition_node" where
  "typenames (FragmentDefinition n ss) = FragmentDefinition n (with_typename ss @ [Field ''__typename'' None])"
| "typenames (OperationDefinition ss) = OperationDefinition (with_typename ss)"
| "typenames d = d"

definition within_limits :: "gql_document \<Rightarrow> bool" where
  "within_limits d = (didResolveOperation 10 200 (definitions_of d) = None \<and>
     didResolveOperation 10 200 (map typenames (definitions_of d)) = None)"

lemma documents_valid: "list_all valid_document DOCUMENTS"
  by code_simp

lemma documents_limited: "list_all within_limits DOCUMENTS"
  by code_simp

text \<open>
  Every document with which the portal and the editor ask the BFF is valid for the schema of the BFF (its
  fields exist and give what is selected from them, its arguments are declared, the required ones
  are there and of the right type), and it stays within the default limits of depth and
  complexity, also with the names of the types that the client adds to it.
\<close>

lemma documents_served: "list_all (\<lambda>d. valid_document d \<and> within_limits d) DOCUMENTS"
  using documents_valid documents_limited by (simp add: list_all_iff)

lemma usage_stats_invalid: "\<not> valid_document GET_USAGE_STATS"
  by code_simp

end
