(* ===== verification/PortalPages.thy ===== *)
theory PortalPages
  imports Portal Documents
begin

text \<open>
  The pages of the developer portal: what they ask the BFF and what they show of its answer.
  \<open>portal/src/app/page.tsx\<close>, \<open>app/(public)/apis\<close>, \<open>app/dashboard\<close> and the components of
  \<open>components/api\<close> and \<open>components/dashboard\<close> that they use. Markup, icons and texts that are not ASCII
  are left out; dates are shown as they come, and \<open>loc\<close> is \<open>toLocaleString\<close>.
\<close>

section \<open>Asking the BFF\<close>

text \<open>
  A value of JavaScript: \<open>None\<close> is \<open>undefined\<close>. \<open>js_get v k\<close> is \<open>v.k\<close>, \<open>js_opt v k\<close> is \<open>v?.k\<close> and
  \<open>coalesce v d\<close> is \<open>v ?? d\<close>. \<open>array_of\<close> is the array that a method such as \<open>map\<close> needs.
\<close>

definition js_get :: "json option \<Rightarrow> string \<Rightarrow> exn + json option" where
  "js_get v k = (case v of None \<Rightarrow> Inl TypeError | Some j \<Rightarrow> if j = JNull then Inl TypeError else Inr (rget (json_obj j) k))"

definition js_opt :: "json option \<Rightarrow> string \<Rightarrow> json option" where
  "js_opt v k = (case v of None \<Rightarrow> None | Some j \<Rightarrow> rget (json_obj j) k)"

definition known :: "json option \<Rightarrow> json option" where
  "known v = (if v = Some JNull then None else v)"

definition coalesce :: "json option \<Rightarrow> json \<Rightarrow> json" where
  "coalesce v d = orelse (known v) d"

definition holds :: "json option \<Rightarrow> bool" where
  "holds v = (case v of None \<Rightarrow> False | Some j \<Rightarrow> js_truthy j)"

text \<open>A value inside a template string, and the length of an array that may be missing.\<close>

definition tpl :: "ext \<Rightarrow> json option \<Rightarrow> string" where
  "tpl X v = (case v of None \<Rightarrow> ''undefined'' | Some j \<Rightarrow> js_String X j)"

definition opt_items :: "json option \<Rightarrow> json list" where
  "opt_items v = (case v of Some (JArr vs) \<Rightarrow> vs | _ \<Rightarrow> [])"

text \<open>
  \<open>getAuthClient(token)\<close> and \<open>getRscClient()\<close>: the headers that go with every query. The client
  itself, Apollo, is a parameter: the headers, a document and its variables give the data, or
  an exception if the network or a field failed.
\<close>

definition makeClient :: "ext \<Rightarrow> json option \<Rightarrow> dict" where
  "makeClient X authToken =
     (if holds authToken then [(''authorization'', ''Bearer '' @ tpl X authToken)] else [])"

type_synonym bff_client = "dict \<Rightarrow> gql_document \<Rightarrow> jobj \<Rightarrow> exn + json"

definition session_token :: "jobj option \<Rightarrow> json option" where
  "session_token session = Option.bind session (\<lambda>s. rget s ''token'')"

definition ask :: "ext \<Rightarrow> bff_client \<Rightarrow> jobj option \<Rightarrow> gql_document \<Rightarrow> jobj \<Rightarrow> json option" where
  "ask X client session d vars =
     (case client (makeClient X (session_token session)) d vars of Inl e \<Rightarrow> None | Inr data \<Rightarrow> Some data)"

section \<open>The cards\<close>

definition variant_of :: "(string \<times> string) list \<Rightarrow> json option \<Rightarrow> string" where
  "variant_of table status = (case status of Some (JStr s) \<Rightarrow> orelse (rget table s) ''default'' | _ \<Rightarrow> ''default'')"

definition is_status :: "string \<Rightarrow> json option \<Rightarrow> bool" where
  "is_status s v = (v = Some (JStr s))"

record api_card =
  ac_href :: string
  ac_name :: "json option"
  ac_version :: string
  ac_basePath :: "json option"
  ac_variant :: string
  ac_description :: "json option"
  ac_tags :: "json list"
  ac_more :: nat
  ac_org :: "json option"

definition API_VARIANTS :: "(string \<times> string) list" where
  "API_VARIANTS = [(''ACTIVE'', ''success''), (''DEPRECATED'', ''warning''), (''INACTIVE'', ''default''), (''DRAFT'', ''default'')]"

definition APICard :: "ext \<Rightarrow> json \<Rightarrow> exn + api_card" where
  "APICard X v =
     sum_bind (obj_of v) (\<lambda>api.
     sum_bind (array_of (rget api ''tags'')) (\<lambda>tags.
     sum_bind (js_get (rget api ''organization'') ''name'') (\<lambda>org. Inr
       \<lparr> ac_href = ''/apis/'' @ tpl X (rget api ''id''), ac_name = rget api ''name'',
         ac_version = ''v'' @ tpl X (rget api ''version''), ac_basePath = rget api ''basePath'',
         ac_variant = variant_of API_VARIANTS (rget api ''status''),
         ac_description = (if holds (rget api ''description'') then rget api ''description'' else None),
         ac_tags = take 4 tags, ac_more = length tags - 4, ac_org = org \<rparr>)))"

record plan_card =
  pc_name :: "json option"
  pc_description :: "json option"
  pc_limits :: "string list"
  pc_price :: "string option"
  pc_featured :: bool

text \<open>The limits that are not zero; no price is a plan that is free.\<close>

definition PlanCard :: "(json \<Rightarrow> string) \<Rightarrow> nat \<Rightarrow> json \<Rightarrow> exn + plan_card" where
  "PlanCard loc idx v =
     sum_bind (obj_of v) (\<lambda>plan.
       let text = (\<lambda>k u. if holds (rget plan k) then [loc (the (rget plan k)) @ u] else [])
       in Inr \<lparr> pc_name = rget plan ''name'',
                pc_description = (if holds (rget plan ''description'') then rget plan ''description'' else None),
                pc_limits = text ''rpmLimit'' '' RPM'' @ text ''rphLimit'' '' RPH'' @ text ''rpdLimit'' '' RPD'',
                pc_price = (if holds (rget plan ''price'') then Some (''$'' @ loc (the (rget plan ''price''))) else None),
                pc_featured = (idx = 1) \<rparr>)"

text \<open>What the card of a key shows: the key itself, or its prefix and 24 bullets.\<close>

datatype shown_key = Plain json | Masked string

record key_card =
  kc_name :: "json option"
  kc_variant :: string
  kc_shown :: shown_key
  kc_copy :: bool
  kc_lastUsed :: "json option"
  kc_revocable :: bool
  kc_faded :: bool

definition KEY_VARIANTS :: "(string \<times> string) list" where
  "KEY_VARIANTS = [(''ACTIVE'', ''success''), (''REVOKED'', ''danger'')]"

definition APIKeyCard :: "ext \<Rightarrow> bool \<Rightarrow> json \<Rightarrow> exn + key_card" where
  "APIKeyCard X revealed v =
     sum_bind (obj_of v) (\<lambda>key.
       let plainKey = known (rget key ''plainKey''); masked = Masked (tpl X (rget key ''keyPrefix''));
           isRevoked = is_status ''REVOKED'' (rget key ''status'')
       in Inr \<lparr> kc_name = rget key ''name'', kc_variant = variant_of KEY_VARIANTS (rget key ''status''),
                kc_shown = (if holds plainKey then (if revealed then Plain (the plainKey) else masked) else masked),
                kc_copy = holds plainKey,
                kc_lastUsed = (if holds (rget key ''lastUsedAt'') then rget key ''lastUsedAt'' else None),
                kc_revocable = (\<not> isRevoked), kc_faded = (isRevoked \<or> is_status ''INACTIVE'' (rget key ''status'')) \<rparr>)"

section \<open>The catalogue\<close>

record catalogue_view =
  cv_total :: "json option"
  cv_cards :: "api_card list"
  cv_pages :: "(nat \<times> string \<times> bool) list"

definition no_apis :: json where
  "no_apis = JObj [(''nodes'', JArr []),
     (''pageInfo'', JObj [(''page'', JNum 1), (''total'', JNum 0), (''totalPages'', JNum 1), (''hasNext'', JBool False)])]"

definition json_num :: "jsnum \<Rightarrow> json" where
  "json_num x = (case x of Fin r \<Rightarrow> JNum r | _ \<Rightarrow> JNull)"

text \<open>The variables of the query; the document has no variable \<open>filter\<close>.\<close>

definition catalogue_vars :: "dict \<Rightarrow> jobj" where
  "catalogue_vars params =
     (let set = (\<lambda>k k'. if truthy (rget params k) then [(k', JStr (str_of (rget params k)))] else [])
      in [(''limit'', JNum 12), (''page'', json_num (js_Number (orelse (rget params ''page'') ''1''))),
          (''filter'', JObj ((if truthy (rget params ''status'') then [(''status'', JStr (str_of (rget params ''status'')))]
             else [(''status'', JStr ''ACTIVE'')]) @ set ''q'' ''search'' @ set ''tag'' ''tag''))])"

definition getAPIs :: "ext \<Rightarrow> bff_client \<Rightarrow> dict \<Rightarrow> jobj option \<Rightarrow> json" where
  "getAPIs X client params session =
     coalesce (js_opt (ask X client session GET_PUBLIC_APIS (catalogue_vars params)) ''apis'') no_apis"

definition APIsPage :: "ext \<Rightarrow> bff_client \<Rightarrow> dict \<Rightarrow> jobj option \<Rightarrow> exn + catalogue_view" where
  "APIsPage X client params session =
     sum_bind (obj_of (getAPIs X client params session)) (\<lambda>data.
     sum_bind (js_get (rget data ''pageInfo'') ''page'') (\<lambda>page.
     sum_bind (array_of (rget data ''nodes'')) (\<lambda>apis.
     sum_bind (map_result (APICard X) apis) (\<lambda>cards.
       let pageInfo = rget data ''pageInfo''; currentPage = coalesce page (JNum 1);
           q = (if truthy (rget params ''q'') then ''&q='' @ str_of (rget params ''q'') else []);
           pages = (case js_opt pageInfo ''totalPages'' of
                      Some (JNum n) \<Rightarrow> if n > 1 then map Suc [0..<nat \<lfloor>n\<rfloor>] else [] | _ \<Rightarrow> [])
       in Inr \<lparr> cv_total = js_opt pageInfo ''total'', cv_cards = cards,
                cv_pages = (if apis = [] then []
                  else map (\<lambda>p. (p, ''?page='' @ show_nat p @ q, currentPage = JNum (of_nat p))) pages) \<rparr>))))"

definition HomePage :: "ext \<Rightarrow> bff_client \<Rightarrow> jobj option \<Rightarrow> exn + api_card list" where
  "HomePage X client session =
     sum_bind (array_of (Some (coalesce (js_opt (js_opt (ask X client session GET_PUBLIC_APIS
         [(''limit'', JNum 6), (''page'', JNum 1), (''filter'', JObj [(''status'', JStr ''ACTIVE'')])]) ''apis'') ''nodes'') (JArr []))))
       (map_result (APICard X))"

text \<open>
  The filters of the catalogue: a parameter is set or deleted, and the page always deleted.
  \<open>text\<close> is what \<open>URLSearchParams\<close> makes of the parameters.
\<close>

definition filter_update :: "(dict \<Rightarrow> string) \<Rightarrow> dict \<Rightarrow> string \<Rightarrow> string option \<Rightarrow> string" where
  "filter_update text params key val =
     ''/apis?'' @ text (rdel ''page'' (if truthy val then rset key (str_of val) params else rdel key params))"

section \<open>An API and its plans\<close>

record detail_view =
  dv_name :: "json option"
  dv_variant :: string
  dv_org :: "json option"
  dv_upstream :: "json option"
  dv_tags :: "json list"
  dv_plans :: "plan_card list"
  dv_orgId :: json
  dv_loggedIn :: bool

datatype 'v page_of = Nothing_shown | Not_found | Shown 'v

definition getAPI :: "ext \<Rightarrow> bff_client \<Rightarrow> string \<Rightarrow> jobj option \<Rightarrow> jobj option" where
  "getAPI X client i session =
     (let data = ask X client session GET_API_DETAIL [(''id'', JStr i)]; api = js_opt data ''api''
      in if holds api then Some (rset ''plans'' (coalesce (js_opt data ''plans'') (JArr [])) (json_obj (the api))) else None)"

definition APIDetailPage :: "ext \<Rightarrow> (json \<Rightarrow> string) \<Rightarrow> bff_client \<Rightarrow> string \<Rightarrow> jobj option \<Rightarrow> exn + detail_view page_of" where
  "APIDetailPage X loc client i session =
     (case getAPI X client i session of
        None \<Rightarrow> Inr Not_found
      | Some api \<Rightarrow>
          sum_bind (map_result (\<lambda>(idx, p). PlanCard loc idx p) (List.enumerate 0 (opt_items (rget api ''plans'')))) (\<lambda>plans.
            Inr (Shown \<lparr> dv_name = rget api ''name'',
              dv_variant = variant_of [(''ACTIVE'', ''success''), (''DEPRECATED'', ''warning''), (''INACTIVE'', ''default'')]
                (rget api ''status''),
              dv_org = js_opt (rget api ''org'') ''name'',
              dv_upstream = (if holds (rget api ''upstreamUrl'') then rget api ''upstreamUrl'' else None),
              dv_tags = opt_items (rget api ''tags''), dv_plans = plans,
              dv_orgId = coalesce (Option.bind session (\<lambda>s. rget s ''orgId'')) (JStr []),
              dv_loggedIn = (session \<noteq> None) \<rparr>)))"

section \<open>The dashboard\<close>

text \<open>\<open>data?.subscriptions?.nodes ?? []\<close>, and \<open>[]\<close> if the query failed.\<close>

definition getSubscriptions :: "ext \<Rightarrow> bff_client \<Rightarrow> jobj \<Rightarrow> json" where
  "getSubscriptions X client session =
     coalesce (js_opt (js_opt (ask X client (Some session) GET_MY_SUBSCRIPTIONS []) ''subscriptions'') ''nodes'') (JArr [])"

definition active_count :: "jobj list \<Rightarrow> nat" where
  "active_count subs = length (filter (\<lambda>s. is_status ''ACTIVE'' (rget s ''status'')) subs)"

definition key_count :: "jobj list \<Rightarrow> nat" where
  "key_count subs = fold (\<lambda>s acc. acc + length (opt_items (rget s ''apiKeys''))) subs 0"

definition SUB_VARIANTS :: "(string \<times> string) list" where
  "SUB_VARIANTS = [(''ACTIVE'', ''success''), (''SUSPENDED'', ''warning'')]"

record recent_row =
  rr_name :: "json option"
  rr_basePath :: "json option"
  rr_plan :: "json option"
  rr_variant :: string
  rr_manage :: string

record dashboard_view =
  da_greeting :: string
  da_active :: nat
  da_keys :: nat
  da_total :: nat
  da_recent :: "recent_row list"

definition recent_row_of :: "ext \<Rightarrow> jobj \<Rightarrow> recent_row" where
  "recent_row_of X sub =
     \<lparr> rr_name = known (js_opt (rget sub ''api'') ''name''), rr_basePath = js_opt (rget sub ''api'') ''basePath'',
       rr_plan = js_opt (rget sub ''plan'') ''name'', rr_variant = variant_of SUB_VARIANTS (rget sub ''status''),
       rr_manage = ''/dashboard/keys/'' @ tpl X (rget sub ''id'') \<rparr>"

definition first_name :: "jobj \<Rightarrow> exn + string" where
  "first_name session =
     (case rget session ''name'' of Some (JStr n) \<Rightarrow> Inr (hd (split_on (CHR '' '') n)) | _ \<Rightarrow> Inl TypeError)"

definition DashboardPage :: "ext \<Rightarrow> bff_client \<Rightarrow> jobj option \<Rightarrow> exn + dashboard_view page_of" where
  "DashboardPage X client session =
     (case session of
        None \<Rightarrow> Inr Nothing_shown
      | Some s \<Rightarrow>
          sum_bind (array_of (Some (getSubscriptions X client s))) (\<lambda>vs.
          sum_bind (map_result obj_of vs) (\<lambda>subs.
          sum_bind (first_name s) (\<lambda>n. Inr (Shown
            \<lparr> da_greeting = n, da_active = active_count subs, da_keys = key_count subs, da_total = length subs,
              da_recent = map (recent_row_of X) (take 5 subs) \<rparr>)))))"

record index_row =
  ir_name :: "json option"
  ir_variant :: string
  ir_version :: json
  ir_plan :: "json option"
  ir_basePath :: json
  ir_manage :: string
  ir_keys :: "(json option \<times> string \<times> string \<times> json option) list"

definition ACTIVE_ONLY :: "(string \<times> string) list" where
  "ACTIVE_ONLY = [(''ACTIVE'', ''success'')]"

text \<open>A key of the list: its name, its prefix before the bullets, its status and its last use, if any.\<close>

definition index_key :: "ext \<Rightarrow> jobj \<Rightarrow> json option \<times> string \<times> string \<times> json option" where
  "index_key X key = (rget key ''name'', tpl X (rget key ''keyPrefix''), variant_of ACTIVE_ONLY (rget key ''status''),
     if holds (rget key ''lastUsedAt'') then rget key ''lastUsedAt'' else None)"

definition index_row_of :: "ext \<Rightarrow> jobj \<Rightarrow> exn + index_row" where
  "index_row_of X sub =
     sum_bind (map_result obj_of (opt_items (rget sub ''apiKeys''))) (\<lambda>keys. Inr
       \<lparr> ir_name = known (js_opt (rget sub ''api'') ''name''), ir_variant = variant_of ACTIVE_ONLY (rget sub ''status''),
         ir_version = coalesce (js_opt (rget sub ''api'') ''version'') (JStr ''v1''),
         ir_plan = known (js_opt (rget sub ''plan'') ''name''),
         ir_basePath = coalesce (js_opt (rget sub ''api'') ''basePath'') (JStr ''-''),
         ir_manage = ''/dashboard/keys/'' @ tpl X (rget sub ''id''), ir_keys = map (index_key X) keys \<rparr>)"

definition APIKeysIndexPage :: "ext \<Rightarrow> bff_client \<Rightarrow> jobj option \<Rightarrow> exn + (nat \<times> nat \<times> nat \<times> index_row list) page_of" where
  "APIKeysIndexPage X client session =
     (case session of
        None \<Rightarrow> Inr Nothing_shown
      | Some s \<Rightarrow>
          sum_bind (array_of (Some (getSubscriptions X client s))) (\<lambda>vs.
          sum_bind (map_result obj_of vs) (\<lambda>subs.
          sum_bind (map_result (index_row_of X) subs) (\<lambda>rows.
            Inr (Shown (key_count subs, length subs, active_count subs, rows))))))"

record sub_row =
  sr_name :: "json option"
  sr_variant :: string
  sr_version :: json
  sr_plan :: "json option"
  sr_basePath :: "json option"
  sr_createdAt :: "json option"
  sr_manage :: string
  sr_keys :: nat
  sr_docs :: string
  sr_cancel :: bool
  sr_preview :: "(string \<times> string) list"
  sr_more :: nat

definition sub_row_of :: "ext \<Rightarrow> jobj \<Rightarrow> exn + sub_row" where
  "sub_row_of X sub =
     (let keys = opt_items (rget sub ''apiKeys'')
      in sum_bind (map_result obj_of (take 3 keys)) (\<lambda>firsts. Inr
           \<lparr> sr_name = known (js_opt (rget sub ''api'') ''name''), sr_variant = variant_of SUB_VARIANTS (rget sub ''status''),
             sr_version = coalesce (js_opt (rget sub ''api'') ''version'') (JStr ''v1''),
             sr_plan = js_opt (rget sub ''plan'') ''name'', sr_basePath = js_opt (rget sub ''api'') ''basePath'',
             sr_createdAt = rget sub ''createdAt'',
             sr_manage = ''/dashboard/keys/'' @ tpl X (rget sub ''id''), sr_keys = length keys,
             sr_docs = ''/apis/'' @ tpl X (js_opt (rget sub ''api'') ''id''),
             sr_cancel = is_status ''ACTIVE'' (rget sub ''status''),
             sr_preview = map (\<lambda>key. (tpl X (rget key ''name''), tpl X (rget key ''keyPrefix''))) firsts,
             sr_more = length keys - 3 \<rparr>))"

definition SubscriptionsPage :: "ext \<Rightarrow> bff_client \<Rightarrow> jobj option \<Rightarrow> exn + sub_row list page_of" where
  "SubscriptionsPage X client session =
     (case session of
        None \<Rightarrow> Inr Nothing_shown
      | Some s \<Rightarrow>
          sum_bind (array_of (Some (getSubscriptions X client s))) (\<lambda>vs.
          sum_bind (map_result obj_of vs) (\<lambda>subs.
          sum_bind (map_result (sub_row_of X) subs) (\<lambda>rows. Inr (Shown rows)))))"

record keys_view =
  kv_name :: "json option"
  kv_variant :: string
  kv_version :: "json option"
  kv_plan :: "json option"
  kv_basePath :: "json option"
  kv_limits :: "(string \<times> string) list"
  kv_cards :: "key_card list"

definition plan_limits_shown :: "(json \<Rightarrow> string) \<Rightarrow> jobj \<Rightarrow> (string \<times> string) list" where
  "plan_limits_shown loc plan =
     map (\<lambda>(label, v). (label, loc (the v)))
       (filter (\<lambda>(label, v). holds v)
         [(''RPM'', rget plan ''rpmLimit''), (''RPH'', rget plan ''rphLimit''), (''RPD'', rget plan ''rpdLimit'')])"

text \<open>The page of a subscription: no data is \<open>notFound()\<close>; the cards of the keys start unrevealed.\<close>

definition KeysPage :: "ext \<Rightarrow> (json \<Rightarrow> string) \<Rightarrow> bff_client \<Rightarrow> string \<Rightarrow> jobj option \<Rightarrow> exn + keys_view page_of" where
  "KeysPage X loc client subId session =
     (case session of
        None \<Rightarrow> Inr Nothing_shown
      | Some s \<Rightarrow>
          let found = js_opt (ask X client (Some s) GET_SUBSCRIPTION_DETAIL [(''id'', JStr subId)]) ''subscription''
          in if \<not> holds found then Inr Not_found
             else (let sub = json_obj (the found); plan = rget sub ''plan''
                   in sum_bind (array_of (rget sub ''apiKeys'')) (\<lambda>keys.
                      sum_bind (map_result (APIKeyCard X False) keys) (\<lambda>cards. Inr (Shown
                        \<lparr> kv_name = known (js_opt (rget sub ''api'') ''name''),
                          kv_variant = variant_of ACTIVE_ONLY (rget sub ''status''),
                          kv_version = js_opt (rget sub ''api'') ''version'', kv_plan = js_opt plan ''name'',
                          kv_basePath = js_opt (rget sub ''api'') ''basePath'',
                          kv_limits = (if holds plan then plan_limits_shown loc (json_obj (the plan)) else []),
                          kv_cards = cards \<rparr>)))))"

end
