(* ===== verification/PortalProps.thy ===== *)
theory PortalProps
  imports PortalPages
begin

text \<open>
  Where the tokens come from that the portal sends to the BFF, as an invariant of every run of
  the portal; what becomes of a sign-in on the way to the BFF; and where a browser ends up that
  follows the redirects.
\<close>

section \<open>Sign-ins\<close>

definition issued_token :: "ext \<Rightarrow> http_resp \<Rightarrow> json option" where
  "issued_token X res = Option.bind (x_json_parse X (rs_body res)) (\<lambda>v. rget (json_obj v) ''session_token'')"

definition issued_user :: "ext \<Rightarrow> http_resp \<Rightarrow> jobj" where
  "issued_user X res = (case x_json_parse X (rs_body res) of
     None \<Rightarrow> [] | Some v \<Rightarrow> json_obj (orelse (rget (json_obj v) ''user'') JNull))"

text \<open>A cookie is set exactly with what the auth service answered to one request, sent to it.\<close>

definition granted :: "ext \<Rightarrow> portal_env \<Rightarrow> 'd io \<Rightarrow> 'd io \<Rightarrow> string \<Rightarrow> string \<Rightarrow> jobj \<Rightarrow>
    http_req \<Rightarrow> http_resp \<Rightarrow> bool" where
  "granted X P w w' path cookie claims q res \<longleftrightarrow>
     io_sent w' = io_sent w @ [q] \<and> io_net w 0 q = Inr res \<and> rq_url q = portal_AUTH_URL P @ path \<and> resp_ok res \<and>
     (\<exists>secret token. getSecret P = Inr secret \<and> issued_token X res = Some token \<and> js_truthy token \<and>
        claims = session_claims (session_user (issued_user X res) token) (io_clock w 0) (io_clock w 1) \<and>
        cookie = pe_sign P secret claims)"

lemma json_reply_cookie: "json_reply b s = Inr r \<Longrightarrow> pr_cookie r = None"
  by (auto simp: json_reply_def split: if_splits)

lemma sign_in_grants:
  assumes "caught failed status (sign_in X P path body msg st w) = (Inr r, w')" and "pr_cookie r = Some (CookieSet c)"
  shows "\<exists>claims q res. granted X P w w' path (sk_value c) claims q res"
proof -
  let ?q = "\<lparr> rq_url = portal_AUTH_URL P @ path, rq_method = ''POST'',
    rq_headers = [(''content-type'', ''application/json'')], rq_body = Some (x_json_str X (JObj body)) \<rparr>"
  have s: "sign_in X P path body msg st w = (Inr r, w')"
    using assms by (auto simp: caught_def thrown_reply_def message_reply_def split: prod.splits sum.splits)
  obtain res where net: "io_net w 0 ?q = Inr res"
    using s by (cases "io_net w 0 ?q") (auto simp: sign_in_def awaiting_def http_fetch_def Let_def)
  obtain v where v: "x_json_parse X (rs_body res) = Some v"
    using s assms(2) net json_reply_cookie
    by (cases "x_json_parse X (rs_body res)")
      (auto simp: sign_in_def awaiting_def http_fetch_def Let_def truthy_member_def json_obj_def)
  have "\<exists>claims. granted X P w w' path (sk_value c) claims ?q res"
    using s assms(2) net v json_reply_cookie
    by (auto simp: sign_in_def awaiting_def returning_def http_fetch_def Let_def granted_def createSession_def date_now_def
        issued_token_def issued_user_def truthy_member_def ok_reply_def setSessionCookie_def
        split: if_splits option.splits sum.splits)
  then show ?thesis by blast
qed

lemma login_grants:
  assumes "login_POST X P raw w = (Inr r, w')" and "pr_cookie r = Some (CookieSet c)"
  shows "\<exists>claims q res. granted X P w w' ''/auth/login'' (sk_value c) claims q res"
  using assms sign_in_grants by (fastforce simp: login_POST_def message_reply_def split: sum.splits if_splits)

lemma register_grants:
  assumes "register_POST X P raw w = (Inr r, w')" and "pr_cookie r = Some (CookieSet c)"
  shows "\<exists>claims q res. granted X P w w' ''/auth/register'' (sk_value c) claims q res"
  using assms sign_in_grants by (fastforce simp: register_POST_def message_reply_def split: sum.splits if_splits)

section \<open>Runs of the portal\<close>

text \<open>
  A run is what the portal does for browsers, the last first: the replies of its sign-in routes
  with the exchanges with the auth service behind them, the requests it sends on for a browser,
  and the headers with which its own pages ask the BFF. Every step may meet another world:
  other clocks, another network, another browser.
\<close>

datatype portal_event =
    Replied string "cookie_change option" "(http_req \<times> (exn + http_resp)) list"
  | Proxied browser_request "http_req list"
  | Asked dict dict

text \<open>What was sent between two worlds, each request with the answer the network gave it.\<close>

definition exchanges :: "'d io \<Rightarrow> 'd io \<Rightarrow> (http_req \<times> (exn + http_resp)) list" where
  "exchanges w w' = map (\<lambda>(i, q). (q, io_net w i q)) (enumerate 0 (drop (length (io_sent w)) (io_sent w')))"

text \<open>
  What is relied on of the verifier and of the secret: a token is accepted only with the claims
  that were signed in it; and a token whose claims have a member \<open>token\<close> is only accepted if the
  portal set it as a cookie, since nobody but the portal and the auth service holds the
  secret, and the session tokens that the auth service signs with it have no such member.
\<close>

definition honest :: "portal_env \<Rightarrow> portal_event list \<Rightarrow> 'd io \<Rightarrow> bool" where
  "honest P tr w \<longleftrightarrow> (\<forall>n secret cookie payload. getSecret P = Inr secret \<longrightarrow>
     io_jwt w n (session_call secret cookie) = Inr payload \<longrightarrow>
     rget payload ''token'' = None \<or>
     (\<forall>claims. cookie = pe_sign P secret claims \<longrightarrow> payload = claims) \<and>
     (\<exists>path c xs. Replied path (Some (CookieSet c)) xs \<in> set tr \<and> sk_value c = cookie))"

inductive portal_run :: "ext \<Rightarrow> portal_env \<Rightarrow> portal_event list \<Rightarrow> bool" for X P where
  start: "portal_run X P []"
| login: "portal_run X P tr \<Longrightarrow> login_POST X P raw (w :: mem io) = (Inr r, w') \<Longrightarrow>
    portal_run X P (Replied ''/auth/login'' (pr_cookie r) (exchanges w w') # tr)"
| register: "portal_run X P tr \<Longrightarrow> register_POST X P raw (w :: mem io) = (Inr r, w') \<Longrightarrow>
    portal_run X P (Replied ''/auth/register'' (pr_cookie r) (exchanges w w') # tr)"
| logout: "portal_run X P tr \<Longrightarrow> portal_run X P (Replied ''/auth/logout'' (pr_cookie logout_POST) [] # tr)"
| proxy: "portal_run X P tr \<Longrightarrow> honest P tr (w :: mem io) \<Longrightarrow> proxyGraphQL P req w = (a, w') \<Longrightarrow>
    portal_run X P (Proxied req (map fst (exchanges w w')) # tr)"
| page: "portal_run X P tr \<Longrightarrow> honest P tr (w :: mem io) \<Longrightarrow> getSession P jar w = (session, w') \<Longrightarrow>
    portal_run X P (Asked jar (makeClient X (session_token session)) # tr)"

inductive_cases proxiedE: "portal_run X P (Proxied req qs # tr)"
inductive_cases askedE: "portal_run X P (Asked jar hs # tr)"

text \<open>
  A browser is signed in with token \<open>t\<close> if its cookie was set by a login or a registration of
  the run that the auth service accepted, and \<open>t\<close> is the session token of that answer.
\<close>

definition signed_in :: "ext \<Rightarrow> portal_env \<Rightarrow> portal_event list \<Rightarrow> dict \<Rightarrow> json \<Rightarrow> bool" where
  "signed_in X P tr jar t \<longleftrightarrow> (\<exists>path c q res. Replied path (Some (CookieSet c)) [(q, Inr res)] \<in> set tr \<and>
     rget jar COOKIE_NAME = Some (sk_value c) \<and> path \<in> {''/auth/login'', ''/auth/register''} \<and>
     rq_url q = portal_AUTH_URL P @ path \<and> resp_ok res \<and> issued_token X res = Some t)"

lemma granted_exchange: "granted X P w w' path cookie claims q res \<Longrightarrow> exchanges w w' = [(q, Inr res)]"
  by (simp add: granted_def exchanges_def)

lemma granted_token: "granted X P w w' path cookie claims q res \<Longrightarrow> rget claims ''token'' = issued_token X res"
  by (auto simp: granted_def session_claims_def session_user_def rget_append rget_pick)

text \<open>Every cookie of a run has the answer of the auth service that granted it.\<close>

lemma cookie_granted:
  assumes "portal_run X P tr" and "Replied path (Some (CookieSet c)) xs \<in> set tr"
  shows "path \<in> {''/auth/login'', ''/auth/register''} \<and>
    (\<exists>w w' :: mem io. \<exists>claims q res. granted X P w w' path (sk_value c) claims q res \<and> xs = [(q, Inr res)])"
  using assms
proof (induction rule: portal_run.induct)
  case (login tr raw w r w')
  show ?case
  proof (cases "Replied path (Some (CookieSet c)) xs \<in> set tr")
    case False
    with login.prems have e: "path = ''/auth/login''" "pr_cookie r = Some (CookieSet c)" "xs = exchanges w w'" by simp_all
    from login_grants [OF login.hyps(2) e(2)] show ?thesis using granted_exchange e(1,3) by blast
  qed (rule login.IH)
next
  case (register tr raw w r w')
  show ?case
  proof (cases "Replied path (Some (CookieSet c)) xs \<in> set tr")
    case False
    with register.prems have e: "path = ''/auth/register''" "pr_cookie r = Some (CookieSet c)" "xs = exchanges w w'" by simp_all
    from register_grants [OF register.hyps(2) e(2)] show ?thesis using granted_exchange e(1,3) by blast
  qed (rule register.IH)
next
  case (logout tr)
  then show ?case by (simp add: logout_POST_def ok_reply_def clearSessionCookie_def)
qed simp_all

text \<open>A verified session with a token is that of a sign-in.\<close>

lemma session_signed_in:
  assumes "portal_run X P tr" and "honest P tr (w :: mem io)" and "getSecret P = Inr secret"
    and "io_jwt w n (session_call secret cookie) = Inr payload" and "rget payload ''token'' = Some t"
    and "rget jar COOKIE_NAME = Some cookie"
  shows "signed_in X P tr jar t"
proof -
  from assms(2-5) obtain path c xs where c: "Replied path (Some (CookieSet c)) xs \<in> set tr" "sk_value c = cookie"
    and same: "\<And>claims. cookie = pe_sign P secret claims \<Longrightarrow> payload = claims"
    by (fastforce simp: honest_def)
  from cookie_granted [OF assms(1) c(1)] obtain v v' :: "mem io" and claims q res where
    g: "path \<in> {''/auth/login'', ''/auth/register''}" "granted X P v v' path (sk_value c) claims q res" "xs = [(q, Inr res)]"
    by blast
  have "payload = claims" using same g(2) c(2) assms(3) by (auto simp: granted_def)
  then have "issued_token X res = Some t" using granted_token [OF g(2)] assms(5) by simp
  with g c assms(6) show ?thesis unfolding signed_in_def by (auto simp: granted_def)
qed

lemma proxy_sends: "\<exists>q. io_sent (snd (proxyGraphQL P req w)) = io_sent w @ [q]"
proof -
  have "io_sent (snd (getBearerToken P jar w)) = io_sent w" for jar
    by (simp add: getBearerToken_def jwt_verify_def split: option.split sum.split)
  then show ?thesis by (simp add: proxyGraphQL_def http_fetch_def Let_def split_beta)
qed

text \<open>The bearer token of a request comes from the session, unless the browser sent a header.\<close>

lemma proxied_header:
  assumes "proxyGraphQL P req w = (a, w')" and "io_sent w' = io_sent w @ [q]"
  shows "rq_url q = portal_BFF_URL P \<and>
    (\<forall>k. k \<notin> {''host'', ''authorization''} \<longrightarrow> rget (rq_headers q) k = rget (br_headers req) k) \<and>
    (rget (rq_headers q) ''authorization'' = rget (br_headers req) ''authorization'' \<or>
     rget (br_headers req) ''authorization'' = None \<and>
     (\<exists>cookie secret payload t. rget (br_cookies req) COOKIE_NAME = Some cookie \<and> getSecret P = Inr secret \<and>
        io_jwt w 0 (session_call secret cookie) = Inr payload \<and> rget payload ''token'' = Some (JStr t) \<and>
        rget (rq_headers q) ''authorization'' = Some (''Bearer '' @ t)))"
  using assms
  by (auto simp: proxyGraphQL_def getBearerToken_def http_fetch_def jwt_verify_def Let_def sfield_def json_string_def
      truthy_def str_of_def split: if_splits option.splits sum.splits prod.splits json.splits Option.bind_splits)

text \<open>The headers of a page's own requests.\<close>

lemma page_headers:
  assumes "getSession P jar w = (session, w')"
  shows "makeClient X (session_token session) = [] \<or>
    (\<exists>cookie secret payload t. rget jar COOKIE_NAME = Some cookie \<and> getSecret P = Inr secret \<and>
       io_jwt w 0 (session_call secret cookie) = Inr payload \<and> rget payload ''token'' = Some t \<and>
       makeClient X (session_token session) = [(''authorization'', ''Bearer '' @ js_String X t)])"
  using assms
  by (auto simp: getSession_def jwt_verify_def makeClient_def session_token_def holds_def tpl_def
      split: if_splits option.splits sum.splits Option.bind_splits)

text \<open>
  C28. Whoever the portal speaks for has signed in. In every run a request that is sent on for a
  browser is one request to the BFF, with the headers of the browser except for the host, and
  with the authorization that the browser itself sent; or, if the browser sent none, without
  one or with the session token of an answer with which the auth service accepted a login or a
  registration earlier in the run, under the cookie which that sign-in set. A page of the
  portal asks the BFF without authorization or with the token of such a sign-in. Cookies are
  sent on to the BFF as the browser sent them. What is relied on of the verifier is \<open>honest\<close>.
\<close>

theorem bearer_from_sign_in:
  assumes "portal_run X P (e # tr)"
  shows "(\<forall>req qs. e = Proxied req qs \<longrightarrow> (\<exists>q. qs = [q] \<and> rq_url q = portal_BFF_URL P \<and>
      (\<forall>k. k \<notin> {''host'', ''authorization''} \<longrightarrow> rget (rq_headers q) k = rget (br_headers req) k) \<and>
      (rget (rq_headers q) ''authorization'' = rget (br_headers req) ''authorization'' \<or>
       rget (br_headers req) ''authorization'' = None \<and>
       (\<exists>t. signed_in X P tr (br_cookies req) (JStr t) \<and>
          rget (rq_headers q) ''authorization'' = Some (''Bearer '' @ t))))) \<and>
    (\<forall>jar hs. e = Asked jar hs \<longrightarrow> hs = [] \<or>
      (\<exists>t. signed_in X P tr jar t \<and> hs = [(''authorization'', ''Bearer '' @ js_String X t)]))"
proof (intro conjI allI impI)
  fix req qs
  assume "e = Proxied req qs"
  with assms have "portal_run X P (Proxied req qs # tr)" by simp
  then obtain w :: "mem io" and a w' where run: "portal_run X P tr" "honest P tr w" "proxyGraphQL P req w = (a, w')"
    "qs = map fst (exchanges w w')" by (elim proxiedE)
  obtain q where q: "io_sent w' = io_sent w @ [q]" using proxy_sends [of P req w] run(3) by auto
  then have qs: "qs = [q]" using run(4) by (simp add: exchanges_def)
  note h = proxied_header [OF run(3) q]
  have "rget (rq_headers q) ''authorization'' = rget (br_headers req) ''authorization'' \<or>
      rget (br_headers req) ''authorization'' = None \<and>
      (\<exists>t. signed_in X P tr (br_cookies req) (JStr t) \<and> rget (rq_headers q) ''authorization'' = Some (''Bearer '' @ t))"
    using h session_signed_in [OF run(1,2)] by (elim conjE disjE exE) simp_all
  with h qs show "\<exists>q. qs = [q] \<and> rq_url q = portal_BFF_URL P \<and>
      (\<forall>k. k \<notin> {''host'', ''authorization''} \<longrightarrow> rget (rq_headers q) k = rget (br_headers req) k) \<and>
      (rget (rq_headers q) ''authorization'' = rget (br_headers req) ''authorization'' \<or>
       rget (br_headers req) ''authorization'' = None \<and>
       (\<exists>t. signed_in X P tr (br_cookies req) (JStr t) \<and>
          rget (rq_headers q) ''authorization'' = Some (''Bearer '' @ t)))" by (intro exI [of _ q]) (elim conjE, intro conjI)
next
  fix jar hs
  assume "e = Asked jar hs"
  with assms have "portal_run X P (Asked jar hs # tr)" by simp
  then obtain w :: "mem io" and session w' where run: "portal_run X P tr" "honest P tr w" "getSession P jar w = (session, w')"
    "hs = makeClient X (session_token session)" by (elim askedE)
  show "hs = [] \<or> (\<exists>t. signed_in X P tr jar t \<and> hs = [(''authorization'', ''Bearer '' @ js_String X t)])"
    using page_headers [OF run(3), of X] unfolding run(4) [symmetric]
  proof (elim disjE exE conjE)
    fix cookie secret payload t
    assume "rget jar COOKIE_NAME = Some cookie" "getSecret P = Inr secret"
      "io_jwt w 0 (session_call secret cookie) = Inr payload" "rget payload ''token'' = Some t"
      and "hs = [(''authorization'', ''Bearer '' @ js_String X t)]"
    then show ?thesis using session_signed_in [OF run(1,2)] by blast
  qed (rule disjI1)
qed

text \<open>A portal, the answer of the auth service to a login, and a browser that then asks for data.\<close>

definition ann_answer :: jobj where
  "ann_answer = [(''session_token'', JStr ''auth.jwt''),
     (''user'', JObj [(''id'', JStr ''u1''), (''email'', JStr ''ann@x.io''), (''display_name'', JStr ''Ann''), (''role'', JStr ''ADMIN'')])]"

definition portal_ext :: ext where
  "portal_ext = sample_ext\<lparr>x_json_parse := (\<lambda>s.
     if s = ''in'' then Some (JObj [(''email'', JStr ''ann@x.io''), (''password'', JStr ''secret'')])
     else if s = ''ok'' then Some (JObj ann_answer) else None)\<rparr>"

definition ann_claims :: jobj where
  "ann_claims = [(''sub'', JStr ''u1''), (''email'', JStr ''ann@x.io''), (''name'', JStr ''Ann''), (''orgId'', JStr []),
     (''role'', JStr ''ADMIN''), (''token'', JStr ''auth.jwt''), (''iat'', JNum 0), (''exp'', JNum 604800)]"

definition sample_portal :: portal_env where
  "sample_portal = \<lparr> pe_SESSION_SECRET = Some ''a-session-secret-of-32-characters'', pe_SESSION_COOKIE_SECURE = Some ''true'',
     pe_AUTH_SERVICE_URL = None, pe_REGISTRY_SERVICE_URL = None, pe_BFF_URL = None, pe_sign = (\<lambda>k c. if c = ann_claims then ''cookie'' else ''other''),
     pe_host = (\<lambda>_. ''bff:4000''), pe_text = (\<lambda>_. ''?'') \<rparr>"

definition portal_world :: "mem io" where
  "portal_world = sample_io\<lparr>
     io_net := (\<lambda>_ _. Inr \<lparr> rs_status = 200, rs_headers = [], rs_body = ''ok'' \<rparr>),
     io_jwt := (\<lambda>_ c. if jc_token c = ''cookie'' then Inr ann_claims else Inl NonError)\<rparr>"

definition ann_request :: browser_request where
  "ann_request = \<lparr> br_method = ''POST'', br_headers = [], br_cookies = [(COOKIE_NAME, ''cookie'')], br_text = ''query'' \<rparr>"

lemmas ann_defs = ann_answer_def portal_ext_def sample_ext_def sample_portal_def ann_claims_def portal_world_def sample_io_def
  ann_request_def

lemma ann_logs_in:
  "\<exists>r w' c. login_POST portal_ext sample_portal ''in'' portal_world = (Inr r, w') \<and> pr_cookie r = Some (CookieSet c) \<and>
     sk_value c = ''cookie'' \<and> (\<exists>q res. granted portal_ext sample_portal portal_world w' ''/auth/login'' ''cookie'' ann_claims q res)"
proof -
  have "\<exists>r w' c. login_POST portal_ext sample_portal ''in'' portal_world = (Inr r, w') \<and> pr_cookie r = Some (CookieSet c) \<and>
      sk_value c = ''cookie''"
    by (simp add: ann_defs login_POST_def body_of_def obj_of_def json_obj_def truthy_member_def sign_in_def awaiting_def
        returning_def http_fetch_def resp_ok_def createSession_def date_now_def getSecret_def caught_def ok_reply_def
        setSessionCookie_def Let_def session_claims_def session_user_def pick_def jget_def rset_def)
  then obtain r w' c where run: "login_POST portal_ext sample_portal ''in'' portal_world = (Inr r, w')"
    "pr_cookie r = Some (CookieSet c)" "sk_value c = ''cookie''" by blast
  from login_grants [OF run(1, 2)] run(3) obtain claims q res
    where g: "granted portal_ext sample_portal portal_world w' ''/auth/login'' ''cookie'' claims q res" by auto
  have "claims = ann_claims"
    using g by (auto simp: granted_def issued_token_def issued_user_def ann_defs json_obj_def session_claims_def
        session_user_def pick_def truthy_member_def jget_def rset_def)
  with run g show ?thesis by blast
qed

lemma bearer_from_sign_in_witness:
  "\<exists>q tr. portal_run portal_ext sample_portal (Proxied ann_request [q] # tr) \<and>
     rget (rq_headers q) ''authorization'' = Some ''Bearer auth.jwt'' \<and>
     signed_in portal_ext sample_portal tr (br_cookies ann_request) (JStr ''auth.jwt'')"
proof -
  from ann_logs_in obtain r w' c q0 res where run: "login_POST portal_ext sample_portal ''in'' portal_world = (Inr r, w')"
    "pr_cookie r = Some (CookieSet c)" "sk_value c = ''cookie''"
    "granted portal_ext sample_portal portal_world w' ''/auth/login'' ''cookie'' ann_claims q0 res" by blast
  let ?tr = "[Replied ''/auth/login'' (Some (CookieSet c)) [(q0, Inr res)]]"
  have tr: "portal_run portal_ext sample_portal ?tr"
    using login [OF start run(1)] run(2) granted_exchange [OF run(4)] by simp
  have h: "honest sample_portal ?tr portal_world"
    using run(3) by (auto simp: honest_def portal_world_def session_call_def sample_portal_def split: if_splits)
  obtain a w1 where p: "proxyGraphQL sample_portal ann_request portal_world = (a, w1)" by fastforce
  obtain q where q: "io_sent w1 = io_sent portal_world @ [q]" "rget (rq_headers q) ''authorization'' = Some ''Bearer auth.jwt''"
    using p by (auto simp: proxyGraphQL_def getBearerToken_def http_fetch_def jwt_verify_def ann_defs getSecret_def
        session_call_def sfield_def json_string_def truthy_def str_of_def COOKIE_NAME_def)
  have "map fst (exchanges portal_world w1) = [q]" using q(1) by (simp add: exchanges_def)
  with proxy [OF tr h p] have all: "portal_run portal_ext sample_portal (Proxied ann_request [q] # ?tr)" by simp
  have "rget (br_headers ann_request) ''authorization'' = None" by (simp add: ann_request_def)
  with bearer_from_sign_in [OF all] q(2) obtain t where "signed_in portal_ext sample_portal ?tr (br_cookies ann_request) (JStr t)"
    "Some ''Bearer auth.jwt'' = Some (''Bearer '' @ t)" by auto
  then have "signed_in portal_ext sample_portal ?tr (br_cookies ann_request) (JStr ''auth.jwt'')" by simp
  with all q(2) show ?thesis by blast
qed

section \<open>From the sign-in to the BFF\<close>

text \<open>
  C29. The two halves of a sign-in fit together. With the cookie of a login that succeeded, while the
  cookie is valid, the portal knows the user as the auth service described it; a GraphQL request
  of that browser carries the session token of the auth service; and if the BFF's verifier
  accepts that token, the BFF serves the request as the user in its claims.
\<close>

theorem sign_in_reaches_bff:
  assumes login: "login_POST X P raw w = (Inr r, w')" "pr_cookie r = Some (CookieSet c)" "sk_value c \<noteq> []"
    and answer: "io_net w 0 (last (io_sent w')) = Inr res" "issued_token X res = Some (JStr t)" "js_trim t = t"
    and cookie: "\<And>secret claims. getSecret P = Inr secret \<Longrightarrow> sk_value c = pe_sign P secret claims \<Longrightarrow>
      io_jwt v 0 (session_call secret (sk_value c)) = Inr claims"
    and req: "rget (br_headers req) ''authorization'' = None" "rget (br_cookies req) COOKIE_NAME = Some (sk_value c)"
    and sent: "io_sent (snd (proxyGraphQL P req v)) = io_sent v @ [q]"
    and bff: "be_alg E t = Inr alg" "io_jwt b 0 (verify_call E t alg) = Inr claims"
  shows "(\<exists>session. fst (getSession P (br_cookies req) v) = Some session \<and>
      rget session ''sub'' = rget (issued_user X res) ''id'' \<and> rget session ''email'' = rget (issued_user X res) ''email'' \<and>
      rget session ''role'' = rget (issued_user X res) ''role'' \<and> rget session ''token'' = Some (JStr t)) \<and>
    fst (context_user X E (rget (rq_headers q) ''authorization'') b) = Some (user_of_claims X claims)"
proof -
  from login_grants [OF login(1, 2)] obtain session q0 res0
    where g: "granted X P w w' ''/auth/login'' (sk_value c) session q0 res0" by blast
  then have "res0 = res" using answer(1) by (auto simp: granted_def)
  then obtain secret where s: "getSecret P = Inr secret" "sk_value c = pe_sign P secret session" "js_truthy (JStr t)"
    "session = session_claims (session_user (issued_user X res) (JStr t)) (io_clock w 0) (io_clock w 1)"
    using g answer(2) by (auto simp: granted_def)
  have v: "io_jwt v 0 (session_call secret (sk_value c)) = Inr session" using cookie s(1, 2) .
  have session: "rget session ''sub'' = rget (issued_user X res) ''id''"
    "rget session ''email'' = rget (issued_user X res) ''email''" "rget session ''role'' = rget (issued_user X res) ''role''"
    "rget session ''token'' = Some (JStr t)"
    by (simp_all add: s(4) session_claims_def session_user_def rget_append rget_pick split: option.split)
  have "rget (rq_headers q) ''authorization'' = Some (''Bearer '' @ t)"
    using sent req login(3) s(1, 3) v session(4)
    by (auto simp: proxyGraphQL_def getBearerToken_def http_fetch_def jwt_verify_def Let_def sfield_def json_string_def
        truthy_def str_of_def)
  moreover have "js_lower ''Bearer '' = ''bearer ''" by code_simp
  then have "bearer_token (Some (''Bearer '' @ t)) = Some t"
    using answer(3) by (simp add: bearer_token_def js_lower_def starts_with_def)
  ultimately have "fst (context_user X E (rget (rq_headers q) ''authorization'') b) = Some (user_of_claims X claims)"
    using bff by (simp add: context_user_def jwt_verify_def)
  moreover have "fst (getSession P (br_cookies req) v) = Some session"
    using req(2) login(3) s(1) v by (simp add: getSession_def jwt_verify_def)
  ultimately show ?thesis using session by blast
qed

definition bff_of_ann :: bff_env where
  "bff_of_ann = sample_bff\<lparr>be_SESSION_SECRET := ''a-session-secret-of-32-characters''\<rparr>"

definition bff_world :: "mem io" where
  "bff_world = sample_io\<lparr>io_jwt := (\<lambda>_ c.
     if jc_token c = ''auth.jwt'' \<and> jc_issuer c = Some ''auth-service-session'' then Inr [(''uid'', JStr ''u1''), (''role'', JStr ''ADMIN'')]
     else Inl NonError)\<rparr>"

lemma sign_in_reaches_bff_witness:
  "\<exists>w' r c session (q :: http_req). login_POST portal_ext sample_portal ''in'' portal_world = (Inr r, w') \<and> pr_cookie r = Some (CookieSet c) \<and>
     fst (getSession sample_portal [(COOKIE_NAME, sk_value c)] portal_world) = Some session \<and>
     rget session ''sub'' = Some (JStr ''u1'') \<and>
     map_option au_id (fst (context_user portal_ext bff_of_ann (rget (rq_headers q) ''authorization'') bff_world)) = Some ''u1''"
proof -
  from ann_logs_in obtain r w' c q0 res where run: "login_POST portal_ext sample_portal ''in'' portal_world = (Inr r, w')"
    "pr_cookie r = Some (CookieSet c)" "sk_value c = ''cookie''"
    "granted portal_ext sample_portal portal_world w' ''/auth/login'' ''cookie'' ann_claims q0 res" by blast
  then have res: "io_net portal_world 0 (last (io_sent w')) = Inr res" by (simp add: granted_def)
  then have body: "rs_body res = ''ok''" by (auto simp: portal_world_def)
  then have t: "issued_token portal_ext res = Some (JStr ''auth.jwt'')" "rget (issued_user portal_ext res) ''id'' = Some (JStr ''u1'')"
    by (simp_all add: issued_token_def issued_user_def ann_defs json_obj_def)
  have trim: "js_trim ''auth.jwt'' = ''auth.jwt''" by code_simp
  have sign: "\<And>k claims. getSecret sample_portal = Inr k \<Longrightarrow> sk_value c = pe_sign sample_portal k claims \<Longrightarrow>
      io_jwt portal_world 0 (session_call k (sk_value c)) = Inr claims"
    using run(3) by (auto simp: sample_portal_def portal_world_def session_call_def split: if_splits)
  obtain q where q: "io_sent (snd (proxyGraphQL sample_portal ann_request portal_world)) = io_sent portal_world @ [q]"
    using proxy_sends by blast
  have b: "be_alg bff_of_ann ''auth.jwt'' = Inr (Some ''HS256'')"
    "io_jwt bff_world 0 (verify_call bff_of_ann ''auth.jwt'' (Some ''HS256'')) = Inr [(''uid'', JStr ''u1''), (''role'', JStr ''ADMIN'')]"
    by (simp_all add: bff_of_ann_def bff_world_def sample_bff_def verify_call_def truthy_def str_of_def starts_with_def)
  have jar: "rget (br_headers ann_request) ''authorization'' = None" "rget (br_cookies ann_request) COOKIE_NAME = Some (sk_value c)"
    using run(3) by (simp_all add: ann_request_def)
  have ne: "sk_value c \<noteq> []" using run(3) by simp
  note fits = sign_in_reaches_bff [OF run(1, 2) ne res t(1) trim sign jar q b]
  then obtain session where session: "fst (getSession sample_portal [(COOKIE_NAME, sk_value c)] portal_world) = Some session"
    "rget session ''sub'' = Some (JStr ''u1'')"
    using t(2) run(3) by (auto simp: ann_request_def)
  have "map_option au_id (fst (context_user portal_ext bff_of_ann (rget (rq_headers q) ''authorization'') bff_world)) = Some ''u1''"
    using fits by (auto simp: user_of_claims_def jget_def)
  with run(1, 2) session show ?thesis by blast
qed

section \<open>Following the redirects\<close>

text \<open>Opening a page: the middleware, then the guard of the dashboard; a redirect names the next page.\<close>

definition in_dashboard :: "string \<Rightarrow> bool" where
  "in_dashboard path = (path = ''/dashboard'' \<or> starts_with path ''/dashboard/'')"

definition sign_in_page :: "string \<Rightarrow> bool" where
  "sign_in_page path = (starts_with path ''/auth/login'' \<or> starts_with path ''/auth/register'')"

fun redirected :: "edge_answer \<Rightarrow> string + jobj option" where
  "redirected (RedirectTo path _) = Inl path"
| "redirected NextPage = Inr None"

definition open_page :: "portal_env \<Rightarrow> string \<Rightarrow> dict \<Rightarrow> 'd io \<Rightarrow> (string + jobj option) \<times> 'd io" where
  "open_page P path jar w =
     (case edge P path jar w of
        (RedirectTo p ps, w1) \<Rightarrow> (Inl p, w1)
      | (NextPage, w1) \<Rightarrow>
          if \<not> in_dashboard path then (Inr None, w1)
          else (case DashboardLayout P jar w1 of
             (Inl answer, w2) \<Rightarrow> (redirected answer, w2) | (Inr session, w2) \<Rightarrow> (Inr (Some session), w2)))"

fun browse :: "nat \<Rightarrow> portal_env \<Rightarrow> string \<Rightarrow> dict \<Rightarrow> 'd io \<Rightarrow> (string \<times> jobj option) option" where
  "browse 0 P path jar w = None"
| "browse (Suc n) P path jar w =
     (case open_page P path jar w of
        (Inl p, w1) \<Rightarrow> browse n P p jar w1 | (Inr session, w1) \<Rightarrow> Some (path, session))"

definition session_of :: "portal_env \<Rightarrow> dict \<Rightarrow> 'd io \<Rightarrow> jobj option" where
  "session_of P jar w = fst (getSession P jar w)"

text \<open>The verifier's answer does not change while the redirects are followed.\<close>

definition steady :: "'d io \<Rightarrow> bool" where
  "steady w \<longleftrightarrow> io_jwt w = (\<lambda>_. io_jwt w 0)"

lemma steady_shift: "steady w \<Longrightarrow> shift (io_jwt w) = io_jwt w"
  unfolding steady_def by (erule ssubst) (rule shift_const)

lemma jwt_verify_steady: "steady w \<Longrightarrow> jwt_verify c w = (io_jwt w 0 c, w)"
  using steady_shift [of w] by (simp add: jwt_verify_def)

lemma getSession_steady: "steady w \<Longrightarrow> snd (getSession P jar w) = w"
  by (simp add: getSession_def jwt_verify_steady split: option.split sum.split)

lemma authenticated_steady:
  assumes "steady w" and "getSecret P = Inr secret"
  shows "authenticated P jar w = (session_of P jar w \<noteq> None, w)"
proof -
  have "pe_SESSION_SECRET P = Some secret" using assms(2) by (auto simp: getSecret_def split: option.splits if_splits)
  then show ?thesis
    using assms by (simp add: authenticated_def session_of_def getSession_def jwt_verify_steady split: option.split sum.split)
qed

lemma paths_apart: "in_dashboard path \<Longrightarrow> \<not> sign_in_page path"
  by (auto simp: in_dashboard_def sign_in_page_def starts_with_prefix prefix_def)

lemma open_page_steady:
  assumes "steady w" and "getSecret P = Inr secret"
  shows "open_page P path jar w =
    ((case session_of P jar w of
        None \<Rightarrow> (if in_dashboard path then Inl ''/auth/login'' else Inr None)
      | Some s \<Rightarrow> (if in_dashboard path then Inr (Some s) else if sign_in_page path then Inl ''/dashboard'' else Inr None)), w)"
proof -
  have "matcher path \<Longrightarrow> starts_with path ''/dashboard'' \<longleftrightarrow> in_dashboard path"
    by (auto simp: matcher_def in_dashboard_def starts_with_prefix prefix_def)
  moreover have "in_dashboard path \<Longrightarrow> matcher path" "sign_in_page path \<Longrightarrow> matcher path"
    by (auto simp: matcher_def in_dashboard_def sign_in_page_def starts_with_prefix prefix_def)
  ultimately show ?thesis
    using authenticated_steady [OF assms, of jar] getSession_steady [OF assms(1), of P jar] paths_apart [of path]
    by (auto simp: open_page_def edge_def middleware_def DashboardLayout_def session_of_def sign_in_page_def Let_def
        split: option.split prod.split)
qed

text \<open>
  C30. Following the redirects ends, after one at most, and where it should: the pages of the dashboard
  are shown to a valid session alone and with that session, everyone else is brought to the
  sign-in page, and who has a session is brought from the sign-in pages to the dashboard.
\<close>

theorem browsing_settles:
  assumes "steady w" and "getSecret P = Inr secret"
  shows "browse (Suc (Suc n)) P path jar w = Some (case session_of P jar w of
      None \<Rightarrow> (if in_dashboard path then ''/auth/login'' else path, None)
    | Some s \<Rightarrow> (if in_dashboard path then (path, Some s)
                 else if sign_in_page path then (''/dashboard'', Some s) else (path, None)))"
proof -
  have "\<not> in_dashboard ''/auth/login''" "in_dashboard ''/dashboard''"
    by (simp_all add: in_dashboard_def starts_with_def)
  then show ?thesis by (simp add: open_page_steady [OF assms] split: option.split)
qed

lemma browsing_settles_witness:
  "browse 2 sample_portal ''/dashboard/keys'' [] portal_world = Some (''/auth/login'', None) \<and>
   browse 2 sample_portal ''/auth/login'' [(COOKIE_NAME, ''cookie'')] portal_world = Some (''/dashboard'', Some ann_claims)"
proof -
  have w: "steady portal_world" "getSecret sample_portal = Inr ''a-session-secret-of-32-characters''"
    by (simp_all add: steady_def portal_world_def sample_portal_def getSecret_def)
  have "session_of sample_portal [] portal_world = None"
    "session_of sample_portal [(COOKIE_NAME, ''cookie'')] portal_world = Some ann_claims"
    using w(2) by (simp_all add: session_of_def getSession_def jwt_verify_def session_call_def portal_world_def)
  then show ?thesis
    using browsing_settles [OF w, of 0] by (simp add: numeral_2_eq_2 in_dashboard_def sign_in_page_def starts_with_def)
qed

end
