(* ===== verification/PortalActions.thy ===== *)
theory PortalActions
  imports PortalPages
begin

text \<open>
  The controls of the portal that change something: \<open>components/api/SubscribeButton.tsx\<close>,
  \<open>components/dashboard/CreateAPIKeyButton.tsx\<close>, \<open>APIKeyCard.tsx\<close> and
  \<open>CancelSubscriptionButton.tsx\<close>. Each is a state, the events that its view offers, and what it does:
  mutations, which the hook of the client runs and answers once, and navigation. What they share
  is the locale \<open>single_flight\<close>: a mutation is not repeated before it is answered.
\<close>

section \<open>Actions\<close>

datatype portal_action = Mutate gql_document jobj | Navigate string | Refresh

fun is_mutation :: "portal_action \<Rightarrow> bool" where
  "is_mutation (Mutate d vars) = True"
| "is_mutation _ = False"

type_synonym gql_answer = "string + json"

fun run_events :: "('e \<Rightarrow> 's \<Rightarrow> 's \<times> portal_action list) \<Rightarrow> 'e list \<Rightarrow> 's \<Rightarrow> portal_action list" where
  "run_events step [] s = []"
| "run_events step (e # es) s = (case step e s of (s', acts) \<Rightarrow> acts @ run_events step es s')"

section \<open>Subscribing\<close>

record subscribe_props =
  sp_planId :: json
  sp_apiId :: json
  sp_orgId :: json
  sp_isLoggedIn :: bool

record subscribe_state =
  ss_showForm :: bool
  ss_done :: bool
  ss_loading :: bool

definition subscribe_start :: "bool \<Rightarrow> subscribe_state" where
  "subscribe_start alreadySubbed = \<lparr> ss_showForm = False, ss_done = alreadySubbed, ss_loading = False \<rparr>"

datatype subscribe_event = Login_click string | Open_form | Cancel_form | Confirm | Answered gql_answer

text \<open>The events that the view of a state offers; an answer comes while a mutation is under way.\<close>

fun subscribe_offers :: "subscribe_props \<Rightarrow> subscribe_state \<Rightarrow> subscribe_event \<Rightarrow> bool" where
  "subscribe_offers p s (Login_click path) = (\<not> ss_done s \<and> \<not> sp_isLoggedIn p)"
| "subscribe_offers p s Open_form = (\<not> ss_done s \<and> sp_isLoggedIn p \<and> \<not> ss_showForm s)"
| "subscribe_offers p s Cancel_form = (\<not> ss_done s \<and> sp_isLoggedIn p \<and> ss_showForm s)"
| "subscribe_offers p s Confirm =
     (\<not> ss_done s \<and> sp_isLoggedIn p \<and> ss_showForm s \<and> js_truthy (sp_orgId p) \<and> \<not> ss_loading s)"
| "subscribe_offers p s (Answered a) = ss_loading s"

definition subscribe_vars :: "subscribe_props \<Rightarrow> jobj" where
  "subscribe_vars p = [(''input'', JObj [(''orgId'', sp_orgId p), (''apiId'', sp_apiId p), (''planId'', sp_planId p)])]"

fun subscribe_do :: "subscribe_props \<Rightarrow> subscribe_event \<Rightarrow> subscribe_state \<Rightarrow> subscribe_state \<times> portal_action list" where
  "subscribe_do p (Login_click path) s = (s, [Navigate (''/auth/login?next='' @ path)])"
| "subscribe_do p Open_form s = (s\<lparr>ss_showForm := True\<rparr>, [])"
| "subscribe_do p Cancel_form s = (s\<lparr>ss_showForm := False\<rparr>, [])"
| "subscribe_do p Confirm s = (s\<lparr>ss_loading := True\<rparr>, [Mutate CREATE_SUBSCRIPTION (subscribe_vars p)])"
| "subscribe_do p (Answered (Inr data)) s =
     (s\<lparr>ss_done := True, ss_showForm := False, ss_loading := False\<rparr>, [Navigate ''/dashboard/subscriptions''])"
| "subscribe_do p (Answered (Inl e)) s = (s\<lparr>ss_loading := False\<rparr>, [])"

definition SubscribeButton :: "subscribe_props \<Rightarrow> subscribe_event \<Rightarrow> subscribe_state \<Rightarrow> subscribe_state \<times> portal_action list" where
  "SubscribeButton p e s = (if subscribe_offers p s e then subscribe_do p e s else (s, []))"

section \<open>Creating a key\<close>

record create_state =
  cs_open :: bool
  cs_name :: string
  cs_error :: "string option"
  cs_loading :: bool

definition create_start :: create_state where
  "create_start = \<lparr> cs_open = False, cs_name = [], cs_error = None, cs_loading = False \<rparr>"

datatype create_event = Open_dialog | Type_name string | Submit_name | Close_dialog | Created gql_answer

fun create_offers :: "create_state \<Rightarrow> create_event \<Rightarrow> bool" where
  "create_offers s Open_dialog = True"
| "create_offers s (Type_name v) = cs_open s"
| "create_offers s Submit_name = (cs_open s \<and> js_trim (cs_name s) \<noteq> [] \<and> \<not> cs_loading s)"
| "create_offers s Close_dialog = cs_open s"
| "create_offers s (Created a) = cs_loading s"

definition create_vars :: "json \<Rightarrow> string \<Rightarrow> jobj" where
  "create_vars subscriptionId name =
     [(''input'', JObj [(''subscriptionId'', subscriptionId), (''name'', JStr (js_trim name))])]"

text \<open>\<open>onCompleted\<close> does not look at the answer.\<close>

fun create_do :: "json \<Rightarrow> create_event \<Rightarrow> create_state \<Rightarrow> create_state \<times> portal_action list" where
  "create_do subId Open_dialog s = (s\<lparr>cs_open := True\<rparr>, [])"
| "create_do subId (Type_name v) s = (s\<lparr>cs_name := v\<rparr>, [])"
| "create_do subId Submit_name s = (s\<lparr>cs_loading := True\<rparr>, [Mutate CREATE_API_KEY (create_vars subId (cs_name s))])"
| "create_do subId Close_dialog s = (s\<lparr>cs_open := False\<rparr>, [])"
| "create_do subId (Created (Inr data)) s = (s\<lparr>cs_open := False, cs_name := [], cs_loading := False\<rparr>, [Refresh])"
| "create_do subId (Created (Inl msg)) s = (s\<lparr>cs_error := Some msg, cs_loading := False\<rparr>, [])"

definition CreateAPIKeyButton :: "json \<Rightarrow> create_event \<Rightarrow> create_state \<Rightarrow> create_state \<times> portal_action list" where
  "CreateAPIKeyButton subId e s = (if create_offers s e then create_do subId e s else (s, []))"

section \<open>Revoking a key, cancelling a subscription\<close>

text \<open>Both ask for a confirmation, which the one of the key can only do for a key that is not revoked.\<close>

record confirm_state =
  co_confirm :: bool
  co_loading :: bool

definition confirm_start :: confirm_state where
  "confirm_start = \<lparr> co_confirm = False, co_loading = False \<rparr>"

datatype confirm_event = Ask_first | Never_mind | Do_it | Settled gql_answer

fun confirm_offers :: "bool \<Rightarrow> confirm_state \<Rightarrow> confirm_event \<Rightarrow> bool" where
  "confirm_offers shown s Ask_first = (shown \<and> \<not> co_confirm s)"
| "confirm_offers shown s Never_mind = (shown \<and> co_confirm s)"
| "confirm_offers shown s Do_it = (shown \<and> co_confirm s \<and> \<not> co_loading s)"
| "confirm_offers shown s (Settled a) = co_loading s"

fun confirm_do :: "portal_action \<Rightarrow> confirm_event \<Rightarrow> confirm_state \<Rightarrow> confirm_state \<times> portal_action list" where
  "confirm_do act Ask_first s = (s\<lparr>co_confirm := True\<rparr>, [])"
| "confirm_do act Never_mind s = (s\<lparr>co_confirm := False\<rparr>, [])"
| "confirm_do act Do_it s = (s\<lparr>co_loading := True\<rparr>, [act])"
| "confirm_do act (Settled (Inr data)) s = (s\<lparr>co_loading := False\<rparr>, [Refresh])"
| "confirm_do act (Settled (Inl e)) s = (s\<lparr>co_loading := False\<rparr>, [])"

definition revoke_vars :: "json \<Rightarrow> json \<Rightarrow> jobj" where
  "revoke_vars subId keyId = [(''subscriptionId'', subId), (''id'', keyId)]"

definition RevokeButton :: "json \<Rightarrow> json \<Rightarrow> bool \<Rightarrow> confirm_event \<Rightarrow> confirm_state \<Rightarrow> confirm_state \<times> portal_action list" where
  "RevokeButton subId keyId isRevoked e s =
     (if confirm_offers (\<not> isRevoked) s e then confirm_do (Mutate REVOKE_API_KEY (revoke_vars subId keyId)) e s else (s, []))"

definition CancelSubscriptionButton :: "json \<Rightarrow> confirm_event \<Rightarrow> confirm_state \<Rightarrow> confirm_state \<times> portal_action list" where
  "CancelSubscriptionButton subId e s =
     (if confirm_offers True s e then confirm_do (Mutate CANCEL_SUBSCRIPTION [(''id'', subId)]) e s else (s, []))"

section \<open>One mutation at a time\<close>

text \<open>
  A control with a flag \<open>busy\<close> that is set by sending a mutation and cleared only by its answer,
  and that sends only while it is clear.
\<close>

locale single_flight =
  fixes step :: "'e \<Rightarrow> 's \<Rightarrow> 's \<times> portal_action list"
    and busy :: "'s \<Rightarrow> bool"
    and answers :: "'e \<Rightarrow> bool"
  assumes sends: "step e s = (s', acts) \<Longrightarrow> filter is_mutation acts \<noteq> [] \<Longrightarrow>
      \<not> busy s \<and> busy s' \<and> \<not> answers e \<and> length (filter is_mutation acts) = 1"
    and busy_until: "step e s = (s', acts) \<Longrightarrow> busy s \<Longrightarrow> \<not> answers e \<Longrightarrow> busy s'"
begin

lemma mutations_bounded:
  "length (filter is_mutation (run_events step es s)) + (if busy s then 1 else 0) \<le> 1 + length (filter answers es)"
proof (induction es arbitrary: s)
  case (Cons e es)
  obtain s' acts where st: "step e s = (s', acts)" by fastforce
  have "length (filter is_mutation acts) + (if busy s then 1 else 0) + (0 :: nat)
      \<le> (if busy s' then 1 else 0) + (if answers e then 1 else 0)"
    using sends [OF st] busy_until [OF st] by (cases "filter is_mutation acts = []") (auto split: if_splits)
  then show ?case using Cons.IH [of s'] st by (auto split: if_splits)
qed simp

text \<open>Between two mutations there is an answer.\<close>

lemma one_at_a_time: "length (filter is_mutation (run_events step es s)) \<le> 1 + length (filter answers es)"
  using mutations_bounded [of es s] by simp

end

fun is_answered :: "subscribe_event \<Rightarrow> bool" where
  "is_answered (Answered a) = True"
| "is_answered _ = False"

fun is_created :: "create_event \<Rightarrow> bool" where
  "is_created (Created a) = True"
| "is_created _ = False"

fun is_settled :: "confirm_event \<Rightarrow> bool" where
  "is_settled (Settled a) = True"
| "is_settled _ = False"

interpretation subscribing: single_flight "SubscribeButton p" ss_loading is_answered for p
proof
  fix e s s' acts
  assume st: "SubscribeButton p e s = (s', acts)"
  show "filter is_mutation acts \<noteq> [] \<Longrightarrow> \<not> ss_loading s \<and> ss_loading s' \<and> \<not> is_answered e \<and> length (filter is_mutation acts) = 1"
    using st by (cases "(p, e, s)" rule: subscribe_do.cases) (auto simp: SubscribeButton_def split: if_splits)
  show "ss_loading s \<Longrightarrow> \<not> is_answered e \<Longrightarrow> ss_loading s'"
    using st by (cases "(p, e, s)" rule: subscribe_do.cases) (auto simp: SubscribeButton_def split: if_splits)
qed

interpretation creating: single_flight "CreateAPIKeyButton subId" cs_loading is_created for subId
proof
  fix e s s' acts
  assume st: "CreateAPIKeyButton subId e s = (s', acts)"
  show "filter is_mutation acts \<noteq> [] \<Longrightarrow> \<not> cs_loading s \<and> cs_loading s' \<and> \<not> is_created e \<and> length (filter is_mutation acts) = 1"
    using st by (cases "(subId, e, s)" rule: create_do.cases) (auto simp: CreateAPIKeyButton_def split: if_splits)
  show "cs_loading s \<Longrightarrow> \<not> is_created e \<Longrightarrow> cs_loading s'"
    using st by (cases "(subId, e, s)" rule: create_do.cases) (auto simp: CreateAPIKeyButton_def split: if_splits)
qed

lemma confirming:
  assumes "(if confirm_offers shown s e then confirm_do (Mutate d vars) e s else (s, [])) = (s', acts)"
  shows "filter is_mutation acts \<noteq> [] \<Longrightarrow> \<not> co_loading s \<and> co_loading s' \<and> \<not> is_settled e \<and> length (filter is_mutation acts) = 1"
    and "co_loading s \<Longrightarrow> \<not> is_settled e \<Longrightarrow> co_loading s'"
  using assms by (cases "(Mutate d vars, e, s)" rule: confirm_do.cases; auto split: if_splits)+

interpretation revoking: single_flight "RevokeButton subId keyId isRevoked" co_loading is_settled for subId keyId isRevoked
  by unfold_locales (auto simp: RevokeButton_def dest: confirming)

interpretation cancelling: single_flight "CancelSubscriptionButton subId" co_loading is_settled for subId
  by unfold_locales (auto simp: CancelSubscriptionButton_def dest: confirming)

end
