(* ===== verification/PortalPagesProps.thy ===== *)
theory PortalPagesProps
  imports PortalActions
begin

text \<open>
  What the pages of the portal make of the answers of the BFF: which of them render whatever the
  answer is, which never do, and that a new key is shown to nobody; and what the controls send.
\<close>

section \<open>A client that answers by the schema\<close>

definition conforms :: "bff_client \<Rightarrow> bool" where
  "conforms client \<longleftrightarrow> (\<forall>hs d vars data. client hs d vars = Inr data \<longrightarrow> document_answer_ok d data)"

lemma ask_conforms: "conforms client \<Longrightarrow> ask X client session d vars = Some data \<Longrightarrow> document_answer_ok d data"
  by (auto simp: ask_def conforms_def split: sum.splits)

lemmas document_defs = document_answer_ok_def root_answer_ok_def query_def mutation_def sel_def node_def

lemma subscription_nodes_type:
  "field_type ''SubscriptionConnection'' ''nodes'' = Some (NonNull (ListOf (NonNull (Named ''Subscription''))))"
  "field_type ''Subscription'' ''apiKeys'' = Some (NonNull (ListOf (NonNull (Named ''APIKey''))))"
  "field_type ''APIConnection'' ''nodes'' = Some (NonNull (ListOf (NonNull (Named ''API''))))"
  "field_type ''API'' ''tags'' = Some (NonNull (ListOf (NonNull (Named ''String''))))"
  "field_type ''APIConnection'' ''pageInfo'' = Some (NonNull (Named ''PageInfo''))"
  by code_simp+

lemma root_types:
  "rget Query_fields ''subscriptions'' = Some (root [(''orgId'', Named ''ID''), (''apiId'', Named ''ID''),
     (''status'', Named ''SubscriptionStatus''), (''page'', Named ''Int''), (''limit'', Named ''Int'')]
     (NonNull (Named ''SubscriptionConnection'')))"
  "rget Query_fields ''subscription'' = Some (root [(''id'', NonNull (Named ''ID''))] (Named ''Subscription''))"
  "rget Query_fields ''plans'' = Some (root [(''isPublic'', Named ''Boolean'')] (NonNull (ListOf (NonNull (Named ''Plan'')))))"
  "rget Query_fields ''apis'' = Some (root [(''orgId'', Named ''ID''), (''status'', Named ''APIStatus''), (''page'', Named ''Int''),
     (''limit'', Named ''Int'')] (NonNull (Named ''APIConnection'')))"
  by (simp_all add: Query_fields_def)

lemma map_result_objs [simp]: "map_result obj_of (map JObj objs) = Inr objs"
  by (induction objs) (simp_all add: sum_bind_def obj_of_def json_obj_def)

lemma map_result_total: "(\<And>x. x \<in> set xs \<Longrightarrow> \<exists>y. f x = Inr y) \<Longrightarrow> \<exists>ys. map_result f xs = Inr ys"
proof (induction xs)
  case (Cons x xs)
  obtain y where "f x = Inr y" using Cons.prems [of x] by auto
  moreover obtain ys where "map_result f xs = Inr ys" using Cons by auto
  ultimately show ?case by (simp add: sum_bind_def)
qed simp

text \<open>The subscriptions of an answer are objects, and their keys are lists of objects.\<close>

definition keyed :: "jobj \<Rightarrow> bool" where
  "keyed sub \<longleftrightarrow> (\<exists>keys. rget sub ''apiKeys'' = Some (JArr (map JObj keys)))"

lemma keyed_member:
  assumes "members_ok ''Subscription'' ss sub" and "Field ''apiKeys'' (Some ks) \<in> set ss"
  shows "keyed sub"
proof -
  from members_get [OF assms subscription_nodes_type(2)] obtain v where
    "rget sub ''apiKeys'' = Some v" "answer_ok (NonNull (ListOf (NonNull (Named ''APIKey'')))) ks v" by blast
  with answer_objects [of "''APIKey''" ks v] show ?thesis by (auto simp: keyed_def simp del: answer_ok.simps)
qed

lemma subscriptions_shape:
  assumes "conforms client"
  shows "\<exists>subs. getSubscriptions X client session = JArr (map JObj subs) \<and> (\<forall>sub \<in> set subs. keyed sub)"
proof (cases "ask X client (Some session) GET_MY_SUBSCRIPTIONS []")
  case (Some data)
  from ask_conforms [OF assms Some] obtain obj conn ks where data: "data = JObj obj" "rget obj ''subscriptions'' = Some conn"
    "answer_ok (NonNull (Named ''SubscriptionConnection''))
      [Field ''nodes'' (Some (leaves [''id'', ''status'', ''createdAt''] @ [Field ''plan'' (Some (leaves [''id'', ''name''])),
         Field ''api'' (Some (leaves [''id'', ''name'', ''basePath'', ''version''])), Field ''apiKeys'' (Some ks)]))] conn"
    by (auto simp: GET_MY_SUBSCRIPTIONS_def document_defs root_types root_def simp del: answer_ok.simps
        split: json.splits option.splits)
  let ?ss = "leaves [''id'', ''status'', ''createdAt''] @ [Field ''plan'' (Some (leaves [''id'', ''name''])),
    Field ''api'' (Some (leaves [''id'', ''name'', ''basePath'', ''version''])), Field ''apiKeys'' (Some ks)]"
  from data(3) obtain c where c: "conn = JObj c" "members_ok ''SubscriptionConnection'' [Field ''nodes'' (Some ?ss)] c"
    by (auto split: json.splits)
  from members_get [OF c(2) _ subscription_nodes_type(1)] obtain v where
    v: "rget c ''nodes'' = Some v" "answer_ok (NonNull (ListOf (NonNull (Named ''Subscription'')))) ?ss v" by auto
  from answer_objects [OF v(2)] obtain subs where subs: "v = JArr (map JObj subs)"
    "list_all (\<lambda>obj. members_ok ''Subscription'' ?ss obj \<and> only_selected ?ss obj) subs" by blast
  have "\<forall>sub \<in> set subs. keyed sub"
    using subs(2) keyed_member [of ?ss _ ks] by (auto simp: list_all_iff)
  then show ?thesis
    using Some data(1, 2) c(1) v(1) subs(1)
    by (auto simp: getSubscriptions_def js_opt_def coalesce_def known_def json_obj_def)
qed (auto simp: getSubscriptions_def js_opt_def coalesce_def known_def intro: exI [of _ "[]"])

lemma keyed_items: "keyed sub \<Longrightarrow> \<exists>keys. opt_items (rget sub ''apiKeys'') = map JObj keys"
  by (auto simp: keyed_def opt_items_def)

lemma rows_total:
  assumes "keyed sub"
  shows "\<exists>row. index_row_of X sub = Inr row" "\<exists>row. sub_row_of X sub = Inr row"
  using keyed_items [OF assms] by (auto simp: index_row_of_def sub_row_of_def sum_bind_def Let_def take_map)

lemma key_cards_total: "\<exists>cards. map_result (APIKeyCard X revealed) (map JObj keys) = Inr cards"
  by (rule map_result_total) (auto simp: APIKeyCard_def sum_bind_def obj_of_def Let_def)

lemma detail_keys:
  assumes "conforms client"
    and "js_opt (ask X client session GET_SUBSCRIPTION_DETAIL vars) ''subscription'' = Some found" and "js_truthy found"
  shows "keyed (json_obj found)"
proof -
  from assms(2) obtain data where data: "ask X client session GET_SUBSCRIPTION_DETAIL vars = Some data"
    "rget (json_obj data) ''subscription'' = Some found" by (auto simp: js_opt_def split: option.splits)
  let ?ks = "leaves [''id'', ''name'', ''keyPrefix'', ''plainKey'', ''status'', ''createdAt'', ''lastUsedAt'', ''subscriptionId'']"
  let ?ss = "leaves [''id'', ''status'', ''createdAt'', ''updatedAt''] @
    [Field ''plan'' (Some (leaves [''id'', ''name'', ''description'', ''rpmLimit'', ''rphLimit'', ''rpdLimit''])),
     Field ''api'' (Some (leaves [''id'', ''name'', ''basePath'', ''version'', ''description''])), Field ''apiKeys'' (Some ?ks)]"
  from ask_conforms [OF assms(1) data(1)] data(2) have "answer_ok (Named ''Subscription'') ?ss found"
    by (auto simp: GET_SUBSCRIPTION_DETAIL_def document_defs root_types root_def json_obj_def simp del: answer_ok.simps
        split: json.splits option.splits)
  with answer_object [of "''Subscription''" ?ss found] assms(3) obtain obj
    where "found = JObj obj" "members_ok ''Subscription'' ?ss obj" by (auto simp del: answer_ok.simps)
  with keyed_member [of ?ss obj ?ks] show ?thesis by (simp add: json_obj_def)
qed

lemma plans_shape:
  assumes "conforms client" and "getAPI X client i session = Some api"
  shows "\<exists>plans. rget api ''plans'' = Some (JArr (map JObj plans))"
proof -
  from assms(2) obtain data where data: "ask X client session GET_API_DETAIL [(''id'', JStr i)] = Some data"
    "api = rset ''plans'' (coalesce (js_opt (Some data) ''plans'') (JArr [])) (json_obj (the (js_opt (Some data) ''api'')))"
    by (auto simp: getAPI_def Let_def js_opt_def holds_def split: if_splits option.splits)
  from ask_conforms [OF assms(1) data(1)] obtain obj ss v where "data = JObj obj" "rget obj ''plans'' = Some v"
    "answer_ok (NonNull (ListOf (NonNull (Named ''Plan'')))) ss v"
    by (auto simp: GET_API_DETAIL_def document_defs root_types root_def simp del: answer_ok.simps split: json.splits option.splits)
  with answer_objects [of "''Plan''" ss v] data(2) show ?thesis
    by (auto simp: js_opt_def coalesce_def known_def json_obj_def simp del: answer_ok.simps)
qed

section \<open>Pages that always render\<close>

text \<open>
  C32. The pages of the dashboard and the page of an API never fail: whatever the BFF answers by its
  schema, and also when it refuses or cannot be reached, each of them renders, provided that the
  session of a user who is signed in has a name.
\<close>

theorem pages_render:
  assumes "conforms client" and "\<And>s. session = Some s \<Longrightarrow> \<exists>n. rget s ''name'' = Some (JStr n)"
  shows "(\<exists>v. DashboardPage X client session = Inr v) \<and> (\<exists>v. APIKeysIndexPage X client session = Inr v) \<and>
    (\<exists>v. SubscriptionsPage X client session = Inr v) \<and> (\<exists>v. KeysPage X loc client subId session = Inr v) \<and>
    (\<exists>v. APIDetailPage X loc client apiId session = Inr v)"
proof -
  have lists: "(\<exists>v. DashboardPage X client session = Inr v) \<and> (\<exists>v. APIKeysIndexPage X client session = Inr v) \<and>
    (\<exists>v. SubscriptionsPage X client session = Inr v)"
  proof (cases session)
    case (Some s)
    from subscriptions_shape [OF assms(1)] obtain subs where subs:
      "getSubscriptions X client s = JArr (map JObj subs)" "\<forall>sub \<in> set subs. keyed sub" by blast
    have "\<exists>rows. map_result (index_row_of X) subs = Inr rows" "\<exists>rows. map_result (sub_row_of X) subs = Inr rows"
      using subs(2) rows_total by (auto intro!: map_result_total)
    with subs(1) assms(2) [OF Some] Some show ?thesis
      by (auto simp: DashboardPage_def APIKeysIndexPage_def SubscriptionsPage_def first_name_def array_of_def sum_bind_def)
  qed (simp add: DashboardPage_def APIKeysIndexPage_def SubscriptionsPage_def)
  have "\<exists>v. KeysPage X loc client subId session = Inr v"
  proof (cases session)
    case (Some s)
    let ?found = "js_opt (ask X client (Some s) GET_SUBSCRIPTION_DETAIL [(''id'', JStr subId)]) ''subscription''"
    show ?thesis
    proof (cases "holds ?found")
      case True
      then obtain found where found: "?found = Some found" "js_truthy found" by (auto simp: holds_def split: option.splits)
      from detail_keys [OF assms(1) this] obtain keys where keys: "rget (json_obj found) ''apiKeys'' = Some (JArr (map JObj keys))"
        by (auto simp: keyed_def)
      from key_cards_total [of X False keys] obtain cards where
        cards: "map_result (APIKeyCard X False) (map JObj keys) = Inr cards" by blast
      show ?thesis using keys cards found Some by (simp add: KeysPage_def array_of_def sum_bind_def Let_def holds_def)
    qed (simp add: KeysPage_def Some)
  qed (simp add: KeysPage_def)
  moreover have "\<exists>v. APIDetailPage X loc client apiId session = Inr v"
  proof (cases "getAPI X client apiId session")
    case (Some api)
    from plans_shape [OF assms(1) Some] obtain plans where plans: "rget api ''plans'' = Some (JArr (map JObj plans))" by blast
    have "\<exists>cards. map_result (\<lambda>(idx, p). PlanCard loc idx p) (List.enumerate 0 (map JObj plans)) = Inr cards"
      by (rule map_result_total)
        (auto simp: in_set_enumerate_eq PlanCard_def sum_bind_def obj_of_def Let_def split: prod.split)
    with Some plans show ?thesis by (auto simp: APIDetailPage_def opt_items_def sum_bind_def)
  qed (simp add: APIDetailPage_def)
  ultimately show ?thesis using lists by blast
qed

section \<open>The catalogue\<close>

lemma catalogue_shape:
  assumes "conforms client" and "ask X client session GET_PUBLIC_APIS vars = Some data"
  shows "\<exists>obj conn info apis. data = JObj obj \<and> rget obj ''apis'' = Some (JObj conn) \<and>
    rget conn ''nodes'' = Some (JArr (map JObj apis)) \<and> rget conn ''pageInfo'' = Some (JObj info) \<and>
    (\<forall>a \<in> set apis. rget a ''organization'' = None)"
proof -
  let ?as = "leaves [''id'', ''name'', ''version'', ''basePath'', ''description'', ''status'', ''tags''] @
    [Field ''org'' (Some (leaves [''id'', ''name'']))]"
  let ?is = "leaves [''page'', ''limit'', ''total'', ''totalPages'', ''hasNext'']"
  let ?ss = "[Field ''nodes'' (Some ?as), Field ''pageInfo'' (Some ?is)]"
  from ask_conforms [OF assms] obtain obj v where obj: "data = JObj obj" "rget obj ''apis'' = Some v"
    "answer_ok (NonNull (Named ''APIConnection'')) ?ss v"
    by (auto simp: GET_PUBLIC_APIS_def document_defs root_types root_def simp del: answer_ok.simps
        split: json.splits option.splits)
  from obj(3) obtain conn where conn: "v = JObj conn" "members_ok ''APIConnection'' ?ss conn" by (auto split: json.splits)
  from members_get [OF conn(2) _ subscription_nodes_type(3)] obtain nodes where
    nodes: "rget conn ''nodes'' = Some nodes" "answer_ok (NonNull (ListOf (NonNull (Named ''API'')))) ?as nodes" by auto
  from members_get [OF conn(2) _ subscription_nodes_type(5)] obtain info where
    info: "rget conn ''pageInfo'' = Some info" "answer_ok (NonNull (Named ''PageInfo'')) ?is info" by auto
  from info(2) have "\<exists>i. info = JObj i" by (auto split: json.splits)
  moreover from answer_objects [OF nodes(2)] obtain apis where apis: "nodes = JArr (map JObj apis)"
    "list_all (\<lambda>a. members_ok ''API'' ?as a \<and> only_selected ?as a) apis" by blast
  moreover have "rget a ''organization'' = None" if "a \<in> set apis" for a
    by (rule not_selected [of ?as]) (use apis(2) that in \<open>auto simp: list_all_iff leaves_def\<close>)
  ultimately show ?thesis using obj conn(1) nodes(1) info(1) by blast
qed

lemma card_throws: "rget a ''organization'' = None \<Longrightarrow> APICard X (JObj a) = Inl TypeError"
  by (auto simp: APICard_def sum_bind_def obj_of_def json_obj_def js_get_def array_of_def split: option.splits json.splits)

lemma cards_throw:
  "(\<forall>a \<in> set apis. rget a ''organization'' = None) \<Longrightarrow>
    map_result (APICard X) (map JObj apis) = (if apis = [] then Inr [] else Inl TypeError)"
  by (cases apis) (simp_all add: card_throws sum_bind_def)

definition listed :: "json option \<Rightarrow> json list" where
  "listed data = opt_items (js_opt (js_opt data ''apis'') ''nodes'')"

text \<open>
  C33. The catalogue and the home page show no API: the card of an API reads the name of its
  \<open>organization\<close>, but the query asks for \<open>org\<close>, so as soon as the BFF answers with a single API the
  pages throw, and they render only if there is nothing to show.
\<close>

theorem catalogue_never_shows:
  assumes "conforms client"
  shows "(let found = listed (ask X client session GET_PUBLIC_APIS (catalogue_vars params))
          in if found = [] then \<exists>v. APIsPage X client params session = Inr v \<and> cv_cards v = []
             else APIsPage X client params session = Inl TypeError) \<and>
    (HomePage X client session = Inr [] \<or> HomePage X client session = Inl TypeError)"
proof -
  let ?asked = "\<lambda>vars. ask X client session GET_PUBLIC_APIS vars"
  have "HomePage X client session = Inr [] \<or> HomePage X client session = Inl TypeError"
  proof (cases "?asked [(''limit'', JNum 6), (''page'', JNum 1), (''filter'', JObj [(''status'', JStr ''ACTIVE'')])]")
    case (Some data)
    from catalogue_shape [OF assms Some] Some show ?thesis
      by (auto simp: HomePage_def js_opt_def coalesce_def known_def json_obj_def array_of_def sum_bind_def cards_throw
          split: if_splits)
  qed (simp add: HomePage_def js_opt_def coalesce_def known_def array_of_def sum_bind_def)
  moreover have "let found = listed (?asked (catalogue_vars params))
      in if found = [] then \<exists>v. APIsPage X client params session = Inr v \<and> cv_cards v = []
         else APIsPage X client params session = Inl TypeError"
  proof (cases "?asked (catalogue_vars params)")
    case None
    then show ?thesis
      by (simp add: APIsPage_def getAPIs_def no_apis_def listed_def js_opt_def opt_items_def coalesce_def known_def json_obj_def
          obj_of_def js_get_def array_of_def sum_bind_def Let_def)
  next
    case (Some data)
    from catalogue_shape [OF assms Some] Some show ?thesis
      by (auto simp: APIsPage_def getAPIs_def listed_def js_opt_def opt_items_def coalesce_def known_def json_obj_def
          obj_of_def js_get_def array_of_def sum_bind_def Let_def cards_throw)
  qed
  ultimately show ?thesis by blast
qed

text \<open>A BFF with one API, to which Ann has subscribed, and one key.\<close>

definition shop_answers :: "(gql_document \<times> json) list" where
  "shop_answers =
     [(GET_PUBLIC_APIS, JObj [(''apis'', JObj
        [(''nodes'', JArr [JObj [(''id'', JStr ''a1''), (''name'', JStr ''shop''), (''version'', JStr ''1.0''),
           (''basePath'', JStr ''/shop''), (''description'', JNull), (''status'', JStr ''ACTIVE''), (''tags'', JArr [JStr ''REST'']),
           (''org'', JNull)]]),
         (''pageInfo'', JObj [(''page'', JNum 1), (''limit'', JNum 12), (''total'', JNum 1), (''totalPages'', JNum 1),
           (''hasNext'', JBool False)])])]),
      (GET_MY_SUBSCRIPTIONS, JObj [(''subscriptions'', JObj
        [(''nodes'', JArr [JObj [(''id'', JStr ''s1''), (''status'', JStr ''ACTIVE''), (''createdAt'', JStr ''2026-01-01''),
           (''plan'', JNull), (''api'', JNull),
           (''apiKeys'', JArr [JObj [(''id'', JStr ''k1''), (''name'', JStr ''ios''), (''keyPrefix'', JStr ''xca_12''),
              (''status'', JStr ''ACTIVE''), (''createdAt'', JStr ''2026-01-01''), (''lastUsedAt'', JNull),
              (''subscriptionId'', JStr ''s1'')]])]])])])]"

definition shop_client :: bff_client where
  "shop_client hs d vars = (case rget shop_answers d of None \<Rightarrow> Inl NonError | Some data \<Rightarrow> Inr data)"

lemma shop_answers_ok: "list_all (\<lambda>(d, data). document_answer_ok d data) shop_answers"
  by code_simp

lemma shop_conforms: "conforms shop_client"
  using shop_answers_ok
  by (auto simp: conforms_def shop_client_def list_all_iff rget_def dest!: map_of_SomeD split: option.splits)

lemma pages_render_witness:
  "\<exists>v. DashboardPage sample_ext shop_client (Some [(''name'', JStr ''Ann Lee'')]) = Inr (Shown v) \<and>
    da_greeting v = ''Ann'' \<and> da_keys v = 1 \<and>
    (\<exists>k. KeysPage sample_ext (\<lambda>_. []) shop_client ''s1'' (Some [(''name'', JStr ''Ann Lee'')]) = Inr k)"
proof -
  have "\<exists>n. rget s ''name'' = Some (JStr n)" if "Some [(''name'', JStr ''Ann Lee'')] = Some s" for s
    using that by auto
  from pages_render [OF shop_conforms this, where X = sample_ext and loc = "\<lambda>_. []" and subId = "''s1''"]
  obtain v where v: "DashboardPage sample_ext shop_client (Some [(''name'', JStr ''Ann Lee'')]) = Inr v"
    "\<exists>k. KeysPage sample_ext (\<lambda>_. []) shop_client ''s1'' (Some [(''name'', JStr ''Ann Lee'')]) = Inr k" by blast
  have "map_sum id (\<lambda>p. case p of Shown d \<Rightarrow> (da_greeting d, da_keys d) | _ \<Rightarrow> ([], 0))
      (DashboardPage sample_ext shop_client (Some [(''name'', JStr ''Ann Lee'')])) = Inr (''Ann'', 1)"
    by code_simp
  with v show ?thesis by (auto split: page_of.splits)
qed

lemma catalogue_never_shows_witness:
  "length (listed (ask sample_ext shop_client None GET_PUBLIC_APIS (catalogue_vars []))) = 1 \<and>
    APIsPage sample_ext shop_client [] None = Inl TypeError \<and> HomePage sample_ext shop_client None = Inl TypeError"
proof -
  have "listed (ask sample_ext shop_client None GET_PUBLIC_APIS (catalogue_vars [])) \<noteq> []"
    "length (listed (ask sample_ext shop_client None GET_PUBLIC_APIS (catalogue_vars []))) = 1" by code_simp+
  moreover have "HomePage sample_ext shop_client None \<noteq> Inr []"
  proof -
    have "isl (HomePage sample_ext shop_client None)" by code_simp
    then show ?thesis by auto
  qed
  ultimately show ?thesis
    using catalogue_never_shows [OF shop_conforms, where X = sample_ext and session = None and params = "[]"]
    by (simp add: Let_def)
qed

section \<open>A new key\<close>

text \<open>
  The service gives the key itself only in the answer to its creation, and lists it without. That
  answer is dropped, and what the page of the keys then shows is the prefix.
\<close>

lemma creation_answer_dropped:
  "CreateAPIKeyButton subId (Created (Inr data)) s = CreateAPIKeyButton subId (Created (Inr data')) s"
  by (simp add: CreateAPIKeyButton_def)

lemma listed_key_masked:
  assumes "mapKey (JObj k) = Inr key" and "known (rget k ''key'') = None"
  shows "\<exists>card. APIKeyCard X revealed (JObj key) = Inr card \<and> (\<exists>p. kc_shown card = Masked p) \<and> \<not> kc_copy card"
proof -
  obtain st where "upper_field (json_obj (JObj k)) ''status'' = Inr st"
    using assms(1) by (cases "upper_field (json_obj (JObj k)) ''status''") (simp_all add: mapKey_def Let_def sum_bind_def)
  with assms(1) have "rget key ''plainKey'' = rget k ''key''"
    by (auto simp: mapKey_def Let_def sum_bind_def json_obj_def rget_append rget_pick)
  with assms(2) have "known (rget key ''plainKey'') = None" by simp
  then show ?thesis by (auto simp: APIKeyCard_def sum_bind_def obj_of_def json_obj_def Let_def holds_def)
qed

text \<open>An error of a creation is shown again when the dialog is opened after a creation that succeeded.\<close>

lemma stale_error:
  assumes "cs_error s = Some msg" and "cs_loading s"
  shows "cs_error (fst (CreateAPIKeyButton subId Open_dialog (fst (CreateAPIKeyButton subId (Created (Inr data)) s)))) = Some msg"
  using assms by (simp add: CreateAPIKeyButton_def)

section \<open>What the controls send\<close>

definition typed_action :: "portal_action \<Rightarrow> bool" where
  "typed_action act = (case act of Mutate d vars \<Rightarrow> d \<in> set DOCUMENTS \<and> vars_ok d vars | _ \<Rightarrow> True)"

lemma run_typed: "(\<And>e s. list_all P (snd (step e s))) \<Longrightarrow> list_all P (run_events step es s)"
proof (induction es arbitrary: s)
  case (Cons e es)
  from Cons.prems [of e s] Cons.IH [OF Cons.prems] show ?case by (cases "step e s") simp
qed simp

lemma subscribe_typed: "vars_ok CREATE_SUBSCRIPTION [(''input'', JObj [(''orgId'', JStr org), (''apiId'', JStr api), (''planId'', JStr plan)])]"
  by (simp add: vars_ok_def CREATE_SUBSCRIPTION_def mutation_def INPUT_TYPES_def input_ok_def Let_def scalar_ok_def)

lemma create_typed: "vars_ok CREATE_API_KEY [(''input'', JObj [(''subscriptionId'', JStr sub), (''name'', JStr n)])]"
  by (simp add: vars_ok_def CREATE_API_KEY_def mutation_def INPUT_TYPES_def input_ok_def Let_def scalar_ok_def gql_ok.simps(2))

lemma revoke_typed: "vars_ok REVOKE_API_KEY [(''subscriptionId'', JStr sub), (''id'', JStr k)]"
  by (simp add: vars_ok_def REVOKE_API_KEY_def mutation_def INPUT_TYPES_def Let_def scalar_ok_def)

lemma cancel_typed: "vars_ok CANCEL_SUBSCRIPTION [(''id'', JStr sub)]"
  by (simp add: vars_ok_def CANCEL_SUBSCRIPTION_def mutation_def INPUT_TYPES_def Let_def scalar_ok_def)

lemma confirm_step_typed:
  "typed_action act \<Longrightarrow> list_all typed_action (snd (if confirm_offers shown s e then confirm_do act e s else (s, [])))"
  by (cases "(act, e, s)" rule: confirm_do.cases) (auto simp: typed_action_def)

text \<open>
  C34. The controls of the portal send one mutation at a time and only what the schema takes: however
  often they are clicked, a control sends nothing again before the last mutation was answered, and
  each mutation is one of the documents, with variables of the declared types.
\<close>

theorem mutations_once_and_typed:
  assumes "sp_planId p = JStr plan" and "sp_apiId p = JStr api" and "sp_orgId p = JStr org"
  shows "(let acts = run_events (SubscribeButton p) es1 (subscribe_start subbed)
          in length (filter is_mutation acts) \<le> 1 + length (filter is_answered es1) \<and> list_all typed_action acts) \<and>
    (let acts = run_events (CreateAPIKeyButton (JStr sub)) es2 create_start
     in length (filter is_mutation acts) \<le> 1 + length (filter is_created es2) \<and> list_all typed_action acts) \<and>
    (let acts = run_events (RevokeButton (JStr sub) (JStr key) revoked) es3 confirm_start
     in length (filter is_mutation acts) \<le> 1 + length (filter is_settled es3) \<and> list_all typed_action acts) \<and>
    (let acts = run_events (CancelSubscriptionButton (JStr sub)) es4 confirm_start
     in length (filter is_mutation acts) \<le> 1 + length (filter is_settled es4) \<and> list_all typed_action acts)"
proof -
  have "list_all typed_action (snd (SubscribeButton p e s))" for e s
    using assms subscribe_typed
    by (cases "(p, e, s)" rule: subscribe_do.cases)
      (auto simp: SubscribeButton_def typed_action_def subscribe_vars_def DOCUMENTS_def)
  moreover have "list_all typed_action (snd (CreateAPIKeyButton (JStr sub) e s))" for e s
    using create_typed
    by (cases "(JStr sub, e, s)" rule: create_do.cases)
      (auto simp: CreateAPIKeyButton_def typed_action_def create_vars_def DOCUMENTS_def)
  moreover have "list_all typed_action (snd (RevokeButton (JStr sub) (JStr key) revoked e s))" for e s
    unfolding RevokeButton_def by (rule confirm_step_typed) (simp add: typed_action_def revoke_vars_def revoke_typed DOCUMENTS_def)
  moreover have "list_all typed_action (snd (CancelSubscriptionButton (JStr sub) e s))" for e s
    unfolding CancelSubscriptionButton_def by (rule confirm_step_typed) (simp add: typed_action_def cancel_typed DOCUMENTS_def)
  ultimately show ?thesis
    unfolding Let_def by (intro conjI run_typed subscribing.one_at_a_time creating.one_at_a_time revoking.one_at_a_time
        cancelling.one_at_a_time)
qed

lemma mutations_once_and_typed_witness:
  "let p = \<lparr> sp_planId = JStr ''p1'', sp_apiId = JStr ''a1'', sp_orgId = JStr ''o1'', sp_isLoggedIn = True \<rparr>;
       acts = run_events (SubscribeButton p) [Open_form, Confirm, Confirm] (subscribe_start False)
   in length (filter is_mutation acts) = 1 \<and> list_all typed_action acts"
proof -
  let ?p = "\<lparr> sp_planId = JStr ''p1'', sp_apiId = JStr ''a1'', sp_orgId = JStr ''o1'', sp_isLoggedIn = True \<rparr>"
  have "list_all typed_action (run_events (SubscribeButton ?p) [Open_form, Confirm, Confirm] (subscribe_start False))"
    using mutations_once_and_typed [of ?p "''p1''" "''a1''" "''o1''" "[Open_form, Confirm, Confirm]" False] by (simp add: Let_def)
  then show ?thesis by (simp add: Let_def SubscribeButton_def subscribe_start_def)
qed

end
