(* ===== verification/PortalDocs.thy ===== *)
theory PortalDocs
  imports PortalPages StudioDeploy AuthSound
begin

text \<open>
  The documentation that the portal makes for an API, \<open>portal/src/app/(public)/apis/[id]/docs/page.tsx\<close>
  with \<open>components/docs\<close>, and the general one, \<open>app/docs/page.tsx\<close>, as far as they say how to call
  the gateway: the methods of authentication, the limits and the examples of code. Compared with
  what the gateway does. Line breaks, tabs, quotes and backslashes of the examples are characters
  by their codes.
\<close>

section \<open>What the documentation of an API reads\<close>

definition doc_policies :: "jobj \<Rightarrow> exn + jobj list" where
  "doc_policies api =
     sum_bind (array_of (Some (coalesce (js_opt (rget api ''policyChain'') ''policies'') (JArr [])))) (map_result obj_of)"

definition enabled_of :: "string \<Rightarrow> jobj \<Rightarrow> bool" where
  "enabled_of ty p = (is_status ty (rget p ''type'') \<and> holds (rget p ''enabled''))"

text \<open>\<open>(config['methods'] ?? 'jwt').split(',').map((s) => s.trim())\<close>.\<close>

definition method_list :: "json option \<Rightarrow> exn + string list" where
  "method_list config =
     (case coalesce (js_opt config ''methods'') (JStr ''jwt'') of
        JStr s \<Rightarrow> Inr (map js_trim (split_on (CHR '','') s)) | _ \<Rightarrow> Inl TypeError)"

text \<open>The methods of the tab with the examples: empty names are left out.\<close>

definition docs_authMethods :: "jobj \<Rightarrow> exn + string list" where
  "docs_authMethods api =
     sum_bind (doc_policies api) (\<lambda>ps.
       case find (enabled_of ''auth'') ps of
         None \<Rightarrow> Inr []
       | Some p \<Rightarrow> sum_bind (method_list (rget p ''config'')) (\<lambda>ms. Inr (nonempty ms)))"

record overview_view =
  ov_baseUrl :: string
  ov_methods :: "string list"
  ov_rate_limit :: "(json \<times> json) option"

text \<open>
  The overview. The table of the limits reads the length of \<open>plans\<close>, which the query of the page
  does not ask for.
\<close>

definition OverviewSection :: "ext \<Rightarrow> string \<Rightarrow> jobj \<Rightarrow> exn + overview_view" where
  "OverviewSection X gatewayUrl api =
     sum_bind (doc_policies api) (\<lambda>ps.
     sum_bind (case filter (enabled_of ''auth'') ps of
                 [] \<Rightarrow> Inr []
               | p # _ \<Rightarrow> sum_bind (js_get (rget p ''config'') ''methods'') (\<lambda>_. method_list (rget p ''config''))) (\<lambda>methods.
     sum_bind (case find (enabled_of ''rate_limit'') ps of
                 None \<Rightarrow> Inr None
               | Some p \<Rightarrow>
                   sum_bind (js_get (rget p ''config'') ''strategy'') (\<lambda>strategy.
                   sum_bind (js_get (rget p ''config'') ''key_by'') (\<lambda>key_by.
                   sum_bind (js_get (rget api ''plans'') ''length'') (\<lambda>_.
                     Inr (Some (coalesce strategy (JStr ''sliding_window''), coalesce key_by (JStr ''client_id''))))))) (\<lambda>limits.
       Inr \<lparr> ov_baseUrl = gatewayUrl @ tpl X (rget api ''basePath''), ov_methods = methods, ov_rate_limit = limits \<rparr>)))"

text \<open>What the card of a method shows as the way to send the credentials.\<close>

definition AuthMethodCard :: "string \<Rightarrow> string \<Rightarrow> string list" where
  "AuthMethodCard gatewayUrl m =
     (if m = ''jwt'' \<or> m = ''oauth2'' then [''Authorization: Bearer YOUR_ACCESS_TOKEN'']
      else if m = ''api_key''
      then [''X-API-Key: YOUR_API_KEY'', ''GET '' @ gatewayUrl @ ''/endpoint?api_key=YOUR_API_KEY'']
      else [m])"

section \<open>Examples of code\<close>

datatype example_auth = Bearer | Api_key | No_auth

record example_config =
  ec_baseUrl :: string
  ec_basePath :: string
  ec_authMethod :: example_auth
  ec_apiKeyHeader :: string
  ec_method :: string
  ec_path :: string
  ec_bodyJson :: "string option"

definition nl :: string where "nl = [CHR 0x0A]"
definition tab :: string where "tab = [CHR 0x09]"
definition dq :: string where "dq = [CHR 0x22]"
definition sq :: string where "sq = [CHR 0x27]"
definition bq :: string where "bq = [CHR 0x60]"
definition cont :: string where "cont = '' '' @ [CHR 0x5C] @ nl"

definition example_url :: "example_config \<Rightarrow> string" where
  "example_url cfg = ec_baseUrl cfg @ ec_path cfg"

definition generateCurl :: "example_config \<Rightarrow> string" where
  "generateCurl cfg =
     (let auth = (case ec_authMethod cfg of
            Bearer \<Rightarrow> ''  -H '' @ dq @ ''Authorization: Bearer $TOKEN'' @ dq @ cont
          | Api_key \<Rightarrow> ''  -H '' @ dq @ ec_apiKeyHeader cfg @ '': $API_KEY'' @ dq @ cont
          | No_auth \<Rightarrow> []);
          body = (if truthy (ec_bodyJson cfg)
            then ''  -H '' @ dq @ ''Content-Type: application/json'' @ dq @ cont @ ''  -d '' @ sq @ str_of (ec_bodyJson cfg) @ sq @ cont
            else [])
      in ''curl -X '' @ ec_method cfg @ '' '' @ dq @ example_url cfg @ dq @ cont @ auth @ body @
         ''  -H '' @ dq @ ''Accept: application/json'' @ dq)"

text \<open>The headers of the JavaScript and the Python example, with the placeholders of each.\<close>

definition example_headers :: "string \<Rightarrow> string \<Rightarrow> example_config \<Rightarrow> dict" where
  "example_headers token key cfg =
     (let h = [(''Accept'', ''application/json'')]
      in case ec_authMethod cfg of
           Bearer \<Rightarrow> rset ''Authorization'' (''Bearer '' @ token) h | Api_key \<Rightarrow> rset (ec_apiKeyHeader cfg) key h | No_auth \<Rightarrow> h)"

definition header_lines :: "string \<Rightarrow> dict \<Rightarrow> string" where
  "header_lines q headers =
     join_with ('','' @ nl) (map (\<lambda>(k, v). ''    '' @ q @ k @ q @ '': '' @ q @ v @ q) (object_entries headers))"

definition generateJS :: "example_config \<Rightarrow> string" where
  "generateJS cfg =
     (let headers = example_headers ''${TOKEN}'' ''${API_KEY}'' cfg;
          headers1 = (if truthy (ec_bodyJson cfg) then rset ''Content-Type'' ''application/json'' headers else headers);
          bodyPart = (if truthy (ec_bodyJson cfg) then '','' @ nl @ ''  body: JSON.stringify('' @ str_of (ec_bodyJson cfg) @ '')'' else [])
      in ''const response = await fetch('' @ sq @ example_url cfg @ sq @ '', {'' @ nl @
         ''  method: '' @ sq @ ec_method cfg @ sq @ '','' @ nl @ ''  headers: {'' @ nl @ header_lines sq headers1 @ nl @
         ''  }'' @ bodyPart @ '','' @ nl @ ''});'' @ nl @ nl @ ''const data = await response.json();'' @ nl @ ''console.log(data);'')"

definition generatePython :: "example_config \<Rightarrow> string" where
  "generatePython cfg =
     (let bodyPart = (if truthy (ec_bodyJson cfg) then '','' @ nl @ ''    json='' @ str_of (ec_bodyJson cfg) else [])
      in ''import requests'' @ nl @ nl @ ''headers = {'' @ nl @ header_lines dq (example_headers ''{TOKEN}'' ''{API_KEY}'' cfg) @ nl @
         ''}'' @ nl @ nl @ ''response = requests.'' @ js_lower (ec_method cfg) @ ''('' @ nl @ ''    '' @ dq @ example_url cfg @ dq @
         '','' @ nl @ ''    headers=headers'' @ bodyPart @ nl @ '')'' @ nl @ nl @ ''data = response.json()'' @ nl @ ''print(data)'')"

definition generateGo :: "example_config \<Rightarrow> string" where
  "generateGo cfg =
     (let set = (\<lambda>h v. tab @ ''req.Header.Set('' @ dq @ h @ dq @ '', '' @ v @ '')'' @ nl);
          authHeader = (case ec_authMethod cfg of
            Bearer \<Rightarrow> set ''Authorization'' (dq @ ''Bearer '' @ dq @ ''+token'')
          | Api_key \<Rightarrow> set (ec_apiKeyHeader cfg) ''apiKey'' | No_auth \<Rightarrow> []);
          body = truthy (ec_bodyJson cfg);
          bodyPart = (if body then tab @ ''body := strings.NewReader('' @ bq @ str_of (ec_bodyJson cfg) @ bq @ '')'' @ nl else []);
          bodyArg = (if body then ''body'' else ''nil'')
      in ''package main'' @ nl @ nl @ ''import ('' @ nl @ tab @ dq @ ''encoding/json'' @ dq @ nl @ tab @ dq @ ''fmt'' @ dq @ nl @
         tab @ dq @ ''net/http'' @ dq @ (if body then nl @ tab @ dq @ ''strings'' @ dq else []) @ nl @ '')'' @ nl @ nl @
         ''func main() {'' @ nl @ bodyPart @ tab @ ''req, _ := http.NewRequest('' @ dq @ ec_method cfg @ dq @ '', '' @ dq @
         example_url cfg @ dq @ '', '' @ bodyArg @ '')'' @ nl @ set ''Accept'' (dq @ ''application/json'' @ dq) @ authHeader @ nl @
         tab @ ''client := &http.Client{}'' @ nl @ tab @ ''resp, err := client.Do(req)'' @ nl @
         tab @ ''if err != nil { panic(err) }'' @ nl @ tab @ ''defer resp.Body.Close()'' @ nl @ nl @
         tab @ ''var data interface{}'' @ nl @ tab @ ''json.NewDecoder(resp.Body).Decode(&data)'' @ nl @
         tab @ ''fmt.Println(data)'' @ nl @ ''}'')"

definition example_auth_of :: "string list \<Rightarrow> example_auth" where
  "example_auth_of methods =
     (if ''jwt'' \<in> set methods \<or> ''oauth2'' \<in> set methods then Bearer
      else if ''api_key'' \<in> set methods then Api_key else No_auth)"

definition example_config_of :: "string \<Rightarrow> string \<Rightarrow> string list \<Rightarrow> example_config" where
  "example_config_of baseUrl basePath methods =
     \<lparr> ec_baseUrl = baseUrl, ec_basePath = basePath, ec_authMethod = example_auth_of methods, ec_apiKeyHeader = ''X-API-Key'',
       ec_method = ''GET'', ec_path = ''/'', ec_bodyJson = None \<rparr>"

definition MultiLangExamples :: "string \<Rightarrow> string \<Rightarrow> string list \<Rightarrow> (string \<times> string) list" where
  "MultiLangExamples baseUrl basePath methods =
     (let cfg = example_config_of baseUrl basePath methods
      in [(''curl'', generateCurl cfg), (''javascript'', generateJS cfg), (''python'', generatePython cfg), (''go'', generateGo cfg)])"

section \<open>The page\<close>

datatype docs_view = Overview_tab overview_view | Reference_tab
  | Examples_tab "(string \<times> string) list" bool bool | Errors_tab | No_tab

text \<open>A tab that is none of the four shows nothing below the header.\<close>

definition docs_tab :: "ext \<Rightarrow> string \<Rightarrow> string \<Rightarrow> jobj \<Rightarrow> string list \<Rightarrow> exn + docs_view" where
  "docs_tab X gatewayUrl selected api methods =
     (if selected = ''overview'' then sum_bind (OverviewSection X gatewayUrl api) (\<lambda>v. Inr (Overview_tab v))
      else if selected = ''reference'' then Inr Reference_tab
      else if selected = ''examples''
      then Inr (Examples_tab (MultiLangExamples gatewayUrl (tpl X (rget api ''basePath'')) methods)
             (''api_key'' \<in> set methods) (''jwt'' \<in> set methods \<or> ''oauth2'' \<in> set methods))
      else if selected = ''errors'' then Inr Errors_tab else Inr No_tab)"

definition getAPIForDocs :: "ext \<Rightarrow> bff_client \<Rightarrow> string \<Rightarrow> jobj option \<Rightarrow> json option" where
  "getAPIForDocs X client i session = known (js_opt (ask X client session GET_API_FOR_DOCS [(''id'', JStr i)]) ''api'')"

definition APIDocsPage :: "ext \<Rightarrow> string \<Rightarrow> bff_client \<Rightarrow> string \<Rightarrow> string option \<Rightarrow> jobj option \<Rightarrow> exn + docs_view page_of" where
  "APIDocsPage X gatewayUrl client i selected session =
     (let api = getAPIForDocs X client i session
      in if \<not> holds api then Inr Not_found
         else sum_bind (docs_authMethods (json_obj (the api))) (\<lambda>methods.
              sum_bind (docs_tab X gatewayUrl (orelse selected ''overview'') (json_obj (the api)) methods) (\<lambda>v. Inr (Shown v))))"

text \<open>The three ways to send a key that \<open>app/docs/page.tsx\<close> lists: the headers and the query.\<close>

definition DOCUMENTED_KEY_FORMS :: "string \<Rightarrow> (dict \<times> dict) list" where
  "DOCUMENTED_KEY_FORMS key =
     [([(''X-API-Key'', key)], []), ([(''Authorization'', ''ApiKey '' @ key)], []), ([], [(''api_key'', key)])]"

end
