(* ===== verification/PortalDocsProps.thy ===== *)
theory PortalDocsProps
  imports PortalDocs
begin

text \<open>
  The documentation against the gateway: the methods that it lists are those that the gateway tries,
  the ways to send a key are those in which the gateway looks for it; and where it fails.
\<close>

section \<open>The methods\<close>

text \<open>The members of a policy that the page asks for.\<close>

definition docs_policy :: "policy \<Rightarrow> jobj" where
  "docs_policy p = [(''type'', JStr (p_type p)), (''enabled'', JBool (p_enabled p)), (''config'', config_json (p_config p))]"

definition documents_chain :: "jobj \<Rightarrow> bff_chain \<Rightarrow> bool" where
  "documents_chain api ch \<longleftrightarrow>
     js_opt (rget api ''policyChain'') ''policies'' = Some (JArr (map (\<lambda>p. JObj (docs_policy p)) (ch_policies (mapChain ch))))"

lemma map_result_JObj: "map_result obj_of (map (\<lambda>x. JObj (f x)) xs) = Inr (map f xs)"
  by (induction xs) (simp_all add: sum_bind_def obj_of_def json_obj_def)

lemma doc_policies_chain:
  "documents_chain api ch \<Longrightarrow> doc_policies api = Inr (map docs_policy (ch_policies ch))"
  by (simp add: documents_chain_def doc_policies_def coalesce_def known_def array_of_def sum_bind_def mapChain_def comp_def
      map_result_JObj docs_policy_def)

lemma enabled_docs_policy: "enabled_of ty (docs_policy p) \<longleftrightarrow> p_type p = ty \<and> p_enabled p"
  by (simp add: enabled_of_def docs_policy_def is_status_def holds_def)

lemma rget_config_json: "rget (map (\<lambda>(k, v). (k, JStr v)) d) k = map_option JStr (rget d k)"
  by (induction d) auto

lemma method_list_config: "sum_bind (method_list (Some (config_json cfg))) (\<lambda>ms. Inr (nonempty ms)) = Inr (auth_methods cfg)"
  by (cases "rget cfg ''methods''")
    (simp_all add: method_list_def config_json_def js_opt_def json_obj_def coalesce_def known_def rget_config_json sum_bind_def
      auth_methods_def split_trim_def)

lemma find_filter_first: "filter P xs = x # ys \<Longrightarrow> find P xs = Some x"
  by (induction xs) (auto split: if_splits)

lemma find_map_docs: "find (enabled_of ty) (map docs_policy ps) = map_option docs_policy (find (\<lambda>p. p_type p = ty \<and> p_enabled p) ps)"
  by (induction ps) (simp_all add: enabled_docs_policy)

lemma docs_methods_first:
  assumes "documents_chain api ch" and "filter (\<lambda>p. p_type p = ''auth'' \<and> p_enabled p) (ch_policies ch) = p # ps"
  shows "docs_authMethods api = Inr (auth_methods (p_config p))"
proof -
  have "find (enabled_of ''auth'') (map docs_policy (ch_policies ch)) = Some (docs_policy p)"
    by (simp add: find_map_docs find_filter_first [OF assms(2)])
  with doc_policies_chain [OF assms(1)] have "docs_authMethods api
      = sum_bind (method_list (Some (config_json (p_config p)))) (\<lambda>ms. Inr (nonempty ms))"
    by (simp add: docs_authMethods_def sum_bind_def docs_policy_def)
  then show ?thesis by (simp add: method_list_config)
qed

lemma phase_auth_only:
  assumes "filter (\<lambda>p. p_type p = ''auth'' \<and> p_enabled p) ps = [p]" and "p_phase p = ''pre_request''"
  shows "filter (\<lambda>q. p_type q = ''auth'') (phase_policies ''pre_request'' ps) = [p]"
proof -
  have "filter (\<lambda>q. p_type q = ''auth'') (filter (\<lambda>q. p_enabled q \<and> p_phase q = ''pre_request'') ps)
      = filter (\<lambda>q. p_phase q = ''pre_request'') (filter (\<lambda>q. p_type q = ''auth'' \<and> p_enabled q) ps)"
    by (simp add: conj_ac)
  also have "\<dots> = [p]" using assms by simp
  finally have "filter (\<lambda>q. p_type q = ''auth'') (sort_key p_order (filter (\<lambda>q. p_enabled q \<and> p_phase q = ''pre_request'') ps))
      = sort_key p_order [p]"
    by (simp add: filter_sort)
  then show ?thesis by (simp add: phase_policies_sort)
qed

text \<open>
  The documentation of an API tells how to get in: if its chain has one enabled authentication
  policy and that is run before the request, then the page lists exactly the methods that this
  policy tries, the gateway runs it as the only one of its kind, and unless anonymous access is
  configured a request gets past it only if a listed method accepted it after the ones listed
  before had turned it down, or is stopped with 401.
\<close>

theorem docs_list_accepted_methods:
  assumes "documents_chain api ch"
    and "filter (\<lambda>p. p_type p = ''auth'' \<and> p_enabled p) (ch_policies ch) = [p]" and "p_phase p = ''pre_request''"
    and "authPlugin X R A (p_config p) c w = (e, c', w')" and "rget (p_config p) ''allow_anonymous'' \<noteq> Some ''true''"
  shows "\<exists>methods. docs_authMethods api = Inr methods \<and>
    filter (\<lambda>q. p_type q = ''auth'') (phase_policies ''pre_request'' (ch_policies ch)) = [p] \<and>
    ((\<exists>tried m rest fn c1 w1. methods = tried @ m # rest \<and> refused X R A (p_config p) tried c w c1 w1 \<and>
        auth_method m = Some fn \<and> fn X R A (buildSubConfig (p_config p) m) c1 w1 = (Inr AuthOk, c', w')) \<or>
     c_aborted c' \<and> c_abortCode c' = 401)"
proof -
  have "auth_accepted X R A (p_config p) c w c' w' \<or> c_aborted c' \<and> c_abortCode c' = 401"
    using authPlugin_cases [OF assms(4, 5)] by auto
  with docs_methods_first [OF assms(1, 2)] phase_auth_only [OF assms(2, 3)] show ?thesis
    unfolding auth_accepted_def by auto
qed

section \<open>The ways to send a key\<close>

text \<open>A request that carries a key as documented: Node gives the names of headers in small letters.\<close>

definition carries :: "dict \<times> dict \<Rightarrow> ctx \<Rightarrow> bool" where
  "carries form c \<longleftrightarrow>
     c_requestHeaders c = map (\<lambda>(k, v). (js_lower k, v)) (fst form) \<and> c_queryParams c = snd form"

lemma default_places: "map js_trim (split_on (CHR '','') ''header,query'') = [''header'', ''query'']"
  "js_lower ''x-api-key'' = ''x-api-key''" "js_lower ''X-API-Key'' = ''x-api-key''" "js_lower ''Authorization'' = ''authorization''"
  by code_simp+

lemma lower_apikey: "js_lower (''ApiKey '' @ s) = ''apikey '' @ js_lower s"
proof -
  have "js_lower ''ApiKey '' = ''apikey ''" by code_simp
  then show ?thesis by (simp add: js_lower_def)
qed

text \<open>
  Every documented way to send an API key works with the defaults of the plugin: the key is found
  in the header \<open>X-API-Key\<close>, in \<open>Authorization: ApiKey ...\<close> and in the query; and the header in the
  generated examples is the first of them.
\<close>

theorem documented_key_found:
  assumes "form \<in> set (DOCUMENTED_KEY_FORMS key)" and "carries form c" and "key \<noteq> []" and "js_trim key = key"
    and "rget cfg ''key_location'' = None" and "rget cfg ''header_name'' = None" and "rget cfg ''query_param'' = None"
  shows "fst (key_location cfg c) = key \<and>
    js_lower (ec_apiKeyHeader (example_config_of baseUrl basePath methods)) = orelse (rget cfg ''header_name'') ''x-api-key''"
proof -
  have places: "key_location cfg c = find_key [''header'', ''query''] ''x-api-key'' ''api_key'' c"
    by (simp only: key_location_def assms orelse_simps default_places)
  from assms(1, 2) consider
      "c_requestHeaders c = [(''x-api-key'', key)]"
    | "c_requestHeaders c = [(''authorization'', ''ApiKey '' @ key)]"
    | "c_requestHeaders c = []" "c_queryParams c = [(''api_key'', key)]"
    by (auto simp: DOCUMENTED_KEY_FORMS_def carries_def default_places)
  then have "fst (key_location cfg c) = key"
  proof cases
    case 2
    then have "header_key c ''x-api-key'' = key"
      unfolding header_key_def header_or_def Let_def using assms(4) lower_apikey [of key] by (simp add: starts_with_def)
    with assms(3) show ?thesis by (simp add: places)
  qed (use assms(3) in \<open>simp_all add: places header_key_def header_or_def Let_def starts_with_prefix js_lower_def\<close>)
  with assms(6) show ?thesis by (simp add: example_config_of_def default_places)
qed

section \<open>Where the documentation fails\<close>

text \<open>The overview, which is the tab shown first, throws for every API with an enabled rate limit.\<close>

lemma overview_throws:
  assumes "documents_chain api ch" and "rget api ''plans'' = None"
    and "find (\<lambda>p. p_type p = ''rate_limit'' \<and> p_enabled p) (ch_policies ch) \<noteq> None"
  shows "\<exists>e. OverviewSection X gatewayUrl api = Inl e"
proof -
  from assms(3) obtain p where "find (enabled_of ''rate_limit'') (map docs_policy (ch_policies ch)) = Some (docs_policy p)"
    by (auto simp: find_map_docs)
  with doc_policies_chain [OF assms(1)] assms(2) show ?thesis
    by (auto simp: OverviewSection_def sum_bind_def js_get_def docs_policy_def split: sum.splits)
qed

text \<open>The examples call the root of the gateway, whatever the base path of the API is.\<close>

lemma examples_ignore_base_path: "MultiLangExamples baseUrl p methods = MultiLangExamples baseUrl p' methods"
  by (cases "example_auth_of methods")
    (simp_all add: MultiLangExamples_def example_config_of_def generateCurl_def generateJS_def generatePython_def generateGo_def
      example_url_def example_headers_def Let_def)

section \<open>At a concrete API\<close>

definition shop_chain :: bff_chain where
  "shop_chain = \<lparr> ch_chainId = ''c1'', ch_apiId = ''a1'', ch_version = 1, ch_etag = ''e'',
     ch_policies =
       [\<lparr> p_id = ''p1'', p_type = ''rate_limit'', p_phase = ''pre_request'', p_order = 1, p_enabled = True,
          p_config = [(''rpm'', ''60'')], p_condition = None \<rparr>,
        \<lparr> p_id = ''p2'', p_type = ''auth'', p_phase = ''pre_request'', p_order = 0, p_enabled = True,
          p_config = [(''methods'', ''api_key, jwt'')], p_condition = None \<rparr>],
     bc_updatedAt = None \<rparr>"

definition shop_api :: jobj where
  "shop_api = [(''id'', JStr ''a1''), (''basePath'', JStr ''/shop''),
     (''policyChain'', JObj [(''policies'', JArr (map (\<lambda>p. JObj (docs_policy p)) (ch_policies (mapChain shop_chain))))])]"

lemma docs_list_accepted_methods_witness:
  "docs_authMethods shop_api = Inr [''api_key'', ''jwt''] \<and>
    (\<exists>e c' w'. authPlugin sample_ext mem_redis sample_config [(''methods'', ''api_key, jwt'')] sample_ctx0 sample_io = (e, c', w') \<and>
      (auth_accepted sample_ext mem_redis sample_config [(''methods'', ''api_key, jwt'')] sample_ctx0 sample_io c' w' \<or>
       c_aborted c' \<and> c_abortCode c' = 401))"
proof -
  let ?p = "ch_policies shop_chain ! 1"
  have d: "documents_chain shop_api shop_chain"
    by (simp add: documents_chain_def shop_api_def js_opt_def json_obj_def)
  have p: "filter (\<lambda>p. p_type p = ''auth'' \<and> p_enabled p) (ch_policies shop_chain) = [?p]" "p_phase ?p = ''pre_request''"
    "rget (p_config ?p) ''allow_anonymous'' \<noteq> Some ''true''" "p_config ?p = [(''methods'', ''api_key, jwt'')]"
    by (simp_all add: shop_chain_def)
  obtain e c' w' where run: "authPlugin sample_ext mem_redis sample_config (p_config ?p) sample_ctx0 sample_io = (e, c', w')"
    by (cases "authPlugin sample_ext mem_redis sample_config (p_config ?p) sample_ctx0 sample_io")
  have ms: "auth_methods [(''methods'', ''api_key, jwt'')] = [''api_key'', ''jwt'']" by code_simp
  with docs_methods_first [OF d p(1)] p(4) have m: "docs_authMethods shop_api = Inr [''api_key'', ''jwt'']" by simp
  from docs_list_accepted_methods [OF d p(1, 2) run p(3)] m ms
  have "auth_accepted sample_ext mem_redis sample_config [(''methods'', ''api_key, jwt'')] sample_ctx0 sample_io c' w' \<or>
      c_aborted c' \<and> c_abortCode c' = 401"
    unfolding auth_accepted_def p(4) by auto
  with m run p(4) show ?thesis by auto
qed

lemma documented_key_found_witness:
  "fst (key_location [] (sample_ctx0\<lparr>c_requestHeaders := [(''authorization'', ''ApiKey xca_1'')], c_queryParams := []\<rparr>)) = ''xca_1''"
proof -
  have "carries ([(''Authorization'', ''ApiKey xca_1'')], [])
      (sample_ctx0\<lparr>c_requestHeaders := [(''authorization'', ''ApiKey xca_1'')], c_queryParams := []\<rparr>)"
    by (simp add: carries_def default_places)
  from documented_key_found [OF _ this, of "''xca_1''" "[]"] show ?thesis
    by (simp add: DOCUMENTED_KEY_FORMS_def js_trim_def js_trim_start_def is_ws_def)
qed

end
