(* ===== verification/StudioPanels.thy ===== *)
theory StudioPanels
  imports StudioDeploy JsObject
begin

text \<open>
  The panels of the editor, what they show and what they do to the store:
  \<open>studio/src/components/panels/ConfigPanel.tsx\<close>, \<open>PolicyLibrary.tsx\<close> with its cards,
  \<open>flow/PolicyCanvas.tsx\<close>, \<open>flow/PolicyNode.tsx\<close>, \<open>panels/ChainPreview.tsx\<close> and
  \<open>pages/Dashboard.tsx\<close>. Markup and style are left out, and so are labels that are not ASCII.
\<close>

section \<open>The form of a policy\<close>

text \<open>
  An input with its placeholder; a choice with the value shown when there is none (\<open>c(k) || d\<close>)
  and the values to choose from.
\<close>

datatype control = Text_input string | Text_area string | Choice string "string list"

record form_field =
  ff_key :: string
  ff_control :: control

definition text_field :: "string \<Rightarrow> string \<Rightarrow> form_field" where
  "text_field k hint = \<lparr> ff_key = k, ff_control = Text_input hint \<rparr>"

definition area_field :: "string \<Rightarrow> string \<Rightarrow> form_field" where
  "area_field k hint = \<lparr> ff_key = k, ff_control = Text_area hint \<rparr>"

definition choice_field :: "string \<Rightarrow> string \<Rightarrow> string list \<Rightarrow> form_field" where
  "choice_field k d options = \<lparr> ff_key = k, ff_control = Choice d options \<rparr>"

definition auth_form :: "form_field list" where
  "auth_form =
     [text_field ''methods'' ''jwt,api_key'',
      choice_field ''jwt.algorithm'' ''RS256'' [''RS256'', ''HS256'', ''ES256''],
      text_field ''jwt.jwks_url'' ''https://...'',
      text_field ''jwt.required_scopes'' ''read:api write:api'',
      choice_field ''api_key.key_location'' ''header,query'' [''header,query'', ''header'', ''query'']]"

definition rate_limit_form :: "form_field list" where
  "rate_limit_form =
     [choice_field ''strategy'' ''sliding_window'' [''sliding_window'', ''fixed_window'', ''token_bucket''],
      choice_field ''key_by'' ''client_id'' [''client_id'', ''ip'', ''user_id'', ''api_key''],
      text_field ''rpm'' ''1000'', text_field ''rph'' ''10000'', text_field ''rpd'' ''100000'']"

definition cors_form :: "form_field list" where
  "cors_form =
     [text_field ''allowed_origins'' ''*'',
      text_field ''allowed_methods'' ''GET,POST,PUT,DELETE,OPTIONS'',
      text_field ''allowed_headers'' ''Content-Type,Authorization'',
      choice_field ''allow_credentials'' ''false'' [''false'', ''true''],
      text_field ''max_age'' ''3600'']"

definition ip_whitelist_form :: "form_field list" where
  "ip_whitelist_form =
     [choice_field ''mode'' ''whitelist'' [''whitelist'', ''blacklist''], area_field ''ips'' ''192.168.1.0/24, 10.0.0.1'']"

definition transform_form :: "form_field list" where
  "transform_form =
     [choice_field ''inject_request_id'' ''true'' [''true'', ''false''],
      choice_field ''inject_gateway_id'' ''true'' [''true'', ''false''],
      area_field ''request_headers'' ''[{\"op\":\"set\",\"name\":\"X-Client\",\"value\":\"${ctx.clientId}\"}]'',
      area_field ''response_headers'' ''[{\"op\":\"remove\",\"name\":\"X-Powered-By\"}]'',
      area_field ''response_body_ops'' ''[{\"op\":\"wrap\",\"key\":\"data\"}]'']"

definition cache_form :: "form_field list" where
  "cache_form =
     [text_field ''ttl'' ''60'',
      choice_field ''key_by'' ''path'' [''path'', ''path_method'', ''path_method_client''],
      choice_field ''bypass_if'' [] [[], ''no-cache''],
      text_field ''vary_headers'' ''Accept-Language'']"

definition circuit_breaker_form :: "form_field list" where
  "circuit_breaker_form =
     [text_field ''threshold'' ''5'', text_field ''error_threshold'' ''50'', text_field ''timeout'' ''30'',
      text_field ''window'' ''60'', text_field ''half_open_max'' ''2'']"

fun ConfigFields :: "policy_type \<Rightarrow> form_field list" where
  "ConfigFields T_auth = auth_form"
| "ConfigFields T_rate_limit = rate_limit_form"
| "ConfigFields T_cors = cors_form"
| "ConfigFields T_ip_whitelist = ip_whitelist_form"
| "ConfigFields T_transform = transform_form"
| "ConfigFields T_cache = cache_form"
| "ConfigFields T_circuit_breaker = circuit_breaker_form"

definition shown_value :: "dict \<Rightarrow> form_field \<Rightarrow> string" where
  "shown_value config f =
     (let c = orelse (rget config (ff_key f)) []
      in case ff_control f of Choice d options \<Rightarrow> (if c = [] then d else c) | _ \<Rightarrow> c)"

text \<open>The plugin of a policy, \<open>PLUGIN_REGISTRY.find((p) => p.type === policy.type)\<close>.\<close>

definition meta_of :: "studio_policy \<Rightarrow> plugin_meta option" where
  "meta_of p = find (\<lambda>m. type_name (pm_type m) = sp_type p) PLUGIN_REGISTRY"

record config_view =
  cv_label :: string
  cv_phase :: string
  cv_enabled :: bool
  cv_fields :: "(string \<times> string) list"
  cv_condition :: "string option"

text \<open>\<open>phase.replace('_', ' ')\<close> replaces the first one.\<close>

fun replace_first :: "char \<Rightarrow> string \<Rightarrow> string \<Rightarrow> string" where
  "replace_first a r [] = []"
| "replace_first a r (c # s) = (if c = a then r @ s else c # replace_first a r s)"

definition ConfigPanel :: "bool \<Rightarrow> studio \<Rightarrow> config_view option" where
  "ConfigPanel showCondition s =
     (case selectSelectedPolicy s of
        None \<Rightarrow> None
      | Some p \<Rightarrow> map_option (\<lambda>meta.
          \<lparr> cv_label = pm_label meta, cv_phase = replace_first (CHR ''_'') '' '' (phase_name (sp_phase p)),
            cv_enabled = sp_enabled p,
            cv_fields = map (\<lambda>f. (ff_key f, shown_value (sp_config p) f)) (ConfigFields (pm_type meta)),
            cv_condition = (if showCondition then Some (orelse (sp_condition p) []) else None) \<rparr>) (meta_of p))"

datatype panel_input = SetConfig string string | SetEnabled bool | SetPhase policy_phase | SetCondition string
  | RemoveSelected | ClosePanel

fun panel_event :: "studio_policy \<Rightarrow> panel_input \<Rightarrow> studio \<Rightarrow> studio" where
  "panel_event p (SetConfig key v) =
     updatePolicy (sp_id p) \<lparr> pp_enabled = None, pp_config = Some [(key, v)], pp_condition = None \<rparr>"
| "panel_event p (SetEnabled v) =
     updatePolicy (sp_id p) \<lparr> pp_enabled = Some v, pp_config = None, pp_condition = None \<rparr>"
| "panel_event p (SetPhase ph) = movePolicy (sp_id p) ph"
| "panel_event p (SetCondition v) =
     updatePolicy (sp_id p) \<lparr> pp_enabled = None, pp_config = None, pp_condition = Some v \<rparr>"
| "panel_event p RemoveSelected = removePolicy (sp_id p)"
| "panel_event p ClosePanel = selectPolicy None"

text \<open>The panel has controls only for a selected policy whose type is in the registry.\<close>

definition panel_act :: "panel_input \<Rightarrow> studio \<Rightarrow> studio" where
  "panel_act e s =
     (case selectSelectedPolicy s of
        None \<Rightarrow> s | Some p \<Rightarrow> if meta_of p = None then s else panel_event p e s)"

section \<open>The library\<close>

text \<open>A tab is a category or all of them; \<open>texts\<close> are the description and the documentation.\<close>

definition library_filter :: "(policy_type \<Rightarrow> string \<times> string) \<Rightarrow> plugin_category option \<Rightarrow> string \<Rightarrow> plugin_meta list" where
  "library_filter texts tab search =
     (let q = js_lower (js_trim search)
      in filter (\<lambda>meta.
           if tab \<noteq> None \<and> tab \<noteq> Some (pm_category meta) then False
           else if q = [] then True
           else str_includes (js_lower (pm_label meta)) q \<or> str_includes (js_lower (fst (texts (pm_type meta)))) q \<or>
             str_includes (js_lower (snd (texts (pm_type meta)))) q \<or> str_includes (js_lower (type_name (pm_type meta))) q)
         PLUGIN_REGISTRY)"

definition usageCounts :: "studio \<Rightarrow> (string \<times> nat) list" where
  "usageCounts s = fold (\<lambda>p counts. rset (sp_type p) (orelse (rget counts (sp_type p)) 0 + 1) counts) (policies_of s) []"

text \<open>The cards of the library with their counts; there are none before an API is chosen.\<close>

definition PolicyLibrary :: "(policy_type \<Rightarrow> string \<times> string) \<Rightarrow> plugin_category option \<Rightarrow> string \<Rightarrow> studio \<Rightarrow>
    (plugin_meta \<times> nat) list option" where
  "PolicyLibrary texts tab search s =
     (if st_api s = None then None
      else Some (map (\<lambda>meta. (meta, orelse (rget (usageCounts s) (type_name (pm_type meta))) 0)) (library_filter texts tab search)))"

fun UsageBadge :: "nat \<Rightarrow> string option" where
  "UsageBadge n = (if n = 0 then None else Some (if 9 < n then ''9+'' else show_nat n))"

fun PHASE_SHORT :: "policy_phase \<Rightarrow> string" where
  "PHASE_SHORT PRE_REQUEST = ''Pre-Req''"
| "PHASE_SHORT POST_REQUEST = ''Post-Req''"
| "PHASE_SHORT PRE_RESPONSE = ''Pre-Res''"
| "PHASE_SHORT POST_RESPONSE = ''Post-Res''"

definition phase_counts :: "studio_policy list \<Rightarrow> policy_phase \<Rightarrow> nat" where
  "phase_counts ps = fold (\<lambda>p counts. counts(sp_phase p := counts (sp_phase p) + 1)) ps (\<lambda>_. 0)"

text \<open>The bars: a phase, the width in percent, the count.\<close>

definition PhaseBreakdown :: "studio \<Rightarrow> (policy_phase \<times> rat \<times> nat) list" where
  "PhaseBreakdown s =
     (let ps = policies_of s; counts = phase_counts ps
      in if ps = [] then []
         else map (\<lambda>ph. (ph, of_nat (counts ph) / of_nat (length ps) * 100, counts ph))
                (filter (\<lambda>ph. 0 < counts ph) STUDIO_PHASE_ORDER))"

definition QuickAddRow :: "policy_phase \<Rightarrow> plugin_meta list" where
  "QuickAddRow phase = filter (\<lambda>m. phase \<in> set (pm_compatiblePhases m)) PLUGIN_REGISTRY"

text \<open>What a card carries when it is dragged, and the drop on the canvas.\<close>

definition drag_data :: "plugin_meta \<Rightarrow> policy_type \<times> policy_phase" where
  "drag_data meta = (pm_type meta, pm_defaultPhase meta)"

definition canvas_drop :: "string \<Rightarrow> policy_type \<times> policy_phase \<Rightarrow> studio \<Rightarrow> studio" where
  "canvas_drop newId d = addPolicy newId (fst d) (snd d)"

section \<open>The canvas\<close>

definition COLUMN_WIDTH :: int where "COLUMN_WIDTH = 280"
definition COLUMN_GAP :: int where "COLUMN_GAP = 64"
definition NODE_HEIGHT :: int where "NODE_HEIGHT = 112"
definition NODE_GAP :: int where "NODE_GAP = 12"
definition HEADER_Y :: int where "HEADER_Y = 60"
definition NODE_START_Y :: int where "NODE_START_Y = HEADER_Y + 48"

datatype node_data = Phase_header policy_phase | Policy_node studio_policy | Empty_zone

record canvas_node =
  cn_id :: string
  cn_x :: int
  cn_y :: int
  cn_data :: node_data
  cn_selected :: bool

definition policy_node :: "string option \<Rightarrow> int \<Rightarrow> nat \<times> studio_policy \<Rightarrow> canvas_node" where
  "policy_node selectedId x r = \<lparr> cn_id = sp_id (snd r), cn_x = x, cn_y = NODE_START_Y + int (fst r) * (NODE_HEIGHT + NODE_GAP),
     cn_data = Policy_node (snd r), cn_selected = (Some (sp_id (snd r)) = selectedId) \<rparr>"

definition column_x :: "nat \<Rightarrow> int" where
  "column_x colIdx = int colIdx * (COLUMN_WIDTH + COLUMN_GAP) + 24"

definition column_nodes :: "(policy_phase \<Rightarrow> studio_policy list) \<Rightarrow> string option \<Rightarrow> nat \<times> policy_phase \<Rightarrow> canvas_node list" where
  "column_nodes getPhase selectedId col =
     (case col of (colIdx, phase) \<Rightarrow>
        let x = column_x colIdx; policies = getPhase phase
        in [\<lparr> cn_id = ''phase-'' @ phase_name phase, cn_x = x, cn_y = HEADER_Y, cn_data = Phase_header phase, cn_selected = False \<rparr>] @
           map (policy_node selectedId x) (List.enumerate 0 policies) @
           (if policies = []
            then [\<lparr> cn_id = ''empty-'' @ phase_name phase, cn_x = x, cn_y = NODE_START_Y, cn_data = Empty_zone, cn_selected = False \<rparr>]
            else []))"

definition buildNodes :: "(policy_phase \<Rightarrow> studio_policy list) \<Rightarrow> string option \<Rightarrow> canvas_node list" where
  "buildNodes getPhase selectedId = concat (map (column_nodes getPhase selectedId) (List.enumerate 0 STUDIO_PHASE_ORDER))"

definition PolicyCanvas :: "studio \<Rightarrow> canvas_node list" where
  "PolicyCanvas s = buildNodes (selectPoliciesByPhase s) (st_selectedPolicyId s)"

text \<open>The line under the name of a policy; \<open>tx\<close> translates the words that are not ASCII.\<close>

definition summarizeConfig :: "(string \<Rightarrow> string) \<Rightarrow> studio_policy \<Rightarrow> string" where
  "summarizeConfig tx p =
     (let cfg = (\<lambda>k d. orelse (rget (sp_config p) k) d); ty = sp_type p
      in if ty = ''auth'' then tx ''method'' @ '': '' @ cfg ''methods'' ''jwt''
         else if ty = ''rate_limit'' then cfg ''strategy'' ''sliding'' @ tx ''dot'' @ cfg ''rpm'' ''?'' @ '' RPM''
         else if ty = ''cors'' then ''Origins: '' @ cfg ''allowed_origins'' ''*''
         else if ty = ''ip_whitelist'' then tx ''mode'' @ '': '' @ cfg ''mode'' ''whitelist''
         else if ty = ''transform'' then tx ''transform''
         else if ty = ''cache'' then ''TTL: '' @ cfg ''ttl'' ''60'' @ ''s'' @ tx ''dot'' @ ''key: '' @ cfg ''key_by'' ''path''
         else if ty = ''circuit_breaker''
         then tx ''threshold'' @ '': '' @ cfg ''threshold'' ''5'' @ tx ''dot'' @ tx ''timeout'' @ '': '' @ cfg ''timeout'' ''30'' @ ''s''
         else [])"

datatype node_event = ClickNode | ToggleNode bool | TrashNode

fun node_act :: "studio_policy \<Rightarrow> node_event \<Rightarrow> studio \<Rightarrow> studio" where
  "node_act p ClickNode = selectPolicy (Some (sp_id p))"
| "node_act p (ToggleNode v) =
     updatePolicy (sp_id p) \<lparr> pp_enabled = Some v, pp_config = None, pp_condition = None \<rparr>"
| "node_act p TrashNode = removePolicy (sp_id p)"

section \<open>The preview\<close>

definition preview_policies :: "studio_chain \<Rightarrow> studio_policy list" where
  "preview_policies ch =
     concat (map (\<lambda>phase. js_sort (\<lambda>a b. sp_order a - sp_order b) (in_phase phase (sc_policies ch))) STUDIO_PHASE_ORDER)"

definition preview_policy :: "studio_policy \<Rightarrow> json" where
  "preview_policy p = JObj (
     [(''id'', JStr (sp_id p)), (''type'', JStr (sp_type p)), (''phase'', JStr (phase_name (sp_phase p))),
      (''enabled'', JBool (sp_enabled p)), (''order'', JNum (of_int (sp_order p))), (''config'', config_json (sp_config p))] @
     (if truthy (sp_condition p) then [(''condition'', JStr (str_of (sp_condition p)))] else []))"

definition preview_doc :: "studio_chain \<Rightarrow> json" where
  "preview_doc ch = JObj [(''apiId'', JStr (sc_apiId ch)), (''version'', JNum (of_int (sc_version ch))),
     (''policies'', JArr (map preview_policy (preview_policies ch)))]"

definition newline :: string where
  "newline = [CHR 0x0A]"

definition yaml_special :: "char \<Rightarrow> bool" where
  "yaml_special c = (c \<in> set '':#{}[],&*?|<>=!%@`'')"

definition yaml_string :: "string \<Rightarrow> string" where
  "yaml_string s =
     (if list_ex yaml_special s \<or> CHR 0x0A \<in> set s \<or> s = []
      then [CHR 0x22] @ concat (map (\<lambda>c. if c = CHR 0x22 then [CHR 0x5C, CHR 0x22] else [c]) s) @ [CHR 0x22]
      else s)"

fun is_container :: "json \<Rightarrow> bool" where
  "is_container (JArr _) = True"
| "is_container (JObj _) = True"
| "is_container _ = False"

text \<open>\<open>toYaml(value, indent)\<close>.\<close>

definition yaml_pad :: "nat \<Rightarrow> string" where
  "yaml_pad indent = concat (replicate indent ''  '')"

definition yaml_entry :: "nat \<Rightarrow> string \<times> bool \<times> string \<Rightarrow> string" where
  "yaml_entry indent e =
     (case e of (k, nested, val) \<Rightarrow> newline @ yaml_pad indent @ k @ (if nested then '':'' else '': '') @ val)"

fun toYaml :: "ext \<Rightarrow> nat \<Rightarrow> json \<Rightarrow> string" where
  "toYaml X indent (JStr s) = yaml_string s"
| "toYaml X indent (JArr vs) =
     (if vs = [] then ''[]''
      else concat (map (\<lambda>v. newline @ yaml_pad indent @ ''- '' @ js_trim_start (toYaml X (indent + 1) v)) vs))"
| "toYaml X indent (JObj obj) =
     (if obj = [] then ''{}''
      else js_trim_start (concat (map (yaml_entry indent)
        (object_entries (map (\<lambda>(k, v). (k, is_container v, toYaml X (indent + 1) v)) obj)))))"
| "toYaml X indent v = js_String X v"

definition ChainPreview :: "ext \<Rightarrow> (json \<Rightarrow> string) \<Rightarrow> bool \<Rightarrow> studio \<Rightarrow> string" where
  "ChainPreview X pretty json_mode s =
     (case st_chain s of
        None \<Rightarrow> []
      | Some ch \<Rightarrow> if json_mode then pretty (preview_doc ch) else toYaml X 0 (preview_doc ch))"

section \<open>The list of APIs\<close>

definition dashboard_filter :: "string \<Rightarrow> api_info list \<Rightarrow> api_info list" where
  "dashboard_filter search apis =
     filter (\<lambda>a. str_includes (js_lower (ai_name a)) (js_lower search) \<or> str_includes (js_lower (ai_basePath a)) (js_lower search)) apis"

definition status_color :: "string \<Rightarrow> string option" where
  "status_color status = rget [(''ACTIVE'', ''success''), (''INACTIVE'', ''default''), (''DEPRECATED'', ''warning''), (''DRAFT'', ''default'')] status"

text \<open>The types that the card of an API names, at most five, and how many more there are.\<close>

definition card_types :: "studio_chain option \<Rightarrow> string list \<times> nat" where
  "card_types chain =
     (case chain of
        None \<Rightarrow> ([], 0)
      | Some ch \<Rightarrow> let types = rev (remdups (rev (map sp_type (sc_policies ch)))) in (take 5 types, length types - 5))"

end
