(* ===== verification/StudioForms.thy ===== *)
theory StudioForms
  imports StudioPanels
begin

text \<open>
  The forms of the editor against the plugins of the gateway: the value that a choice shows for a
  setting that is missing is the value that the gateway works with. The keys of the
  authentication methods carry the name of the method in front of a dot, which
  \<open>buildSubConfig\<close> takes off.
\<close>

section \<open>The configuration of one authentication method\<close>

lemma rget_sub_entries:
  assumes "distinct (map fst cfg)" and "CHR ''.'' \<in> set pre"
  shows "rget (sub_entries pre cfg sub) x =
    orelse_opt (rget cfg (pre @ x)) (orelse_opt (rget sub x) (if CHR ''.'' \<in> set x then None else rget cfg x))"
  using assms
proof (induction cfg arbitrary: sub)
  case (Cons p cfg)
  obtain k v where p: "p = (k, v)" by (cases p)
  have none: "rget cfg k = None" using Cons.prems(1) p by (simp add: rget_def map_of_eq_None_iff)
  have IH: "\<And>sub. rget (sub_entries pre cfg sub) x =
      orelse_opt (rget cfg (pre @ x)) (orelse_opt (rget sub x) (if CHR ''.'' \<in> set x then None else rget cfg x))"
    using Cons by simp
  have dot: "CHR ''.'' \<notin> set x \<Longrightarrow> x \<noteq> pre @ y" "CHR ''.'' \<notin> set k \<Longrightarrow> k \<noteq> pre @ y" for y
    using Cons.prems(2) by auto
  show ?case
  proof (cases "starts_with k pre")
    case True
    then have "k = pre @ drop (length pre) k" by (rule starts_with_drop)
    then obtain y where y: "k = pre @ y" "drop (length pre) k = y" by metis
    show ?thesis using True y none dot by (auto simp: p IH orelse_opt_def split: option.splits)
  next
    case False
    then have "k \<noteq> pre @ x" by auto
    then show ?thesis using False none by (auto simp: p IH orelse_opt_def split: option.splits)
  qed
qed (simp add: orelse_opt_def split: option.split)

lemma rget_buildSubConfig:
  "distinct (map fst cfg) \<Longrightarrow> rget (buildSubConfig cfg m) x =
     orelse_opt (rget cfg (m @ ''.'' @ x)) (if CHR ''.'' \<in> set x then None else rget cfg x)"
  by (simp add: buildSubConfig_def rget_sub_entries)

text \<open>Setting \<open>n.x\<close> changes the setting \<open>x\<close> of the method \<open>n\<close> alone.\<close>

lemma method_key: "CHR ''.'' \<notin> set n \<Longrightarrow> CHR ''.'' \<notin> set m \<Longrightarrow> m @ CHR ''.'' # y = n @ CHR ''.'' # x \<longleftrightarrow> m = n \<and> y = x"
proof (induction m arbitrary: n)
  case (Cons c m)
  then show ?case by (cases n) auto
qed (auto simp: Cons_eq_append_conv)

lemma sub_of_set:
  assumes "distinct (map fst cfg)" and "k = n @ CHR ''.'' # x"
    and "CHR ''.'' \<notin> set n" and "CHR ''.'' \<notin> set m" and "CHR ''.'' \<notin> set x"
  shows "rget (buildSubConfig (rset k v cfg) m) =
    (if m = n then (rget (buildSubConfig cfg m))(x := Some v) else rget (buildSubConfig cfg m))"
proof
  fix y
  have d: "distinct (map fst (rset k v cfg))" using assms(1) by (simp add: rset_def distinct_update)
  have e: "m @ CHR ''.'' # y = k \<longleftrightarrow> m = n \<and> y = x" using method_key assms(2-4) by blast
  have k: "CHR ''.'' \<in> set k" using assms(2) by simp
  show "rget (buildSubConfig (rset k v cfg) m) y =
      (if m = n then (rget (buildSubConfig cfg m))(x := Some v) else rget (buildSubConfig cfg m)) y"
    using e k assms(5) by (auto simp: rget_buildSubConfig [OF d] rget_buildSubConfig [OF assms(1)] orelse_opt_def split: option.split)
qed

section \<open>Methods read their settings one by one\<close>

lemmas jwt_reads = jwtAuth_def jwt_key_def jwt_request_def forward_configured_def
lemmas api_key_reads = apiKeyAuth_def key_location_def apikey_verify_def service_down_def
lemmas basic_reads = basicAuth_def basic_verify_def service_down_def
lemmas introspect_reads = tokenIntrospect_def introspect_remote_def introspect_request_def applyIntrospectResult_def
  cache_seconds_def forward_configured_def service_down_def
lemmas hmac_reads = hmacAuth_def signature_header_def timestamp_bad_def hmac_check_def

lemma method_same:
  fixes R :: "'d redis"
  assumes e: "rget s = rget s'" and "auth_method m = Some (fn :: 'd auth_fn)"
  shows "fn X R A s c w = fn X R A s' c w"
proof -
  have "jwtAuth X R A s c w = jwtAuth X R A s' c w" unfolding jwt_reads e ..
  moreover have "apiKeyAuth X R A s c w = apiKeyAuth X R A s' c w" unfolding api_key_reads e ..
  moreover have "basicAuth X R A s c w = basicAuth X R A s' c w" unfolding basic_reads e ..
  moreover have "tokenIntrospect X R A s c w = tokenIntrospect X R A s' c w" unfolding introspect_reads e ..
  moreover have "hmacAuth X R A s c w = hmacAuth X R A s' c w" unfolding hmac_reads e ..
  ultimately show ?thesis using assms(2) by (auto simp: auth_method_def split: if_splits)
qed

lemma jwtAuth_default:
  assumes "rget s' = (rget s)(''algorithm'' := Some ''RS256'')" and "rget s ''algorithm'' = None"
  shows "jwtAuth X R A s' c w = jwtAuth X R A s c w"
proof -
  have e: "rget s' ''token_source'' = rget s ''token_source''" "rget s' ''cookie_name'' = rget s ''cookie_name''"
    "rget s' ''secret'' = rget s ''secret''" "rget s' ''jwks_url'' = rget s ''jwks_url''"
    "rget s' ''issuer'' = rget s ''issuer''" "rget s' ''audience'' = rget s ''audience''"
    "rget s' ''required_scopes'' = rget s ''required_scopes''" "rget s' ''forward_claims'' = rget s ''forward_claims''"
    "orelse (rget s' ''algorithm'') ''RS256'' = ''RS256''" "orelse (rget s ''algorithm'') ''RS256'' = ''RS256''"
    by (simp_all add: assms)
  show ?thesis unfolding jwt_reads e ..
qed

lemma apiKeyAuth_default:
  assumes "rget s' = (rget s)(''key_location'' := Some ''header,query'')" and "rget s ''key_location'' = None"
  shows "apiKeyAuth X R A s' c w = apiKeyAuth X R A s c w"
proof -
  have e: "rget s' ''header_name'' = rget s ''header_name''" "rget s' ''query_param'' = rget s ''query_param''"
    "rget s' ''fail_open'' = rget s ''fail_open''"
    "orelse (rget s' ''key_location'') ''header,query'' = ''header,query''"
    "orelse (rget s ''key_location'') ''header,query'' = ''header,query''"
    by (simp_all add: assms)
  show ?thesis unfolding api_key_reads e ..
qed

lemma try_methods_same:
  fixes R :: "'d redis"
  assumes "\<And>m fn c w. auth_method m = Some (fn :: 'd auth_fn) \<Longrightarrow>
    fn X R A (buildSubConfig cfg' m) c w = fn X R A (buildSubConfig cfg m) c w"
  shows "try_methods X R A cfg' ms failures c w = try_methods X R A cfg ms failures c w"
proof (induction ms arbitrary: failures c w)
  case (Cons m ms)
  show ?case
  proof (cases "auth_method m :: 'd auth_fn option")
    case (Some fn)
    then show ?thesis by (simp add: assms [OF Some] Cons.IH split: prod.split sum.split auth_result.split)
  qed (simp add: Cons.IH)
qed simp

section \<open>The plugins\<close>

text \<open>The settings of a type that are choices, with the value shown when there is none.\<close>

definition choices :: "policy_type \<Rightarrow> (string \<times> string) list" where
  "choices ty = List.map_filter (\<lambda>f. case ff_control f of Choice d _ \<Rightarrow> Some (ff_key f, d) | _ \<Rightarrow> None) (ConfigFields ty)"

text \<open>A setting is missing: neither its own key is there nor the one that serves all methods.\<close>

definition missing :: "dict \<Rightarrow> string \<Rightarrow> bool" where
  "missing cfg k \<longleftrightarrow> rget cfg k = None \<and> rget cfg (tl (dropWhile (\<lambda>c. c \<noteq> CHR ''.'') k)) = None"

lemma auth_setting:
  fixes R :: "'d redis"
  assumes "distinct (map fst cfg)" and k: "k = n @ CHR ''.'' # x" "CHR ''.'' \<notin> set n" "CHR ''.'' \<notin> set x"
    and "missing cfg k" and n: "auth_method n = Some (fn0 :: 'd auth_fn)"
    and d: "\<And>s s' c w. rget s' = (rget s)(x := Some v) \<Longrightarrow> rget s x = None \<Longrightarrow> fn0 X R A s' c w = fn0 X R A s c w"
  shows "authPlugin X R A (rset k v cfg) c w = authPlugin X R A cfg c w"
proof -
  let ?cfg = "rset k v cfg"
  have sub: "CHR ''.'' \<notin> set m \<Longrightarrow> rget (buildSubConfig ?cfg m) =
      (if m = n then (rget (buildSubConfig cfg m))(x := Some v) else rget (buildSubConfig cfg m))" for m
    using sub_of_set [OF assms(1) k(1, 2) _ k(3)] .
  have "dropWhile (\<lambda>c. c \<noteq> CHR ''.'') k = CHR ''.'' # x" using k(1, 2) by (auto simp: dropWhile_append3)
  then have none: "rget (buildSubConfig cfg n) x = None"
    using \<open>missing cfg k\<close> k by (simp add: rget_buildSubConfig [OF assms(1)] missing_def orelse_opt_def)
  have "fn X R A (buildSubConfig ?cfg m) c w = fn X R A (buildSubConfig cfg m) c w"
    if "auth_method m = Some (fn :: 'd auth_fn)" for m fn c w
  proof -
    have m: "CHR ''.'' \<notin> set m" using that by (auto simp: auth_method_def split: if_splits)
    show ?thesis
    proof (cases "m = n")
      case True
      then show ?thesis using n that sub [OF m] d [OF _ none] by simp
    next
      case False
      then have "rget (buildSubConfig ?cfg m) = rget (buildSubConfig cfg m)" using sub [OF m] by simp
      then show ?thesis using that by (rule method_same)
    qed
  qed
  then have t: "try_methods X R A ?cfg ms failures c w = try_methods X R A cfg ms failures c w" for ms failures
    by (rule try_methods_same)
  have "CHR ''.'' \<in> set k" using k(1) by simp
  then have "k \<noteq> ''methods''" "k \<noteq> ''allow_anonymous''" "k \<noteq> ''realm''" by auto
  then have r: "rget ?cfg ''methods'' = rget cfg ''methods''" "rget ?cfg ''allow_anonymous'' = rget cfg ''allow_anonymous''"
    "rget ?cfg ''realm'' = rget cfg ''realm''" by simp_all
  show ?thesis unfolding authPlugin_def auth_methods_def challenge_def r t ..
qed

lemma auth_choice:
  assumes "distinct (map fst cfg)" and "(k, d) \<in> set (choices T_auth)" and "missing cfg k"
  shows "authPlugin X R A (rset k d cfg) c w = authPlugin X R A cfg c w"
proof -
  have "(k, d) = (''jwt.algorithm'', ''RS256'') \<or> (k, d) = (''api_key.key_location'', ''header,query'')"
    using assms(2) by (auto simp: choices_def auth_form_def text_field_def area_field_def choice_field_def map_filter_simps)
  then show ?thesis
  proof (elim disjE)
    assume "(k, d) = (''jwt.algorithm'', ''RS256'')"
    then show ?thesis
      by (intro auth_setting [OF assms(1) _ _ _ assms(3), of "''jwt''" "''algorithm''" jwtAuth])
        (simp_all add: auth_method_def jwtAuth_default)
  next
    assume "(k, d) = (''api_key.key_location'', ''header,query'')"
    then show ?thesis
      by (intro auth_setting [OF assms(1) _ _ _ assms(3), of "''api_key''" "''key_location''" apiKeyAuth])
        (simp_all add: auth_method_def apiKeyAuth_default)
  qed
qed

text \<open>The other plugins read the setting at one place, with the same value in its absence.\<close>

lemma rate_limit_choice:
  assumes "(k, d) \<in> set (choices T_rate_limit)" and "rget cfg k = None"
  shows "rateLimit X R A (rset k d cfg) c w = rateLimit X R A cfg c w"
proof -
  have kd: "(k, d) = (''strategy'', ''sliding_window'') \<or> (k, d) = (''key_by'', ''client_id'')"
    using assms(1) by (auto simp: choices_def rate_limit_form_def text_field_def choice_field_def map_filter_simps)
  then have r: "orelse (rget (rset k d cfg) ''strategy'') ''sliding_window'' = orelse (rget cfg ''strategy'') ''sliding_window''"
    "orelse (rget (rset k d cfg) ''key_by'') ''client_id'' = orelse (rget cfg ''key_by'') ''client_id''"
    "rget (rset k d cfg) ''rpm'' = rget cfg ''rpm''" "rget (rset k d cfg) ''rph'' = rget cfg ''rph''"
    "rget (rset k d cfg) ''rpd'' = rget cfg ''rpd''" "rget (rset k d cfg) ''use_plan_limits'' = rget cfg ''use_plan_limits''"
    "rget (rset k d cfg) ''burst_size'' = rget cfg ''burst_size''" "rget (rset k d cfg) ''refill_rate'' = rget cfg ''refill_rate''"
    using assms(2) by auto
  show ?thesis unfolding rateLimit_def effective_limits_def bucket_branch_def rate_key_def r ..
qed

lemma cors_choice:
  assumes "(k, d) \<in> set (choices T_cors)" and "rget cfg k = None"
  shows "cors X R A (rset k d cfg) c w = cors X R A cfg c w"
proof -
  have kd: "k = ''allow_credentials''" "d = ''false''"
    using assms(1) by (auto simp: choices_def cors_form_def text_field_def choice_field_def map_filter_simps)
  then have r: "(rget (rset k d cfg) ''allow_credentials'' = Some ''true'') = (rget cfg ''allow_credentials'' = Some ''true'')"
    "rget (rset k d cfg) ''allowed_origins'' = rget cfg ''allowed_origins''"
    "rget (rset k d cfg) ''allowed_methods'' = rget cfg ''allowed_methods''"
    "rget (rset k d cfg) ''allowed_headers'' = rget cfg ''allowed_headers''"
    "rget (rset k d cfg) ''exposed_headers'' = rget cfg ''exposed_headers''" "rget (rset k d cfg) ''max_age'' = rget cfg ''max_age''"
    using assms(2) by auto
  show ?thesis unfolding cors_def cors_ctx_def cors_headers_def preflight_def allowed_origins_def r ..
qed

lemma ip_whitelist_choice:
  assumes "(k, d) \<in> set (choices T_ip_whitelist)" and "rget cfg k = None"
  shows "ipWhitelist X R A (rset k d cfg) c w = ipWhitelist X R A cfg c w"
proof -
  have "k = ''mode''" "d = ''whitelist''"
    using assms(1) by (auto simp: choices_def ip_whitelist_form_def area_field_def choice_field_def map_filter_simps)
  then have r: "orelse (rget (rset k d cfg) ''mode'') ''whitelist'' = orelse (rget cfg ''mode'') ''whitelist''"
    "rget (rset k d cfg) ''ips'' = rget cfg ''ips''"
    using assms(2) by auto
  show ?thesis unfolding ipWhitelist_def ipWhitelist_ctx_def r ..
qed

lemma transform_choice:
  assumes "(k, d) \<in> set (choices T_transform)" and "rget cfg k = None"
  shows "transformPlugin X R A (rset k d cfg) c w = transformPlugin X R A cfg c w"
proof -
  have kd: "k = ''inject_request_id'' \<or> k = ''inject_gateway_id''" "d = ''true''"
    using assms(1) by (auto simp: choices_def transform_form_def area_field_def choice_field_def map_filter_simps)
  then have s: "switched_on (rset k d cfg) = switched_on cfg" using assms(2) by (auto simp: switched_on_def fun_eq_iff)
  have r: "rget (rset k d cfg) ''request_headers'' = rget cfg ''request_headers''"
    "rget (rset k d cfg) ''response_headers'' = rget cfg ''response_headers''"
    "rget (rset k d cfg) ''rename_query'' = rget cfg ''rename_query''" "rget (rset k d cfg) ''remove_query'' = rget cfg ''remove_query''"
    "rget (rset k d cfg) ''add_query'' = rget cfg ''add_query''" "rget (rset k d cfg) ''max_body_bytes'' = rget cfg ''max_body_bytes''"
    "rget (rset k d cfg) ''request_body_ops'' = rget cfg ''request_body_ops''"
    "rget (rset k d cfg) ''request_body_type'' = rget cfg ''request_body_type''"
    "rget (rset k d cfg) ''response_body_ops'' = rget cfg ''response_body_ops''"
    "rget (rset k d cfg) ''response_body_type'' = rget cfg ''response_body_type''"
    using kd(1) by auto
  show ?thesis
    unfolding transformPlugin_def transformRequestHeaders_def transformResponseHeaders_def transformQueryParams_def
      transformRequestBody_def transformResponseBody_def body_ops_def within_limit_def injectStandardHeaders_def r s ..
qed

lemma cache_choice:
  assumes "(k, d) \<in> set (choices T_cache)" and "rget cfg k = None"
  shows "cache X R A (rset k d cfg) c w = cache X R A cfg c w"
proof -
  have kd: "(k, d) = (''key_by'', ''path'') \<or> (k, d) = (''bypass_if'', [])"
    using assms(1) by (auto simp: choices_def cache_form_def text_field_def choice_field_def map_filter_simps)
  then have r: "orelse (rget (rset k d cfg) ''key_by'') ''path'' = orelse (rget cfg ''key_by'') ''path''"
    "(rget (rset k d cfg) ''bypass_if'' = Some ''no-cache'') = (rget cfg ''bypass_if'' = Some ''no-cache'')"
    "rget (rset k d cfg) ''ttl'' = rget cfg ''ttl''" "rget (rset k d cfg) ''vary_headers'' = rget cfg ''vary_headers''"
    using assms(2) by auto
  show ?thesis unfolding cache_def cache_bypass_def cache_ttl_def buildKey_def key_parts_def r ..
qed

lemma no_breaker_choice: "choices T_circuit_breaker = []"
  by (simp add: choices_def circuit_breaker_form_def text_field_def map_filter_simps)

text \<open>
  The editor and the gateway agree on what is not set: where a choice of the form shows a value for
  a setting that is missing, the gateway runs the policy exactly as if that value had been
  chosen, for every plugin, request and world; and the value is one of those to choose from.
\<close>

theorem choices_are_defaults:
  fixes R :: "'d redis"
  assumes "f \<in> set (ConfigFields ty)" and "ff_control f = Choice d options" and "p_type p = type_name ty"
    and "distinct (map fst (p_config p))" and "missing (p_config p) (ff_key f)"
  shows "shown_value (p_config p) f = d \<and> d \<in> set options \<and>
    run_policy X R A (p\<lparr>p_config := rset (ff_key f) d (p_config p)\<rparr>) s = run_policy X R A p s"
proof -
  let ?k = "ff_key f" and ?cfg = "p_config p"
  have k: "(?k, d) \<in> set (choices ty)"
    using assms(1, 2) by (auto simp: choices_def map_filter_def intro!: image_eqI [of _ _ f])
  have none: "rget ?cfg ?k = None" using assms(5) by (simp add: missing_def)
  have "d \<in> set options"
    using assms(1, 2) by (cases ty) (auto simp: auth_form_def rate_limit_form_def cors_form_def ip_whitelist_form_def
        transform_form_def cache_form_def circuit_breaker_form_def text_field_def area_field_def choice_field_def)
  moreover have "shown_value ?cfg f = d" using none assms(2) by (simp add: shown_value_def)
  moreover have "the (PLUGIN_MAP (p_type p)) X R A (rset ?k d ?cfg) c w = the (PLUGIN_MAP (p_type p)) X R A ?cfg c w" for c w
    using k none auth_choice [OF assms(4) _ assms(5), of d X R A c w]
    by (cases ty) (simp_all add: assms(3) PLUGIN_MAP_def rate_limit_choice cors_choice ip_whitelist_choice transform_choice
        cache_choice no_breaker_choice)
  then have "run_policy X R A (p\<lparr>p_config := rset ?k d ?cfg\<rparr>) s = run_policy X R A p s"
    by (cases s; cases "PLUGIN_MAP (p_type p) :: 'd plugin option") (simp_all add: run_policy_def)
  ultimately show ?thesis by blast
qed

lemma choices_are_defaults_witness:
  "\<exists>f \<in> set (ConfigFields T_auth). ff_key f = ''jwt.algorithm'' \<and>
    shown_value [(''methods'', ''jwt'')] f = ''RS256'' \<and>
    (let p = \<lparr> p_id = ''p1'', p_type = ''auth'', p_phase = ''pre_request'', p_order = 0, p_enabled = True,
               p_config = [(''methods'', ''jwt'')], p_condition = None \<rparr>
     in run_policy sample_ext mem_redis sample_config (p\<lparr>p_config := [(''methods'', ''jwt''), (''jwt.algorithm'', ''RS256'')]\<rparr>)
          (sample_ctx0, sample_io) = run_policy sample_ext mem_redis sample_config p (sample_ctx0, sample_io))"
proof -
  define p where "p = \<lparr> p_id = ''p1'', p_type = ''auth'', p_phase = ''pre_request'', p_order = 0, p_enabled = True,
    p_config = [(''methods'', ''jwt'')], p_condition = None \<rparr>"
  let ?f = "choice_field ''jwt.algorithm'' ''RS256'' [''RS256'', ''HS256'', ''ES256'']"
  have h: "?f \<in> set (ConfigFields T_auth)" "ff_control ?f = Choice ''RS256'' [''RS256'', ''HS256'', ''ES256'']"
    "p_type p = type_name T_auth" "distinct (map fst (p_config p))" "missing (p_config p) (ff_key ?f)"
    by (simp_all add: auth_form_def choice_field_def p_def missing_def)
  from choices_are_defaults [OF h, of sample_ext mem_redis sample_config "(sample_ctx0, sample_io)"]
  have "shown_value [(''methods'', ''jwt'')] ?f = ''RS256''"
    "run_policy sample_ext mem_redis sample_config (p\<lparr>p_config := [(''methods'', ''jwt''), (''jwt.algorithm'', ''RS256'')]\<rparr>)
       (sample_ctx0, sample_io) = run_policy sample_ext mem_redis sample_config p (sample_ctx0, sample_io)"
    by (simp_all add: p_def choice_field_def rset_def)
  moreover have "ff_key ?f = ''jwt.algorithm''" by (simp add: choice_field_def)
  ultimately show ?thesis using h(1) unfolding p_def Let_def by blast
qed

section \<open>Fields that are emptied, and phases that never run\<close>

text \<open>
  An emptied text is not a missing setting: no origin is allowed any more where the form shows
  the hint \<open>*\<close>, and a breaker without thresholds never counts enough failures.
\<close>

lemma emptied_origins:
  "truthy (request_origin c) \<Longrightarrow> cors_ctx (rset ''allowed_origins'' [] cfg) c = abort c 403 ''CORS: origin not allowed''"
proof -
  have "parseCSV [] = []" by code_simp
  then show "truthy (request_origin c) \<Longrightarrow> cors_ctx (rset ''allowed_origins'' [] cfg) c = abort c 403 ''CORS: origin not allowed''"
    by (simp add: cors_ctx_def allowed_origins_def)
qed

lemma emptied_thresholds:
  assumes "k = ''threshold'' \<or> k = ''error_threshold''" and "rget cfg k = Some []"
  shows "cb_number cfg k dflt = None"
proof -
  have "parse_int [] = None" by code_simp
  then show ?thesis using assms by (simp add: cb_number_def)
qed

text \<open>
  The registry offers the circuit breaker for two phases. In the first the response is not there
  yet, so a closed breaker changes nothing; the second is one that the gateway never runs.
\<close>

lemma offered_phases: "List.find (\<lambda>m. pm_type m = T_circuit_breaker) PLUGIN_REGISTRY \<noteq> None \<and>
    (\<forall>m \<in> set PLUGIN_REGISTRY. pm_type m = T_circuit_breaker \<longrightarrow> pm_compatiblePhases m = [PRE_REQUEST, POST_REQUEST])"
  by (simp add: PLUGIN_REGISTRY_def)

lemma closed_breaker_before_response:
  assumes "c_statusCode c = 0" and "quiet w"
    and "r_get R (io_rtime w 0) (io_data w) (stateKey (c_apiId c)) \<notin> {Some ''open'', Some ''half_open''}"
  shows "fst (snd (circuitBreaker X R A cfg c w)) = c \<and> io_data (snd (snd (circuitBreaker X R A cfg c w))) = io_data w"
  using assms
  by (simp add: circuitBreaker_def cb_closed_def Let_def redis_read_def redis_call_quiet)

end
