(* ===== verification/StudioCanvas.thy ===== *)
theory StudioCanvas
  imports StudioPanels "HOL-Library.Multiset"
begin

text \<open>
  What the canvas and the preview show of a chain: every policy once, in the order in which the
  phases run them, without overlap; and where the YAML of the preview is no YAML.
\<close>

section \<open>The canvas\<close>

fun shown_policy :: "canvas_node \<Rightarrow> studio_policy option" where
  "shown_policy n = (case cn_data n of Policy_node p \<Rightarrow> Some p | _ \<Rightarrow> None)"

definition policy_nodes :: "canvas_node list \<Rightarrow> canvas_node list" where
  "policy_nodes ns = filter (\<lambda>n. shown_policy n \<noteq> None) ns"

text \<open>Two nodes of the size of a policy that do not overlap.\<close>

definition apart :: "canvas_node \<Rightarrow> canvas_node \<Rightarrow> bool" where
  "apart m n \<longleftrightarrow> COLUMN_WIDTH \<le> \<bar>cn_x m - cn_x n\<bar> \<or> NODE_HEIGHT \<le> \<bar>cn_y m - cn_y n\<bar>"

definition column :: "studio \<Rightarrow> nat \<Rightarrow> policy_phase \<Rightarrow> canvas_node list" where
  "column s i ph = map (policy_node (st_selectedPolicyId s) (column_x i)) (List.enumerate 0 (selectPoliciesByPhase s ph))"

lemma column_policy_nodes:
  "policy_nodes (column_nodes (selectPoliciesByPhase s) (st_selectedPolicyId s) (i, ph)) = column s i ph"
  by (auto simp: policy_nodes_def column_nodes_def column_def policy_node_def Let_def filter_id_conv)

lemma policy_nodes_append [simp]: "policy_nodes (xs @ ys) = policy_nodes xs @ policy_nodes ys"
  by (simp add: policy_nodes_def)

lemma canvas_columns:
  "policy_nodes (PolicyCanvas s) = column s 0 PRE_REQUEST @ column s 1 POST_REQUEST @ column s 2 PRE_RESPONSE @ column s 3 POST_RESPONSE"
  by (simp add: PolicyCanvas_def buildNodes_def STUDIO_PHASE_ORDER_def column_policy_nodes numeral_2_eq_2 numeral_3_eq_3)

lemma column_x: "n \<in> set (column s i ph) \<Longrightarrow> cn_x n = column_x i"
  by (auto simp: column_def policy_node_def)

lemma columns_apart: "m \<in> set (column s i ph) \<Longrightarrow> n \<in> set (column s j ph') \<Longrightarrow> i \<noteq> j \<Longrightarrow> apart m n"
  by (auto simp: apart_def column_x column_x_def COLUMN_WIDTH_def COLUMN_GAP_def)

lemma column_apart: "sorted_wrt apart (column s i ph)"
  by (auto simp: sorted_wrt_iff_nth_less column_def nth_enumerate_eq policy_node_def apart_def NODE_HEIGHT_def NODE_GAP_def)

lemma column_shows: "List.map_filter shown_policy (column s i ph) = selectPoliciesByPhase s ph"
  by (simp add: column_def map_filter_def policy_node_def comp_def filter_True)

lemma map_filter_append: "List.map_filter f (xs @ ys) = List.map_filter f xs @ List.map_filter f ys"
  by (simp add: map_filter_def)

lemma shown_policies: "List.map_filter shown_policy ns = List.map_filter shown_policy (policy_nodes ns)"
  by (induction ns) (auto simp: policy_nodes_def map_filter_simps split: option.split)

lemma mset_phases: "mset (in_phase PRE_REQUEST ps @ in_phase POST_REQUEST ps @ in_phase PRE_RESPONSE ps @ in_phase POST_RESPONSE ps) = mset ps"
proof (induction ps)
  case (Cons p ps)
  then show ?case by (cases "sp_phase p") (simp_all add: in_phase_def)
qed (simp add: in_phase_def)

lemma mset_js_sort: "mset (js_sort (\<lambda>a b. sp_order a - sp_order b) ps) = mset ps"
  by (subst js_sort_sort_key [of _ sp_order]) simp_all

text \<open>
  The canvas shows the chain: every policy of the chain has exactly one node, the nodes stand
  phase by phase in the order in which each phase runs its policies, which is the order of the
  preview, and no two nodes of policies overlap.
\<close>

theorem canvas_shows_chain:
  "List.map_filter shown_policy (PolicyCanvas s) = concat (map (selectPoliciesByPhase s) STUDIO_PHASE_ORDER) \<and>
   mset (List.map_filter shown_policy (PolicyCanvas s)) = mset (policies_of s) \<and>
   sorted_wrt apart (policy_nodes (PolicyCanvas s))"
proof (intro conjI)
  show order: "List.map_filter shown_policy (PolicyCanvas s) = concat (map (selectPoliciesByPhase s) STUDIO_PHASE_ORDER)"
    by (simp add: shown_policies [of "PolicyCanvas s"] canvas_columns map_filter_append column_shows STUDIO_PHASE_ORDER_def)
  show "mset (List.map_filter shown_policy (PolicyCanvas s)) = mset (policies_of s)"
    unfolding order using mset_phases [of "policies_of s"]
    by (simp add: STUDIO_PHASE_ORDER_def selectPoliciesByPhase_def mset_js_sort)
  show "sorted_wrt apart (policy_nodes (PolicyCanvas s))"
    by (auto simp: canvas_columns sorted_wrt_append column_apart intro: columns_apart)
qed

lemma preview_order:
  "st_chain s = Some ch \<Longrightarrow> preview_policies ch = concat (map (selectPoliciesByPhase s) STUDIO_PHASE_ORDER)"
  by (simp add: preview_policies_def selectPoliciesByPhase_def [abs_def] policies_of_def)

section \<open>The library\<close>

lemma usage_fold:
  "orelse (rget (fold (\<lambda>p counts. rset (sp_type p) (orelse (rget counts (sp_type p)) 0 + 1) counts) ps cs) ty) 0 =
     orelse (rget cs ty) (0 :: nat) + length (filter (\<lambda>p. sp_type p = ty) ps)"
  by (induction ps arbitrary: cs) auto

lemma phase_fold:
  "fold (\<lambda>p counts. counts(sp_phase p := counts (sp_phase p) + 1)) ps cs ph = cs ph + length (in_phase ph ps)"
  by (induction ps arbitrary: cs) (simp_all add: in_phase_def)

lemma phase_counts_exact: "phase_counts ps ph = length (in_phase ph ps)"
  unfolding phase_counts_def phase_fold by simp

text \<open>The badges and the bars of the library count what is in the chain, and the bars add up to the whole.\<close>

lemma usage_exact: "orelse (rget (usageCounts s) ty) 0 = length (filter (\<lambda>p. sp_type p = ty) (policies_of s))"
  unfolding usageCounts_def usage_fold by simp

lemma bars_exact:
  "(ph, width, n) \<in> set (PhaseBreakdown s) \<Longrightarrow> n = length (in_phase ph (policies_of s)) \<and> 0 < n \<and>
     width = of_nat n / of_nat (length (policies_of s)) * 100"
  by (auto simp: PhaseBreakdown_def Let_def phase_counts_exact split: if_splits)

lemma counts_sum: "(\<Sum>ph \<leftarrow> STUDIO_PHASE_ORDER. phase_counts ps ph) = length ps"
proof -
  have "length ps = size (mset ps)" by simp
  also have "\<dots> = (\<Sum>ph \<leftarrow> STUDIO_PHASE_ORDER. length (in_phase ph ps))"
    by (subst mset_phases [symmetric]) (simp add: STUDIO_PHASE_ORDER_def)
  finally show ?thesis by (simp add: phase_counts_exact)
qed

text \<open>What is dragged from the library is put into a phase that suits its type.\<close>

lemma library_places:
  "meta \<in> set PLUGIN_REGISTRY \<Longrightarrow> snd (drag_data meta) \<in> set (pm_compatiblePhases meta)"
  by (auto simp: PLUGIN_REGISTRY_def drag_data_def)

section \<open>The YAML of the preview\<close>

text \<open>
  The text of a member that is an object begins with its first key: it stands right behind the
  colon, where YAML wants a line break, and what follows is on lines of its own.
\<close>

lemma toYaml_member_glued:
  assumes "obj \<noteq> []" and "entries = object_entries (map (\<lambda>(k, v). (k, is_container v, toYaml X (i + 2) v)) obj)"
  shows "toYaml X i (JObj [(k, JObj obj)]) = js_trim_start (newline @ yaml_pad i @ k @ '':'' @
    js_trim_start (concat (map (yaml_entry (i + 1)) entries)))"
  using assms by (simp add: object_entries_def yaml_entry_def)

lemma config_glued:
  "toYaml sample_ext 0 (JObj [(''config'', JObj [(''ttl'', JStr ''60''), (''key_by'', JStr ''path'')])]) =
     ''config:ttl: 60'' @ newline @ ''  key_by: path''"
  by code_simp

end
