(* ===== verification/StudioEditor.thy ===== *)
theory StudioEditor
  imports StudioPanels
begin

text \<open>
  \<open>studio/src/pages/Editor.tsx\<close> as a page among asynchronous answers: the route \<open>editor/:apiId\<close> of
  \<open>App.tsx\<close>, which mounts it and leaves it, the query of its API, the edits of its panels, and the
  deployment, a mutation that publishes the chain followed by one that invalidates the cache. The
  store of the chain is global: it outlives the page, and so does a deployment under way.
\<close>

section \<open>Loading an API\<close>

text \<open>What \<open>GET_API_WITH_CHAIN\<close> answers, members that may be null as options.\<close>

record raw_chain =
  rc_chainId :: string
  rc_version :: "int option"
  rc_etag :: "string option"
  rc_updatedAt :: "string option"
  rc_policies :: "studio_policy list option"

record raw_api =
  ra_id :: string
  ra_name :: string
  ra_version :: "string option"
  ra_basePath :: string
  ra_upstreamUrl :: "string option"
  ra_description :: "string option"
  ra_status :: "string option"
  ra_orgId :: "string option"
  ra_tags :: "string list option"
  ra_policyChain :: "raw_chain option"

definition editor_api :: "raw_api \<Rightarrow> api_info" where
  "editor_api api = \<lparr> ai_id = ra_id api, ai_name = ra_name api, ai_version = orelse (ra_version api) [],
     ai_basePath = ra_basePath api, ai_upstreamUrl = orelse (ra_upstreamUrl api) [],
     ai_description = ra_description api, ai_status = orelse (ra_status api) [],
     ai_orgId = orelse (ra_orgId api) [], ai_tags = orelse (ra_tags api) [], ai_policyChain = None \<rparr>"

definition editor_chain :: "string \<Rightarrow> raw_api \<Rightarrow> studio_chain option" where
  "editor_chain nowIso api = map_option (\<lambda>c. \<lparr> sc_chainId = rc_chainId c, sc_apiId = ra_id api,
     sc_version = orelse (rc_version c) 0, sc_etag = orelse (rc_etag c) [],
     sc_updatedAt = Some (orelse (rc_updatedAt c) nowIso), sc_policies = orelse (rc_policies c) [] \<rparr>)
     (ra_policyChain api)"

section \<open>The page\<close>

text \<open>
  A mounted page: the parameter of its route, \<open>loadedRef\<close>, the state of its query, its own state
  and the timers that will hide the message of success. Pages are numbered in the order in which
  they are mounted; setting the state of a page that is no longer mounted does nothing.
\<close>

record page =
  pg_no :: nat
  pg_apiId :: string
  pg_loadedRef :: "string option"
  pg_loading :: bool
  pg_queryError :: "string option"
  pg_data :: "raw_api option"
  pg_view :: deploy_view
  pg_showPreview :: bool
  pg_timers :: nat

definition mount :: "nat \<Rightarrow> string \<Rightarrow> page" where
  "mount n apiId = \<lparr> pg_no = n, pg_apiId = apiId, pg_loadedRef = None, pg_loading = True, pg_queryError = None,
     pg_data = None, pg_view = \<lparr> dv_error = None, dv_success = False \<rparr>, pg_showPreview = False, pg_timers = 0 \<rparr>"

text \<open>A run of \<open>handleDeploy\<close> that waits: for the publication, or (with the chain that it answered)
  for the invalidation.\<close>

record flight =
  fl_page :: nat
  fl_apiId :: string
  fl_published :: "studio_chain option"

record editor =
  ed_store :: studio
  ed_page :: "page option"
  ed_mounted :: nat
  ed_flights :: "(nat \<times> flight) list"
  ed_next :: nat

definition editor_init :: editor where
  "editor_init = \<lparr> ed_store = studio_init, ed_page = None, ed_mounted = 0, ed_flights = [], ed_next = 0 \<rparr>"

datatype editor_request = Fetch_api string | Publish_chain string "jobj list" | Invalidate_chain string

definition on_page :: "nat \<Rightarrow> (page \<Rightarrow> page) \<Rightarrow> editor \<Rightarrow> editor" where
  "on_page n f ed = ed\<lparr>ed_page := map_option (\<lambda>p. if pg_no p = n then f p else p) (ed_page ed)\<rparr>"

definition on_store :: "(studio \<Rightarrow> studio) \<Rightarrow> editor \<Rightarrow> editor" where
  "on_store f ed = ed\<lparr>ed_store := f (ed_store ed)\<rparr>"

text \<open>
  The effect on \<open>[data, apiId, loadChain]\<close>, after the query of the page has brought \<open>data\<close>. It
  runs when \<open>data\<close> has changed: the query hands the same object to the page again as long as the
  answer is equal to the last one, and the other two never change while the page is mounted.
\<close>

definition take_data :: "string \<Rightarrow> raw_api option \<Rightarrow> page \<Rightarrow> editor \<Rightarrow> editor" where
  "take_data nowIso data p ed =
     (let p1 = p\<lparr>pg_loading := False, pg_queryError := None, pg_data := data\<rparr>
      in case data of
           None \<Rightarrow> ed\<lparr>ed_page := Some p1\<rparr>
         | Some api \<Rightarrow>
             if data = pg_data p \<or> pg_loadedRef p = Some (pg_apiId p) then ed\<lparr>ed_page := Some p1\<rparr>
             else on_store (loadChain (editor_api api) (editor_chain nowIso api))
                    (ed\<lparr>ed_page := Some (p1\<lparr>pg_loadedRef := Some (pg_apiId p)\<rparr>)\<rparr>))"

subsection \<open>Deploying\<close>

text \<open>\<open>handleDeploy\<close> up to its first \<open>await\<close>.\<close>

definition deploy_start :: "page \<Rightarrow> editor \<Rightarrow> editor \<times> editor_request list" where
  "deploy_start p ed =
     (case st_chain (ed_store ed) of
        None \<Rightarrow> (ed, [])
      | Some ch \<Rightarrow>
          if pg_apiId p = [] then (ed, [])
          else ((on_store (setSaving True)
                   (on_page (pg_no p) (\<lambda>p. p\<lparr>pg_view := \<lparr> dv_error = None, dv_success = False \<rparr>\<rparr>) ed))
                 \<lparr>ed_flights := (ed_next ed, \<lparr> fl_page = pg_no p, fl_apiId = pg_apiId p, fl_published = None \<rparr>) # ed_flights ed,
                  ed_next := Suc (ed_next ed)\<rparr>,
                [Publish_chain (pg_apiId p) (map policy_input (sc_policies ch))]))"

definition land :: "nat \<Rightarrow> editor \<Rightarrow> editor" where
  "land n ed = ed\<lparr>ed_flights := filter (\<lambda>(k, f). k \<noteq> n) (ed_flights ed)\<rparr>"

text \<open>The branches \<open>catch\<close> and \<open>finally\<close>.\<close>

definition deploy_failed :: "nat \<Rightarrow> flight \<Rightarrow> bff_error \<Rightarrow> editor \<Rightarrow> editor" where
  "deploy_failed n f e ed =
     on_store (setSaving False)
       (on_page (fl_page f) (\<lambda>p. p\<lparr>pg_view := (pg_view p)\<lparr>dv_error := Some (error_message e)\<rparr>\<rparr>) (land n ed))"

text \<open>After the publication.\<close>

fun deploy_published :: "nat \<Rightarrow> flight \<Rightarrow> bff_error + studio_chain \<Rightarrow> editor \<Rightarrow> editor \<times> editor_request list" where
  "deploy_published n f (Inl e) ed = (deploy_failed n f e ed, [])"
| "deploy_published n f (Inr c) ed =
     (ed\<lparr>ed_flights := map (\<lambda>(k, g). if k = n then (k, g\<lparr>fl_published := Some c\<rparr>) else (k, g)) (ed_flights ed)\<rparr>,
      [Invalidate_chain (fl_apiId f)])"

text \<open>After the invalidation; \<open>c\<close> is the chain that the publication answered.\<close>

fun deploy_invalidated :: "nat \<Rightarrow> flight \<Rightarrow> studio_chain \<Rightarrow> bff_error + bool \<Rightarrow> editor \<Rightarrow> editor \<times> editor_request list" where
  "deploy_invalidated n f c (Inl e) ed = (deploy_failed n f e ed, [])"
| "deploy_invalidated n f c (Inr b) ed =
     (on_store (\<lambda>s. setSaving False (markClean c s))
        (on_page (fl_page f) (\<lambda>p. p\<lparr>pg_view := (pg_view p)\<lparr>dv_success := True\<rparr>, pg_timers := Suc (pg_timers p),
           pg_loadedRef := None\<rparr>) (land n ed)),
      [Fetch_api (fl_apiId f)])"

subsection \<open>What the page shows\<close>

definition Button_disabled :: "bool \<Rightarrow> bool \<Rightarrow> bool" where
  "Button_disabled disabled loading \<longleftrightarrow> disabled \<or> loading"

record editor_shown =
  es_name :: string
  es_basePath :: string
  es_unsaved :: bool
  es_chain :: "(int \<times> nat) option"
  es_error :: "string option"
  es_success :: bool
  es_preview :: bool
  es_deploy_disabled :: bool

datatype editor_view = Editor_loading | Editor_failed string | Editor_shown editor_shown

definition Editor :: "studio \<Rightarrow> page \<Rightarrow> editor_view" where
  "Editor s p =
     (if pg_loading p then Editor_loading
      else case (pg_queryError p, pg_data p) of
        (Some msg, _) \<Rightarrow> Editor_failed msg
      | (None, None) \<Rightarrow> Editor_failed ''API not found''
      | (None, Some api) \<Rightarrow> Editor_shown \<lparr> es_name = ra_name api, es_basePath = ra_basePath api,
          es_unsaved = st_isDirty s,
          es_chain = map_option (\<lambda>ch. (sc_version ch, length (sc_policies ch))) (st_chain s),
          es_error = dv_error (pg_view p), es_success = dv_success (pg_view p), es_preview = pg_showPreview p,
          es_deploy_disabled = Button_disabled (\<not> st_isDirty s \<or> st_isSaving s) (st_isSaving s) \<rparr>)"

section \<open>Events\<close>

datatype editor_event =
    Open_editor string
  | Leave_editor
  | Query_data string "raw_api option"
  | Query_error string
  | Edit studio_action
  | Click_deploy
  | Key_save
  | Publish_answer nat "bff_error + studio_chain"
  | Invalidate_answer nat "bff_error + bool"
  | Click_reload
  | Show_preview bool
  | Hide_success

text \<open>The actions that the panels and the canvas dispatch.\<close>

fun user_edit :: "studio_action \<Rightarrow> bool" where
  "user_edit (LoadChain api ch) = False"
| "user_edit (SetSaving v) = False"
| "user_edit (MarkClean ch) = False"
| "user_edit _ = True"

definition page_shown :: "editor \<Rightarrow> editor_shown option" where
  "page_shown ed = (case ed_page ed of None \<Rightarrow> None | Some p \<Rightarrow>
     (case Editor (ed_store ed) p of Editor_shown v \<Rightarrow> Some v | _ \<Rightarrow> None))"

text \<open>
  When an event can happen: a click needs what it clicks on, an answer a request. The listener of
  the keyboard hangs on the window as long as the page is mounted.
\<close>

fun editor_offers :: "editor \<Rightarrow> editor_event \<Rightarrow> bool" where
  "editor_offers ed (Open_editor apiId) = (ed_page ed = None \<and> apiId \<noteq> [])"
| "editor_offers ed (Edit a) = (page_shown ed \<noteq> None \<and> user_edit a)"
| "editor_offers ed Click_deploy = (case page_shown ed of None \<Rightarrow> False | Some v \<Rightarrow> \<not> es_deploy_disabled v)"
| "editor_offers ed (Publish_answer n r) =
     (case map_of (ed_flights ed) n of None \<Rightarrow> False | Some f \<Rightarrow> fl_published f = None)"
| "editor_offers ed (Invalidate_answer n r) =
     (case map_of (ed_flights ed) n of None \<Rightarrow> False | Some f \<Rightarrow> fl_published f \<noteq> None)"
| "editor_offers ed Click_reload = (page_shown ed \<noteq> None)"
| "editor_offers ed (Show_preview b) = (page_shown ed \<noteq> None)"
| "editor_offers ed Hide_success = (case ed_page ed of None \<Rightarrow> False | Some p \<Rightarrow> pg_timers p > 0)"
| "editor_offers ed _ = (ed_page ed \<noteq> None)"

definition with_page :: "(page \<Rightarrow> editor \<times> editor_request list) \<Rightarrow> editor \<Rightarrow> editor \<times> editor_request list" where
  "with_page f ed = (case ed_page ed of None \<Rightarrow> (ed, []) | Some p \<Rightarrow> f p)"

definition with_flight :: "nat \<Rightarrow> (flight \<Rightarrow> editor \<times> editor_request list) \<Rightarrow> editor \<Rightarrow> editor \<times> editor_request list" where
  "with_flight n f ed = (case map_of (ed_flights ed) n of None \<Rightarrow> (ed, []) | Some fl \<Rightarrow> f fl)"

fun editor_do :: "editor_event \<Rightarrow> editor \<Rightarrow> editor \<times> editor_request list" where
  "editor_do (Open_editor apiId) ed =
     (ed\<lparr>ed_page := Some (mount (ed_mounted ed) apiId), ed_mounted := Suc (ed_mounted ed)\<rparr>, [Fetch_api apiId])"
| "editor_do Leave_editor ed = (ed\<lparr>ed_page := None\<rparr>, [])"
| "editor_do (Query_data nowIso data) ed = with_page (\<lambda>p. (take_data nowIso data p ed, [])) ed"
| "editor_do (Query_error msg) ed =
     with_page (\<lambda>p. (ed\<lparr>ed_page := Some (p\<lparr>pg_loading := False, pg_queryError := Some msg, pg_data := None\<rparr>)\<rparr>, [])) ed"
| "editor_do (Edit a) ed = (on_store (studio_act a) ed, [])"
| "editor_do Click_deploy ed = with_page (\<lambda>p. deploy_start p ed) ed"
| "editor_do Key_save ed = with_page (\<lambda>p. deploy_start p ed) ed"
| "editor_do (Publish_answer n r) ed = with_flight n (\<lambda>f. deploy_published n f r ed) ed"
| "editor_do (Invalidate_answer n r) ed =
     with_flight n (\<lambda>f. case fl_published f of None \<Rightarrow> (ed, []) | Some c \<Rightarrow> deploy_invalidated n f c r ed) ed"
| "editor_do Click_reload ed =
     with_page (\<lambda>p. (ed\<lparr>ed_page := Some (p\<lparr>pg_loadedRef := None\<rparr>)\<rparr>, [Fetch_api (pg_apiId p)])) ed"
| "editor_do (Show_preview b) ed = with_page (\<lambda>p. (ed\<lparr>ed_page := Some (p\<lparr>pg_showPreview := b\<rparr>)\<rparr>, [])) ed"
| "editor_do Hide_success ed =
     with_page (\<lambda>p. (ed\<lparr>ed_page := Some (p\<lparr>pg_view := (pg_view p)\<lparr>dv_success := False\<rparr>, pg_timers := pg_timers p - 1\<rparr>)\<rparr>, [])) ed"

definition editor_step :: "editor_event \<Rightarrow> editor \<Rightarrow> editor \<times> editor_request list" where
  "editor_step e ed = (if editor_offers ed e then editor_do e ed else (ed, []))"

definition editor_run :: "editor_event list \<Rightarrow> editor \<Rightarrow> editor" where
  "editor_run es ed = fold (\<lambda>e ed. fst (editor_step e ed)) es ed"

text \<open>The requests that a run sends, in their order.\<close>

primrec editor_requests :: "editor_event list \<Rightarrow> editor \<Rightarrow> editor_request list" where
  "editor_requests [] ed = []"
| "editor_requests (e # es) ed = snd (editor_step e ed) @ editor_requests es (fst (editor_step e ed))"

text \<open>The states that runs reach whose events satisfy \<open>ok\<close>.\<close>

inductive editor_reaches :: "(editor \<Rightarrow> editor_event \<Rightarrow> bool) \<Rightarrow> editor \<Rightarrow> bool" for ok where
  start: "editor_reaches ok editor_init"
| step: "editor_reaches ok ed \<Longrightarrow> ok ed e \<Longrightarrow> editor_reaches ok (fst (editor_step e ed))"

end
