(* ===== verification/StudioEditorProps.thy ===== *)
theory StudioEditorProps
  imports StudioEditor StudioProps
begin

text \<open>
  What the editor's page keeps under every order of clicks and answers: a deployment is under way
  exactly while the store says so, a chain is published to the API it belongs to, and edits stay
  until an answer takes their place; and the orders in which each of these fails.
\<close>

lemma on_store_simps [simp]:
  "ed_store (on_store f ed) = f (ed_store ed)" "ed_page (on_store f ed) = ed_page ed"
  "ed_flights (on_store f ed) = ed_flights ed" "ed_next (on_store f ed) = ed_next ed"
  by (simp_all add: on_store_def)

lemma on_page_simps [simp]:
  "ed_store (on_page n f ed) = ed_store ed" "ed_flights (on_page n f ed) = ed_flights ed"
  "ed_next (on_page n f ed) = ed_next ed"
  "ed_page (on_page n f ed) = map_option (\<lambda>p. if pg_no p = n then f p else p) (ed_page ed)"
  by (simp_all add: on_page_def)

lemma land_simps [simp]:
  "ed_store (land n ed) = ed_store ed" "ed_page (land n ed) = ed_page ed" "ed_next (land n ed) = ed_next ed"
  "ed_flights (land n ed) = filter (\<lambda>(k, f). k \<noteq> n) (ed_flights ed)"
  by (simp_all add: land_def)

lemma deploy_failed_simps [simp]:
  "ed_store (deploy_failed n f e ed) = setSaving False (ed_store ed)"
  "ed_flights (deploy_failed n f e ed) = filter (\<lambda>(k, f). k \<noteq> n) (ed_flights ed)"
  "ed_next (deploy_failed n f e ed) = ed_next ed"
  by (simp_all add: deploy_failed_def)

lemma take_data_simps [simp]:
  "ed_flights (take_data now data p ed) = ed_flights ed" "ed_next (take_data now data p ed) = ed_next ed"
  "st_isSaving (ed_store (take_data now data p ed)) = st_isSaving (ed_store ed)"
  by (simp_all add: take_data_def Let_def loadChain_def split: option.split)

lemma edit_not_saving: "user_edit a \<Longrightarrow> st_isSaving (studio_act a s) = st_isSaving s"
  by (cases a) (auto simp: studio_defs split: option.splits)

lemma edit_saving_apart: "user_edit a \<Longrightarrow> studio_act a (s\<lparr>st_isSaving := b\<rparr>) = (studio_act a s)\<lparr>st_isSaving := b\<rparr>"
  by (cases a) (auto simp: studio_defs policies_of_def split: option.splits)

subsection \<open>A session\<close>

definition sample_raw :: "string \<Rightarrow> raw_api" where
  "sample_raw i = \<lparr> ra_id = i, ra_name = ''Orders'', ra_version = None, ra_basePath = ''/orders'', ra_upstreamUrl = None,
     ra_description = None, ra_status = Some ''ACTIVE'', ra_orgId = None, ra_tags = None, ra_policyChain = None \<rparr>"

definition sample_visit :: "editor_event list" where
  "sample_visit = [Open_editor ''a1'', Query_data ''t0'' (Some (sample_raw ''a1'')),
     Edit (AddPolicy ''p1'' T_cors PRE_REQUEST)]"

definition sample_answer :: studio_chain where
  "sample_answer = \<lparr> sc_chainId = ''c1'', sc_apiId = ''a1'', sc_version = 2, sc_etag = ''e2'', sc_updatedAt = None,
     sc_policies = [] \<rparr>"

definition sample_editor :: editor where
  "sample_editor = editor_run sample_visit editor_init"

definition sample_deploying :: editor where
  "sample_deploying = editor_run [Click_deploy] sample_editor"

section \<open>Invariants of the page\<close>

text \<open>A property of the start that every event allowed by \<open>ok\<close> keeps holds in all states reached.\<close>

locale editor_invariant =
  fixes ok :: "editor \<Rightarrow> editor_event \<Rightarrow> bool" and Inv :: "editor \<Rightarrow> bool"
  assumes starts: "Inv editor_init"
    and kept: "Inv ed \<Longrightarrow> ok ed e \<Longrightarrow> editor_offers ed e \<Longrightarrow> Inv (fst (editor_do e ed))"
begin

lemma holds: "editor_reaches ok ed \<Longrightarrow> Inv ed"
  by (induction rule: editor_reaches.induct) (auto simp: editor_step_def starts kept)

end

text \<open>Every event of a run satisfies \<open>ok\<close> where it happens.\<close>

primrec along :: "(editor \<Rightarrow> editor_event \<Rightarrow> bool) \<Rightarrow> editor_event list \<Rightarrow> editor \<Rightarrow> bool" where
  "along ok [] ed = True"
| "along ok (e # es) ed = (ok ed e \<and> along ok es (fst (editor_step e ed)))"

lemma reaches_run: "along ok es ed \<Longrightarrow> editor_reaches ok ed \<Longrightarrow> editor_reaches ok (editor_run es ed)"
proof (induction es arbitrary: ed)
  case (Cons e es)
  from Cons.IH [OF _ editor_reaches.step [OF Cons.prems(2)]] Cons.prems(1) show ?case by (simp add: editor_run_def)
qed (simp add: editor_run_def)

subsection \<open>Deployments under way\<close>

definition exclusive :: "editor \<Rightarrow> bool" where
  "exclusive ed \<longleftrightarrow> length (ed_flights ed) \<le> 1 \<and> (st_isSaving (ed_store ed) \<longleftrightarrow> ed_flights ed \<noteq> [])"

definition numbered_flights :: "editor \<Rightarrow> bool" where
  "numbered_flights ed \<longleftrightarrow> (\<forall>n f. map_of (ed_flights ed) n = Some f \<longrightarrow> n < ed_next ed)"

lemma land_lookup [simp]: "map_of (filter (\<lambda>(k, f). k \<noteq> n) xs) m = (if m = n then None else map_of xs m)"
  by (induction xs) auto

lemma publish_lookup [simp]:
  "map_of (map (\<lambda>(k, g). if k = n then (k, u g) else (k, g)) xs) m =
   (if m = n then map_option u (map_of xs m) else map_of xs m)"
  by (induction xs) auto

lemma last_lands: "length xs \<le> Suc 0 \<Longrightarrow> map_of xs n = Some f \<Longrightarrow> filter (\<lambda>(k, f). k \<noteq> n) xs = []"
  by (cases xs) (auto split: if_splits)

interpretation one_deployment: editor_invariant "\<lambda>ed e. e \<noteq> Key_save" exclusive
proof
  show "exclusive editor_init" by (simp add: exclusive_def editor_init_def studio_init_def)
next
  fix ed e
  assume inv: "exclusive ed" and ok: "e \<noteq> Key_save" and off: "editor_offers ed e"
  show "exclusive (fst (editor_do e ed))"
  proof (cases e)
    case Click_deploy
    with off inv show ?thesis
      by (auto simp: exclusive_def page_shown_def Editor_def Button_disabled_def deploy_start_def with_page_def setSaving_def
          split: option.splits if_splits)
  next
    case (Publish_answer n r)
    with off inv show ?thesis
      by (cases r) (auto simp: exclusive_def last_lands with_flight_def setSaving_def split: option.splits if_splits)
  next
    case (Invalidate_answer n r)
    with off inv show ?thesis
      by (cases r) (auto simp: exclusive_def last_lands with_flight_def setSaving_def markClean_def split: option.splits if_splits)
  next
    case (Edit a)
    with off inv show ?thesis by (auto simp: exclusive_def edit_not_saving)
  qed (use inv ok in \<open>auto simp: exclusive_def with_page_def split: option.splits\<close>)
qed

interpretation numbered: editor_invariant "\<lambda>ed e. True" numbered_flights
proof
  show "numbered_flights editor_init" by (simp add: numbered_flights_def editor_init_def)
next
  fix ed e
  assume inv: "numbered_flights ed"
  then show "numbered_flights (fst (editor_do e ed))"
  proof (cases e)
    case (Publish_answer n r)
    with inv show ?thesis by (cases r) (auto simp: numbered_flights_def with_flight_def split: option.splits if_splits)
  next
    case (Invalidate_answer n r)
    with inv show ?thesis by (cases r) (auto simp: numbered_flights_def with_flight_def split: option.splits if_splits)
  qed (auto simp: numbered_flights_def with_page_def deploy_start_def split: option.splits)
qed

text \<open>
  C23. With the button alone at most one deployment is under way, and the store is marked as saving
  exactly while one is: the button is neither pressed twice nor left disabled.
\<close>

theorem one_deployment_at_a_time:
  assumes "editor_reaches (\<lambda>ed e. e \<noteq> Key_save) ed"
  shows "length (ed_flights ed) \<le> 1 \<and> (st_isSaving (ed_store ed) \<longleftrightarrow> ed_flights ed \<noteq> [])"
  using one_deployment.holds [OF assms] by (simp add: exclusive_def)

lemma sample_deploying_reached: "editor_reaches (\<lambda>ed e. e \<noteq> Key_save) sample_deploying"
  unfolding sample_deploying_def sample_editor_def
  by (intro reaches_run editor_reaches.start) (simp_all add: sample_visit_def)

lemma sample_deploying_under_way: "map fst (ed_flights sample_deploying) = [0]" by code_simp

theorem one_deployment_at_a_time_witness:
  "length (ed_flights sample_deploying) \<le> 1 \<and> st_isSaving (ed_store sample_deploying)"
  using one_deployment_at_a_time [OF sample_deploying_reached] sample_deploying_under_way by auto

subsection \<open>Whose chain is published\<close>

text \<open>
  What the answers promise: the query answers the API that it asks for, and a publication the chain
  of its API. What a user does who waits: the keyboard only once the page shows the API, and the
  next editor only when no deployment is under way.
\<close>

fun to_the_question :: "editor \<Rightarrow> editor_event \<Rightarrow> bool" where
  "to_the_question ed (Query_data now (Some api)) = (case ed_page ed of None \<Rightarrow> True | Some p \<Rightarrow> ra_id api = pg_apiId p)"
| "to_the_question ed (Publish_answer n (Inr c)) =
     (case map_of (ed_flights ed) n of None \<Rightarrow> True | Some f \<Rightarrow> sc_apiId c = fl_apiId f)"
| "to_the_question ed _ = True"

fun waits :: "editor \<Rightarrow> editor_event \<Rightarrow> bool" where
  "waits ed (Open_editor i) = (ed_flights ed = [])"
| "waits ed Key_save = (page_shown ed \<noteq> None)"
| "waits ed _ = True"

definition belongs :: "string \<Rightarrow> studio \<Rightarrow> bool" where
  "belongs i s \<longleftrightarrow> (\<exists>a. st_api s = Some a \<and> ai_id a = i) \<and> (\<forall>ch. st_chain s = Some ch \<longrightarrow> sc_apiId ch = i)"

definition at_home :: "editor \<Rightarrow> bool" where
  "at_home ed \<longleftrightarrow>
     (\<forall>p. ed_page ed = Some p \<longrightarrow>
        (pg_data p \<noteq> None \<or> pg_loadedRef p \<noteq> None \<longrightarrow> belongs (pg_apiId p) (ed_store ed)) \<and>
        (\<forall>n f. map_of (ed_flights ed) n = Some f \<longrightarrow> fl_apiId f = pg_apiId p)) \<and>
     (\<forall>n f c. map_of (ed_flights ed) n = Some f \<longrightarrow> fl_published f = Some c \<longrightarrow> sc_apiId c = fl_apiId f)"

lemma edit_belongs: "user_edit a \<Longrightarrow> belongs i s \<Longrightarrow> belongs i (studio_act a s)"
  by (cases a) (auto simp: belongs_def studio_defs split: option.splits)

lemma saving_belongs [simp]: "belongs i (setSaving b s) = belongs i s"
  by (simp add: belongs_def setSaving_def)

lemma clean_belongs: "belongs i s \<Longrightarrow> sc_apiId c = i \<Longrightarrow> belongs i (markClean c s)"
  by (simp add: belongs_def markClean_def)

lemma loaded_belongs: "ra_id api = i \<Longrightarrow> belongs i (loadChain (editor_api api) (editor_chain now api) s)"
  by (auto simp: belongs_def loadChain_def editor_api_def editor_chain_def)

interpretation home: editor_invariant "\<lambda>ed e. to_the_question ed e \<and> waits ed e" at_home
proof
  show "at_home editor_init" by (simp add: at_home_def editor_init_def)
next
  fix ed e
  assume inv: "at_home ed" and ok: "to_the_question ed e \<and> waits ed e" and off: "editor_offers ed e"
  show "at_home (fst (editor_do e ed))"
  proof (cases e)
    case (Query_data now data)
    with ok inv show ?thesis
      by (cases data) (auto simp: at_home_def with_page_def take_data_def Let_def loaded_belongs split: option.splits)
  next
    case (Publish_answer n r)
    with ok inv show ?thesis
      by (cases r) (auto simp: at_home_def with_flight_def deploy_failed_def split: option.splits if_splits)
  next
    case (Invalidate_answer n r)
    with inv show ?thesis
      by (cases r) (auto simp: at_home_def with_flight_def deploy_failed_def clean_belongs split: option.splits)
  next
    case (Edit a)
    with off inv show ?thesis by (auto simp: at_home_def edit_belongs)
  next
    case Click_deploy
    with inv show ?thesis by (auto simp: at_home_def with_page_def deploy_start_def split: option.splits)
  next
    case Key_save
    with inv show ?thesis by (auto simp: at_home_def with_page_def deploy_start_def split: option.splits)
  qed (use inv ok off in \<open>auto simp: at_home_def with_page_def mount_def split: option.splits\<close>)
qed

lemma only_deploys_publish:
  assumes "Publish_chain i inputs \<in> set (snd (editor_step e ed))"
  shows "(e = Click_deploy \<or> e = Key_save) \<and> editor_offers ed e \<and> Publish_chain i inputs \<in> set (snd (editor_do Key_save ed))"
proof (cases e)
  case (Publish_answer n r)
  with assms show ?thesis by (cases r) (auto simp: editor_step_def with_flight_def split: option.splits if_splits)
next
  case (Invalidate_answer n r)
  with assms show ?thesis by (cases r) (auto simp: editor_step_def with_flight_def split: option.splits if_splits)
qed (use assms in \<open>auto simp: editor_step_def with_page_def split: option.splits if_splits\<close>)

text \<open>
  C22. Whoever waits publishes to an API the chain that was loaded from it, published to it or begun
  for it, as the editor shows it, and nothing else.
\<close>

theorem own_chain_published:
  assumes "editor_reaches (\<lambda>ed e. to_the_question ed e \<and> waits ed e) ed"
    and "waits ed e"
    and "Publish_chain i inputs \<in> set (snd (editor_step e ed))"
  shows "\<exists>ch a. st_chain (ed_store ed) = Some ch \<and> inputs = map policy_input (sc_policies ch) \<and> sc_apiId ch = i \<and>
    st_api (ed_store ed) = Some a \<and> ai_id a = i"
proof -
  from only_deploys_publish [OF assms(3)] have e: "e = Click_deploy \<or> e = Key_save" and off: "editor_offers ed e"
    and "Publish_chain i inputs \<in> set (snd (editor_do Key_save ed))" by auto
  then obtain p ch where p: "ed_page ed = Some p" and ch: "st_chain (ed_store ed) = Some ch"
    and i: "i = pg_apiId p" "inputs = map policy_input (sc_policies ch)"
    by (auto simp: with_page_def deploy_start_def split: option.splits if_splits)
  have "page_shown ed \<noteq> None" using e off assms(2) by (auto split: option.splits)
  with p have "pg_data p \<noteq> None" by (auto simp: page_shown_def Editor_def split: option.splits if_splits)
  with home.holds [OF assms(1)] p have "belongs (pg_apiId p) (ed_store ed)" by (auto simp: at_home_def)
  with ch i show ?thesis by (auto simp: belongs_def)
qed

lemma sample_editor_reached: "editor_reaches (\<lambda>ed e. to_the_question ed e \<and> waits ed e) sample_editor"
proof -
  have "along (\<lambda>ed e. to_the_question ed e \<and> waits ed e) sample_visit editor_init" by code_simp
  from reaches_run [OF this editor_reaches.start] show ?thesis by (simp add: sample_editor_def)
qed

theorem own_chain_published_witness:
  "\<exists>ch a. st_chain (ed_store sample_editor) = Some ch \<and>
    map policy_input (policies_of (ed_store sample_editor)) = map policy_input (sc_policies ch) \<and> sc_apiId ch = ''a1'' \<and>
    st_api (ed_store sample_editor) = Some a \<and> ai_id a = ''a1''"
proof (rule own_chain_published [OF sample_editor_reached])
  show "waits sample_editor Click_deploy" by simp
  have "snd (editor_step Click_deploy sample_editor) =
      [Publish_chain ''a1'' (map policy_input (policies_of (ed_store sample_editor)))]" by code_simp
  then show "Publish_chain ''a1'' (map policy_input (policies_of (ed_store sample_editor)))
      \<in> set (snd (editor_step Click_deploy sample_editor))" by simp
qed

section \<open>Edits\<close>

text \<open>The events at which the chain of an answer takes the place of the edited one.\<close>

fun takes_over :: "editor \<Rightarrow> editor_event \<Rightarrow> bool" where
  "takes_over ed (Query_data now (Some api)) =
     (case ed_page ed of None \<Rightarrow> False | Some p \<Rightarrow> pg_data p \<noteq> Some api \<and> pg_loadedRef p \<noteq> Some (pg_apiId p))"
| "takes_over ed (Invalidate_answer n (Inr b)) = True"
| "takes_over ed _ = False"

fun edit_of :: "editor \<Rightarrow> editor_event \<Rightarrow> studio_action list" where
  "edit_of ed (Edit a) = (if editor_offers ed (Edit a) then [a] else [])"
| "edit_of ed _ = []"

primrec user_edits :: "editor_event list \<Rightarrow> editor \<Rightarrow> studio_action list" where
  "user_edits [] ed = []"
| "user_edits (e # es) ed = edit_of ed e @ user_edits es (fst (editor_step e ed))"

lemma edits_of_users: "a \<in> set (user_edits es ed) \<Longrightarrow> user_edit a"
proof (induction es arbitrary: ed)
  case (Cons e es)
  then show ?case by (cases e) (auto split: if_splits)
qed simp

lemma step_edits:
  assumes "\<not> takes_over ed e"
  shows "\<exists>b. ed_store (fst (editor_step e ed)) = (fold studio_act (edit_of ed e) (ed_store ed))\<lparr>st_isSaving := b\<rparr>"
proof -
  have same: "\<exists>b. s = s\<lparr>st_isSaving := b\<rparr>" for s :: studio by (rule exI [of _ "st_isSaving s"]) simp
  show ?thesis
  proof (cases e)
    case (Query_data now data)
    with assms same show ?thesis
      by (cases data) (auto simp: editor_step_def with_page_def take_data_def Let_def split: option.splits)
  next
    case (Publish_answer n r)
    with same show ?thesis
      by (cases r) (auto simp: editor_step_def with_flight_def setSaving_def split: option.splits)
  next
    case (Invalidate_answer n r)
    with assms same show ?thesis
      by (cases r) (auto simp: editor_step_def with_flight_def setSaving_def split: option.splits)
  qed (use same in \<open>auto simp: editor_step_def with_page_def deploy_start_def setSaving_def split: option.splits\<close>)
qed

lemma folded_apart:
  "\<forall>a \<in> set as. user_edit a \<Longrightarrow> fold studio_act as (s\<lparr>st_isSaving := b\<rparr>) = (fold studio_act as s)\<lparr>st_isSaving := b\<rparr>"
  by (induction as arbitrary: s) (simp_all add: edit_saving_apart)

text \<open>
  C24. Between two answers that take over, whatever else happens (failed deployments, leaving the
  editor, opening another one), the store holds the result of the edits and nothing but that.
\<close>

theorem edits_survive:
  assumes "along (\<lambda>ed e. \<not> takes_over ed e) es ed"
  shows "\<exists>b. ed_store (editor_run es ed) = (fold studio_act (user_edits es ed) (ed_store ed))\<lparr>st_isSaving := b\<rparr>"
  using assms
proof (induction es arbitrary: ed)
  case Nil
  show ?case by (rule exI [of _ "st_isSaving (ed_store ed)"]) (simp add: editor_run_def)
next
  case (Cons e es)
  let ?ed = "fst (editor_step e ed)"
  obtain b where b: "ed_store ?ed = (fold studio_act (edit_of ed e) (ed_store ed))\<lparr>st_isSaving := b\<rparr>"
    using step_edits Cons.prems by auto
  obtain b' where "ed_store (editor_run es ?ed) = (fold studio_act (user_edits es ?ed) (ed_store ?ed))\<lparr>st_isSaving := b'\<rparr>"
    using Cons by auto
  then show ?case
    using edits_of_users by (auto simp: b folded_apart editor_run_def)
qed

theorem edits_survive_witness:
  "\<exists>b. ed_store (editor_run [Edit (RemovePolicy ''p1''), Click_deploy, Publish_answer 0 (Inl (Thrown NonError)), Leave_editor] sample_editor) =
     (removePolicy ''p1'' (ed_store sample_editor))\<lparr>st_isSaving := b\<rparr>"
proof -
  let ?es = "[Edit (RemovePolicy ''p1''), Click_deploy, Publish_answer 0 (Inl (Thrown NonError)), Leave_editor]"
  have along: "along (\<lambda>ed e. \<not> takes_over ed e) ?es sample_editor" by code_simp
  have edits: "user_edits ?es sample_editor = [RemovePolicy ''p1'']" by code_simp
  show ?thesis using edits_survive [OF along] unfolding edits by simp
qed

section \<open>A deployment without interruption\<close>

lemma fresh_flight: "editor_reaches (\<lambda>ed e. True) ed \<Longrightarrow> map_of (ed_flights ed) (ed_next ed) = None"
  using numbered.holds by (fastforce simp: numbered_flights_def)

text \<open>
  C25. Answered at once, the deployment of the page is \<open>handleDeploy\<close> as a single step: it leaves
  the store and the view that the step leaves, and it sends exactly what the step asks for: the
  chain of the store to the API of the page, then, if that was published, the invalidation of
  the API's cache, then, if that succeeded too, the query of the API.
\<close>

theorem deploy_refines:
  assumes "editor_reaches (\<lambda>ed e. True) ed" and "ed_page ed = Some p" and "pg_apiId p \<noteq> []"
    and "publish (map policy_input (policies_of (ed_store ed))) w = (published, w1)" and "invalidate w1 = (invalidated, w2)"
    and "es = [Key_save, Publish_answer (ed_next ed) published, Invalidate_answer (ed_next ed) invalidated]"
    and "ed' = editor_run es ed"
  shows "\<exists>p' w'. ed_page ed' = Some p' \<and>
    handleDeploy publish invalidate (ed_store ed) (pg_view p) w = (ed_store ed', pg_view p', w') \<and>
    editor_requests es ed = (case st_chain (ed_store ed) of None \<Rightarrow> []
      | Some ch \<Rightarrow> Publish_chain (pg_apiId p) (map policy_input (sc_policies ch)) #
          (case published of Inl e \<Rightarrow> []
           | Inr c \<Rightarrow> Invalidate_chain (pg_apiId p) #
               (case invalidated of Inl e \<Rightarrow> [] | Inr b \<Rightarrow> [Fetch_api (pg_apiId p)])))"
proof (cases "st_chain (ed_store ed)")
  case None
  with assms(2,6,7) fresh_flight [OF assms(1)] show ?thesis
    by (simp add: editor_run_def editor_step_def with_page_def deploy_start_def handleDeploy_def)
next
  case (Some ch)
  show ?thesis
    unfolding assms(6,7) using Some assms(2,3,4,5) fresh_flight [OF assms(1)]
    by (cases published; cases invalidated)
       (auto simp: editor_run_def editor_step_def with_page_def with_flight_def deploy_start_def deploy_failed_def handleDeploy_def policies_of_def)
qed

definition sample_deployment :: "editor_event list" where
  "sample_deployment = [Key_save, Publish_answer 0 (Inr sample_answer), Invalidate_answer 0 (Inr True)]"

theorem deploy_refines_witness:
  "\<exists>p' w'. ed_page (editor_run sample_deployment sample_editor) = Some p' \<and>
    handleDeploy (\<lambda>inputs w. (Inr sample_answer, Suc w)) (\<lambda>w. (Inr True, Suc w)) (ed_store sample_editor)
      \<lparr> dv_error = None, dv_success = False \<rparr> (0 :: nat) =
    (ed_store (editor_run sample_deployment sample_editor), pg_view p', w') \<and>
    editor_requests sample_deployment sample_editor =
      [Publish_chain ''a1'' (map policy_input (policies_of (ed_store sample_editor))), Invalidate_chain ''a1'', Fetch_api ''a1'']"
proof -
  have reached: "editor_reaches (\<lambda>ed e. True) sample_editor"
    unfolding sample_editor_def by (rule reaches_run) (simp_all add: sample_visit_def editor_reaches.start)
  obtain p where p: "ed_page sample_editor = Some p" "pg_apiId p \<noteq> []" "pg_view p = \<lparr> dv_error = None, dv_success = False \<rparr>"
      "pg_apiId p = ''a1''"
    and n: "ed_next sample_editor = 0"
    by (simp add: sample_editor_def sample_visit_def editor_run_def editor_step_def with_page_def mount_def editor_init_def
        take_data_def Let_def page_shown_def Editor_def on_store_def)
  have "st_chain (ed_store sample_editor) \<noteq> None" by code_simp
  then obtain ch where ch: "st_chain (ed_store sample_editor) = Some ch" by blast
  have es: "sample_deployment = [Key_save, Publish_answer (ed_next sample_editor) (Inr sample_answer),
      Invalidate_answer (ed_next sample_editor) (Inr True)]" by (simp add: sample_deployment_def n)
  show ?thesis
    using deploy_refines [OF reached p(1,2), of "\<lambda>inputs w. (Inr sample_answer, Suc w)" 0 "Inr sample_answer" "Suc 0"
        "\<lambda>w. (Inr True, Suc w)" "Inr True" "Suc (Suc 0)", OF refl refl es refl] by (simp add: p(3,4) ch policies_of_def)
qed

section \<open>What can go wrong\<close>

text \<open>While the page is still loading, the keyboard publishes the chain that the last editor left.\<close>

lemma left_chain_published:
  assumes "ed_page ed = None" and "st_chain (ed_store ed) = Some ch" and "i \<noteq> []"
  shows "snd (editor_step Key_save (fst (editor_step (Open_editor i) ed))) = [Publish_chain i (map policy_input (sc_policies ch))]"
  using assms by (simp add: editor_step_def with_page_def mount_def deploy_start_def)

text \<open>Nothing keeps the keyboard from publishing again while a publication is under way.\<close>

lemma published_twice:
  assumes "ed_page ed = Some p" and "pg_apiId p \<noteq> []" and "st_chain (ed_store ed) = Some ch"
  shows "snd (editor_step Key_save (fst (editor_step Key_save ed))) = snd (editor_step Key_save ed)"
    and "length (ed_flights (editor_run [Key_save, Key_save] ed)) = length (ed_flights ed) + 2"
  using assms by (simp_all add: editor_run_def editor_step_def with_page_def deploy_start_def setSaving_def)

text \<open>
  A deployment that ends well replaces the chain of the store by the one that was published, also
  when it has been edited since, or belongs to the API of another editor, and marks it clean.
\<close>

lemma deploy_overwrites:
  assumes "map_of (ed_flights ed) n = Some f" and "fl_published f = Some c"
  shows "st_chain (ed_store (fst (editor_step (Invalidate_answer n (Inr b)) ed))) = Some c"
    and "\<not> st_isDirty (ed_store (fst (editor_step (Invalidate_answer n (Inr b)) ed)))"
  using assms by (simp_all add: editor_step_def with_flight_def setSaving_def markClean_def)

text \<open>
  The button that reloads changes nothing as long as the server's answer is the one the page was
  loaded with: the effect does not run again, and the edits stay.
\<close>

lemma reload_keeps_edits:
  assumes "ed_page ed = Some p" and "pg_data p = Some api"
  shows "ed_store (editor_run [Click_reload, Query_data now (Some api)] ed) = ed_store ed"
  using assms by (simp add: editor_run_def editor_step_def with_page_def take_data_def Let_def)

text \<open>If only the invalidation fails, the chain has been published and is still shown as unsaved.\<close>

lemma published_yet_unsaved:
  assumes "map_of (ed_flights ed) n = Some f" and "fl_published f = Some c"
  shows "st_chain (ed_store (fst (editor_step (Invalidate_answer n (Inl err)) ed))) = st_chain (ed_store ed)"
    and "st_isDirty (ed_store (fst (editor_step (Invalidate_answer n (Inl err)) ed))) = st_isDirty (ed_store ed)"
  using assms by (simp_all add: editor_step_def with_flight_def setSaving_def)

text \<open>So the chain of one API ends in the editor of another, from where it can be published there.\<close>

lemma late_answer_in_other_editor:
  "(let ed = editor_run [Click_deploy, Publish_answer 0 (Inr sample_answer), Leave_editor, Open_editor ''a2'',
      Query_data ''t1'' (Some (sample_raw ''a2'')), Invalidate_answer 0 (Inr True)] sample_editor
    in map_option sc_apiId (st_chain (ed_store ed)) = Some ''a1'' \<and> map_option ai_id (st_api (ed_store ed)) = Some ''a2'')"
  by code_simp

end
