(* ===== verification/BffServer.thy ===== *)
theory BffServer
  imports BffProps StudioDeploy DepthLimit Memo
begin

text \<open>
  \<open>manager/bff/src/server.ts\<close> and the rest of \<open>context.ts\<close>: which origins may call the BFF, how a
  request becomes an operation with a caller, which errors it gets, and the key set that the
  tokens are verified with. Express and Apollo Server are libraries; Apollo's parser, with the
  validation and the coercion of arguments, and the form that it gives an error are parameters.
\<close>

section \<open>Settings\<close>

record bff_config =
  bs_production :: bool
  bs_GRAPHQL_PATH :: string
  bs_GRAPHQL_MAX_DEPTH :: int
  bs_GRAPHQL_MAX_COMPLEXITY :: int
  bs_BFF_CORS_ORIGINS :: "string option"

definition bff_defaults :: bff_config where
  "bff_defaults = \<lparr> bs_production = False, bs_GRAPHQL_PATH = ''/graphql'', bs_GRAPHQL_MAX_DEPTH = 10,
     bs_GRAPHQL_MAX_COMPLEXITY = 200, bs_BFF_CORS_ORIGINS = None \<rparr>"

definition allowedOrigins :: "bff_config \<Rightarrow> string list" where
  "allowedOrigins C = split_trim (CHR '','') (orelse (bs_BFF_CORS_ORIGINS C) ''http://localhost:5173,http://localhost:3001'')"

text \<open>The error of the callback, if any.\<close>

definition cors_origin :: "bff_config \<Rightarrow> string option \<Rightarrow> exn option" where
  "cors_origin C origin =
     (if \<not> truthy origin \<or> str_of origin \<in> set (allowedOrigins C) then None
      else Some (plain_error (''CORS: origin '' @ quoted (str_of origin) @ '' not allowed'')))"

section \<open>Errors\<close>

record formatted_error =
  fe_message :: string
  fe_locations :: "json option"
  fe_path :: "json option"
  fe_extensions :: "jobj option"

definition formatError :: "bff_config \<Rightarrow> formatted_error \<Rightarrow> formatted_error" where
  "formatError C e =
     (if bs_production C
      then \<lparr> fe_message = fe_message e, fe_locations = None, fe_path = None,
        fe_extensions = Some [(''code'', orelse (case fe_extensions e of None \<Rightarrow> None | Some x \<Rightarrow> jget x ''code'')
          (JStr ''INTERNAL_SERVER_ERROR''))] \<rparr>
      else e)"

section \<open>Requests\<close>

record bff_http =
  bh_path :: string
  bh_origin :: "string option"
  bh_authorization :: "string option"
  bh_body :: string

text \<open>The root fields of \<open>resolvers/index.ts\<close>: those of \<open>resolve\<close> and those of policies.\<close>

datatype root_call =
    Core operation
  | Get_chain string
  | Publish_policies string "jobj list"
  | Invalidate_cache string

datatype root_value = Value gql_value | Chain bff_chain

definition root_result :: "('a \<Rightarrow> root_value) \<Rightarrow> (bff_error + 'a) \<times> 's \<Rightarrow> (bff_error + root_value) \<times> 's" where
  "root_result f r = (case r of (Inl e, w) \<Rightarrow> (Inl e, w) | (Inr a, w) \<Rightarrow> (Inr (f a), w))"

fun call_root :: "ext \<Rightarrow> bff_env \<Rightarrow> bff_ctx \<Rightarrow> root_call \<Rightarrow> 'd io \<Rightarrow> (bff_error + root_value) \<times> 'd io" where
  "call_root X E c (Core op) w = root_result Value (resolve X E c op w)"
| "call_root X E c (Get_chain apiId) w = root_result Chain (resolve_policyChain X E (bx_user c) apiId w)"
| "call_root X E c (Publish_policies apiId inputs) w = root_result Chain (resolve_publish X E (bx_user c) apiId inputs w)"
| "call_root X E c (Invalidate_cache apiId) w = root_result (\<lambda>b. Value gql_value.VTrue) (resolve_invalidate X E (bx_user c) apiId w)"

text \<open>
  The resolvers of the fields of objects: \<open>API.policyChain\<close>, \<open>User.org\<close>, the lists of an organisation,
  the keys of a subscription, and the fields that a loader fetches, one batch of identifiers at a
  time.
\<close>

datatype field_call =
    Org_batch "string list"
  | Api_batch "string list"
  | Plan_batch "string list"
  | Subscription_batch "string list"
  | User_org "string option"
  | Api_policyChain string
  | Organization_apis string "int option" "int option"
  | Organization_subscriptions string "string option" "int option" "int option"
  | Subscription_apiKeys string "string option"

definition batch :: "(json option \<Rightarrow> bff_error + gql_value) \<Rightarrow> nat \<Rightarrow> (exn + json option list) \<times> 's \<Rightarrow>
    (bff_error + root_value) list \<times> 's" where
  "batch f n r =
     (case r of (Inl e, w) \<Rightarrow> (replicate n (Inl (Thrown e)), w)
      | (Inr vs, w) \<Rightarrow> (map (\<lambda>v. map_sum id Value (f v)) vs, w))"

definition single :: "(bff_error + gql_value) \<times> 's \<Rightarrow> (bff_error + root_value) list \<times> 's" where
  "single r = (case r of (v, w) \<Rightarrow> ([map_sum id Value v], w))"

definition api_policyChain :: "ext \<Rightarrow> bff_env \<Rightarrow> bff_ctx \<Rightarrow> string \<Rightarrow> 'd io \<Rightarrow> (bff_error + root_value) \<times> 'd io" where
  "api_policyChain X E c i w =
     (case api_getPolicyChain X E (bx_user c) i w of
        (None, w1) \<Rightarrow> (Inr (Value gql_value.VNull), w1)
      | (Some j, w1) \<Rightarrow> (if js_truthy j then map_sum id Chain (chain_result (decode_chain j)) else Inr (Value gql_value.VNull), w1))"

fun call_field :: "ext \<Rightarrow> bff_env \<Rightarrow> bff_ctx \<Rightarrow> field_call \<Rightarrow> 'd io \<Rightarrow> (bff_error + root_value) list \<times> 'd io" where
  "call_field X E c (Org_batch ids) w = batch org_field (length ids) (load_orgs X E c ids w)"
| "call_field X E c (Api_batch ids) w = batch (loaded mapAPI) (length ids) (load_apis X E c ids w)"
| "call_field X E c (Plan_batch ids) w = batch (loaded (mapPlan X)) (length ids) (load_plans X E c ids w)"
| "call_field X E c (Subscription_batch ids) w = batch (loaded mapSub) (length ids) (load_subscriptions X E c ids w)"
| "call_field X E c (User_org orgId) w =
     (if truthy orgId then batch org_field 1 (load_orgs X E c [str_of orgId] w) else ([Inr (Value gql_value.VNull)], w))"
| "call_field X E c (Api_policyChain i) w = (case api_policyChain X E c i w of (r, w1) \<Rightarrow> ([r], w1))"
| "call_field X E c (Organization_apis i page lmt) w = single (organization_apis X E c i page lmt w)"
| "call_field X E c (Organization_subscriptions i status page lmt) w = single (organization_subscriptions X E c i status page lmt w)"
| "call_field X E c (Subscription_apiKeys i status) w = single (subscription_apiKeys X E c i status w)"

text \<open>
  Apollo's part: a body is refused with errors or becomes a document and the root fields of its
  operation, each under its response name; \<open>ap_fields\<close> are the fields of the objects among the
  results that the document asks for, in the order in which they are resolved; \<open>ap_error\<close> is the
  form of an error raised at a path.
\<close>

record apollo =
  ap_parse :: "string \<Rightarrow> formatted_error list + definition_node list \<times> (string \<times> root_call) list"
  ap_fields :: "definition_node list \<Rightarrow> (string \<times> root_value) list \<Rightarrow> (string list \<times> field_call) list"
  ap_error :: "string list \<Rightarrow> bff_error \<Rightarrow> formatted_error"

datatype bff_answer =
    Cors_failure exn
  | Healthy
  | Graphql "(string \<times> root_value) list" "(bff_error + root_value) list list" "formatted_error list"
  | Unrouted

text \<open>Where Express takes a path to lead: the routes ignore case and a slash at the end.\<close>

definition at_route :: "string \<Rightarrow> string \<Rightarrow> bool" where
  "at_route route path \<longleftrightarrow> js_lower path = js_lower route \<or> js_lower path = js_lower route @ ''/''"

definition under_mount :: "string \<Rightarrow> string \<Rightarrow> bool" where
  "under_mount mnt path \<longleftrightarrow> js_lower path = js_lower mnt \<or> starts_with (js_lower path) (js_lower mnt @ ''/'')"

text \<open>The errors among results.\<close>

definition lefts :: "('e + 'a) list \<Rightarrow> 'e list" where
  "lefts rs = List.map_filter (\<lambda>r. case r of Inl e \<Rightarrow> Some e | Inr _ \<Rightarrow> None) rs"

text \<open>A result without an object has no fields to resolve.\<close>

definition objects_in :: "(string \<times> root_value) list \<Rightarrow> bool" where
  "objects_in data \<longleftrightarrow> list_ex (\<lambda>(name, v). v \<noteq> Value gql_value.VNull \<and> v \<noteq> Value gql_value.VTrue) data"

text \<open>The root fields one after the other; a field that fails is \<open>null\<close> and adds an error.\<close>

fun resolve_roots ::
  "ext \<Rightarrow> bff_env \<Rightarrow> apollo \<Rightarrow> bff_ctx \<Rightarrow> (string \<times> root_call) list \<Rightarrow> 'd io \<Rightarrow>
   ((string \<times> root_value) list \<times> formatted_error list) \<times> 'd io" where
  "resolve_roots X E G c [] w = (([], []), w)"
| "resolve_roots X E G c ((name, call) # roots) w =
     (case call_root X E c call w of
        (r, w1) \<Rightarrow> (case resolve_roots X E G c roots w1 of
          ((data, errors), w2) \<Rightarrow> (case r of
             Inl e \<Rightarrow> (((name, Value gql_value.VNull) # data, ap_error G [name] e # errors), w2)
           | Inr v \<Rightarrow> (((name, v) # data, errors), w2))))"

text \<open>Their values go where the document asks for them, which is Apollo's part; their errors are collected.\<close>

fun resolve_fields ::
  "ext \<Rightarrow> bff_env \<Rightarrow> apollo \<Rightarrow> bff_ctx \<Rightarrow> (string list \<times> field_call) list \<Rightarrow> 'd io \<Rightarrow>
   ((bff_error + root_value) list list \<times> formatted_error list) \<times> 'd io" where
  "resolve_fields X E G c [] w = (([], []), w)"
| "resolve_fields X E G c ((path, call) # calls) w =
     (case call_field X E c call w of
        (rs, w1) \<Rightarrow> (case resolve_fields X E G c calls w1 of
          ((rss, errors), w2) \<Rightarrow> ((rs # rss, map (ap_error G path) (lefts rs) @ errors), w2)))"

definition buildContext :: "ext \<Rightarrow> bff_env \<Rightarrow> string option \<Rightarrow> 'd io \<Rightarrow> bff_ctx \<times> 'd io" where
  "buildContext X E authHeader w =
     (case context_user X E authHeader w of
        (user, w1) \<Rightarrow> (\<lparr> bx_user = user, bx_authHeader = authHeader \<rparr>, w1))"

definition graphql ::
  "ext \<Rightarrow> bff_env \<Rightarrow> bff_config \<Rightarrow> apollo \<Rightarrow> bff_http \<Rightarrow> 'd io \<Rightarrow> bff_answer \<times> 'd io" where
  "graphql X E C G q w =
     (case buildContext X E (bh_authorization q) w of
        (c, w1) \<Rightarrow>
          (case ap_parse G (bh_body q) of
             Inl errors \<Rightarrow> (Graphql [] [] (map (formatError C) errors), w1)
           | Inr (doc, roots) \<Rightarrow>
               (case didResolveOperation (bs_GRAPHQL_MAX_DEPTH C) (bs_GRAPHQL_MAX_COMPLEXITY C) doc of
                  Some e \<Rightarrow> (Graphql [] [] [formatError C (ap_error G [] (Gql e))], w1)
                | None \<Rightarrow>
                    (case resolve_roots X E G c roots w1 of
                       ((data, errors), w2) \<Rightarrow>
                         (case resolve_fields X E G c (if objects_in data then ap_fields G doc data else []) w2 of
                            ((values, field_errors), w3) \<Rightarrow>
                              (Graphql data values (map (formatError C) (errors @ field_errors)), w3))))))"

definition bff_handle ::
  "ext \<Rightarrow> bff_env \<Rightarrow> bff_config \<Rightarrow> apollo \<Rightarrow> bff_http \<Rightarrow> 'd io \<Rightarrow> bff_answer \<times> 'd io" where
  "bff_handle X E C G q w =
     (case cors_origin C (bh_origin q) of
        Some e \<Rightarrow> (Cors_failure e, w)
      | None \<Rightarrow>
          if at_route ''/healthz'' (bh_path q) then (Healthy, w)
          else if under_mount (bs_GRAPHQL_PATH C) (bh_path q) then graphql X E C G q w
          else (Unrouted, w))"

section \<open>The key set\<close>

text \<open>\<open>jwksSet\<close> and \<open>jwksFetchedAt\<close>; a key set is known by the number under which it was created.\<close>

record jwks_cache =
  jk_set :: "(nat \<times> int) option"
  jk_created :: nat

definition getJWKS :: "int \<Rightarrow> jwks_cache \<times> 'd io \<Rightarrow> nat \<times> jwks_cache \<times> 'd io" where
  "getJWKS ttl_ms s =
     (case s of (k, w) \<Rightarrow>
        (case jk_set k of
           None \<Rightarrow> (let (t, w1) = date_now w
             in (jk_created k, \<lparr> jk_set = Some (jk_created k, t), jk_created = Suc (jk_created k) \<rparr>, w1))
         | Some (n, fetchedAt) \<Rightarrow>
             (let (now, w1) = date_now w
              in if now - fetchedAt > ttl_ms
                 then (let (t, w2) = date_now w1
                   in (jk_created k, \<lparr> jk_set = Some (jk_created k, t), jk_created = Suc (jk_created k) \<rparr>, w2))
                 else (n, k, w1))))"

text \<open>Fresh means younger than the limit or just as old, which for whole milliseconds is one more.\<close>

interpretation jwks: ttl_memo "\<lambda>_ :: unit. getJWKS ttl_ms" "\<lambda>s _. jk_set (fst s)" "\<lambda>s. io_clock (snd s) 0" "ttl_ms + 1"
  for ttl_ms
proof
  fix s :: "jwks_cache \<times> 'd io" and k :: unit and v stp
  assume "jk_set (fst s) = Some (v, stp)" "io_clock (snd s) 0 - stp < ttl_ms + 1"
  then show "fst (getJWKS ttl_ms s) = v"
    by (cases s) (simp add: getJWKS_def date_now_def Let_def)
next
  fix s :: "jwks_cache \<times> 'd io" and k :: unit
  assume "fresh_entry (ttl_ms + 1) (io_clock (snd s) 0) (jk_set (fst s))"
  then show "(\<lambda>_. jk_set (fst (snd (getJWKS ttl_ms s)))) = (\<lambda>_. jk_set (fst s))"
    by (cases s) (auto simp: getJWKS_def date_now_def Let_def fresh_entry_def split: option.splits)
next
  fix s :: "jwks_cache \<times> 'd io" and k :: unit
  assume "\<not> fresh_entry (ttl_ms + 1) (io_clock (snd s) 0) (jk_set (fst s))"
  then show "(\<lambda>_. jk_set (fst (snd (getJWKS ttl_ms s)))) = (\<lambda>_. jk_set (fst s)) \<or>
      (\<exists>stp. (\<lambda>_. jk_set (fst (snd (getJWKS ttl_ms s)))) = (\<lambda>_. jk_set (fst s))(k := Some (fst (getJWKS ttl_ms s), stp)))"
    by (cases s) (auto simp: getJWKS_def date_now_def Let_def fresh_entry_def fun_eq_iff split: option.splits)
qed

end
