(* ===== verification/BffServerProps.thy ===== *)
theory BffServerProps
  imports BffServer
begin

text \<open>
  What the server as a whole guarantees: which calls reach a service and in whose name, what an
  error tells in production and what it still tells, and how old a key set can be.
\<close>

section \<open>Calls that reach a service\<close>

lemma sends_jwt [sends_intros]: "sends P w (jwt_verify jc w)"
  by (auto simp: sends_def jwt_verify_def)

lemma sends_context [sends_intros]: "sends P w (context_user X E h w)"
  by (auto simp: context_user_def sends_def jwt_verify_def split: option.splits sum.splits)

text \<open>In the caller's name: a call of the three services as before, or one of the policy engine.\<close>

definition for_caller :: "ext \<Rightarrow> bff_env \<Rightarrow> bff_ctx \<Rightarrow> http_req \<Rightarrow> bool" where
  "for_caller X E c q \<longleftrightarrow> in_the_name_of X E c q \<or> from_client X E (PolicyAPI E (bx_user c)) q"

lemma sends_weaken: "sends P w r \<Longrightarrow> (\<And>q. P q \<Longrightarrow> Q q) \<Longrightarrow> sends Q w r"
  by (auto simp: sends_def list_all_iff)

lemma sends_root_result: "sends P w r \<Longrightarrow> sends P w (root_result f r)"
  by (auto simp: root_result_def intro: sends_value split: prod.split sum.split)

lemma sends_policies:
  "sends (for_caller X E c) w (resolve_policyChain X E (bx_user c) apiId w)"
  "sends (for_caller X E c) w (resolve_publish X E (bx_user c) apiId inputs w)"
  "sends (for_caller X E c) w (resolve_invalidate X E (bx_user c) apiId w)"
proof -
  have client: "sends (for_caller X E c) w (request X E (PolicyAPI E (bx_user c)) opts w)" if "ro_headers opts = None" for opts
    by (rule sends_request [OF that]) (simp add: for_caller_def)
  show "sends (for_caller X E c) w (resolve_policyChain X E (bx_user c) apiId w)"
    using client [of "\<lparr> ro_method = None, ro_path = chain_path apiId, ro_body = None, ro_headers = None \<rparr>"]
    by (auto simp: resolve_policyChain_def api_getPolicyChain_def sv_get_def sends_nothing
        intro: sends_value split: option.split prod.splits sum.splits)
  show "sends (for_caller X E c) w (resolve_publish X E (bx_user c) apiId inputs w)"
    using client [of "\<lparr> ro_method = Some ''POST'', ro_path = chain_path apiId,
      ro_body = Some (JObj [(''policies'', JArr (map (\<lambda>p. JObj (lower_phase p)) inputs))]), ro_headers = None \<rparr>"]
    by (auto simp: resolve_publish_def api_publishPolicyChain_def sv_post_def sends_nothing
        intro: sends_value split: option.split prod.splits sum.splits)
  show "sends (for_caller X E c) w (resolve_invalidate X E (bx_user c) apiId w)"
    using client [of "\<lparr> ro_method = Some ''DELETE'', ro_path = chain_path apiId @ ''/cache'', ro_body = None, ro_headers = None \<rparr>"]
    by (auto simp: resolve_invalidate_def api_invalidateCache_def sv_delete_def sends_nothing
        intro: sends_value split: option.split prod.splits sum.splits)
qed

lemma sends_call: "sends (for_caller X E c) w (call_root X E c call w)"
proof (cases call)
  case (Core op)
  have "sends (for_caller X E c) w (resolve X E c op w)"
    by (rule sends_weaken [OF resolve_sends]) (simp add: for_caller_def)
  then show ?thesis by (simp add: Core sends_root_result)
qed (simp_all add: sends_root_result sends_policies)

lemma sends_roots: "sends (for_caller X E c) w (resolve_roots X E G c roots w)"
proof (induction roots arbitrary: w)
  case (Cons root roots)
  obtain name call where root: "root = (name, call)" by (cases root)
  obtain r w1 where r: "call_root X E c call w = (r, w1)" by (cases "call_root X E c call w")
  obtain data errors w2 where rest: "resolve_roots X E G c roots w1 = ((data, errors), w2)"
    by (metis prod.exhaust)
  have "sends (for_caller X E c) w1 ((data, errors), w2)" using Cons.IH [of w1] by (simp add: rest)
  with sends_call [of X E c w call] show ?case
    by (auto simp: root r rest sends_def split: sum.split)
qed (simp add: sends_nothing)

lemma unauthenticated_call: "bx_user c = None \<Longrightarrow> snd (call_root X E c call w) = w"
  by (cases call)
     (simp_all add: root_result_def resolve_authed resolve_policyChain_def resolve_publish_def resolve_invalidate_def requireAuth_def)

lemma unauthenticated_roots: "bx_user c = None \<Longrightarrow> snd (resolve_roots X E G c roots w) = w"
proof (induction roots arbitrary: w)
  case (Cons root roots)
  obtain name call where root: "root = (name, call)" by (cases root)
  have "snd (resolve_roots X E G c roots w) = w" using Cons by simp
  then show ?case
    using unauthenticated_call [OF Cons.prems, of X E call w] by (auto simp: root split: prod.split sum.split)
qed simp

lemma unauthenticated_values:
  fixes w :: "'d io"
  shows "bx_user c = None \<Longrightarrow> \<not> objects_in (fst (fst (resolve_roots X E G c roots w)))"
proof (induction roots arbitrary: w)
  case (Cons root roots)
  obtain name call where root: "root = (name, call)" by (cases root)
  have "\<exists>e. fst (call_root X E c call w) = Inl e"
    using Cons.prems by (cases call)
      (simp_all add: root_result_def resolve_authed resolve_policyChain_def resolve_publish_def resolve_invalidate_def requireAuth_def)
  moreover have "\<not> objects_in (fst (fst (resolve_roots X E G c roots w1)))" for w1 :: "'d io" using Cons by simp
  then have "\<not> objects_in data" if "resolve_roots X E G c roots w1 = ((data, errors), w2)" for data errors w2 and w1 :: "'d io"
    using that by (metis fst_conv)
  ultimately show ?case
    by (auto simp: root objects_in_def split: prod.split sum.split)
qed (simp add: objects_in_def)

lemma sends_load [sends_intros]: "(\<And>w. sends P w (fetch ids w)) \<Longrightarrow> sends P w (load_with fetch ids w)"
  unfolding load_with_def by (intro sends_intros) simp

lemma sends_batch: "sends P w r \<Longrightarrow> sends P w (batch f n r)"
  by (auto simp: batch_def intro: sends_value split: prod.split sum.split)

lemma sends_single: "sends P w r \<Longrightarrow> sends P w (single r)"
  by (auto simp: single_def intro: sends_value split: prod.split)

lemma sends_chain_field: "sends (for_caller X E c) w (api_policyChain X E c i w)"
proof -
  have "sends (for_caller X E c) w (request X E (PolicyAPI E (bx_user c))
      \<lparr> ro_method = None, ro_path = chain_path i, ro_body = None, ro_headers = None \<rparr> w)"
    by (rule sends_request) (simp_all add: for_caller_def)
  then show ?thesis
    by (auto simp: api_policyChain_def api_getPolicyChain_def sv_get_def intro: sends_value split: prod.splits sum.splits)
qed

lemma sends_loaders [sends_intros]:
  "sends (in_the_name_of X E c) w (load_orgs X E c ids w)"
  "sends (in_the_name_of X E c) w (load_apis X E c ids w)"
  "sends (in_the_name_of X E c) w (load_plans X E c ids w)"
  "sends (in_the_name_of X E c) w (load_subscriptions X E c ids w)"
  unfolding load_orgs_def load_apis_def load_plans_def load_subscriptions_def getAPIsByIds_def getPlansByIds_def
    getSubscriptionsByIds_def
  by (intro sends_intros)+

lemma sends_lists [sends_intros]:
  "sends (in_the_name_of X E c) w (organization_apis X E c i page lmt w)"
  "sends (in_the_name_of X E c) w (organization_subscriptions X E c i status page lmt w)"
  "sends (in_the_name_of X E c) w (subscription_apiKeys X E c i status w)"
  unfolding organization_apis_def organization_subscriptions_def subscription_apiKeys_def by (intro sends_intros)+

lemma sends_field: "sends (for_caller X E c) w (call_field X E c call w)"
proof -
  have caller: "sends (for_caller X E c) w r" if "sends (in_the_name_of X E c) w r" for r :: "'b \<times> 'a io"
    by (rule sends_weaken [OF that]) (simp add: for_caller_def)
  show ?thesis
  proof (cases call)
    case (Api_policyChain i)
    then show ?thesis using sends_chain_field [of X E c w i] by (auto intro: sends_value split: prod.split)
  qed (auto intro!: sends_batch sends_single caller sends_loaders sends_lists sends_nothing)
qed

lemma sends_fields: "sends (for_caller X E c) w (resolve_fields X E G c calls w)"
proof (induction calls arbitrary: w)
  case (Cons field calls)
  obtain path call where field: "field = (path, call)" by (cases field)
  obtain rs w1 where r: "call_field X E c call w = (rs, w1)" by (cases "call_field X E c call w")
  obtain rss errors w2 where rest: "resolve_fields X E G c calls w1 = ((rss, errors), w2)"
    by (metis prod.exhaust)
  have "sends (for_caller X E c) w1 ((rss, errors), w2)" using Cons.IH [of w1] by (simp add: rest)
  with sends_field [of X E c w call] show ?case
    by (auto simp: field r rest sends_def)
qed (simp add: sends_nothing)

text \<open>A request that changes more than the answers of the verifier has come all the way.\<close>

lemma graphql_reached:
  assumes "bff_handle X E C G q w = (ans, w')" and "w' \<noteq> w" and "w' \<noteq> w1"
    and u: "context_user X E (bh_authorization q) w = (user, w1)"
  shows "cors_origin C (bh_origin q) = None \<and> (\<exists>doc roots calls.
    ap_parse G (bh_body q) = Inr (doc, roots) \<and>
    didResolveOperation (bs_GRAPHQL_MAX_DEPTH C) (bs_GRAPHQL_MAX_COMPLEXITY C) doc = None \<and>
    w' = snd (resolve_fields X E G \<lparr> bx_user = user, bx_authHeader = bh_authorization q \<rparr> calls
           (snd (resolve_roots X E G \<lparr> bx_user = user, bx_authHeader = bh_authorization q \<rparr> roots w1))) \<and>
    (\<not> objects_in (fst (fst (resolve_roots X E G \<lparr> bx_user = user, bx_authHeader = bh_authorization q \<rparr> roots w1)))
       \<longrightarrow> calls = []))"
proof -
  let ?c = "\<lparr> bx_user = user, bx_authHeader = bh_authorization q \<rparr>"
  from assms have cors: "cors_origin C (bh_origin q) = None" and g: "graphql X E C G q w = (ans, w')"
    by (auto simp: bff_handle_def split: option.splits if_splits)
  from g assms(3) obtain doc roots where p: "ap_parse G (bh_body q) = Inr (doc, roots)"
    by (cases "ap_parse G (bh_body q)") (auto simp: graphql_def buildContext_def u)
  with g assms(3) have l: "didResolveOperation (bs_GRAPHQL_MAX_DEPTH C) (bs_GRAPHQL_MAX_COMPLEXITY C) doc = None"
    by (auto simp: graphql_def buildContext_def u split: option.splits)
  obtain data errors w2 where r: "resolve_roots X E G ?c roots w1 = ((data, errors), w2)" by (metis prod.exhaust)
  obtain vals field_errors w3 where f:
    "resolve_fields X E G ?c (if objects_in data then ap_fields G doc data else []) w2 = ((vals, field_errors), w3)"
    by (metis prod.exhaust)
  from g have "w' = w3" by (simp add: graphql_def buildContext_def u p l r f del: split_paired_All split_paired_Ex split: if_splits)
  then have "w' = snd (resolve_fields X E G ?c (if objects_in data then ap_fields G doc data else []) w2)" by (simp only: f snd_conv)
  with cors p l show ?thesis using r by (intro conjI exI [of _ doc] exI [of _ roots]) (auto intro!: exI [of _ "if objects_in data then ap_fields G doc data else []"])
qed

text \<open>
  C21. Whatever request arrives: the BFF calls a service only if the request names no origin or one of
  the configured ones, its document passed Apollo and the limits, and its bearer token was
  verified; and then every call is made in the name of the user of that token.
\<close>

theorem services_called_for_verified_users:
  assumes "bff_handle X E C G q w = (ans, w')"
  shows "\<exists>new. io_sent w' = io_sent w @ new \<and>
    (new \<noteq> [] \<longrightarrow>
      (\<not> truthy (bh_origin q) \<or> str_of (bh_origin q) \<in> set (allowedOrigins C)) \<and>
      (\<exists>doc roots. ap_parse G (bh_body q) = Inr (doc, roots) \<and>
        didResolveOperation (bs_GRAPHQL_MAX_DEPTH C) (bs_GRAPHQL_MAX_COMPLEXITY C) doc = None) \<and>
      (\<exists>token alg payload. BffClient.bearer_token (bh_authorization q) = Some token \<and> be_alg E token = Inr alg \<and>
        io_jwt w 0 (verify_call E token alg) = Inr payload \<and>
        list_all (for_caller X E \<lparr> bx_user = Some (user_of_claims X payload), bx_authHeader = bh_authorization q \<rparr>) new))"
proof -
  obtain user w1 where u: "context_user X E (bh_authorization q) w = (user, w1)" by (metis prod.exhaust)
  let ?c = "\<lparr> bx_user = user, bx_authHeader = bh_authorization q \<rparr>"
  have w1: "io_sent w1 = io_sent w"
    using u by (auto simp: context_user_def jwt_verify_def split: option.splits sum.splits)
  show ?thesis
  proof (cases "w' = w \<or> w' = w1")
    case True
    with w1 show ?thesis by auto
  next
    case False
    from graphql_reached [OF assms _ _ u] False obtain doc roots calls where
      origin: "cors_origin C (bh_origin q) = None" and
      parsed: "ap_parse G (bh_body q) = Inr (doc, roots)" and
      limits: "didResolveOperation (bs_GRAPHQL_MAX_DEPTH C) (bs_GRAPHQL_MAX_COMPLEXITY C) doc = None" and
      run: "w' = snd (resolve_fields X E G ?c calls (snd (resolve_roots X E G ?c roots w1)))" and
      none: "\<not> objects_in (fst (fst (resolve_roots X E G ?c roots w1))) \<longrightarrow> calls = []"
      by blast
    from origin have origin: "\<not> truthy (bh_origin q) \<or> str_of (bh_origin q) \<in> set (allowedOrigins C)"
      by (simp add: cors_origin_def split: if_splits)
    have "user \<noteq> None"
    proof
      assume "user = None"
      then have "bx_user ?c = None" by simp
      from none unauthenticated_values [OF this, of X E G roots w1] have "calls = []" by blast
      with run unauthenticated_roots [OF \<open>bx_user ?c = None\<close>, of X E G roots w1] have "w' = w1" by simp
      with False show False by simp
    qed
    then obtain au where au: "user = Some au" by blast
    from context_user_sound [OF u [unfolded au]] obtain token alg payload where
      tok: "BffClient.bearer_token (bh_authorization q) = Some token" "be_alg E token = Inr alg"
        "io_jwt w 0 (verify_call E token alg) = Inr payload" and user: "au = user_of_claims X payload" by blast
    obtain new1 new2 where "io_sent (snd (resolve_roots X E G ?c roots w1)) = io_sent w1 @ new1"
        "list_all (for_caller X E ?c) new1"
        "io_sent w' = io_sent (snd (resolve_roots X E G ?c roots w1)) @ new2" "list_all (for_caller X E ?c) new2"
      using sends_roots [of X E ?c w1 G roots] sends_fields [of X E ?c _ G calls]
      unfolding run sends_def by blast
    then obtain new where new: "io_sent w' = io_sent w1 @ new" "list_all (for_caller X E ?c) new" by force
    with origin parsed limits tok user au w1 show ?thesis by (intro exI [of _ new]) auto
  qed
qed

section \<open>Errors\<close>

text \<open>In production an error is its message and its code: no place, no path, no stack trace.\<close>

lemma production_errors:
  assumes "bs_production C" and "bff_handle X E C G q w = (Graphql data values errors, w')" and "e \<in> set errors"
  shows "fe_locations e = None \<and> fe_path e = None \<and> (\<exists>code. fe_extensions e = Some [(''code'', code)])"
proof -
  have "\<exists>es. errors = map (formatError C) es"
    using assms(2)
    by (auto simp: bff_handle_def graphql_def simp flip: map_append
        intro: exI [of _ "[x]" for x] split: if_splits sum.splits option.splits prod.splits)
  then obtain es where "errors = map (formatError C) es" by blast
  with assms(1,3) show ?thesis by (auto simp: formatError_def)
qed

text \<open>A server with one operation, whatever the body; its errors keep message and code.\<close>

definition sample_apollo :: "root_call \<Rightarrow> apollo" where
  "sample_apollo call = \<lparr> ap_parse = (\<lambda>body. Inr ([OperationDefinition [Field ''f'' None]], [(''f'', call)])),
     ap_fields = (\<lambda>doc data. [([''f'', ''policyChain''], Api_policyChain ''a1'')]),
     ap_error = (\<lambda>path e. case e of
        Gql (GraphQLError msg code) \<Rightarrow> \<lparr> fe_message = msg, fe_locations = None, fe_path = None,
          fe_extensions = Some [(''code'', JStr code)] \<rparr>
      | Thrown (JsError name msg) \<Rightarrow> \<lparr> fe_message = msg, fe_locations = None, fe_path = None, fe_extensions = None \<rparr>
      | Thrown NonError \<Rightarrow> \<lparr> fe_message = [], fe_locations = None, fe_path = None, fe_extensions = None \<rparr>) \<rparr>"

definition sample_call :: "string option \<Rightarrow> bff_http" where
  "sample_call origin = \<lparr> bh_path = ''/graphql'', bh_origin = origin, bh_authorization = Some ''Bearer abc'', bh_body = [] \<rparr>"

text \<open>
  But the message passes as it is, and that of a service that cannot be reached names its address
  inside the network.
\<close>

lemma address_in_message:
  "(case bff_handle sample_ext plain_bff (bff_defaults\<lparr>bs_production := True\<rparr>) (sample_apollo (Core Me)) (sample_call None)
      (sample_jwt_world\<lparr>io_net := (\<lambda>_ _. Inl NonError)\<rparr>) of
     (Graphql data values errors, w) \<Rightarrow> map fe_message errors
   | _ \<Rightarrow> []) = [''upstream service unavailable: http://auth-service:8081/auth/me'']"
  by code_simp

text \<open>
  No resolver asks for a role: \<open>requireRole\<close> is never called, and a user whose role is \<open>VIEWER\<close>
  (the one taken when the token names none) may delete an API or publish a chain.
\<close>

lemma viewer_deletes:
  "(case bff_handle sample_ext plain_bff bff_defaults (sample_apollo (Core (DeleteAPI ''a1''))) (sample_call None)
      (sample_jwt_world\<lparr>io_net := (\<lambda>_ _. Inr \<lparr> rs_status = 200, rs_headers = [], rs_body = [] \<rparr>)\<rparr>) of
     (ans, w) \<Rightarrow> map (\<lambda>q. (rq_method q, rq_url q)) (io_sent w)) =
   [(''DELETE'', ''http://registry-service:8082/apis/a1'')]"
  by code_simp

definition chain_call :: "bff_answer \<times> mem io" where
  "chain_call = bff_handle sample_ext plain_bff bff_defaults (sample_apollo (Get_chain ''a1''))
     (sample_call (Some ''http://localhost:3001'')) sample_jwt_world"

theorem services_called_for_verified_users_witness:
  "io_sent (snd chain_call) \<noteq> [] \<and>
   (\<exists>token alg payload. BffClient.bearer_token (Some ''Bearer abc'') = Some token \<and> be_alg plain_bff token = Inr alg \<and>
      io_jwt sample_jwt_world 0 (verify_call plain_bff token alg) = Inr payload \<and>
      list_all (for_caller sample_ext plain_bff
        \<lparr> bx_user = Some (user_of_claims sample_ext payload), bx_authHeader = Some ''Bearer abc'' \<rparr>) (io_sent (snd chain_call)))"
proof -
  have sent: "io_sent (snd chain_call) \<noteq> []" by code_simp
  obtain ans w' where run: "chain_call = (ans, w')" by (cases chain_call)
  have start: "io_sent sample_jwt_world = []" by code_simp
  from services_called_for_verified_users [OF run [unfolded chain_call_def]] sent show ?thesis
    unfolding run start by (auto simp: sample_call_def)
qed

section \<open>The age of the key set\<close>

text \<open>
  In every run from a start without one, the key set that a verification gets was created for it,
  or by an earlier verification at most the configured time ago.
\<close>

lemma jwks_recent:
  assumes "jk_set (fst s0) = None" "jwks.keeps_entries qs" "i < length (jwks.trace ttl_ms qs s0)"
    and "jwks.trace ttl_ms qs s0 ! i = (k, s, v, s')"
  shows "\<not> fresh_entry (ttl_ms + 1) (io_clock (snd s) 0) (jk_set (fst s)) \<or>
     (\<exists>j < i. \<exists>s1 s2 stp. jwks.trace ttl_ms qs s0 ! j = (k, s1, v, s2) \<and>
        jk_set (fst s2) = Some (v, stp) \<and> io_clock (snd s) 0 - stp \<le> ttl_ms)"
  using jwks.trace_recent [OF _ assms(2,3,4)] assms(1) by fastforce

end
