(* ===== verification/PortalWidgets.thy ===== *)
theory PortalWidgets
  imports PortalActions PortalDocs
begin

text \<open>
  Parts of the portal that keep a state of their own: the code blocks of the documentation with
  their colours (\<open>components/docs/CodeBlock.tsx\<close>), the tabs (\<open>DocTabNav.tsx\<close>), the menu of the
  signed-in user (\<open>components/layout/NavActions.tsx\<close>) and the viewer that asks whether there is a
  specification (\<open>components/api/SpecViewer.tsx\<close>).
\<close>

section \<open>Shell text in colours\<close>

text \<open>The style of a token, as the pattern that found it; text between tokens stays plain.\<close>

datatype style = Command | Flag | Double_quoted | Single_quoted | Address | Continuation

datatype token = Styled style string | Plain string

fun token_text :: "token \<Rightarrow> string" where
  "token_text (Styled st s) = s"
| "token_text (Plain s) = s"

text \<open>\<open>[a-zA-Z]\<close> and \<open>\w\<close>.\<close>

definition ascii_letter :: "char \<Rightarrow> bool" where
  "ascii_letter ch = (let k = of_char (lower_char ch) in (97 :: nat) \<le> k \<and> k < 123)"

definition word_char :: "char \<Rightarrow> bool" where
  "word_char c \<longleftrightarrow> ascii_letter c \<or> is_digit c \<or> c = CHR ''_''"

text \<open>How many characters the pattern takes from the start of a text, if it matches.\<close>

type_synonym matcher = "string \<Rightarrow> nat option"

text \<open>\<open>/^(curl|export|echo|python3?|node|go)\b/\<close>: a word that no word character follows.\<close>

definition word_at :: "string \<Rightarrow> matcher" where
  "word_at w rest =
     (if starts_with rest w \<and> (case drop (length w) rest of [] \<Rightarrow> True | c # cs \<Rightarrow> \<not> word_char c)
      then Some (length w) else None)"

definition first_match :: "matcher list \<Rightarrow> matcher" where
  "first_match ms rest = foldr (\<lambda>m r. case m rest of Some n \<Rightarrow> Some n | None \<Rightarrow> r) ms None"

definition match_command :: matcher where
  "match_command = first_match (map word_at [''curl'', ''export'', ''echo'', ''python3'', ''python'', ''node'', ''go''])"

text \<open>\<open>/^(-[a-zA-Z]+|--[a-zA-Z-]+)\s/\<close>, with the white space.\<close>

definition run_then_space :: "nat \<Rightarrow> (char \<Rightarrow> bool) \<Rightarrow> matcher" where
  "run_then_space n p rest =
     (let body = takeWhile p (drop n rest); after = drop (n + length body) rest
      in if body \<noteq> [] \<and> after \<noteq> [] \<and> is_ws (hd after) then Some (n + length body + 1) else None)"

definition match_flag :: matcher where
  "match_flag = first_match
     [(\<lambda>rest. if starts_with rest ''-'' then run_then_space 1 ascii_letter rest else None),
      (\<lambda>rest. if starts_with rest ''--'' then run_then_space 2 (\<lambda>c. ascii_letter c \<or> c = CHR ''-'') rest else None)]"

text \<open>A quote, anything else, and the same quote.\<close>

definition match_quoted :: "char \<Rightarrow> matcher" where
  "match_quoted c rest =
     (case rest of
        [] \<Rightarrow> None
      | x # xs \<Rightarrow> if x = c then map_option (\<lambda>i. i + 2) (index_of c xs) else None)"

definition match_address :: matcher where
  "match_address rest =
     (let scheme = (if starts_with rest ''https://'' then 8 else if starts_with rest ''http://'' then 7 else 0);
          n = length (takeWhile (\<lambda>c. \<not> is_ws c) (drop scheme rest))
      in if scheme = 0 \<or> n = 0 then None else Some (scheme + n))"

text \<open>\<open>/^\\\s*$/\<close>\<close>

definition match_continuation :: matcher where
  "match_continuation rest =
     (if starts_with rest [CHR 0x5C] \<and> list_all is_ws (drop 1 rest) then Some (length rest) else None)"

definition patterns :: "(matcher \<times> style) list" where
  "patterns = [(match_command, Command), (match_flag, Flag), (match_quoted (CHR 0x22), Double_quoted),
     (match_quoted (CHR 0x27), Single_quoted), (match_address, Address), (match_continuation, Continuation)]"

text \<open>The first pattern that matches, with its style.\<close>

definition match_style :: "string \<Rightarrow> (style \<times> nat) option" where
  "match_style rest = foldr (\<lambda>(m, st) r. case m rest of Some n \<Rightarrow> Some (st, n) | None \<Rightarrow> r) patterns None"

text \<open>One character of plain text, joined to plain text before it.\<close>

definition add_plain :: "char \<Rightarrow> token list \<Rightarrow> token list" where
  "add_plain c parts =
     (if parts = [] then [Plain [c]]
      else case last parts of
        Plain s \<Rightarrow> butlast parts @ [Plain (s @ [c])]
      | Styled st s \<Rightarrow> parts @ [Plain [c]])"

text \<open>The loop, which its counter \<open>safety\<close> ends.\<close>

fun tokenise_loop :: "nat \<Rightarrow> string \<Rightarrow> token list \<Rightarrow> token list" where
  "tokenise_loop n [] parts = parts"
| "tokenise_loop 0 rest parts = parts"
| "tokenise_loop (Suc n) (c # cs) parts =
     (case match_style (c # cs) of
        Some (st, len) \<Rightarrow> tokenise_loop n (drop len (c # cs)) (parts @ [Styled st (take len (c # cs))])
      | None \<Rightarrow> tokenise_loop n cs (add_plain c parts))"

definition tokeniseBashLine :: "string \<Rightarrow> token list" where
  "tokeniseBashLine line = tokenise_loop 500 line []"

datatype bash_line = Comment string | Tokens "token list"

definition BashHighlight :: "string \<Rightarrow> bash_line list" where
  "BashHighlight code =
     map (\<lambda>line. if starts_with (js_trim_start line) ''#'' then Comment line else Tokens (tokeniseBashLine line))
       (split_on (CHR 0x0A) code)"

fun line_text :: "bash_line \<Rightarrow> string" where
  "line_text (Comment line) = line"
| "line_text (Tokens ts) = concat (map token_text ts)"

section \<open>The tabs of the documentation\<close>

definition DOC_TABS :: "string list" where
  "DOC_TABS = [''overview'', ''reference'', ''examples'', ''errors'']"

definition tab_href :: "string \<Rightarrow> string \<Rightarrow> string" where
  "tab_href apiId t =
     (if t = ''overview'' then ''/apis/'' @ apiId @ ''/docs'' else ''/apis/'' @ apiId @ ''/docs?tab='' @ t)"

definition tab_active :: "string option \<Rightarrow> string \<Rightarrow> bool" where
  "tab_active param t \<longleftrightarrow> orelse param ''overview'' = t"

section \<open>The menu of the user\<close>

text \<open>
  The component sits in the layout of all pages, so that it and its state stay when the router
  changes the page; a refresh gives it the session anew.
\<close>

record nav_state =
  nv_session :: "jobj option"
  nv_open :: bool
  nv_loading :: bool

definition nav_start :: "jobj option \<Rightarrow> nav_state" where
  "nav_start session = \<lparr> nv_session = session, nv_open = False, nv_loading = False \<rparr>"

datatype nav_event =
    Toggle_menu
  | Click_outside
  | Follow_link string
  | Click_logout
  | Logout_answer "exn + http_resp"
  | Refreshed "jobj option"

datatype nav_action = Post_logout | Push string | Refresh_router

fun nav_offers :: "nav_state \<Rightarrow> nav_event \<Rightarrow> bool" where
  "nav_offers s Toggle_menu = (nv_session s \<noteq> None)"
| "nav_offers s Click_outside = (nv_session s \<noteq> None \<and> nv_open s)"
| "nav_offers s (Follow_link path) =
     (if nv_session s = None then path \<in> {''/auth/login'', ''/auth/register''}
      else nv_open s \<and> path \<in> {''/dashboard'', ''/dashboard/subscriptions''})"
| "nav_offers s Click_logout = (nv_session s \<noteq> None \<and> nv_open s \<and> \<not> nv_loading s)"
| "nav_offers s (Logout_answer r) = nv_loading s"
| "nav_offers s (Refreshed session) = True"

fun nav_do :: "nav_event \<Rightarrow> nav_state \<Rightarrow> nav_state \<times> nav_action list" where
  "nav_do Toggle_menu s = (s\<lparr>nv_open := \<not> nv_open s\<rparr>, [])"
| "nav_do Click_outside s = (s\<lparr>nv_open := False\<rparr>, [])"
| "nav_do (Follow_link path) s = (if nv_session s = None then s else s\<lparr>nv_open := False\<rparr>, [Push path])"
| "nav_do Click_logout s = (s\<lparr>nv_loading := True\<rparr>, [Post_logout])"
| "nav_do (Logout_answer (Inl e)) s = (s, [])"
| "nav_do (Logout_answer (Inr res)) s = (s, [Push ''/'', Refresh_router])"
| "nav_do (Refreshed session) s = (s\<lparr>nv_session := session\<rparr>, [])"

definition NavActions :: "nav_event \<Rightarrow> nav_state \<Rightarrow> nav_state \<times> nav_action list" where
  "NavActions e s = (if nav_offers s e then nav_do e s else (s, []))"

primrec nav_run :: "nav_event list \<Rightarrow> nav_state \<Rightarrow> nav_state \<times> nav_action list" where
  "nav_run [] s = (s, [])"
| "nav_run (e # es) s =
     (case NavActions e s of (s1, as1) \<Rightarrow> (case nav_run es s1 of (s2, as2) \<Rightarrow> (s2, as1 @ as2)))"

section \<open>Is there a specification?\<close>

datatype spec_status = Spec_loading | Spec_found | Spec_missing

definition spec_status_of :: "exn + http_resp \<Rightarrow> spec_status" where
  "spec_status_of r = (case r of Inl e \<Rightarrow> Spec_missing | Inr res \<Rightarrow> if resp_ok res then Spec_found else Spec_missing)"

definition spec_probe :: "string \<Rightarrow> http_req" where
  "spec_probe apiId = \<lparr> rq_url = ''/api/spec/'' @ apiId, rq_method = ''HEAD'', rq_headers = [], rq_body = None \<rparr>"

definition SpecViewer :: "string \<Rightarrow> 'd io \<Rightarrow> spec_status \<times> 'd io" where
  "SpecViewer apiId w = (case http_fetch (spec_probe apiId) w of (r, w1) \<Rightarrow> (spec_status_of r, w1))"

text \<open>
  The interceptor of the explorer: the first \<open>apim_session=([^;]+)\<close> anywhere in \<open>document.cookie\<close>.
\<close>

fun cookie_match :: "string \<Rightarrow> string option" where
  "cookie_match [] = None"
| "cookie_match (c # cs) =
     (let v = takeWhile (\<lambda>d. d \<noteq> CHR '';'') (drop 13 (c # cs))
      in if starts_with (c # cs) ''apim_session='' \<and> v \<noteq> [] then Some v else cookie_match cs)"

definition requestInterceptor :: "string \<Rightarrow> dict \<Rightarrow> dict" where
  "requestInterceptor documentCookie headers =
     (case cookie_match documentCookie of None \<Rightarrow> headers | Some v \<Rightarrow> rset ''Authorization'' (''Bearer '' @ v) headers)"

end
