(* ===== verification/PortalWidgetsProps.thy ===== *)
theory PortalWidgetsProps
  imports PortalWidgets
begin

text \<open>
  Colours do not change the text of an example up to the length that the loop allows, and cut it
  beyond; a tab leads to what it names; and the menu signs out once.
\<close>

section \<open>The text of an example\<close>

abbreviation texts :: "token list \<Rightarrow> string" where
  "texts ts \<equiv> concat (map token_text ts)"

text \<open>A match takes at least one character and no more than there are.\<close>

definition sensible :: "matcher \<Rightarrow> bool" where
  "sensible m \<longleftrightarrow> (\<forall>rest n. m rest = Some n \<longrightarrow> 0 < n \<and> n \<le> length rest)"

lemma sensible_first: "\<forall>m \<in> set ms. sensible m \<Longrightarrow> sensible (first_match ms)"
proof (induction ms)
  case (Cons m ms)
  then show ?case by (fastforce simp: sensible_def first_match_def split: option.splits)
qed (simp add: sensible_def first_match_def)

lemma sensible_word: "w \<noteq> [] \<Longrightarrow> sensible (word_at w)"
  by (auto simp: sensible_def word_at_def starts_with_def dest: arg_cong [where f = length] split: if_splits)

lemma sensible_run: "sensible (run_then_space n p)"
proof -
  have "n + length (takeWhile p (drop n rest)) + 1 \<le> length rest"
    if "drop (n + length (takeWhile p (drop n rest))) rest \<noteq> []" for rest
    using that by simp
  then show ?thesis by (auto simp: sensible_def run_then_space_def Let_def split: if_splits)
qed

lemma index_of_less: "index_of c s = Some i \<Longrightarrow> i < length s"
  by (induction s arbitrary: i) (auto split: if_splits option.splits)

lemma sensible_patterns: "\<forall>(m, st) \<in> set patterns. sensible m"
proof -
  have "sensible match_command"
    unfolding match_command_def by (rule sensible_first) (auto intro!: sensible_word)
  moreover have "sensible match_flag"
    unfolding match_flag_def
    by (rule sensible_first) (use sensible_run in \<open>auto simp: sensible_def split: if_splits\<close>)
  moreover have "sensible (match_quoted c)" for c
    by (auto simp: sensible_def match_quoted_def dest: index_of_less split: list.splits if_splits)
  moreover have "sensible match_address"
  proof -
    have "length (takeWhile p (drop k rest)) \<noteq> 0 \<Longrightarrow> k + length (takeWhile p (drop k rest)) \<le> length rest"
      for p k and rest :: string
      using length_takeWhile_le [of p "drop k rest"] by (cases "k \<le> length rest") auto
    then show ?thesis by (auto simp: sensible_def match_address_def Let_def split: if_splits)
  qed
  moreover have "sensible match_continuation"
    by (auto simp: sensible_def match_continuation_def starts_with_def split: if_splits)
  ultimately show ?thesis by (simp add: patterns_def)
qed

lemma match_style_bounds:
  assumes "match_style rest = Some (st, n)"
  shows "0 < n \<and> n \<le> length rest"
proof -
  have "foldr (\<lambda>(m, st) r. case m rest of Some n \<Rightarrow> Some (st, n) | None \<Rightarrow> r) ps None = Some (st, n) \<Longrightarrow>
      \<forall>(m, st) \<in> set ps. sensible m \<Longrightarrow> 0 < n \<and> n \<le> length rest" for ps
    by (induction ps) (auto simp: sensible_def split: option.splits)
  with assms sensible_patterns show ?thesis unfolding match_style_def by blast
qed

lemma texts_add_plain [simp]: "texts (add_plain c parts) = texts parts @ [c]"
proof (cases "parts = []")
  case False
  then obtain before t where parts: "parts = before @ [t]" by (cases parts rule: rev_cases) auto
  show ?thesis by (cases t) (simp_all add: parts add_plain_def)
qed (simp add: add_plain_def)

lemma tokenise_all: "length rest \<le> n \<Longrightarrow> texts (tokenise_loop n rest parts) = texts parts @ rest"
proof (induction n rest parts rule: tokenise_loop.induct)
  case (3 n c cs parts)
  show ?case
  proof (cases "match_style (c # cs)")
    case None
    with 3 show ?thesis by simp
  next
    case (Some m)
    obtain st len where m: "m = (st, len)" by (cases m)
    from match_style_bounds [OF Some [unfolded m]] 3(3) have "length (drop len (c # cs)) \<le> n" by auto
    from 3(2) [OF Some m [symmetric] this] show ?thesis
      by (simp only: tokenise_loop.simps Some m option.case prod.case)
         (simp only: map_append concat_append list.map concat.simps token_text.simps append_Nil2 append_assoc append_take_drop_id)
  qed
qed simp_all

text \<open>
  The block shows the code it is given, line by line, whatever the colours: as long as no line
  is longer than the 500 rounds of the loop.
\<close>

theorem highlight_keeps_text:
  assumes "\<forall>line \<in> set (split_on (CHR 0x0A) code). length line \<le> 500"
  shows "join_with [CHR 0x0A] (map line_text (BashHighlight code)) = code"
proof -
  have "map line_text (BashHighlight code) = split_on (CHR 0x0A) code"
    unfolding BashHighlight_def map_map
    by (rule map_idI) (use assms in \<open>auto simp: tokeniseBashLine_def tokenise_all\<close>)
  then show ?thesis by (simp add: join_split_on)
qed

lemma colours_of_a_call:
  "tokeniseBashLine ''curl -s $U'' = [Styled Command ''curl'', Plain '' '', Styled Flag ''-s '', Plain ''$U'']"
  by code_simp

text \<open>A longer line loses its end: in a line of plain letters, everything after the 500th.\<close>

lemma plain_run:
  "\<forall>k. match_style (replicate (Suc k) c) = None \<Longrightarrow>
   texts (tokenise_loop n (replicate m c) parts) = texts parts @ replicate (min n m) c"
proof (induction n arbitrary: m parts)
  case 0
  show ?case by (cases m) simp_all
next
  case (Suc n)
  show ?case
  proof (cases m)
    case (Suc k)
    have "match_style (c # replicate k c) = None" using Suc.prems by (metis replicate_Suc)
    with Suc.IH [OF Suc.prems, of k] Suc show ?thesis by simp
  qed simp
qed

lemma no_match_x: "match_style (replicate (Suc k) (CHR ''x'')) = None"
  by (simp add: match_style_def patterns_def match_command_def match_flag_def match_quoted_def match_address_def
      match_continuation_def first_match_def word_at_def starts_with_def)

lemma long_line_cut:
  assumes "500 \<le> n"
  shows "map line_text (BashHighlight (replicate n (CHR ''x''))) = [replicate 500 (CHR ''x'')]"
proof -
  have "split_on (CHR 0x0A) (replicate n (CHR ''x'')) = [replicate n (CHR ''x'')]"
    by (rule split_on_absent) simp
  moreover have "\<not> starts_with (js_trim_start (replicate n (CHR ''x''))) ''#''"
    by (cases n) (simp_all add: js_trim_start_def starts_with_def is_ws_def)
  moreover have "texts (tokeniseBashLine (replicate n (CHR ''x''))) = replicate 500 (CHR ''x'')"
    using plain_run [of "CHR ''x''" 500 n "[]"] no_match_x assms by (simp add: tokeniseBashLine_def)
  ultimately show ?thesis by (simp add: BashHighlight_def)
qed

section \<open>Signing out\<close>

lemma nav_locked_step: "nv_loading s \<Longrightarrow> NavActions e s = (s', as) \<Longrightarrow> nv_loading s' \<and> Post_logout \<notin> set as"
  by (cases "(e, s)" rule: nav_do.cases) (auto simp: NavActions_def split: if_splits)

text \<open>
  Once signing out has begun, no order of clicks, answers and sessions lets it happen again: the
  flag is never cleared, and the component stays while the user signs in anew.
\<close>

lemma signs_out_once: "nv_loading s \<Longrightarrow> Post_logout \<notin> set (snd (nav_run es s))"
proof (induction es arbitrary: s)
  case (Cons e es)
  obtain s1 as1 where st: "NavActions e s = (s1, as1)" by (cases "NavActions e s")
  from nav_locked_step [OF Cons.prems st] Cons.IH [of s1] show ?case by (auto simp: st split: prod.split)
qed simp

lemma second_sign_out_refused:
  "snd (nav_run [Toggle_menu, Click_logout, Logout_answer (Inr \<lparr> rs_status = 200, rs_headers = [], rs_body = [] \<rparr>),
     Refreshed None, Follow_link ''/auth/login'', Refreshed (Some u), Click_logout] (nav_start (Some u))) =
   [Post_logout, Push ''/'', Refresh_router, Push ''/auth/login'']"
  by (simp add: NavActions_def nav_start_def)

section \<open>Tabs\<close>

text \<open>Every tab shows something, and exactly the chosen one is marked.\<close>

lemma tabs_show: "t \<in> set DOC_TABS \<Longrightarrow> docs_tab X g t api methods \<noteq> Inr No_tab"
  by (auto simp: DOC_TABS_def docs_tab_def sum_bind_def split: sum.splits)

lemma one_tab_active: "t \<in> set DOC_TABS \<Longrightarrow> filter (tab_active (Some t)) DOC_TABS = [t]"
  by (auto simp: DOC_TABS_def tab_active_def orelse_def)

end
