(* ===== verification/SharedUtils.thy ===== *)
theory SharedUtils
  imports Host
begin

text \<open>
  \<open>packages/shared/utils/index.ts\<close>: the helpers of the shared package. The clock and the random
  numbers are those of the outside world; \<open>Math.random().toString(36)\<close> is taken as a text.
\<close>

definition generateRequestId :: "'d io \<Rightarrow> string \<times> 'd io" where
  "generateRequestId w =
     (let (now, w1) = date_now w; (r, w2) = fresh_random w1
      in (''req_'' @ show_int now @ ''_'' @ take 7 (drop 2 r), w2))"

definition isExpired :: "rat \<Rightarrow> 'd io \<Rightarrow> bool \<times> 'd io" where
  "isExpired expTimestamp w = (let (now, w1) = date_now w in (of_int now / 1000 > expTimestamp, w1))"

text \<open>\<open>s.slice(i)\<close>: a negative index counts from the end.\<close>

definition slice_from :: "int \<Rightarrow> string \<Rightarrow> string" where
  "slice_from i s = (if i < 0 then drop (nat (int (length s) + i)) s else drop (nat i) s)"

definition maskSensitiveField :: "string \<Rightarrow> int \<Rightarrow> string" where
  "maskSensitiveField v visibleChars =
     (if int (length v) \<le> visibleChars then ''***''
      else replicate (nat (int (length v) - visibleChars)) (CHR ''*'') @ slice_from (- visibleChars) v)"

record rate_limit_headers =
  rh_limit :: "int option"
  rh_remaining :: "int option"
  rh_reset :: "int option"
  rh_retryAfter :: "int option option"

text \<open>\<open>parseInt\<close> gives \<open>NaN\<close> (\<open>None\<close>) for what is no number; \<open>retryAfter\<close> may be missing altogether.\<close>

definition parseRateLimitHeaders :: "dict \<Rightarrow> rate_limit_headers" where
  "parseRateLimitHeaders headers =
     \<lparr> rh_limit = parse_int (orelse (rget headers ''x-ratelimit-limit'') ''0''),
       rh_remaining = parse_int (orelse (rget headers ''x-ratelimit-remaining'') ''0''),
       rh_reset = parse_int (orelse (rget headers ''x-ratelimit-reset'') ''0''),
       rh_retryAfter = (if truthy (rget headers ''retry-after'')
         then Some (parse_int (str_of (rget headers ''retry-after''))) else None) \<rparr>"

text \<open>\<open>Math.floor(now / windowMs)\<close> as a text; a division by zero gives an infinity or \<open>NaN\<close>.\<close>

definition window_text :: "int \<Rightarrow> int \<Rightarrow> string" where
  "window_text now windowMs =
     (if windowMs = 0 then (if now = 0 then ''NaN'' else if now > 0 then ''Infinity'' else ''-Infinity'')
      else show_int (now div windowMs))"

definition buildRateLimitKey :: "string \<Rightarrow> string \<Rightarrow> string \<Rightarrow> int \<Rightarrow> 'd io \<Rightarrow> string \<times> 'd io" where
  "buildRateLimitKey strategy v apiId windowMs w =
     (let (now, w1) = date_now w
      in (''rl:'' @ strategy @ '':'' @ v @ '':'' @ apiId @ '':'' @ window_text now windowMs, w1))"

section \<open>What the helpers do\<close>

text \<open>A mask keeps the length and shows exactly the last characters asked for.\<close>

lemma mask_shows_end:
  assumes "0 < n" and "n < int (length v)"
  shows "maskSensitiveField v n = replicate (length v - nat n) (CHR ''*'') @ drop (length v - nat n) v"
    and "length (maskSensitiveField v n) = length v"
  using assms by (simp_all add: maskSensitiveField_def slice_from_def nat_diff_distrib)

text \<open>Asked to show nothing it shows everything: \<open>slice(-0)\<close> is the whole text.\<close>

lemma mask_zero_shows_all: "v \<noteq> [] \<Longrightarrow> maskSensitiveField v 0 = replicate (length v) (CHR ''*'') @ v"
  by (simp add: maskSensitiveField_def slice_from_def)

text \<open>Two requests of one client share a key exactly if they fall into the same window.\<close>

lemma same_key_iff_same_window:
  assumes "0 < windowMs"
  shows "fst (buildRateLimitKey strategy v apiId windowMs w) = fst (buildRateLimitKey strategy v apiId windowMs w') \<longleftrightarrow>
    io_clock w 0 div windowMs = io_clock w' 0 div windowMs"
  using assms by (simp add: buildRateLimitKey_def date_now_def window_text_def show_int_inj)

text \<open>But values that contain the separator can share a key with others.\<close>

lemma key_shared_by_separator:
  "fst (buildRateLimitKey ''client_id'' ''a:b'' ''c'' 1000 w) = fst (buildRateLimitKey ''client_id'' ''a'' ''b:c'' 1000 w)"
  by (simp add: buildRateLimitKey_def date_now_def)

end
