(* ===== verification/Spec2Isabelle.thy ===== *)
theory Spec2Isabelle
  imports ServerProps LegacyPlugins StudioDeploy AuditSink NotifyProps AnalyticsProps AnalyticsCounters BffProps BffTypes
    PortalProps PortalPagesProps PortalDocsProps StudioForms StudioCanvas
    StudioEditorProps BffServerProps PortalWidgetsProps SharedUtils
begin

text \<open>
  A verification library for xCloudAPIM, an API management platform: the gateway that every
  API call passes (\<open>src/gateway\<close>), the GraphQL backend of its user interfaces
  (\<open>src/manager/bff\<close>), the policy editor (\<open>src/studio\<close>), the developer portal
  (\<open>src/portal\<close>) and three of the services behind them (\<open>src/manager/services\<close>). Only TypeScript is modelled; the Go services are met as HTTP
  endpoints.

  \<^bold>\<open>How the parts interact.\<close> The gateway's handler looks up the route of a request, checks the
  upstream's address against the SSRF guard, runs the policies of the route's API for the
  phase before the request, proxies the request and runs the policies of the phase after the
  response. The policies come from the policy engine as a chain; the editor shows and changes
  that chain through the BFF. Plugins keep their state in Redis, which several gateways share.
  The other resolvers of the BFF translate between the GraphQL schema and the auth, registry and
  subscription services. Audit events, notifications and the gateway's API events travel through
  Kafka; the analytics service keeps the API events, their hourly and daily buckets in MongoDB
  and short-lived counters in Redis, and answers summaries from them. The portal signs its users in
  at the auth service, keeps the answer in a signed cookie and sends their GraphQL requests to the
  BFF with the token in it.

  \<^bold>\<open>Theories, their sources under src/ and their definitions.\<close>

    \<^item> \<open>Prelude\<close>, \<open>JsNumber\<close>: JavaScript's strings, dictionaries, sorting, numbers and 32-bit
      operations. \<open>Host\<close>: what the platform answers, as a record of functions (\<open>ext\<close>: hashes,
      JSON text, URLs) and a world (\<open>io\<close>: Redis, clocks, network, resolver, random numbers);
      the Redis commands as the locale \<open>redis_server\<close>, interpreted on a dataset with expiry.
    \<^item> \<open>ExecTypes\<close>, \<open>Fetch\<close>: \<open>pipeline/types.ts\<close>, \<open>config/index.ts\<close>, \<open>mtls.ts\<close>,
      \<open>plugins/internal-token.ts\<close>. \<open>Memo\<close>: a cache with a time to live, as the locale
      \<open>ttl_memo\<close> that the SSRF guard, the plan limits and the chain cache interpret.
    \<^item> \<open>RouteTable\<close>: \<open>proxy/route-table.ts\<close>. \<open>Ipv4\<close>, \<open>SsrfGuard\<close>: \<open>proxy/ssrf-guard.ts\<close>.
      \<open>Upstream\<close>: \<open>proxy/upstream.ts\<close>.
    \<^item> The plugins of \<open>pipeline/plugins\<close>: \<open>IpWhitelist\<close>, \<open>Cors\<close>, \<open>CachePlugin\<close>,
      \<open>CircuitBreaker\<close>; \<open>RateScripts\<close> (the Lua scripts) and \<open>RateLimit\<close>; \<open>AuthClaims\<close>,
      \<open>AuthMethods\<close>, \<open>Auth\<close> with the properties in \<open>AuthSound\<close> and \<open>AuthKeys\<close>;
      \<open>TransformText\<close>, \<open>TransformJson\<close>, \<open>Transform\<close> with the refinement in \<open>TransformFlat\<close>;
      \<open>LegacyPlugins\<close> (the first versions that are still in the tree).
    \<^item> \<open>Executor\<close>, \<open>ExecutorProps\<close>: \<open>pipeline/executor.ts\<close>. \<open>Server\<close>, \<open>ServerProps\<close>:
      \<open>server.ts\<close> and \<open>middleware/request-id.ts\<close>, the composition of everything above;
      \<open>ServiceCalls\<close>: whom the plugins and phases of the gateway call, step by step.
    \<^item> \<open>DepthLimit\<close>: \<open>bff/src/plugins/depth-limit.ts\<close>. \<open>BffClient\<close>: \<open>bff/src/http/client.ts\<close>,
      \<open>context.ts\<close>, \<open>resolvers/helpers.ts\<close>.
    \<^item> \<open>StudioTypes\<close>, \<open>StudioStore\<close>, \<open>StudioProps\<close>: \<open>studio/src/types/policy.ts\<close> and
      \<open>stores/studio.ts\<close>. \<open>StudioDeploy\<close>: \<open>pages/Editor.tsx\<close> (loading and publishing),
      \<open>bff/src/resolvers/policy.ts\<close>, \<open>datasources/policy-api.ts\<close> and the schema between them,
      composed with the gateway's executor.
    \<^item> \<open>AuditSink\<close>: \<open>audit-sink/src\<close>, its transactions as steps of concurrent consumers.
      \<open>NotifyChannels\<close>, \<open>NotifyDispatch\<close>, \<open>NotifyProps\<close>: \<open>notification/src\<close>.
    \<^item> \<open>JsObject\<close>: the order of an object's members, and picks from JSON objects. \<open>Analytics\<close>:
      \<open>analytics/src\<close> (ingestion, buckets, counters, summaries, routes). \<open>Views\<close>: tables kept
      beside a log, as the locales \<open>materialised\<close> and \<open>materialised_total\<close>; interpreted on the
      buckets in \<open>AnalyticsProps\<close>. \<open>AnalyticsCounters\<close>: the realtime counters.
    \<^item> \<open>BffData\<close>, \<open>BffSubscriptions\<close>: \<open>bff/src/datasources\<close> and the mappers of their answers.
      \<open>BffResolvers\<close>: \<open>resolvers/{user,api,subscription}.ts\<close> and the loaders of \<open>context.ts\<close>, with
      the properties in \<open>BffProps\<close>. \<open>BffTypes\<close>: object types of \<open>schema/typeDefs.ts\<close> and the values
      that inhabit them.
    \<^item> \<open>StudioPanels\<close>: \<open>studio/src/components/panels\<close>, \<open>components/flow\<close> and \<open>pages/Dashboard.tsx\<close>:
      what the panels show and what their controls do to the store. \<open>StudioForms\<close>: the forms
      against the gateway's plugins. \<open>StudioCanvas\<close>: canvas, counts and preview.
    \<^item> \<open>StudioEditor\<close>: \<open>pages/Editor.tsx\<close> as a page among asynchronous answers, a function of events
      and states with the runs as the inductive \<open>editor_reaches\<close>. \<open>StudioEditorProps\<close>: its invariants by
      the locale \<open>editor_invariant\<close>, what becomes of edits, and \<open>handleDeploy\<close> as its uninterrupted case.
    \<^item> \<open>BffServer\<close>: \<open>bff/src/server.ts\<close> and the rest of \<open>context.ts\<close>, which put the user, the limits and
      all resolvers together; the key set is one more \<open>ttl_memo\<close>. \<open>BffServerProps\<close>: which calls it makes.
    \<^item> \<open>SharedUtils\<close>: \<open>packages/shared/utils\<close>.
    \<^item> \<open>Portal\<close>: \<open>portal/src/lib/auth.ts\<close>, \<open>middleware.ts\<close>, the routes under \<open>app/api/auth\<close>,
      \<open>app/graphql\<close> and \<open>app/api/spec\<close>, and the two forms of \<open>components/auth\<close>. \<open>PortalProps\<close>: its
      runs, and its composition with the BFF's \<open>context.ts\<close>.
    \<^item> \<open>Schema\<close>: all object types and the root fields of \<open>schema/typeDefs.ts\<close>, when a document is
      valid and what an answer to it looks like. \<open>Documents\<close>: the queries and mutations of the portal
      and of the editor, against the schema and the limits.
    \<^item> \<open>PortalPages\<close>: the pages under \<open>portal/src/app\<close> and their cards, as functions of the session
      and of a client that answers. \<open>PortalActions\<close>: the buttons that change something, as the locale
      \<open>single_flight\<close> and its four interpretations. \<open>PortalPagesProps\<close>: both, for every client that
      answers by the schema. \<open>PortalDocs\<close>, \<open>PortalDocsProps\<close>: the documentation that the portal makes
      of a chain, and the examples, against the gateway. \<open>PortalWidgets\<close>, \<open>PortalWidgetsProps\<close>: code
      blocks, tabs, the menu of the user and the viewer of specifications.

  \<^bold>\<open>State.\<close> A record of the source is a record with the fields of the source under a short
  prefix; a union of strings a datatype or a string; a \<open>Map\<close> or an object used as a dictionary
  an association list. Handlers take and return the state they change; exceptions are the
  left values of a sum. Objects that the JSON operations alias live in an explicit store.

  \<^bold>\<open>What the groups of lemmas show.\<close> Safety of the request path (\<open>protected_api\<close>,
  \<open>upstream_only_if_admitted\<close>, the soundness of every authentication method, the SSRF guard);
  references that the Redis scripts decide alike (sliding window, fixed window, token bucket)
  and their bounds, each under the assumption on the gateways' clocks that its statement names; refinements (route table deltas as map updates, JSON operations as
  dictionary updates, concurrent audit appends as a serial log); invariants and provenance
  of caches; round trips through Redis; the state machine of the circuit breaker; exact
  behaviour of retries, limits and reordering; agreement of the editor with the executor;
  buckets and summaries that are the groups and totals of the events they came from; resolvers
  whose results have the types of the schema and whose requests bear the caller's name; the origin
  of every bearer token of the portal, as an invariant of its runs, and the end of its redirects;
  the defaults that the editor shows against those the gateway runs with; the documents that the
  schema and the limits accept, the pages that render whatever is answered, and the documented
  methods as those that the gateway accepts; the calls of the BFF as a whole, from the origin of a
  request to the services; the runs of the editor's page, in which chains stay with their API,
  edits survive what fails, and the button deploys once at a time.
  Some theorems state behaviour that the code does not want: they are the evidence for the
  findings of the manifest (a published chain is refused, a half-open breaker stays half-open, a
  cached body is lost, a signed request can be replayed, the catalogue never shows an API).

  \<^bold>\<open>Bounds and fuel.\<close> The recursion of the depth limit ends because a fragment is entered only
  once on a path; retries count down the configured number; printing a value of the JSON
  store has the number of its cells as fuel, which every acyclic value needs at most, and a
  value that needs more is cyclic and fails to print as in the source; the colours of a line of
  code have the 500 rounds that the source itself allows. No other recursion needs fuel. 
  The token bucket computes in doubles: every product, quotient and difference that may lose a
  bit is rounded by \<open>x_double\<close>, of which \<open>lua_doubles\<close> states what the standard of the doubles
  gives. Elsewhere (prices in cents, averages) numbers are exact where the source computes with doubles.

  \<^bold>\<open>Not modelled.\<close> Process start-up, configuration parsing, logging, metrics and tracing (no
  decisions of their own); the indexes and the expiry of the analytics documents; the coercion
  of GraphQL arguments, the shaping of results and the batching inside DataLoader (libraries; the
  resolvers of a request run in one order); the markup of React and Next.js components; the Go services;
  the JavaScript prototype chain, except that an assignment to \<open>__proto__\<close> adds no member (a path
  that leads through it to \<open>Object.prototype\<close> is outside the store); members of notification messages
  that are not of the declared type, except the list of channels; timeouts other than as rejections of the network.
\<close>

end
